(* ===== verification/Screening_Prelude.thy ===== *)
theory Screening_Prelude
  imports Complex_Main "HOL-Library.AList" "HOL-Library.Multiset" "HOL-Library.Char_ord"
    "HOL-Library.List_Lexorder" "HOL-Library.Product_Lexorder"
begin

text \<open>
  The prelude of the development: the exceptions and dynamic values of the Python code, its
  rounding rules, ordered de-duplication, and the list form of a database table with the two
  statements the code issues against it (an update of the rows that satisfy a condition, a count
  of them). The lemmas on tables and on stable sorting are shared by every component.
\<close>

section \<open>Exceptions and dynamic values\<close>

text \<open>The exceptions the code raises, with the text or code that tells them apart.\<close>

datatype py_exn =
    ValueError string
  | PermissionError string
  | RuntimeError string
  | TypeError string
  | KeyError string
  | NoResultFound
  | IntegrityError
  | HTTPException nat string
  | TimeoutError
  | OperationalError
  | ArchiveLimitError string
  | OtherException string

type_synonym 'a result = "py_exn + 'a"

text \<open>
  The values of JSON columns and of the dictionaries the code passes around. Python's \<open>bool\<close> is an
  \<open>int\<close> as well (\<open>isinstance(True, int)\<close> holds and \<open>True == 1\<close>), and a float may be infinite or not
  a number. A dictionary keeps its keys in insertion order.
\<close>

datatype json = JNull | JBool bool | JNum rat | JNonFinite | JStr string
  | JList "json list" | JDict "(string \<times> json) list"

type_synonym pydict = "(string \<times> json) list"

fun is_number :: "json \<Rightarrow> bool" where
  "is_number (JNum _) = True"
| "is_number JNonFinite = True"
| "is_number (JBool _) = True"
| "is_number _ = False"

fun is_bool :: "json \<Rightarrow> bool" where
  "is_bool (JBool _) = True"
| "is_bool _ = False"

fun is_finite :: "json \<Rightarrow> bool" where
  "is_finite (JNum _) = True"
| "is_finite (JBool _) = True"
| "is_finite _ = False"

fun num_of :: "json \<Rightarrow> rat" where
  "num_of (JNum x) = x"
| "num_of (JBool b) = of_bool b"
| "num_of _ = 0"

fun str_of :: "json \<Rightarrow> string" where
  "str_of (JStr s) = s"
| "str_of (JBool b) = (if b then ''True'' else ''False'')"
| "str_of _ = ''None''"

text \<open>Truth of a value, as in \<open>x or default\<close> and \<open>if not x\<close>.\<close>

fun truthy :: "json \<Rightarrow> bool" where
  "truthy JNull = False"
| "truthy (JBool b) = b"
| "truthy (JNum x) = (x \<noteq> 0)"
| "truthy JNonFinite = True"
| "truthy (JStr s) = (s \<noteq> [])"
| "truthy (JList xs) = (xs \<noteq> [])"
| "truthy (JDict d) = (d \<noteq> [])"

fun as_dict :: "json \<Rightarrow> pydict" where
  "as_dict (JDict d) = d"
| "as_dict _ = []"

fun as_list :: "json \<Rightarrow> json list" where
  "as_list (JList xs) = xs"
| "as_list _ = []"

text \<open>\<open>d.get(k, x)\<close>, \<open>d[k]\<close>, \<open>d | {k: v}\<close> and \<open>{**d, **e}\<close>.\<close>

definition dget :: "pydict \<Rightarrow> string \<Rightarrow> json \<Rightarrow> json" where
  "dget d k x = (case map_of d k of None \<Rightarrow> x | Some v \<Rightarrow> v)"

definition dindex :: "pydict \<Rightarrow> string \<Rightarrow> json result" where
  "dindex d k = (case map_of d k of None \<Rightarrow> Inl (KeyError k) | Some v \<Rightarrow> Inr v)"

definition dset :: "string \<Rightarrow> json \<Rightarrow> pydict \<Rightarrow> pydict" where
  "dset k v d = AList.update k v d"

definition dmerge :: "pydict \<Rightarrow> pydict \<Rightarrow> pydict" where
  "dmerge d e = fold (\<lambda>(k, v). dset k v) e d"

lemma map_of_dset [simp]: "map_of (dset k v d) = (map_of d)(k \<mapsto> v)"
  by (simp add: dset_def update_conv')

lemma dget_dset [simp]: "dget (dset k v d) k' x = (if k' = k then v else dget d k' x)"
  by (simp add: dget_def)

lemma dget_Nil [simp]: "dget [] k x = x"
  by (simp add: dget_def)

lemma dmerge_Nil [simp]: "dmerge d [] = d"
  by (simp add: dmerge_def)

lemma dmerge_Cons [simp]: "dmerge d ((k, v) # e) = dmerge (dset k v d) e"
  by (simp add: dmerge_def)

lemma dget_not_key: "k \<notin> fst ` set d \<Longrightarrow> dget d k x = x"
  by (simp add: dget_def map_of_eq_None_iff [THEN iffD2])

text \<open>Equality of Python values ignores the order of a dictionary's keys, and identifies 1 and True.\<close>

primrec json_norm :: "json \<Rightarrow> json" where
  "json_norm JNull = JNull"
| "json_norm (JBool b) = JNum (of_bool b)"
| "json_norm (JNum x) = JNum x"
| "json_norm JNonFinite = JNonFinite"
| "json_norm (JStr s) = JStr s"
| "json_norm (JList xs) = JList (map json_norm xs)"
| "json_norm (JDict d) = JDict (sort_key fst (map (map_prod id json_norm) d))"

definition json_eq :: "json \<Rightarrow> json \<Rightarrow> bool" where
  "json_eq a b = (json_norm a = json_norm b)"

lemma json_eq_refl [simp]: "json_eq a a"
  by (simp add: json_eq_def)

fun opt_str :: "string option \<Rightarrow> json" where
  "opt_str None = JNull" | "opt_str (Some s) = JStr s"

fun opt_num :: "rat option \<Rightarrow> json" where
  "opt_num None = JNull" | "opt_num (Some x) = JNum x"

text \<open>\<open>str.lower()\<close> on ASCII text.\<close>

definition lower_char :: "char \<Rightarrow> char" where
  "lower_char c = (let n = of_char c :: nat in if 65 \<le> n \<and> n \<le> 90 then char_of (n + 32) else c)"

definition lower :: "string \<Rightarrow> string" where
  "lower s = map lower_char s"

lemma length_lower [simp]: "length (lower s) = length s"
  by (simp add: lower_def)

text \<open>A number in an f-string.\<close>

definition digit :: "nat \<Rightarrow> char" where
  "digit n = char_of (48 + n)"

fun show_nat :: "nat \<Rightarrow> string" where
  "show_nat n = (if n < 10 then [digit n] else show_nat (n div 10) @ [digit (n mod 10)])"

declare show_nat.simps [simp del]

text \<open>\<open>s.split(c)\<close> for one character, which never returns an empty list.\<close>

fun split_char :: "char \<Rightarrow> string \<Rightarrow> string list" where
  "split_char c [] = [[]]"
| "split_char c (d # s) = (if d = c then [] # split_char c s
     else (case split_char c s of [] \<Rightarrow> [[d]] | w # ws \<Rightarrow> (d # w) # ws))"

lemma split_char_not_Nil [simp]: "split_char c s \<noteq> []"
  by (induction s) (auto split: list.splits)

lemma split_char_no_sep: "w \<in> set (split_char c s) \<Longrightarrow> c \<notin> set w"
  by (induction s arbitrary: w) (auto split: if_splits list.splits)

lemma set_split_char: "w \<in> set (split_char c s) \<Longrightarrow> set w \<subseteq> set s"
  by (induction s arbitrary: w) (fastforce split: if_splits list.splits)+

text \<open>The error monad of the code's calls: an exception skips the rest.\<close>

definition rbind :: "'a result \<Rightarrow> ('a \<Rightarrow> 'b result) \<Rightarrow> 'b result" where
  "rbind r f = (case r of Inl e \<Rightarrow> Inl e | Inr x \<Rightarrow> f x)"

lemma rbind_simps [simp]: "rbind (Inl e) f = Inl e" "rbind (Inr x) f = f x"
  by (simp_all add: rbind_def)

lemma rbind_Inr_conv: "rbind r f = Inr y \<longleftrightarrow> (\<exists>x. r = Inr x \<and> f x = Inr y)"
  by (cases r) auto

fun rmap :: "('a \<Rightarrow> 'b result) \<Rightarrow> 'a list \<Rightarrow> 'b list result" where
  "rmap f [] = Inr []"
| "rmap f (x # xs) = rbind (f x) (\<lambda>y. rbind (rmap f xs) (\<lambda>ys. Inr (y # ys)))"

lemma rmap_Inr_iff: "rmap f xs = Inr ys \<longleftrightarrow> list_all2 (\<lambda>x y. f x = Inr y) xs ys"
  by (induction xs arbitrary: ys) (auto simp: rbind_Inr_conv list_all2_Cons1)

definition is_error :: "'e + 'a \<Rightarrow> bool" where
  "is_error r = (case r of Inl _ \<Rightarrow> True | Inr _ \<Rightarrow> False)"

lemma is_error_simps [simp]: "is_error (Inl e)" "\<not> is_error (Inr x)"
  by (simp_all add: is_error_def)

section \<open>Rounding\<close>

text \<open>
  \<open>round(x, n)\<close> rounds to \<open>n\<close> decimals, ties to the even digit; the decimal module's
  \<open>ROUND_HALF_UP\<close> rounds ties away from zero.
\<close>

definition round_half_even :: "rat \<Rightarrow> int" where
  "round_half_even x = (let f = \<lfloor>x\<rfloor>; d = x - of_int f in
     if d < 1 / 2 then f else if 1 / 2 < d then f + 1 else if even f then f else f + 1)"

definition py_round :: "nat \<Rightarrow> rat \<Rightarrow> rat" where
  "py_round n x = of_int (round_half_even (x * 10 ^ n)) / 10 ^ n"

definition quantize_half_up :: "nat \<Rightarrow> rat \<Rightarrow> rat" where
  "quantize_half_up n x = sgn x * (of_int \<lfloor>\<bar>x\<bar> * 10 ^ n + 1 / 2\<rfloor> / 10 ^ n)"

lemma round_half_even_near: "\<bar>of_int (round_half_even x) - x\<bar> \<le> 1 / 2"
proof -
  have lo: "of_int \<lfloor>x\<rfloor> \<le> x" and hi: "x < of_int \<lfloor>x\<rfloor> + 1" by linarith+
  define d where "d = x - of_int \<lfloor>x\<rfloor>"
  have d: "0 \<le> d" "d < 1" using lo hi by (simp_all add: d_def)
  have x: "x = of_int \<lfloor>x\<rfloor> + d" by (simp add: d_def)
  consider "round_half_even x = \<lfloor>x\<rfloor>" "d \<le> 1 / 2" | "round_half_even x = \<lfloor>x\<rfloor> + 1" "1 / 2 \<le> d"
  proof (cases "d < 1 / 2 \<or> d = 1 / 2 \<and> even \<lfloor>x\<rfloor>")
    case True
    then have "round_half_even x = \<lfloor>x\<rfloor>" "d \<le> 1 / 2"
      by (auto simp: round_half_even_def Let_def d_def)
    then show ?thesis by (rule that(1))
  next
    case False
    then have "round_half_even x = \<lfloor>x\<rfloor> + 1" "1 / 2 \<le> d"
      by (auto simp: round_half_even_def Let_def d_def)
    then show ?thesis by (rule that(2))
  qed
  then show ?thesis
  proof cases
    case 1
    then have "of_int (round_half_even x) - x = - d" using x by simp
    then show ?thesis using d 1 by simp
  next
    case 2
    then have "of_int (round_half_even x) - x = 1 - d" using x by simp
    then show ?thesis using d 2 by simp
  qed
qed

lemma round_half_even_of_int [simp]: "round_half_even (of_int k) = k"
  by (simp add: round_half_even_def Let_def)

lemma quantize_half_up_nonneg: "0 \<le> x \<Longrightarrow> 0 \<le> quantize_half_up n x"
  by (auto simp: quantize_half_up_def sgn_if)

lemma quantize_half_up_mono:
  assumes "0 \<le> x" "x \<le> y"
  shows "quantize_half_up n x \<le> quantize_half_up n y"
proof (cases "x = 0")
  case True
  then show ?thesis using assms by (auto simp: quantize_half_up_def sgn_if)
next
  case False
  have "\<lfloor>x * 10 ^ n + 1 / 2\<rfloor> \<le> \<lfloor>y * 10 ^ n + 1 / 2\<rfloor>"
    using assms by (intro floor_mono) (simp add: mult_right_mono)
  then show ?thesis using assms False
    by (auto simp: quantize_half_up_def sgn_if divide_right_mono)
qed

section \<open>Ordered de-duplication\<close>

text \<open>\<open>list(dict.fromkeys(xs))\<close> keeps the first occurrence of every element.\<close>

fun dict_fromkeys :: "'a list \<Rightarrow> 'a list" where
  "dict_fromkeys [] = []"
| "dict_fromkeys (x # xs) = x # filter (\<lambda>y. y \<noteq> x) (dict_fromkeys xs)"

lemma set_dict_fromkeys [simp]: "set (dict_fromkeys xs) = set xs"
  by (induction xs) auto

lemma distinct_dict_fromkeys [simp]: "distinct (dict_fromkeys xs)"
  by (induction xs) auto

lemma dict_fromkeys_id: "distinct xs \<Longrightarrow> dict_fromkeys xs = xs"
  by (induction xs) (auto intro: filter_True)

section \<open>Tables\<close>

lemma find_append: "find P (xs @ ys) = (case find P xs of None \<Rightarrow> find P ys | Some x \<Rightarrow> Some x)"
  by (induction xs) auto

text \<open>A table is the list of its rows; an \<open>UPDATE ... WHERE\<close> keeps their order.\<close>

definition update_where :: "('r \<Rightarrow> bool) \<Rightarrow> ('r \<Rightarrow> 'r) \<Rightarrow> 'r list \<Rightarrow> 'r list" where
  "update_where P f rows = map (\<lambda>r. if P r then f r else r) rows"

definition count_where :: "('r \<Rightarrow> bool) \<Rightarrow> 'r list \<Rightarrow> nat" where
  "count_where P rows = length (filter P rows)"

named_theorems table_simps "rules for updates and counts on tables"

lemma update_where_Nil [simp]: "update_where P f [] = []"
  by (simp add: update_where_def)

lemma update_where_Cons [simp]:
  "update_where P f (r # rs) = (if P r then f r else r) # update_where P f rs"
  by (simp add: update_where_def)

lemma length_update_where [simp]: "length (update_where P f rows) = length rows"
  by (simp add: update_where_def)

lemma in_update_where:
  "r \<in> set (update_where P f rows) \<longleftrightarrow> (\<exists>q\<in>set rows. r = (if P q then f q else q))"
  by (auto simp: update_where_def)

lemma in_update_whereI: "q \<in> set rows \<Longrightarrow> (if P q then f q else q) \<in> set (update_where P f rows)"
  by (auto simp: in_update_where)

lemma update_where_cases:
  assumes "r \<in> set (update_where P f rows)"
  obtains (changed) q where "q \<in> set rows" "P q" "r = f q"
    | (kept) "r \<in> set rows" "\<not> P r"
  using assms by (auto simp: in_update_where split: if_splits)

lemma update_where_False: "(\<And>r. r \<in> set rows \<Longrightarrow> \<not> P r) \<Longrightarrow> update_where P f rows = rows"
  by (induction rows) auto

lemma map_update_where_key [table_simps]:
  "(\<And>r. k (f r) = k r) \<Longrightarrow> map k (update_where P f rows) = map k rows"
  by (simp add: update_where_def)

lemma count_where_Nil [simp]: "count_where P [] = 0"
  by (simp add: count_where_def)

lemma count_where_Cons [simp]:
  "count_where P (r # rs) = (if P r then Suc (count_where P rs) else count_where P rs)"
  by (simp add: count_where_def)

lemma count_where_append [simp]: "count_where P (xs @ ys) = count_where P xs + count_where P ys"
  by (simp add: count_where_def)

lemma count_where_le_length: "count_where P rows \<le> length rows"
  by (simp add: count_where_def)

lemma count_where_zero: "count_where P rows = 0 \<longleftrightarrow> (\<forall>r\<in>set rows. \<not> P r)"
  by (auto simp: count_where_def filter_empty_conv)

lemma count_where_mono:
  "(\<And>r. r \<in> set rows \<Longrightarrow> P r \<Longrightarrow> Q r) \<Longrightarrow> count_where P rows \<le> count_where Q rows"
  by (induction rows) (auto simp: le_SucI)

lemma count_where_cong:
  "(\<And>r. r \<in> set rows \<Longrightarrow> P r = Q r) \<Longrightarrow> count_where P rows = count_where Q rows"
  by (induction rows) auto

lemma concat_map_if: "concat (map (\<lambda>v. if P v then [f v] else []) vs) = map f (filter P vs)"
  by (induction vs) auto

text \<open>A join on a key of the joined table meets every row at most once.\<close>

lemma distinct_join:
  assumes "distinct (map k xs)" "\<And>x. length (g x) \<le> 1"
  shows "distinct (map (\<lambda>z. k (fst z)) (concat (map (\<lambda>x. map (Pair x) (g x)) xs)))"
  using assms(1)
proof (induction xs)
  case (Cons x xs)
  have "g x = [] \<or> (\<exists>y. g x = [y])" using assms(2) [of x] by (cases "g x") auto
  then show ?case using Cons by (auto simp: image_iff)
qed simp

lemma count_update:
  "count_where Q (update_where P f rows) = count_where (\<lambda>r. Q (if P r then f r else r)) rows"
  by (induction rows) auto

lemma count_update_le:
  \<comment> \<open>an update adds at most one counted row for each row it touches\<close>
  "count_where Q (update_where P f rows) \<le> count_where Q rows + count_where P rows"
  by (induction rows) auto

lemma count_update_same [table_simps]:
  "(\<And>r. r \<in> set rows \<Longrightarrow> P r \<Longrightarrow> Q (f r) = Q r) \<Longrightarrow>
     count_where Q (update_where P f rows) = count_where Q rows"
  by (induction rows) auto

lemma count_update_mono:
  "(\<And>r. r \<in> set rows \<Longrightarrow> P r \<Longrightarrow> Q (f r) \<Longrightarrow> Q r) \<Longrightarrow>
     count_where Q (update_where P f rows) \<le> count_where Q rows"
  by (induction rows) (auto simp: le_SucI)

lemma count_where_key_le:
  \<comment> \<open>rows with distinct keys: those whose key is listed number at most the list\<close>
  assumes "distinct (map k rows)"
  shows "count_where (\<lambda>r. k r \<in> set ks) rows \<le> length ks"
proof -
  let ?rs = "filter (\<lambda>r. k r \<in> set ks) rows"
  have "distinct (map k ?rs)" using assms by (rule distinct_map_filter)
  then have "count_where (\<lambda>r. k r \<in> set ks) rows = card (set (map k ?rs))"
    unfolding count_where_def using distinct_card [of "map k ?rs"] by simp
  also have "\<dots> \<le> card (set ks)" by (intro card_mono) auto
  also have "\<dots> \<le> length ks" by (rule card_length)
  finally show ?thesis .
qed

lemma count_where_all: "(\<And>r. r \<in> set rows \<Longrightarrow> P r) \<Longrightarrow> count_where P rows = length rows"
  by (induction rows) auto

lemma sum_of_bool_eq: "distinct ks \<Longrightarrow> (\<Sum>x\<leftarrow>ks. of_bool (a = x)) = (of_bool (a \<in> set ks) :: nat)"
  by (induction ks) auto

lemma sum_count_by_key:
  assumes "distinct ks"
  shows "(\<Sum>x\<leftarrow>ks. count_where (\<lambda>r. k r = x) rows) = count_where (\<lambda>r. k r \<in> set ks) rows"
proof (induction rows)
  case (Cons r rows)
  have "(\<Sum>x\<leftarrow>ks. count_where (\<lambda>q. k q = x) (r # rows)) =
      (\<Sum>x\<leftarrow>ks. of_bool (k r = x) + count_where (\<lambda>q. k q = x) rows)"
    by (intro arg_cong [where f = sum_list] map_cong) auto
  also have "\<dots> = of_bool (k r \<in> set ks) + count_where (\<lambda>r. k r \<in> set ks) rows"
    using Cons by (simp add: sum_list_addf sum_of_bool_eq [OF assms] del: of_bool_eq_iff)
  finally show ?case by simp
qed simp

section \<open>Stable sorting\<close>

text \<open>Python's \<open>sorted\<close> is stable, as \<open>sort_key\<close> is.\<close>

lemma sort_key_nth_mono:
  "i \<le> j \<Longrightarrow> j < length xs \<Longrightarrow> k (sort_key k xs ! i) \<le> k (sort_key k xs ! j)"
  using sorted_nth_mono [of "map k (sort_key k xs)" i j] by simp

lemma sorted_take_drop_le:
  assumes "sorted (map k xs)" "x \<in> set (take n xs)" "y \<in> set (drop n xs)"
  shows "k x \<le> k y"
proof -
  have "sorted (map k (take n xs) @ map k (drop n xs))"
    using assms(1) by (simp flip: map_append)
  then show ?thesis using assms(2,3) by (auto simp: sorted_append)
qed

text \<open>\<open>sorted(xs, key=f)\<close> evaluates every key first, so a key that raises stops the sort.\<close>

definition sorted_by :: "('a \<Rightarrow> ('k::linorder) result) \<Rightarrow> 'a list \<Rightarrow> 'a list result" where
  "sorted_by f xs = rbind (rmap f xs) (\<lambda>ks. Inr (map snd (sort_key fst (zip ks xs))))"

lemma insort_key_map: "map g (insort_key (\<lambda>x. f (g x)) x xs) = insort_key f (g x) (map g xs)"
  by (induction xs) auto

lemma sort_key_map: "map g (sort_key (\<lambda>x. f (g x)) xs) = sort_key f (map g xs)"
  by (induction xs) (simp_all add: insort_key_map)

lemma insort_key_cong:
  "(\<And>y. y \<in> insert x (set xs) \<Longrightarrow> f y = g y) \<Longrightarrow> insort_key f x xs = insort_key g x xs"
  by (induction xs) auto

lemma sort_key_cong_on: "(\<And>x. x \<in> set xs \<Longrightarrow> f x = g x) \<Longrightarrow> sort_key f xs = sort_key g xs"
  by (induction xs) (auto intro!: insort_key_cong)

lemma rmap_Inr_map: "(\<And>x. x \<in> set xs \<Longrightarrow> f x = Inr (k x)) \<Longrightarrow> rmap f xs = Inr (map k xs)"
  by (induction xs) auto

lemma rmap_ok: "rmap f xs = Inr ys \<Longrightarrow> x \<in> set xs \<Longrightarrow> \<exists>y. f x = Inr y"
  by (induction xs arbitrary: ys) (auto simp: rbind_Inr_conv)

lemma sorted_by_total:
  assumes "\<And>x. x \<in> set xs \<Longrightarrow> f x = Inr (k x)"
  shows "sorted_by f xs = Inr (sort_key k xs)"
proof -
  have "map snd (sort_key fst (zip (map k xs) xs)) = map snd (sort_key (\<lambda>z. k (snd z)) (zip (map k xs) xs))"
    by (intro arg_cong [where f = "map snd"] sort_key_cong_on) (auto simp: set_zip)
  also have "\<dots> = sort_key k xs"
    by (simp add: sort_key_map)
  finally show ?thesis by (simp add: sorted_by_def rmap_Inr_map [OF assms])
qed

lemma sorted_by_Inr:
  assumes "sorted_by f xs = Inr ys"
  shows "ys = sort_key (\<lambda>x. projr (f x)) xs" and "x \<in> set xs \<Longrightarrow> f x = Inr (projr (f x))"
proof -
  have ok: "f x = Inr (projr (f x))" if "x \<in> set xs" for x
    using assms that rmap_ok [of f xs] by (fastforce simp: sorted_by_def rbind_Inr_conv)
  then show "x \<in> set xs \<Longrightarrow> f x = Inr (projr (f x))" .
  show "ys = sort_key (\<lambda>x. projr (f x)) xs"
    using assms sorted_by_total [of xs f "\<lambda>x. projr (f x)"] ok by simp
qed

end
