(* ===== verification/Campaign_Tables.thy ===== *)
theory Campaign_Tables
  imports Settings
begin

text \<open>
  The campaign tables of \<open>app/models/database.py\<close>: the rows of \<open>CampaignModel\<close>, \<open>CampaignJDModel\<close>,
  \<open>CampaignCVModel\<close> and \<open>CampaignPairModel\<close> as records, their status columns as datatypes (one
  constructor for each value of the \<open>CHECK\<close> constraint), the four tables together with the number
  of identifiers \<open>uuid4\<close> has drawn so far, and the table constraints. Times are seconds.
\<close>

section \<open>Rows\<close>

datatype campaign_status = C_INTAKE | C_RUNNING | C_COMPLETED | C_FAILED

datatype jd_status = J_PENDING | J_PROCESSING | J_SHORTLISTED | J_COMPLETED | J_FAILED

datatype stage0_status = S0_PENDING | S0_RUNNING | S0_SUCCEEDED | S0_FAILED

datatype pair_status = PENDING | RUNNING | STAGE2_READY | EXTRACTION_FAILED | FILTER_REJECTED
  | PROCESSING_FAILED | CUTOFF_EXCLUDED | SHORTLISTED | STAGE3_RUNNING | SUCCESS
  | REVIEW_REQUIRED | EVALUATION_FAILED

fun pair_status_value :: "pair_status \<Rightarrow> string" where
  "pair_status_value PENDING = ''PENDING''"
| "pair_status_value RUNNING = ''RUNNING''"
| "pair_status_value STAGE2_READY = ''STAGE2_READY''"
| "pair_status_value EXTRACTION_FAILED = ''EXTRACTION_FAILED''"
| "pair_status_value FILTER_REJECTED = ''FILTER_REJECTED''"
| "pair_status_value PROCESSING_FAILED = ''PROCESSING_FAILED''"
| "pair_status_value CUTOFF_EXCLUDED = ''CUTOFF_EXCLUDED''"
| "pair_status_value SHORTLISTED = ''SHORTLISTED''"
| "pair_status_value STAGE3_RUNNING = ''STAGE3_RUNNING''"
| "pair_status_value SUCCESS = ''SUCCESS''"
| "pair_status_value REVIEW_REQUIRED = ''REVIEW_REQUIRED''"
| "pair_status_value EVALUATION_FAILED = ''EVALUATION_FAILED''"

text \<open>The intake report of an archive upload, stored as JSON on the campaign.\<close>

record intake_report =
  accepted :: "(string \<times> string) list"
  rejected :: "(string \<times> string) list"

record campaign =
  c_id :: string
  c_owner_id :: string
  c_name :: "string option"
  c_status :: campaign_status
  c_idempotency_key :: "string option"
  c_request_hash :: string
  c_archive_hash :: "string option"
  c_intake_report :: "intake_report option"
  c_created_at :: int
  c_updated_at :: int
  c_completed_at :: "int option"

record jd =
  j_id :: string
  j_campaign_id :: string
  j_jd_key :: string
  j_job_snapshot :: pydict
  j_policy_snapshot :: pydict
  j_stage3_cap :: int
  j_status :: jd_status
  j_updated_at :: int

record cv =
  v_id :: string
  v_campaign_id :: string
  v_candidate_id :: string
  v_document_version :: int
  v_source_filename :: string
  v_content_hash :: string
  v_stage0_status :: stage0_status
  v_redacted_text :: "string option"
  v_source_locations :: "json list option"
  v_extraction_error_code :: "string option"
  v_encrypted_pdf :: "string option"
  v_encrypted_original_pdf :: "string option"
  v_updated_at :: int

record pair =
  p_id :: string
  p_campaign_id :: string
  p_jd_id :: string
  p_cv_id :: string
  p_status :: pair_status
  p_stage1_decision :: "string option"
  p_stage1_details :: "pydict option"
  p_stage2_score :: "rat option"
  p_stage2_rank :: "nat option"
  p_stage3_status :: "string option"
  p_composite_score :: "rat option"
  p_tier :: "string option"
  p_verification_required :: bool
  p_verification_reasons :: "json list"
  p_result_snapshot :: "pydict option"
  p_attempt_count :: int
  p_stage3_attempt_count :: int
  p_lease_until :: "int option"
  p_lease_owner :: "string option"
  p_failure_code :: "string option"
  p_updated_at :: int

record db =
  campaigns :: "campaign list"
  jds :: "jd list"
  cvs :: "cv list"
  pairs :: "pair list"
  uuids :: nat

text \<open>
  What the code takes from outside: the stream of \<open>uuid4\<close> values, the key of the database's string
  order, and encryption of document bytes.
\<close>

record externals =
  uuid4 :: "nat \<Rightarrow> string"
  collate :: "string \<Rightarrow> string"
  encrypt_payload :: "string \<Rightarrow> string"

text \<open>The identifiers drawn so far never come back.\<close>

definition fresh_ids :: "externals \<Rightarrow> bool" where
  "fresh_ids ext \<longleftrightarrow> inj (uuid4 ext)"

definition issued :: "externals \<Rightarrow> db \<Rightarrow> string set" where
  "issued ext s = uuid4 ext ` {..<uuids s}"

lemma not_issued: "fresh_ids ext \<Longrightarrow> uuids s \<le> n \<Longrightarrow> uuid4 ext n \<notin> issued ext s"
  by (auto simp: fresh_ids_def issued_def dest: injD)

lemma issued_mono: "uuids s \<le> uuids t \<Longrightarrow> issued ext s \<subseteq> issued ext t"
  by (auto simp: issued_def)

section \<open>Status sets\<close>

definition terminal_pair_statuses :: "pair_status list" where
  "terminal_pair_statuses = [EXTRACTION_FAILED, FILTER_REJECTED, PROCESSING_FAILED,
     CUTOFF_EXCLUDED, SUCCESS, REVIEW_REQUIRED, EVALUATION_FAILED]"

text \<open>The Stage 2 barrier of a JD waits for every pair to reach one of these or \<open>STAGE2_READY\<close>.\<close>

definition done_before_cutoff :: "pair_status list" where
  "done_before_cutoff = [EXTRACTION_FAILED, FILTER_REJECTED, PROCESSING_FAILED, CUTOFF_EXCLUDED,
     SHORTLISTED, SUCCESS, REVIEW_REQUIRED, EVALUATION_FAILED]"

definition terminal :: "pair_status \<Rightarrow> bool" where
  "terminal st = (st \<in> set terminal_pair_statuses)"

definition past_stage2 :: "pair_status \<Rightarrow> bool" where
  "past_stage2 st = (st \<in> set (done_before_cutoff @ [STAGE2_READY]))"

named_theorems status_simps "membership of the status sets, per constructor"

lemma terminal_simps [simp, status_simps]:
  "\<not> terminal PENDING" "\<not> terminal RUNNING" "\<not> terminal STAGE2_READY" "terminal EXTRACTION_FAILED"
  "terminal FILTER_REJECTED" "terminal PROCESSING_FAILED" "terminal CUTOFF_EXCLUDED"
  "\<not> terminal SHORTLISTED" "\<not> terminal STAGE3_RUNNING" "terminal SUCCESS"
  "terminal REVIEW_REQUIRED" "terminal EVALUATION_FAILED"
  by (simp_all add: terminal_def terminal_pair_statuses_def)

lemma past_stage2_simps [simp, status_simps]:
  "\<not> past_stage2 PENDING" "\<not> past_stage2 RUNNING" "past_stage2 STAGE2_READY"
  "past_stage2 EXTRACTION_FAILED" "past_stage2 FILTER_REJECTED" "past_stage2 PROCESSING_FAILED"
  "past_stage2 CUTOFF_EXCLUDED" "past_stage2 SHORTLISTED" "\<not> past_stage2 STAGE3_RUNNING"
  "past_stage2 SUCCESS" "past_stage2 REVIEW_REQUIRED" "past_stage2 EVALUATION_FAILED"
  by (simp_all add: past_stage2_def done_before_cutoff_def)

lemma terminal_past_stage2: "terminal st \<Longrightarrow> past_stage2 st"
  by (cases st) simp_all

section \<open>Queries\<close>

definition campaign_by_id :: "string \<Rightarrow> db \<Rightarrow> campaign option" where
  "campaign_by_id i s = find (\<lambda>c. c_id c = i) (campaigns s)"

definition jd_by_id :: "string \<Rightarrow> db \<Rightarrow> jd option" where
  "jd_by_id i s = find (\<lambda>j. j_id j = i) (jds s)"

definition cv_by_id :: "string \<Rightarrow> db \<Rightarrow> cv option" where
  "cv_by_id i s = find (\<lambda>v. v_id v = i) (cvs s)"

definition pair_by_id :: "string \<Rightarrow> db \<Rightarrow> pair option" where
  "pair_by_id i s = find (\<lambda>p. p_id p = i) (pairs s)"

text \<open>\<open>scalar_one()\<close> raises when the row is missing.\<close>

fun scalar_one :: "'r option \<Rightarrow> 'r result" where
  "scalar_one None = Inl NoResultFound"
| "scalar_one (Some r) = Inr r"

text \<open>Updates of one table.\<close>

definition update_campaigns :: "(campaign \<Rightarrow> bool) \<Rightarrow> (campaign \<Rightarrow> campaign) \<Rightarrow> db \<Rightarrow> db" where
  "update_campaigns P f s = s\<lparr>campaigns := update_where P f (campaigns s)\<rparr>"

definition update_jds :: "(jd \<Rightarrow> bool) \<Rightarrow> (jd \<Rightarrow> jd) \<Rightarrow> db \<Rightarrow> db" where
  "update_jds P f s = s\<lparr>jds := update_where P f (jds s)\<rparr>"

definition update_cvs :: "(cv \<Rightarrow> bool) \<Rightarrow> (cv \<Rightarrow> cv) \<Rightarrow> db \<Rightarrow> db" where
  "update_cvs P f s = s\<lparr>cvs := update_where P f (cvs s)\<rparr>"

definition update_pairs :: "(pair \<Rightarrow> bool) \<Rightarrow> (pair \<Rightarrow> pair) \<Rightarrow> db \<Rightarrow> db" where
  "update_pairs P f s = s\<lparr>pairs := update_where P f (pairs s)\<rparr>"

lemma update_table_simps [simp]:
  "campaigns (update_campaigns P f s) = update_where P f (campaigns s)"
  "jds (update_campaigns P f s) = jds s" "cvs (update_campaigns P f s) = cvs s"
  "pairs (update_campaigns P f s) = pairs s" "uuids (update_campaigns P f s) = uuids s"
  "campaigns (update_jds Q g s) = campaigns s"
  "jds (update_jds Q g s) = update_where Q g (jds s)" "cvs (update_jds Q g s) = cvs s"
  "pairs (update_jds Q g s) = pairs s" "uuids (update_jds Q g s) = uuids s"
  "campaigns (update_cvs R h s) = campaigns s" "jds (update_cvs R h s) = jds s"
  "cvs (update_cvs R h s) = update_where R h (cvs s)"
  "pairs (update_cvs R h s) = pairs s" "uuids (update_cvs R h s) = uuids s"
  "campaigns (update_pairs T k s) = campaigns s" "jds (update_pairs T k s) = jds s"
  "cvs (update_pairs T k s) = cvs s"
  "pairs (update_pairs T k s) = update_where T k (pairs s)" "uuids (update_pairs T k s) = uuids s"
  by (simp_all add: update_campaigns_def update_jds_def update_cvs_def update_pairs_def)

lemma issued_update [simp]:
  "issued ext (update_campaigns P f s) = issued ext s" "issued ext (update_jds Q g s) = issued ext s"
  "issued ext (update_cvs R h s) = issued ext s" "issued ext (update_pairs T k s) = issued ext s"
  by (simp_all add: issued_def)

lemma find_Some_in: "find P xs = Some x \<Longrightarrow> x \<in> set xs \<and> P x"
  by (auto simp: find_Some_iff)

lemma distinct_key_eq: "distinct (map k rows) \<Longrightarrow> a \<in> set rows \<Longrightarrow> b \<in> set rows \<Longrightarrow> k a = k b \<Longrightarrow> a = b"
  by (auto simp: distinct_map dest: inj_onD)

lemma find_distinct:
  assumes "distinct (map k rows)" "r \<in> set rows"
  shows "find (\<lambda>q. k q = k r) rows = Some r"
  using assms by (induction rows) (auto simp: image_iff)

section \<open>Constraints\<close>

text \<open>
  The primary keys, unique constraints, foreign keys and checks of the four tables. SQL treats two
  \<open>NULL\<close> idempotency keys as distinct.
\<close>

definition unique_constraints :: "db \<Rightarrow> bool" where
  "unique_constraints s \<longleftrightarrow>
     distinct (map c_id (campaigns s)) \<and> distinct (map j_id (jds s)) \<and>
     distinct (map v_id (cvs s)) \<and> distinct (map p_id (pairs s)) \<and>
     distinct (map (\<lambda>c. (c_owner_id c, c_idempotency_key c))
       (filter (\<lambda>c. c_idempotency_key c \<noteq> None) (campaigns s))) \<and>
     distinct (map (\<lambda>j. (j_campaign_id j, j_jd_key j)) (jds s)) \<and>
     distinct (map (\<lambda>v. (v_campaign_id v, v_candidate_id v)) (cvs s)) \<and>
     distinct (map (\<lambda>p. (p_jd_id p, p_cv_id p)) (pairs s))"

definition foreign_keys :: "db \<Rightarrow> bool" where
  "foreign_keys s \<longleftrightarrow>
     (\<forall>j\<in>set (jds s). j_campaign_id j \<in> c_id ` set (campaigns s)) \<and>
     (\<forall>v\<in>set (cvs s). v_campaign_id v \<in> c_id ` set (campaigns s)) \<and>
     (\<forall>p\<in>set (pairs s). (p_campaign_id p, p_jd_id p) \<in> (\<lambda>j. (j_campaign_id j, j_id j)) ` set (jds s) \<and>
        (p_campaign_id p, p_cv_id p) \<in> (\<lambda>v. (v_campaign_id v, v_id v)) ` set (cvs s))"

definition jd_checks :: "jd \<Rightarrow> bool" where
  "jd_checks j \<longleftrightarrow> 0 < j_stage3_cap j"

definition cv_checks :: "cv \<Rightarrow> bool" where
  "cv_checks v \<longleftrightarrow> 0 < v_document_version v \<and>
     (v_stage0_status v \<notin> {S0_SUCCEEDED, S0_FAILED} \<or> v_encrypted_pdf v = None)"

definition pair_checks :: "pair \<Rightarrow> bool" where
  "pair_checks p \<longleftrightarrow> 0 \<le> p_attempt_count p \<and> 0 \<le> p_stage3_attempt_count p \<and>
     (case p_stage2_rank p of None \<Rightarrow> True | Some r \<Rightarrow> 0 < r)"

definition check_constraints :: "db \<Rightarrow> bool" where
  "check_constraints s \<longleftrightarrow> list_all jd_checks (jds s) \<and> list_all cv_checks (cvs s) \<and>
     list_all pair_checks (pairs s)"

end
