(* ===== verification/Persistence.thy ===== *)
theory Persistence
  imports Campaign_Tables
begin

text \<open>
  Reservations, Stage 0 publication and owner-scoped reads of \<open>app/campaigns/persistence.py\<close>. Every
  operation is one session: an exception leaves the tables as they were, since nothing was
  committed. Where the code looks a row up and then inserts one, another session may commit in
  between; \<open>race\<close> is what that session does to the tables, and the insert then meets the unique
  constraints of the table it finds.
\<close>

section \<open>Access\<close>

definition get_campaign :: "string \<Rightarrow> string \<Rightarrow> db \<Rightarrow> campaign result" where
  "get_campaign campaign_id owner_id s =
    (case campaign_by_id campaign_id s of
       None \<Rightarrow> Inl (PermissionError ''Campaign not found or access denied'')
     | Some c \<Rightarrow> if c_owner_id c \<noteq> owner_id
                 then Inl (PermissionError ''Campaign not found or access denied'') else Inr c)"

section \<open>Reservations\<close>

definition campaign_by_key :: "string \<Rightarrow> string option \<Rightarrow> db \<Rightarrow> campaign option" where
  "campaign_by_key owner_id key s =
     find (\<lambda>c. c_owner_id c = owner_id \<and> c_idempotency_key c = key) (campaigns s)"

text \<open>\<open>flush\<close> and \<open>commit\<close> of a new campaign and its JDs; \<open>None\<close> is an \<open>IntegrityError\<close>.\<close>

definition insert_campaign :: "campaign \<Rightarrow> jd list \<Rightarrow> db \<Rightarrow> db option" where
  "insert_campaign c js s =
    (if list_ex (\<lambda>c'. c_id c' = c_id c \<or> (c_owner_id c' = c_owner_id c \<and>
          c_idempotency_key c' = c_idempotency_key c \<and> c_idempotency_key c \<noteq> None)) (campaigns s)
        \<or> list_ex (\<lambda>j. j_id j \<in> j_id ` set js) (jds s) \<or> \<not> distinct (map j_id js)
        \<or> \<not> distinct (map j_jd_key js)
     then None
     else Some (s\<lparr>campaigns := campaigns s @ [c], jds := jds s @ js,
                  uuids := uuids s + 1 + length js\<rparr>))"

definition new_campaign :: "string \<Rightarrow> string \<Rightarrow> string option \<Rightarrow> string \<Rightarrow> string option \<Rightarrow> int \<Rightarrow> campaign" where
  "new_campaign i owner_id key request_hash name now =
    \<lparr>c_id = i, c_owner_id = owner_id, c_name = name, c_status = C_INTAKE, c_idempotency_key = key,
     c_request_hash = request_hash, c_archive_hash = None, c_intake_report = None,
     c_created_at = now, c_updated_at = now, c_completed_at = None\<rparr>"

fun new_jds :: "externals \<Rightarrow> string \<Rightarrow> int \<Rightarrow> int \<Rightarrow> nat \<Rightarrow> (string \<times> pydict \<times> pydict) list \<Rightarrow> jd list" where
  "new_jds ext cid cap now n [] = []"
| "new_jds ext cid cap now n ((key, job, policy) # rest) =
     \<lparr>j_id = uuid4 ext n, j_campaign_id = cid, j_jd_key = key, j_job_snapshot = job,
      j_policy_snapshot = policy, j_stage3_cap = cap, j_status = J_PENDING, j_updated_at = now\<rparr>
     # new_jds ext cid cap now (Suc n) rest"

definition reserve_campaign ::
  "externals \<Rightarrow> int \<Rightarrow> (db \<Rightarrow> db) \<Rightarrow> string \<Rightarrow> string \<Rightarrow> pydict list \<Rightarrow> pydict list \<Rightarrow> string option \<Rightarrow>
   int \<Rightarrow> string option \<Rightarrow> db \<Rightarrow> ((bool \<times> campaign) \<times> db) result" where
  "reserve_campaign ext now race owner_id request_hash jobs policies key cap name s =
    (if jobs = [] \<or> length jobs \<noteq> length policies
     then Inl (ValueError ''A campaign needs at least one JD and one policy per JD'')
     else rbind (rmap (\<lambda>j. dindex j ''job_id'') jobs) (\<lambda>keys.
       if \<not> distinct keys \<or> \<not> (1 \<le> cap \<and> cap \<le> 15)
       then Inl (ValueError ''JD IDs must be distinct and Stage 3 cap must be between 1 and 15'')
       else
         (case (if nonempty key then campaign_by_key owner_id key s else None) of
            Some c \<Rightarrow> if c_request_hash c \<noteq> request_hash
                      then Inl (ValueError ''Idempotency key belongs to a different campaign request'')
                      else Inr ((False, c), s)
          | None \<Rightarrow>
              let t = race s;
                  c = new_campaign (uuid4 ext (uuids t)) owner_id key request_hash name now;
                  js = new_jds ext (c_id c) cap now (Suc (uuids t)) (zip (map str_of keys) (zip jobs policies))
              in (case insert_campaign c js t of
                    Some u \<Rightarrow> Inr ((True, c), u)
                  | None \<Rightarrow>
                      (case (if nonempty key then campaign_by_key owner_id key t else None) of
                         Some c' \<Rightarrow> if c_request_hash c' = request_hash then Inr ((False, c'), t)
                                    else Inl IntegrityError
                       | None \<Rightarrow> Inl IntegrityError)))))"

definition cv_by_candidate :: "string \<Rightarrow> string \<Rightarrow> db \<Rightarrow> cv option" where
  "cv_by_candidate campaign_id candidate_id s =
     find (\<lambda>v. v_campaign_id v = campaign_id \<and> v_candidate_id v = candidate_id) (cvs s)"

definition new_cv :: "externals \<Rightarrow> string \<Rightarrow> string \<Rightarrow> string \<Rightarrow> string \<Rightarrow> string \<Rightarrow> string option \<Rightarrow> int \<Rightarrow> cv" where
  "new_cv ext i cid candidate_id source_filename content_hash pdf now =
    \<lparr>v_id = i, v_campaign_id = cid, v_candidate_id = candidate_id, v_document_version = 1,
     v_source_filename = source_filename, v_content_hash = content_hash, v_stage0_status = S0_PENDING,
     v_redacted_text = None, v_source_locations = None, v_extraction_error_code = None,
     v_encrypted_pdf = map_option (encrypt_payload ext) pdf,
     v_encrypted_original_pdf = map_option (encrypt_payload ext) pdf, v_updated_at = now\<rparr>"

definition new_pair :: "string \<Rightarrow> string \<Rightarrow> string \<Rightarrow> string \<Rightarrow> int \<Rightarrow> pair" where
  "new_pair i cid jd_id cv_id now =
    \<lparr>p_id = i, p_campaign_id = cid, p_jd_id = jd_id, p_cv_id = cv_id, p_status = PENDING,
     p_stage1_decision = None, p_stage1_details = None, p_stage2_score = None, p_stage2_rank = None,
     p_stage3_status = None, p_composite_score = None, p_tier = None,
     p_verification_required = False, p_verification_reasons = [], p_result_snapshot = None,
     p_attempt_count = 0, p_stage3_attempt_count = 0, p_lease_until = None, p_lease_owner = None,
     p_failure_code = None, p_updated_at = now\<rparr>"

fun new_pairs :: "externals \<Rightarrow> string \<Rightarrow> string \<Rightarrow> int \<Rightarrow> nat \<Rightarrow> string list \<Rightarrow> pair list" where
  "new_pairs ext cid cv_id now n [] = []"
| "new_pairs ext cid cv_id now n (jd_id # rest) =
     new_pair (uuid4 ext n) cid jd_id cv_id now # new_pairs ext cid cv_id now (Suc n) rest"

definition insert_cv :: "cv \<Rightarrow> pair list \<Rightarrow> db \<Rightarrow> db option" where
  "insert_cv v ps s =
    (if list_ex (\<lambda>v'. v_id v' = v_id v \<or> (v_campaign_id v' = v_campaign_id v \<and>
          v_candidate_id v' = v_candidate_id v)) (cvs s)
        \<or> list_ex (\<lambda>p. p_id p \<in> p_id ` set ps) (pairs s) \<or> \<not> distinct (map p_id ps)
     then None
     else Some (s\<lparr>cvs := cvs s @ [v], pairs := pairs s @ ps, uuids := uuids s + 1 + length ps\<rparr>))"

definition reserve_cv ::
  "externals \<Rightarrow> int \<Rightarrow> (db \<Rightarrow> db) \<Rightarrow> string \<Rightarrow> string \<Rightarrow> string \<Rightarrow> string \<Rightarrow> string \<Rightarrow> string option \<Rightarrow>
   db \<Rightarrow> ((bool \<times> cv) \<times> db) result" where
  "reserve_cv ext now race campaign_id owner_id candidate_id source_filename content_hash pdf s =
    rbind (get_campaign campaign_id owner_id s) (\<lambda>c.
      if c_status c \<noteq> C_INTAKE then Inl (ValueError ''Campaign intake is closed'')
      else (case cv_by_candidate campaign_id candidate_id s of
          Some v \<Rightarrow>
            if v_content_hash v \<noteq> content_hash \<or> v_source_filename v \<noteq> source_filename
            then Inl (ValueError ''Candidate ID belongs to a different document'')
            else Inr ((False, v), s)
        | None \<Rightarrow>
            let t = race s;
                v = new_cv ext (uuid4 ext (uuids t)) campaign_id candidate_id source_filename
                      content_hash pdf now;
                jd_ids = map j_id (filter (\<lambda>j. j_campaign_id j = campaign_id) (jds t));
                ps = new_pairs ext campaign_id (v_id v) now (Suc (uuids t)) jd_ids
            in (case insert_cv v ps t of
                  Some u \<Rightarrow> Inr ((True, v), u)
                | None \<Rightarrow>
                    (case cv_by_candidate campaign_id candidate_id t of
                       Some v' \<Rightarrow>
                         if v_content_hash v' = content_hash \<and> v_source_filename v' = source_filename
                         then Inr ((False, v'), t) else Inl IntegrityError
                     | None \<Rightarrow> Inl IntegrityError))))"

section \<open>Stage 0 documents\<close>

definition stage_pdf ::
  "externals \<Rightarrow> int \<Rightarrow> string \<Rightarrow> string \<Rightarrow> string \<Rightarrow> string \<Rightarrow> db \<Rightarrow> (bool \<times> db) result" where
  "stage_pdf ext now campaign_id owner_id candidate_id pdf s =
    rbind (get_campaign campaign_id owner_id s) (\<lambda>_.
    rbind (scalar_one (cv_by_candidate campaign_id candidate_id s)) (\<lambda>v.
      if v_stage0_status v \<noteq> S0_PENDING then Inr (False, s)
      else Inr (True, update_cvs (\<lambda>w. v_id w = v_id v)
        (\<lambda>w. w\<lparr>v_encrypted_pdf := Some (encrypt_payload ext pdf),
               v_encrypted_original_pdf := Some (encrypt_payload ext pdf), v_updated_at := now\<rparr>) s)))"

definition publish_cv :: "int \<Rightarrow> string option \<Rightarrow> json list option \<Rightarrow> string option \<Rightarrow> cv \<Rightarrow> cv" where
  "publish_cv now redacted_text source_locations error_code v = v\<lparr>
     v_stage0_status := (if nonempty error_code then S0_FAILED else S0_SUCCEEDED),
     v_redacted_text := (if nonempty error_code then None else redacted_text),
     v_source_locations := (if nonempty error_code then None else source_locations),
     v_extraction_error_code := error_code,
     v_encrypted_pdf := None, v_updated_at := now\<rparr>"

definition extraction_failed_pair :: "int \<Rightarrow> string option \<Rightarrow> pair \<Rightarrow> pair" where
  "extraction_failed_pair now error_code p =
     p\<lparr>p_status := EXTRACTION_FAILED, p_failure_code := error_code, p_updated_at := now\<rparr>"

definition finish_stage0 ::
  "int \<Rightarrow> string \<Rightarrow> string \<Rightarrow> string \<Rightarrow> string option \<Rightarrow> json list option \<Rightarrow> string option \<Rightarrow>
   db \<Rightarrow> (bool \<times> db) result" where
  "finish_stage0 now campaign_id owner_id candidate_id redacted_text source_locations error_code s =
    rbind (get_campaign campaign_id owner_id s) (\<lambda>_.
    rbind (scalar_one (cv_by_candidate campaign_id candidate_id s)) (\<lambda>v.
      if v_stage0_status v \<in> {S0_SUCCEEDED, S0_FAILED} then Inr (False, s)
      else if (error_code = None \<and> (redacted_text = None \<or> source_locations = None)) \<or>
              (error_code \<noteq> None \<and> (redacted_text \<noteq> None \<or> source_locations \<noteq> None))
      then Inl (ValueError ''Provide redacted text and locations, or an error code'')
      else
        let s1 = update_cvs (\<lambda>w. v_id w = v_id v) (publish_cv now redacted_text source_locations error_code) s
        in Inr (True,
             if nonempty error_code
             then update_pairs (\<lambda>p. p_campaign_id p = campaign_id \<and> p_cv_id p = v_id v \<and> \<not> terminal (p_status p))
                    (extraction_failed_pair now error_code) s1
             else s1)))"

section \<open>Terminal pair results\<close>

text \<open>
  \<open>finish_pair\<close> stores one terminal result. A retry with the same result changes nothing, a retry
  with another one is refused; both compare JSON columns as Python values.
\<close>

record pair_result =
  r_status :: pair_status
  r_stage1_decision :: "string option"
  r_stage1_details :: "pydict option"
  r_stage2_score :: "rat option"
  r_stage2_rank :: "nat option"
  r_stage3_status :: "string option"
  r_composite_score :: "rat option"
  r_tier :: "string option"
  r_verification_reasons :: "json list option"
  r_result_snapshot :: "pydict option"
  r_failure_code :: "string option"

definition opt_dict_eq :: "pydict option \<Rightarrow> pydict option \<Rightarrow> bool" where
  "opt_dict_eq a b = (case (a, b) of (None, None) \<Rightarrow> True
     | (Some d, Some e) \<Rightarrow> json_eq (JDict d) (JDict e) | _ \<Rightarrow> False)"

definition reasons_or_empty :: "json list option \<Rightarrow> json list" where
  "reasons_or_empty r = (case r of None \<Rightarrow> [] | Some xs \<Rightarrow> xs)"

definition same_outcome :: "pair_result \<Rightarrow> pair \<Rightarrow> bool" where
  "same_outcome r p \<longleftrightarrow>
     p_status p = r_status r \<and> p_stage1_decision p = r_stage1_decision r \<and>
     opt_dict_eq (p_stage1_details p) (r_stage1_details r) \<and> p_stage2_score p = r_stage2_score r \<and>
     p_stage2_rank p = r_stage2_rank r \<and> p_stage3_status p = r_stage3_status r \<and>
     p_composite_score p = r_composite_score r \<and> p_tier p = r_tier r \<and>
     json_eq (JList (p_verification_reasons p)) (JList (reasons_or_empty (r_verification_reasons r))) \<and>
     opt_dict_eq (p_result_snapshot p) (r_result_snapshot r) \<and> p_failure_code p = r_failure_code r"

definition store_outcome :: "int \<Rightarrow> pair_result \<Rightarrow> pair \<Rightarrow> pair" where
  "store_outcome now r p = p\<lparr>
     p_status := r_status r, p_stage1_decision := r_stage1_decision r,
     p_stage1_details := r_stage1_details r, p_stage2_score := r_stage2_score r,
     p_stage2_rank := r_stage2_rank r, p_stage3_status := r_stage3_status r,
     p_composite_score := r_composite_score r, p_tier := r_tier r,
     p_verification_reasons := reasons_or_empty (r_verification_reasons r),
     p_verification_required := (reasons_or_empty (r_verification_reasons r) \<noteq> []),
     p_result_snapshot := r_result_snapshot r, p_failure_code := r_failure_code r,
     p_updated_at := now\<rparr>"

text \<open>The inner join of the pairs with their JD and CV rows.\<close>

definition joined :: "db \<Rightarrow> (pair \<times> cv \<times> jd) list" where
  "joined s = [(p, v, j). p \<leftarrow> pairs s, v \<leftarrow> cvs s, v_id v = p_cv_id p, j \<leftarrow> jds s, j_id j = p_jd_id p]"

definition finish_pair ::
  "int \<Rightarrow> string \<Rightarrow> string \<Rightarrow> string \<Rightarrow> string \<Rightarrow> pair_result \<Rightarrow> db \<Rightarrow> (bool \<times> db) result" where
  "finish_pair now campaign_id owner_id jd_key candidate_id r s =
    rbind (get_campaign campaign_id owner_id s) (\<lambda>_.
    rbind (scalar_one (map_option fst (find (\<lambda>(p, v, j). p_campaign_id p = campaign_id \<and>
             j_jd_key j = jd_key \<and> v_candidate_id v = candidate_id) (joined s)))) (\<lambda>row.
      if \<not> terminal (r_status r) then Inl (ValueError ''A terminal pair status is required'')
      else if terminal (p_status row) then
        (if same_outcome r row then Inr (False, s)
         else Inl (ValueError ''Pair already has a different terminal outcome''))
      else if r_status r = SUCCESS \<and>
              (r_stage3_status r \<noteq> Some ''SUCCESS'' \<or> r_composite_score r = None)
      then Inl (ValueError ''A ranked success needs a valid Stage 3 score'')
      else Inr (True, update_pairs (\<lambda>p. p_id p = p_id row) (store_outcome now r) s)))"

section \<open>Reads\<close>

record campaign_records =
  listed_jds :: "jd list"
  listed_cvs :: "(string \<times> string \<times> string \<times> string \<times> stage0_status \<times> string option) list"
  listed_pairs :: "pair list"

definition list_campaign_records ::
  "externals \<Rightarrow> string \<Rightarrow> string \<Rightarrow> db \<Rightarrow> campaign_records result" where
  "list_campaign_records ext campaign_id owner_id s =
    rbind (get_campaign campaign_id owner_id s) (\<lambda>_. Inr \<lparr>
      listed_jds = sort_key (\<lambda>j. collate ext (j_jd_key j))
        (filter (\<lambda>j. j_campaign_id j = campaign_id) (jds s)),
      listed_cvs = map (\<lambda>v. (v_id v, v_candidate_id v, v_source_filename v, v_content_hash v,
          v_stage0_status v, v_extraction_error_code v))
        (sort_key (\<lambda>v. collate ext (v_candidate_id v))
          (filter (\<lambda>v. v_campaign_id v = campaign_id) (cvs s))),
      listed_pairs = filter (\<lambda>p. p_campaign_id p = campaign_id) (pairs s)\<rparr>)"

text \<open>
  \<open>ORDER BY composite_score DESC, candidate_id\<close>: a missing score sorts first in the database.
\<close>

definition score_order :: "externals \<Rightarrow> pair \<times> cv \<Rightarrow> nat \<times> rat \<times> string" where
  "score_order ext = (\<lambda>(p, v). case p_composite_score p of
       None \<Rightarrow> (0, 0, collate ext (v_candidate_id v))
     | Some x \<Rightarrow> (1, - x, collate ext (v_candidate_id v)))"

definition pairs_with_cv :: "db \<Rightarrow> (pair \<times> cv) list" where
  "pairs_with_cv s = [(p, v). p \<leftarrow> pairs s, v \<leftarrow> cvs s, v_id v = p_cv_id p]"

definition jd_ranked_successes ::
  "externals \<Rightarrow> string \<Rightarrow> string \<Rightarrow> string \<Rightarrow> int \<Rightarrow> int \<Rightarrow> db \<Rightarrow> (pair \<times> string) list result" where
  "jd_ranked_successes ext campaign_id owner_id jd_key page offset s =
    rbind (get_campaign campaign_id owner_id s) (\<lambda>_.
      if page < 1 \<or> 100 < page \<or> offset < 0 then Inl (ValueError ''Invalid pagination'')
      else rbind (scalar_one (find (\<lambda>j. j_campaign_id j = campaign_id \<and> j_jd_key j = jd_key) (jds s))) (\<lambda>j.
        Inr (map (\<lambda>(p, v). (p, v_candidate_id v))
          (take (nat page) (drop (nat offset) (sort_key (score_order ext)
            (filter (\<lambda>(p, v). p_jd_id p = j_id j \<and> p_status p = SUCCESS) (pairs_with_cv s))))))))"

definition group_counts :: "('r \<Rightarrow> 'k) \<Rightarrow> 'r list \<Rightarrow> ('k \<times> nat) list" where
  "group_counts k rows = map (\<lambda>x. (x, count_where (\<lambda>r. k r = x) rows)) (dict_fromkeys (map k rows))"

definition selected_pair_count :: "(pair \<Rightarrow> bool) \<Rightarrow> db \<Rightarrow> nat" where
  "selected_pair_count scope s = count_where (\<lambda>p. scope p \<and> (0 < p_stage3_attempt_count p \<or>
     p_status p \<in> {SHORTLISTED, STAGE3_RUNNING, SUCCESS})) (pairs s)"

record pair_counts =
  n_jds :: nat
  n_cvs :: nat
  n_pairs :: "(pair_status \<times> nat) list"
  n_selected :: nat
  n_terminal :: nat

definition terminal_count :: "(pair_status \<times> nat) list \<Rightarrow> nat" where
  "terminal_count rows = sum_list (map snd (filter (\<lambda>(st, n). terminal st) rows))"

definition campaign_counts :: "string \<Rightarrow> string \<Rightarrow> db \<Rightarrow> pair_counts result" where
  "campaign_counts campaign_id owner_id s =
    rbind (get_campaign campaign_id owner_id s) (\<lambda>_.
      let jd_count = count_where (\<lambda>j. j_campaign_id j = campaign_id) (jds s);
          cv_count = count_where (\<lambda>v. v_campaign_id v = campaign_id) (cvs s);
          rows = group_counts p_status (filter (\<lambda>p. p_campaign_id p = campaign_id) (pairs s))
      in if sum_list (map snd rows) \<noteq> jd_count * cv_count
         then Inl (RuntimeError ''Campaign pair accounting is incomplete'')
         else Inr \<lparr>n_jds = jd_count, n_cvs = cv_count, n_pairs = rows,
                   n_selected = selected_pair_count (\<lambda>p. p_campaign_id p = campaign_id) s,
                   n_terminal = terminal_count rows\<rparr>)"

definition jd_counts :: "string \<Rightarrow> string \<Rightarrow> string \<Rightarrow> db \<Rightarrow> pair_counts result" where
  "jd_counts campaign_id owner_id jd_key s =
    rbind (get_campaign campaign_id owner_id s) (\<lambda>_.
    rbind (scalar_one (find (\<lambda>j. j_campaign_id j = campaign_id \<and> j_jd_key j = jd_key) (jds s))) (\<lambda>j.
      let cv_count = count_where (\<lambda>v. v_campaign_id v = campaign_id) (cvs s);
          rows = group_counts p_status (filter (\<lambda>p. p_jd_id p = j_id j) (pairs s))
      in if sum_list (map snd rows) \<noteq> cv_count
         then Inl (RuntimeError ''JD pair accounting is incomplete'')
         else Inr \<lparr>n_jds = 1, n_cvs = cv_count, n_pairs = rows,
                   n_selected = selected_pair_count (\<lambda>p. p_jd_id p = j_id j) s,
                   n_terminal = terminal_count rows\<rparr>))"

section \<open>Facts on the reads\<close>

lemma sum_group_counts [simp]: "sum_list (map snd (group_counts k rows)) = length rows"
  by (simp add: group_counts_def comp_def sum_count_by_key count_where_all)

lemma terminal_count_group:
  "terminal_count (group_counts p_status rows) = count_where (\<lambda>p. terminal (p_status p)) rows"
proof -
  let ?ks = "dict_fromkeys (map p_status rows)"
  have "terminal_count (group_counts p_status rows) =
      (\<Sum>x\<leftarrow>filter terminal ?ks. count_where (\<lambda>p. p_status p = x) rows)"
    by (simp add: terminal_count_def group_counts_def comp_def filter_map)
  also have "\<dots> = count_where (\<lambda>p. p_status p \<in> set (filter terminal ?ks)) rows"
    by (rule sum_count_by_key) simp
  also have "\<dots> = count_where (\<lambda>p. terminal (p_status p)) rows"
    by (rule count_where_cong) auto
  finally show ?thesis .
qed

end
