(* ===== verification/Shortlist.thy ===== *)
theory Shortlist
  imports Settings
begin

text \<open>
  Ranking and selection of candidates for one JD: \<open>candidate_sort_key\<close> and \<open>eligible\<close> of
  \<open>app/stage2_retrieval/coverage.py\<close>, the batch selection of \<open>evidence_extractor.py\<close>, and the loop of
  the campaign coordinator that walks the ranked rows with a counter. The locale states what both
  selections share: the best eligible candidates up to a cutoff, independent of the order in which
  the candidates arrive.
\<close>

section \<open>The sort key and the eligibility policy\<close>

definition SCORING_VERSION :: string where
  "SCORING_VERSION = ''stage2-coverage-v2''"

definition MAX_CANDIDATES_PER_JD :: int where
  "MAX_CANDIDATES_PER_JD = 15"

type_synonym rank_key = "rat \<times> rat \<times> rat \<times> string"

text \<open>Unary minus on a stored number; the coverage sums are finite, so no infinity is negated.\<close>

fun py_neg :: "json \<Rightarrow> rat result" where
  "py_neg (JNum x) = Inr (- x)"
| "py_neg (JBool b) = Inr (- of_bool b)"
| "py_neg _ = Inl (TypeError ''bad operand type for unary -'')"

definition candidate_sort_key :: "pydict \<Rightarrow> rank_key result" where
  "candidate_sort_key payload =
    (let score = dget payload ''composite_score'' (JNum 0) in
     if is_bool score \<or> \<not> is_number score \<or> \<not> is_finite score
     then Inl (ValueError ''Invalid candidate coverage score'')
     else rbind (py_neg score) (\<lambda>a.
          rbind (py_neg (dget payload ''responsibility_coverage'' (JNum 0))) (\<lambda>b.
          rbind (py_neg (dget payload ''applied_coverage'' (JNum 0))) (\<lambda>c.
          rbind (dindex payload ''candidate_id'') (\<lambda>i. Inr (a, b, c, str_of i))))))"

definition eligible :: "pydict \<Rightarrow> bool" where
  "eligible payload \<longleftrightarrow>
     dget payload ''scoring_version'' JNull = JStr SCORING_VERSION \<and>
     dget payload ''shortlist_eligible'' JNull = JBool True \<and>
     (case dget payload ''composite_score'' (JNum 0) of JNum x \<Rightarrow> 0 < x \<and> x \<le> 1 | _ \<Rightarrow> False)"

definition rank_and_filter_candidate_batch :: "int \<Rightarrow> pydict list \<Rightarrow> pydict list result" where
  "rank_and_filter_candidate_batch top_n payloads =
    (if \<not> (1 \<le> top_n \<and> top_n \<le> MAX_CANDIDATES_PER_JD)
     then Inl (ValueError ''Stage 2 cutoff must be between 1 and 15'')
     else rbind (sorted_by candidate_sort_key payloads) (\<lambda>sorted_candidates.
       Inr (take (nat top_n) (filter eligible sorted_candidates))))"

text \<open>
  The coordinator's loop over the ranked rows of a JD: an eligible row is selected while fewer than
  \<open>limit\<close> were, a row that is not eligible goes to review, the others are cut off.
\<close>

datatype cut = Selected | Review | Excluded

fun cutoff_loop :: "('a \<Rightarrow> bool) \<Rightarrow> int \<Rightarrow> int \<Rightarrow> 'a list \<Rightarrow> ('a \<times> cut) list" where
  "cutoff_loop ok limit selected [] = []"
| "cutoff_loop ok limit selected (row # rows) =
     (if ok row \<and> selected < limit then (row, Selected) # cutoff_loop ok limit (selected + 1) rows
      else if \<not> ok row then (row, Review) # cutoff_loop ok limit selected rows
      else (row, Excluded) # cutoff_loop ok limit selected rows)"

lemma map_fst_cutoff_loop [simp]: "map fst (cutoff_loop ok limit n rows) = rows"
  by (induction rows arbitrary: n) auto

lemma length_cutoff_loop [simp]: "length (cutoff_loop ok limit n rows) = length rows"
  by (induction rows arbitrary: n) auto

lemma cutoff_loop_selected:
  "map fst (filter (\<lambda>z. snd z = Selected) (cutoff_loop ok limit n rows)) =
     take (nat (limit - n)) (filter ok rows)"
proof (induction rows arbitrary: n)
  case (Cons row rows)
  show ?case
  proof (cases "ok row \<and> n < limit")
    case True
    then have "nat (limit - n) = Suc (nat (limit - (n + 1)))" by linarith
    then show ?thesis using True Cons by simp
  next
    case False
    then show ?thesis using Cons by (cases "ok row") auto
  qed
qed simp

lemma cutoff_loop_marks:
  assumes "(row, m) \<in> set (cutoff_loop ok limit n rows)"
  shows "m = Review \<longleftrightarrow> \<not> ok row"
  using assms by (induction rows arbitrary: n) (auto split: if_splits)

lemma cutoff_loop_count:
  "count_where (\<lambda>z. snd z = Selected) (cutoff_loop ok limit n rows) \<le> nat (limit - n)"
proof -
  have "count_where (\<lambda>z. snd z = Selected) (cutoff_loop ok limit n rows) =
      length (map fst (filter (\<lambda>z. snd z = Selected) (cutoff_loop ok limit n rows)))"
    by (simp add: count_where_def)
  also have "\<dots> \<le> nat (limit - n)" by (simp only: cutoff_loop_selected) simp
  finally show ?thesis .
qed

section \<open>Selection from a ranked pool\<close>

text \<open>
  A pool of candidates with a ranking key, an eligibility test and an identity that the key
  determines. \<open>top\<close> is the promise: the first \<open>n\<close> eligible ones in key order.
\<close>

locale ranked_pool =
  fixes key :: "'a \<Rightarrow> 'k::linorder"
    and ok :: "'a \<Rightarrow> bool"
    and ident :: "'a \<Rightarrow> string"
  assumes key_determines_ident: "key x = key y \<Longrightarrow> ident x = ident y"
begin

definition top :: "nat \<Rightarrow> 'a list \<Rightarrow> 'a list" where
  "top n xs = take n (filter ok (sort_key key xs))"

lemma top_length: "length (top n xs) \<le> n"
  by (simp add: top_def)

lemma top_subset: "x \<in> set (top n xs) \<Longrightarrow> x \<in> set xs \<and> ok x"
  by (auto simp: top_def dest!: in_set_takeD)

lemma top_sorted: "sorted (map key (top n xs))"
  by (simp add: top_def sorted_filter flip: take_map)

lemma top_best:
  assumes "x \<in> set (top n xs)" "y \<in> set xs" "ok y" "y \<notin> set (top n xs)"
  shows "key x \<le> key y"
proof -
  let ?ys = "filter ok (sort_key key xs)"
  have "y \<in> set ?ys" using assms by simp
  then have "y \<in> set (take n ?ys) \<union> set (drop n ?ys)"
    by (metis append_take_drop_id set_append)
  then have "y \<in> set (drop n ?ys)" using assms(4) by (simp add: top_def)
  then show ?thesis
    using assms(1) sorted_take_drop_le [of key ?ys x n y] by (simp add: top_def sorted_filter)
qed

lemma top_all: "length (top n xs) < n \<Longrightarrow> x \<in> set xs \<Longrightarrow> ok x \<Longrightarrow> x \<in> set (top n xs)"
  by (auto simp: top_def min_def split: if_splits)

lemma key_inj: "distinct (map ident xs) \<Longrightarrow> inj_on key (set xs)"
  by (metis distinct_map inj_on_def key_determines_ident)

text \<open>The order in which the rows arrive does not matter.\<close>

lemma top_order_independent:
  assumes "mset xs = mset ys" "distinct (map ident xs)"
  shows "top n xs = top n ys"
proof -
  have "sort_key key xs = sort_key key ys"
    using assms by (intro sort_key_inj_key_eq) (auto intro: key_inj)
  then show ?thesis by (simp add: top_def)
qed

lemma ranked_order_independent:
  assumes "mset xs = mset ys" "distinct (map ident xs)"
  shows "sort_key key xs = sort_key key ys"
  using assms by (intro sort_key_inj_key_eq) (auto intro: key_inj)

lemma loop_selects_top:
  "map fst (filter (\<lambda>z. snd z = Selected) (cutoff_loop ok limit 0 (sort_key key xs))) = top (nat limit) xs"
  by (simp add: cutoff_loop_selected top_def)

end

text \<open>The key and the identity of a payload whose score is a finite number.\<close>

definition rank_key_of :: "pydict \<Rightarrow> rank_key" where
  "rank_key_of payload = projr (candidate_sort_key payload)"

definition payload_id :: "pydict \<Rightarrow> string" where
  "payload_id payload = snd (snd (snd (rank_key_of payload)))"

interpretation shortlist: ranked_pool rank_key_of eligible payload_id
  by unfold_locales (simp add: payload_id_def)

lemma candidate_sort_key_id:
  "candidate_sort_key p = Inr (a, b, c, i) \<Longrightarrow> i = str_of (dget p ''candidate_id'' JNull)"
  by (auto simp: candidate_sort_key_def Let_def rbind_Inr_conv dindex_def dget_def
      split: if_splits option.splits)

lemma payload_id_conv:
  "candidate_sort_key p = Inr k \<Longrightarrow> payload_id p = str_of (dget p ''candidate_id'' JNull)"
  by (cases k) (simp add: payload_id_def rank_key_of_def candidate_sort_key_id)

lemma sorted_by_rank_key:
  "sorted_by candidate_sort_key payloads = Inr ys \<Longrightarrow> ys = sort_key rank_key_of payloads"
  using sorted_by_Inr(1) [of candidate_sort_key payloads ys] by (simp add: rank_key_of_def [abs_def])

lemma rank_and_filter_eq_top:
  assumes "rank_and_filter_candidate_batch n payloads = Inr ys"
  shows "ys = shortlist.top (nat n) payloads" "1 \<le> n" "n \<le> MAX_CANDIDATES_PER_JD"
  using assms
  by (auto simp: rank_and_filter_candidate_batch_def rbind_Inr_conv shortlist.top_def
      dest!: sorted_by_rank_key split: if_splits)

lemma candidate_sort_key_score:
  "candidate_sort_key p = Inr k \<Longrightarrow> \<exists>x. dget p ''composite_score'' (JNum 0) = JNum x \<and> fst k = - x"
  by (cases "dget p ''composite_score'' (JNum 0)")
     (auto simp: candidate_sort_key_def Let_def rbind_Inr_conv split: if_splits)

end
