(* ===== verification/Coordinator.thy ===== *)
theory Coordinator
  imports Persistence Shortlist
begin

text \<open>
  The coordinator's transactions (\<open>app/campaigns/coordinator.py\<close>): admission of pairs to retrieval
  and to Stage 3 under leases, the barrier that ranks a JD's pool once every pair is done, and the
  completion of JDs and campaign. The advisory lock and \<open>FOR UPDATE\<close> make each of them one atomic
  step; \<open>locked\<close> names the rows another transaction holds, which \<open>SKIP LOCKED\<close> passes over.
\<close>

section \<open>Leases\<close>

text \<open>SQL comparisons with a missing lease time are not true.\<close>

definition lease_before :: "int \<Rightarrow> pair \<Rightarrow> bool" where
  "lease_before now p = (case p_lease_until p of None \<Rightarrow> False | Some t \<Rightarrow> t < now)"

definition lease_elapsed :: "int \<Rightarrow> pair \<Rightarrow> bool" where
  "lease_elapsed now p = (case p_lease_until p of None \<Rightarrow> True | Some t \<Rightarrow> t \<le> now)"

text \<open>One token for every reserved row, in the order of the rows.\<close>

definition claim_tokens :: "externals \<Rightarrow> db \<Rightarrow> pair list \<Rightarrow> (string \<times> string) list" where
  "claim_tokens ext s rows = zip (map p_id rows) (map (uuid4 ext) [uuids s..<uuids s + length rows])"

definition update_claimed :: "(string \<times> string) list \<Rightarrow> (string \<Rightarrow> pair \<Rightarrow> pair) \<Rightarrow> db \<Rightarrow> db" where
  "update_claimed claims f s =
     (update_pairs (\<lambda>p. p_id p \<in> fst ` set claims) (\<lambda>p. f (the (map_of claims (p_id p))) p) s)
       \<lparr>uuids := uuids s + length claims\<rparr>"

section \<open>Retrieval admission\<close>

definition expire_retrieval :: "settings \<Rightarrow> pair \<Rightarrow> pair" where
  "expire_retrieval cfg p =
    (let q = p\<lparr>p_lease_owner := None, p_lease_until := None\<rparr> in
     if RUN_MAX_ATTEMPTS cfg \<le> p_attempt_count p
     then q\<lparr>p_status := PROCESSING_FAILED, p_failure_code := Some ''RETRIEVAL_ATTEMPTS_EXHAUSTED''\<rparr>
     else q\<lparr>p_status := PENDING\<rparr>)"

definition expire_retrievals :: "settings \<Rightarrow> int \<Rightarrow> string \<Rightarrow> db \<Rightarrow> db" where
  "expire_retrievals cfg now campaign_id =
     update_pairs (\<lambda>p. p_campaign_id p = campaign_id \<and> p_status p = RUNNING \<and> lease_before now p)
       (expire_retrieval cfg)"

definition retrieval_slots :: "settings \<Rightarrow> string \<Rightarrow> db \<Rightarrow> int" where
  "retrieval_slots cfg campaign_id s =
    (let running = count_where (\<lambda>p. p_campaign_id p = campaign_id \<and> p_status p = RUNNING) (pairs s);
         global_running = count_where (\<lambda>p. p_status p = RUNNING) (pairs s)
     in min (CAMPAIGN_RETRIEVAL_INFLIGHT cfg - int running)
         (min (CAMPAIGN_RETRIEVAL_GLOBAL_INFLIGHT cfg - int global_running)
           (CAMPAIGN_DISPATCH_BATCH cfg)))"

definition retrieval_ready :: "string \<Rightarrow> pair \<times> cv \<times> jd \<Rightarrow> bool" where
  "retrieval_ready campaign_id = (\<lambda>(p, v, j). p_campaign_id p = campaign_id \<and> p_status p = PENDING \<and>
     v_stage0_status v = S0_SUCCEEDED \<and> j_status j \<in> {J_PENDING, J_PROCESSING})"

definition retrieval_rows ::
  "externals \<Rightarrow> (string \<Rightarrow> bool) \<Rightarrow> string \<Rightarrow> int \<Rightarrow> db \<Rightarrow> pair list" where
  "retrieval_rows ext locked campaign_id slots s =
     take (nat slots) (filter (\<lambda>p. \<not> locked (p_id p)) (map fst
       (sort_key (\<lambda>(p, v, j). (collate ext (j_jd_key j), collate ext (v_candidate_id v)))
         (filter (retrieval_ready campaign_id) (joined s)))))"

definition claim_retrieval :: "settings \<Rightarrow> int \<Rightarrow> string \<Rightarrow> pair \<Rightarrow> pair" where
  "claim_retrieval cfg now token p = p\<lparr>
     p_status := RUNNING, p_lease_owner := Some token,
     p_lease_until := Some (now + (RUN_TIMEOUT_SECONDS cfg + 35)),
     p_attempt_count := p_attempt_count p + 1, p_updated_at := now\<rparr>"

definition dispatch_pairs ::
  "settings \<Rightarrow> externals \<Rightarrow> int \<Rightarrow> (string \<Rightarrow> bool) \<Rightarrow> string \<Rightarrow> db \<Rightarrow> (string \<times> string) list \<times> db" where
  "dispatch_pairs cfg ext now locked campaign_id s =
    (case campaign_by_id campaign_id s of
       None \<Rightarrow> ([], s)
     | Some c \<Rightarrow>
        if c_status c \<noteq> C_RUNNING then ([], s)
        else let s1 = expire_retrievals cfg now campaign_id s;
                 slots = retrieval_slots cfg campaign_id s1 in
          if slots \<le> 0 then ([], s1)
          else let reserved = claim_tokens ext s1 (retrieval_rows ext locked campaign_id slots s1)
               in (reserved, update_claimed reserved (claim_retrieval cfg now) s1))"

section \<open>The Stage 2 barrier\<close>

definition snapshot_of :: "pair \<Rightarrow> pydict" where
  "snapshot_of p = (case p_result_snapshot p of None \<Rightarrow> [] | Some d \<Rightarrow> d)"

text \<open>A row of the pool is a pair with its candidate's identifier.\<close>

definition payload :: "pair \<times> string \<Rightarrow> pydict" where
  "payload row = dset ''composite_score'' (opt_num (p_stage2_score (fst row)))
     (dset ''candidate_id'' (JStr (snd row))
       (as_dict (dget (snapshot_of (fst row)) ''stage2_evidence'' (JDict []))))"

definition pool_rows :: "string \<Rightarrow> db \<Rightarrow> (pair \<times> string) list" where
  "pool_rows jd_id s = map (\<lambda>(p, v). (p, v_candidate_id v))
     (filter (\<lambda>(p, v). p_jd_id p = jd_id \<and> p_status p = STAGE2_READY) (pairs_with_cv s))"

definition unresolved :: "string \<Rightarrow> db \<Rightarrow> nat" where
  "unresolved jd_id s = count_where (\<lambda>p. p_jd_id p = jd_id \<and> \<not> past_stage2 (p_status p)) (pairs s)"

definition review_code :: "pydict \<Rightarrow> string" where
  "review_code evidence = (let r = dget evidence ''relevance_reason'' JNull in
     if truthy r then str_of r else ''STAGE2_SCORING_REPLAY_REQUIRED'')"

definition place :: "int \<Rightarrow> nat \<times> (pair \<times> string) \<times> cut \<Rightarrow> pair \<Rightarrow> pair" where
  "place now placement p = (case placement of (rank, row, mark) \<Rightarrow>
     let q = p\<lparr>p_stage2_rank := Some rank, p_updated_at := now\<rparr> in
     (case mark of
        Selected \<Rightarrow> q\<lparr>p_status := SHORTLISTED\<rparr>
      | Review \<Rightarrow> let code = review_code (payload row) in
          q\<lparr>p_status := REVIEW_REQUIRED, p_verification_required := True, p_failure_code := Some code,
            p_result_snapshot := Some (dset ''reason'' (JStr code) (dset ''stage'' (JStr ''STAGE2'')
              (dset ''evaluation_status'' (JStr ''REVIEW_REQUIRED'')
                (dset ''candidate_id'' (JStr (snd row)) (snapshot_of p)))))\<rparr>
      | Excluded \<Rightarrow> q\<lparr>p_status := CUTOFF_EXCLUDED\<rparr>))"

text \<open>The rank, the row and the mark of every pooled pair, by pair identifier.\<close>

definition placements :: "int \<Rightarrow> (pair \<times> string) list \<Rightarrow> (string \<times> nat \<times> (pair \<times> string) \<times> cut) list" where
  "placements cap rows = map (\<lambda>(rank, row, mark). (p_id (fst row), rank, row, mark))
     (List.enumerate 1 (cutoff_loop (\<lambda>row. eligible (payload row)) (min cap MAX_CANDIDATES_PER_JD) 0 rows))"

definition set_jd_status :: "string \<Rightarrow> jd_status \<Rightarrow> db \<Rightarrow> db" where
  "set_jd_status jd_id st = update_jds (\<lambda>j. j_id j = jd_id) (\<lambda>j. j\<lparr>j_status := st\<rparr>)"

text \<open>The transaction of one JD; the flag tells whether the JD was finalized.\<close>

definition finalize_jd :: "int \<Rightarrow> string \<Rightarrow> db \<Rightarrow> (bool \<times> db) result" where
  "finalize_jd now jd_id s =
    rbind (scalar_one (jd_by_id jd_id s)) (\<lambda>jd.
      if j_status jd \<notin> {J_PENDING, J_PROCESSING} then Inr (False, s)
      else if unresolved jd_id s \<noteq> 0
      then Inr (False, if j_status jd = J_PENDING then set_jd_status jd_id J_PROCESSING s else s)
      else rbind (sorted_by (\<lambda>row. candidate_sort_key (payload row)) (pool_rows jd_id s)) (\<lambda>rows.
        let placed = placements (j_stage3_cap jd) rows;
            s1 = update_pairs (\<lambda>p. p_id p \<in> fst ` set placed)
                   (\<lambda>p. place now (the (map_of placed (p_id p))) p) s
        in Inr (True, update_jds (\<lambda>j. j_id j = jd_id)
             (\<lambda>j. j\<lparr>j_status := J_SHORTLISTED, j_updated_at := now\<rparr>) s1)))"

text \<open>
  The whole pass: the open JDs are listed in one transaction and each is then settled in its own,
  \<open>race\<close> being what other sessions commit before it. An exception ends the pass; what was
  committed stays.
\<close>

fun finalize_each :: "int \<Rightarrow> (db \<Rightarrow> db) \<Rightarrow> string list \<Rightarrow> string list \<Rightarrow> db \<Rightarrow> string list result \<times> db" where
  "finalize_each now race done [] s = (Inr done, s)"
| "finalize_each now race done (i # is) s =
     (case finalize_jd now i (race s) of
        Inl e \<Rightarrow> (Inl e, race s)
      | Inr (b, t) \<Rightarrow> finalize_each now race (if b then done @ [i] else done) is t)"

definition finalize_ready_jds :: "int \<Rightarrow> (db \<Rightarrow> db) \<Rightarrow> string \<Rightarrow> db \<Rightarrow> string list result \<times> db" where
  "finalize_ready_jds now race campaign_id s =
     finalize_each now race [] (map j_id (filter (\<lambda>j. j_campaign_id j = campaign_id \<and>
       j_status j \<in> {J_PENDING, J_PROCESSING}) (jds s))) s"

section \<open>Stage 3 admission\<close>

definition expire_evaluation :: "settings \<Rightarrow> pair \<Rightarrow> pair" where
  "expire_evaluation cfg p =
    (let q = p\<lparr>p_lease_owner := None, p_lease_until := None\<rparr> in
     if CAMPAIGN_STAGE3_MAX_ATTEMPTS cfg \<le> p_stage3_attempt_count p
     then q\<lparr>p_status := EVALUATION_FAILED, p_stage3_status := Some ''EVALUATION_FAILED'',
            p_failure_code := Some ''STAGE3_ATTEMPTS_EXHAUSTED''\<rparr>
     else q\<lparr>p_status := SHORTLISTED\<rparr>)"

definition expire_evaluations :: "settings \<Rightarrow> int \<Rightarrow> string \<Rightarrow> db \<Rightarrow> db" where
  "expire_evaluations cfg now campaign_id =
     update_pairs (\<lambda>p. p_campaign_id p = campaign_id \<and> p_status p = STAGE3_RUNNING \<and> lease_before now p)
       (expire_evaluation cfg)"

definition evaluation_slots :: "settings \<Rightarrow> db \<Rightarrow> int" where
  "evaluation_slots cfg s =
     min (CAMPAIGN_STAGE3_GLOBAL_INFLIGHT cfg - int (count_where (\<lambda>p. p_status p = STAGE3_RUNNING) (pairs s)))
       (CAMPAIGN_DISPATCH_BATCH cfg)"

definition pairs_with_jd :: "db \<Rightarrow> (pair \<times> jd) list" where
  "pairs_with_jd s = [(p, j). p \<leftarrow> pairs s, j \<leftarrow> jds s, j_id j = p_jd_id p]"

definition evaluation_ready :: "int \<Rightarrow> string \<Rightarrow> pair \<times> jd \<Rightarrow> bool" where
  "evaluation_ready now campaign_id = (\<lambda>(p, j). p_campaign_id p = campaign_id \<and>
     p_status p = SHORTLISTED \<and> lease_elapsed now p \<and> j_status j = J_SHORTLISTED)"

text \<open>A missing rank sorts last.\<close>

definition evaluation_order :: "externals \<Rightarrow> pair \<times> jd \<Rightarrow> string \<times> nat \<times> nat" where
  "evaluation_order ext = (\<lambda>(p, j). (collate ext (j_jd_key j),
     (case p_stage2_rank p of Some r \<Rightarrow> (0, r) | None \<Rightarrow> (1, 0))))"

definition evaluation_rows ::
  "externals \<Rightarrow> int \<Rightarrow> (string \<Rightarrow> bool) \<Rightarrow> string \<Rightarrow> int \<Rightarrow> db \<Rightarrow> pair list" where
  "evaluation_rows ext now locked campaign_id slots s =
     take (nat slots) (filter (\<lambda>p. \<not> locked (p_id p)) (map fst (sort_key (evaluation_order ext)
       (filter (evaluation_ready now campaign_id) (pairs_with_jd s)))))"

definition claim_evaluation :: "settings \<Rightarrow> int \<Rightarrow> string \<Rightarrow> pair \<Rightarrow> pair" where
  "claim_evaluation cfg now token p = p\<lparr>
     p_status := STAGE3_RUNNING, p_lease_owner := Some token,
     p_lease_until := Some (now + (RUN_TIMEOUT_SECONDS cfg + 35)), p_updated_at := now\<rparr>"

definition dispatch_stage3 ::
  "settings \<Rightarrow> externals \<Rightarrow> int \<Rightarrow> (string \<Rightarrow> bool) \<Rightarrow> string \<Rightarrow> db \<Rightarrow> (string \<times> string) list \<times> db" where
  "dispatch_stage3 cfg ext now locked campaign_id s =
    (case campaign_by_id campaign_id s of
       None \<Rightarrow> ([], s)
     | Some c \<Rightarrow>
        if c_status c \<noteq> C_RUNNING then ([], s)
        else let s1 = expire_evaluations cfg now campaign_id s;
                 slots = evaluation_slots cfg s1 in
          if slots \<le> 0 then ([], s1)
          else let claims = claim_tokens ext s1 (evaluation_rows ext now locked campaign_id slots s1)
               in (claims, update_claimed claims (claim_evaluation cfg now) s1))"

section \<open>Completion\<close>

definition jd_unfinished :: "string \<Rightarrow> db \<Rightarrow> nat" where
  "jd_unfinished jd_id s = count_where (\<lambda>p. p_jd_id p = jd_id \<and> \<not> terminal (p_status p)) (pairs s)"

definition complete_jds :: "int \<Rightarrow> string \<Rightarrow> db \<Rightarrow> db" where
  "complete_jds now campaign_id s =
     update_jds (\<lambda>j. j_campaign_id j = campaign_id \<and> j_status j = J_SHORTLISTED \<and> jd_unfinished (j_id j) s = 0)
       (\<lambda>j. j\<lparr>j_status := J_COMPLETED, j_updated_at := now\<rparr>) s"

definition finalize_campaign :: "int \<Rightarrow> string \<Rightarrow> db \<Rightarrow> bool \<times> db" where
  "finalize_campaign now campaign_id s =
    (case campaign_by_id campaign_id s of
       None \<Rightarrow> (False, s)
     | Some c \<Rightarrow>
        if c_status c \<noteq> C_RUNNING then (False, s)
        else let s1 = complete_jds now campaign_id s;
                 remaining = count_where (\<lambda>j. j_campaign_id j = campaign_id \<and> j_status j \<noteq> J_COMPLETED) (jds s1)
             in if remaining = 0 \<and> filter (\<lambda>j. j_campaign_id j = campaign_id) (jds s) \<noteq> []
                then (True, update_campaigns (\<lambda>d. c_id d = campaign_id)
                       (\<lambda>d. d\<lparr>c_status := C_COMPLETED, c_completed_at := Some now, c_updated_at := now\<rparr>) s1)
                else (False, s1))"

end
