(* ===== verification/Provider_Limit.thy ===== *)
theory Provider_Limit
  imports Settings
begin

text \<open>
  Admission of Stage 3 requests (\<open>app/campaigns/provider_limit.py\<close>): the Lua script that Redis runs
  atomically, over its two sorted sets and its hash, and the backoff of a delayed request. Times
  are rational seconds. The expiry times Redis puts on the three keys only drop entries the script
  would drop itself, so they are left out.
\<close>

section \<open>The admission script\<close>

record limiter =
  requests :: "(string \<times> rat) list"
  tokens :: "(string \<times> int) list"
  active :: "(string \<times> rat) list"

definition empty_limiter :: limiter where
  "empty_limiter = \<lparr>requests = [], tokens = [], active = []\<rparr>"

text \<open>Entries older than the window leave, with their tokens; elapsed activity leaves.\<close>

definition purge :: "rat \<Rightarrow> limiter \<Rightarrow> limiter" where
  "purge now l =
    (let old = map fst (filter (\<lambda>(i, t). t \<le> now - 60) (requests l)) in
     \<lparr>requests = filter (\<lambda>(i, t). \<not> t \<le> now - 60) (requests l),
      tokens = filter (\<lambda>(i, n). i \<notin> set old) (tokens l),
      active = filter (\<lambda>(i, t). \<not> t \<le> now) (active l)\<rparr>)"

definition used_tokens :: "limiter \<Rightarrow> int" where
  "used_tokens l = sum_list (map snd (tokens l))"

definition first_request :: "limiter \<Rightarrow> rat option" where
  "first_request l = (if requests l = [] then None else Some (Min (snd ` set (requests l))))"

definition admit_script ::
  "rat \<Rightarrow> string \<Rightarrow> int \<Rightarrow> int \<Rightarrow> int \<Rightarrow> int \<Rightarrow> int \<Rightarrow> limiter \<Rightarrow> int \<times> limiter" where
  "admit_script now token max_requests max_tokens inflight estimated hold l0 =
    (let l = purge now l0 in
     if inflight \<le> int (length (active l)) then (2, l)
     else if max_requests \<le> int (length (requests l)) \<or> max_tokens < used_tokens l + estimated
     then (case first_request l of
             None \<Rightarrow> (60, l)
           | Some t \<Rightarrow> (max 1 \<lceil>60 + t - now\<rceil>, l))
     else (0, \<lparr>requests = AList.update token now (requests l),
               tokens = AList.update token estimated (tokens l),
               active = AList.update token (now + of_int hold) (active l)\<rparr>))"

text \<open>The request's token estimate; a provider without a context setting has 32768.\<close>

definition estimated_tokens :: "settings \<Rightarrow> int" where
  "estimated_tokens cfg =
    (let provider = lower (LLM_PROVIDER cfg) in
     if provider = ''mock'' then PROVIDER_TOKENS_PER_REQUEST cfg
     else min (if provider = ''groq'' then GROQ_CONTEXT_TOKENS cfg
               else if provider = ''openrouter'' then OPENROUTER_CONTEXT_TOKENS cfg
               else if provider = ''gemini'' then GEMINI_CONTEXT_TOKENS cfg
               else 32768) (PROVIDER_TOKENS_PER_MINUTE cfg))"

definition admit :: "settings \<Rightarrow> rat \<Rightarrow> string \<Rightarrow> limiter \<Rightarrow> (string option \<times> int) \<times> limiter" where
  "admit cfg now token l =
    (case admit_script now token (PROVIDER_REQUESTS_PER_MINUTE cfg) (PROVIDER_TOKENS_PER_MINUTE cfg)
        (CAMPAIGN_STAGE3_GLOBAL_INFLIGHT cfg) (estimated_tokens cfg)
        (PROVIDER_TIMEOUT_SECONDS cfg + 30) l of
       (wait, l') \<Rightarrow> ((if wait = 0 then Some token else None, wait), l'))"

definition release :: "string \<Rightarrow> limiter \<Rightarrow> limiter" where
  "release token l = l\<lparr>active := filter (\<lambda>(i, t). i \<noteq> token) (active l)\<rparr>"

text \<open>
  The backoff of attempt \<open>attempt\<close>: \<open>jitter\<close> is the value \<open>random.uniform(0, base / 4)\<close> drew, as a
  fraction of its range.
\<close>

definition backoff_base :: "settings \<Rightarrow> int \<Rightarrow> int" where
  "backoff_base cfg attempt = min (CAMPAIGN_STAGE3_RETRY_MAX_SECONDS cfg)
     (CAMPAIGN_STAGE3_RETRY_BASE_SECONDS cfg * 2 ^ nat (max 0 (attempt - 1)))"

definition retry_delay :: "settings \<Rightarrow> rat \<Rightarrow> int \<Rightarrow> rat option \<Rightarrow> int" where
  "retry_delay cfg jitter attempt retry_after =
    (let base = of_int (backoff_base cfg attempt);
         jittered = base + jitter * (base / 4);
         after = (case retry_after of None \<Rightarrow> 0 | Some a \<Rightarrow> a)
     in max 1 \<lfloor>max jittered (min 86400 after)\<rfloor>)"

section \<open>What the limiter promises\<close>

text \<open>
  In every state the script leaves: at most the configured number of requests and tokens in the
  sixty seconds before any admission, at most the configured number of active requests, one token
  entry for every request.
\<close>

definition limiter_ok :: "int \<Rightarrow> int \<Rightarrow> int \<Rightarrow> limiter \<Rightarrow> bool" where
  "limiter_ok max_requests max_tokens inflight l \<longleftrightarrow>
     int (length (requests l)) \<le> max_requests \<and> used_tokens l \<le> max_tokens \<and>
     int (length (active l)) \<le> inflight \<and>
     map fst (tokens l) = map fst (requests l) \<and> distinct (map fst (requests l)) \<and>
     (\<forall>n\<in>snd ` set (tokens l). 0 \<le> n)"

lemma limiter_ok_empty: "0 \<le> r \<Longrightarrow> 0 \<le> t \<Longrightarrow> 0 \<le> i \<Longrightarrow> limiter_ok r t i empty_limiter"
  by (simp add: limiter_ok_def empty_limiter_def used_tokens_def)

lemma sum_list_filter_le:
  fixes xs :: "('a \<times> int) list"
  shows "\<forall>n\<in>snd ` set xs. 0 \<le> n \<Longrightarrow> sum_list (map snd (filter P xs)) \<le> sum_list (map snd xs)"
  by (induction xs) auto

lemma purge_tokens:
  assumes "map fst ts = map fst rs" "distinct (map fst rs)"
  shows "map fst (filter (\<lambda>(i, n). i \<notin> fst ` {x \<in> set rs. P (snd x)}) ts) =
    map fst (filter (\<lambda>(i, t). \<not> P t) rs)"
proof -
  have "map fst (filter (\<lambda>(i, n). i \<notin> fst ` {x \<in> set rs. P (snd x)}) ts) =
      filter (\<lambda>i. i \<notin> fst ` {x \<in> set rs. P (snd x)}) (map fst rs)"
    unfolding assms(1) [symmetric] by (simp add: filter_map comp_def case_prod_unfold)
  also have "\<dots> = map fst (filter (\<lambda>x. fst x \<notin> fst ` {x \<in> set rs. P (snd x)}) rs)"
    by (simp add: filter_map comp_def)
  also have "\<dots> = map fst (filter (\<lambda>(i, t). \<not> P t) rs)"
    by (intro arg_cong [where f = "map fst"] filter_cong)
      (auto simp: image_iff dest: eq_key_imp_eq_value [OF assms(2)])
  finally show ?thesis .
qed

lemma purge_ok:
  assumes "limiter_ok r t i l"
  shows "limiter_ok r t i (purge now l)"
proof -
  let ?old = "\<lambda>t. t \<le> now - 60"
  have old: "set (map fst (filter (\<lambda>(i, t). ?old t) (requests l))) = fst ` {x \<in> set (requests l). ?old (snd x)}"
    by (auto simp: image_iff)
  have keys: "map fst (tokens (purge now l)) = map fst (requests (purge now l))"
    using purge_tokens [of "tokens l" "requests l" ?old] assms
    by (simp add: purge_def Let_def limiter_ok_def old del: set_map)
  have "used_tokens (purge now l) \<le> used_tokens l"
    using assms by (simp add: used_tokens_def purge_def Let_def limiter_ok_def sum_list_filter_le)
  moreover have "length (requests (purge now l)) \<le> length (requests l)"
    "length (active (purge now l)) \<le> length (active l)"
    by (simp_all add: purge_def Let_def)
  moreover have "distinct (map fst (requests (purge now l)))"
    using assms by (simp add: purge_def Let_def limiter_ok_def distinct_map_filter)
  moreover have "\<forall>n\<in>snd ` set (tokens (purge now l)). 0 \<le> n"
    using assms by (auto simp: purge_def Let_def limiter_ok_def)
  ultimately show ?thesis
    using assms keys by (auto simp: limiter_ok_def)
qed

lemma update_fresh: "k \<notin> fst ` set xs \<Longrightarrow> AList.update k v xs = xs @ [(k, v)]"
  by (induction xs) auto

text \<open>A fresh token keeps the promise; the answer 0 is an admission.\<close>

lemma admit_script_ok:
  assumes "limiter_ok r t i l" "0 \<le> estimated"
    and "token \<notin> fst ` set (requests l)" "token \<notin> fst ` set (active l)"
  shows "limiter_ok r t i (snd (admit_script now token r t i estimated hold l))"
proof -
  let ?m = "purge now l"
  have m: "limiter_ok r t i ?m" using assms(1) by (rule purge_ok)
  have new: "token \<notin> fst ` set (requests ?m)" "token \<notin> fst ` set (active ?m)"
    using assms(3,4) by (auto simp: purge_def Let_def)
  have tok: "token \<notin> fst ` set (tokens ?m)"
    using new(1) m by (metis limiter_ok_def set_map)
  show ?thesis
    using m new tok assms(2)
    by (auto simp: admit_script_def Let_def update_fresh limiter_ok_def used_tokens_def
        split: option.splits)
qed

lemma release_ok: "limiter_ok r t i l \<Longrightarrow> limiter_ok r t i (release token l)"
  using order_trans [OF of_nat_mono [OF length_filter_le [of "\<lambda>(i, t). i \<noteq> token" "active l"]]]
  by (auto simp: limiter_ok_def release_def used_tokens_def)

text \<open>A limiter without recent requests and without active ones admits.\<close>

lemma admit_idle:
  assumes "settings_ok cfg" "\<forall>t\<in>snd ` set (requests l). t \<le> now - 60"
    "map fst (tokens l) = map fst (requests l)" "\<forall>t\<in>snd ` set (active l). t \<le> now"
  shows "fst (fst (admit cfg now token l)) = Some token"
proof -
  have r: "requests (purge now l) = []" and a: "active (purge now l) = []"
    using assms(2,4) by (auto simp: purge_def Let_def filter_empty_conv)
  have "filter (\<lambda>(i, t). t \<le> now - 60) (requests l) = requests l"
    using assms(2) by (intro filter_True) auto
  moreover have "x \<in> set (tokens l) \<Longrightarrow> fst x \<in> fst ` set (requests l)" for x
    using assms(3) by (metis image_eqI set_map)
  ultimately have "tokens (purge now l) = []"
    by (auto simp: purge_def Let_def filter_empty_conv)
  then have u: "used_tokens (purge now l) = 0" by (simp add: used_tokens_def)
  have "estimated_tokens cfg \<le> PROVIDER_TOKENS_PER_MINUTE cfg"
    using settings_okD [OF assms(1)] by (simp add: estimated_tokens_def Let_def)
  then show ?thesis
    using settings_okD [OF assms(1)] r a u by (simp add: admit_def admit_script_def Let_def)
qed

text \<open>The delay is at least a second, and never shorter than a cooldown the provider asked for.\<close>

lemma retry_delay_pos: "1 \<le> retry_delay cfg jitter attempt retry_after"
  by (simp add: retry_delay_def Let_def)

lemma retry_delay_cooldown:
  "a \<le> 86400 \<Longrightarrow> \<lfloor>a\<rfloor> \<le> retry_delay cfg jitter attempt (Some a)"
  by (auto simp: retry_delay_def Let_def max_def min_def floor_mono)

lemma backoff_base_pos:
  assumes "settings_ok cfg"
  shows "1 \<le> backoff_base cfg attempt"
proof -
  have "1 * 1 \<le> CAMPAIGN_STAGE3_RETRY_BASE_SECONDS cfg * 2 ^ nat (max 0 (attempt - 1))"
    using settings_okD(13) [OF assms] by (intro mult_mono) simp_all
  then show ?thesis using settings_okD(14) [OF assms] by (simp add: backoff_base_def)
qed

text \<open>Without a cooldown the delay stays within the cap and a quarter.\<close>

lemma retry_delay_bound:
  assumes "settings_ok cfg" "0 \<le> jitter" "jitter \<le> 1"
  shows "of_int (retry_delay cfg jitter attempt None) \<le>
    of_int (CAMPAIGN_STAGE3_RETRY_MAX_SECONDS cfg) * (5 / 4 :: rat)"
proof -
  define B where "B = (of_int (backoff_base cfg attempt) :: rat)"
  define M where "M = (of_int (CAMPAIGN_STAGE3_RETRY_MAX_SECONDS cfg) :: rat)"
  define x where "x = max (B + jitter * (B / 4)) (min 86400 0)"
  have b: "1 \<le> B" using backoff_base_pos [OF assms(1), of attempt] by (simp add: B_def)
  have M: "B \<le> M" by (simp add: B_def M_def backoff_base_def)
  have "jitter * (B / 4) \<le> B / 4" using assms b by (intro mult_left_le_one_le) simp_all
  then have "B + jitter * (B / 4) \<le> M * (5 / 4)" using M by linarith
  then have "x \<le> M * (5 / 4)" using M b unfolding x_def by linarith
  then have "of_int \<lfloor>x\<rfloor> \<le> M * (5 / 4)" using of_int_floor_le [of x] by linarith
  moreover have "1 \<le> M * (5 / 4)" using b M by linarith
  moreover have "retry_delay cfg jitter attempt None = max 1 \<lfloor>x\<rfloor>"
    by (simp add: retry_delay_def Let_def x_def B_def)
  ultimately show ?thesis by (simp add: M_def of_int_max)
qed

end
