(* ===== verification/Evaluation.thy ===== *)
theory Evaluation
  imports Settings
begin

text \<open>
  The Stage 3 contract: the models of \<open>app/stage3_evaluation/schemas.py\<close> with the validator that
  runs on every construction of a final evaluation, and the scoring policy of \<open>scoring.py\<close>. Scores
  are rationals, so the decimal arithmetic of the policy is exact as it is in the code.
\<close>

section \<open>Models\<close>

datatype flag_type = DOCUMENTED_INCONSISTENCY | EVIDENCED_CAREER_GAP | MISSING_INFORMATION

datatype severity = LOW | MEDIUM | HIGH | CRITICAL

datatype decision_tier = TIER_1 | TIER_2 | TIER_3

datatype evaluation_status = E_SUCCESS | E_REVIEW_REQUIRED | E_EVALUATION_FAILED

record supported_claim =
  cl_claim :: string
  cl_citation :: string
  cl_quote :: string
  cl_evidence_id :: "string option"

record flag_detail =
  fl_type :: flag_type
  fl_severity :: severity
  fl_description :: string
  fl_citations :: "string list"
  fl_claims :: "supported_claim list"

record category_assessment =
  ca_score :: rat
  ca_rationale :: string
  ca_citations :: "string list"
  ca_claims :: "supported_claim list"

record llm_evaluation_output =
  skills :: category_assessment
  experience :: category_assessment
  projects :: category_assessment
  education :: category_assessment
  flags :: "flag_detail list"
  executive_summary :: string
  improvement_suggestions :: "string list"

text \<open>A source location keeps the fields of the stored chunk; its page blocks stay JSON.\<close>

record source_location =
  sl_section :: "string option"
  sl_chunk_index :: "nat option"
  sl_page_number :: "nat option"
  sl_block_index :: "nat option"
  sl_bbox :: "(rat \<times> rat \<times> rat \<times> rat) option"
  sl_blocks :: "json list"
  sl_char_start :: "nat option"
  sl_char_end :: "nat option"

record evidence_reference =
  er_candidate_id :: string
  er_category :: string
  er_source_category :: string
  er_chunk_id :: string
  er_document_id :: "string option"
  er_source_location :: source_location
  er_text :: string
  er_evidence_id :: "string option"
  er_sentence_start :: "nat option"
  er_sentence_end :: "nat option"

record citation_check =
  ck_field :: string
  ck_citation :: string
  ck_valid :: bool
  ck_reason :: "string option"

record evidence_verification =
  ev_registry :: "(string \<times> evidence_reference) list"
  ev_checks :: "citation_check list"
  ev_review_reasons :: "string list"
  ev_verified_flag_indices :: "nat list"
  ev_injection_signals :: "string list"
  ev_context_metadata :: pydict

text \<open>\<open>sorted({...})\<close> of strings.\<close>

definition sorted_set :: "string list \<Rightarrow> string list" where
  "sorted_set xs = sort (dict_fromkeys xs)"

definition verified_citations_of :: "evidence_verification \<Rightarrow> string list" where
  "verified_citations_of v = sorted_set (map ck_citation (filter ck_valid (ev_checks v)))"

definition invalid_citations_of :: "evidence_verification \<Rightarrow> string list" where
  "invalid_citations_of v = sorted_set (map ck_citation (filter (\<lambda>c. \<not> ck_valid c) (ev_checks v)))"

record final_evaluation =
  fe_candidate_id :: string
  fe_evaluation_status :: evaluation_status
  fe_scoring_policy_version :: string
  fe_composite_score :: "rat option"
  fe_tier :: "decision_tier option"
  fe_category_scores :: "(string \<times> rat) list"
  fe_llm_raw_output :: "llm_evaluation_output option"
  fe_verified_citations :: "string list"
  fe_invalid_citations :: "string list"
  fe_has_critical_flags :: bool
  fe_review_reasons :: "string list"
  fe_error_code :: "string option"
  fe_error_message :: "string option"
  fe_evidence_verification :: "evidence_verification option"
  fe_is_mock :: bool

text \<open>The \<open>Score\<close> type: a finite number from 0 to 100.\<close>

definition score_ok :: "rat \<Rightarrow> bool" where
  "score_ok x \<longleftrightarrow> 0 \<le> x \<and> x \<le> 100"

definition check_score :: "rat \<Rightarrow> rat result" where
  "check_score x = (if score_ok x then Inr x else Inl (ValueError ''Score must be between 0 and 100''))"

definition category_names :: "string list" where
  "category_names = [''skills'', ''experience'', ''projects'', ''education'']"

definition validate_outcome :: "final_evaluation \<Rightarrow> final_evaluation result" where
  "validate_outcome e =
    (if fe_evaluation_status e = E_EVALUATION_FAILED then
       if fe_composite_score e \<noteq> None \<or> fe_tier e \<noteq> None \<or> fe_category_scores e \<noteq> []
       then Inl (ValueError ''Failed evaluations cannot have suitability scores or a tier'')
       else if fe_llm_raw_output e \<noteq> None \<or> \<not> nonempty (fe_error_code e) \<or> \<not> nonempty (fe_error_message e)
       then Inl (ValueError ''Failed evaluations require error details, not fabricated assessments'')
       else if fe_has_critical_flags e \<or> fe_review_reasons e \<noteq> [] \<or> fe_verified_citations e \<noteq> [] \<or>
               fe_invalid_citations e \<noteq> []
       then Inl (ValueError ''System failures cannot imply candidate flags or evidence judgments'')
       else Inr e
     else if fe_composite_score e = None \<or> fe_llm_raw_output e = None
     then Inl (ValueError ''Completed assessments require scores and validated output'')
     else (case fe_evidence_verification e of
         None \<Rightarrow> Inl (ValueError ''Completed assessments require evidence verification'')
       | Some v \<Rightarrow>
           if list_ex (\<lambda>r. er_candidate_id r \<noteq> fe_candidate_id e) (map snd (ev_registry v))
           then Inl (ValueError ''Evidence registry belongs to another candidate'')
           else if set (map fst (fe_category_scores e)) \<noteq> set category_names
           then Inl (ValueError ''All four category scores are required'')
           else if fe_error_code e \<noteq> None \<or> fe_error_message e \<noteq> None
           then Inl (ValueError ''Completed assessments cannot contain execution errors'')
           else if fe_evaluation_status e = E_SUCCESS then
             (if fe_tier e = None \<or> fe_review_reasons e \<noteq> [] \<or> ev_review_reasons v \<noteq> []
              then Inl (ValueError ''Successful evaluations require a tier and no review reasons'')
              else Inr e)
           else if fe_tier e \<noteq> None \<or> fe_review_reasons e = []
           then Inl (ValueError ''Review outcomes require reasons and no final tier'')
           else Inr e))"

text \<open>Construction of a \<open>FinalCandidateEvaluation\<close>: field types first, then the validator.\<close>

definition make_evaluation :: "final_evaluation \<Rightarrow> final_evaluation result" where
  "make_evaluation e =
    (if (case fe_composite_score e of None \<Rightarrow> False | Some x \<Rightarrow> \<not> score_ok x) \<or>
        list_ex (\<lambda>x. \<not> score_ok x) (map snd (fe_category_scores e))
     then Inl (ValueError ''Score must be between 0 and 100'')
     else validate_outcome e)"

text \<open>What every constructed evaluation satisfies, by status.\<close>

definition outcome_consistent :: "final_evaluation \<Rightarrow> bool" where
  "outcome_consistent e \<longleftrightarrow>
    (case fe_evaluation_status e of
       E_EVALUATION_FAILED \<Rightarrow> fe_composite_score e = None \<and> fe_tier e = None \<and> fe_category_scores e = [] \<and>
         fe_llm_raw_output e = None \<and> nonempty (fe_error_code e) \<and> \<not> fe_has_critical_flags e
     | E_SUCCESS \<Rightarrow> (\<exists>x. fe_composite_score e = Some x \<and> score_ok x) \<and> fe_tier e \<noteq> None \<and>
         fe_review_reasons e = [] \<and> fe_error_code e = None
     | E_REVIEW_REQUIRED \<Rightarrow> (\<exists>x. fe_composite_score e = Some x \<and> score_ok x) \<and> fe_tier e = None \<and>
         fe_review_reasons e \<noteq> [] \<and> fe_error_code e = None)"

lemma validate_outcome_id: "validate_outcome e = Inr f \<Longrightarrow> f = e"
  by (auto simp: validate_outcome_def split: if_splits option.splits)

lemma make_evaluation_consistent:
  assumes "make_evaluation e = Inr f"
  shows "f = e" "outcome_consistent e"
proof -
  have v: "validate_outcome e = Inr f"
    using assms by (simp add: make_evaluation_def split: if_splits)
  show "f = e" using v by (rule validate_outcome_id)
  have s: "fe_composite_score e = Some x \<Longrightarrow> score_ok x" for x
    using assms by (auto simp: make_evaluation_def split: if_splits)
  show "outcome_consistent e"
    using v s by (auto simp: validate_outcome_def outcome_consistent_def
        split: if_splits option.splits evaluation_status.splits)
qed

lemma make_evaluation_InrD: "make_evaluation e = Inr f \<Longrightarrow> f = e \<and> outcome_consistent f"
  using make_evaluation_consistent by blast

section \<open>Scoring policy\<close>

definition SCORING_POLICY_VERSION :: string where
  "SCORING_POLICY_VERSION = ''stage3-v1.2.0''"

definition CATEGORY_WEIGHTS :: "(string \<times> rat) list" where
  "CATEGORY_WEIGHTS = [(''skills'', 40 / 100), (''experience'', 30 / 100),
     (''projects'', 20 / 100), (''education'', 10 / 100)]"

definition weighted_score :: "(string \<times> rat) list \<Rightarrow> rat result" where
  "weighted_score scores =
    (if set (map fst scores) \<noteq> set (map fst CATEGORY_WEIGHTS)
     then Inl (ValueError ''Exactly four category scores are required'')
     else rbind (rmap (\<lambda>(k, x). rbind (check_score x) (\<lambda>y. Inr (k, y))) scores) (\<lambda>validated.
       Inr (quantize_half_up 2
         (\<Sum>(k, w)\<leftarrow>CATEGORY_WEIGHTS. the (map_of validated k) * w))))"

definition calculate_decision_tier :: "rat \<Rightarrow> decision_tier result" where
  "calculate_decision_tier composite_score =
    rbind (check_score composite_score) (\<lambda>score.
      Inr (if 75 \<le> score then TIER_1 else if 55 \<le> score then TIER_2 else TIER_3))"

definition output_scores :: "llm_evaluation_output \<Rightarrow> (string \<times> rat) list" where
  "output_scores out = [(''skills'', ca_score (skills out)), (''experience'', ca_score (experience out)),
     (''projects'', ca_score (projects out)), (''education'', ca_score (education out))]"

definition score_evaluation ::
  "string \<Rightarrow> llm_evaluation_output \<Rightarrow> evidence_verification \<Rightarrow> bool \<Rightarrow> final_evaluation result" where
  "score_evaluation candidate_id out verification is_mock =
    rbind (weighted_score (output_scores out)) (\<lambda>composite.
      let severe = (\<lambda>f. fl_severity f \<in> {HIGH, CRITICAL});
          reasons = sorted_set (ev_review_reasons verification @
            (if list_ex severe (flags out) then [''HIGH_OR_CRITICAL_FLAG_REQUIRES_REVIEW''] else []))
      in rbind (if reasons = [] then rbind (calculate_decision_tier composite) (\<lambda>t. Inr (Some t)) else Inr None)
        (\<lambda>tier. make_evaluation
          \<lparr>fe_candidate_id = candidate_id,
           fe_evaluation_status = (if reasons = [] then E_SUCCESS else E_REVIEW_REQUIRED),
           fe_scoring_policy_version = SCORING_POLICY_VERSION,
           fe_composite_score = Some composite, fe_tier = tier,
           fe_category_scores = output_scores out, fe_llm_raw_output = Some out,
           fe_verified_citations = verified_citations_of verification,
           fe_invalid_citations = invalid_citations_of verification,
           fe_has_critical_flags = list_ex (\<lambda>(index, flag).
             index \<in> set (ev_verified_flag_indices verification) \<and>
             fl_type flag \<noteq> MISSING_INFORMATION \<and> severe flag) (List.enumerate 0 (flags out)),
           fe_review_reasons = reasons, fe_error_code = None, fe_error_message = None,
           fe_evidence_verification = Some verification, fe_is_mock = is_mock\<rparr>))"

definition failed_evaluation :: "string \<Rightarrow> string \<Rightarrow> string \<Rightarrow> bool \<Rightarrow> final_evaluation result" where
  "failed_evaluation candidate_id error_code message is_mock = make_evaluation
    \<lparr>fe_candidate_id = candidate_id, fe_evaluation_status = E_EVALUATION_FAILED,
     fe_scoring_policy_version = SCORING_POLICY_VERSION, fe_composite_score = None, fe_tier = None,
     fe_category_scores = [], fe_llm_raw_output = None, fe_verified_citations = [],
     fe_invalid_citations = [], fe_has_critical_flags = False, fe_review_reasons = [],
     fe_error_code = Some error_code, fe_error_message = Some message,
     fe_evidence_verification = None, fe_is_mock = is_mock\<rparr>"

fun status_order :: "evaluation_status \<Rightarrow> nat" where
  "status_order E_SUCCESS = 0"
| "status_order E_REVIEW_REQUIRED = 1"
| "status_order E_EVALUATION_FAILED = 2"

definition evaluation_sort_key :: "final_evaluation \<Rightarrow> nat \<times> rat \<times> string" where
  "evaluation_sort_key e = (status_order (fe_evaluation_status e),
     (case fe_composite_score e of Some x \<Rightarrow> - x | None \<Rightarrow> 0), fe_candidate_id e)"

fun evaluation_status_value :: "evaluation_status \<Rightarrow> string" where
  "evaluation_status_value E_SUCCESS = ''SUCCESS''"
| "evaluation_status_value E_REVIEW_REQUIRED = ''REVIEW_REQUIRED''"
| "evaluation_status_value E_EVALUATION_FAILED = ''EVALUATION_FAILED''"

fun tier_value :: "decision_tier \<Rightarrow> string" where
  "tier_value TIER_1 = ''TIER_1''"
| "tier_value TIER_2 = ''TIER_2''"
| "tier_value TIER_3 = ''TIER_3''"

section \<open>Facts on the scoring policy\<close>

lemma set_sorted_set [simp]: "set (sorted_set xs) = set xs"
  by (simp add: sorted_set_def)

lemma sorted_set_eq_Nil [simp]: "sorted_set xs = [] \<longleftrightarrow> xs = []"
  by (metis set_empty set_sorted_set)

definition weighted_sum :: "rat \<Rightarrow> rat \<Rightarrow> rat \<Rightarrow> rat \<Rightarrow> rat" where
  "weighted_sum a b c d = a * (40 / 100) + b * (30 / 100) + c * (20 / 100) + d * (10 / 100)"

lemma output_scores_keys: "set (map fst (output_scores out)) = set (map fst CATEGORY_WEIGHTS)"
  by (auto simp: output_scores_def CATEGORY_WEIGHTS_def)

lemma weighted_score_output:
  "weighted_score (output_scores out) = Inr x \<longleftrightarrow>
     score_ok (ca_score (skills out)) \<and> score_ok (ca_score (experience out)) \<and>
     score_ok (ca_score (projects out)) \<and> score_ok (ca_score (education out)) \<and>
     x = quantize_half_up 2 (weighted_sum (ca_score (skills out)) (ca_score (experience out))
           (ca_score (projects out)) (ca_score (education out)))"
  unfolding weighted_score_def
  by (auto simp: output_scores_keys)
     (auto simp: output_scores_def CATEGORY_WEIGHTS_def check_score_def weighted_sum_def add.assoc
        split: if_splits)

lemma quantize_of_int_scaled [simp]: "quantize_half_up 2 (100 :: rat) = 100"
proof -
  have "\<lfloor>(10000 :: rat) + 1 / 2\<rfloor> = 10000" by (simp add: floor_eq_iff)
  then show ?thesis by (simp add: quantize_half_up_def)
qed

lemma quantize_half_up_score: "score_ok x \<Longrightarrow> score_ok (quantize_half_up 2 x)"
  using quantize_half_up_mono [of x 100 2] by (simp add: score_ok_def quantize_half_up_nonneg)

lemma weighted_sum_score:
  "score_ok a \<Longrightarrow> score_ok b \<Longrightarrow> score_ok c \<Longrightarrow> score_ok d \<Longrightarrow> score_ok (weighted_sum a b c d)"
  by (auto simp: score_ok_def weighted_sum_def)

lemma weighted_sum_mono:
  "a \<le> a' \<Longrightarrow> b \<le> b' \<Longrightarrow> c \<le> c' \<Longrightarrow> d \<le> d' \<Longrightarrow> weighted_sum a b c d \<le> weighted_sum a' b' c' d'"
  by (simp add: weighted_sum_def)

lemma weighted_score_output_bounds: "weighted_score (output_scores out) = Inr x \<Longrightarrow> score_ok x"
  by (auto simp: weighted_score_output intro!: quantize_half_up_score weighted_sum_score)

lemma quantize_half_up_near:
  assumes "0 \<le> x"
  shows "\<bar>quantize_half_up n x - x\<bar> \<le> 1 / (2 * 10 ^ n)"
proof (cases "x = 0")
  case False
  define k where "k = \<lfloor>x * 10 ^ n + 1 / 2\<rfloor>"
  have "of_int k \<le> x * 10 ^ n + 1 / 2" "x * 10 ^ n + 1 / 2 < of_int k + 1"
    unfolding k_def by linarith+
  then have "\<bar>of_int k - x * 10 ^ n\<bar> \<le> 1 / 2" by linarith
  then have "\<bar>of_int k / 10 ^ n - x\<bar> \<le> 1 / (2 * 10 ^ n)"
    by (simp add: abs_le_iff field_simps)
  then show ?thesis using False assms by (simp add: quantize_half_up_def k_def sgn_if)
qed (simp add: quantize_half_up_def)

lemma check_score_ok [simp]: "score_ok x \<Longrightarrow> check_score x = Inr x"
  by (simp add: check_score_def)

definition needs_review :: "llm_evaluation_output \<Rightarrow> evidence_verification \<Rightarrow> bool" where
  "needs_review out v \<longleftrightarrow> ev_review_reasons v \<noteq> [] \<or> list_ex (\<lambda>f. fl_severity f \<in> {HIGH, CRITICAL}) (flags out)"

lemma score_evaluation_Inr:
  assumes "score_evaluation i out v m = Inr e"
  shows "fe_candidate_id e = i" "fe_llm_raw_output e = Some out"
    "weighted_score (output_scores out) = Inr (the (fe_composite_score e))" "fe_composite_score e \<noteq> None"
    "fe_evaluation_status e = (if needs_review out v then E_REVIEW_REQUIRED else E_SUCCESS)"
    "fe_tier e = (if needs_review out v then None else
       Some (if 75 \<le> the (fe_composite_score e) then TIER_1
             else if 55 \<le> the (fe_composite_score e) then TIER_2 else TIER_3))"
    "fe_scoring_policy_version e = SCORING_POLICY_VERSION"
    "outcome_consistent e" "fe_category_scores e = output_scores out"
proof -
  obtain x tier where x: "weighted_score (output_scores out) = Inr x" and
    t: "tier = (if needs_review out v then None else
       Some (if 75 \<le> x then TIER_1 else if 55 \<le> x then TIER_2 else TIER_3))" and
    e: "fe_candidate_id e = i \<and> fe_llm_raw_output e = Some out \<and> fe_composite_score e = Some x \<and>
      fe_evaluation_status e = (if needs_review out v then E_REVIEW_REQUIRED else E_SUCCESS) \<and>
      fe_tier e = tier \<and> fe_scoring_policy_version e = SCORING_POLICY_VERSION \<and>
      outcome_consistent e \<and> fe_category_scores e = output_scores out"
    using assms
    by (auto simp: score_evaluation_def rbind_Inr_conv Let_def needs_review_def
        calculate_decision_tier_def check_score_def
        dest!: make_evaluation_InrD split: if_splits)
  show "fe_candidate_id e = i" "fe_llm_raw_output e = Some out"
    "weighted_score (output_scores out) = Inr (the (fe_composite_score e))" "fe_composite_score e \<noteq> None"
    "fe_evaluation_status e = (if needs_review out v then E_REVIEW_REQUIRED else E_SUCCESS)"
    "fe_tier e = (if needs_review out v then None else
       Some (if 75 \<le> the (fe_composite_score e) then TIER_1
             else if 55 \<le> the (fe_composite_score e) then TIER_2 else TIER_3))"
    "fe_scoring_policy_version e = SCORING_POLICY_VERSION"
    "outcome_consistent e" "fe_category_scores e = output_scores out"
    using e x t by simp_all
qed

text \<open>
  Output that the schema accepts and evidence of the same candidate always give an evaluation: the
  validator never rejects what the policy builds.
\<close>

definition output_ok :: "llm_evaluation_output \<Rightarrow> bool" where
  "output_ok out \<longleftrightarrow> score_ok (ca_score (skills out)) \<and> score_ok (ca_score (experience out)) \<and>
     score_ok (ca_score (projects out)) \<and> score_ok (ca_score (education out))"

definition registry_of_candidate :: "string \<Rightarrow> evidence_verification \<Rightarrow> bool" where
  "registry_of_candidate i v \<longleftrightarrow> list_all (\<lambda>r. er_candidate_id r = i) (map snd (ev_registry v))"

lemma score_evaluation_accepts:
  assumes "output_ok out" "registry_of_candidate i v"
  shows "\<exists>e. score_evaluation i out v m = Inr e"
proof -
  let ?x = "quantize_half_up 2 (weighted_sum (ca_score (skills out)) (ca_score (experience out))
           (ca_score (projects out)) (ca_score (education out)))"
  have w: "weighted_score (output_scores out) = Inr ?x"
    using assms(1) by (simp add: weighted_score_output output_ok_def)
  have x: "score_ok ?x" using w by (rule weighted_score_output_bounds)
  have cats: "list_all score_ok (map snd (output_scores out))"
    using assms(1) by (simp add: output_ok_def output_scores_def)
  have names: "set (map fst (output_scores out)) = set category_names"
    by (auto simp: output_scores_def category_names_def)
  have reg: "\<not> list_ex (\<lambda>r. er_candidate_id r \<noteq> i) (map snd (ev_registry v))"
    using assms(2) by (auto simp: registry_of_candidate_def list_ex_iff list_all_iff)
  have cats': "\<not> list_ex (\<lambda>x. \<not> score_ok x) (map snd (output_scores out))"
    using cats by (auto simp: list_ex_iff list_all_iff)
  show ?thesis
    using w x names reg cats'
    by (auto simp: score_evaluation_def Let_def make_evaluation_def validate_outcome_def
        calculate_decision_tier_def)
qed

lemma failed_evaluation_Inr:
  "code \<noteq> [] \<Longrightarrow> msg \<noteq> [] \<Longrightarrow> \<exists>e. failed_evaluation i code msg m = Inr e"
  by (simp add: failed_evaluation_def make_evaluation_def validate_outcome_def nonempty_def)

lemma failed_evaluation_fields:
  assumes "failed_evaluation i code msg m = Inr e"
  shows "fe_candidate_id e = i" "fe_evaluation_status e = E_EVALUATION_FAILED"
    "fe_composite_score e = None" "fe_tier e = None" "fe_error_code e = Some code"
    "outcome_consistent e"
  using assms by (auto simp: failed_evaluation_def dest!: make_evaluation_InrD)

end
