(* ===== verification/Workers.thy ===== *)
theory Workers
  imports Coordinator Provider_Limit Evaluation
begin

text \<open>
  The campaign tasks of \<open>app/workers/tasks.py\<close>: extraction of one CV, retrieval for one pair,
  evaluation of one shortlisted pair, and the coordinator's pass over a campaign. A task is a
  sequence of transactions; \<open>race\<close> is what other sessions commit between two of them. The work
  between the transactions (reading the PDF, the rules and retrieval engines, the provider call)
  enters as its result, exceptions included. Results that survive an exception are the committed
  ones, so a task returns its outcome together with the tables it leaves.
\<close>

definition lease_seconds :: "settings \<Rightarrow> int" where
  "lease_seconds cfg = RUN_TIMEOUT_SECONDS cfg + 35"

section \<open>Stage 0\<close>

datatype extraction = Extracted string "json list" string | Rejected string
  | Extraction_Raised py_exn

datatype stage0_claim = Stage0_Skip string | Stage0_Claimed cv

definition pdf_missing_cv :: "cv \<Rightarrow> cv" where
  "pdf_missing_cv v = v\<lparr>v_stage0_status := S0_FAILED, v_extraction_error_code := Some ''PDF_MISSING''\<rparr>"

definition pdf_missing_pair :: "pair \<Rightarrow> pair" where
  "pdf_missing_pair p = p\<lparr>p_status := EXTRACTION_FAILED, p_failure_code := Some ''PDF_MISSING''\<rparr>"

definition claim_stage0 :: "settings \<Rightarrow> int \<Rightarrow> string \<Rightarrow> db \<Rightarrow> stage0_claim \<times> db" where
  "claim_stage0 cfg now cv_id s =
    (case cv_by_id cv_id s of
       None \<Rightarrow> (Stage0_Skip ''ALREADY_COMPLETE'', s)
     | Some v \<Rightarrow>
        if v_stage0_status v \<in> {S0_SUCCEEDED, S0_FAILED} then (Stage0_Skip ''ALREADY_COMPLETE'', s)
        else if v_stage0_status v = S0_RUNNING \<and> now - lease_seconds cfg < v_updated_at v
        then (Stage0_Skip ''ALREADY_RUNNING'', s)
        else if v_encrypted_pdf v = None
        then (Stage0_Skip ''PDF_MISSING'',
              update_pairs (\<lambda>p. p_cv_id p = v_id v \<and> p_status p = PENDING) pdf_missing_pair
                (update_cvs (\<lambda>w. v_id w = v_id v) pdf_missing_cv s))
        else (Stage0_Claimed v, update_cvs (\<lambda>w. v_id w = v_id v)
                (\<lambda>w. w\<lparr>v_stage0_status := S0_RUNNING, v_updated_at := now\<rparr>) s))"

text \<open>Publication of a failure code, as the exception handler does it.\<close>

definition fail_stage0 :: "int \<Rightarrow> string \<Rightarrow> string \<Rightarrow> string \<Rightarrow> db \<Rightarrow> string result \<times> db" where
  "fail_stage0 now campaign_id owner_id candidate_id s =
    (case finish_stage0 now campaign_id owner_id candidate_id None None (Some ''PDF_PROCESSING_FAILED'') s of
       Inl e \<Rightarrow> (Inl e, s) | Inr (_, t) \<Rightarrow> (Inr ''PDF_PROCESSING_FAILED'', t))"

definition publish_stage0 ::
  "int \<Rightarrow> string \<Rightarrow> string \<Rightarrow> string \<Rightarrow> extraction \<Rightarrow> db \<Rightarrow> string result \<times> db" where
  "publish_stage0 now campaign_id owner_id candidate_id view s =
    (let handle = (\<lambda>e. if e = TimeoutError \<or> e = OperationalError then (Inl e, s)
                       else fail_stage0 now campaign_id owner_id candidate_id s) in
     case view of
       Extraction_Raised e \<Rightarrow> handle e
     | Extracted text pages code \<Rightarrow>
        (case finish_stage0 now campaign_id owner_id candidate_id (Some text) (Some pages) None s of
           Inl e \<Rightarrow> handle e | Inr (_, t) \<Rightarrow> (Inr code, t))
     | Rejected code \<Rightarrow>
        (case finish_stage0 now campaign_id owner_id candidate_id None None (Some code) s of
           Inl e \<Rightarrow> handle e | Inr (_, t) \<Rightarrow> (Inr code, t)))"

definition execute_campaign_stage0 ::
  "settings \<Rightarrow> int \<Rightarrow> int \<Rightarrow> (db \<Rightarrow> db) \<Rightarrow> (string option \<Rightarrow> extraction) \<Rightarrow> string \<Rightarrow> db \<Rightarrow> string result \<times> db" where
  "execute_campaign_stage0 cfg now later race ingest_pdf cv_id s =
    (case claim_stage0 cfg now cv_id s of
       (Stage0_Skip code, t) \<Rightarrow> (Inr code, t)
     | (Stage0_Claimed v, t) \<Rightarrow>
        (case campaign_by_id (v_campaign_id v) t of
           None \<Rightarrow> (Inl (TypeError ''campaign row is missing''), t)
         | Some c \<Rightarrow> publish_stage0 later (v_campaign_id v) (c_owner_id c) (v_candidate_id v)
                      (ingest_pdf (v_encrypted_pdf v)) (race t)))"

text \<open>
  The recovery scan: CVs of running campaigns that the broker does not hold and that have waited
  too long, at most a hundred; \<open>updated_at\<close> is refreshed to space out repeated publications.
\<close>

definition stage0_overdue :: "settings \<Rightarrow> int \<Rightarrow> cv \<Rightarrow> bool" where
  "stage0_overdue cfg now v \<longleftrightarrow>
     (v_stage0_status v = S0_PENDING \<and> v_updated_at v < now - QUEUE_RECOVERY_SECONDS cfg) \<or>
     (v_stage0_status v = S0_RUNNING \<and> v_updated_at v < now - lease_seconds cfg)"

definition recover_campaign_stage0 ::
  "settings \<Rightarrow> int \<Rightarrow> string list \<Rightarrow> (string \<Rightarrow> bool) \<Rightarrow> db \<Rightarrow> string list \<times> db" where
  "recover_campaign_stage0 cfg now queued locked s =
    (let rows = take 100 (map v_id (filter (\<lambda>v. v_id v \<notin> set queued \<and> stage0_overdue cfg now v \<and>
           \<not> locked (v_id v) \<and>
           list_ex (\<lambda>c. c_id c = v_campaign_id v \<and> c_status c = C_RUNNING) (campaigns s)) (cvs s)))
     in (rows, update_cvs (\<lambda>v. v_id v \<in> set rows) (\<lambda>v. v\<lparr>v_updated_at := now\<rparr>) s))"

text \<open>The retry policy of the Celery wrappers.\<close>

datatype task_outcome = Task_Done string | Task_Retry int | Task_Failed py_exn

definition retry_task :: "settings \<Rightarrow> (py_exn \<Rightarrow> bool) \<Rightarrow> nat \<Rightarrow> string result \<Rightarrow> task_outcome" where
  "retry_task cfg retryable retries r =
    (case r of Inr v \<Rightarrow> Task_Done v
     | Inl e \<Rightarrow> if \<not> retryable e \<or> RUN_MAX_ATTEMPTS cfg - 1 \<le> int retries then Task_Failed e
               else Task_Retry (min 60 (2 ^ (retries + 1))))"

definition campaign_stage0_task :: "settings \<Rightarrow> nat \<Rightarrow> string result \<Rightarrow> task_outcome" where
  "campaign_stage0_task cfg retries r =
     retry_task cfg (\<lambda>e. e = TimeoutError \<or> e = OperationalError) retries r"

section \<open>Retrieval for one pair\<close>

record pair_work =
  w_decision :: "string option"
  w_details :: "pydict option"
  w_evidence :: "pydict option"
  w_error :: "string option"

definition no_work :: pair_work where
  "no_work = \<lparr>w_decision = None, w_details = None, w_evidence = None, w_error = None\<rparr>"

definition provenance :: "json \<Rightarrow> int \<Rightarrow> json" where
  "provenance effective document_version = JDict
     [(''reported_experience_source'', JStr ''unknown''),
      (''effective_experience_source'', effective),
      (''reported_authorization_source'', JStr ''unknown''),
      (''document_version'', JNum (of_int document_version))]"

definition evidence_valid :: "string \<Rightarrow> pydict \<Rightarrow> bool" where
  "evidence_valid candidate_id evidence \<longleftrightarrow>
     dget evidence ''candidate_id'' JNull = JStr candidate_id \<and>
     dget evidence ''status'' JNull = JStr ''SUCCESS'' \<and>
     (case dget evidence ''composite_score'' JNull of JNum x \<Rightarrow> True | _ \<Rightarrow> False)"

text \<open>
  The body of the \<open>try\<close> block: \<open>stage1\<close> is what the rules engine returns or raises, \<open>stage2\<close> what
  the extractor does. An exception keeps what was assigned before it.
\<close>

definition analyze_pair :: "string \<Rightarrow> int \<Rightarrow> pydict result \<Rightarrow> pydict result \<Rightarrow> pair_work" where
  "analyze_pair candidate_id document_version stage1 stage2 =
    (case stage1 of
       Inl _ \<Rightarrow> no_work\<lparr>w_error := Some ''PAIR_PROCESSING_FAILED''\<rparr>
     | Inr d0 \<Rightarrow>
       (case rbind (dindex d0 ''metrics'') (\<lambda>m. dindex (as_dict m) ''experience_source'') of
          Inl _ \<Rightarrow> no_work\<lparr>w_details := Some d0, w_error := Some ''PAIR_PROCESSING_FAILED''\<rparr>
        | Inr source \<Rightarrow>
          (let details = dset ''input_provenance'' (provenance source document_version) d0 in
           case dindex details ''status'' of
             Inl _ \<Rightarrow> no_work\<lparr>w_details := Some details, w_error := Some ''PAIR_PROCESSING_FAILED''\<rparr>
           | Inr st \<Rightarrow>
             (let work = no_work\<lparr>w_decision := Some (str_of st), w_details := Some details\<rparr> in
              if str_of st \<notin> {''PASS'', ''REVIEW''} then work
              else (case stage2 of
                  Inl _ \<Rightarrow> work\<lparr>w_error := Some ''PAIR_PROCESSING_FAILED''\<rparr>
                | Inr evidence \<Rightarrow>
                    if evidence_valid candidate_id evidence then work\<lparr>w_evidence := Some evidence\<rparr>
                    else work\<lparr>w_evidence := Some evidence, w_error := Some ''EVIDENCE_EXTRACTION_FAILED''\<rparr>)))))"

text \<open>The checks in review of a Stage 1 result; a malformed result raises.\<close>

definition review_checks :: "pydict \<Rightarrow> json list result" where
  "review_checks details =
    (if details = [] then Inr []
     else rbind (dindex details ''checks'') (\<lambda>checks.
       rbind (rmap (\<lambda>c. rbind (dindex (as_dict c) ''status'') (\<lambda>st. Inr (c, st))) (as_list checks)) (\<lambda>rows.
         Inr (map fst (filter (\<lambda>(c, st). st = JStr ''REVIEW'') rows)))))"

text \<open>The assignments every outcome shares, then the branch on error and decision.\<close>

definition stage1_stored :: "int \<Rightarrow> pair_work \<Rightarrow> json list \<Rightarrow> pair \<Rightarrow> pair" where
  "stage1_stored now work reasons p = p\<lparr>
     p_stage1_decision := w_decision work, p_stage1_details := w_details work,
     p_verification_reasons := reasons, p_verification_required := (reasons \<noteq> []),
     p_lease_owner := None, p_lease_until := None, p_updated_at := now\<rparr>"

definition store_pair_work :: "settings \<Rightarrow> int \<Rightarrow> int \<Rightarrow> pair_work \<Rightarrow> pair \<Rightarrow> pair result" where
  "store_pair_work cfg now document_version work p =
    rbind (case w_details work of None \<Rightarrow> Inr [] | Some d \<Rightarrow> review_checks d) (\<lambda>reasons.
      let q = stage1_stored now work reasons p in
      if w_error work \<noteq> None then
        Inr (if p_attempt_count p < RUN_MAX_ATTEMPTS cfg then q\<lparr>p_status := PENDING\<rparr>
             else q\<lparr>p_status := PROCESSING_FAILED, p_failure_code := w_error work\<rparr>)
      else if w_decision work = Some ''FAIL'' then Inr (q\<lparr>p_status := FILTER_REJECTED\<rparr>)
      else (case w_evidence work of
          None \<Rightarrow> Inl (TypeError ''NoneType object is not subscriptable'')
        | Some evidence \<Rightarrow> rbind (dindex evidence ''composite_score'') (\<lambda>score.
            Inr (q\<lparr>p_status := STAGE2_READY, p_stage2_score := Some (num_of score),
                   p_result_snapshot := Some [(''stage2_evidence'', JDict evidence),
                     (''document_version'', JNum (of_int document_version))]\<rparr>))))"

text \<open>A lease still held by the caller.\<close>

definition holds_lease :: "pair_status \<Rightarrow> string \<Rightarrow> pair \<Rightarrow> bool" where
  "holds_lease st token p \<longleftrightarrow> p_status p = st \<and> p_lease_owner p = Some token"

definition replace_pair :: "string \<Rightarrow> pair \<Rightarrow> db \<Rightarrow> db" where
  "replace_pair pair_id q = update_pairs (\<lambda>p. p_id p = pair_id) (\<lambda>_. q)"

definition finish_retrieval ::
  "settings \<Rightarrow> int \<Rightarrow> string \<Rightarrow> string \<Rightarrow> int \<Rightarrow> pair_work \<Rightarrow> db \<Rightarrow> string result \<times> db" where
  "finish_retrieval cfg now pair_id token document_version work s =
    (case pair_by_id pair_id s of
       None \<Rightarrow> (Inl NoResultFound, s)
     | Some p \<Rightarrow>
        if \<not> holds_lease RUNNING token p then (Inr ''LEASE_LOST'', s)
        else (case store_pair_work cfg now document_version work p of
            Inl e \<Rightarrow> (Inl e, s)
          | Inr q \<Rightarrow> (Inr (if w_error work \<noteq> None \<and> p_attempt_count q < RUN_MAX_ATTEMPTS cfg
                         then ''RETRY_PENDING'' else pair_status_value (p_status q)), replace_pair pair_id q s)))"

definition execute_campaign_pair ::
  "settings \<Rightarrow> int \<Rightarrow> (db \<Rightarrow> db) \<Rightarrow>
   (string option \<Rightarrow> pydict \<Rightarrow> pydict result) \<Rightarrow>
   (string \<Rightarrow> string option \<Rightarrow> json list option \<Rightarrow> pydict \<Rightarrow> string \<Rightarrow> pydict result) \<Rightarrow>
   string \<Rightarrow> string \<Rightarrow> db \<Rightarrow> string result \<times> db" where
  "execute_campaign_pair cfg now race stage1 stage2 pair_id token s =
    (case find (\<lambda>(p, v, j). p_id p = pair_id) (joined s) of
       None \<Rightarrow> (Inr ''NOT_FOUND'', s)
     | Some (p, v, j) \<Rightarrow>
        if \<not> holds_lease RUNNING token p then (Inr ''LEASE_LOST'', s)
        else let work = analyze_pair (v_candidate_id v) (v_document_version v)
                   (stage1 (v_redacted_text v) (j_job_snapshot j))
                   (stage2 (v_candidate_id v) (v_redacted_text v) (v_source_locations v)
                     (j_job_snapshot j) (j_id j))
             in finish_retrieval cfg now pair_id token (v_document_version v) work (race s))"

section \<open>Stage 3 for one pair\<close>

definition park_pair :: "int \<Rightarrow> pair \<Rightarrow> pair" where
  "park_pair until p = p\<lparr>p_status := SHORTLISTED, p_lease_owner := None, p_lease_until := Some until\<rparr>"

text \<open>Without admission the pair goes back to the shortlist until the wait is over.\<close>

definition delay_evaluation :: "int \<Rightarrow> int \<Rightarrow> string \<Rightarrow> string \<Rightarrow> db \<Rightarrow> string result \<times> db" where
  "delay_evaluation now wait pair_id token s =
    (case pair_by_id pair_id s of
       None \<Rightarrow> (Inl NoResultFound, s)
     | Some _ \<Rightarrow> (Inr ''ADMISSION_DELAYED'',
         update_pairs (\<lambda>p. p_id p = pair_id \<and> holds_lease STAGE3_RUNNING token p) (park_pair (now + wait)) s))"

definition begin_attempt :: "string \<Rightarrow> string \<Rightarrow> db \<Rightarrow> int option result \<times> db" where
  "begin_attempt pair_id token s =
    (case pair_by_id pair_id s of
       None \<Rightarrow> (Inl NoResultFound, s)
     | Some p \<Rightarrow>
        if \<not> holds_lease STAGE3_RUNNING token p then (Inr None, s)
        else (Inr (Some (p_stage3_attempt_count p + 1)),
              update_pairs (\<lambda>q. p_id q = pair_id)
                (\<lambda>q. q\<lparr>p_stage3_attempt_count := p_stage3_attempt_count q + 1\<rparr>) s))"

text \<open>The two retryable provider failures and what the task stores for them.\<close>

datatype provider_failure = ProviderRateLimited "rat option" | ProviderTransientFailure "rat option"

fun failure_retry_after :: "provider_failure \<Rightarrow> rat option" where
  "failure_retry_after (ProviderRateLimited a) = a"
| "failure_retry_after (ProviderTransientFailure a) = a"

fun exhausted_code :: "provider_failure \<Rightarrow> string" where
  "exhausted_code (ProviderRateLimited _) = ''PROVIDER_RATE_LIMIT_EXHAUSTED''"
| "exhausted_code (ProviderTransientFailure _) = ''PROVIDER_TRANSIENT_RETRY_EXHAUSTED''"

fun retry_failure_code :: "provider_failure \<Rightarrow> string" where
  "retry_failure_code (ProviderRateLimited _) = ''PROVIDER_RATE_LIMITED''"
| "retry_failure_code (ProviderTransientFailure _) = ''PROVIDER_TRANSIENT_FAILURE''"

definition store_failure :: "settings \<Rightarrow> int \<Rightarrow> int \<Rightarrow> int \<Rightarrow> provider_failure \<Rightarrow> pair \<Rightarrow> pair" where
  "store_failure cfg now attempt delay f p =
    (if CAMPAIGN_STAGE3_MAX_ATTEMPTS cfg \<le> attempt
     then p\<lparr>p_lease_owner := None, p_status := EVALUATION_FAILED,
            p_stage3_status := Some ''EVALUATION_FAILED'', p_failure_code := Some (exhausted_code f),
            p_lease_until := None\<rparr>
     else p\<lparr>p_lease_owner := None, p_status := SHORTLISTED,
            p_failure_code := Some (retry_failure_code f), p_lease_until := Some (now + delay)\<rparr>)"

definition retry_evaluation ::
  "settings \<Rightarrow> int \<Rightarrow> int \<Rightarrow> int \<Rightarrow> provider_failure \<Rightarrow> string \<Rightarrow> string \<Rightarrow> db \<Rightarrow>
   string result \<times> db" where
  "retry_evaluation cfg now attempt delay f pair_id token s =
    (case pair_by_id pair_id s of
       None \<Rightarrow> (Inl NoResultFound, s)
     | Some p \<Rightarrow>
        if \<not> holds_lease STAGE3_RUNNING token p then (Inr ''LEASE_LOST'', s)
        else (Inr (case f of ProviderRateLimited _ \<Rightarrow> ''RATE_LIMITED''
                   | ProviderTransientFailure _ \<Rightarrow> ''TRANSIENT_RETRY''),
              replace_pair pair_id (store_failure cfg now attempt delay f p) s))"

fun pair_status_of :: "evaluation_status \<Rightarrow> pair_status" where
  "pair_status_of E_SUCCESS = SUCCESS"
| "pair_status_of E_REVIEW_REQUIRED = REVIEW_REQUIRED"
| "pair_status_of E_EVALUATION_FAILED = EVALUATION_FAILED"

definition store_evaluation ::
  "settings \<Rightarrow> int \<Rightarrow> (final_evaluation \<Rightarrow> json) \<Rightarrow> pydict \<Rightarrow> final_evaluation \<Rightarrow> pair \<Rightarrow> pair" where
  "store_evaluation cfg now model_dump policy result p = p\<lparr>
     p_status := pair_status_of (fe_evaluation_status result),
     p_stage3_status := Some (evaluation_status_value (fe_evaluation_status result)),
     p_composite_score := fe_composite_score result,
     p_tier := map_option tier_value (fe_tier result),
     p_failure_code := fe_error_code result,
     p_result_snapshot := Some (dset ''stage3_policy'' (JDict
         [(''prompt_version'', dget policy ''prompt_version'' JNull),
          (''scoring_policy_version'', JStr (fe_scoring_policy_version result)),
          (''provider'', JStr (lower (LLM_PROVIDER cfg)))])
       (dset ''stage3_evaluation'' (model_dump result) (snapshot_of p))),
     p_lease_owner := None, p_lease_until := None, p_updated_at := now\<rparr>"

definition finish_evaluation ::
  "settings \<Rightarrow> int \<Rightarrow> (final_evaluation \<Rightarrow> json) \<Rightarrow> pydict \<Rightarrow> final_evaluation \<Rightarrow> string \<Rightarrow> string \<Rightarrow>
   db \<Rightarrow> string result \<times> db" where
  "finish_evaluation cfg now model_dump policy result pair_id token s =
    (case pair_by_id pair_id s of
       None \<Rightarrow> (Inl NoResultFound, s)
     | Some p \<Rightarrow>
        if \<not> holds_lease STAGE3_RUNNING token p then (Inr ''LEASE_LOST'', s)
        else (Inr (evaluation_status_value (fe_evaluation_status result)),
              replace_pair pair_id (store_evaluation cfg now model_dump policy result p) s))"

text \<open>What the provider call gives: an evaluation, a retryable failure, or another exception.\<close>

datatype provider_answer = Answer final_evaluation | Retryable provider_failure | Provider_Raised py_exn

definition stored_evidence :: "pair \<Rightarrow> cv \<Rightarrow> pydict" where
  "stored_evidence p v = (let evidence = as_dict (dget (snapshot_of p) ''stage2_evidence'' JNull) in
     if evidence = [] then [] else dset ''candidate_cv_text'' (opt_str (v_redacted_text v)) evidence)"

definition execute_campaign_stage3 ::
  "settings \<Rightarrow> int \<Rightarrow> rat \<Rightarrow> (db \<Rightarrow> db) \<Rightarrow> (final_evaluation \<Rightarrow> json) \<Rightarrow> string option \<times> int \<Rightarrow>
   (pydict \<Rightarrow> pydict \<Rightarrow> bool \<Rightarrow> provider_answer) \<Rightarrow> string \<Rightarrow> string \<Rightarrow> db \<Rightarrow> string result \<times> db" where
  "execute_campaign_stage3 cfg now jitter race model_dump admission evaluate pair_id token s =
    (case find (\<lambda>(p, v, j). p_id p = pair_id) (joined s) of
       None \<Rightarrow> (Inr ''NOT_FOUND'', s)
     | Some (p, v, j) \<Rightarrow>
        if \<not> holds_lease STAGE3_RUNNING token p then (Inr ''LEASE_LOST'', s)
        else (case admission of
            (None, wait) \<Rightarrow> delay_evaluation now wait pair_id token (race s)
          | (Some _, _) \<Rightarrow>
            (case begin_attempt pair_id token (race s) of
               (Inl e, t) \<Rightarrow> (Inl e, t)
             | (Inr None, t) \<Rightarrow> (Inr ''LEASE_LOST'', t)
             | (Inr (Some attempt), t) \<Rightarrow>
               (let evidence = stored_evidence p v;
                    answer = (if evidence = [] \<or>
                                 dget evidence ''candidate_id'' JNull \<noteq> JStr (v_candidate_id v)
                              then (case failed_evaluation (v_candidate_id v) ''INVALID_EVIDENCE''
                                      ''Stored retrieval evidence is unavailable.'' False of
                                      Inl e \<Rightarrow> Provider_Raised e | Inr r \<Rightarrow> Answer r)
                              else evaluate evidence (j_job_snapshot j)
                                (truthy (dget (j_policy_snapshot j) ''single_cv'' JNull)))
                in case answer of
                     Answer r \<Rightarrow>
                       finish_evaluation cfg now model_dump (j_policy_snapshot j) r pair_id token (race t)
                   | Retryable f \<Rightarrow>
                       retry_evaluation cfg now attempt
                         (retry_delay cfg jitter attempt (failure_retry_after f)) f pair_id token (race t)
                   | Provider_Raised e \<Rightarrow> (Inl e, t)))))"

section \<open>A coordinator pass\<close>

text \<open>A claim whose task could not be published is taken back, if it is still the same claim.\<close>

definition undo_retrieval :: "string \<Rightarrow> string \<Rightarrow> db \<Rightarrow> db" where
  "undo_retrieval pair_id token = update_pairs (\<lambda>p. p_id p = pair_id \<and> holds_lease RUNNING token p)
     (\<lambda>p. p\<lparr>p_status := PENDING, p_lease_owner := None, p_lease_until := None,
            p_attempt_count := p_attempt_count p - 1\<rparr>)"

definition undo_evaluation :: "string \<Rightarrow> string \<Rightarrow> db \<Rightarrow> db" where
  "undo_evaluation pair_id token = update_pairs (\<lambda>p. p_id p = pair_id \<and> holds_lease STAGE3_RUNNING token p)
     (\<lambda>p. p\<lparr>p_status := SHORTLISTED, p_lease_owner := None, p_lease_until := None\<rparr>)"

fun publish_claims ::
  "(db \<Rightarrow> db) \<Rightarrow> (string \<Rightarrow> bool) \<Rightarrow> (string \<Rightarrow> string \<Rightarrow> db \<Rightarrow> db) \<Rightarrow> (string \<times> string) list \<Rightarrow> db \<Rightarrow> db" where
  "publish_claims race published undo [] s = s"
| "publish_claims race published undo ((i, token) # claims) s =
     publish_claims race published undo claims
       (if published i then race s else undo i token (race s))"

definition coordinate_one_campaign ::
  "settings \<Rightarrow> externals \<Rightarrow> int \<Rightarrow> (db \<Rightarrow> db) \<Rightarrow> (string \<Rightarrow> bool) \<Rightarrow> (string \<Rightarrow> bool) \<Rightarrow> string \<Rightarrow> db \<Rightarrow>
   unit result \<times> db" where
  "coordinate_one_campaign cfg ext now race locked published campaign_id s =
    (case dispatch_pairs cfg ext now locked campaign_id s of
       (reserved, s1) \<Rightarrow>
         let s2 = publish_claims race published undo_retrieval reserved s1 in
         (case finalize_ready_jds now race campaign_id (race s2) of
            (Inl e, s3) \<Rightarrow> (Inl e, s3)
          | (Inr _, s3) \<Rightarrow>
            (case dispatch_stage3 cfg ext now locked campaign_id (race s3) of
               (claims, s4) \<Rightarrow>
                 let s5 = publish_claims race published undo_evaluation claims s4 in
                 (Inr (), snd (finalize_campaign now campaign_id (race s5))))))"

end
