(* ===== verification/Intake.thy ===== *)
theory Intake
  imports Persistence
begin

text \<open>
  Campaign intake: the archive importer of \<open>app/campaigns/intake.py\<close> and the campaign endpoints of
  \<open>app/api/campaigns.py\<close> that create, fill and start a campaign. The ZIP reader, the hash functions
  and the request stream are other libraries' work and enter as their results.
\<close>

section \<open>Archive members\<close>

text \<open>What \<open>zipfile\<close> reports of a member; \<open>m_content\<close> is \<open>None\<close> when it cannot be read.\<close>

record member =
  m_filename :: string
  m_is_dir :: bool
  m_file_size :: int
  m_compress_ok :: bool
  m_content :: "string option"

record hashes =
  sha256 :: "string \<Rightarrow> string"
  uuid5 :: "string \<Rightarrow> string"

definition is_ascii_letter :: "char \<Rightarrow> bool" where
  "is_ascii_letter c = (let n = of_char c :: nat in (65 \<le> n \<and> n \<le> 90) \<or> (97 \<le> n \<and> n \<le> 122))"

definition drive_prefix :: "string \<Rightarrow> bool" where
  "drive_prefix s = (case s of c # d # _ \<Rightarrow> is_ascii_letter c \<and> d = CHR '':'' | _ \<Rightarrow> False)"

definition backslash :: char where
  "backslash = CHR 0x5C"

definition member_name :: "string \<Rightarrow> string option" where
  "member_name raw =
    (let name = map (\<lambda>c. if c = backslash then CHR ''/'' else c) raw in
     if name = [] \<or> hd name = CHR ''/'' \<or>
        list_ex (\<lambda>part. part \<in> {[], ''.'', ''..''}) (split_char CHR ''/'' name) \<or>
        drive_prefix name \<or> 512 < length name
     then None else Some name)"

definition leaf_of :: "string \<Rightarrow> string" where
  "leaf_of name = last (split_char CHR ''/'' name)"

definition ends_with :: "string \<Rightarrow> string \<Rightarrow> bool" where
  "ends_with suffix s = (length suffix \<le> length s \<and> drop (length s - length suffix) s = suffix)"

section \<open>Acceptance of one document\<close>

type_synonym rejection = "string \<times> string"

definition candidate_id_of :: "hashes \<Rightarrow> string \<Rightarrow> nat \<Rightarrow> string \<Rightarrow> string" where
  "candidate_id_of h campaign_id ordinal source_name =
     uuid5 h (campaign_id @ '':'' @ show_nat ordinal @ '':'' @ source_name)"

definition accept_pdf ::
  "settings \<Rightarrow> externals \<Rightarrow> hashes \<Rightarrow> int \<Rightarrow> (db \<Rightarrow> db) \<Rightarrow> string \<Rightarrow> string \<Rightarrow> string \<Rightarrow> string \<Rightarrow> nat \<Rightarrow>
   db \<Rightarrow> ((rejection option \<times> string option) \<times> db) result" where
  "accept_pdf cfg ext h now race campaign_id owner_id source_name content ordinal s =
    (if PDF_MAX_BYTES cfg < int (length content)
     then Inr ((Some (source_name, ''PDF_TOO_LARGE''), None), s)
     else rbind (reserve_cv ext now race campaign_id owner_id
            (candidate_id_of h campaign_id ordinal source_name) source_name (sha256 h content)
            (Some content) s)
          (\<lambda>((created, v), t). Inr ((None,
             if created \<or> v_stage0_status v = S0_PENDING then Some (v_id v) else None), t)))"

section \<open>The importer\<close>

record import_state =
  i_accepted :: "(string \<times> string) list"
  i_rejected :: "rejection list"
  i_queued :: "string list"
  i_seen :: "string list"

definition reject :: "string \<Rightarrow> string \<Rightarrow> import_state \<Rightarrow> import_state" where
  "reject label code st = st\<lparr>i_rejected := i_rejected st @ [(label, code)]\<rparr>"

text \<open>Reading stops one byte after the limit; a longer member ends the import.\<close>

definition import_member ::
  "settings \<Rightarrow> externals \<Rightarrow> hashes \<Rightarrow> int \<Rightarrow> (db \<Rightarrow> db) \<Rightarrow> string \<Rightarrow> string \<Rightarrow> nat \<Rightarrow> member \<Rightarrow>
   import_state \<Rightarrow> db \<Rightarrow> (import_state \<times> db) result" where
  "import_member cfg ext h now race campaign_id owner_id ordinal m st s =
    (let label = take 512 (m_filename m) in
     if m_is_dir m then Inr (st, s)
     else (case member_name (m_filename m) of
         None \<Rightarrow> Inr (reject label ''UNSAFE_PATH'' st, s)
       | Some name \<Rightarrow>
         let leaf = leaf_of name; key = lower leaf in
         if key \<in> set (i_seen st) then Inr (reject label ''DUPLICATE_NAME'' st, s)
         else let st1 = st\<lparr>i_seen := key # i_seen st\<rparr> in
           if \<not> ends_with ''.pdf'' (lower leaf) then Inr (reject label ''NOT_PDF'' st1, s)
           else if PDF_MAX_BYTES cfg < m_file_size m then Inr (reject label ''PDF_TOO_LARGE'' st1, s)
           else if \<not> m_compress_ok m then Inr (reject label ''UNSUPPORTED_COMPRESSION'' st1, s)
           else (case m_content m of
               None \<Rightarrow> Inr (reject label ''CORRUPT_MEMBER'' st1, s)
             | Some content \<Rightarrow>
               if PDF_MAX_BYTES cfg + 1 < int (length content)
               then Inl (ArchiveLimitError ''ZIP member exceeds PDF limit'')
               else rbind (accept_pdf cfg ext h now race campaign_id owner_id leaf content ordinal s)
                 (\<lambda>((err, cv), t). Inr (case err of
                     Some r \<Rightarrow> (st1\<lparr>i_rejected := i_rejected st1 @ [r]\<rparr>, t)
                   | None \<Rightarrow> (st1\<lparr>i_accepted := i_accepted st1 @
                        [(label, candidate_id_of h campaign_id ordinal leaf)],
                      i_queued := i_queued st1 @ (case cv of None \<Rightarrow> [] | Some i \<Rightarrow> [i])\<rparr>, t))))))"

text \<open>Each accepted document is committed before the next member is read.\<close>

fun import_members ::
  "settings \<Rightarrow> externals \<Rightarrow> hashes \<Rightarrow> int \<Rightarrow> (db \<Rightarrow> db) \<Rightarrow> string \<Rightarrow> string \<Rightarrow> nat \<Rightarrow> member list \<Rightarrow>
   import_state \<Rightarrow> db \<Rightarrow> import_state result \<times> db" where
  "import_members cfg ext h now race campaign_id owner_id ordinal [] st s = (Inr st, s)"
| "import_members cfg ext h now race campaign_id owner_id ordinal (m # ms) st s =
     (case import_member cfg ext h now race campaign_id owner_id ordinal m st s of
        Inl e \<Rightarrow> (Inl e, s)
      | Inr (st', t) \<Rightarrow> import_members cfg ext h now race campaign_id owner_id (Suc ordinal) ms st' t)"

definition import_zip ::
  "settings \<Rightarrow> externals \<Rightarrow> hashes \<Rightarrow> int \<Rightarrow> (db \<Rightarrow> db) \<Rightarrow> string \<Rightarrow> string \<Rightarrow> member list option \<Rightarrow>
   db \<Rightarrow> (intake_report \<times> string list) result \<times> db" where
  "import_zip cfg ext h now race campaign_id owner_id archive s =
    (case archive of
       None \<Rightarrow> (Inl (ValueError ''Invalid ZIP archive''), s)
     | Some infos \<Rightarrow>
        if CAMPAIGN_MAX_MEMBERS cfg < int (length infos)
        then (Inl (ArchiveLimitError ''ZIP member count exceeds limit''), s)
        else if CAMPAIGN_UNCOMPRESSED_MAX_BYTES cfg < sum_list (map m_file_size infos)
        then (Inl (ArchiveLimitError ''ZIP uncompressed size exceeds limit''), s)
        else (case import_members cfg ext h now race campaign_id owner_id 0 infos
                \<lparr>i_accepted = [], i_rejected = [], i_queued = [], i_seen = []\<rparr> s of
            (Inl e, t) \<Rightarrow> (Inl e, t)
          | (Inr st, t) \<Rightarrow> (Inr (\<lparr>accepted = i_accepted st, rejected = i_rejected st\<rparr>, i_queued st), t)))"

section \<open>Start of processing\<close>

text \<open>
  The end of \<open>upload_archive\<close>: a report without an accepted document leaves the campaign open for
  another archive; otherwise the campaign starts and its hash identifies a repeated upload.
\<close>

definition store_report :: "string \<Rightarrow> intake_report \<Rightarrow> db \<Rightarrow> db" where
  "store_report campaign_id report = update_campaigns (\<lambda>c. c_id c = campaign_id)
     (\<lambda>c. c\<lparr>c_intake_report := Some report\<rparr>)"

definition open_campaign :: "string \<Rightarrow> string option \<Rightarrow> intake_report \<Rightarrow> db \<Rightarrow> db" where
  "open_campaign campaign_id archive_hash report = update_campaigns (\<lambda>c. c_id c = campaign_id)
     (\<lambda>c. c\<lparr>c_status := C_RUNNING, c_archive_hash := archive_hash, c_intake_report := Some report\<rparr>)"

text \<open>
  The body of the endpoint once access and size are checked: \<open>archive_hash\<close> is the digest of the
  bytes, \<open>archive\<close> what the ZIP reader makes of them. The campaign row is the one the request read
  first, so \<open>status\<close> is its status at that time.
\<close>

definition upload_archive ::
  "settings \<Rightarrow> externals \<Rightarrow> hashes \<Rightarrow> int \<Rightarrow> (db \<Rightarrow> db) \<Rightarrow> campaign \<Rightarrow> string \<Rightarrow> member list option \<Rightarrow>
   db \<Rightarrow> (campaign_status \<times> intake_report \<times> string list) result \<times> db" where
  "upload_archive cfg ext h now race c archive_hash archive s =
    (if c_status c \<noteq> C_INTAKE then
       (case c_intake_report c of
          Some report \<Rightarrow> if c_archive_hash c = Some archive_hash
            then (Inr (c_status c, report, []), s)
            else (Inl (HTTPException 409 ''Campaign intake is closed''), s)
        | None \<Rightarrow> (Inl (HTTPException 409 ''Campaign intake is closed''), s))
     else (case import_zip cfg ext h now race (c_id c) (c_owner_id c) archive s of
         (Inl (ArchiveLimitError msg), t) \<Rightarrow> (Inl (HTTPException 413 msg), t)
       | (Inl (ValueError msg), t) \<Rightarrow> (Inl (HTTPException 422 msg), t)
       | (Inl e, t) \<Rightarrow> (Inl e, t)
       | (Inr (report, queued), t) \<Rightarrow>
           if accepted report = [] then (Inr (C_INTAKE, report, []), store_report (c_id c) report t)
           else (Inr (C_RUNNING, report, queued), open_campaign (c_id c) (Some archive_hash) report t)))"

end
