(* ===== verification/Campaign_Invariants.thy ===== *)
theory Campaign_Invariants
  imports Workers Intake
begin

text \<open>
  The invariants of the campaign tables. A pair's row has a shape that its status dictates; its
  status is limited by the state of its document and of its JD, and the JD's by its campaign. The
  generic lemmas reduce the preservation of each invariant by an update of the pairs to a condition
  on the single row.
\<close>

section \<open>Row shapes\<close>

definition after_cutoff :: "pair_status \<Rightarrow> bool" where
  "after_cutoff st = (st \<in> {CUTOFF_EXCLUDED, SHORTLISTED, STAGE3_RUNNING, SUCCESS, REVIEW_REQUIRED,
     EVALUATION_FAILED})"

definition leased :: "pair_status \<Rightarrow> bool" where
  "leased st = (st \<in> {RUNNING, STAGE3_RUNNING})"

text \<open>A pair that was given to the LLM: its place in the shortlist is taken for good.\<close>

definition shortlisted :: "pair \<Rightarrow> bool" where
  "shortlisted p \<longleftrightarrow> p_status p \<in> {SHORTLISTED, STAGE3_RUNNING, SUCCESS, EVALUATION_FAILED} \<or>
     (p_status p = REVIEW_REQUIRED \<and> p_stage3_status p \<noteq> None)"

text \<open>
  Leases belong to the two running states; a parked pair keeps only its wake-up time. Attempts stay
  within the bound, and below it while another retrieval attempt is due.
\<close>

definition pair_shape :: "settings \<Rightarrow> pair \<Rightarrow> bool" where
  "pair_shape cfg p \<longleftrightarrow>
     (p_lease_owner p \<noteq> None \<longleftrightarrow> leased (p_status p)) \<and>
     (leased (p_status p) \<longrightarrow> p_lease_until p \<noteq> None) \<and>
     (p_lease_until p \<noteq> None \<longrightarrow> leased (p_status p) \<or> p_status p = SHORTLISTED) \<and>
     0 \<le> p_attempt_count p \<and> p_attempt_count p \<le> RUN_MAX_ATTEMPTS cfg \<and>
     (p_status p = PENDING \<longrightarrow> p_attempt_count p < RUN_MAX_ATTEMPTS cfg) \<and>
     (p_status p = RUNNING \<longrightarrow> 0 < p_attempt_count p) \<and>
     0 \<le> p_stage3_attempt_count p \<and>
     (after_cutoff (p_status p) \<longleftrightarrow> p_stage2_rank p \<noteq> None) \<and> p_stage2_rank p \<noteq> Some 0 \<and>
     (p_stage3_status p \<noteq> None \<longrightarrow> p_status p \<in> {SUCCESS, REVIEW_REQUIRED, EVALUATION_FAILED}) \<and>
     (0 < p_stage3_attempt_count p \<longrightarrow> shortlisted p)"

fun cv_allows :: "stage0_status \<Rightarrow> pair_status \<Rightarrow> bool" where
  "cv_allows S0_PENDING st = (st = PENDING)"
| "cv_allows S0_RUNNING st = (st = PENDING)"
| "cv_allows S0_FAILED st = (st = EXTRACTION_FAILED)"
| "cv_allows S0_SUCCEEDED st = (st \<noteq> EXTRACTION_FAILED)"

fun jd_allows :: "jd_status \<Rightarrow> pair_status \<Rightarrow> bool" where
  "jd_allows J_PENDING st = (\<not> after_cutoff st)"
| "jd_allows J_PROCESSING st = (\<not> after_cutoff st)"
| "jd_allows J_SHORTLISTED st = (st \<notin> {PENDING, RUNNING, STAGE2_READY})"
| "jd_allows J_COMPLETED st = terminal st"
| "jd_allows J_FAILED st = False"

fun campaign_allows :: "campaign_status \<Rightarrow> jd_status \<Rightarrow> bool" where
  "campaign_allows C_INTAKE st = (st = J_PENDING)"
| "campaign_allows C_RUNNING st = (st \<noteq> J_FAILED)"
| "campaign_allows C_COMPLETED st = (st = J_COMPLETED)"
| "campaign_allows C_FAILED st = False"

section \<open>The invariants\<close>

definition rows_ok :: "settings \<Rightarrow> db \<Rightarrow> bool" where
  "rows_ok cfg s \<longleftrightarrow> (\<forall>p\<in>set (pairs s). pair_shape cfg p \<and>
     (\<forall>v\<in>set (cvs s). v_id v = p_cv_id p \<longrightarrow> cv_allows (v_stage0_status v) (p_status p)) \<and>
     (\<forall>j\<in>set (jds s). j_id j = p_jd_id p \<longrightarrow> jd_allows (j_status j) (p_status p)))"

definition scopes_ok :: "db \<Rightarrow> bool" where
  "scopes_ok s \<longleftrightarrow>
     (\<forall>j\<in>set (jds s). 1 \<le> j_stage3_cap j \<and> j_stage3_cap j \<le> MAX_CANDIDATES_PER_JD \<and>
        (\<forall>c\<in>set (campaigns s). c_id c = j_campaign_id j \<longrightarrow> campaign_allows (c_status c) (j_status j))) \<and>
     (\<forall>v\<in>set (cvs s). cv_checks v)"

text \<open>Every JD of a campaign has a pair with every CV of it.\<close>

definition pairs_complete :: "db \<Rightarrow> bool" where
  "pairs_complete s \<longleftrightarrow> (\<forall>j\<in>set (jds s). \<forall>v\<in>set (cvs s). j_campaign_id j = v_campaign_id v \<longrightarrow>
     (\<exists>p\<in>set (pairs s). p_jd_id p = j_id j \<and> p_cv_id p = v_id v))"

definition shortlist_count :: "string \<Rightarrow> db \<Rightarrow> nat" where
  "shortlist_count jd_id s = count_where (\<lambda>p. p_jd_id p = jd_id \<and> shortlisted p) (pairs s)"

definition caps_ok :: "db \<Rightarrow> bool" where
  "caps_ok s \<longleftrightarrow> (\<forall>j\<in>set (jds s). int (shortlist_count (j_id j) s) \<le> j_stage3_cap j)"

definition running_count :: "string \<Rightarrow> db \<Rightarrow> nat" where
  "running_count campaign_id s =
     count_where (\<lambda>p. p_campaign_id p = campaign_id \<and> p_status p = RUNNING) (pairs s)"

definition status_count :: "pair_status \<Rightarrow> db \<Rightarrow> nat" where
  "status_count st s = count_where (\<lambda>p. p_status p = st) (pairs s)"

definition inflight_ok :: "settings \<Rightarrow> db \<Rightarrow> bool" where
  "inflight_ok cfg s \<longleftrightarrow>
     (\<forall>i. int (running_count i s) \<le> CAMPAIGN_RETRIEVAL_INFLIGHT cfg) \<and>
     int (status_count RUNNING s) \<le> CAMPAIGN_RETRIEVAL_GLOBAL_INFLIGHT cfg \<and>
     int (status_count STAGE3_RUNNING s) \<le> CAMPAIGN_STAGE3_GLOBAL_INFLIGHT cfg"

text \<open>Identifiers and lease tokens were all drawn from \<open>uuid4\<close>.\<close>

definition ids_issued :: "externals \<Rightarrow> db \<Rightarrow> bool" where
  "ids_issued ext s \<longleftrightarrow>
     c_id ` set (campaigns s) \<subseteq> issued ext s \<and> j_id ` set (jds s) \<subseteq> issued ext s \<and>
     v_id ` set (cvs s) \<subseteq> issued ext s \<and> p_id ` set (pairs s) \<subseteq> issued ext s \<and>
     (\<forall>p\<in>set (pairs s). \<forall>t. p_lease_owner p = Some t \<longrightarrow> t \<in> issued ext s)"

definition tables_ok :: "settings \<Rightarrow> externals \<Rightarrow> db \<Rightarrow> bool" where
  "tables_ok cfg ext s \<longleftrightarrow> unique_constraints s \<and> foreign_keys s \<and> ids_issued ext s \<and> rows_ok cfg s \<and>
     scopes_ok s \<and> pairs_complete s \<and> caps_ok s \<and> inflight_ok cfg s"

definition empty_db :: db where
  "empty_db = \<lparr>campaigns = [], jds = [], cvs = [], pairs = [], uuids = 0\<rparr>"

named_theorems inv_defs "definitions of the table invariants"

lemmas [inv_defs] = unique_constraints_def foreign_keys_def ids_issued_def rows_ok_def scopes_ok_def
  pairs_complete_def caps_ok_def inflight_ok_def shortlist_count_def running_count_def status_count_def

lemma tables_ok_empty: "settings_ok cfg \<Longrightarrow> tables_ok cfg ext empty_db"
  using settings_okD [of cfg] by (simp add: tables_ok_def inv_defs empty_db_def)

lemma tables_okD:
  assumes "tables_ok cfg ext s"
  shows "unique_constraints s" "foreign_keys s" "ids_issued ext s" "rows_ok cfg s" "scopes_ok s"
    "pairs_complete s" "caps_ok s" "inflight_ok cfg s"
  using assms by (simp_all add: tables_ok_def)

lemma distinct_keysD:
  assumes "unique_constraints s"
  shows "distinct (map c_id (campaigns s))" "distinct (map j_id (jds s))"
    "distinct (map v_id (cvs s))" "distinct (map p_id (pairs s))"
  using assms by (simp_all add: unique_constraints_def)

lemma rows_okD:
  assumes "rows_ok cfg s" "p \<in> set (pairs s)"
  shows "pair_shape cfg p"
    "v \<in> set (cvs s) \<Longrightarrow> v_id v = p_cv_id p \<Longrightarrow> cv_allows (v_stage0_status v) (p_status p)"
    "j \<in> set (jds s) \<Longrightarrow> j_id j = p_jd_id p \<Longrightarrow> jd_allows (j_status j) (p_status p)"
  using assms by (simp_all add: rows_ok_def)

lemma foreign_keysD:
  assumes "foreign_keys s" "p \<in> set (pairs s)"
  shows "\<exists>v\<in>set (cvs s). v_id v = p_cv_id p \<and> v_campaign_id v = p_campaign_id p"
    "\<exists>j\<in>set (jds s). j_id j = p_jd_id p \<and> j_campaign_id j = p_campaign_id p"
proof -
  have "(p_campaign_id p, p_cv_id p) \<in> (\<lambda>v. (v_campaign_id v, v_id v)) ` set (cvs s)"
    "(p_campaign_id p, p_jd_id p) \<in> (\<lambda>j. (j_campaign_id j, j_id j)) ` set (jds s)"
    using assms by (simp_all add: foreign_keys_def)
  then show "\<exists>v\<in>set (cvs s). v_id v = p_cv_id p \<and> v_campaign_id v = p_campaign_id p"
    "\<exists>j\<in>set (jds s). j_id j = p_jd_id p \<and> j_campaign_id j = p_campaign_id p"
    by auto
qed

text \<open>The table checks follow from the row shapes.\<close>

lemma tables_ok_checks:
  assumes "tables_ok cfg ext s"
  shows "check_constraints s"
proof -
  have "pair_checks p" if "p \<in> set (pairs s)" for p
    using rows_okD(1) [OF tables_okD(4) [OF assms] that]
    by (auto simp: pair_checks_def pair_shape_def split: option.splits)
  then show ?thesis
    using tables_okD(5) [OF assms]
    by (auto simp: check_constraints_def scopes_ok_def jd_checks_def list_all_iff)
qed

text \<open>
  A campaign has exactly one pair for every JD and CV of it: the foreign keys keep the pairs within
  the product, the unique constraint makes them distinct, and completeness covers it.
\<close>

lemma campaign_pairs_count:
  assumes "unique_constraints s" "foreign_keys s" "pairs_complete s"
  shows "count_where (\<lambda>p. p_campaign_id p = i) (pairs s) =
    count_where (\<lambda>j. j_campaign_id j = i) (jds s) * count_where (\<lambda>v. v_campaign_id v = i) (cvs s)"
proof -
  let ?ps = "filter (\<lambda>p. p_campaign_id p = i) (pairs s)" and ?js = "filter (\<lambda>j. j_campaign_id j = i) (jds s)"
    and ?vs = "filter (\<lambda>v. v_campaign_id v = i) (cvs s)" and ?k = "\<lambda>p. (p_jd_id p, p_cv_id p)"
  have d: "distinct (map ?k ?ps)" "distinct (map j_id ?js)" "distinct (map v_id ?vs)"
    using assms(1) by (simp_all add: unique_constraints_def distinct_map_filter)
  have "?k ` set ?ps = j_id ` set ?js \<times> v_id ` set ?vs"
  proof (intro equalityI subsetI)
    fix x assume "x \<in> ?k ` set ?ps"
    then obtain p where p: "p \<in> set (pairs s)" "p_campaign_id p = i" "x = ?k p" by auto
    obtain v j where "v \<in> set ?vs" "v_id v = p_cv_id p" "j \<in> set ?js" "j_id j = p_jd_id p"
      using foreign_keysD [OF assms(2) p(1)] p(2) by auto
    then show "x \<in> j_id ` set ?js \<times> v_id ` set ?vs" using p(3) by (metis SigmaI imageI)
  next
    fix x assume "x \<in> j_id ` set ?js \<times> v_id ` set ?vs"
    then obtain j v where jv: "j \<in> set (jds s)" "j_campaign_id j = i" "v \<in> set (cvs s)" "v_campaign_id v = i"
      "x = (j_id j, v_id v)" by auto
    have "j_campaign_id j = v_campaign_id v" using jv by simp
    then obtain p where p: "p \<in> set (pairs s)" "p_jd_id p = j_id j" "p_cv_id p = v_id v"
      using assms(3) [unfolded pairs_complete_def] jv(1,3) by blast
    obtain k where "k \<in> set (jds s)" "j_id k = j_id j" "j_campaign_id k = p_campaign_id p"
      using foreign_keysD(2) [OF assms(2) p(1)] p(2) by auto
    then have "p_campaign_id p = i"
      using distinct_key_eq [OF distinct_keysD(2) [OF assms(1)], of k j] jv by auto
    then have "p \<in> set ?ps" "x = ?k p" using p jv(5) by simp_all
    then show "x \<in> ?k ` set ?ps" by (rule image_eqI [rotated])
  qed
  then have eq: "set (map ?k ?ps) = set (map j_id ?js) \<times> set (map v_id ?vs)" by (simp only: set_map)
  have "length (map ?k ?ps) = card (set (map ?k ?ps))" by (rule distinct_card [OF d(1), symmetric])
  also have "\<dots> = card (set (map j_id ?js)) * card (set (map v_id ?vs))"
    by (simp only: eq card_cartesian_product)
  also have "\<dots> = length (map j_id ?js) * length (map v_id ?vs)"
    by (simp only: distinct_card [OF d(2)] distinct_card [OF d(3)])
  finally show ?thesis by (simp add: count_where_def)
qed

section \<open>Updates of the pairs\<close>

text \<open>A row update that keeps the row's identity.\<close>

definition same_keys :: "pair \<Rightarrow> pair \<Rightarrow> bool" where
  "same_keys p q \<longleftrightarrow> p_id q = p_id p \<and> p_campaign_id q = p_campaign_id p \<and> p_jd_id q = p_jd_id p \<and>
     p_cv_id q = p_cv_id p"

text \<open>
  What an update may do to a row of a state: keep the keys and the shape, stay within what document
  and JD allow, take a place in the shortlist only if it had one, and use a token of a given set.
\<close>

definition row_step :: "settings \<Rightarrow> string set \<Rightarrow> db \<Rightarrow> pair \<Rightarrow> pair \<Rightarrow> bool" where
  "row_step cfg toks s p q \<longleftrightarrow> same_keys p q \<and> pair_shape cfg q \<and>
     (\<forall>v\<in>set (cvs s). v_id v = p_cv_id p \<longrightarrow> cv_allows (v_stage0_status v) (p_status q)) \<and>
     (\<forall>j\<in>set (jds s). j_id j = p_jd_id p \<longrightarrow> jd_allows (j_status j) (p_status q)) \<and>
     (shortlisted q \<longrightarrow> shortlisted p) \<and>
     (\<forall>t. p_lease_owner q = Some t \<longrightarrow> t \<in> toks)"

text \<open>A row that runs afterwards ran before.\<close>

definition row_quiet :: "pair \<Rightarrow> pair \<Rightarrow> bool" where
  "row_quiet p q \<longleftrightarrow> (p_status q = RUNNING \<longrightarrow> p_status p = RUNNING) \<and>
     (p_status q = STAGE3_RUNNING \<longrightarrow> p_status p = STAGE3_RUNNING)"

definition keeps_keys :: "(pair \<Rightarrow> bool) \<Rightarrow> (pair \<Rightarrow> pair) \<Rightarrow> pair list \<Rightarrow> bool" where
  "keeps_keys P f rows \<longleftrightarrow> (\<forall>p\<in>set rows. P p \<longrightarrow> same_keys p (f p))"

lemma keeps_keys_map:
  assumes "keeps_keys P f rows"
  shows "map p_id (update_where P f rows) = map p_id rows"
    "map (\<lambda>p. (p_jd_id p, p_cv_id p)) (update_where P f rows) = map (\<lambda>p. (p_jd_id p, p_cv_id p)) rows"
  using assms by (auto simp: update_where_def keeps_keys_def same_keys_def)

lemma update_pairs_keys:
  assumes "keeps_keys P f (pairs s)" "t = (update_pairs P f s)\<lparr>uuids := n\<rparr>"
  shows "unique_constraints t = unique_constraints s"
    "foreign_keys s \<Longrightarrow> foreign_keys t" "pairs_complete s \<Longrightarrow> pairs_complete t"
proof -
  note m = keeps_keys_map [OF assms(1)]
  show "unique_constraints t = unique_constraints s"
    by (simp add: unique_constraints_def m assms(2))
  show "foreign_keys s \<Longrightarrow> foreign_keys t"
    using assms(1) by (auto simp: foreign_keys_def in_update_where keeps_keys_def same_keys_def assms(2))
  have bwd: "\<exists>q\<in>set (update_where P f (pairs s)). same_keys p q" if "p \<in> set (pairs s)" for p
    using in_update_whereI [OF that, of P f] assms(1) that
    by (intro bexI [of _ "if P p then f p else p"]) (auto simp: keeps_keys_def same_keys_def)
  show "pairs_complete s \<Longrightarrow> pairs_complete t"
    using bwd by (fastforce simp: pairs_complete_def same_keys_def assms(2))
qed

lemma inflight_mono:
  assumes "inflight_ok cfg s" "\<And>i. running_count i t \<le> running_count i s"
    "status_count RUNNING t \<le> status_count RUNNING s"
    "status_count STAGE3_RUNNING t \<le> status_count STAGE3_RUNNING s"
  shows "inflight_ok cfg t"
proof -
  have "int (running_count i t) \<le> int (running_count i s)" for i using assms(2) by simp
  then show ?thesis using assms(1,3,4) unfolding inflight_ok_def by (meson of_nat_mono order_trans)
qed

lemma caps_mono:
  assumes "caps_ok s" "jds t = jds s" "\<And>i. shortlist_count i t \<le> shortlist_count i s"
  shows "caps_ok t"
  unfolding caps_ok_def assms(2)
proof
  fix j assume "j \<in> set (jds s)"
  then have "int (shortlist_count (j_id j) s) \<le> j_stage3_cap j" using assms(1) by (simp add: caps_ok_def)
  then show "int (shortlist_count (j_id j) t) \<le> j_stage3_cap j"
    using assms(3) [of "j_id j"] by linarith
qed

lemma update_pairs_base:
  assumes ok: "tables_ok cfg ext s" and t: "t = (update_pairs P f s)\<lparr>uuids := n\<rparr>" and n: "uuids s \<le> n"
    and step: "\<And>p. p \<in> set (pairs s) \<Longrightarrow> P p \<Longrightarrow> row_step cfg (issued ext t) s p (f p)"
    and inflight: "inflight_ok cfg t"
  shows "tables_ok cfg ext t"
proof -
  note d = tables_okD [OF ok]
  have keys: "keeps_keys P f (pairs s)"
    using step by (simp add: keeps_keys_def row_step_def)
  have rows: "rows_ok cfg t"
    using d(4) step by (auto simp: rows_ok_def in_update_where row_step_def same_keys_def t)
  have sub: "issued ext s \<subseteq> issued ext t" using n by (auto simp: issued_def t)
  have pids: "p_id ` set (pairs t) = p_id ` set (pairs s)"
    using keeps_keys_map(1) [OF keys] by (simp add: t flip: set_map)
  have "p_lease_owner q = Some k \<Longrightarrow> k \<in> issued ext t" if "q \<in> set (pairs t)" for q k
    using that d(3) sub step by (auto simp: t ids_issued_def row_step_def elim!: update_where_cases)
  then have ids: "ids_issued ext t"
    using d(3) sub pids by (auto simp: ids_issued_def t)
  have sc: "shortlist_count i t \<le> shortlist_count i s" for i
    unfolding shortlist_count_def t
    by (simp, rule count_update_mono) (drule (1) step, auto simp: row_step_def same_keys_def)
  have caps: "caps_ok t" by (rule caps_mono [OF d(7) _ sc]) (simp add: t)
  have scopes: "scopes_ok t" using d(5) by (simp add: scopes_ok_def t)
  show ?thesis
    unfolding tables_ok_def
    using rows ids caps inflight scopes d(1) update_pairs_keys(1) [OF keys t]
      update_pairs_keys(2) [OF keys t d(2)] update_pairs_keys(3) [OF keys t d(6)] by blast
qed

lemma update_pairs_ok:
  assumes ok: "tables_ok cfg ext s"
    and step: "\<And>p. p \<in> set (pairs s) \<Longrightarrow> P p \<Longrightarrow> row_step cfg (issued ext s) s p (f p) \<and> row_quiet p (f p)"
  shows "tables_ok cfg ext (update_pairs P f s)"
proof (rule update_pairs_base [OF ok, where P = P and f = f and n = "uuids s"])
  show "update_pairs P f s = (update_pairs P f s)\<lparr>uuids := uuids s\<rparr>" by (simp add: update_pairs_def)
  have a: "running_count i (update_pairs P f s) \<le> running_count i s" for i
    unfolding running_count_def update_table_simps
    by (rule count_update_mono) (drule (1) step, auto simp: row_step_def row_quiet_def same_keys_def)
  have b: "st = RUNNING \<or> st = STAGE3_RUNNING \<Longrightarrow> status_count st (update_pairs P f s) \<le> status_count st s" for st
    unfolding status_count_def update_table_simps
    by (rule count_update_mono) (drule (1) step, auto simp: row_quiet_def)
  show "inflight_ok cfg (update_pairs P f s)"
    by (rule inflight_mono [OF tables_okD(8) [OF ok] a b b]) simp_all
qed (simp_all add: step)

section \<open>Moves of a status\<close>

lemma cv_allows_move:
  "cv_allows c st \<Longrightarrow> st \<notin> {PENDING, EXTRACTION_FAILED} \<Longrightarrow> st' \<noteq> EXTRACTION_FAILED \<Longrightarrow> cv_allows c st'"
  by (cases c) simp_all

lemma jd_allows_before:
  "jd_allows c st \<Longrightarrow> st \<in> {PENDING, RUNNING, STAGE2_READY} \<Longrightarrow> \<not> after_cutoff st' \<Longrightarrow> jd_allows c st'"
  by (cases c) auto

lemma jd_allows_after:
  "jd_allows c st \<Longrightarrow> st \<in> {SHORTLISTED, STAGE3_RUNNING} \<Longrightarrow>
     st' \<notin> {PENDING, RUNNING, STAGE2_READY} \<Longrightarrow> jd_allows c st'"
  by (cases c) (auto simp: after_cutoff_def)

text \<open>A move of one row from a retrieval state, and from a Stage 3 state.\<close>

lemma row_step_retrieval:
  assumes "rows_ok cfg s" "p \<in> set (pairs s)" "p_status p = RUNNING" "same_keys p q" "pair_shape cfg q"
    "\<not> after_cutoff (p_status q)" "p_status q \<noteq> EXTRACTION_FAILED" "p_lease_owner q = None"
  shows "row_step cfg toks s p q"
  using assms rows_okD [OF assms(1,2)]
  by (auto simp: row_step_def shortlisted_def after_cutoff_def
      intro: cv_allows_move [of _ RUNNING] jd_allows_before [of _ RUNNING])

lemma row_step_evaluation:
  assumes "rows_ok cfg s" "p \<in> set (pairs s)" "p_status p \<in> {SHORTLISTED, STAGE3_RUNNING}" "same_keys p q"
    "pair_shape cfg q" "p_status q \<in> {SHORTLISTED, STAGE3_RUNNING, SUCCESS, REVIEW_REQUIRED, EVALUATION_FAILED}"
    "\<forall>t. p_lease_owner q = Some t \<longrightarrow> t \<in> toks"
  shows "row_step cfg toks s p q"
  using assms rows_okD [OF assms(1,2)]
  by (auto simp: row_step_def shortlisted_def
      intro: cv_allows_move [of _ "p_status p"] jd_allows_after [of _ "p_status p"])

end
