(* ===== verification/Pair_Operations.thy ===== *)
theory Pair_Operations
  imports Campaign_Invariants
begin

text \<open>
  The operations that touch the rows of pairs keep the table invariants: admission and expiry of
  leases, the results of retrieval and evaluation workers, and the undoing of an unpublished claim.
\<close>

section \<open>One row\<close>

lemma by_id_unique:
  assumes "distinct (map k rows)" "find (\<lambda>r. k r = i) rows = Some r" "q \<in> set rows" "k q = i"
  shows "q = r"
  using assms find_Some_in [OF assms(2)] by (metis (mono_tags) distinct_map inj_onD)

lemma pair_by_id_D:
  assumes "pair_by_id i s = Some p"
  shows "p \<in> set (pairs s)" "p_id p = i"
  using find_Some_in [OF assms [unfolded pair_by_id_def]] by simp_all

lemma replace_pair_ok:
  assumes ok: "tables_ok cfg ext s" and p: "pair_by_id i s = Some p"
    and step: "row_step cfg (issued ext s) s p q" "row_quiet p q"
  shows "tables_ok cfg ext (replace_pair i q s)"
  unfolding replace_pair_def
proof (rule update_pairs_ok [OF ok])
  fix r assume "r \<in> set (pairs s)" "p_id r = i"
  then have "r = p"
    using by_id_unique [of p_id "pairs s" i p r] distinct_keysD(4) [OF tables_okD(1) [OF ok]] p
    by (simp add: pair_by_id_def)
  then show "row_step cfg (issued ext s) s r q \<and> row_quiet r q" using step by simp
qed

named_theorems shape_simps "unfolding of a row's shape"

lemmas [shape_simps] = pair_shape_def leased_def after_cutoff_def shortlisted_def same_keys_def row_quiet_def

section \<open>Retrieval results\<close>

lemma store_pair_work_cases:
  assumes "store_pair_work cfg now ver work p = Inr q"
  obtains (retry) reasons where "q = stage1_stored now work reasons p\<lparr>p_status := PENDING\<rparr>"
      "p_attempt_count p < RUN_MAX_ATTEMPTS cfg" "w_error work \<noteq> None"
  | (failed) reasons where
      "q = stage1_stored now work reasons p\<lparr>p_status := PROCESSING_FAILED, p_failure_code := w_error work\<rparr>"
      "RUN_MAX_ATTEMPTS cfg \<le> p_attempt_count p" "w_error work \<noteq> None"
  | (rejected) reasons where "q = stage1_stored now work reasons p\<lparr>p_status := FILTER_REJECTED\<rparr>"
      "w_error work = None" "w_decision work = Some ''FAIL''"
  | (ready) reasons evidence score where "q = stage1_stored now work reasons p\<lparr>p_status := STAGE2_READY,
        p_stage2_score := Some (num_of score),
        p_result_snapshot := Some [(''stage2_evidence'', JDict evidence),
          (''document_version'', JNum (of_int ver))]\<rparr>"
      "w_error work = None" "w_evidence work = Some evidence" "dindex evidence ''composite_score'' = Inr score"
proof -
  obtain reasons where r: "(case w_details work of None \<Rightarrow> Inr [] | Some d \<Rightarrow> review_checks d) = Inr reasons"
    using assms unfolding store_pair_work_def rbind_Inr_conv by blast
  note q = assms [unfolded store_pair_work_def r rbind_simps Let_def]
  consider "w_error work \<noteq> None" | "w_error work = None" "w_decision work = Some ''FAIL''"
    | "w_error work = None" "w_decision work \<noteq> Some ''FAIL''" by blast
  then show thesis
  proof cases
    case 1
    then show ?thesis
      using q by (cases "p_attempt_count p < RUN_MAX_ATTEMPTS cfg") (auto intro: retry failed)
  next
    case 2
    then show ?thesis using q by (auto intro: rejected)
  next
    case 3
    then obtain evidence where ev: "w_evidence work = Some evidence" using q by (cases "w_evidence work") auto
    then obtain score where sc: "dindex evidence ''composite_score'' = Inr score"
      using q 3 by (cases "dindex evidence ''composite_score''") auto
    show ?thesis using q 3 ev sc by (intro ready [OF _ _ ev sc]) auto
  qed
qed

lemma store_pair_work_shape:
  assumes "store_pair_work cfg now ver work p = Inr q" "pair_shape cfg p" "p_status p = RUNNING"
  shows "same_keys p q \<and> pair_shape cfg q \<and> p_lease_owner q = None \<and> row_quiet p q \<and>
    p_status q \<in> {PENDING, PROCESSING_FAILED, FILTER_REJECTED, STAGE2_READY}"
  using assms(1)
  by (cases rule: store_pair_work_cases) (use assms(2,3) in \<open>simp_all add: stage1_stored_def shape_simps\<close>)

lemma finish_retrieval_ok:
  assumes ok: "tables_ok cfg ext s"
  shows "tables_ok cfg ext (snd (finish_retrieval cfg now i token ver work s))"
proof (cases "pair_by_id i s")
  case None
  then show ?thesis using ok by (simp add: finish_retrieval_def)
next
  case (Some p)
  show ?thesis
  proof (cases "holds_lease RUNNING token p \<and> (\<exists>q. store_pair_work cfg now ver work p = Inr q)")
    case True
    then obtain q where q: "store_pair_work cfg now ver work p = Inr q" and st: "p_status p = RUNNING"
      by (auto simp: holds_lease_def)
    note p = pair_by_id_D(1) [OF Some]
    note shape = store_pair_work_shape [OF q rows_okD(1) [OF tables_okD(4) [OF ok] p] st]
    then have quiet: "row_quiet p q" by simp
    have "row_step cfg (issued ext s) s p q"
      using shape by (intro row_step_retrieval [OF tables_okD(4) [OF ok] p st])
        (auto simp: after_cutoff_def)
    then show ?thesis
      using True Some q replace_pair_ok [OF ok Some _ quiet] by (simp add: finish_retrieval_def)
  next
    case False
    then show ?thesis using ok Some by (auto simp: finish_retrieval_def split: sum.splits)
  qed
qed

lemma undo_retrieval_ok: "tables_ok cfg ext s \<Longrightarrow> tables_ok cfg ext (undo_retrieval i token s)"
  unfolding undo_retrieval_def
proof (rule update_pairs_ok, assumption)
  fix p assume ok: "tables_ok cfg ext s" and p: "p \<in> set (pairs s)" and "p_id p = i \<and> holds_lease RUNNING token p"
  then have st: "p_status p = RUNNING" by (simp add: holds_lease_def)
  note rows = tables_okD(4) [OF ok]
  let ?q = "p\<lparr>p_status := PENDING, p_lease_owner := None, p_lease_until := None,
              p_attempt_count := p_attempt_count p - 1\<rparr>"
  have "pair_shape cfg ?q" using rows_okD(1) [OF rows p] st by (auto simp: shape_simps)
  then have "row_step cfg (issued ext s) s p ?q"
    by (intro row_step_retrieval [OF rows p st]) (auto simp: shape_simps)
  then show "row_step cfg (issued ext s) s p ?q \<and> row_quiet p ?q" by (simp add: row_quiet_def)
qed

lemma expire_retrieval_shape:
  assumes "pair_shape cfg p" "p_status p = RUNNING"
  shows "same_keys p (expire_retrieval cfg p)" "pair_shape cfg (expire_retrieval cfg p)"
    "p_lease_owner (expire_retrieval cfg p) = None" "row_quiet p (expire_retrieval cfg p)"
    "p_status (expire_retrieval cfg p) \<in> {PENDING, PROCESSING_FAILED}"
  using assms by (auto simp: expire_retrieval_def Let_def shape_simps)

lemma expire_retrievals_ok: "tables_ok cfg ext s \<Longrightarrow> tables_ok cfg ext (expire_retrievals cfg now i s)"
  unfolding expire_retrievals_def
proof (rule update_pairs_ok, assumption)
  fix p assume ok: "tables_ok cfg ext s" and p: "p \<in> set (pairs s)" and "p_campaign_id p = i \<and> p_status p = RUNNING \<and> lease_before now p"
  then have st: "p_status p = RUNNING" by simp
  note rows = tables_okD(4) [OF ok]
  note shape = expire_retrieval_shape [OF rows_okD(1) [OF rows p] st]
  show "row_step cfg (issued ext s) s p (expire_retrieval cfg p) \<and> row_quiet p (expire_retrieval cfg p)"
    using shape by (intro conjI row_step_retrieval [OF rows p st]) (auto simp: after_cutoff_def)
qed

section \<open>Evaluation results\<close>

lemma evaluation_update_ok:
  assumes ok: "tables_ok cfg ext s"
    and step: "\<And>p. p \<in> set (pairs s) \<Longrightarrow> P p \<Longrightarrow> pair_shape cfg p \<Longrightarrow>
      p_status p = STAGE3_RUNNING \<and> same_keys p (f p) \<and> pair_shape cfg (f p) \<and>
      p_status (f p) \<in> {SHORTLISTED, STAGE3_RUNNING, SUCCESS, REVIEW_REQUIRED, EVALUATION_FAILED} \<and>
      (p_lease_owner (f p) = None \<or> p_lease_owner (f p) = p_lease_owner p)"
  shows "tables_ok cfg ext (update_pairs P f s)"
proof (rule update_pairs_ok [OF ok])
  fix p assume p: "p \<in> set (pairs s)" and "P p"
  note rows = tables_okD(4) [OF ok]
  note st = step [OF p \<open>P p\<close> rows_okD(1) [OF rows p]]
  have "\<forall>t. p_lease_owner (f p) = Some t \<longrightarrow> t \<in> issued ext s"
    using st tables_okD(3) [OF ok] p by (auto simp: ids_issued_def)
  then show "row_step cfg (issued ext s) s p (f p) \<and> row_quiet p (f p)"
    using st by (intro conjI row_step_evaluation [OF rows p]) (auto simp: row_quiet_def)
qed

lemma replace_eq_update:
  assumes "pair_by_id i s = Some p" "distinct (map p_id (pairs s))"
  shows "replace_pair i (f p) s = update_pairs (\<lambda>q. p_id q = i) f s"
proof -
  have "q \<in> set (pairs s) \<Longrightarrow> p_id q = i \<Longrightarrow> q = p" for q
    using by_id_unique [OF assms(2), of i p q] assms(1) by (simp add: pair_by_id_def)
  then show ?thesis
    by (auto simp: replace_pair_def update_pairs_def update_where_def intro!: map_cong)
qed

lemma store_failure_shape:
  assumes "pair_shape cfg p" "p_status p = STAGE3_RUNNING"
  shows "same_keys p (store_failure cfg now attempt delay f p)"
    "pair_shape cfg (store_failure cfg now attempt delay f p)"
    "p_status (store_failure cfg now attempt delay f p) \<in> {SHORTLISTED, EVALUATION_FAILED}"
    "p_lease_owner (store_failure cfg now attempt delay f p) = None"
  using assms by (auto simp: store_failure_def shape_simps)

lemma store_evaluation_shape:
  assumes "pair_shape cfg p" "p_status p = STAGE3_RUNNING"
  shows "same_keys p (store_evaluation cfg now dump policy r p)"
    "pair_shape cfg (store_evaluation cfg now dump policy r p)"
    "p_status (store_evaluation cfg now dump policy r p) \<in> {SUCCESS, REVIEW_REQUIRED, EVALUATION_FAILED}"
    "p_lease_owner (store_evaluation cfg now dump policy r p) = None"
  using assms by (cases "fe_evaluation_status r"; auto simp: store_evaluation_def shape_simps)+

lemma park_pair_shape:
  assumes "pair_shape cfg p" "p_status p = STAGE3_RUNNING"
  shows "same_keys p (park_pair until p)" "pair_shape cfg (park_pair until p)"
  using assms by (auto simp: park_pair_def shape_simps)

lemma expire_evaluation_shape:
  assumes "pair_shape cfg p" "p_status p = STAGE3_RUNNING"
  shows "same_keys p (expire_evaluation cfg p)" "pair_shape cfg (expire_evaluation cfg p)"
    "p_status (expire_evaluation cfg p) \<in> {SHORTLISTED, EVALUATION_FAILED}"
    "p_lease_owner (expire_evaluation cfg p) = None"
  using assms by (auto simp: expire_evaluation_def Let_def shape_simps)

lemma delay_evaluation_ok:
  assumes "tables_ok cfg ext s"
  shows "tables_ok cfg ext (snd (delay_evaluation now wait i token s))"
proof -
  have "tables_ok cfg ext (update_pairs (\<lambda>p. p_id p = i \<and> holds_lease STAGE3_RUNNING token p) (park_pair (now + wait)) s)"
    using assms
    by (rule evaluation_update_ok) (auto simp: holds_lease_def park_pair_shape, auto simp: park_pair_def)
  then show ?thesis using assms by (simp add: delay_evaluation_def split: option.splits)
qed

lemma lease_at_id:
  assumes "tables_ok cfg ext s" "pair_by_id i s = Some p" "q \<in> set (pairs s)" "p_id q = i"
  shows "q = p"
  using by_id_unique [of p_id "pairs s" i p q] distinct_keysD(4) [OF tables_okD(1) [OF assms(1)]] assms
  by (simp add: pair_by_id_def)

lemma begin_attempt_ok:
  assumes ok: "tables_ok cfg ext s"
  shows "tables_ok cfg ext (snd (begin_attempt i token s))"
proof (cases "\<exists>p. pair_by_id i s = Some p \<and> holds_lease STAGE3_RUNNING token p")
  case True
  then obtain p where p: "pair_by_id i s = Some p" "holds_lease STAGE3_RUNNING token p" by blast
  have "tables_ok cfg ext (update_pairs (\<lambda>q. p_id q = i)
      (\<lambda>q. q\<lparr>p_stage3_attempt_count := p_stage3_attempt_count q + 1\<rparr>) s)"
  proof (rule evaluation_update_ok [OF ok])
    fix q assume "q \<in> set (pairs s)" "p_id q = i" "pair_shape cfg q"
    moreover from this have "p_status q = STAGE3_RUNNING"
      using lease_at_id [OF ok p(1)] p(2) by (simp add: holds_lease_def)
    ultimately show "p_status q = STAGE3_RUNNING \<and>
      same_keys q (q\<lparr>p_stage3_attempt_count := p_stage3_attempt_count q + 1\<rparr>) \<and>
      pair_shape cfg (q\<lparr>p_stage3_attempt_count := p_stage3_attempt_count q + 1\<rparr>) \<and>
      p_status (q\<lparr>p_stage3_attempt_count := p_stage3_attempt_count q + 1\<rparr>) \<in>
        {SHORTLISTED, STAGE3_RUNNING, SUCCESS, REVIEW_REQUIRED, EVALUATION_FAILED} \<and>
      (p_lease_owner (q\<lparr>p_stage3_attempt_count := p_stage3_attempt_count q + 1\<rparr>) = None \<or>
       p_lease_owner (q\<lparr>p_stage3_attempt_count := p_stage3_attempt_count q + 1\<rparr>) = p_lease_owner q)"
      by (simp add: shape_simps)
  qed
  then show ?thesis using p by (simp add: begin_attempt_def)
next
  case False
  then show ?thesis using ok by (auto simp: begin_attempt_def split: option.splits)
qed

text \<open>The two writers at the end of an evaluation replace the row that holds the lease.\<close>

lemma replace_leased_ok:
  assumes ok: "tables_ok cfg ext s" and p: "pair_by_id i s = Some p" and lease: "holds_lease STAGE3_RUNNING token p"
    and q: "same_keys p q" "pair_shape cfg q" "p_lease_owner q = None"
      "p_status q \<in> {SHORTLISTED, SUCCESS, REVIEW_REQUIRED, EVALUATION_FAILED}"
  shows "tables_ok cfg ext (replace_pair i q s)"
proof (rule replace_pair_ok [OF ok p])
  have st: "p_status p = STAGE3_RUNNING" using lease by (simp add: holds_lease_def)
  show "row_step cfg (issued ext s) s p q"
    using q st by (intro row_step_evaluation [OF tables_okD(4) [OF ok] pair_by_id_D(1) [OF p]]) auto
  show "row_quiet p q" using q(4) by (auto simp: row_quiet_def)
qed

lemma leased_shape:
  assumes "tables_ok cfg ext s" "pair_by_id i s = Some p" "holds_lease STAGE3_RUNNING token p"
  shows "pair_shape cfg p" "p_status p = STAGE3_RUNNING"
  using rows_okD(1) [OF tables_okD(4) [OF assms(1)] pair_by_id_D(1) [OF assms(2)]] assms(3)
  by (simp_all add: holds_lease_def)

lemma retry_evaluation_ok:
  assumes ok: "tables_ok cfg ext s"
  shows "tables_ok cfg ext (snd (retry_evaluation cfg now attempt delay f i token s))"
proof (cases "\<exists>p. pair_by_id i s = Some p \<and> holds_lease STAGE3_RUNNING token p")
  case True
  then obtain p where p: "pair_by_id i s = Some p" "holds_lease STAGE3_RUNNING token p" by blast
  note shape = store_failure_shape [OF leased_shape [OF ok p], of now attempt delay f]
  have "tables_ok cfg ext (replace_pair i (store_failure cfg now attempt delay f p) s)"
    using shape by (intro replace_leased_ok [OF ok p]) auto
  then show ?thesis using p by (simp add: retry_evaluation_def)
next
  case False
  then show ?thesis using ok by (auto simp: retry_evaluation_def split: option.splits)
qed

lemma finish_evaluation_ok:
  assumes ok: "tables_ok cfg ext s"
  shows "tables_ok cfg ext (snd (finish_evaluation cfg now dump policy r i token s))"
proof (cases "\<exists>p. pair_by_id i s = Some p \<and> holds_lease STAGE3_RUNNING token p")
  case True
  then obtain p where p: "pair_by_id i s = Some p" "holds_lease STAGE3_RUNNING token p" by blast
  note shape = store_evaluation_shape [OF leased_shape [OF ok p], of now dump policy r]
  have "tables_ok cfg ext (replace_pair i (store_evaluation cfg now dump policy r p) s)"
    using shape by (intro replace_leased_ok [OF ok p]) auto
  then show ?thesis using p by (simp add: finish_evaluation_def)
next
  case False
  then show ?thesis using ok by (auto simp: finish_evaluation_def split: option.splits)
qed

lemma undo_evaluation_ok:
  "tables_ok cfg ext s \<Longrightarrow> tables_ok cfg ext (undo_evaluation i token s)"
  unfolding undo_evaluation_def
  by (erule evaluation_update_ok) (auto simp: holds_lease_def shape_simps)

lemma expire_evaluations_ok:
  "tables_ok cfg ext s \<Longrightarrow> tables_ok cfg ext (expire_evaluations cfg now i s)"
  unfolding expire_evaluations_def
proof (erule evaluation_update_ok)
  fix p assume "p_campaign_id p = i \<and> p_status p = STAGE3_RUNNING \<and> lease_before now p" "pair_shape cfg p"
  then have st: "p_status p = STAGE3_RUNNING" and sh: "pair_shape cfg p" by simp_all
  note shape = expire_evaluation_shape [OF sh st]
  show "p_status p = STAGE3_RUNNING \<and> same_keys p (expire_evaluation cfg p) \<and>
      pair_shape cfg (expire_evaluation cfg p) \<and> p_status (expire_evaluation cfg p) \<in>
        {SHORTLISTED, STAGE3_RUNNING, SUCCESS, REVIEW_REQUIRED, EVALUATION_FAILED} \<and>
      (p_lease_owner (expire_evaluation cfg p) = None \<or>
       p_lease_owner (expire_evaluation cfg p) = p_lease_owner p)"
    using shape st by auto
qed

section \<open>Admission\<close>

lemma claim_tokens_simps [simp]:
  "map fst (claim_tokens ext s rows) = map p_id rows" "length (claim_tokens ext s rows) = length rows"
  "fst ` set (claim_tokens ext s rows) = p_id ` set rows"
proof -
  show m: "map fst (claim_tokens ext s rows) = map p_id rows" by (simp add: claim_tokens_def)
  show "length (claim_tokens ext s rows) = length rows" by (simp add: claim_tokens_def)
  show "fst ` set (claim_tokens ext s rows) = p_id ` set rows" using m by (metis set_map)
qed

lemma claim_token_issued:
  assumes "i \<in> p_id ` set rows"
  shows "the (map_of (claim_tokens ext s rows) i) \<in> uuid4 ext ` {uuids s..<uuids s + length rows}"
proof -
  have "i \<in> fst ` set (claim_tokens ext s rows)" using assms by simp
  then obtain t where t: "map_of (claim_tokens ext s rows) i = Some t" by (metis map_of_eq_None_iff not_None_eq)
  then have "(i, t) \<in> set (claim_tokens ext s rows)" by (rule map_of_SomeD)
  then have "t \<in> set (map (uuid4 ext) [uuids s..<uuids s + length rows])"
    unfolding claim_tokens_def by (rule set_zip_rightD)
  then show ?thesis using t by auto
qed

lemma update_claimed_ok:
  assumes ok: "tables_ok cfg ext s" and rows: "set rows \<subseteq> set (pairs s)"
    and step: "\<And>p t. p \<in> set rows \<Longrightarrow> t \<in> issued ext u \<Longrightarrow> row_step cfg (issued ext u) s p (f t p)"
    and u: "u = update_claimed (claim_tokens ext s rows) f s" and inflight: "inflight_ok cfg u"
  shows "tables_ok cfg ext u"
proof (rule update_pairs_base [OF ok, where n = "uuids s + length rows"])
  show "u = (update_pairs (\<lambda>p. p_id p \<in> fst ` set (claim_tokens ext s rows))
      (\<lambda>p. f (the (map_of (claim_tokens ext s rows) (p_id p))) p) s)\<lparr>uuids := uuids s + length rows\<rparr>"
    by (simp add: u update_claimed_def)
  fix p assume p: "p \<in> set (pairs s)" "p_id p \<in> fst ` set (claim_tokens ext s rows)"
  then have "p_id p \<in> p_id ` set rows" by simp
  then obtain r where r: "r \<in> set rows" "p_id r = p_id p" by auto
  then have "r = p"
    using p(1) rows distinct_keysD(4) [OF tables_okD(1) [OF ok]] by (auto simp: distinct_map dest: inj_onD)
  moreover have "the (map_of (claim_tokens ext s rows) (p_id p)) \<in> issued ext u"
    using claim_token_issued [OF \<open>p_id p \<in> p_id ` set rows\<close>, of ext s]
    by (auto simp: issued_def u update_claimed_def)
  ultimately show "row_step cfg (issued ext u) s p (f (the (map_of (claim_tokens ext s rows) (p_id p))) p)"
    using r step by simp
qed (use inflight in simp_all)

text \<open>How many rows a claim adds to a count.\<close>

lemma claimed_count:
  assumes "distinct (map p_id (pairs s))"
  shows "count_where Q (pairs (update_claimed (claim_tokens ext s rows) f s)) \<le>
    count_where Q (pairs s) + length rows"
proof -
  have "count_where (\<lambda>p. p_id p \<in> fst ` set (claim_tokens ext s rows)) (pairs s) \<le> length rows"
    using count_where_key_le [OF assms, of "map p_id rows"] by simp
  then show ?thesis
    using count_update_le [of Q "\<lambda>p. p_id p \<in> fst ` set (claim_tokens ext s rows)"
        "\<lambda>p. f (the (map_of (claim_tokens ext s rows) (p_id p))) p" "pairs s"]
    by (simp add: update_claimed_def)
qed

lemma claimed_count_int:
  assumes "distinct (map p_id (pairs s))"
  shows "int (running_count i (update_claimed (claim_tokens ext s rows) f s)) \<le>
      int (running_count i s) + int (length rows)"
    "int (status_count st (update_claimed (claim_tokens ext s rows) f s)) \<le>
      int (status_count st s) + int (length rows)"
  using claimed_count [OF assms, of "\<lambda>p. p_campaign_id p = i \<and> p_status p = RUNNING" ext rows f]
    claimed_count [OF assms, of "\<lambda>p. p_status p = st" ext rows f]
  unfolding running_count_def status_count_def by linarith+

lemma claimed_count_same:
  assumes "distinct (map p_id (pairs s))" "set rows \<subseteq> set (pairs s)"
    "\<And>p t. p \<in> set rows \<Longrightarrow> Q (f t p) = Q p"
  shows "count_where Q (pairs (update_claimed (claim_tokens ext s rows) f s)) = count_where Q (pairs s)"
proof -
  have "p \<in> set rows" if "p \<in> set (pairs s)" "p_id p \<in> p_id ` set rows" for p
    using that assms(1,2) by (auto simp: distinct_map dest: inj_onD)
  then show ?thesis
    using assms(3) by (simp add: update_claimed_def) (rule count_update_same, simp)
qed

end
