(* ===== verification/Admission.thy ===== *)
theory Admission
  imports Pair_Operations
begin

text \<open>
  The two admission transactions keep the table invariants, the bounds on concurrent work included,
  and what they hand out: fresh lease tokens for distinct rows that were ready, in dispatch order.
\<close>

section \<open>Retrieval\<close>

lemma joined_iff:
  "(p, v, j) \<in> set (joined s) \<longleftrightarrow> p \<in> set (pairs s) \<and> v \<in> set (cvs s) \<and> v_id v = p_cv_id p \<and>
     j \<in> set (jds s) \<and> j_id j = p_jd_id p"
  by (auto simp: joined_def)

lemma retrieval_rows_ready:
  assumes "p \<in> set (retrieval_rows ext locked i slots s)"
  obtains v j where "(p, v, j) \<in> set (joined s)" "retrieval_ready i (p, v, j)" "\<not> locked (p_id p)"
  using assms by (auto simp: retrieval_rows_def dest!: in_set_takeD)

lemma retrieval_rows_length: "length (retrieval_rows ext locked i slots s) \<le> nat slots"
  by (simp add: retrieval_rows_def)

lemma retrieval_rows_subset: "set (retrieval_rows ext locked i slots s) \<subseteq> set (pairs s)"
  by (auto simp: joined_iff elim!: retrieval_rows_ready)

lemma claim_retrieval_step:
  assumes ok: "tables_ok cfg ext s" and p: "p \<in> set (retrieval_rows ext locked i slots s)" and t: "t \<in> toks"
  shows "row_step cfg toks s p (claim_retrieval cfg now t p)"
proof -
  obtain v j where vj: "(p, v, j) \<in> set (joined s)" "retrieval_ready i (p, v, j)"
    using p by (rule retrieval_rows_ready)
  have in_p: "p \<in> set (pairs s)" and st: "p_status p = PENDING" using vj by (auto simp: joined_iff retrieval_ready_def)
  note rows = tables_okD(4) [OF ok]
  have cv: "w = v" if "w \<in> set (cvs s)" "v_id w = p_cv_id p" for w
    using that vj(1) distinct_key_eq [OF distinct_keysD(3) [OF tables_okD(1) [OF ok]], of w v]
    by (simp add: joined_iff)
  have jd: "k = j" if "k \<in> set (jds s)" "j_id k = p_jd_id p" for k
    using that vj(1) distinct_key_eq [OF distinct_keysD(2) [OF tables_okD(1) [OF ok]], of k j]
    by (simp add: joined_iff)
  have shape: "pair_shape cfg (claim_retrieval cfg now t p)"
    using rows_okD(1) [OF rows in_p] st by (simp add: claim_retrieval_def shape_simps)
  show ?thesis
    using shape cv jd vj(2) t
    by (auto simp: row_step_def retrieval_ready_def claim_retrieval_def same_keys_def shortlisted_def after_cutoff_def)
qed

lemma retrieval_slots_bound:
  assumes "0 < retrieval_slots cfg i s"
  shows "int (running_count i s) + retrieval_slots cfg i s \<le> CAMPAIGN_RETRIEVAL_INFLIGHT cfg"
    "int (status_count RUNNING s) + retrieval_slots cfg i s \<le> CAMPAIGN_RETRIEVAL_GLOBAL_INFLIGHT cfg"
    "retrieval_slots cfg i s \<le> CAMPAIGN_DISPATCH_BATCH cfg"
  by (simp_all add: retrieval_slots_def running_count_def status_count_def Let_def)

lemma claim_retrievals_ok:
  assumes ok: "tables_ok cfg ext s" and slots: "0 < retrieval_slots cfg i s"
    and rows: "rows = retrieval_rows ext locked i (retrieval_slots cfg i s) s"
  shows "tables_ok cfg ext (update_claimed (claim_tokens ext s rows) (claim_retrieval cfg now) s)"
    (is "tables_ok cfg ext ?u")
proof (rule update_claimed_ok [OF ok _ _ refl])
  show sub: "set rows \<subseteq> set (pairs s)" by (simp add: rows retrieval_rows_subset)
  show "p \<in> set rows \<Longrightarrow> t \<in> issued ext ?u \<Longrightarrow> row_step cfg (issued ext ?u) s p (claim_retrieval cfg now t p)" for p t
    using claim_retrieval_step [OF ok] by (simp add: rows)
  have ids: "distinct (map p_id (pairs s))" using distinct_keysD(4) [OF tables_okD(1) [OF ok]] .
  have len: "int (length rows) \<le> retrieval_slots cfg i s"
    using retrieval_rows_length [of ext locked i "retrieval_slots cfg i s" s] slots by (simp add: rows)
  have ready: "p_campaign_id p = i \<and> p_status p = PENDING" if "p \<in> set rows" for p
    using that by (auto simp: rows retrieval_ready_def elim!: retrieval_rows_ready)
  note old = tables_okD(8) [OF ok]
  show "inflight_ok cfg ?u"
    unfolding inflight_ok_def
  proof (intro conjI allI)
    fix k
    show "int (running_count k ?u) \<le> CAMPAIGN_RETRIEVAL_INFLIGHT cfg"
    proof (cases "k = i")
      case True
      have "int (running_count i ?u) \<le> int (running_count i s) + int (length rows)"
        by (rule claimed_count_int(1) [OF ids])
      then show ?thesis unfolding True using retrieval_slots_bound(1) [OF slots] len by linarith
    next
      case False
      have "running_count k ?u = running_count k s"
        unfolding running_count_def
        by (rule claimed_count_same [OF ids sub]) (use ready False in \<open>auto simp: claim_retrieval_def\<close>)
      then show ?thesis using old by (simp add: inflight_ok_def)
    qed
  next
    have "int (status_count RUNNING ?u) \<le> int (status_count RUNNING s) + int (length rows)"
      by (rule claimed_count_int(2) [OF ids])
    then show "int (status_count RUNNING ?u) \<le> CAMPAIGN_RETRIEVAL_GLOBAL_INFLIGHT cfg"
      using retrieval_slots_bound(2) [OF slots] len by linarith
    have "status_count STAGE3_RUNNING ?u = status_count STAGE3_RUNNING s"
      unfolding status_count_def
      by (rule claimed_count_same [OF ids sub]) (use ready in \<open>auto simp: claim_retrieval_def\<close>)
    then show "int (status_count STAGE3_RUNNING ?u) \<le> CAMPAIGN_STAGE3_GLOBAL_INFLIGHT cfg"
      using old by (simp add: inflight_ok_def)
  qed
qed

lemma dispatch_pairs_ok:
  assumes ok: "tables_ok cfg ext s"
  shows "tables_ok cfg ext (snd (dispatch_pairs cfg ext now locked i s))"
proof -
  let ?s1 = "expire_retrievals cfg now i s"
  have s1: "tables_ok cfg ext ?s1" using ok by (rule expire_retrievals_ok)
  show ?thesis
    using ok s1 claim_retrievals_ok [OF s1 _ refl]
    by (auto simp: dispatch_pairs_def Let_def not_le split: option.splits)
qed

section \<open>Stage 3\<close>

lemma evaluation_rows_ready:
  assumes "p \<in> set (evaluation_rows ext now locked i slots s)"
  obtains j where "p \<in> set (pairs s)" "j \<in> set (jds s)" "j_id j = p_jd_id p" "evaluation_ready now i (p, j)"
    "\<not> locked (p_id p)"
  using assms by (auto simp: evaluation_rows_def pairs_with_jd_def dest!: in_set_takeD)

lemma evaluation_rows_length: "length (evaluation_rows ext now locked i slots s) \<le> nat slots"
  by (simp add: evaluation_rows_def)

lemma claim_evaluation_step:
  assumes ok: "tables_ok cfg ext s" and p: "p \<in> set (evaluation_rows ext now locked i slots s)" and t: "t \<in> toks"
  shows "row_step cfg toks s p (claim_evaluation cfg later t p)"
proof -
  obtain j where j: "p \<in> set (pairs s)" "evaluation_ready now i (p, j)"
    using p by (rule evaluation_rows_ready)
  then have st: "p_status p = SHORTLISTED" by (simp add: evaluation_ready_def)
  note rows = tables_okD(4) [OF ok]
  have "pair_shape cfg (claim_evaluation cfg later t p)"
    using rows_okD(1) [OF rows j(1)] st by (auto simp: claim_evaluation_def shape_simps)
  then show ?thesis
    using st t by (intro row_step_evaluation [OF rows j(1)]) (auto simp: claim_evaluation_def same_keys_def)
qed

lemma evaluation_slots_bound:
  "int (status_count STAGE3_RUNNING s) + evaluation_slots cfg s \<le> CAMPAIGN_STAGE3_GLOBAL_INFLIGHT cfg"
  "evaluation_slots cfg s \<le> CAMPAIGN_DISPATCH_BATCH cfg"
  by (simp_all add: evaluation_slots_def status_count_def)

lemma claim_evaluations_ok:
  assumes ok: "tables_ok cfg ext s" and slots: "0 < evaluation_slots cfg s"
    and rows: "rows = evaluation_rows ext now locked i (evaluation_slots cfg s) s"
  shows "tables_ok cfg ext (update_claimed (claim_tokens ext s rows) (claim_evaluation cfg now) s)"
    (is "tables_ok cfg ext ?u")
proof (rule update_claimed_ok [OF ok _ _ refl])
  show sub: "set rows \<subseteq> set (pairs s)" by (auto simp: rows elim!: evaluation_rows_ready)
  show "p \<in> set rows \<Longrightarrow> t \<in> issued ext ?u \<Longrightarrow> row_step cfg (issued ext ?u) s p (claim_evaluation cfg now t p)" for p t
    using claim_evaluation_step [OF ok] by (simp add: rows)
  have ids: "distinct (map p_id (pairs s))" using distinct_keysD(4) [OF tables_okD(1) [OF ok]] .
  have len: "int (length rows) \<le> evaluation_slots cfg s"
    using evaluation_rows_length [of ext now locked i "evaluation_slots cfg s" s] slots by (simp add: rows)
  have ready: "p_status p = SHORTLISTED" if "p \<in> set rows" for p
    using that by (auto simp: rows evaluation_ready_def elim!: evaluation_rows_ready)
  have same: "running_count k ?u = running_count k s" "status_count RUNNING ?u = status_count RUNNING s" for k
    unfolding running_count_def status_count_def
    by (rule claimed_count_same [OF ids sub]; use ready in \<open>auto simp: claim_evaluation_def\<close>)+
  have "int (status_count STAGE3_RUNNING ?u) \<le> int (status_count STAGE3_RUNNING s) + int (length rows)"
    by (rule claimed_count_int(2) [OF ids])
  then have "int (status_count STAGE3_RUNNING ?u) \<le> CAMPAIGN_STAGE3_GLOBAL_INFLIGHT cfg"
    using evaluation_slots_bound(1) [of s cfg] len by linarith
  then show "inflight_ok cfg ?u" using tables_okD(8) [OF ok] by (simp add: inflight_ok_def same)
qed

lemma dispatch_stage3_ok:
  assumes ok: "tables_ok cfg ext s"
  shows "tables_ok cfg ext (snd (dispatch_stage3 cfg ext now locked i s))"
proof -
  let ?s1 = "expire_evaluations cfg now i s"
  have s1: "tables_ok cfg ext ?s1" using ok by (rule expire_evaluations_ok)
  show ?thesis
    using ok s1 claim_evaluations_ok [OF s1 _ refl]
    by (auto simp: dispatch_stage3_def Let_def not_le split: option.splits)
qed

end
