(* ===== verification/Barrier.thy ===== *)
theory Barrier
  imports Admission
begin

text \<open>
  The Stage 2 barrier keeps the table invariants: a JD is ranked only when its whole pool is past
  retrieval, every pooled pair then leaves the pool in the same transaction, and at most the JD's
  cap (never more than fifteen) is selected. Completion of JDs and campaign follows.
\<close>

section \<open>The pool of a JD\<close>

lemma pool_rows_iff:
  "(p, i) \<in> set (pool_rows jd_id s) \<longleftrightarrow> p \<in> set (pairs s) \<and> p_jd_id p = jd_id \<and> p_status p = STAGE2_READY \<and>
     (\<exists>v\<in>set (cvs s). v_id v = p_cv_id p \<and> i = v_candidate_id v)"
  by (auto simp: pool_rows_def pairs_with_cv_def)

lemma pool_rows_covers:
  assumes "foreign_keys s" "p \<in> set (pairs s)" "p_jd_id p = jd_id" "p_status p = STAGE2_READY"
  shows "p_id p \<in> (\<lambda>row. p_id (fst row)) ` set (pool_rows jd_id s)"
proof -
  obtain v where "v \<in> set (cvs s)" "v_id v = p_cv_id p"
    using assms(1,2) by (auto simp: foreign_keys_def)
  then have "(p, v_candidate_id v) \<in> set (pool_rows jd_id s)" using assms by (auto simp: pool_rows_iff)
  then show ?thesis by force
qed

text \<open>Each pair is pooled once.\<close>

lemma join_once:
  assumes "distinct (map v_id vs)"
  shows "length (filter (\<lambda>v. v_id v = i) vs) \<le> 1"
proof -
  have "count_where (\<lambda>v. v_id v \<in> set [i]) vs \<le> length [i]"
    by (rule count_where_key_le [OF assms])
  then show ?thesis by (simp add: count_where_def)
qed

lemma pairs_with_cv_ids:
  assumes "distinct (map v_id (cvs s))" "distinct (map p_id (pairs s))"
  shows "distinct (map (\<lambda>z. p_id (fst z)) (pairs_with_cv s))"
proof -
  have "pairs_with_cv s = concat (map (\<lambda>p. map (Pair p) (filter (\<lambda>v. v_id v = p_cv_id p) (cvs s))) (pairs s))"
    by (simp add: pairs_with_cv_def concat_map_if)
  then show ?thesis using distinct_join [OF assms(2) join_once [OF assms(1)]] by simp
qed

lemma pool_rows_ids:
  assumes "unique_constraints s"
  shows "distinct (map (\<lambda>row. p_id (fst row)) (pool_rows jd_id s))"
proof -
  have "map (\<lambda>row. p_id (fst row)) (pool_rows jd_id s) = map (\<lambda>z. p_id (fst z))
      (filter (\<lambda>(p, v). p_jd_id p = jd_id \<and> p_status p = STAGE2_READY) (pairs_with_cv s))"
    by (simp add: pool_rows_def comp_def case_prod_unfold)
  then show ?thesis
    using pairs_with_cv_ids [OF distinct_keysD(3,4) [OF assms]]
    by (simp add: distinct_map_filter)
qed

section \<open>Placements\<close>

lemma placements_keys: "map fst (placements cap rows) = map (\<lambda>row. p_id (fst row)) rows"
proof -
  have "map fst (placements cap rows) = map (\<lambda>z. p_id (fst (fst (snd z))))
      (List.enumerate 1 (cutoff_loop (\<lambda>row. eligible (payload row)) (min cap MAX_CANDIDATES_PER_JD) 0 rows))"
    by (simp add: placements_def case_prod_unfold comp_def)
  also have "\<dots> = map (\<lambda>row. p_id (fst row)) (map fst (map snd
      (List.enumerate 1 (cutoff_loop (\<lambda>row. eligible (payload row)) (min cap MAX_CANDIDATES_PER_JD) 0 rows))))"
    by (simp only: map_map comp_def)
  finally show ?thesis by (simp only: map_snd_enumerate map_fst_cutoff_loop)
qed

lemma placements_in:
  assumes "(i, rank, row, m) \<in> set (placements cap rows)"
  shows "row \<in> set rows" "p_id (fst row) = i" "0 < rank"
    "(row, m) \<in> set (cutoff_loop (\<lambda>row. eligible (payload row)) (min cap MAX_CANDIDATES_PER_JD) 0 rows)"
proof -
  show "p_id (fst row) = i" "0 < rank"
    using assms by (auto simp: placements_def in_set_enumerate_eq)
  let ?loop = "cutoff_loop (\<lambda>row. eligible (payload row)) (min cap MAX_CANDIDATES_PER_JD) 0 rows"
  have "(rank, row, m) \<in> set (List.enumerate 1 ?loop)" using assms by (auto simp: placements_def)
  then have "rank - 1 < length ?loop" "(row, m) = ?loop ! (rank - 1)"
    by (auto simp: in_set_enumerate_eq simp del: length_cutoff_loop)
  then show z: "(row, m) \<in> set ?loop" by (metis nth_mem)
  then have "row \<in> fst ` set ?loop" by force
  then show "row \<in> set rows" by (metis map_fst_cutoff_loop set_map)
qed

definition selected_ids :: "int \<Rightarrow> (pair \<times> string) list \<Rightarrow> string list" where
  "selected_ids cap rows = map fst (filter (\<lambda>(i, rank, row, m). m = Selected) (placements cap rows))"

lemma length_selected_ids: "length (selected_ids cap rows) \<le> nat (min cap MAX_CANDIDATES_PER_JD)"
proof -
  let ?loop = "cutoff_loop (\<lambda>row. eligible (payload row)) (min cap MAX_CANDIDATES_PER_JD) 0 rows"
  have "length (selected_ids cap rows) = length (filter (\<lambda>z. snd (snd z) = Selected) (List.enumerate 1 ?loop))"
    by (simp add: selected_ids_def placements_def filter_map comp_def case_prod_unfold)
  also have "\<dots> = length (filter (\<lambda>z. snd z = Selected) (map snd (List.enumerate 1 ?loop)))"
    by (simp only: filter_map length_map comp_def)
  also have "\<dots> = count_where (\<lambda>z. snd z = Selected) ?loop" by (simp add: count_where_def)
  also have "\<dots> \<le> nat (min cap MAX_CANDIDATES_PER_JD - 0)" by (rule cutoff_loop_count)
  finally show ?thesis by simp
qed

text \<open>The placement a pooled pair receives.\<close>

lemma placement_of:
  assumes u: "unique_constraints s" and p: "p \<in> set (pairs s)"
    and rows: "set rows = set (pool_rows jd_id s)" "distinct (map (\<lambda>row. p_id (fst row)) rows)"
    and key: "p_id p \<in> fst ` set (placements cap rows)"
  obtains rank i m where "map_of (placements cap rows) (p_id p) = Some (rank, (p, i), m)" "0 < rank"
    "(p, i) \<in> set (pool_rows jd_id s)" "m = Selected \<longleftrightarrow> p_id p \<in> set (selected_ids cap rows)"
proof -
  obtain z where z: "map_of (placements cap rows) (p_id p) = Some z"
    using key by (metis map_of_eq_None_iff not_None_eq)
  obtain rank q i m where zz: "z = (rank, (q, i), m)" by (metis prod_cases3 surj_pair)
  note mem = map_of_SomeD [OF z [unfolded zz]]
  note in_rows = placements_in [OF mem]
  have "q \<in> set (pairs s)" using in_rows(1) rows(1) by (auto simp: pool_rows_iff)
  then have q: "q = p"
    using distinct_key_eq [OF distinct_keysD(4) [OF u], of q p] in_rows(2) p by simp
  have d: "distinct (map fst (placements cap rows))" using rows(2) by (simp add: placements_keys)
  have "m = Selected \<longleftrightarrow> p_id p \<in> set (selected_ids cap rows)"
  proof
    assume "m = Selected"
    then show "p_id p \<in> set (selected_ids cap rows)"
      using mem by (force simp: selected_ids_def)
  next
    assume "p_id p \<in> set (selected_ids cap rows)"
    then obtain rank' row' where "(p_id p, rank', row', Selected) \<in> set (placements cap rows)"
      by (auto simp: selected_ids_def)
    then show "m = Selected" using mem d by (auto dest: eq_key_imp_eq_value)
  qed
  then show thesis using that [of rank i m] z zz q in_rows rows(1) by simp
qed

lemma place_shape:
  assumes "pair_shape cfg p" "p_status p = STAGE2_READY" "0 < rank"
  shows "same_keys p (place now (rank, row, m) p)" "pair_shape cfg (place now (rank, row, m) p)"
    "p_status (place now (rank, row, m) p) \<in> {SHORTLISTED, REVIEW_REQUIRED, CUTOFF_EXCLUDED}"
    "shortlisted (place now (rank, row, m) p) \<longleftrightarrow> m = Selected"
    "p_lease_owner (place now (rank, row, m) p) = None"
  using assms by (cases m; auto simp: place_def Let_def shape_simps)+

section \<open>The barrier transaction\<close>

lemma jd_by_id_D:
  assumes "jd_by_id i s = Some j"
  shows "j \<in> set (jds s)" "j_id j = i"
  using find_Some_in [OF assms [unfolded jd_by_id_def]] by simp_all

lemma unresolved_zero:
  "unresolved jd_id s = 0 \<longleftrightarrow> (\<forall>p\<in>set (pairs s). p_jd_id p = jd_id \<longrightarrow> past_stage2 (p_status p))"
  by (auto simp: unresolved_def count_where_zero)

text \<open>A JD row changes; its keys and cap stay.\<close>

lemma update_jds_keys:
  assumes "\<And>j. j_id (g j) = j_id j \<and> j_campaign_id (g j) = j_campaign_id j \<and> j_jd_key (g j) = j_jd_key j"
  shows "unique_constraints (update_jds P g s) = unique_constraints s"
    "foreign_keys s \<Longrightarrow> foreign_keys (update_jds P g s)"
    "pairs_complete s \<Longrightarrow> pairs_complete (update_jds P g s)"
    "ids_issued ext (update_jds P g s) = ids_issued ext s"
proof -
  have m: "map (\<lambda>j. (j_campaign_id j, j_jd_key j)) (update_where P g (jds s)) = map (\<lambda>j. (j_campaign_id j, j_jd_key j)) (jds s)"
    "map j_id (update_where P g (jds s)) = map j_id (jds s)"
    "map (\<lambda>j. (j_campaign_id j, j_id j)) (update_where P g (jds s)) = map (\<lambda>j. (j_campaign_id j, j_id j)) (jds s)"
    using assms by (simp_all add: map_update_where_key)
  show "unique_constraints (update_jds P g s) = unique_constraints s" by (simp add: unique_constraints_def m)
  have sets: "(\<lambda>j. (j_campaign_id j, j_id j)) ` set (update_where P g (jds s)) = (\<lambda>j. (j_campaign_id j, j_id j)) ` set (jds s)"
    "j_id ` set (update_where P g (jds s)) = j_id ` set (jds s)"
    using m(2,3) by (metis set_map)+
  show "foreign_keys s \<Longrightarrow> foreign_keys (update_jds P g s)"
    using assms by (auto simp: foreign_keys_def sets in_update_where)
  show "pairs_complete s \<Longrightarrow> pairs_complete (update_jds P g s)"
    using assms by (auto simp: pairs_complete_def elim!: update_where_cases)
  show "ids_issued ext (update_jds P g s) = ids_issued ext s" by (simp add: ids_issued_def sets)
qed

definition finalized :: "int \<Rightarrow> string \<Rightarrow> int \<Rightarrow> (pair \<times> string) list \<Rightarrow> db \<Rightarrow> db" where
  "finalized now jd_id cap rows s =
    update_jds (\<lambda>j. j_id j = jd_id) (\<lambda>j. j\<lparr>j_status := J_SHORTLISTED, j_updated_at := now\<rparr>)
      (update_pairs (\<lambda>p. p_id p \<in> fst ` set (placements cap rows))
        (\<lambda>p. place now (the (map_of (placements cap rows) (p_id p))) p) s)"

lemma finalize_jd_cases:
  assumes "finalize_jd now jd_id s = Inr (b, t)"
  obtains (closed) "\<not> b" "t = s"
  | (waiting) j where "\<not> b" "jd_by_id jd_id s = Some j" "j_status j = J_PENDING" "t = set_jd_status jd_id J_PROCESSING s"
  | (ranked) j rows where "b" "jd_by_id jd_id s = Some j" "j_status j \<in> {J_PENDING, J_PROCESSING}"
      "unresolved jd_id s = 0" "sorted_by (\<lambda>row. candidate_sort_key (payload row)) (pool_rows jd_id s) = Inr rows"
      "t = finalized now jd_id (j_stage3_cap j) rows s"
proof (cases "jd_by_id jd_id s")
  case None
  then show ?thesis using assms by (simp add: finalize_jd_def)
next
  case (Some j)
  note f = assms [unfolded finalize_jd_def Some scalar_one.simps rbind_simps]
  consider "j_status j \<notin> {J_PENDING, J_PROCESSING}"
    | "j_status j \<in> {J_PENDING, J_PROCESSING}" "unresolved jd_id s \<noteq> 0"
    | "j_status j \<in> {J_PENDING, J_PROCESSING}" "unresolved jd_id s = 0" by blast
  then show ?thesis
  proof cases
    case 1
    then show ?thesis using f by (intro closed) auto
  next
    case 2
    then show ?thesis using f Some by (cases "j_status j = J_PENDING") (auto intro: closed waiting)
  next
    case 3
    then obtain rows where "sorted_by (\<lambda>row. candidate_sort_key (payload row)) (pool_rows jd_id s) = Inr rows"
      using f by (cases "sorted_by (\<lambda>row. candidate_sort_key (payload row)) (pool_rows jd_id s)") auto
    then show ?thesis using 3 f Some by (intro ranked [of j rows]) (auto simp: Let_def finalized_def)
  qed
qed

definition started :: "string \<Rightarrow> db \<Rightarrow> bool" where
  "started campaign_id s \<longleftrightarrow> (\<forall>c\<in>set (campaigns s). c_id c = campaign_id \<longrightarrow> c_status c \<noteq> C_INTAKE)"

text \<open>What a pass of the pool means for the rows, under the conditions of the transaction.\<close>

lemma finalized_context:
  assumes ok: "tables_ok cfg ext s" and j: "jd_by_id jd_id s = Some j" "j_status j \<in> {J_PENDING, J_PROCESSING}"
    and res: "unresolved jd_id s = 0"
    and rows: "sorted_by (\<lambda>row. candidate_sort_key (payload row)) (pool_rows jd_id s) = Inr rows"
    and p: "p \<in> set (pairs s)"
  shows "p_id p \<in> fst ` set (placements cap rows) \<Longrightarrow>
      p_jd_id p = jd_id \<and> p_status p = STAGE2_READY \<and>
      (\<exists>rank i m. map_of (placements cap rows) (p_id p) = Some (rank, (p, i), m) \<and> 0 < rank \<and>
         (p, i) \<in> set (pool_rows jd_id s) \<and> (m = Selected \<longleftrightarrow> p_id p \<in> set (selected_ids cap rows)))"
    and "p_id p \<notin> fst ` set (placements cap rows) \<Longrightarrow> p_jd_id p = jd_id \<Longrightarrow>
      p_status p \<in> {EXTRACTION_FAILED, FILTER_REJECTED, PROCESSING_FAILED}"
proof -
  note u = tables_okD(1) [OF ok]
  have perm: "mset rows = mset (pool_rows jd_id s)"
    using sorted_by_Inr(1) [OF rows] by simp
  have set_eq: "set rows = set (pool_rows jd_id s)" using perm by (rule mset_eq_setD)
  have dist: "distinct (map (\<lambda>row. p_id (fst row)) rows)"
    using pool_rows_ids [OF u, of jd_id] perm by (metis mset_map mset_eq_imp_distinct_iff)
  have keys: "fst ` set (placements cap rows) = (\<lambda>row. p_id (fst row)) ` set (pool_rows jd_id s)"
    using placements_keys [of cap rows] set_eq by (metis set_map)
  show "p_id p \<in> fst ` set (placements cap rows) \<Longrightarrow>
      p_jd_id p = jd_id \<and> p_status p = STAGE2_READY \<and>
      (\<exists>rank i m. map_of (placements cap rows) (p_id p) = Some (rank, (p, i), m) \<and> 0 < rank \<and>
         (p, i) \<in> set (pool_rows jd_id s) \<and> (m = Selected \<longleftrightarrow> p_id p \<in> set (selected_ids cap rows)))"
    by (rule placement_of [OF u p set_eq dist]) (auto simp: pool_rows_iff)
  assume out: "p_id p \<notin> fst ` set (placements cap rows)" and jd: "p_jd_id p = jd_id"
  have "p_status p \<noteq> STAGE2_READY"
    using pool_rows_covers [OF tables_okD(2) [OF ok] p jd] out keys by auto
  moreover have "past_stage2 (p_status p)" using res p jd by (simp add: unresolved_zero)
  moreover have "\<not> after_cutoff (p_status p)"
    using rows_okD(3) [OF tables_okD(4) [OF ok] p jd_by_id_D(1) [OF j(1)]] jd_by_id_D(2) [OF j(1)] j(2) jd by auto
  ultimately show "p_status p \<in> {EXTRACTION_FAILED, FILTER_REJECTED, PROCESSING_FAILED}"
    by (cases "p_status p") (auto simp: after_cutoff_def)
qed

lemma place_keys: "same_keys p (place now z p)" "p_lease_owner (place now z p) = p_lease_owner p"
  by (cases z; auto simp: place_def Let_def same_keys_def split: cut.splits)+

lemma finalized_keys:
  assumes ok: "tables_ok cfg ext s"
  shows "unique_constraints (finalized now jd_id cap rows s)" "foreign_keys (finalized now jd_id cap rows s)"
    "pairs_complete (finalized now jd_id cap rows s)" "ids_issued ext (finalized now jd_id cap rows s)"
proof -
  let ?P = "\<lambda>p. p_id p \<in> fst ` set (placements cap rows)"
  let ?f = "\<lambda>p. place now (the (map_of (placements cap rows) (p_id p))) p"
  let ?s = "update_pairs ?P ?f s"
  have k: "keeps_keys ?P ?f (pairs s)" by (simp add: keeps_keys_def place_keys)
  have s1: "?s = (update_pairs ?P ?f s)\<lparr>uuids := uuids s\<rparr>" by (simp add: update_pairs_def)
  note pk = update_pairs_keys [OF k s1] and jk = update_jds_keys
  note d = tables_okD [OF ok]
  have "map p_id (pairs ?s) = map p_id (pairs s)" using keeps_keys_map(1) [OF k] by simp
  then have "p_id ` set (pairs ?s) = p_id ` set (pairs s)" by (metis set_map)
  moreover have "p_lease_owner q = Some t \<Longrightarrow> t \<in> issued ext s" if "q \<in> set (pairs ?s)" for q t
    using that d(3) by (auto simp: ids_issued_def place_keys elim!: update_where_cases)
  ultimately have ids: "ids_issued ext ?s" using d(3) by (simp add: ids_issued_def)
  show "unique_constraints (finalized now jd_id cap rows s)" "foreign_keys (finalized now jd_id cap rows s)"
    "pairs_complete (finalized now jd_id cap rows s)" "ids_issued ext (finalized now jd_id cap rows s)"
    unfolding finalized_def using d pk ids by (simp_all add: jk)
qed

lemma finalized_jds:
  assumes "k \<in> set (jds (finalized now jd_id cap rows s))"
  shows "j_id k = jd_id \<Longrightarrow> j_status k = J_SHORTLISTED" "j_id k \<noteq> jd_id \<Longrightarrow> k \<in> set (jds s)"
proof -
  have "k \<in> set (update_where (\<lambda>j. j_id j = jd_id) (\<lambda>j. j\<lparr>j_status := J_SHORTLISTED, j_updated_at := now\<rparr>) (jds s))"
    using assms by (simp add: finalized_def)
  then show "j_id k = jd_id \<Longrightarrow> j_status k = J_SHORTLISTED" "j_id k \<noteq> jd_id \<Longrightarrow> k \<in> set (jds s)"
    by (cases rule: update_where_cases; simp)+
qed

lemma finalized_rows:
  assumes ok: "tables_ok cfg ext s" and j: "jd_by_id jd_id s = Some j" "j_status j \<in> {J_PENDING, J_PROCESSING}"
    and res: "unresolved jd_id s = 0"
    and rows: "sorted_by (\<lambda>row. candidate_sort_key (payload row)) (pool_rows jd_id s) = Inr rows"
  shows "rows_ok cfg (finalized now jd_id cap rows s)"
  unfolding rows_ok_def
proof
  fix q assume "q \<in> set (pairs (finalized now jd_id cap rows s))"
  then have "q \<in> set (update_where (\<lambda>p. p_id p \<in> fst ` set (placements cap rows))
      (\<lambda>p. place now (the (map_of (placements cap rows) (p_id p))) p) (pairs s))"
    by (simp add: finalized_def)
  then show "pair_shape cfg q \<and>
    (\<forall>v\<in>set (cvs (finalized now jd_id cap rows s)). v_id v = p_cv_id q \<longrightarrow> cv_allows (v_stage0_status v) (p_status q)) \<and>
    (\<forall>k\<in>set (jds (finalized now jd_id cap rows s)). j_id k = p_jd_id q \<longrightarrow> jd_allows (j_status k) (p_status q))"
  proof (cases rule: update_where_cases)
    case (changed p)
    note ctx = finalized_context(1) [OF ok j res rows changed(1,2)]
    then obtain rank i m where z: "map_of (placements cap rows) (p_id p) = Some (rank, (p, i), m)" "0 < rank" by blast
    have q: "q = place now (rank, (p, i), m) p" using changed(3) z by simp
    note old = rows_okD [OF tables_okD(4) [OF ok] changed(1)]
    have st: "p_status p = STAGE2_READY" "p_jd_id p = jd_id" using ctx by blast+
    note shape = place_shape [OF old(1) st(1) z(2), of now "(p, i)" m, folded q]
    have "cv_allows (v_stage0_status v) (p_status q)" if "v \<in> set (cvs s)" "v_id v = p_cv_id q" for v
    proof (rule cv_allows_move)
      show "cv_allows (v_stage0_status v) STAGE2_READY"
        using old(2) [OF that(1)] that(2) shape(1) st(1) by (simp add: same_keys_def)
    qed (use shape(3) in auto)
    moreover have "jd_allows (j_status k) (p_status q)" if "k \<in> set (jds (finalized now jd_id cap rows s))" "j_id k = p_jd_id q" for k
    proof -
      have "j_status k = J_SHORTLISTED"
        using finalized_jds(1) [OF that(1)] that(2) shape(1) st(2) by (simp add: same_keys_def)
      then show ?thesis using shape(3) by auto
    qed
    ultimately show ?thesis using shape(2) by (simp add: finalized_def)
  next
    case kept
    note old = rows_okD [OF tables_okD(4) [OF ok] kept(1)]
    have "jd_allows (j_status k) (p_status q)" if "k \<in> set (jds (finalized now jd_id cap rows s))" "j_id k = p_jd_id q" for k
    proof (cases "j_id k = jd_id")
      case True
      then have "p_status q \<in> {EXTRACTION_FAILED, FILTER_REJECTED, PROCESSING_FAILED}"
        using finalized_context(2) [OF ok j res rows kept(1,2)] that(2) by simp
      then show ?thesis using finalized_jds(1) [OF that(1) True] by auto
    next
      case False
      then show ?thesis using finalized_jds(2) [OF that(1)] that(2) old(3) by simp
    qed
    then show ?thesis using old by (simp add: finalized_def)
  qed
qed

lemma finalized_caps:
  assumes ok: "tables_ok cfg ext s" and j: "jd_by_id jd_id s = Some j" "j_status j \<in> {J_PENDING, J_PROCESSING}"
    and res: "unresolved jd_id s = 0"
    and rows: "sorted_by (\<lambda>row. candidate_sort_key (payload row)) (pool_rows jd_id s) = Inr rows"
  shows "shortlist_count jd_id (finalized now jd_id cap rows s) \<le> nat (min cap MAX_CANDIDATES_PER_JD)"
    "i \<noteq> jd_id \<Longrightarrow> shortlist_count i (finalized now jd_id cap rows s) = shortlist_count i s"
proof -
  let ?P = "\<lambda>p. p_id p \<in> fst ` set (placements cap rows)"
  let ?f = "\<lambda>p. place now (the (map_of (placements cap rows) (p_id p))) p"
  have changed: "p_jd_id (?f p) = jd_id \<and> p_jd_id p = jd_id \<and> (shortlisted (?f p) \<longleftrightarrow> p_id p \<in> set (selected_ids cap rows))"
    if mem: "p \<in> set (pairs s)" "?P p" for p
  proof -
    obtain rank k m where z: "map_of (placements cap rows) (p_id p) = Some (rank, (p, k), m)" "0 < rank"
      "m = Selected \<longleftrightarrow> p_id p \<in> set (selected_ids cap rows)" "p_status p = STAGE2_READY" "p_jd_id p = jd_id"
      using finalized_context(1) [OF ok j res rows mem] by blast
    show ?thesis
      using place_shape [OF rows_okD(1) [OF tables_okD(4) [OF ok] mem(1)] z(4,2), of now "(p, k)" m] z
      by (simp add: same_keys_def)
  qed
  have kept: "\<not> shortlisted p" if "p \<in> set (pairs s)" "\<not> ?P p" "p_jd_id p = jd_id" for p
    using finalized_context(2) [OF ok j res rows that] by (auto simp: shortlisted_def)
  have "shortlist_count jd_id (finalized now jd_id cap rows s) \<le>
      count_where (\<lambda>p. p_id p \<in> set (selected_ids cap rows)) (pairs s)"
    unfolding shortlist_count_def finalized_def update_table_simps count_update
  proof (rule count_where_mono)
    fix r assume r: "r \<in> set (pairs s)"
      "p_jd_id (if ?P r then ?f r else r) = jd_id \<and> shortlisted (if ?P r then ?f r else r)"
    show "p_id r \<in> set (selected_ids cap rows)"
    proof (cases "?P r")
      case True
      then show ?thesis using changed [OF r(1) True] r(2) by simp
    next
      case False
      then show ?thesis using kept [OF r(1) False] r(2) by simp
    qed
  qed
  also have "\<dots> \<le> length (selected_ids cap rows)"
    by (rule count_where_key_le [OF distinct_keysD(4) [OF tables_okD(1) [OF ok]]])
  also have "\<dots> \<le> nat (min cap MAX_CANDIDATES_PER_JD)" by (rule length_selected_ids)
  finally show "shortlist_count jd_id (finalized now jd_id cap rows s) \<le> nat (min cap MAX_CANDIDATES_PER_JD)" .
  assume i: "i \<noteq> jd_id"
  show "shortlist_count i (finalized now jd_id cap rows s) = shortlist_count i s"
    unfolding shortlist_count_def finalized_def update_table_simps
  proof (rule count_update_same)
    fix r assume "r \<in> set (pairs s)" "?P r"
    then show "(p_jd_id (?f r) = i \<and> shortlisted (?f r)) = (p_jd_id r = i \<and> shortlisted r)"
      using changed [of r] i by simp
  qed
qed

lemma finalized_inflight:
  assumes ok: "tables_ok cfg ext s"
  shows "inflight_ok cfg (finalized now jd_id cap rows s)"
proof -
  have place_idle: "p_status (place now z p) \<notin> {RUNNING, STAGE3_RUNNING}" for z p
    by (cases z) (auto simp: place_def Let_def split: cut.splits)
  show ?thesis
  proof (rule inflight_mono [OF tables_okD(8) [OF ok]])
    show "running_count i (finalized now jd_id cap rows s) \<le> running_count i s" for i
      unfolding running_count_def finalized_def update_table_simps
      by (rule count_update_mono) (use place_idle in auto)
    show "status_count RUNNING (finalized now jd_id cap rows s) \<le> status_count RUNNING s"
      "status_count STAGE3_RUNNING (finalized now jd_id cap rows s) \<le> status_count STAGE3_RUNNING s"
      unfolding status_count_def finalized_def update_table_simps
      by (rule count_update_mono, use place_idle in auto)+
  qed
qed

lemma finalized_ok:
  assumes ok: "tables_ok cfg ext s" and j: "jd_by_id jd_id s = Some j" "j_status j \<in> {J_PENDING, J_PROCESSING}"
    and res: "unresolved jd_id s = 0"
    and rows: "sorted_by (\<lambda>row. candidate_sort_key (payload row)) (pool_rows jd_id s) = Inr rows"
    and start: "started (j_campaign_id j) s"
  shows "tables_ok cfg ext (finalized now jd_id (j_stage3_cap j) rows s)" (is "tables_ok cfg ext ?t")
proof -
  note d = tables_okD [OF ok] and jd = jd_by_id_D [OF j(1)]
  have jkeys: "\<exists>k'\<in>set (jds s). j_id k = j_id k' \<and> j_stage3_cap k = j_stage3_cap k' \<and>
      j_campaign_id k = j_campaign_id k' \<and> (j_id k \<noteq> jd_id \<longrightarrow> k = k')" if "k \<in> set (jds ?t)" for k
    using that by (auto simp: finalized_def elim!: update_where_cases)
  have camp: "campaign_allows (c_status c) J_SHORTLISTED" if "c \<in> set (campaigns s)" "c_id c = j_campaign_id j" for c
  proof -
    have "campaign_allows (c_status c) (j_status j)" using d(5) jd(1) that by (simp add: scopes_ok_def)
    moreover have "c_status c \<noteq> C_INTAKE" using start that by (simp add: started_def)
    ultimately show ?thesis using j(2) by (cases "c_status c") auto
  qed
  have same_jd: "k' = j" if "k' \<in> set (jds s)" "j_id k' = jd_id" for k'
    using distinct_key_eq [OF distinct_keysD(2) [OF d(1)] that(1) jd(1)] that(2) jd(2) by simp
  have "scopes_ok ?t"
    unfolding scopes_ok_def
  proof (intro conjI ballI impI)
    fix k assume k: "k \<in> set (jds ?t)"
    then obtain k' where k': "k' \<in> set (jds s)" "j_id k = j_id k'" "j_stage3_cap k = j_stage3_cap k'"
      "j_campaign_id k = j_campaign_id k'" "j_id k \<noteq> jd_id \<longrightarrow> k = k'" using jkeys by blast
    show "1 \<le> j_stage3_cap k" "j_stage3_cap k \<le> MAX_CANDIDATES_PER_JD" using d(5) k' by (simp_all add: scopes_ok_def)
    fix c assume c: "c \<in> set (campaigns ?t)" "c_id c = j_campaign_id k"
    show "campaign_allows (c_status c) (j_status k)"
    proof (cases "j_id k = jd_id")
      case True
      then have "k' = j" using same_jd k'(1,2) by simp
      moreover have "c \<in> set (campaigns s)" using c(1) by (simp add: finalized_def)
      ultimately show ?thesis using camp c(2) k'(4) finalized_jds(1) [OF k True] by simp
    next
      case False
      then have "k \<in> set (jds s)" using k'(1,5) by simp
      moreover have "c \<in> set (campaigns s)" using c(1) by (simp add: finalized_def)
      ultimately show ?thesis using d(5) c(2) unfolding scopes_ok_def by blast
    qed
  next
    show "\<And>v. v \<in> set (cvs ?t) \<Longrightarrow> cv_checks v" using d(5) by (simp add: scopes_ok_def finalized_def)
  qed
  moreover have "caps_ok ?t"
    unfolding caps_ok_def
  proof
    fix k assume k: "k \<in> set (jds ?t)"
    then obtain k' where k': "k' \<in> set (jds s)" "j_id k = j_id k'" "j_stage3_cap k = j_stage3_cap k'" using jkeys by blast
    show "int (shortlist_count (j_id k) ?t) \<le> j_stage3_cap k"
    proof (cases "j_id k = jd_id")
      case True
      then have "j_stage3_cap k = j_stage3_cap j" using same_jd [of k'] k' by simp
      moreover have "1 \<le> j_stage3_cap j" using d(5) jd(1) by (simp add: scopes_ok_def)
      ultimately show ?thesis
        using finalized_caps(1) [OF ok j res rows, of now "j_stage3_cap j"] True by simp
    next
      case False
      then show ?thesis
        using finalized_caps(2) [OF ok j res rows] d(7) k' by (simp add: caps_ok_def)
    qed
  qed
  ultimately show ?thesis
    using finalized_keys [OF ok] finalized_rows [OF ok j res rows] finalized_inflight [OF ok]
    by (simp add: tables_ok_def)
qed

section \<open>Status changes of JDs and campaigns\<close>

text \<open>
  A status change of JDs that the rows and the campaign allow; the pairs stay.
\<close>

lemma update_jds_ok:
  assumes ok: "tables_ok cfg ext s"
    and keys: "\<And>j. j_id (g j) = j_id j \<and> j_campaign_id (g j) = j_campaign_id j \<and> j_jd_key (g j) = j_jd_key j \<and>
      j_stage3_cap (g j) = j_stage3_cap j"
    and rows: "\<And>j p. j \<in> set (jds s) \<Longrightarrow> P j \<Longrightarrow> p \<in> set (pairs s) \<Longrightarrow> p_jd_id p = j_id j \<Longrightarrow>
      jd_allows (j_status (g j)) (p_status p)"
    and camp: "\<And>j c. j \<in> set (jds s) \<Longrightarrow> P j \<Longrightarrow> c \<in> set (campaigns s) \<Longrightarrow> c_id c = j_campaign_id j \<Longrightarrow>
      campaign_allows (c_status c) (j_status (g j))"
  shows "tables_ok cfg ext (update_jds P g s)"
proof -
  note d = tables_okD [OF ok]
  have k: "\<And>j. j_id (g j) = j_id j \<and> j_campaign_id (g j) = j_campaign_id j \<and> j_jd_key (g j) = j_jd_key j"
    using keys by blast
  have "rows_ok cfg (update_jds P g s)"
    unfolding rows_ok_def
  proof (intro ballI conjI impI)
    fix p assume "p \<in> set (pairs (update_jds P g s))"
    then have p: "p \<in> set (pairs s)" by simp
    show "pair_shape cfg p" using rows_okD(1) [OF d(4) p] .
    show "cv_allows (v_stage0_status v) (p_status p)"
      if "v \<in> set (cvs (update_jds P g s))" "v_id v = p_cv_id p" for v
      using rows_okD(2) [OF d(4) p] that by simp
    fix j assume "j \<in> set (jds (update_jds P g s))" "j_id j = p_jd_id p"
    then show "jd_allows (j_status j) (p_status p)"
      using rows p keys rows_okD(3) [OF d(4) p] by (simp add: in_update_where) (metis (full_types))
  qed
  moreover have "scopes_ok (update_jds P g s)"
    using d(5) camp keys by (auto simp: scopes_ok_def elim!: update_where_cases)
  moreover have "caps_ok (update_jds P g s)"
    using d(7) keys by (auto simp: caps_ok_def shortlist_count_def elim!: update_where_cases)
  moreover have "inflight_ok cfg (update_jds P g s)"
    using d(8) by (simp add: inflight_ok_def running_count_def status_count_def)
  ultimately show ?thesis
    using d by (simp add: tables_ok_def update_jds_keys [OF k])
qed

lemma finalize_jd_ok:
  assumes ok: "tables_ok cfg ext s" and step: "finalize_jd now jd_id s = Inr (b, t)"
    and start: "\<And>j. jd_by_id jd_id s = Some j \<Longrightarrow> started (j_campaign_id j) s"
  shows "tables_ok cfg ext t"
  using step
proof (cases rule: finalize_jd_cases)
  case closed
  then show ?thesis using ok by simp
next
  case (waiting j)
  note jd = jd_by_id_D [OF waiting(2)]
  have same: "k = j" if "k \<in> set (jds s)" "j_id k = jd_id" for k
    using distinct_key_eq [OF distinct_keysD(2) [OF tables_okD(1) [OF ok]] that(1) jd(1)] that(2) jd(2) by simp
  show ?thesis
    unfolding waiting(4) set_jd_status_def
  proof (rule update_jds_ok [OF ok])
    fix k p assume "k \<in> set (jds s)" "j_id k = jd_id" "p \<in> set (pairs s)" "p_jd_id p = j_id k"
    then show "jd_allows (j_status (k\<lparr>j_status := J_PROCESSING\<rparr>)) (p_status p)"
      using rows_okD(3) [OF tables_okD(4) [OF ok], of p k] same [of k] waiting(3) by simp
  next
    fix k c assume "k \<in> set (jds s)" "j_id k = jd_id" "c \<in> set (campaigns s)" "c_id c = j_campaign_id k"
    moreover from this have "campaign_allows (c_status c) (j_status k)" "c_status c \<noteq> C_INTAKE"
      using tables_okD(5) [OF ok] start [OF waiting(2)] same [of k] by (simp_all add: scopes_ok_def started_def)
    ultimately show "campaign_allows (c_status c) (j_status (k\<lparr>j_status := J_PROCESSING\<rparr>))"
      using same [of k] waiting(3) by (cases "c_status c") simp_all
  qed simp
next
  case (ranked j rows)
  then show ?thesis using finalized_ok [OF ok ranked(2-5) start [OF ranked(2)]] by simp
qed

lemma complete_jds_ok:
  assumes ok: "tables_ok cfg ext s"
    and running: "\<And>c. c \<in> set (campaigns s) \<Longrightarrow> c_id c = i \<Longrightarrow> c_status c = C_RUNNING"
  shows "tables_ok cfg ext (complete_jds now i s)"
  unfolding complete_jds_def
  by (rule update_jds_ok [OF ok]) (use running in \<open>auto simp: jd_unfinished_def count_where_zero\<close>)

lemma update_campaigns_ok:
  assumes ok: "tables_ok cfg ext s"
    and keys: "\<And>c. c_id (g c) = c_id c \<and> c_owner_id (g c) = c_owner_id c \<and> c_idempotency_key (g c) = c_idempotency_key c"
    and camp: "\<And>j c. j \<in> set (jds s) \<Longrightarrow> c \<in> set (campaigns s) \<Longrightarrow> P c \<Longrightarrow> c_id c = j_campaign_id j \<Longrightarrow>
      campaign_allows (c_status (g c)) (j_status j)"
  shows "tables_ok cfg ext (update_campaigns P g s)"
proof -
  note d = tables_okD [OF ok]
  have m: "map c_id (update_where P g (campaigns s)) = map c_id (campaigns s)"
    using keys by (simp add: map_update_where_key)
  have "map (\<lambda>c. (c_owner_id c, c_idempotency_key c)) (filter (\<lambda>c. c_idempotency_key c \<noteq> None)
      (update_where P g rows)) = map (\<lambda>c. (c_owner_id c, c_idempotency_key c))
      (filter (\<lambda>c. c_idempotency_key c \<noteq> None) rows)" for rows
    using keys by (induction rows) auto
  then have u: "unique_constraints (update_campaigns P g s)"
    using d(1) by (simp add: unique_constraints_def m)
  have ids: "c_id ` set (update_where P g (campaigns s)) = c_id ` set (campaigns s)"
    using m by (metis set_map)
  have "foreign_keys (update_campaigns P g s)" "ids_issued ext (update_campaigns P g s)"
    using d(2,3) by (simp_all add: foreign_keys_def ids_issued_def ids)
  moreover have "scopes_ok (update_campaigns P g s)"
    using d(5) camp keys by (auto simp: scopes_ok_def elim!: update_where_cases)
  ultimately show ?thesis
    using u d by (simp add: tables_ok_def rows_ok_def pairs_complete_def caps_ok_def shortlist_count_def
        inflight_ok_def running_count_def status_count_def)
qed

lemma campaign_by_id_D:
  assumes "campaign_by_id i s = Some c"
  shows "c \<in> set (campaigns s)" "c_id c = i"
  using find_Some_in [OF assms [unfolded campaign_by_id_def]] by simp_all

lemma campaign_unique:
  assumes "unique_constraints s" "campaign_by_id i s = Some c" "d \<in> set (campaigns s)" "c_id d = i"
  shows "d = c"
  using distinct_key_eq [OF distinct_keysD(1) [OF assms(1)], of d c] campaign_by_id_D [OF assms(2)] assms(3,4)
  by simp

lemma finalize_campaign_ok:
  assumes ok: "tables_ok cfg ext s"
  shows "tables_ok cfg ext (snd (finalize_campaign now i s))"
proof (cases "\<exists>c. campaign_by_id i s = Some c \<and> c_status c = C_RUNNING")
  case True
  then obtain c where c: "campaign_by_id i s = Some c" "c_status c = C_RUNNING" by blast
  let ?s = "complete_jds now i s"
  have running: "d \<in> set (campaigns s) \<Longrightarrow> c_id d = i \<Longrightarrow> c_status d = C_RUNNING" for d
    using campaign_unique [OF tables_okD(1) [OF ok] c(1)] c(2) by blast
  have ok1: "tables_ok cfg ext ?s" using ok running by (rule complete_jds_ok)
  have "tables_ok cfg ext (update_campaigns (\<lambda>d. c_id d = i)
      (\<lambda>d. d\<lparr>c_status := C_COMPLETED, c_completed_at := Some now, c_updated_at := now\<rparr>) ?s)"
    if "count_where (\<lambda>j. j_campaign_id j = i \<and> j_status j \<noteq> J_COMPLETED) (jds ?s) = 0"
    by (rule update_campaigns_ok [OF ok1]) (use that in \<open>auto simp: count_where_zero\<close>)
  then show ?thesis using ok1 c by (simp add: finalize_campaign_def Let_def)
next
  case False
  then show ?thesis using ok by (auto simp: finalize_campaign_def split: option.splits)
qed

lemma open_campaign_ok:
  "tables_ok cfg ext s \<Longrightarrow> (\<And>c. c \<in> set (campaigns s) \<Longrightarrow> c_id c = i \<Longrightarrow> c_status c = C_INTAKE) \<Longrightarrow>
     tables_ok cfg ext (open_campaign i h report s)"
  unfolding open_campaign_def
  by (rule update_campaigns_ok) (auto simp: tables_ok_def scopes_ok_def)

lemma store_report_ok: "tables_ok cfg ext s \<Longrightarrow> tables_ok cfg ext (store_report i report s)"
  unfolding store_report_def
  by (rule update_campaigns_ok) (auto simp: tables_ok_def scopes_ok_def)

end
