(* ===== verification/Documents.thy ===== *)
theory Documents
  imports Barrier
begin

text \<open>
  Reservations and Stage 0 keep the table invariants: a new document gets one pending pair for every
  JD of its campaign, and a document that fails takes all its pairs with it in the transaction that
  records the failure.
\<close>

section \<open>Stage 0\<close>

lemma cv_by_id_D:
  assumes "cv_by_id i s = Some v"
  shows "v \<in> set (cvs s)" "v_id v = i"
  using find_Some_in [OF assms [unfolded cv_by_id_def]] by simp_all

lemma cv_by_candidate_D:
  assumes "cv_by_candidate i k s = Some v"
  shows "v \<in> set (cvs s)" "v_campaign_id v = i" "v_candidate_id v = k"
  using find_Some_in [OF assms [unfolded cv_by_candidate_def]] by simp_all

text \<open>
  An update of documents together with the pending pairs that fail with them.
\<close>

lemma document_step_ok:
  assumes ok: "tables_ok cfg ext s"
    and cv: "\<And>v. v \<in> set (cvs s) \<Longrightarrow> P v \<Longrightarrow> v_id (h v) = v_id v \<and> v_campaign_id (h v) = v_campaign_id v \<and>
      v_candidate_id (h v) = v_candidate_id v \<and> cv_checks (h v)"
    and rows: "\<And>p v. p \<in> set (pairs s) \<Longrightarrow> v \<in> set (cvs s) \<Longrightarrow> v_id v = p_cv_id p \<Longrightarrow>
      cv_allows (v_stage0_status (if P v then h v else v)) (p_status (if Q p then f p else p))"
    and pair: "\<And>p. p \<in> set (pairs s) \<Longrightarrow> Q p \<Longrightarrow> p_status p = PENDING \<and> same_keys p (f p) \<and>
      p_status (f p) = EXTRACTION_FAILED \<and> p_lease_owner (f p) = None \<and>
      (pair_shape cfg p \<longrightarrow> pair_shape cfg (f p))"
  shows "tables_ok cfg ext (update_pairs Q f (update_cvs P h s))" (is "tables_ok cfg ext ?t")
proof -
  note d = tables_okD [OF ok]
  have keys: "keeps_keys Q f (pairs (update_cvs P h s))" using pair by (simp add: keeps_keys_def)
  have m: "map v_id (update_where P h (cvs s)) = map v_id (cvs s)"
    "map (\<lambda>v. (v_campaign_id v, v_candidate_id v)) (update_where P h (cvs s)) = map (\<lambda>v. (v_campaign_id v, v_candidate_id v)) (cvs s)"
    "map (\<lambda>v. (v_campaign_id v, v_id v)) (update_where P h (cvs s)) = map (\<lambda>v. (v_campaign_id v, v_id v)) (cvs s)"
    using cv by (auto simp: update_where_def)
  have sets: "v_id ` set (update_where P h (cvs s)) = v_id ` set (cvs s)"
    "(\<lambda>v. (v_campaign_id v, v_id v)) ` set (update_where P h (cvs s)) = (\<lambda>v. (v_campaign_id v, v_id v)) ` set (cvs s)"
    using m(1,3) by (metis set_map)+
  have u1: "unique_constraints (update_cvs P h s)" using d(1) by (simp add: unique_constraints_def m)
  have f1: "foreign_keys (update_cvs P h s)"
    using d(2) cv by (auto simp: foreign_keys_def sets elim!: update_where_cases)
  have c1: "pairs_complete (update_cvs P h s)"
    using d(6) cv by (auto simp: pairs_complete_def elim!: update_where_cases)
  have t: "?t = (update_pairs Q f (update_cvs P h s))\<lparr>uuids := uuids s\<rparr>"
    by (simp add: update_pairs_def update_cvs_def)
  note pk = update_pairs_keys [OF keys t]
  have "map p_id (pairs ?t) = map p_id (pairs s)" using keeps_keys_map(1) [OF keys] by simp
  then have "p_id ` set (pairs ?t) = p_id ` set (pairs s)" by (metis set_map)
  moreover have "p_lease_owner q = Some k \<Longrightarrow> k \<in> issued ext s" if "q \<in> set (pairs ?t)" for q k
    using that d(3) pair by (auto simp: ids_issued_def elim!: update_where_cases)
  ultimately have ids: "ids_issued ext ?t" using d(3) by (simp add: ids_issued_def sets)
  have "rows_ok cfg ?t"
    unfolding rows_ok_def
  proof
    fix q assume "q \<in> set (pairs ?t)"
    then have "q \<in> set (update_where Q f (pairs s))" by simp
    then obtain p where p: "p \<in> set (pairs s)" "q = (if Q p then f p else p)" by (auto simp: in_update_where)
    note old = rows_okD [OF d(4) p(1)]
    have k: "same_keys p q" using p pair by (auto simp: same_keys_def)
    have "pair_shape cfg q" using old(1) p pair by auto
    moreover have "cv_allows (v_stage0_status w) (p_status q)" if "w \<in> set (cvs ?t)" "v_id w = p_cv_id q" for w
    proof -
      have "w \<in> set (update_where P h (cvs s))" using that(1) by simp
      then obtain v where v: "v \<in> set (cvs s)" "w = (if P v then h v else v)" by (auto simp: in_update_where)
      moreover have "v_id v = p_cv_id p" using v cv [OF v(1)] that(2) k by (auto simp: same_keys_def split: if_splits)
      ultimately show ?thesis using rows [OF p(1), of v] p(2) by simp
    qed
    moreover have "jd_allows (j_status k') (p_status q)" if "k' \<in> set (jds ?t)" "j_id k' = p_jd_id q" for k'
    proof -
      have a: "jd_allows (j_status k') (p_status p)" using old(3) that k by (simp add: same_keys_def)
      show ?thesis
      proof (cases "Q p")
        case True
        then show ?thesis using jd_allows_before [OF a, of EXTRACTION_FAILED] pair [OF p(1)] p(2)
          by (simp add: after_cutoff_def)
      next
        case False
        then show ?thesis using a p(2) by simp
      qed
    qed
    ultimately show "pair_shape cfg q \<and>
        (\<forall>v\<in>set (cvs ?t). v_id v = p_cv_id q \<longrightarrow> cv_allows (v_stage0_status v) (p_status q)) \<and>
        (\<forall>j\<in>set (jds ?t). j_id j = p_jd_id q \<longrightarrow> jd_allows (j_status j) (p_status q))" by blast
  qed
  moreover have "scopes_ok ?t"
    using d(5) cv by (auto simp: scopes_ok_def elim!: update_where_cases)
  moreover have "caps_ok ?t"
  proof (rule caps_mono [OF d(7)])
    show "shortlist_count i ?t \<le> shortlist_count i s" for i
      unfolding shortlist_count_def update_table_simps
      by (rule count_update_mono) (drule (1) pair, simp add: shortlisted_def)
  qed simp
  moreover have "inflight_ok cfg ?t"
  proof (rule inflight_mono [OF d(8)])
    show "running_count i ?t \<le> running_count i s" for i
      unfolding running_count_def update_table_simps
      by (rule count_update_mono) (drule (1) pair, simp)
    show "status_count RUNNING ?t \<le> status_count RUNNING s"
      "status_count STAGE3_RUNNING ?t \<le> status_count STAGE3_RUNNING s"
      unfolding status_count_def update_table_simps
      by (rule count_update_mono, drule (1) pair, simp)+
  qed
  ultimately show ?thesis using ids u1 f1 c1 pk by (simp add: tables_ok_def)
qed

lemma update_pairs_none [simp]: "update_pairs (\<lambda>p. False) f s = s"
  by (simp add: update_pairs_def update_where_def)

lemma update_cvs_ok:
  assumes ok: "tables_ok cfg ext s"
    and cv: "\<And>v. v \<in> set (cvs s) \<Longrightarrow> P v \<Longrightarrow> v_id (h v) = v_id v \<and> v_campaign_id (h v) = v_campaign_id v \<and>
      v_candidate_id (h v) = v_candidate_id v \<and> cv_checks (h v)"
    and rows: "\<And>p v. p \<in> set (pairs s) \<Longrightarrow> v \<in> set (cvs s) \<Longrightarrow> P v \<Longrightarrow> v_id v = p_cv_id p \<Longrightarrow>
      cv_allows (v_stage0_status v) (p_status p) \<Longrightarrow> cv_allows (v_stage0_status (h v)) (p_status p)"
  shows "tables_ok cfg ext (update_cvs P h s)"
proof -
  have "tables_ok cfg ext (update_pairs (\<lambda>p. False) id (update_cvs P h s))"
    by (rule document_step_ok [OF ok cv]) (use rows rows_okD(2) [OF tables_okD(4) [OF ok]] in auto)
  then show ?thesis by simp
qed

lemma scopes_cv_checks: "tables_ok cfg ext s \<Longrightarrow> v \<in> set (cvs s) \<Longrightarrow> cv_checks v"
  by (simp add: tables_ok_def scopes_ok_def)

lemma fail_pair_shape:
  assumes "p_status p = PENDING" "pair_shape cfg p"
  shows "pair_shape cfg (p\<lparr>p_status := EXTRACTION_FAILED, p_failure_code := c, p_updated_at := now\<rparr>)"
    "pair_shape cfg (p\<lparr>p_status := EXTRACTION_FAILED, p_failure_code := c\<rparr>)"
  using assms by (auto simp: shape_simps)

lemma pending_lease: "p_status p = PENDING \<Longrightarrow> pair_shape cfg p \<Longrightarrow> p_lease_owner p = None"
  by (auto simp: shape_simps)

lemma cv_rows:
  assumes "tables_ok cfg ext s" "v \<in> set (cvs s)" "w \<in> set (cvs s)" "v_id w = v_id v"
  shows "w = v"
  using distinct_key_eq [OF distinct_keysD(3) [OF tables_okD(1) [OF assms(1)]] assms(3,2,4)] .

text \<open>The claim either starts extraction or, without a document, fails CV and pairs together.\<close>

lemma claim_stage0_ok:
  assumes ok: "tables_ok cfg ext s"
  shows "tables_ok cfg ext (snd (claim_stage0 c now i s))"
proof (cases "cv_by_id i s")
  case None
  then show ?thesis using ok by (simp add: claim_stage0_def)
next
  case (Some v)
  note v = cv_by_id_D(1) [OF Some]
  note allowed = rows_okD(2) [OF tables_okD(4) [OF ok]]
  show ?thesis
  proof (cases "v_stage0_status v \<in> {S0_SUCCEEDED, S0_FAILED} \<or>
      (v_stage0_status v = S0_RUNNING \<and> now - lease_seconds c < v_updated_at v)")
    case True
    then show ?thesis using ok Some by (auto simp: claim_stage0_def)
  next
    case False
    then have st: "v_stage0_status v \<in> {S0_PENDING, S0_RUNNING}" by (cases "v_stage0_status v") auto
    have pend: "p_status p = PENDING" if "p \<in> set (pairs s)" "v_id v = p_cv_id p" for p
      using allowed [OF that(1) v that(2)] st by auto
    show ?thesis
    proof (cases "v_encrypted_pdf v")
      case None
      let ?t = "update_pairs (\<lambda>p. p_cv_id p = v_id v \<and> p_status p = PENDING) pdf_missing_pair
          (update_cvs (\<lambda>w. v_id w = v_id v) pdf_missing_cv s)"
      have "tables_ok cfg ext ?t"
      proof (rule document_step_ok [OF ok])
        fix w assume "w \<in> set (cvs s)" "v_id w = v_id v"
        then have w: "w = v" using cv_rows [OF ok v] by simp
        show "v_id (pdf_missing_cv w) = v_id w \<and> v_campaign_id (pdf_missing_cv w) = v_campaign_id w \<and>
            v_candidate_id (pdf_missing_cv w) = v_candidate_id w \<and> cv_checks (pdf_missing_cv w)"
          using scopes_cv_checks [OF ok v] None by (simp add: pdf_missing_cv_def cv_checks_def w)
      next
        fix p w assume a: "p \<in> set (pairs s)" "w \<in> set (cvs s)" "v_id w = p_cv_id p"
        show "cv_allows (v_stage0_status (if v_id w = v_id v then pdf_missing_cv w else w))
            (p_status (if p_cv_id p = v_id v \<and> p_status p = PENDING then pdf_missing_pair p else p))"
          using allowed [OF a] pend [OF a(1)] a(3)
          by (auto simp: pdf_missing_cv_def pdf_missing_pair_def)
      next
        fix p assume "p \<in> set (pairs s)" "p_cv_id p = v_id v \<and> p_status p = PENDING"
        then show "p_status p = PENDING \<and> same_keys p (pdf_missing_pair p) \<and>
            p_status (pdf_missing_pair p) = EXTRACTION_FAILED \<and> p_lease_owner (pdf_missing_pair p) = None \<and>
            (pair_shape cfg p \<longrightarrow> pair_shape cfg (pdf_missing_pair p))"
          using pending_lease [of p cfg] rows_okD(1) [OF tables_okD(4) [OF ok], of p] fail_pair_shape(2) [of p cfg]
          by (simp add: pdf_missing_pair_def same_keys_def)
      qed
      then show ?thesis using ok Some None False by (auto simp: claim_stage0_def)
    next
      case pdf: (Some e)
      have "tables_ok cfg ext (update_cvs (\<lambda>w. v_id w = v_id v)
          (\<lambda>w. w\<lparr>v_stage0_status := S0_RUNNING, v_updated_at := now\<rparr>) s)"
      proof (rule update_cvs_ok [OF ok])
        fix p w assume "p \<in> set (pairs s)" "w \<in> set (cvs s)" "v_id w = v_id v" "v_id w = p_cv_id p"
        then show "cv_allows (v_stage0_status (w\<lparr>v_stage0_status := S0_RUNNING, v_updated_at := now\<rparr>)) (p_status p)"
          using pend by simp
      qed (use scopes_cv_checks [OF ok] in \<open>simp add: cv_checks_def\<close>)
      then show ?thesis using ok Some pdf False by (auto simp: claim_stage0_def)
    qed
  qed
qed

lemma finish_stage0_cases:
  assumes "finish_stage0 now i owner k text pages err s = Inr (b, t)"
  obtains (again) "\<not> b" "t = s"
  | (stored) v where "b" "cv_by_candidate i k s = Some v" "v_stage0_status v \<in> {S0_PENDING, S0_RUNNING}"
      "t = (if nonempty err then update_pairs
           (\<lambda>p. p_campaign_id p = i \<and> p_cv_id p = v_id v \<and> \<not> terminal (p_status p)) (extraction_failed_pair now err)
           (update_cvs (\<lambda>w. v_id w = v_id v) (publish_cv now text pages err) s)
         else update_cvs (\<lambda>w. v_id w = v_id v) (publish_cv now text pages err) s)"
proof -
  obtain v where v: "cv_by_candidate i k s = Some v"
    using assms by (cases "cv_by_candidate i k s") (auto simp: finish_stage0_def rbind_Inr_conv)
  show thesis
  proof (cases "v_stage0_status v \<in> {S0_SUCCEEDED, S0_FAILED}")
    case True
    then show ?thesis using assms v by (intro again) (auto simp: finish_stage0_def rbind_Inr_conv)
  next
    case False
    then have "v_stage0_status v \<in> {S0_PENDING, S0_RUNNING}" by (cases "v_stage0_status v") auto
    then show ?thesis using assms v False
      by (intro stored [OF _ v]) (auto simp: finish_stage0_def rbind_Inr_conv Let_def split: if_splits)
  qed
qed

lemma finish_stage0_ok:
  assumes ok: "tables_ok cfg ext s" and step: "finish_stage0 now i owner k text pages err s = Inr (b, t)"
  shows "tables_ok cfg ext t"
  using step
proof (cases rule: finish_stage0_cases)
  case again
  then show ?thesis using ok by simp
next
  case (stored v)
  note v = cv_by_candidate_D [OF stored(2)]
  note allowed = rows_okD(2) [OF tables_okD(4) [OF ok]]
  have pend: "p_status p = PENDING" if "p \<in> set (pairs s)" "v_id v = p_cv_id p" for p
    using allowed [OF that(1) v(1) that(2)] stored(3) by auto
  have camp: "p_campaign_id p = i" if mem: "p \<in> set (pairs s)" "p_cv_id p = v_id v" for p
  proof -
    obtain w where "w \<in> set (cvs s)" "v_id w = p_cv_id p" "v_campaign_id w = p_campaign_id p"
      using foreign_keysD(1) [OF tables_okD(2) [OF ok] mem(1)] by blast
    then show ?thesis using cv_rows [OF ok v(1), of w] mem(2) v(2) by simp
  qed
  have cv: "v_id (publish_cv now text pages err w) = v_id w \<and>
      v_campaign_id (publish_cv now text pages err w) = v_campaign_id w \<and>
      v_candidate_id (publish_cv now text pages err w) = v_candidate_id w \<and>
      cv_checks (publish_cv now text pages err w)" if "w \<in> set (cvs s)" for w
    using scopes_cv_checks [OF ok that] by (simp add: publish_cv_def cv_checks_def)
  show ?thesis
  proof (cases "nonempty err")
    case True
    have "tables_ok cfg ext (update_pairs
        (\<lambda>p. p_campaign_id p = i \<and> p_cv_id p = v_id v \<and> \<not> terminal (p_status p)) (extraction_failed_pair now err)
        (update_cvs (\<lambda>w. v_id w = v_id v) (publish_cv now text pages err) s))"
    proof (rule document_step_ok [OF ok cv])
      fix p w assume a: "p \<in> set (pairs s)" "w \<in> set (cvs s)" "v_id w = p_cv_id p"
      show "cv_allows (v_stage0_status (if v_id w = v_id v then publish_cv now text pages err w else w))
          (p_status (if p_campaign_id p = i \<and> p_cv_id p = v_id v \<and> \<not> terminal (p_status p)
            then extraction_failed_pair now err p else p))"
        using allowed [OF a] pend [OF a(1)] camp [OF a(1)] a(3) True
        by (auto simp: publish_cv_def extraction_failed_pair_def)
    next
      fix p assume a: "p \<in> set (pairs s)" "p_campaign_id p = i \<and> p_cv_id p = v_id v \<and> \<not> terminal (p_status p)"
      then have "p_status p = PENDING" using pend by simp
      then show "p_status p = PENDING \<and> same_keys p (extraction_failed_pair now err p) \<and>
          p_status (extraction_failed_pair now err p) = EXTRACTION_FAILED \<and>
          p_lease_owner (extraction_failed_pair now err p) = None \<and>
          (pair_shape cfg p \<longrightarrow> pair_shape cfg (extraction_failed_pair now err p))"
        using pending_lease [of p cfg] rows_okD(1) [OF tables_okD(4) [OF ok] a(1)] fail_pair_shape(1) [of p cfg]
        by (simp add: extraction_failed_pair_def same_keys_def)
    qed
    then show ?thesis using stored(4) True by simp
  next
    case False
    have "tables_ok cfg ext (update_cvs (\<lambda>w. v_id w = v_id v) (publish_cv now text pages err) s)"
      by (rule update_cvs_ok [OF ok cv]) (use pend False in \<open>auto simp: publish_cv_def\<close>)
    then show ?thesis using stored(4) False by simp
  qed
qed

lemma stage_pdf_ok:
  assumes ok: "tables_ok cfg ext s" and step: "stage_pdf e now i owner k pdf s = Inr (b, t)"
  shows "tables_ok cfg ext t"
proof -
  obtain v where v: "cv_by_candidate i k s = Some v"
    using step by (cases "cv_by_candidate i k s") (auto simp: stage_pdf_def rbind_Inr_conv)
  let ?h = "\<lambda>w. w\<lparr>v_encrypted_pdf := Some (encrypt_payload e pdf),
      v_encrypted_original_pdf := Some (encrypt_payload e pdf), v_updated_at := now\<rparr>"
  have "tables_ok cfg ext (update_cvs (\<lambda>w. v_id w = v_id v) ?h s)" if "v_stage0_status v = S0_PENDING"
  proof (rule update_cvs_ok [OF ok])
    fix w assume "w \<in> set (cvs s)" "v_id w = v_id v"
    then have "w = v" using cv_rows [OF ok cv_by_candidate_D(1) [OF v]] by simp
    then show "v_id (?h w) = v_id w \<and> v_campaign_id (?h w) = v_campaign_id w \<and>
        v_candidate_id (?h w) = v_candidate_id w \<and> cv_checks (?h w)"
      using scopes_cv_checks [OF ok cv_by_candidate_D(1) [OF v]] that by (simp add: cv_checks_def)
  qed simp
  then show ?thesis using step v ok by (auto simp: stage_pdf_def rbind_Inr_conv split: if_splits)
qed

lemma recover_ok:
  assumes "tables_ok cfg ext s"
  shows "tables_ok cfg ext (snd (recover_campaign_stage0 c now queued locked s))"
  using assms scopes_cv_checks [OF assms]
  by (auto simp: recover_campaign_stage0_def Let_def cv_checks_def intro!: update_cvs_ok)

section \<open>Reservations\<close>

lemma uuid_fresh:
  assumes "fresh_ids ext" "ids_issued ext s" "uuids s \<le> n"
  shows "uuid4 ext n \<notin> c_id ` set (campaigns s)" "uuid4 ext n \<notin> j_id ` set (jds s)"
    "uuid4 ext n \<notin> v_id ` set (cvs s)" "uuid4 ext n \<notin> p_id ` set (pairs s)"
  using not_issued [OF assms(1,3)] assms(2) by (auto simp: ids_issued_def)

lemma new_jds_in:
  "j \<in> set (new_jds ext cid cap now n items) \<Longrightarrow>
     j_campaign_id j = cid \<and> j_stage3_cap j = cap \<and> j_status j = J_PENDING"
  by (induction ext cid cap now n items rule: new_jds.induct) auto

lemma new_jds_ids: "map j_id (new_jds ext cid cap now n items) = map (uuid4 ext) [n..<n + length items]"
  by (induction ext cid cap now n items rule: new_jds.induct) (simp_all add: upt_rec [of "_::nat"] del: upt_Suc)

lemma length_new_jds [simp]: "length (new_jds ext cid cap now n items) = length items"
  by (induction ext cid cap now n items rule: new_jds.induct) auto

lemma new_pairs_in:
  "p \<in> set (new_pairs ext cid vid now n ids) \<Longrightarrow> p_campaign_id p = cid \<and> p_cv_id p = vid \<and>
     p_status p = PENDING \<and> p_jd_id p \<in> set ids \<and> p_lease_owner p = None"
  by (induction ext cid vid now n ids rule: new_pairs.induct) (auto simp: new_pair_def)

lemma new_pairs_ids: "map p_id (new_pairs ext cid vid now n ids) = map (uuid4 ext) [n..<n + length ids]"
  by (induction ext cid vid now n ids rule: new_pairs.induct)
    (simp_all add: new_pair_def upt_rec [of "_::nat"] del: upt_Suc)

lemma new_pairs_jds: "map p_jd_id (new_pairs ext cid vid now n ids) = ids"
  by (induction ext cid vid now n ids rule: new_pairs.induct) (simp_all add: new_pair_def)

lemma length_new_pairs [simp]: "length (new_pairs ext cid vid now n ids) = length ids"
  by (induction ext cid vid now n ids rule: new_pairs.induct) auto

lemma new_pair_shape:
  "settings_ok cfg \<Longrightarrow> p \<in> set (new_pairs ext cid vid now n ids) \<Longrightarrow> pair_shape cfg p \<and> \<not> shortlisted p"
  using settings_okD(1) [of cfg]
  by (induction ext cid vid now n ids rule: new_pairs.induct) (auto simp: new_pair_def shape_simps)

lemma distinct_uuids:
  assumes "fresh_ids ext"
  shows "distinct (map (uuid4 ext) [n..<m])"
  using assms by (auto simp: fresh_ids_def distinct_map inj_on_def)

lemma insert_campaign_ok:
  assumes ok: "tables_ok cfg ext t" and fresh: "fresh_ids ext" and cap: "1 \<le> cap" "cap \<le> 15"
    and c: "c = new_campaign (uuid4 ext (uuids t)) owner key hash nm now"
    and js: "js = new_jds ext (c_id c) cap now (Suc (uuids t)) items"
    and ins: "insert_campaign c js t = Some u"
  shows "tables_ok cfg ext u"
proof -
  note d = tables_okD [OF ok]
  have u: "u = t\<lparr>campaigns := campaigns t @ [c], jds := jds t @ js, uuids := uuids t + 1 + length js\<rparr>"
    and key: "\<forall>c'\<in>set (campaigns t). c_id c' \<noteq> c_id c \<and>
      \<not> (c_owner_id c' = c_owner_id c \<and> c_idempotency_key c' = c_idempotency_key c \<and> c_idempotency_key c \<noteq> None)"
    and jkey: "\<forall>j\<in>set (jds t). j_id j \<notin> j_id ` set js" "distinct (map j_id js)" "distinct (map j_jd_key js)"
    using ins by (auto simp: insert_campaign_def list_ex_iff split: if_splits)
  have js_in: "j_campaign_id j = c_id c \<and> j_stage3_cap j = cap \<and> j_status j = J_PENDING" if "j \<in> set js" for j
    using that unfolding js by (rule new_jds_in)
  have old_j: "j_campaign_id j \<noteq> c_id c" if "j \<in> set (jds t)" for j
    using d(2) key that by (auto simp: foreign_keys_def)
  have old_v: "v_campaign_id v \<noteq> c_id c" if "v \<in> set (cvs t)" for v
    using d(2) key that by (auto simp: foreign_keys_def)
  have old_pj: "p_jd_id p \<notin> j_id ` set js" if "p \<in> set (pairs t)" for p
    using foreign_keysD(2) [OF d(2) that] jkey(1) by metis
  have pairs_j: "distinct (map (\<lambda>j. (j_campaign_id j, j_jd_key j)) js)"
    using jkey(3) js_in by (auto simp: distinct_map inj_on_def)
  have "distinct (map c_id (campaigns t @ [c]))"
    using d(1) key by (force simp: unique_constraints_def)
  moreover have "distinct (map j_id (jds t @ js))"
    using d(1) jkey(1,2) by (force simp: unique_constraints_def)
  moreover have "distinct (map (\<lambda>c. (c_owner_id c, c_idempotency_key c))
      (filter (\<lambda>c. c_idempotency_key c \<noteq> None) (campaigns t @ [c])))"
    using d(1) key by (force simp: unique_constraints_def)
  moreover have "distinct (map (\<lambda>j. (j_campaign_id j, j_jd_key j)) (jds t @ js))"
    using d(1) pairs_j js_in old_j by (force simp: unique_constraints_def)
  ultimately have "unique_constraints u"
    using d(1) unfolding unique_constraints_def u by simp
  moreover have "foreign_keys u"
    unfolding u using d(2) js_in by (auto simp: foreign_keys_def)
  moreover have "ids_issued ext u"
  proof -
    have sub: "issued ext t \<subseteq> issued ext u" by (rule issued_mono) (simp add: u)
    have "j_id ` set js = uuid4 ext ` {Suc (uuids t)..<Suc (uuids t) + length items}"
      using new_jds_ids [of ext "c_id c" cap now "Suc (uuids t)" items] unfolding js
      by (metis atLeastLessThan_upt set_map)
    then have "j_id ` set js \<subseteq> issued ext u" by (auto simp: issued_def u js)
    moreover have "c_id c \<in> issued ext u" by (auto simp: issued_def u c new_campaign_def)
    ultimately show ?thesis using d(3) sub by (auto simp: ids_issued_def u)
  qed
  moreover have "rows_ok cfg u"
    unfolding rows_ok_def
  proof (intro ballI conjI impI)
    fix p assume "p \<in> set (pairs u)"
    then have p: "p \<in> set (pairs t)" by (simp add: u)
    note old = rows_okD [OF d(4) p]
    show "pair_shape cfg p" by (rule old)
    show "cv_allows (v_stage0_status v) (p_status p)" if "v \<in> set (cvs u)" "v_id v = p_cv_id p" for v
      using old(2) that by (simp add: u)
    show "jd_allows (j_status j) (p_status p)" if "j \<in> set (jds u)" "j_id j = p_jd_id p" for j
      using old(3) that old_pj [OF p] by (auto simp: u image_iff)
  qed
  moreover have "scopes_ok u"
  proof -
    have new: "\<forall>j\<in>set js. j_campaign_id j = c_id c \<and> j_stage3_cap j = cap \<and> j_status j = J_PENDING"
      and old: "\<forall>j\<in>set (jds t). c_id c \<noteq> j_campaign_id j"
      using js_in old_j by (blast, metis)
    have "c_status c = C_INTAKE" by (simp add: c new_campaign_def)
    then show ?thesis
      using d(5) new old key cap by (auto simp: scopes_ok_def u MAX_CANDIDATES_PER_JD_def)
  qed
  moreover have "pairs_complete u"
    unfolding pairs_complete_def
  proof (intro ballI impI)
    fix j w assume a: "j \<in> set (jds u)" "w \<in> set (cvs u)" "j_campaign_id j = v_campaign_id w"
    then have "w \<in> set (cvs t)" by (simp add: u)
    moreover from this have "j \<notin> set js" using js_in [of j] old_v [of w] a(3) by auto
    ultimately show "\<exists>p\<in>set (pairs u). p_jd_id p = j_id j \<and> p_cv_id p = v_id w"
      using d(6) a by (auto simp: pairs_complete_def u)
  qed
  moreover have "caps_ok u"
  proof -
    have "shortlist_count (j_id j) t = 0" if "j \<in> set js" for j
      using that old_pj by (auto simp: shortlist_count_def count_where_zero)
    then show ?thesis using d(7) js_in cap by (auto simp: caps_ok_def shortlist_count_def u)
  qed
  moreover have "inflight_ok cfg u"
    using d(8) by (simp add: inflight_ok_def running_count_def status_count_def u)
  ultimately show ?thesis by (simp add: tables_ok_def)
qed

lemma insert_cv_ok:
  assumes ok: "tables_ok cfg ext t" and cfg: "settings_ok cfg" and fresh: "fresh_ids ext"
    and v: "v = new_cv ext (uuid4 ext (uuids t)) i k fname hash pdf now"
    and ps: "ps = new_pairs ext i (v_id v) now (Suc (uuids t)) (map j_id (filter (\<lambda>j. j_campaign_id j = i) (jds t)))"
    and camp: "c \<in> set (campaigns t)" "c_id c = i" "c_status c = C_INTAKE"
    and ins: "insert_cv v ps t = Some u"
  shows "tables_ok cfg ext u"
proof -
  note d = tables_okD [OF ok]
  let ?js = "filter (\<lambda>j. j_campaign_id j = i) (jds t)"
  have vf: "v_campaign_id v = i" "v_stage0_status v = S0_PENDING" "v_id v = uuid4 ext (uuids t)" "cv_checks v"
    by (simp_all add: v new_cv_def cv_checks_def)
  have u: "u = t\<lparr>cvs := cvs t @ [v], pairs := pairs t @ ps, uuids := uuids t + 1 + length ps\<rparr>"
    and key: "\<forall>v'\<in>set (cvs t). v_id v' \<noteq> v_id v \<and>
      \<not> (v_campaign_id v' = v_campaign_id v \<and> v_candidate_id v' = v_candidate_id v)"
    and pkey: "\<forall>p\<in>set (pairs t). p_id p \<notin> p_id ` set ps" "distinct (map p_id ps)"
    using ins by (auto simp: insert_cv_def list_ex_iff split: if_splits)
  have ps_in: "p_campaign_id p = i \<and> p_cv_id p = v_id v \<and> p_status p = PENDING \<and>
      p_jd_id p \<in> j_id ` set ?js \<and> p_lease_owner p = None" if "p \<in> set ps" for p
    using new_pairs_in [of p ext i "v_id v" now "Suc (uuids t)" "map j_id ?js"] that by (simp add: ps)
  have shape: "pair_shape cfg p \<and> \<not> shortlisted p" if "p \<in> set ps" for p
    using that unfolding ps by (rule new_pair_shape [OF cfg])
  have old_p: "p_cv_id p \<noteq> v_id v" if "p \<in> set (pairs t)" for p
    using foreign_keysD(1) [OF d(2) that] key by metis
  have ps_jds: "map p_jd_id ps = map j_id ?js" by (simp add: ps new_pairs_jds)
  then have "distinct (map p_jd_id ps)"
    using distinct_map_filter [OF distinct_keysD(2) [OF d(1)], of "\<lambda>j. j_campaign_id j = i"] by simp
  then have ps_dist: "distinct (map (\<lambda>p. (p_jd_id p, p_cv_id p)) ps)"
    by (auto simp: distinct_map inj_on_def)
  have open_jd: "j_status j = J_PENDING" if "j \<in> set (jds t)" "j_campaign_id j = i" for j
  proof -
    have "campaign_allows (c_status c) (j_status j)" using d(5) that camp(1,2) by (simp add: scopes_ok_def)
    then show ?thesis using camp(3) by simp
  qed
  have "distinct (map v_id (cvs t @ [v]))"
    using d(1) key by (force simp: unique_constraints_def)
  moreover have "distinct (map (\<lambda>v. (v_campaign_id v, v_candidate_id v)) (cvs t @ [v]))"
    using d(1) key by (force simp: unique_constraints_def)
  moreover have "distinct (map p_id (pairs t @ ps))"
    using d(1) pkey by (force simp: unique_constraints_def)
  moreover have "distinct (map (\<lambda>p. (p_jd_id p, p_cv_id p)) (pairs t @ ps))"
    using d(1) ps_dist old_p ps_in by (force simp: unique_constraints_def)
  ultimately have "unique_constraints u"
    using d(1) unfolding unique_constraints_def u by simp
  moreover have "foreign_keys u"
    unfolding foreign_keys_def
  proof (intro conjI ballI)
    show "j_campaign_id j \<in> c_id ` set (campaigns u)" if "j \<in> set (jds u)" for j
      using d(2) that by (simp add: foreign_keys_def u)
    show "v_campaign_id w \<in> c_id ` set (campaigns u)" if "w \<in> set (cvs u)" for w
      using d(2) that camp(1,2) vf(1) by (auto simp: foreign_keys_def u)
    fix p assume p: "p \<in> set (pairs u)"
    have "\<exists>j\<in>set (jds t). j_id j = p_jd_id p \<and> j_campaign_id j = p_campaign_id p"
    proof (cases "p \<in> set (pairs t)")
      case False
      then have "p \<in> set ps" using p by (simp add: u)
      then have "p_jd_id p \<in> j_id ` set ?js" "p_campaign_id p = i" using ps_in by blast+
      then show ?thesis by auto
    qed (rule foreign_keysD(2) [OF d(2)])
    then show "(p_campaign_id p, p_jd_id p) \<in> (\<lambda>j. (j_campaign_id j, j_id j)) ` set (jds u)"
      by (force simp: u)
    have "\<exists>w\<in>set (cvs u). v_id w = p_cv_id p \<and> v_campaign_id w = p_campaign_id p"
      using p foreign_keysD(1) [OF d(2)] ps_in vf(1) by (auto simp: u)
    then show "(p_campaign_id p, p_cv_id p) \<in> (\<lambda>v. (v_campaign_id v, v_id v)) ` set (cvs u)"
      by force
  qed
  moreover have "ids_issued ext u"
  proof -
    have sub: "issued ext t \<subseteq> issued ext u" by (rule issued_mono) (simp add: u)
    have "p_id ` set ps = uuid4 ext ` {Suc (uuids t)..<Suc (uuids t) + length ?js}"
      using new_pairs_ids [of ext i "v_id v" now "Suc (uuids t)" "map j_id ?js"] unfolding ps
      by (metis atLeastLessThan_upt length_map set_map)
    then have "p_id ` set ps \<subseteq> issued ext u" by (auto simp: issued_def u ps)
    moreover have "v_id v \<in> issued ext u" by (auto simp: issued_def u vf(3))
    ultimately show ?thesis using d(3) sub ps_in by (auto simp: ids_issued_def u)
  qed
  moreover have "rows_ok cfg u"
  proof -
    have pend: "jd_allows (j_status j) PENDING" if mem: "p \<in> set ps" "j \<in> set (jds t)" "j_id j = p_jd_id p" for p j
    proof -
      have "p_jd_id p \<in> j_id ` set ?js" using ps_in [OF mem(1)] by blast
      then obtain j' where "j' \<in> set ?js" "j_id j' = p_jd_id p" by auto
      then have "j_campaign_id j = i"
        using distinct_key_eq [OF distinct_keysD(2) [OF d(1)], of j j'] mem by simp
      then show ?thesis using open_jd mem by (simp add: after_cutoff_def)
    qed
    show ?thesis
      unfolding rows_ok_def
    proof (intro ballI conjI impI)
      fix p assume "p \<in> set (pairs u)"
      then consider (old) "p \<in> set (pairs t)" | (new) "p \<in> set ps" by (auto simp: u)
      note split = this
      show "pair_shape cfg p" using split rows_okD(1) [OF d(4)] shape by cases blast+
      show "cv_allows (v_stage0_status w) (p_status p)" if w: "w \<in> set (cvs u)" "v_id w = p_cv_id p" for w
        using split
      proof cases
        case old
        have "w \<noteq> v" using w(2) old_p [OF old] by auto
        then have "w \<in> set (cvs t)" using w(1) by (simp add: u)
        then show ?thesis using rows_okD(2) [OF d(4) old] w(2) by blast
      next
        case new
        then have "w = v" using w key ps_in [OF new] by (auto simp: u)
        then show ?thesis using vf(2) ps_in [OF new] by simp
      qed
      show "jd_allows (j_status j) (p_status p)" if j: "j \<in> set (jds u)" "j_id j = p_jd_id p" for j
        using split
      proof cases
        case old
        then show ?thesis using rows_okD(3) [OF d(4) old] j by (simp add: u)
      next
        case new
        then show ?thesis using pend [OF new] ps_in [OF new] j by (simp add: u)
      qed
    qed
  qed
  moreover have "scopes_ok u" using d(5) vf(4) by (auto simp: scopes_ok_def u)
  moreover have "pairs_complete u"
    unfolding pairs_complete_def
  proof (intro ballI impI)
    fix j w assume a: "j \<in> set (jds u)" "w \<in> set (cvs u)" "j_campaign_id j = v_campaign_id w"
    show "\<exists>p\<in>set (pairs u). p_jd_id p = j_id j \<and> p_cv_id p = v_id w"
    proof (cases "w = v")
      case True
      then have "j \<in> set ?js" using a vf(1) by (simp add: u)
      then have "j_id j \<in> p_jd_id ` set ps" using ps_jds by (metis image_eqI set_map)
      then show ?thesis using True ps_in by (auto simp: u)
    next
      case False
      then show ?thesis using a d(6) by (auto simp: pairs_complete_def u)
    qed
  qed
  moreover have "caps_ok u"
  proof (rule caps_mono [OF d(7)])
    show "shortlist_count j u \<le> shortlist_count j t" for j
      using shape by (simp add: shortlist_count_def u count_where_zero)
  qed (simp add: u)
  moreover have "inflight_ok cfg u"
  proof -
    have "count_where (\<lambda>p. p_campaign_id p = k \<and> p_status p = RUNNING) ps = 0"
      "count_where (\<lambda>p. p_status p = RUNNING) ps = 0" "count_where (\<lambda>p. p_status p = STAGE3_RUNNING) ps = 0" for k
      using ps_in by (auto simp: count_where_zero)
    then show ?thesis using d(8) by (simp add: inflight_ok_def running_count_def status_count_def u)
  qed
  ultimately show ?thesis by (simp add: tables_ok_def)
qed

lemma reserve_campaign_ok:
  assumes ok: "tables_ok cfg ext (race s)" "tables_ok cfg ext s" and fresh: "fresh_ids ext"
    and step: "reserve_campaign ext now race owner hash jobs policies key cap nm s = Inr ((b, c), t)"
  shows "tables_ok cfg ext t"
proof -
  obtain keys where keys: "rmap (\<lambda>j. dindex j ''job_id'') jobs = Inr keys"
    using step by (auto simp: reserve_campaign_def rbind_Inr_conv split: if_splits)
  let ?old = "if nonempty key then campaign_by_key owner key s else None"
  let ?c = "new_campaign (uuid4 ext (uuids (race s))) owner key hash nm now"
  let ?js = "new_jds ext (c_id ?c) cap now (Suc (uuids (race s))) (zip (map str_of keys) (zip jobs policies))"
  have cap: "1 \<le> cap" "cap \<le> 15"
    using step keys by (auto simp: reserve_campaign_def split: if_splits)
  note st = step [unfolded reserve_campaign_def keys rbind_simps Let_def]
  show ?thesis
  proof (cases ?old)
    case (Some c')
    then show ?thesis using st ok(2) by (auto split: if_splits)
  next
    case None
    show ?thesis
    proof (cases "insert_campaign ?c ?js (race s)")
      case (Some u)
      then have "t = u" using st None by (auto split: if_splits)
      then show ?thesis using insert_campaign_ok [OF ok(1) fresh cap refl refl Some] by simp
    next
      case fail: None
      then have "t = race s" using st None by (auto split: if_splits option.splits)
      then show ?thesis using ok(1) by simp
    qed
  qed
qed

lemma get_campaign_D:
  assumes "get_campaign i owner s = Inr c"
  shows "c \<in> set (campaigns s)" "c_id c = i" "c_owner_id c = owner"
proof -
  have "campaign_by_id i s = Some c \<and> c_owner_id c = owner"
    using assms by (simp add: get_campaign_def split: option.splits if_splits)
  then show "c \<in> set (campaigns s)" "c_id c = i" "c_owner_id c = owner"
    using campaign_by_id_D by blast+
qed

lemma reserve_cv_ok:
  assumes ok: "tables_ok cfg ext s" and cfg: "settings_ok cfg" and fresh: "fresh_ids ext"
    and step: "reserve_cv ext now id i owner k fname hash pdf s = Inr ((b, v), t)"
  shows "tables_ok cfg ext t"
proof -
  obtain c where c: "get_campaign i owner s = Inr c" "c_status c = C_INTAKE"
    using step by (auto simp: reserve_cv_def rbind_Inr_conv split: if_splits)
  let ?v = "new_cv ext (uuid4 ext (uuids s)) i k fname hash pdf now"
  let ?ps = "new_pairs ext i (v_id ?v) now (Suc (uuids s)) (map j_id (filter (\<lambda>j. j_campaign_id j = i) (jds s)))"
  show ?thesis
  proof (cases "cv_by_candidate i k s")
    case (Some w)
    then show ?thesis using step c ok by (auto simp: reserve_cv_def split: if_splits)
  next
    case None
    show ?thesis
    proof (cases "insert_cv ?v ?ps s")
      case (Some u)
      then have "t = u" using step c None by (auto simp: reserve_cv_def Let_def)
      then show ?thesis
        using insert_cv_ok [OF ok cfg fresh refl refl get_campaign_D(1,2) [OF c(1)] c(2) Some] by simp
    next
      case fail: None
      then show ?thesis using step c None by (simp add: reserve_cv_def Let_def)
    qed
  qed
qed

end
