(* ===== verification/Campaign_Machine.thy ===== *)
theory Campaign_Machine
  imports Documents
begin

text \<open>
  All transactions of the API and of the workers as one step relation on the tables: times, rows
  held by others, worker results and the choice of the next transaction are arbitrary, so a run is
  any interleaving of any number of workers, crashed and repeated ones included. Two conditions come
  from the callers: the upload that starts a campaign is the only one importing into it, and the
  coordinator is only called for campaigns that were started.
\<close>

section \<open>The step relation\<close>

inductive step :: "settings \<Rightarrow> externals \<Rightarrow> db \<Rightarrow> db \<Rightarrow> bool" for cfg ext where
  reserve_campaign: "step cfg ext s t"
    if "reserve_campaign ext now id owner hash jobs policies key cap nm s = Inr (r, t)"
| reserve_cv: "step cfg ext s t"
    if "reserve_cv ext now id i owner k fname hash pdf s = Inr (r, t)"
| stage_pdf: "step cfg ext s t" if "stage_pdf ext now i owner k pdf s = Inr (b, t)"
| store_report: "step cfg ext s (store_report i report s)"
| open_campaign: "step cfg ext s (open_campaign i h report s)"
    if "campaign_by_id i s = Some c" "c_status c = C_INTAKE"
| claim_stage0: "step cfg ext s (snd (claim_stage0 cfg now i s))"
| finish_stage0: "step cfg ext s t"
    if "finish_stage0 now i owner k text pages err s = Inr (b, t)"
| recover_stage0: "step cfg ext s (snd (recover_campaign_stage0 cfg now queued locked s))"
| dispatch_pairs: "step cfg ext s (snd (dispatch_pairs cfg ext now locked i s))"
| finish_retrieval: "step cfg ext s (snd (finish_retrieval cfg now i token ver work s))"
| undo_retrieval: "step cfg ext s (undo_retrieval i token s)"
| finalize_jd: "step cfg ext s t"
    if "finalize_jd now i s = Inr (b, t)" "jd_by_id i s = Some j" "started (j_campaign_id j) s"
| dispatch_stage3: "step cfg ext s (snd (dispatch_stage3 cfg ext now locked i s))"
| delay_evaluation: "step cfg ext s (snd (delay_evaluation now wait i token s))"
| begin_attempt: "step cfg ext s (snd (begin_attempt i token s))"
| retry_evaluation: "step cfg ext s (snd (retry_evaluation cfg now attempt delay f i token s))"
| finish_evaluation: "step cfg ext s (snd (finish_evaluation cfg now dump policy r i token s))"
| undo_evaluation: "step cfg ext s (undo_evaluation i token s)"
| finalize_campaign: "step cfg ext s (snd (finalize_campaign now i s))"

inductive reachable :: "settings \<Rightarrow> externals \<Rightarrow> db \<Rightarrow> bool" for cfg ext where
  init: "reachable cfg ext empty_db"
| step: "reachable cfg ext t" if "reachable cfg ext s" "step cfg ext s t"

inductive_cases stepE: "step cfg ext s t"

lemma reachable_steps: "(step cfg ext)\<^sup>*\<^sup>* s t \<Longrightarrow> reachable cfg ext s \<Longrightarrow> reachable cfg ext t"
  by (induction rule: rtranclp_induct) (auto intro: reachable.step)

section \<open>Every step keeps the invariants\<close>

lemma step_tables_ok:
  assumes cfg: "settings_ok cfg" and fresh: "fresh_ids ext" and step: "step cfg ext s t"
    and ok: "tables_ok cfg ext s"
  shows "tables_ok cfg ext t"
  using step
proof cases
  case (reserve_campaign now owner hash jobs policies key cap nm r)
  then show ?thesis using reserve_campaign_ok [OF _ ok fresh, of id] ok by (cases r) auto
next
  case (reserve_cv now i owner k fname hash pdf r)
  then show ?thesis using reserve_cv_ok [OF ok cfg fresh] by (cases r) auto
next
  case (open_campaign i c h report)
  have "d \<in> set (campaigns s) \<Longrightarrow> c_id d = i \<Longrightarrow> c_status d = C_INTAKE" for d
    using campaign_unique [OF tables_okD(1) [OF ok] open_campaign(2), of d] open_campaign(3) by simp
  then show ?thesis using open_campaign_ok [OF ok] open_campaign(1) by simp
next
  case (finalize_jd now i b j)
  have "started (j_campaign_id k) s" if "jd_by_id i s = Some k" for k using that finalize_jd(2,3) by simp
  then show ?thesis using finalize_jd_ok [OF ok finalize_jd(1)] by simp
qed (simp_all add: ok stage_pdf_ok [OF ok] store_report_ok claim_stage0_ok finish_stage0_ok [OF ok]
    recover_ok dispatch_pairs_ok finish_retrieval_ok undo_retrieval_ok dispatch_stage3_ok
    delay_evaluation_ok begin_attempt_ok retry_evaluation_ok finish_evaluation_ok undo_evaluation_ok
    finalize_campaign_ok)

lemma reachable_tables_ok:
  assumes "settings_ok cfg" "fresh_ids ext" "reachable cfg ext s"
  shows "tables_ok cfg ext s"
  using assms(3)
  by induction (use assms(1,2) in \<open>auto intro: tables_ok_empty step_tables_ok\<close>)

end
