(* ===== verification/Lifecycle.thy ===== *)
theory Lifecycle
  imports Campaign_Machine
begin

text \<open>
  The life of one pair, as an abstract state machine of its status: what the coordinator and the
  workers promise about a row whatever happens around it. Every step of the tables moves each row
  along at most one edge of the machine, leaves a terminal row as it is, and changes the holder of
  its lease only to nobody or to a token drawn in that step. The fencing of late workers follows.
\<close>

section \<open>The abstract machine\<close>

inductive edge :: "pair_status \<Rightarrow> pair_status \<Rightarrow> bool" where
  admit: "edge PENDING RUNNING"
| extraction_failed: "edge PENDING EXTRACTION_FAILED"
| give_back: "edge RUNNING PENDING"
| exhausted: "edge RUNNING PROCESSING_FAILED"
| rejected: "edge RUNNING FILTER_REJECTED"
| ready: "edge RUNNING STAGE2_READY"
| selected: "edge STAGE2_READY SHORTLISTED"
| cut_off: "edge STAGE2_READY CUTOFF_EXCLUDED"
| review: "edge STAGE2_READY REVIEW_REQUIRED"
| evaluate: "edge SHORTLISTED STAGE3_RUNNING"
| park: "edge STAGE3_RUNNING SHORTLISTED"
| success: "edge STAGE3_RUNNING SUCCESS"
| review3: "edge STAGE3_RUNNING REVIEW_REQUIRED"
| failure: "edge STAGE3_RUNNING EVALUATION_FAILED"

code_pred (modes: i \<Rightarrow> i \<Rightarrow> bool, i \<Rightarrow> o \<Rightarrow> bool) edge .

inductive_simps edge_from [simp]:
  "edge PENDING st" "edge RUNNING st" "edge STAGE2_READY st" "edge SHORTLISTED st"
  "edge STAGE3_RUNNING st" "edge SUCCESS st" "edge REVIEW_REQUIRED st" "edge EVALUATION_FAILED st"
  "edge CUTOFF_EXCLUDED st" "edge FILTER_REJECTED st" "edge PROCESSING_FAILED st" "edge EXTRACTION_FAILED st"

lemma terminal_no_edge: "terminal st \<Longrightarrow> \<not> edge st st'"
  by (cases st) simp_all

lemma nonterminal_edge: "\<not> terminal st \<Longrightarrow> \<exists>st'. edge st st'"
  by (cases st) auto

section \<open>Rows follow the machine\<close>

definition row_follows :: "string set \<Rightarrow> pair \<Rightarrow> pair \<Rightarrow> bool" where
  "row_follows toks p q \<longleftrightarrow> same_keys p q \<and>
     (p_status q = p_status p \<or> edge (p_status p) (p_status q)) \<and>
     (terminal (p_status p) \<longrightarrow> q = p) \<and>
     (p_lease_owner q = p_lease_owner p \<or> p_lease_owner q = None \<or>
        (\<exists>t. p_lease_owner q = Some t \<and> t \<notin> toks))"

definition table_follows :: "externals \<Rightarrow> db \<Rightarrow> db \<Rightarrow> bool" where
  "table_follows ext s t \<longleftrightarrow> uuids s \<le> uuids t \<and>
     (\<forall>p\<in>set (pairs s). \<exists>q\<in>set (pairs t). row_follows (issued ext s) p q)"

lemma row_follows_refl [simp]: "row_follows toks p p"
  by (simp add: row_follows_def same_keys_def)

lemma table_follows_refl [simp]: "table_follows ext s s"
  by (auto simp: table_follows_def intro!: bexI [of _ "_::pair"])

lemma table_follows_same: "pairs t = pairs s \<Longrightarrow> uuids s \<le> uuids t \<Longrightarrow> table_follows ext s t"
  by (auto simp: table_follows_def intro!: bexI [of _ "_::pair"])

lemma table_follows_append: "pairs t = pairs s @ ps \<Longrightarrow> uuids s \<le> uuids t \<Longrightarrow> table_follows ext s t"
  by (auto simp: table_follows_def intro!: bexI [of _ "_::pair"])

lemma update_pairs_follows:
  assumes "\<And>p. p \<in> set (pairs s) \<Longrightarrow> P p \<Longrightarrow> row_follows (issued ext s) p (f p)"
    and "pairs t = update_where P f (pairs s)" "uuids s \<le> uuids t"
  shows "table_follows ext s t"
  unfolding table_follows_def
proof (intro conjI ballI)
  fix p assume p: "p \<in> set (pairs s)"
  show "\<exists>q\<in>set (pairs t). row_follows (issued ext s) p q"
    using in_update_whereI [OF p, of P f] assms(1) [OF p] assms(2)
    by (intro bexI [of _ "if P p then f p else p"]) auto
qed (use assms in simp)

lemma replace_pair_follows:
  assumes ok: "tables_ok cfg ext s" and p: "pair_by_id i s = Some p" "row_follows (issued ext s) p q"
  shows "table_follows ext s (replace_pair i q s)"
proof (rule update_pairs_follows)
  fix r assume "r \<in> set (pairs s)" "p_id r = i"
  then show "row_follows (issued ext s) r q" using lease_at_id [OF ok p(1)] p(2) by simp
qed (simp_all add: replace_pair_def)

section \<open>The operations\<close>

text \<open>An admission first expires leases, then claims; the two updates act on a row one after the other.\<close>

lemma claim_follows:
  assumes fresh: "fresh_ids ext" and ids: "distinct (map p_id (pairs s))"
    and s1: "s1 = update_pairs P f s" and rows: "set rows \<subseteq> set (pairs s1)"
    and t: "t = update_claimed (claim_tokens ext s1 rows) g s1"
    and fP: "\<And>p. p \<in> set (pairs s) \<Longrightarrow> P p \<Longrightarrow> same_keys p (f p)"
    and quiet: "\<And>p. p \<in> set (pairs s) \<Longrightarrow> row_follows (issued ext s) p (if P p then f p else p)"
    and claimed: "\<And>p k. p \<in> set (pairs s) \<Longrightarrow> (if P p then f p else p) \<in> set rows \<Longrightarrow> k \<notin> issued ext s \<Longrightarrow>
      row_follows (issued ext s) p (g k (if P p then f p else p))"
  shows "table_follows ext s t"
  unfolding table_follows_def
proof (intro conjI ballI)
  show "uuids s \<le> uuids t" by (simp add: t update_claimed_def s1)
  fix p assume p: "p \<in> set (pairs s)"
  let ?c = "claim_tokens ext s1 rows"
  let ?p = "if P p then f p else p"
  have p1: "?p \<in> set (pairs s1)" using in_update_whereI [OF p, of P f] by (simp add: s1)
  have ids1: "distinct (map p_id (pairs s1))"
  proof -
    have "map p_id (pairs s1) = map p_id (pairs s)"
      using fP by (auto simp: s1 update_where_def same_keys_def)
    then show ?thesis using ids by simp
  qed
  have q: "(if p_id ?p \<in> fst ` set ?c then g (the (map_of ?c (p_id ?p))) ?p else ?p) \<in> set (pairs t)"
    using in_update_whereI [OF p1, of "\<lambda>p. p_id p \<in> fst ` set ?c" "\<lambda>p. g (the (map_of ?c (p_id p))) p"]
    by (simp add: t update_claimed_def)
  show "\<exists>q\<in>set (pairs t). row_follows (issued ext s) p q"
  proof (cases "p_id ?p \<in> fst ` set ?c")
    case True
    then have key: "p_id ?p \<in> p_id ` set rows" by (simp only: claim_tokens_simps)
    then obtain r where "r \<in> set rows" "p_id r = p_id ?p" by (metis imageE)
    then have "?p \<in> set rows" using distinct_key_eq [OF ids1, of r ?p] rows p1 by auto
    moreover have "the (map_of ?c (p_id ?p)) \<notin> issued ext s"
      using claim_token_issued [OF key, of ext s1] not_issued [OF fresh, of s] by (auto simp: s1)
    ultimately have "row_follows (issued ext s) p (g (the (map_of ?c (p_id ?p))) ?p)"
      by (rule claimed [OF p])
    then show ?thesis using q by (simp only: True if_True) blast
  next
    case False
    then show ?thesis using q quiet [OF p] by (simp only: if_False) blast
  qed
qed

lemma claim_retrieval_follows:
  "p_status p = PENDING \<Longrightarrow> k \<notin> toks \<Longrightarrow> row_follows toks p (claim_retrieval cfg now k p)"
  by (simp add: row_follows_def claim_retrieval_def same_keys_def)

lemma claim_evaluation_follows:
  "p_status p = SHORTLISTED \<Longrightarrow> k \<notin> toks \<Longrightarrow> row_follows toks p (claim_evaluation cfg now k p)"
  by (simp add: row_follows_def claim_evaluation_def same_keys_def)

lemma dispatch_pairs_follows:
  assumes fresh: "fresh_ids ext" and ok: "tables_ok cfg ext s"
  shows "table_follows ext s (snd (dispatch_pairs cfg ext now locked i s))"
proof -
  let ?P = "\<lambda>p. p_campaign_id p = i \<and> p_status p = RUNNING \<and> lease_before now p"
  let ?s1 = "expire_retrievals cfg now i s"
  let ?rows = "retrieval_rows ext locked i (retrieval_slots cfg i ?s1) ?s1"
  have exp: "row_follows toks p (expire_retrieval cfg p)" "same_keys p (expire_retrieval cfg p)"
    "p_status (expire_retrieval cfg p) = PENDING \<Longrightarrow> row_follows toks p (claim_retrieval cfg now k (expire_retrieval cfg p))"
    if "p_status p = RUNNING" "k \<notin> toks" for p toks k
    using that by (auto simp: row_follows_def expire_retrieval_def claim_retrieval_def same_keys_def Let_def)
  have ids: "distinct (map p_id (pairs s))" by (rule distinct_keysD(4) [OF tables_okD(1) [OF ok]])
  have pend: "p_status p = PENDING" if "p \<in> set ?rows" for p
    using that by (auto simp: retrieval_ready_def elim!: retrieval_rows_ready)
  have s1: "table_follows ext s ?s1"
  proof (rule update_pairs_follows)
    fix p assume "?P p"
    then show "row_follows (issued ext s) p (expire_retrieval cfg p)"
      by (simp add: row_follows_def expire_retrieval_def same_keys_def Let_def)
  qed (simp_all add: expire_retrievals_def)
  have "table_follows ext s (update_claimed (claim_tokens ext ?s1 ?rows) (claim_retrieval cfg now) ?s1)"
  proof (rule claim_follows [OF fresh ids _ retrieval_rows_subset refl])
    show "?s1 = update_pairs ?P (expire_retrieval cfg) s" by (simp add: expire_retrievals_def)
    fix p
    show "?P p \<Longrightarrow> same_keys p (expire_retrieval cfg p)"
      by (simp add: expire_retrieval_def same_keys_def Let_def)
    show "row_follows (issued ext s) p (if ?P p then expire_retrieval cfg p else p)"
      by (simp add: row_follows_def expire_retrieval_def same_keys_def Let_def)
    fix k assume r: "(if ?P p then expire_retrieval cfg p else p) \<in> set ?rows" and k: "k \<notin> issued ext s"
    show "row_follows (issued ext s) p (claim_retrieval cfg now k (if ?P p then expire_retrieval cfg p else p))"
    proof (cases "?P p")
      case True
      then have "p_status (expire_retrieval cfg p) = PENDING" using pend [OF r] by simp
      then show ?thesis using True exp(3) [of p k] k by simp
    next
      case False
      then have "p_status p = PENDING" using pend [OF r] by (simp only: if_False)
      then show ?thesis unfolding if_not_P [OF False] by (rule claim_retrieval_follows [OF _ k])
    qed
  qed
  with s1 have "table_follows ext s (snd (if c_status c \<noteq> C_RUNNING then ([], s) else if slots \<le> 0 then ([], ?s1)
      else (claim_tokens ext ?s1 ?rows, update_claimed (claim_tokens ext ?s1 ?rows) (claim_retrieval cfg now) ?s1)))" for c and slots :: int
    by (simp only: split: if_split) simp
  then show ?thesis unfolding dispatch_pairs_def Let_def by (cases "campaign_by_id i s") (simp_all only: option.case snd_conv table_follows_refl)
qed

lemma dispatch_stage3_follows:
  assumes fresh: "fresh_ids ext" and ok: "tables_ok cfg ext s"
  shows "table_follows ext s (snd (dispatch_stage3 cfg ext now locked i s))"
proof -
  let ?P = "\<lambda>p. p_campaign_id p = i \<and> p_status p = STAGE3_RUNNING \<and> lease_before now p"
  let ?s1 = "expire_evaluations cfg now i s"
  let ?rows = "evaluation_rows ext now locked i (evaluation_slots cfg ?s1) ?s1"
  have exp: "p_status (expire_evaluation cfg p) = SHORTLISTED \<Longrightarrow>
      row_follows toks p (claim_evaluation cfg now k (expire_evaluation cfg p))"
    if "p_status p = STAGE3_RUNNING" "k \<notin> toks" for p toks k
    using that by (auto simp: row_follows_def expire_evaluation_def claim_evaluation_def same_keys_def Let_def)
  have ids: "distinct (map p_id (pairs s))" by (rule distinct_keysD(4) [OF tables_okD(1) [OF ok]])
  have short: "p_status p = SHORTLISTED" "p \<in> set (pairs ?s1)" if "p \<in> set ?rows" for p
    using that by (auto simp: evaluation_ready_def elim!: evaluation_rows_ready)
  have s1: "table_follows ext s ?s1"
  proof (rule update_pairs_follows)
    fix p assume "?P p"
    then show "row_follows (issued ext s) p (expire_evaluation cfg p)"
      by (simp add: row_follows_def expire_evaluation_def same_keys_def Let_def)
  qed (simp_all add: expire_evaluations_def)
  have "table_follows ext s (update_claimed (claim_tokens ext ?s1 ?rows) (claim_evaluation cfg now) ?s1)"
  proof (rule claim_follows [OF fresh ids _ _ refl])
    show "?s1 = update_pairs ?P (expire_evaluation cfg) s" by (simp add: expire_evaluations_def)
    show "set ?rows \<subseteq> set (pairs ?s1)" using short(2) by blast
    fix p
    show "?P p \<Longrightarrow> same_keys p (expire_evaluation cfg p)"
      by (simp add: expire_evaluation_def same_keys_def Let_def)
    show "row_follows (issued ext s) p (if ?P p then expire_evaluation cfg p else p)"
      by (simp add: row_follows_def expire_evaluation_def same_keys_def Let_def)
    fix k assume r: "(if ?P p then expire_evaluation cfg p else p) \<in> set ?rows" and k: "k \<notin> issued ext s"
    show "row_follows (issued ext s) p (claim_evaluation cfg now k (if ?P p then expire_evaluation cfg p else p))"
    proof (cases "?P p")
      case True
      then have "p_status (expire_evaluation cfg p) = SHORTLISTED" using short(1) [OF r] by simp
      then show ?thesis using True exp [of p k] k by simp
    next
      case False
      then have "p_status p = SHORTLISTED" using short(1) [OF r] by (simp only: if_False)
      then show ?thesis unfolding if_not_P [OF False] by (rule claim_evaluation_follows [OF _ k])
    qed
  qed
  with s1 have "table_follows ext s (snd (if c_status c \<noteq> C_RUNNING then ([], s) else if slots \<le> 0 then ([], ?s1)
      else (claim_tokens ext ?s1 ?rows, update_claimed (claim_tokens ext ?s1 ?rows) (claim_evaluation cfg now) ?s1)))" for c and slots :: int
    by (simp only: split: if_split) simp
  then show ?thesis unfolding dispatch_stage3_def Let_def by (cases "campaign_by_id i s") (simp_all only: option.case snd_conv table_follows_refl)
qed

lemma finalize_jd_follows:
  assumes ok: "tables_ok cfg ext s" and step: "finalize_jd now i s = Inr (b, t)"
  shows "table_follows ext s t"
  using step
proof (cases rule: finalize_jd_cases)
  case (ranked j rows)
  show ?thesis
  proof (rule update_pairs_follows)
    show "pairs t = update_where (\<lambda>p. p_id p \<in> fst ` set (placements (j_stage3_cap j) rows))
        (\<lambda>p. place now (the (map_of (placements (j_stage3_cap j) rows) (p_id p))) p) (pairs s)"
      by (simp add: ranked(6) finalized_def)
    show "uuids s \<le> uuids t" by (simp add: ranked(6) finalized_def)
    fix p assume p: "p \<in> set (pairs s)" "p_id p \<in> fst ` set (placements (j_stage3_cap j) rows)"
    then obtain rank row m where "map_of (placements (j_stage3_cap j) rows) (p_id p) = Some (rank, row, m)"
      "p_status p = STAGE2_READY"
      using finalized_context(1) [OF ok ranked(2-5) p] by blast
    then show "row_follows (issued ext s) p (place now (the (map_of (placements (j_stage3_cap j) rows) (p_id p))) p)"
      by (cases m) (simp_all add: row_follows_def place_def same_keys_def Let_def)
  qed
qed (simp_all add: table_follows_same set_jd_status_def)

lemma step_follows:
  assumes fresh: "fresh_ids ext" and step: "step cfg ext s t" and ok: "tables_ok cfg ext s"
  shows "table_follows ext s t"
  using step
proof cases
  case (reserve_campaign now owner hash jobs policies key cap nm r)
  then have "pairs t = pairs s \<and> uuids s \<le> uuids t"
    by (auto simp: reserve_campaign_def rbind_Inr_conv insert_campaign_def Let_def split: if_splits option.splits)
  then show ?thesis by (simp add: table_follows_same)
next
  case (reserve_cv now i owner k fname hash pdf r)
  then obtain ps where "pairs t = pairs s @ ps" "uuids s \<le> uuids t"
    by (auto simp: reserve_cv_def rbind_Inr_conv insert_cv_def Let_def split: if_splits option.splits)
  then show ?thesis by (rule table_follows_append)
next
  case (stage_pdf now i owner k pdf b)
  then have "pairs t = pairs s \<and> uuids s \<le> uuids t"
    by (auto simp: stage_pdf_def rbind_Inr_conv split: if_splits)
  then show ?thesis by (simp add: table_follows_same)
next
  case (claim_stage0 now i)
  have "table_follows ext s (update_pairs (\<lambda>p. p_cv_id p = v_id v \<and> p_status p = PENDING) pdf_missing_pair
      (update_cvs (\<lambda>w. v_id w = v_id v) pdf_missing_cv s))" for v
    by (rule update_pairs_follows) (auto simp: pdf_missing_pair_def row_follows_def same_keys_def)
  note missing = this
  show ?thesis unfolding claim_stage0
    by (simp add: claim_stage0_def table_follows_same split: option.splits) (use missing in blast)
next
  case (finish_stage0 now i owner k body pages err b)
  from finish_stage0 show ?thesis
  proof (cases rule: finish_stage0_cases)
    case (stored v)
    have pend: "p_status p = PENDING" if "p \<in> set (pairs s)" "p_cv_id p = v_id v" for p
      using rows_okD(2) [OF tables_okD(4) [OF ok] that(1) cv_by_candidate_D(1) [OF stored(2)]] that(2) stored(3) by auto
    have "table_follows ext s (update_pairs
         (\<lambda>p. p_campaign_id p = i \<and> p_cv_id p = v_id v \<and> \<not> terminal (p_status p)) (extraction_failed_pair now err)
         (update_cvs (\<lambda>w. v_id w = v_id v) (publish_cv now body pages err) s))"
      by (rule update_pairs_follows)
        (use pend in \<open>auto simp: extraction_failed_pair_def row_follows_def same_keys_def\<close>)
    then show ?thesis using stored(4) by (simp add: table_follows_same)
  qed simp
next
  case (recover_stage0 now queued locked)
  then show ?thesis by (simp add: recover_campaign_stage0_def Let_def table_follows_same)
next
  case (dispatch_pairs now locked i)
  then show ?thesis using dispatch_pairs_follows [OF fresh ok] by simp
next
  case (finish_retrieval now i token ver work)
  show ?thesis
  proof (cases "\<exists>p q. pair_by_id i s = Some p \<and> holds_lease RUNNING token p \<and> store_pair_work cfg now ver work p = Inr q")
    case True
    then obtain p q where p: "pair_by_id i s = Some p" "holds_lease RUNNING token p" "store_pair_work cfg now ver work p = Inr q"
      by blast
    have sh: "pair_shape cfg p" "p_status p = RUNNING"
      using rows_okD(1) [OF tables_okD(4) [OF ok] pair_by_id_D(1) [OF p(1)]] p(2) by (simp_all add: holds_lease_def)
    have "row_follows (issued ext s) p q"
      using store_pair_work_shape [OF p(3) sh] sh by (auto simp: row_follows_def)
    then show ?thesis
      unfolding finish_retrieval using replace_pair_follows [OF ok p(1)] p by (simp add: finish_retrieval_def)
  next
    case False
    then show ?thesis unfolding finish_retrieval by (auto simp: finish_retrieval_def split: option.splits sum.splits)
  qed
next
  case (undo_retrieval i token)
  show ?thesis unfolding undo_retrieval undo_retrieval_def
    by (rule update_pairs_follows) (auto simp: row_follows_def same_keys_def holds_lease_def)
next
  case (finalize_jd now i b j)
  then show ?thesis using finalize_jd_follows [OF ok] by blast
next
  case (dispatch_stage3 now locked i)
  then show ?thesis using dispatch_stage3_follows [OF fresh ok] by simp
next
  case (delay_evaluation now wait i token)
  have "table_follows ext s (update_pairs (\<lambda>p. p_id p = i \<and> holds_lease STAGE3_RUNNING token p) (park_pair (now + wait)) s)"
    by (rule update_pairs_follows) (auto simp: row_follows_def same_keys_def holds_lease_def park_pair_def)
  then show ?thesis unfolding delay_evaluation by (simp add: delay_evaluation_def split: option.splits)
next
  case (begin_attempt i token)
  show ?thesis
  proof (cases "\<exists>p. pair_by_id i s = Some p \<and> holds_lease STAGE3_RUNNING token p")
    case True
    then obtain p where p: "pair_by_id i s = Some p" "holds_lease STAGE3_RUNNING token p" by blast
    have "table_follows ext s (update_pairs (\<lambda>q. p_id q = i)
        (\<lambda>q. q\<lparr>p_stage3_attempt_count := p_stage3_attempt_count q + 1\<rparr>) s)"
    proof (rule update_pairs_follows)
      fix q assume "q \<in> set (pairs s)" "p_id q = i"
      then have "p_status q = STAGE3_RUNNING" using lease_at_id [OF ok p(1)] p(2) by (simp add: holds_lease_def)
      then show "row_follows (issued ext s) q (q\<lparr>p_stage3_attempt_count := p_stage3_attempt_count q + 1\<rparr>)"
        by (simp add: row_follows_def same_keys_def)
    qed simp_all
    then show ?thesis unfolding begin_attempt using p by (simp add: begin_attempt_def)
  next
    case False
    then show ?thesis unfolding begin_attempt by (auto simp: begin_attempt_def split: option.splits)
  qed
next
  case (retry_evaluation now attempt delay f i token)
  show ?thesis
  proof (cases "\<exists>p. pair_by_id i s = Some p \<and> holds_lease STAGE3_RUNNING token p")
    case True
    then obtain p where p: "pair_by_id i s = Some p" "holds_lease STAGE3_RUNNING token p" by blast
    have "row_follows (issued ext s) p (store_failure cfg now attempt delay f p)"
      using p(2) by (auto simp: row_follows_def store_failure_def same_keys_def holds_lease_def)
    then show ?thesis
      unfolding retry_evaluation using replace_pair_follows [OF ok p(1)] p by (simp add: retry_evaluation_def)
  next
    case False
    then show ?thesis unfolding retry_evaluation by (auto simp: retry_evaluation_def split: option.splits)
  qed
next
  case (finish_evaluation now dump policy r i token)
  show ?thesis
  proof (cases "\<exists>p. pair_by_id i s = Some p \<and> holds_lease STAGE3_RUNNING token p")
    case True
    then obtain p where p: "pair_by_id i s = Some p" "holds_lease STAGE3_RUNNING token p" by blast
    have "row_follows (issued ext s) p (store_evaluation cfg now dump policy r p)"
      using p(2) by (cases "fe_evaluation_status r")
        (auto simp: row_follows_def store_evaluation_def same_keys_def holds_lease_def)
    then show ?thesis
      unfolding finish_evaluation using replace_pair_follows [OF ok p(1)] p by (simp add: finish_evaluation_def)
  next
    case False
    then show ?thesis unfolding finish_evaluation by (auto simp: finish_evaluation_def split: option.splits)
  qed
next
  case (undo_evaluation i token)
  show ?thesis unfolding undo_evaluation undo_evaluation_def
    by (rule update_pairs_follows) (auto simp: row_follows_def same_keys_def holds_lease_def)
next
  case (finalize_campaign now i)
  then show ?thesis
    by (auto simp: finalize_campaign_def complete_jds_def Let_def split: option.splits intro: table_follows_same)
qed (simp_all add: store_report_def open_campaign_def table_follows_same)

section \<open>Runs\<close>

text \<open>
  What the machine promises of a row over a whole run: it stays in the tables with its identity, a
  terminal row never changes again, and a token drawn earlier that no longer holds the lease never
  holds it again.
\<close>

definition row_leads :: "string set \<Rightarrow> pair \<Rightarrow> pair \<Rightarrow> bool" where
  "row_leads toks p q \<longleftrightarrow> same_keys p q \<and> edge\<^sup>*\<^sup>* (p_status p) (p_status q) \<and>
     (terminal (p_status p) \<longrightarrow> q = p) \<and>
     (\<forall>t\<in>toks. p_lease_owner p \<noteq> Some t \<longrightarrow> p_lease_owner q \<noteq> Some t)"

lemma row_leads_refl [simp]: "row_leads toks p p"
  by (simp add: row_leads_def same_keys_def)

lemma row_leads_follows:
  assumes "row_leads toks p q" "row_follows toks' q r" "toks \<subseteq> toks'"
  shows "row_leads toks p r"
proof -
  have "edge\<^sup>*\<^sup>* (p_status p) (p_status r)"
    using assms(1,2) by (auto simp: row_leads_def row_follows_def intro: rtranclp.rtrancl_into_rtrancl)
  moreover have "same_keys p r" "terminal (p_status p) \<longrightarrow> r = p"
    using assms(1,2) by (auto simp: row_leads_def row_follows_def same_keys_def)
  moreover have "\<forall>t\<in>toks. p_lease_owner p \<noteq> Some t \<longrightarrow> p_lease_owner r \<noteq> Some t"
    using assms by (auto simp: row_leads_def row_follows_def)
  ultimately show ?thesis by (simp add: row_leads_def)
qed

lemma steps_lead:
  assumes cfg: "settings_ok cfg" and fresh: "fresh_ids ext" and run: "(step cfg ext)\<^sup>*\<^sup>* s t"
    and ok: "tables_ok cfg ext s" and p: "p \<in> set (pairs s)"
  shows "uuids s \<le> uuids t \<and> tables_ok cfg ext t \<and> (\<exists>q\<in>set (pairs t). row_leads (issued ext s) p q)"
  using run
proof (induction rule: rtranclp_induct)
  case base
  then show ?case using ok p by (auto intro!: bexI [of _ p])
next
  case (step t u)
  then obtain q where q: "q \<in> set (pairs t)" "row_leads (issued ext s) p q" by blast
  have u: "table_follows ext t u" "tables_ok cfg ext u"
    using step_follows [OF fresh step(2)] step_tables_ok [OF cfg fresh step(2)] step(3) by auto
  then obtain r where "r \<in> set (pairs u)" "row_follows (issued ext t) q r"
    using q(1) by (auto simp: table_follows_def)
  then show ?case
    using row_leads_follows [OF q(2)] issued_mono [of s t ext] step(3) u by (auto simp: table_follows_def)
qed

lemma steps_lead_row:
  assumes "settings_ok cfg" "fresh_ids ext" "(step cfg ext)\<^sup>*\<^sup>* s t" "tables_ok cfg ext s"
    and "p \<in> set (pairs s)" "q \<in> set (pairs t)" "p_id q = p_id p"
  shows "row_leads (issued ext s) p q"
proof -
  obtain r where r: "r \<in> set (pairs t)" "row_leads (issued ext s) p r" and ok: "tables_ok cfg ext t"
    using steps_lead [OF assms(1-5)] by blast
  have "r = q"
    using distinct_key_eq [OF distinct_keysD(4) [OF tables_okD(1) [OF ok]] r(1) assms(6)] r(2) assms(7)
    by (simp add: row_leads_def same_keys_def)
  then show ?thesis using r(2) by simp
qed

end
