(* ===== verification/Task_Runs.thy ===== *)
theory Task_Runs
  imports Lifecycle
begin

text \<open>
  The Celery tasks as runs: whatever a task does, and whatever other sessions commit between its
  transactions (\<open>race\<close>), it moves the tables by steps of the machine. The guards the machine asks of
  its callers follow from the order in which a coordinator pass works.
\<close>

section \<open>Campaigns and JDs keep their identity\<close>

lemma find_update_where:
  assumes "\<And>x. x \<in> set xs \<Longrightarrow> P x \<Longrightarrow> k (f x) = k x"
  shows "find (\<lambda>x. k x = i) (update_where P f xs) =
    map_option (\<lambda>x. if P x then f x else x) (find (\<lambda>x. k x = i) xs)"
  using assms by (induction xs) (auto simp: update_where_def)

lemma find_append_Some: "find P xs = Some x \<Longrightarrow> find P (xs @ ys) = Some x"
  by (simp add: find_append)

definition keeps :: "db \<Rightarrow> db \<Rightarrow> bool" where
  "keeps s t \<longleftrightarrow>
     (\<forall>i c. campaign_by_id i s = Some c \<longrightarrow>
        (\<exists>c'. campaign_by_id i t = Some c' \<and> (c_status c \<noteq> C_INTAKE \<longrightarrow> c_status c' \<noteq> C_INTAKE))) \<and>
     (\<forall>i j. jd_by_id i s = Some j \<longrightarrow>
        (\<exists>j'. jd_by_id i t = Some j' \<and> j_campaign_id j' = j_campaign_id j))"

lemma keeps_refl [simp]: "keeps s s"
  by (simp add: keeps_def)

lemma keeps_campaign:
  assumes "keeps s t" "campaign_by_id i s = Some c"
  obtains c' where "campaign_by_id i t = Some c'" "c_status c \<noteq> C_INTAKE \<longrightarrow> c_status c' \<noteq> C_INTAKE"
  using assms unfolding keeps_def by blast

lemma keeps_jd:
  assumes "keeps s t" "jd_by_id i s = Some j"
  obtains j' where "jd_by_id i t = Some j'" "j_campaign_id j' = j_campaign_id j"
  using assms unfolding keeps_def by blast

lemma keeps_trans:
  assumes "keeps s t" "keeps t u"
  shows "keeps s u"
  unfolding keeps_def
proof (intro conjI allI impI)
  fix i c assume "campaign_by_id i s = Some c"
  then show "\<exists>c'. campaign_by_id i u = Some c' \<and> (c_status c \<noteq> C_INTAKE \<longrightarrow> c_status c' \<noteq> C_INTAKE)"
    by (elim keeps_campaign [OF assms(1)] keeps_campaign [OF assms(2)]) blast
next
  fix i j assume "jd_by_id i s = Some j"
  then show "\<exists>j'. jd_by_id i u = Some j' \<and> j_campaign_id j' = j_campaign_id j"
    by (elim keeps_jd [OF assms(1)] keeps_jd [OF assms(2)]) simp
qed

lemma keeps_same: "campaigns t = campaigns s \<Longrightarrow> jds t = jds s \<Longrightarrow> keeps s t"
  by (simp add: keeps_def campaign_by_id_def jd_by_id_def)

lemma keeps_append: "campaigns t = campaigns s @ cs \<Longrightarrow> jds t = jds s @ js \<Longrightarrow> keeps s t"
  by (auto simp: keeps_def campaign_by_id_def jd_by_id_def intro: find_append_Some)

lemma keeps_update_campaigns:
  assumes "\<And>c. c_id (f c) = c_id c" "\<And>c. c_status c \<noteq> C_INTAKE \<Longrightarrow> c_status (f c) \<noteq> C_INTAKE"
  shows "keeps s (update_campaigns P f s)"
  using assms by (auto simp: keeps_def campaign_by_id_def jd_by_id_def find_update_where)

lemma keeps_update_jds:
  assumes "\<And>j. j_id (f j) = j_id j" "\<And>j. j_campaign_id (f j) = j_campaign_id j"
  shows "keeps s (update_jds P f s)"
  using assms by (auto simp: keeps_def campaign_by_id_def jd_by_id_def find_update_where)

lemma finalize_jd_keeps:
  assumes "finalize_jd now i s = Inr (b, t)"
  shows "keeps s t"
  using assms
proof (cases rule: finalize_jd_cases)
  case (ranked j rows)
  have "keeps s (update_jds P f (update_pairs Q g s))" if "\<And>j. j_id (f j) = j_id j" "\<And>j. j_campaign_id (f j) = j_campaign_id j"
    for P f Q g using keeps_trans [OF keeps_same keeps_update_jds [OF that]] by simp
  then show ?thesis by (simp add: ranked(6) finalized_def)
qed (simp_all add: set_jd_status_def keeps_update_jds)

lemma finalize_campaign_keeps: "keeps s (snd (finalize_campaign now i s))"
proof -
  have jds: "keeps s (complete_jds now i s)" by (simp add: complete_jds_def keeps_update_jds)
  have closed: "keeps (complete_jds now i s) (update_campaigns P (\<lambda>d. d\<lparr>c_status := C_COMPLETED,
      c_completed_at := Some now, c_updated_at := now\<rparr>) (complete_jds now i s))" for P
    by (simp add: keeps_update_campaigns)
  show ?thesis
    using jds keeps_trans [OF jds closed] by (simp add: finalize_campaign_def Let_def split: option.splits)
qed

lemma step_keeps:
  assumes "step cfg ext s t"
  shows "keeps s t"
  using assms
proof cases
  case (reserve_campaign now owner hash jobs policies key cap nm r)
  then show ?thesis
    by (auto simp: reserve_campaign_def rbind_Inr_conv insert_campaign_def Let_def keeps_append
        split: if_splits option.splits)
next
  case (reserve_cv now i owner k fname hash pdf r)
  then show ?thesis
    by (auto simp: reserve_cv_def rbind_Inr_conv insert_cv_def Let_def keeps_same split: if_splits option.splits)
next
  case (stage_pdf now i owner k pdf b)
  then show ?thesis by (auto simp: stage_pdf_def rbind_Inr_conv keeps_same split: if_splits)
next
  case (finish_stage0 now i owner k body pages err b)
  then show ?thesis by (auto simp: finish_stage0_def rbind_Inr_conv Let_def keeps_same split: if_splits)
next
  case (open_campaign i c h report)
  then show ?thesis by (simp add: open_campaign_def keeps_update_campaigns)
next
  case (store_report i report)
  then show ?thesis by (simp add: store_report_def keeps_update_campaigns)
next
  case (finalize_jd now i b j)
  then show ?thesis using finalize_jd_keeps by blast
next
  case (finalize_campaign now i)
  then show ?thesis using finalize_campaign_keeps by simp
qed (auto simp: claim_stage0_def recover_campaign_stage0_def dispatch_pairs_def expire_retrievals_def
    finish_retrieval_def undo_retrieval_def dispatch_stage3_def expire_evaluations_def delay_evaluation_def
    begin_attempt_def retry_evaluation_def finish_evaluation_def undo_evaluation_def replace_pair_def
    update_claimed_def Let_def split: option.splits sum.splits intro!: keeps_same)

lemma run_keeps: "(step cfg ext)\<^sup>*\<^sup>* s t \<Longrightarrow> keeps s t"
  by (induction rule: rtranclp_induct) (auto intro: keeps_trans step_keeps)

section \<open>The tasks\<close>

text \<open>What other sessions commit in the middle of a task is itself a run.\<close>

definition interleaves :: "settings \<Rightarrow> externals \<Rightarrow> (db \<Rightarrow> db) \<Rightarrow> bool" where
  "interleaves cfg ext race \<longleftrightarrow> (\<forall>s. (step cfg ext)\<^sup>*\<^sup>* s (race s))"

lemma interleaves_run: "interleaves cfg ext race \<Longrightarrow> (step cfg ext)\<^sup>*\<^sup>* s t \<Longrightarrow> (step cfg ext)\<^sup>*\<^sup>* s (race t)"
  by (auto simp: interleaves_def intro: rtranclp_trans)

lemma interleaves_id [simp]: "interleaves cfg ext id"
  by (simp add: interleaves_def)

lemma step_run: "(step cfg ext)\<^sup>*\<^sup>* s t \<Longrightarrow> step cfg ext t u \<Longrightarrow> (step cfg ext)\<^sup>*\<^sup>* s u"
  by (rule rtranclp.rtrancl_into_rtrancl)

lemma retrieval_task_run:
  assumes "interleaves cfg ext race"
  shows "(step cfg ext)\<^sup>*\<^sup>* s (snd (execute_campaign_pair cfg now race stage1 stage2 i token s))"
proof (cases "find (\<lambda>(p, v, j). p_id p = i) (joined s)")
  case (Some a)
  obtain p v j where "a = (p, v, j)" by (cases a) auto
  then show ?thesis
    using Some step_run [OF interleaves_run [OF assms rtranclp.rtrancl_refl] step.finish_retrieval]
    by (simp add: execute_campaign_pair_def Let_def)
qed (simp add: execute_campaign_pair_def)

lemma evaluation_task_run:
  assumes race: "interleaves cfg ext race"
  shows "(step cfg ext)\<^sup>*\<^sup>* s (snd (execute_campaign_stage3 cfg now jitter race dump adm evaluate i token s))"
proof (cases "find (\<lambda>(p, v, j). p_id p = i) (joined s)")
  case (Some a)
  obtain p v j where a: "a = (p, v, j)" by (cases a) auto
  note run = step_run [OF interleaves_run [OF race]]
  have first: "(step cfg ext)\<^sup>*\<^sup>* s (snd (begin_attempt i token (race s)))"
    by (rule run [OF rtranclp.rtrancl_refl step.begin_attempt])
  have "(step cfg ext)\<^sup>*\<^sup>* s (snd (delay_evaluation now wait i token (race s)))" for wait
    by (rule run [OF rtranclp.rtrancl_refl step.delay_evaluation])
  moreover have "(step cfg ext)\<^sup>*\<^sup>* s (snd (finish_evaluation cfg now dump policy r i token (race (snd (begin_attempt i token (race s))))))"
    for policy r by (rule run [OF first step.finish_evaluation])
  moreover have "(step cfg ext)\<^sup>*\<^sup>* s (snd (retry_evaluation cfg now n d f i token (race (snd (begin_attempt i token (race s))))))"
    for n d f by (rule run [OF first step.retry_evaluation])
  ultimately show ?thesis
    using Some a first
    by (cases "begin_attempt i token (race s)")
      (auto simp: execute_campaign_stage3_def Let_def split: prod.splits sum.splits option.splits provider_answer.splits)
qed (simp add: execute_campaign_stage3_def)

lemma publish_stage0_step:
  "snd (publish_stage0 now i owner k view s) = s \<or> step cfg ext s (snd (publish_stage0 now i owner k view s))"
proof -
  have fin: "step cfg ext s t" if "finish_stage0 now i owner k body pages err s = Inr (b, t)" for body pages err b t
    using that by (rule step.finish_stage0)
  have "snd (fail_stage0 now i owner k s) = s \<or> step cfg ext s (snd (fail_stage0 now i owner k s))"
    using fin by (auto simp: fail_stage0_def split: sum.splits)
  then show ?thesis
    using fin by (auto simp: publish_stage0_def Let_def split: extraction.splits sum.splits)
qed

lemma stage0_task_run:
  assumes race: "interleaves cfg ext race"
  shows "(step cfg ext)\<^sup>*\<^sup>* s (snd (execute_campaign_stage0 cfg now later race ingest i s))"
proof -
  have claim: "(step cfg ext)\<^sup>*\<^sup>* s (snd (claim_stage0 cfg now i s))"
    by (rule r_into_rtranclp [of "step cfg ext", OF step.claim_stage0])
  have run: "(step cfg ext)\<^sup>*\<^sup>* s (snd (publish_stage0 later c owner k view (race (snd (claim_stage0 cfg now i s)))))"
    for c owner k view
    using publish_stage0_step [of later c owner k view "race (snd (claim_stage0 cfg now i s))" cfg ext]
      interleaves_run [OF race claim] step_run by metis
  show ?thesis
    using claim run
    by (cases "claim_stage0 cfg now i s")
      (auto simp: execute_campaign_stage0_def split: stage0_claim.splits option.splits)
qed

lemma publish_claims_run:
  assumes "interleaves cfg ext race" "\<And>i token s. step cfg ext s (undo i token s)"
  shows "(step cfg ext)\<^sup>*\<^sup>* s (publish_claims race published undo claims s)"
proof (induction claims arbitrary: s)
  case (Cons claim claims)
  obtain i token where claim: "claim = (i, token)" by (cases claim)
  have "(step cfg ext)\<^sup>*\<^sup>* s (race s)" using interleaves_run [OF assms(1) rtranclp.rtrancl_refl] .
  then have "(step cfg ext)\<^sup>*\<^sup>* s (if published i then race s else undo i token (race s))"
    using step_run [OF _ assms(2)] by simp
  then show ?case using Cons.IH rtranclp_trans [of "step cfg ext"] unfolding claim publish_claims.simps by metis
qed simp

lemma started_here:
  assumes ok: "tables_ok cfg ext s" and c: "campaign_by_id i s = Some c" "c_status c \<noteq> C_INTAKE"
  shows "started i s"
  unfolding started_def using campaign_unique [OF tables_okD(1) [OF ok] c(1)] c(2) by blast

lemma finalize_each_run:
  assumes cfg: "settings_ok cfg" and fresh: "fresh_ids ext" and race: "interleaves cfg ext race"
    and ok: "tables_ok cfg ext s" and c: "campaign_by_id i s = Some c" "c_status c \<noteq> C_INTAKE"
    and js: "\<forall>k\<in>set is. \<exists>j. jd_by_id k s = Some j \<and> j_campaign_id j = i"
  shows "(step cfg ext)\<^sup>*\<^sup>* s (snd (finalize_each now race fin is s))"
  using ok c js
proof (induction "is" arbitrary: fin s c)
  case (Cons k ks)
  have run: "(step cfg ext)\<^sup>*\<^sup>* s (race s)" using interleaves_run [OF race rtranclp.rtrancl_refl] .
  have keeps: "keeps s (race s)" by (rule run_keeps [OF run])
  obtain d where d: "campaign_by_id i (race s) = Some d" "c_status d \<noteq> C_INTAKE"
    using keeps_campaign [OF keeps Cons.prems(2)] Cons.prems(3) by metis
  have later: "\<forall>k\<in>set (k # ks). \<exists>j. jd_by_id k (race s) = Some j \<and> j_campaign_id j = i"
    using Cons.prems(4) keeps_jd [OF keeps] by metis
  have ok': "tables_ok cfg ext (race s)"
    using run Cons.prems(1) by (induction rule: rtranclp_induct) (auto intro: step_tables_ok [OF cfg fresh])
  show ?case
  proof (cases "finalize_jd now k (race s)")
    case (Inr a)
    obtain b t where a: "a = (b, t)" by (cases a)
    obtain j where j: "jd_by_id k (race s) = Some j" "j_campaign_id j = i" using later by auto
    have st: "step cfg ext (race s) t"
      using step.finalize_jd [OF Inr [unfolded a] j(1)] started_here [OF ok' d] j(2) by simp
    have keeps': "keeps (race s) t" by (rule step_keeps [OF st])
    obtain e where e: "campaign_by_id i t = Some e" "c_status e \<noteq> C_INTAKE"
      using keeps_campaign [OF keeps' d(1)] d(2) by metis
    have "\<forall>k\<in>set ks. \<exists>j. jd_by_id k t = Some j \<and> j_campaign_id j = i"
      using later keeps_jd [OF keeps'] by (metis list.set_intros(2))
    from Cons.IH [OF step_tables_ok [OF cfg fresh st ok'] e this]
    have "(step cfg ext)\<^sup>*\<^sup>* t (snd (finalize_each now race f ks t))" for f .
    then show ?thesis using rtranclp_trans [OF step_run [OF run st]] by (simp add: Inr a)
  qed (use run in simp)
qed simp

lemma run_tables_ok:
  assumes "settings_ok cfg" "fresh_ids ext" "(step cfg ext)\<^sup>*\<^sup>* s t" "tables_ok cfg ext s"
  shows "tables_ok cfg ext t"
  using assms(3,4) by (induction rule: rtranclp_induct) (auto intro: step_tables_ok [OF assms(1,2)])

lemma finalize_ready_jds_run:
  assumes cfg: "settings_ok cfg" and fresh: "fresh_ids ext" and race: "interleaves cfg ext race"
    and ok: "tables_ok cfg ext s" and c: "campaign_by_id i s = Some c" "c_status c \<noteq> C_INTAKE"
  shows "(step cfg ext)\<^sup>*\<^sup>* s (snd (finalize_ready_jds now race i s))"
  unfolding finalize_ready_jds_def
proof (rule finalize_each_run [OF cfg fresh race ok c], intro ballI)
  fix k assume "k \<in> set (map j_id (filter (\<lambda>j. j_campaign_id j = i \<and> j_status j \<in> {J_PENDING, J_PROCESSING}) (jds s)))"
  then obtain j where j: "j \<in> set (jds s)" "j_id j = k" "j_campaign_id j = i" by auto
  then have "jd_by_id k s = Some j"
    using find_distinct [OF distinct_keysD(2) [OF tables_okD(1) [OF ok]] j(1)] by (simp add: jd_by_id_def)
  then show "\<exists>j. jd_by_id k s = Some j \<and> j_campaign_id j = i" using j(3) by blast
qed

lemma coordinator_pass_run:
  assumes cfg: "settings_ok cfg" and fresh: "fresh_ids ext" and race: "interleaves cfg ext race"
    and ok: "tables_ok cfg ext s" and c: "campaign_by_id i s = Some c" "c_status c \<noteq> C_INTAKE"
  shows "(step cfg ext)\<^sup>*\<^sup>* s (snd (coordinate_one_campaign cfg ext now race locked published i s))"
proof -
  obtain reserved s1 where d: "dispatch_pairs cfg ext now locked i s = (reserved, s1)" by (cases "dispatch_pairs cfg ext now locked i s")
  let ?s2 = "publish_claims race published undo_retrieval reserved s1"
  have s1: "(step cfg ext)\<^sup>*\<^sup>* s s1"
    using r_into_rtranclp [of "step cfg ext", OF step.dispatch_pairs [of cfg ext s now locked i]] by (simp add: d)
  have "(step cfg ext)\<^sup>*\<^sup>* s1 ?s2" by (rule publish_claims_run [OF race step.undo_retrieval])
  then have s2: "(step cfg ext)\<^sup>*\<^sup>* s (race ?s2)" using interleaves_run [OF race] rtranclp_trans [OF s1] by metis
  obtain e where e: "campaign_by_id i (race ?s2) = Some e" "c_status e \<noteq> C_INTAKE"
    using keeps_campaign [OF run_keeps [OF s2] c(1)] c(2) by metis
  obtain r s3 where f: "finalize_ready_jds now race i (race ?s2) = (r, s3)"
    by (cases "finalize_ready_jds now race i (race ?s2)")
  have s3: "(step cfg ext)\<^sup>*\<^sup>* s s3"
    using rtranclp_trans [OF s2 finalize_ready_jds_run [OF cfg fresh race run_tables_ok [OF cfg fresh s2 ok] e]]
    by (metis f snd_conv)
  obtain claims s4 where g: "dispatch_stage3 cfg ext now locked i (race s3) = (claims, s4)"
    by (cases "dispatch_stage3 cfg ext now locked i (race s3)")
  let ?s5 = "publish_claims race published undo_evaluation claims s4"
  have s4: "(step cfg ext)\<^sup>*\<^sup>* s s4"
    using step_run [OF interleaves_run [OF race s3] step.dispatch_stage3 [of _ _ _ now locked i]] by (simp add: g)
  have "(step cfg ext)\<^sup>*\<^sup>* s4 ?s5" by (rule publish_claims_run [OF race step.undo_evaluation])
  then have "(step cfg ext)\<^sup>*\<^sup>* s (race ?s5)" using interleaves_run [OF race] rtranclp_trans [OF s4] by metis
  then have "(step cfg ext)\<^sup>*\<^sup>* s (snd (finalize_campaign now i (race ?s5)))"
    by (rule step_run [OF _ step.finalize_campaign])
  then show ?thesis
    using s3 by (cases r) (simp_all add: coordinate_one_campaign_def d f g Let_def)
qed

end
