(* ===== verification/Leases.thy ===== *)
theory Leases
  imports Task_Runs
begin

text \<open>
  The lease protocol as an interface: work is handed out with a token, and the result of the work is
  stored only while the row still carries that token. Celery may deliver a task twice and a slow
  worker may come back late; the interface promises that of all results delivered under one token at
  most one is stored. Retrieval and Stage 3 are its two instances.
\<close>

section \<open>The interface\<close>

locale fenced_lease =
  fixes holds :: "string \<Rightarrow> 's \<Rightarrow> bool"
    and settle :: "string \<Rightarrow> 'w \<Rightarrow> 's \<Rightarrow> 's"
  assumes stale: "\<not> holds token s \<Longrightarrow> settle token w s = s"
    and release: "settle token w s \<noteq> s \<Longrightarrow> \<not> holds token (settle token w s)"
begin

lemma settle_once: "settle token w s = s \<or> settle token w' (settle token w s) = settle token w s"
  using stale release by metis

lemma settle_idem: "settle token w s \<noteq> s \<Longrightarrow> fold (settle token) ws (settle token w s) = settle token w s"
  by (induction ws) (simp_all add: stale release)

text \<open>Any number of deliveries under one token: the first that counts is the only one that does.\<close>

lemma settle_all: "fold (settle token) ws s = s \<or> (\<exists>w\<in>set ws. fold (settle token) ws s = settle token w s)"
proof (induction ws)
  case (Cons w ws)
  then show ?case
    by (cases "settle token w s = s") (use settle_idem [of token w s ws] in auto)
qed simp

lemma settle_others: "token' \<noteq> token \<Longrightarrow> holds token s \<Longrightarrow> (\<And>t. holds t s \<Longrightarrow> t = token) \<Longrightarrow> settle token' w s = s"
  using stale by blast

end

section \<open>Retrieval and Stage 3\<close>

definition pair_holds :: "pair_status \<Rightarrow> string \<Rightarrow> string \<Rightarrow> db \<Rightarrow> bool" where
  "pair_holds st i token s = list_ex (\<lambda>p. p_id p = i \<and> holds_lease st token p) (pairs s)"

lemma pair_holds_iff: "pair_holds st i token s \<longleftrightarrow> (\<exists>p\<in>set (pairs s). p_id p = i \<and> holds_lease st token p)"
  by (simp add: pair_holds_def list_ex_iff)

lemma pair_by_id_stale:
  "pair_by_id i s = Some p \<Longrightarrow> \<not> pair_holds st i token s \<Longrightarrow> \<not> holds_lease st token p"
  by (auto simp: pair_holds_iff pair_by_id_def dest: find_Some_in)

text \<open>An update that ends the lease of every row it meets; an update of rows that hold one.\<close>

lemma replace_releases: "p_lease_owner q = None \<Longrightarrow> \<not> pair_holds st i token (replace_pair i q s)"
  by (auto simp: pair_holds_iff replace_pair_def holds_lease_def elim!: update_where_cases)

lemma update_held_stale:
  assumes "\<not> pair_holds st i token s"
  shows "update_pairs (\<lambda>p. p_id p = i \<and> holds_lease st token p) f s = s"
proof -
  have "update_where (\<lambda>p. p_id p = i \<and> holds_lease st token p) f (pairs s) = pairs s"
    using assms by (intro update_where_False) (auto simp: pair_holds_iff)
  then show ?thesis by (simp add: update_pairs_def)
qed

lemma update_held_releases:
  assumes "\<And>p. p_lease_owner (f p) = None"
  shows "\<not> pair_holds st i token (update_pairs (\<lambda>p. p_id p = i \<and> holds_lease st token p) f s)"
proof
  assume "pair_holds st i token (update_pairs (\<lambda>p. p_id p = i \<and> holds_lease st token p) f s)"
  then obtain q where q: "q \<in> set (update_where (\<lambda>p. p_id p = i \<and> holds_lease st token p) f (pairs s))"
    "p_id q = i" "p_lease_owner q = Some token" "holds_lease st token q"
    by (auto simp: pair_holds_iff holds_lease_def)
  from q(1) show False
    by (rule update_where_cases) (use q assms in simp_all)
qed

lemma store_pair_work_releases: "store_pair_work cfg now ver work p = Inr q \<Longrightarrow> p_lease_owner q = None"
  by (auto simp: store_pair_work_def rbind_Inr_conv Let_def stage1_stored_def split: if_splits option.splits)

text \<open>What a worker delivers: for retrieval the stored work, for Stage 3 one of four messages.\<close>

datatype retrieval_message = Retrieved int int pair_work | Retrieval_Undone

fun settle_retrieval :: "settings \<Rightarrow> string \<Rightarrow> string \<Rightarrow> retrieval_message \<Rightarrow> db \<Rightarrow> db" where
  "settle_retrieval cfg i token (Retrieved now ver work) s = snd (finish_retrieval cfg now i token ver work s)"
| "settle_retrieval cfg i token Retrieval_Undone s = undo_retrieval i token s"

datatype evaluation_message =
    Evaluated int "final_evaluation \<Rightarrow> json" pydict final_evaluation
  | Provider_Failed int int int provider_failure
  | Delayed int int
  | Evaluation_Undone

fun settle_evaluation :: "settings \<Rightarrow> string \<Rightarrow> string \<Rightarrow> evaluation_message \<Rightarrow> db \<Rightarrow> db" where
  "settle_evaluation cfg i token (Evaluated now dump policy r) s =
     snd (finish_evaluation cfg now dump policy r i token s)"
| "settle_evaluation cfg i token (Provider_Failed now attempt delay f) s =
     snd (retry_evaluation cfg now attempt delay f i token s)"
| "settle_evaluation cfg i token (Delayed now wait) s = snd (delay_evaluation now wait i token s)"
| "settle_evaluation cfg i token Evaluation_Undone s = undo_evaluation i token s"

interpretation retrieval: fenced_lease "pair_holds RUNNING i" "settle_retrieval cfg i"
proof unfold_locales
  fix token w s
  show "\<not> pair_holds RUNNING i token s \<Longrightarrow> settle_retrieval cfg i token w s = s"
    by (cases w) (auto simp: finish_retrieval_def undo_retrieval_def update_held_stale
        dest: pair_by_id_stale split: option.splits)
  show "settle_retrieval cfg i token w s \<noteq> s \<Longrightarrow> \<not> pair_holds RUNNING i token (settle_retrieval cfg i token w s)"
    by (cases w) (auto simp: finish_retrieval_def undo_retrieval_def update_held_releases replace_releases
        dest: store_pair_work_releases split: option.splits sum.splits if_splits)
qed

interpretation evaluation: fenced_lease "pair_holds STAGE3_RUNNING i" "settle_evaluation cfg i"
proof unfold_locales
  fix token w s
  show "\<not> pair_holds STAGE3_RUNNING i token s \<Longrightarrow> settle_evaluation cfg i token w s = s"
    by (cases w) (auto simp: finish_evaluation_def retry_evaluation_def delay_evaluation_def undo_evaluation_def
        update_held_stale dest: pair_by_id_stale split: option.splits)
  show "settle_evaluation cfg i token w s \<noteq> s \<Longrightarrow> \<not> pair_holds STAGE3_RUNNING i token (settle_evaluation cfg i token w s)"
    by (cases w) (auto simp: finish_evaluation_def retry_evaluation_def delay_evaluation_def undo_evaluation_def
        park_pair_def store_failure_def store_evaluation_def update_held_releases replace_releases
        split: option.splits if_splits)
qed

text \<open>A lease that was lost makes every operation of its holder a no-op.\<close>

lemma fenced_operations:
  assumes p: "pair_by_id i t = Some p" and lost: "p_lease_owner p \<noteq> Some token" "\<forall>q\<in>set (pairs t). p_id q = i \<longrightarrow> q = p"
  shows "finish_retrieval cfg now i token ver work t = (Inr ''LEASE_LOST'', t)"
    "begin_attempt i token t = (Inr None, t)"
    "retry_evaluation cfg now attempt delay f i token t = (Inr ''LEASE_LOST'', t)"
    "finish_evaluation cfg now dump policy r i token t = (Inr ''LEASE_LOST'', t)"
    "snd (delay_evaluation now wait i token t) = t" "undo_retrieval i token t = t" "undo_evaluation i token t = t"
proof -
  have "\<not> pair_holds st i token t" for st using lost by (auto simp: pair_holds_iff holds_lease_def)
  note stale = this pair_by_id_stale [OF p this]
  show "finish_retrieval cfg now i token ver work t = (Inr ''LEASE_LOST'', t)"
    "begin_attempt i token t = (Inr None, t)"
    "retry_evaluation cfg now attempt delay f i token t = (Inr ''LEASE_LOST'', t)"
    "finish_evaluation cfg now dump policy r i token t = (Inr ''LEASE_LOST'', t)"
    "snd (delay_evaluation now wait i token t) = t" "undo_retrieval i token t = t" "undo_evaluation i token t = t"
    using stale p by (simp_all add: finish_retrieval_def begin_attempt_def retry_evaluation_def
        finish_evaluation_def delay_evaluation_def undo_retrieval_def undo_evaluation_def update_held_stale)
qed

end
