(* ===== verification/Recovery.thy ===== *)
theory Recovery
  imports Leases
begin

text \<open>
  What an admission hands out and what it takes back: the claims it returns are the leases it wrote,
  one for each row and with distinct fresh tokens, and no lease that has run out survives it.
\<close>

section \<open>Claims\<close>

lemma claims_written:
  assumes ids: "distinct (map p_id (pairs s))" and rows: "set rows \<subseteq> set (pairs s)" "distinct (map p_id rows)"
    and claim: "(i, token) \<in> set (claim_tokens ext s rows)"
  obtains r where "r \<in> set rows" "p_id r = i" "f token r \<in> set (pairs (update_claimed (claim_tokens ext s rows) f s))"
proof -
  let ?c = "claim_tokens ext s rows"
  have "distinct (map fst ?c)" using rows(2) by simp
  then have tok: "map_of ?c i = Some token" using claim by (simp add: map_of_eq_Some_iff)
  have "i \<in> fst ` set ?c" using imageI [OF claim, of fst] by (simp only: fst_conv)
  then obtain r where r: "r \<in> set rows" "p_id r = i" by (auto simp only: claim_tokens_simps image_iff)
  have "(if p_id r \<in> fst ` set ?c then f (the (map_of ?c (p_id r))) r else r) \<in> set (pairs (update_claimed ?c f s))"
    using in_update_whereI [of r "pairs s" "\<lambda>p. p_id p \<in> fst ` set ?c" "\<lambda>p. f (the (map_of ?c (p_id p))) p"] rows(1) r
    by (auto simp: update_claimed_def)
  then have "f token r \<in> set (pairs (update_claimed ?c f s))"
    using \<open>i \<in> fst ` set ?c\<close> tok r(2) by (simp only: if_True option.sel)
  then show ?thesis using that r by blast
qed

lemma concat_map_when: "concat (map (\<lambda>v. if P v then f v else []) vs) = concat (map f (filter P vs))"
  by (induction vs) auto

lemma joined_ids:
  assumes "unique_constraints s"
  shows "distinct (map (\<lambda>z. p_id (fst z)) (joined s))"
proof -
  let ?vs = "\<lambda>p. filter (\<lambda>v. v_id v = p_cv_id p) (cvs s)" and ?js = "\<lambda>p. filter (\<lambda>j. j_id j = p_jd_id p) (jds s)"
  let ?g = "\<lambda>p. concat (map (\<lambda>v. map (Pair v) (?js p)) (?vs p))"
  have js: "length (?js p) \<le> 1" for p
    using count_where_key_le [OF distinct_keysD(2) [OF assms], of "[p_jd_id p]"] by (simp add: count_where_def)
  have vs: "?vs p = [] \<or> (\<exists>v. ?vs p = [v])" for p
    using join_once [OF distinct_keysD(3) [OF assms], of "p_cv_id p"] by (cases "?vs p") auto
  have "length (?g p) \<le> 1" for p
  proof -
    from vs [of p] show ?thesis
    proof
      assume "?vs p = []"
      then show ?thesis by (simp only: list.map concat.simps list.size)
    next
      assume "\<exists>v. ?vs p = [v]"
      then obtain v where "?vs p = [v]" by blast
      then show ?thesis using js [of p] by (simp only: list.map concat.simps append_Nil2 length_map)
    qed
  qed
  then have "distinct (map (\<lambda>z. p_id (fst z)) (concat (map (\<lambda>p. map (Pair p) (?g p)) (pairs s))))"
    by (rule distinct_join [OF distinct_keysD(4) [OF assms]])
  moreover have "joined s = concat (map (\<lambda>p. map (Pair p) (?g p)) (pairs s))"
    by (simp add: joined_def map_concat comp_def concat_map_if concat_map_when)
  ultimately show ?thesis by (simp only:)
qed

lemma retrieval_rows_ids:
  assumes "unique_constraints s"
  shows "distinct (map p_id (retrieval_rows ext locked i slots s))"
proof -
  let ?xs = "sort_key (\<lambda>(p, v, j). (collate ext (j_jd_key j), collate ext (v_candidate_id v)))
      (filter (retrieval_ready i) (joined s))"
  have "distinct (map (\<lambda>z. p_id (fst z)) (filter (retrieval_ready i) (joined s)))"
    using joined_ids [OF assms] by (rule distinct_map_filter)
  then have "distinct (map (\<lambda>z. p_id (fst z)) ?xs)"
    by (simp add: distinct_map)
  then have "distinct (map p_id (map fst ?xs))" by (simp add: comp_def)
  then have "distinct (map p_id (filter (\<lambda>p. \<not> locked (p_id p)) (map fst ?xs)))" by (rule distinct_map_filter)
  then show ?thesis unfolding retrieval_rows_def take_map [symmetric] by (rule distinct_take)
qed

text \<open>The claims of a retrieval admission are leases on rows that were ready.\<close>

lemma dispatch_pairs_claims:
  assumes ok: "tables_ok cfg ext s" and run: "dispatch_pairs cfg ext now locked i s = (claims, t)"
    and claim: "(k, token) \<in> set claims"
  shows "\<exists>r. p_id r = k \<and> p_campaign_id r = i \<and> p_status r = PENDING \<and> \<not> locked k \<and>
    claim_retrieval cfg now token r \<in> set (pairs t)"
proof -
  let ?s1 = "expire_retrievals cfg now i s"
  let ?rows = "retrieval_rows ext locked i (retrieval_slots cfg i ?s1) ?s1"
  have s1: "tables_ok cfg ext ?s1" using ok by (rule expire_retrievals_ok)
  have c: "claims = claim_tokens ext ?s1 ?rows" and t: "t = update_claimed claims (claim_retrieval cfg now) ?s1"
    using run claim by (auto simp: dispatch_pairs_def Let_def split: option.splits if_splits)
  obtain r where r: "r \<in> set ?rows" "p_id r = k" "claim_retrieval cfg now token r \<in> set (pairs t)"
    using claims_written [OF distinct_keysD(4) [OF tables_okD(1) [OF s1]] retrieval_rows_subset
        retrieval_rows_ids [OF tables_okD(1) [OF s1]], of k token ext, where f = "claim_retrieval cfg now"]
      claim unfolding t c by metis
  obtain v j where "retrieval_ready i (r, v, j)" "\<not> locked (p_id r)" using r(1) by (rule retrieval_rows_ready)
  then show ?thesis using r by (auto simp: retrieval_ready_def)
qed

lemma claim_tokens_fresh:
  assumes "fresh_ids ext"
  shows "distinct (map snd (claim_tokens ext s rows))"
    "token \<in> snd ` set (claim_tokens ext s rows) \<Longrightarrow> token \<notin> issued ext s"
proof -
  have m: "map snd (claim_tokens ext s rows) = map (uuid4 ext) [uuids s..<uuids s + length rows]"
    by (simp add: claim_tokens_def)
  show "distinct (map snd (claim_tokens ext s rows))"
    using assms unfolding m by (simp add: distinct_map fresh_ids_def inj_on_subset [OF _ subset_UNIV])
  assume "token \<in> snd ` set (claim_tokens ext s rows)"
  then have "token \<in> set (map (uuid4 ext) [uuids s..<uuids s + length rows])" using m by (metis set_map)
  then show "token \<notin> issued ext s" using not_issued [OF assms, of s] by auto
qed

section \<open>Expired leases\<close>

text \<open>After an admission pass of a running campaign no lease of it has run out.\<close>

definition no_lapsed :: "pair_status \<Rightarrow> int \<Rightarrow> string \<Rightarrow> db \<Rightarrow> bool" where
  "no_lapsed st now i s = list_all (\<lambda>p. \<not> (p_campaign_id p = i \<and> p_status p = st \<and> lease_before now p)) (pairs s)"

lemma no_lapsed_update:
  assumes "no_lapsed st now i s" "pairs t = update_where P f (pairs s)"
    and "\<And>p. p_status (f p) = st \<Longrightarrow> \<not> lease_before now (f p)"
  shows "no_lapsed st now i t"
  unfolding no_lapsed_def list_all_iff
proof
  fix p assume "p \<in> set (pairs t)"
  then have "p \<in> set (update_where P f (pairs s))" by (simp add: assms(2))
  then show "\<not> (p_campaign_id p = i \<and> p_status p = st \<and> lease_before now p)"
    by (rule update_where_cases) (use assms(1,3) in \<open>auto simp: no_lapsed_def list_all_iff\<close>)
qed

lemma expired_none:
  assumes "\<And>p. p_status (f p) \<noteq> st"
    and "pairs t = update_where (\<lambda>p. p_campaign_id p = i \<and> p_status p = st \<and> lease_before now p) f (pairs s)"
  shows "no_lapsed st now i t"
  unfolding no_lapsed_def list_all_iff
proof
  fix p assume "p \<in> set (pairs t)"
  then have "p \<in> set (update_where (\<lambda>p. p_campaign_id p = i \<and> p_status p = st \<and> lease_before now p) f (pairs s))"
    by (simp add: assms(2))
  then show "\<not> (p_campaign_id p = i \<and> p_status p = st \<and> lease_before now p)"
    by (rule update_where_cases) (use assms(1) in auto)
qed

lemma dispatch_pairs_no_lapsed:
  assumes cfg: "settings_ok cfg" and c: "campaign_by_id i s = Some c" "c_status c = C_RUNNING"
  shows "no_lapsed RUNNING now i (snd (dispatch_pairs cfg ext now locked i s))"
proof -
  let ?s1 = "expire_retrievals cfg now i s"
  have s1: "no_lapsed RUNNING now i ?s1"
    by (rule expired_none [of "expire_retrieval cfg"]) (simp_all add: expire_retrieval_def expire_retrievals_def Let_def)
  have claim: "no_lapsed RUNNING now i (update_claimed cs (claim_retrieval cfg now) ?s1)" for cs
    by (rule no_lapsed_update [OF s1])
      (use settings_okD(2) [OF cfg] in \<open>auto simp: update_claimed_def claim_retrieval_def lease_before_def\<close>)
  show ?thesis using c s1 claim by (simp add: dispatch_pairs_def Let_def)
qed

lemma dispatch_stage3_no_lapsed:
  assumes cfg: "settings_ok cfg" and c: "campaign_by_id i s = Some c" "c_status c = C_RUNNING"
  shows "no_lapsed STAGE3_RUNNING now i (snd (dispatch_stage3 cfg ext now locked i s))"
proof -
  let ?s1 = "expire_evaluations cfg now i s"
  have s1: "no_lapsed STAGE3_RUNNING now i ?s1"
    by (rule expired_none [of "expire_evaluation cfg"]) (simp_all add: expire_evaluation_def expire_evaluations_def Let_def)
  have claim: "no_lapsed STAGE3_RUNNING now i (update_claimed cs (claim_evaluation cfg now) ?s1)" for cs
    by (rule no_lapsed_update [OF s1])
      (use settings_okD(2) [OF cfg] in \<open>auto simp: update_claimed_def claim_evaluation_def lease_before_def\<close>)
  show ?thesis using c s1 claim by (simp add: dispatch_stage3_def Let_def)
qed

end
