(* ===== verification/Selection.thy ===== *)
theory Selection
  imports Recovery
begin

text \<open>
  The coordinator's shortlist is the selection of the synchronous pipeline: the loop over the ranked
  rows marks exactly the pairs whose payloads \<open>rank_and_filter_candidate_batch\<close> returns for the same
  pool. Both rest on the facts of the \<open>ranked_pool\<close> interface.
\<close>

lemma sorted_by_payloads:
  assumes "sorted_by (\<lambda>row. candidate_sort_key (payload row)) pool = Inr rows"
  shows "sorted_by candidate_sort_key (map payload pool) = Inr (map payload rows)"
proof -
  note s = sorted_by_Inr [OF assms]
  have "candidate_sort_key d = Inr (projr (candidate_sort_key d))" if "d \<in> set (map payload pool)" for d
    using that s(2) by auto
  then have "sorted_by candidate_sort_key (map payload pool) =
      Inr (sort_key (\<lambda>d. projr (candidate_sort_key d)) (map payload pool))"
    by (rule sorted_by_total)
  then show ?thesis unfolding s(1) by (simp only: sort_key_map [of payload "\<lambda>d. projr (candidate_sort_key d)"])
qed

lemma selected_ids_top:
  "selected_ids cap rows = map (\<lambda>row. p_id (fst row))
     (take (nat (min cap MAX_CANDIDATES_PER_JD)) (filter (\<lambda>row. eligible (payload row)) rows))"
proof -
  let ?loop = "cutoff_loop (\<lambda>row. eligible (payload row)) (min cap MAX_CANDIDATES_PER_JD) 0 rows"
  have "selected_ids cap rows = map (\<lambda>z. p_id (fst (fst (snd z)))) (filter (\<lambda>z. snd (snd z) = Selected) (List.enumerate 1 ?loop))"
    by (simp add: selected_ids_def placements_def filter_map comp_def case_prod_unfold)
  also have "\<dots> = map (\<lambda>z. p_id (fst (fst z))) (filter (\<lambda>z. snd z = Selected) (map snd (List.enumerate 1 ?loop)))"
    by (simp only: filter_map map_map comp_def)
  also have "\<dots> = map (\<lambda>row. p_id (fst row)) (map fst (filter (\<lambda>z. snd z = Selected) ?loop))"
    by (simp add: comp_def)
  finally show ?thesis unfolding cutoff_loop_selected by simp
qed

text \<open>A payload carries its candidate, and a JD meets a candidate once.\<close>

lemma payload_candidate: "dget (payload row) ''candidate_id'' JNull = JStr (snd row)"
  by (simp add: payload_def)

lemma payload_inj:
  assumes u: "unique_constraints s" and fk: "foreign_keys s"
    and a: "a \<in> set (pool_rows i s)" and b: "b \<in> set (pool_rows i s)" and eq: "payload a = payload b"
  shows "a = b"
proof -
  obtain p v where p: "a = (p, v_candidate_id v)" "p \<in> set (pairs s)" "p_jd_id p = i" "v \<in> set (cvs s)" "v_id v = p_cv_id p"
    using a by (metis pool_rows_iff surj_pair)
  obtain q w where q: "b = (q, v_candidate_id w)" "q \<in> set (pairs s)" "p_jd_id q = i" "w \<in> set (cvs s)" "v_id w = p_cv_id q"
    using b by (metis pool_rows_iff surj_pair)
  have cand: "v_candidate_id v = v_candidate_id w"
    using payload_candidate [of a] payload_candidate [of b] eq p(1) q(1) by simp
  have scope: "v_campaign_id x = p_campaign_id r \<and> (\<exists>j\<in>set (jds s). j_id j = p_jd_id r \<and> j_campaign_id j = p_campaign_id r)"
    if mem: "r \<in> set (pairs s)" "x \<in> set (cvs s)" "v_id x = p_cv_id r" for r x
  proof -
    obtain y where "y \<in> set (cvs s)" "v_id y = p_cv_id r" "v_campaign_id y = p_campaign_id r"
      using foreign_keysD(1) [OF fk mem(1)] by blast
    then show ?thesis
      using distinct_key_eq [OF distinct_keysD(3) [OF u], of x y] mem foreign_keysD(2) [OF fk mem(1)] by auto
  qed
  obtain j k where "j \<in> set (jds s)" "j_id j = i" "j_campaign_id j = p_campaign_id p"
    "k \<in> set (jds s)" "j_id k = i" "j_campaign_id k = p_campaign_id q"
    using scope [OF p(2,4,5)] scope [OF q(2,4,5)] p(3) q(3) by auto
  then have "p_campaign_id p = p_campaign_id q" using distinct_key_eq [OF distinct_keysD(2) [OF u], of j k] by simp
  then have "v_campaign_id v = v_campaign_id w" using scope [OF p(2,4,5)] scope [OF q(2,4,5)] by simp
  moreover have "distinct (map (\<lambda>v. (v_campaign_id v, v_candidate_id v)) (cvs s))" "distinct (map (\<lambda>p. (p_jd_id p, p_cv_id p)) (pairs s))"
    using u by (simp_all add: unique_constraints_def)
  ultimately have "v = w" using distinct_key_eq [of "\<lambda>v. (v_campaign_id v, v_candidate_id v)" "cvs s" v w] cand p(4) q(4) by simp
  then have "p = q"
    using distinct_key_eq [of "\<lambda>p. (p_jd_id p, p_cv_id p)" "pairs s" p q]
      \<open>distinct (map (\<lambda>p. (p_jd_id p, p_cv_id p)) (pairs s))\<close> p q by simp
  then show ?thesis using p(1) q(1) cand by simp
qed

lemma image_key_iff: "(\<And>b. b \<in> B \<Longrightarrow> f b = f a \<Longrightarrow> b = a) \<Longrightarrow> f a \<in> f ` B \<longleftrightarrow> a \<in> B"
  by (metis imageE imageI)

lemma batch_of_pool:
  assumes "sorted_by (\<lambda>row. candidate_sort_key (payload row)) pool = Inr rows" "1 \<le> cap" "cap \<le> MAX_CANDIDATES_PER_JD"
  shows "rank_and_filter_candidate_batch cap (map payload pool) =
    Inr (map payload (take (nat cap) (filter (\<lambda>row. eligible (payload row)) rows)))"
  using assms sorted_by_payloads [OF assms(1)]
  by (simp add: rank_and_filter_candidate_batch_def filter_map comp_def take_map)

lemma barrier_selects_batch:
  assumes ok: "tables_ok cfg ext s" and run: "finalize_jd now i s = Inr (True, t)" and j: "jd_by_id i s = Some j"
    and row: "(p, k) \<in> set (pool_rows i s)" and q: "q \<in> set (pairs t)" "p_id q = p_id p"
  shows "\<exists>sel. rank_and_filter_candidate_batch (j_stage3_cap j) (map payload (pool_rows i s)) = Inr sel \<and>
    (p_status q = SHORTLISTED \<longleftrightarrow> payload (p, k) \<in> set sel)"
  using run
proof (cases rule: finalize_jd_cases)
  case (ranked j' rows)
  then have j': "j' = j" using j by simp
  let ?cap = "j_stage3_cap j"
  have cap: "1 \<le> ?cap" "?cap \<le> MAX_CANDIDATES_PER_JD"
    using tables_okD(5) [OF ok] jd_by_id_D(1) [OF j] by (auto simp: scopes_ok_def)
  note u = tables_okD(1) [OF ok] and fk = tables_okD(2) [OF ok]
  let ?best = "take (nat ?cap) (filter (\<lambda>row. eligible (payload row)) rows)"
  have perm: "mset rows = mset (pool_rows i s)" using sorted_by_Inr(1) [OF ranked(5)] by simp
  have set_eq: "set rows = set (pool_rows i s)" using perm by (rule mset_eq_setD)
  have p: "p \<in> set (pairs s)" using row by (simp add: pool_rows_iff)
  have dist: "distinct (map (\<lambda>row. p_id (fst row)) rows)"
    using pool_rows_ids [OF u, of i] perm by (metis mset_map mset_eq_imp_distinct_iff)
  have best: "set ?best \<subseteq> set (pool_rows i s)"
    unfolding set_eq [symmetric] by (rule order_trans [OF set_take_subset filter_is_subset])
  have ids: "p_id p \<in> set (selected_ids ?cap rows) \<longleftrightarrow> (p, k) \<in> set ?best"
  proof -
    have sel: "set (selected_ids ?cap rows) = (\<lambda>row. p_id (fst row)) ` set ?best"
      unfolding selected_ids_top min_absorb1 [OF cap(2)] set_map ..
    have "p_id (fst (p, k)) \<in> (\<lambda>row. p_id (fst row)) ` set ?best \<longleftrightarrow> (p, k) \<in> set ?best"
    proof (rule image_key_iff)
      fix b assume b: "b \<in> set ?best" "p_id (fst b) = p_id (fst (p, k))"
      show "b = (p, k)"
        by (rule distinct_key_eq [OF dist _ _ b(2)]) (use subsetD [OF best b(1)] row in \<open>simp_all only: set_eq\<close>)
    qed
    then show ?thesis unfolding sel fst_conv .
  qed
  have key: "p_id p \<in> fst ` set (placements ?cap rows)"
  proof -
    have "fst ` set (placements ?cap rows) = (\<lambda>row. p_id (fst row)) ` set rows"
      using placements_keys [of ?cap rows] by (metis set_map)
    then show ?thesis using row set_eq by force
  qed
  obtain rank i' m where m: "map_of (placements ?cap rows) (p_id p) = Some (rank, (p, i'), m)"
    "m = Selected \<longleftrightarrow> p_id p \<in> set (selected_ids ?cap rows)"
    using finalized_context(1) [OF ok j _ ranked(4,5) p key] ranked(3) j' by blast
  have "place now (rank, (p, i'), m) p \<in> set (pairs t)"
    using in_update_whereI [OF p, of "\<lambda>p. p_id p \<in> fst ` set (placements ?cap rows)"
        "\<lambda>p. place now (the (map_of (placements ?cap rows) (p_id p))) p"] key m(1)
    by (simp add: ranked(6) finalized_def j')
  moreover have "distinct (map p_id (pairs t))"
    using finalized_keys(1) [OF ok, of now i ?cap rows] by (simp add: ranked(6) j' distinct_keysD(4))
  moreover have "p_id (place now (rank, (p, i'), m) p) = p_id p" using place_keys(1) [of p now "(rank, (p, i'), m)"] by (simp add: same_keys_def)
  ultimately have "q = place now (rank, (p, i'), m) p" using distinct_key_eq [of p_id "pairs t" q] q by simp
  then have "p_status q = SHORTLISTED \<longleftrightarrow> m = Selected" by (cases m) (simp_all add: place_def Let_def)
  also have "\<dots> \<longleftrightarrow> (p, k) \<in> set ?best" using m(2) ids by simp
  also have "\<dots> \<longleftrightarrow> payload (p, k) \<in> set (map payload ?best)"
    using best payload_inj [OF u fk _ row] by auto
  finally show ?thesis using batch_of_pool [OF ranked(5) cap] by blast
qed simp_all

section \<open>Fan-out and Stage 0 publication\<close>

lemma new_pairs_pending:
  "x \<in> set is \<Longrightarrow> \<exists>p\<in>set (new_pairs ext c w now n is). p_jd_id p = x \<and> p_cv_id p = w \<and> p_status p = PENDING"
  by (induction "is" arbitrary: n) (auto simp: new_pair_def)

lemma find_update_cv:
  "find (\<lambda>v. v_campaign_id v = i \<and> v_candidate_id v = k) (update_where P (publish_cv now body pages err) vs) =
     map_option (\<lambda>v. if P v then publish_cv now body pages err v else v)
       (find (\<lambda>v. v_campaign_id v = i \<and> v_candidate_id v = k) vs)"
  by (induction vs) (auto simp: update_where_def publish_cv_def)

lemma scalar_one_InrE: "scalar_one x = Inr y \<Longrightarrow> (x = Some y \<Longrightarrow> P) \<Longrightarrow> P"
  by (cases x) auto

lemma finish_stage0_publishes:
  assumes "finish_stage0 now i owner k body pages err s = Inr (True, t)"
  obtains w c where "cv_by_candidate i k s = Some w" "get_campaign i owner s = Inr c" "campaigns t = campaigns s"
    "cvs t = update_where (\<lambda>x. v_id x = v_id w) (publish_cv now body pages err) (cvs s)"
  using assms by (auto simp: finish_stage0_def rbind_Inr_conv Let_def split: if_splits elim!: scalar_one_InrE)

end
