(* ===== verification/Patterns.thy ===== *)
theory Patterns
  imports Screening_Prelude
begin

text \<open>
  Python's \<open>re\<close> module and the string methods, as far as the extraction and rules code uses them.
  A pattern is a value of the datatype \<open>pattern\<close>; \<open>runs\<close> enumerates its matches from a position in
  the order in which the backtracking engine of Python tries them, so the first one is the match.
  Texts are ASCII: \<open>\w\<close> is a letter, digit or underscore, \<open>casefold\<close> is \<open>lower\<close>, and
  \<open>unicodedata.normalize\<close> is the identity. The non-ASCII dashes, bullet and ellipsis of some
  patterns are alternatives that never match such a text.
\<close>

section \<open>Characters and string methods\<close>

definition code_point :: "char \<Rightarrow> nat" where
  "code_point c = of_char c"

definition is_digit :: "char \<Rightarrow> bool" where
  "is_digit c = (48 \<le> code_point c \<and> code_point c \<le> 57)"

definition is_upper :: "char \<Rightarrow> bool" where
  "is_upper c = (65 \<le> code_point c \<and> code_point c \<le> 90)"

definition is_lower :: "char \<Rightarrow> bool" where
  "is_lower c = (97 \<le> code_point c \<and> code_point c \<le> 122)"

definition is_alnum :: "char \<Rightarrow> bool" where
  "is_alnum c = (is_digit c \<or> is_upper c \<or> is_lower c)"

definition is_word :: "char \<Rightarrow> bool" where
  "is_word c = (is_alnum c \<or> c = CHR ''_'')"

definition is_space :: "char \<Rightarrow> bool" where
  "is_space c = (let n = code_point c in n = 32 \<or> 9 \<le> n \<and> n \<le> 13 \<or> 28 \<le> n \<and> n \<le> 31)"

definition newline :: char where
  "newline = char_of (10::nat)"

definition upper_char :: "char \<Rightarrow> char" where
  "upper_char c = (if is_lower c then char_of (code_point c - 32) else c)"

definition upper :: "string \<Rightarrow> string" where
  "upper = map upper_char"

definition lstrip :: "string \<Rightarrow> string" where
  "lstrip = dropWhile is_space"

definition rstrip :: "(char \<Rightarrow> bool) \<Rightarrow> string \<Rightarrow> string" where
  "rstrip P s = rev (dropWhile P (rev s))"

definition strip :: "string \<Rightarrow> string" where
  "strip s = rstrip is_space (lstrip s)"

definition slice :: "string \<Rightarrow> nat \<Rightarrow> nat \<Rightarrow> string" where
  "slice s i j = take (j - i) (drop i s)"

fun starts_with :: "string \<Rightarrow> string \<Rightarrow> bool" where
  "starts_with [] s = True"
| "starts_with (c # p) [] = False"
| "starts_with (c # p) (d # s) = (c = d \<and> starts_with p s)"

fun contains :: "string \<Rightarrow> string \<Rightarrow> bool" where
  "contains p [] = (p = [])"
| "contains p (c # s) = (starts_with p (c # s) \<or> contains p s)"

fun join_with :: "string \<Rightarrow> string list \<Rightarrow> string" where
  "join_with sep [] = []"
| "join_with sep [w] = w"
| "join_with sep (w # v # ws) = w @ sep @ join_with sep (v # ws)"

text \<open>\<open>s.split()\<close>: maximal runs of non-space characters.\<close>

fun words_acc :: "string \<Rightarrow> string \<Rightarrow> string list" where
  "words_acc acc [] = (if acc = [] then [] else [rev acc])"
| "words_acc acc (c # s) = (if is_space c then (if acc = [] then words_acc [] s else rev acc # words_acc [] s)
     else words_acc (c # acc) s)"

definition words :: "string \<Rightarrow> string list" where
  "words = words_acc []"

text \<open>\<open>s.replace(old, new)\<close> for a nonempty \<open>old\<close>.\<close>

function replace_all :: "string \<Rightarrow> string \<Rightarrow> string \<Rightarrow> string" where
  "replace_all old new s = (case s of [] \<Rightarrow> []
     | c # t \<Rightarrow> if old \<noteq> [] \<and> starts_with old s then new @ replace_all old new (drop (length old) s)
                else c # replace_all old new t)"
  by pat_completeness auto
termination by (relation "measure (\<lambda>(old, new, s). length s)") auto

declare replace_all.simps [simp del]

lemma starts_with_iff: "starts_with p s \<longleftrightarrow> (\<exists>r. s = p @ r)"
  by (induction p s rule: starts_with.induct) auto

lemma contains_iff: "contains p s \<longleftrightarrow> (\<exists>a b. s = a @ p @ b)"
proof (induction s)
  case Nil
  then show ?case by auto
next
  case (Cons c s)
  have "(\<exists>a b. c # s = a @ p @ b) \<longleftrightarrow> (\<exists>b. c # s = p @ b) \<or> (\<exists>a b. s = a @ p @ b)"
  proof
    assume "\<exists>a b. c # s = a @ p @ b"
    then obtain a b where "c # s = a @ p @ b" by blast
    then show "(\<exists>b. c # s = p @ b) \<or> (\<exists>a b. s = a @ p @ b)" by (cases a) auto
  qed (metis append_Cons append_Nil)
  then show ?case by (simp add: Cons starts_with_iff)
qed

lemma length_slice [simp]: "length (slice s i j) = min (j - i) (length s - i)"
  by (simp add: slice_def)

lemma set_dropWhile_subset: "set (dropWhile P s) \<subseteq> set s"
  by (meson set_dropWhileD subsetI)

lemma set_strip: "set (strip s) \<subseteq> set s"
  unfolding strip_def rstrip_def lstrip_def set_rev
  by (rule order_trans [OF set_dropWhile_subset]) (simp add: set_dropWhile_subset)

lemma length_strip: "length (strip s) \<le> length s"
  unfolding strip_def rstrip_def lstrip_def
  by (metis length_dropWhile_le length_rev order_trans)

section \<open>Patterns and their matches\<close>

text \<open>\<open>Anchor\<close> is an assertion on the text before (reversed) and after the position.\<close>

datatype pattern = Empty | Sym "char \<Rightarrow> bool" | Cat pattern pattern | Alt pattern pattern
  | Star pattern | Anchor "string \<Rightarrow> string \<Rightarrow> bool" | Capture nat pattern

type_synonym captures = "(nat \<times> string) list"
type_synonym run = "string \<times> string \<times> captures"

text \<open>
  Greedy repetition: one more iteration first, an iteration that consumes nothing is not repeated.
  The number is the length of the remaining text, which bounds the iterations.
\<close>

fun repeat_runs :: "(run \<Rightarrow> run list) \<Rightarrow> nat \<Rightarrow> run \<Rightarrow> run list" where
  "repeat_runs f 0 s = [s]"
| "repeat_runs f (Suc n) s =
     concat (map (\<lambda>t. if length (fst (snd t)) < length (fst (snd s)) then repeat_runs f n t else []) (f s)) @ [s]"

primrec runs :: "pattern \<Rightarrow> run \<Rightarrow> run list" where
  "runs Empty = (\<lambda>s. [s])"
| "runs (Sym P) = (\<lambda>(b, a, c). case a of [] \<Rightarrow> [] | x # a' \<Rightarrow> if P x then [(x # b, a', c)] else [])"
| "runs (Cat p q) = (\<lambda>s. concat (map (runs q) (runs p s)))"
| "runs (Alt p q) = (\<lambda>s. runs p s @ runs q s)"
| "runs (Star p) = (\<lambda>s. repeat_runs (runs p) (length (fst (snd s))) s)"
| "runs (Anchor P) = (\<lambda>(b, a, c). if P b a then [(b, a, c)] else [])"
| "runs (Capture n p) = (\<lambda>(b, a, c). map (\<lambda>(b', a', c').
     (b', a', (n, take (length a - length a') a) # c')) (runs p (b, a, c)))"

text \<open>A run only moves the position to the right.\<close>

definition advances :: "run \<Rightarrow> run \<Rightarrow> bool" where
  "advances s t \<longleftrightarrow> (\<exists>u. fst (snd s) = u @ fst (snd t) \<and> fst t = rev u @ fst s)"

lemma advances_refl [simp]: "advances s s"
  by (simp add: advances_def)

lemma advances_trans [trans]: "advances s t \<Longrightarrow> advances t u \<Longrightarrow> advances s u"
  by (force simp: advances_def)

lemma repeat_runs_advances:
  assumes "\<And>s t. t \<in> set (f s) \<Longrightarrow> advances s t"
  shows "t \<in> set (repeat_runs f n s) \<Longrightarrow> advances s t"
proof (induction n arbitrary: s)
  case (Suc n)
  then show ?case by (auto split: if_splits intro: advances_trans assms)
qed simp

lemma runs_advance: "t \<in> set (runs p s) \<Longrightarrow> advances s t"
proof (induction p arbitrary: s t)
  case (Sym P)
  then show ?case by (auto simp: advances_def split: prod.splits list.splits if_splits)
next
  case (Cat p q)
  from Cat.prems obtain r where "r \<in> set (runs p s)" "t \<in> set (runs q r)" by auto
  then show ?case using Cat.IH advances_trans by blast
next
  case (Star p)
  show ?case using Star.prems repeat_runs_advances [of "runs p", OF Star.IH] by simp
next
  case (Anchor P)
  then show ?case by (auto split: prod.splits if_splits)
next
  case (Capture n p)
  obtain b a c where s: "s = (b, a, c)" by (cases s)
  with Capture.prems obtain r where "r \<in> set (runs p s)" "fst t = fst r" "fst (snd t) = fst (snd r)" by auto
  then show ?case using Capture.IH by (fastforce simp: advances_def)
qed auto

text \<open>The bound on the iterations is no restriction: the matches of a repetition are all chains.\<close>

lemma repeat_runs_complete:
  assumes "rtranclp (\<lambda>s t. t \<in> set (f s) \<and> length (fst (snd t)) < length (fst (snd s))) s t"
    and "length (fst (snd s)) \<le> n"
  shows "t \<in> set (repeat_runs f n s)"
  using assms
proof (induction arbitrary: n rule: converse_rtranclp_induct)
  case base
  then show ?case by (cases n) auto
next
  case (step y z)
  then obtain m where n: "n = Suc m" by (cases n) auto
  have "t \<in> set (repeat_runs f m z)" using step.IH step.hyps(1) step.prems n by simp
  then show ?case using step.hyps(1) n by auto
qed

section \<open>Searching\<close>

definition first_run :: "pattern \<Rightarrow> bool \<Rightarrow> string \<Rightarrow> string \<Rightarrow> run option" where
  "first_run p progress b a =
     find (\<lambda>t. progress \<longrightarrow> length (fst (snd t)) < length a) (runs p (b, a, []))"

text \<open>A match object: start, end and groups.\<close>

type_synonym found = "nat \<times> nat \<times> captures"

definition m_start :: "found \<Rightarrow> nat" where "m_start m = fst m"
definition m_end :: "found \<Rightarrow> nat" where "m_end m = fst (snd m)"
definition m_group :: "found \<Rightarrow> nat \<Rightarrow> string" where
  "m_group m n = (case map_of (snd (snd m)) n of None \<Rightarrow> [] | Some s \<Rightarrow> s)"

lemma find_SomeD: "find P xs = Some x \<Longrightarrow> x \<in> set xs \<and> P x"
  by (induction xs) (auto split: if_splits)

lemma first_run_Some:
  assumes "first_run p progress b a = Some (b', a', c)"
  shows "(b', a', c) \<in> set (runs p (b, a, []))" "length a' \<le> length a" "rev b' @ a' = rev b @ a"
    "progress \<Longrightarrow> length a' < length a" "length b' = length b + (length a - length a')"
proof -
  have f: "(b', a', c) \<in> set (runs p (b, a, [])) \<and> (progress \<longrightarrow> length a' < length a)"
    using find_SomeD [OF assms [unfolded first_run_def]] by simp
  then obtain u where "a = u @ a'" "b' = rev u @ b"
    using runs_advance [of "(b', a', c)" p "(b, a, [])"] by (auto simp: advances_def)
  then show "(b', a', c) \<in> set (runs p (b, a, []))" "length a' \<le> length a" "rev b' @ a' = rev b @ a"
    "progress \<Longrightarrow> length a' < length a" "length b' = length b + (length a - length a')"
    using f by auto
qed

text \<open>
  The scanner of \<open>finditer\<close>: from the end of a match, where a match must not be empty if the
  last one was.
\<close>

function scan :: "pattern \<Rightarrow> bool \<Rightarrow> string \<Rightarrow> string \<Rightarrow> found list" where
  "scan p progress b a =
    (case first_run p progress b a of
       Some (b', a', c) \<Rightarrow> (length b, length b', c) # scan p (length a' = length a) b' a'
     | None \<Rightarrow> (case a of [] \<Rightarrow> [] | x # a' \<Rightarrow> scan p False (x # b) a'))"
  by pat_completeness auto
termination
proof (relation "measure (\<lambda>(p, progress, b, a). 2 * length a + (if progress then 0 else 1))", goal_cases)
  case (3 p progress b a t b' y a' c)
  then have "length a' \<le> length a" "progress \<Longrightarrow> length a' < length a"
    using first_run_Some(2,4) by auto
  then show ?case by (cases "length a' = length a") auto
qed auto

declare scan.simps [simp del]

definition re_finditer :: "pattern \<Rightarrow> string \<Rightarrow> found list" where
  "re_finditer p s = scan p False [] s"

text \<open>\<open>pattern.search(s, pos)\<close>, \<open>match\<close> and \<open>fullmatch\<close>.\<close>

fun search_from :: "pattern \<Rightarrow> string \<Rightarrow> string \<Rightarrow> found option" where
  "search_from p b [] = map_option (\<lambda>(b', a', c). (length b, length b', c)) (first_run p False b [])"
| "search_from p b (x # a) = (case first_run p False b (x # a) of
     Some (b', a', c) \<Rightarrow> Some (length b, length b', c)
   | None \<Rightarrow> search_from p (x # b) a)"

definition re_search :: "pattern \<Rightarrow> string \<Rightarrow> nat \<Rightarrow> found option" where
  "re_search p s pos = search_from p (rev (take pos s)) (drop pos s)"

definition re_found :: "pattern \<Rightarrow> string \<Rightarrow> bool" where
  "re_found p s = (re_search p s 0 \<noteq> None)"

definition re_match :: "pattern \<Rightarrow> string \<Rightarrow> found option" where
  "re_match p s = map_option (\<lambda>(b', a', c). (0, length b', c)) (first_run p False [] s)"

definition re_fullmatch :: "pattern \<Rightarrow> string \<Rightarrow> found option" where
  "re_fullmatch p s = map_option (\<lambda>(b', a', c). (0, length b', c))
     (find (\<lambda>t. fst (snd t) = []) (runs p ([], s, [])))"

fun split_at_matches :: "string \<Rightarrow> nat \<Rightarrow> found list \<Rightarrow> string list" where
  "split_at_matches s i [] = [drop i s]"
| "split_at_matches s i (m # ms) = slice s i (m_start m) # split_at_matches s (m_end m) ms"

definition re_split :: "pattern \<Rightarrow> string \<Rightarrow> string list" where
  "re_split p s = split_at_matches s 0 (re_finditer p s)"

definition re_sub :: "pattern \<Rightarrow> string \<Rightarrow> string \<Rightarrow> string" where
  "re_sub p new s = join_with new (re_split p s)"

definition matched :: "string \<Rightarrow> found \<Rightarrow> string" where
  "matched s m = slice s (m_start m) (m_end m)"

definition re_findall :: "pattern \<Rightarrow> string \<Rightarrow> string list" where
  "re_findall p s = map (matched s) (re_finditer p s)"

section \<open>What a match guarantees\<close>

text \<open>Every match of the scanner is a run of the pattern from a split of the text.\<close>

definition run_in :: "pattern \<Rightarrow> string \<Rightarrow> found \<Rightarrow> bool" where
  "run_in p s m \<longleftrightarrow> (\<exists>b a b' a'. rev b @ a = s \<and> rev b' @ a' = s \<and> m_start m = length b \<and>
     m_end m = length b' \<and> (b', a', snd (snd m)) \<in> set (runs p (b, a, [])))"

lemma scan_run_in: "m \<in> set (scan p progress b a) \<Longrightarrow> run_in p (rev b @ a) m \<and> length b \<le> m_start m"
proof (induction p progress b a rule: scan.induct)
  case (1 p progress b a)
  show ?case
  proof (cases "first_run p progress b a")
    case None
    then obtain x a' where a: "a = x # a'" and m: "m \<in> set (scan p False (x # b) a')"
      using "1.prems" unfolding scan.simps [of p progress b a] by (auto split: list.splits)
    show ?thesis using "1.IH"(1) [OF None a m] a by simp
  next
    case (Some t)
    obtain b' a' c where t: "t = (b', a', c)" by (cases t)
    note r = first_run_Some [OF Some [unfolded t]]
    have "m = (length b, length b', c) \<or> m \<in> set (scan p (length a' = length a) b' a')"
      using "1.prems" Some t unfolding scan.simps [of p progress b a] by auto
    then show ?thesis
    proof
      assume "m = (length b, length b', c)"
      then show ?thesis using r unfolding run_in_def m_start_def m_end_def
        by (intro conjI exI [of _ b] exI [of _ a] exI [of _ b'] exI [of _ a']) auto
    next
      assume "m \<in> set (scan p (length a' = length a) b' a')"
      then show ?thesis using "1.IH"(2) [OF Some, of b' "(a', c)" a' c] t r by auto
    qed
  qed
qed

lemma re_finditer_run_in: "m \<in> set (re_finditer p s) \<Longrightarrow> run_in p s m"
  using scan_run_in [of m p False "[]" s] by (simp add: re_finditer_def)

lemma search_from_run_in: "search_from p b a = Some m \<Longrightarrow> run_in p (rev b @ a) m \<and> length b \<le> m_start m"
proof (induction p b a rule: search_from.induct)
  case (1 p b)
  then obtain b' a' c where f: "first_run p False b [] = Some (b', a', c)" and m: "m = (length b, length b', c)" by auto
  note r = first_run_Some [OF f]
  show ?case unfolding run_in_def m m_start_def m_end_def using r
    by (intro conjI exI [of _ b] exI [of _ "[]"] exI [of _ b'] exI [of _ a']) auto
next
  case (2 p b x a)
  show ?case
  proof (cases "first_run p False b (x # a)")
    case None
    then show ?thesis using 2 by simp
  next
    case (Some t)
    obtain b' a' c where t: "t = (b', a', c)" by (cases t)
    note r = first_run_Some [OF Some [unfolded t]]
    have "m = (length b, length b', c)" using "2.prems" Some t by simp
    then show ?thesis using r unfolding run_in_def m_start_def m_end_def
      by (intro conjI exI [of _ b] exI [of _ "x # a"] exI [of _ b'] exI [of _ a']) auto
  qed
qed

lemma run_in_bounds:
  assumes "run_in p s m"
  shows "m_start m \<le> m_end m \<and> m_end m \<le> length s"
proof -
  obtain b a b' a' where r: "rev b @ a = s" "rev b' @ a' = s" "m_start m = length b" "m_end m = length b'"
    "(b', a', snd (snd m)) \<in> set (runs p (b, a, []))"
    using assms by (auto simp: run_in_def)
  have "length b \<le> length b'" using runs_advance [OF r(5)] by (auto simp: advances_def)
  moreover have "length b' \<le> length s" by (simp flip: r(2))
  ultimately show ?thesis using r(3,4) by simp
qed

lemma re_search_bounds:
  assumes "re_search p s pos = Some m" "pos \<le> length s"
  shows "pos \<le> m_start m" "m_start m \<le> m_end m" "m_end m \<le> length s" "run_in p s m"
  using search_from_run_in [OF assms(1) [unfolded re_search_def]] assms(2) run_in_bounds [of p s m]
  by auto

text \<open>Matches do not overlap and come in text order.\<close>

lemma scan_sorted: "sorted_wrt (\<lambda>m n. m_end m \<le> m_start n) (scan p progress b a)"
proof (induction p progress b a rule: scan.induct)
  case (1 p progress b a)
  show ?case
  proof (cases "first_run p progress b a")
    case None
    then show ?thesis using 1 by (subst scan.simps) (auto split: list.splits)
  next
    case (Some t)
    obtain b' a' c where t: "t = (b', a', c)" by (cases t)
    have "\<forall>n\<in>set (scan p (length a' = length a) b' a'). length b' \<le> m_start n"
      using scan_run_in by blast
    then show ?thesis using 1 Some t by (subst scan.simps) (auto simp: m_end_def)
  qed
qed

lemma re_finditer_sorted: "sorted_wrt (\<lambda>m n. m_end m \<le> m_start n) (re_finditer p s)"
  by (simp add: re_finditer_def scan_sorted)

section \<open>Common patterns\<close>

definition opt :: "pattern \<Rightarrow> pattern" where "opt p = Alt p Empty"
definition plus :: "pattern \<Rightarrow> pattern" where "plus p = Cat p (Star p)"

fun cats :: "pattern list \<Rightarrow> pattern" where
  "cats [] = Empty" | "cats [p] = p" | "cats (p # q # ps) = Cat p (cats (q # ps))"

fun alts :: "pattern list \<Rightarrow> pattern" where
  "alts [] = Sym (\<lambda>_. False)" | "alts [p] = p" | "alts (p # q # ps) = Alt p (alts (q # ps))"

definition chr :: "char \<Rightarrow> pattern" where "chr c = Sym (\<lambda>d. d = c)"
definition chr_i :: "char \<Rightarrow> pattern" where "chr_i c = Sym (\<lambda>d. lower_char d = lower_char c)"
definition lit :: "string \<Rightarrow> pattern" where "lit s = cats (map chr s)"
definition lit_i :: "string \<Rightarrow> pattern" where "lit_i s = cats (map chr_i s)"
definition any_of :: "string \<Rightarrow> pattern" where "any_of cs = Sym (\<lambda>d. d \<in> set cs)"

definition spaces0 :: pattern where "spaces0 = Star (Sym is_space)"
definition spaces1 :: pattern where "spaces1 = plus (Sym is_space)"

text \<open>Words separated by \<open>\s+\<close>, ignoring case.\<close>

definition phrase_i :: "string \<Rightarrow> pattern" where
  "phrase_i s = cats (case map lit_i (words s) of [] \<Rightarrow> [] | p # ps \<Rightarrow> p # concat (map (\<lambda>q. [spaces1, q]) ps))"

definition word_before :: "string \<Rightarrow> bool" where
  "word_before b = (case b of [] \<Rightarrow> False | c # _ \<Rightarrow> is_word c)"

definition not_in_word_before :: pattern where "not_in_word_before = Anchor (\<lambda>b a. \<not> word_before b)"
definition not_in_word_after :: pattern where "not_in_word_after = Anchor (\<lambda>b a. \<not> word_before a)"
definition word_boundary :: pattern where "word_boundary = Anchor (\<lambda>b a. word_before b \<noteq> word_before a)"
definition line_start :: pattern where "line_start = Anchor (\<lambda>b a. b = [] \<or> hd b = newline)"
definition line_end :: pattern where "line_end = Anchor (\<lambda>b a. a = [] \<or> hd a = newline)"
definition text_start :: pattern where "text_start = Anchor (\<lambda>b a. b = [])"
definition text_end :: pattern where "text_end = Anchor (\<lambda>b a. a = [] \<or> a = [newline])"

text \<open>\<open>(?<!\w)p(?!\w)\<close> and \<open>\b(?:...)\b\<close>.\<close>

definition isolated :: "pattern \<Rightarrow> pattern" where
  "isolated p = Cat not_in_word_before (Cat p not_in_word_after)"

definition bounded_word :: "string list \<Rightarrow> pattern" where
  "bounded_word ws = cats [word_boundary, alts (map phrase_i ws), word_boundary]"

lemma isolated_match:
  assumes "run_in (isolated p) s m"
  shows "m_start m = 0 \<or> \<not> is_word (s ! (m_start m - 1))" "m_end m = length s \<or> \<not> is_word (s ! m_end m)"
proof -
  obtain b a b' a' where r: "rev b @ a = s" "rev b' @ a' = s" "m_start m = length b" "m_end m = length b'"
    "(b', a', snd (snd m)) \<in> set (runs (isolated p) (b, a, []))"
    using assms by (auto simp: run_in_def)
  then have n: "\<not> word_before b" "\<not> word_before a'"
    by (auto simp: isolated_def not_in_word_before_def not_in_word_after_def split: if_splits)
  show "m_start m = 0 \<or> \<not> is_word (s ! (m_start m - 1))"
    using n(1) unfolding r(1) [symmetric] r(3) by (cases b) (simp_all add: word_before_def nth_append)
  show "m_end m = length s \<or> \<not> is_word (s ! m_end m)"
    using n(2) unfolding r(2) [symmetric] r(4) by (cases a') (simp_all add: word_before_def nth_append)
qed

lemma slice_run:
  assumes "run_in p s m"
  shows "\<exists>b a b' a'. (b', a', snd (snd m)) \<in> set (runs p (b, a, [])) \<and> b' = rev (matched s m) @ b \<and>
    a = matched s m @ a' \<and> s = rev b @ a"
proof -
  obtain b a b' a' where r: "rev b @ a = s" "rev b' @ a' = s" "m_start m = length b" "m_end m = length b'"
    "(b', a', snd (snd m)) \<in> set (runs p (b, a, []))"
    using assms by (auto simp: run_in_def)
  obtain u where u: "a = u @ a'" "b' = rev u @ b" using runs_advance [OF r(5)] by (auto simp: advances_def)
  have "matched s m = u" using r(3,4) u by (simp add: matched_def slice_def flip: r(1))
  then show ?thesis using r u
    by (intro exI [of _ b] exI [of _ a] exI [of _ b'] exI [of _ a']) simp
qed

end
