(* ===== verification/Candidate_Rules.thy ===== *)
theory Candidate_Rules
  imports Patterns
begin

text \<open>
  \<open>app/stage1_rules/contracts.py\<close>: the facts about a candidate with their provenance, and the hard
  filter rules with their JSON form. A value that pydantic rejects is an \<open>Inl (ValueError ...)\<close>.
\<close>

section \<open>Facts and their sources\<close>

datatype authorization_status = ELIGIBLE | INELIGIBLE | AUTH_UNKNOWN

fun authorization_value :: "authorization_status \<Rightarrow> string" where
  "authorization_value ELIGIBLE = ''eligible''"
| "authorization_value INELIGIBLE = ''ineligible''"
| "authorization_value AUTH_UNKNOWN = ''unknown''"

datatype attribute_source = RECRUITER_VERIFIED | CV_EXTRACTED | SOURCE_UNKNOWN

fun source_value :: "attribute_source \<Rightarrow> string" where
  "source_value RECRUITER_VERIFIED = ''recruiter_verified''"
| "source_value CV_EXTRACTED = ''cv_extracted''"
| "source_value SOURCE_UNKNOWN = ''unknown''"

fun numeric_years :: "json \<Rightarrow> rat result" where
  "numeric_years (JNum x) = (if 0 \<le> x then Inr x else Inl (ValueError ''Input should be greater than or equal to 0''))"
| "numeric_years JNonFinite = Inl (ValueError ''Input should be a finite number'')"
| "numeric_years _ = Inl (ValueError ''Experience must be a number, not a string or boolean'')"

fun normalize_authorization :: "json \<Rightarrow> authorization_status result" where
  "normalize_authorization (JBool True) = Inr ELIGIBLE"
| "normalize_authorization (JBool False) = Inr INELIGIBLE"
| "normalize_authorization JNull = Inr AUTH_UNKNOWN"
| "normalize_authorization (JStr s) = (case find (\<lambda>a. authorization_value a = s) [ELIGIBLE, INELIGIBLE, AUTH_UNKNOWN] of
     Some a \<Rightarrow> Inr a | None \<Rightarrow> Inl (ValueError ''Invalid authorization''))"
| "normalize_authorization _ = Inl (ValueError ''Invalid authorization'')"

section \<open>Degrees\<close>

definition DEGREE_HIERARCHY :: "(string \<times> nat) list" where
  "DEGREE_HIERARCHY = [(''NONE'', 0), (''SEE'', 1), (''SLC'', 1), (''SECONDARY'', 1), (''10TH'', 1), (''HIGH SCHOOL'', 1),
     (''+2'', 2), (''INTERMEDIATE'', 2), (''HIGHER SECONDARY'', 2), (''A-LEVELS'', 2), (''A LEVEL'', 2), (''12TH'', 2),
     (''DIPLOMA'', 3),
     (''BACHELOR'', 4), (''B.E'', 4), (''B.SC'', 4), (''BCA'', 4), (''BIT'', 4), (''BBA'', 4), (''BIM'', 4),
     (''B.TECH'', 4), (''B.S'', 4), (''BSC'', 4), (''BE'', 4), (''BTECH'', 4), (''BS'', 4),
     (''MASTER'', 5), (''M.E'', 5), (''M.SC'', 5), (''MCA'', 5), (''M.TECH'', 5), (''MBA'', 5),
     (''M.S'', 5), (''MSC'', 5), (''ME'', 5), (''MTECH'', 5), (''MS'', 5),
     (''PHD'', 6), (''DOCTORATE'', 6)]"

definition degree_spellings :: "(string \<times> string) list" where
  "degree_spellings = [(''BACHELOR'' @ [CHR 0x27] @ ''S'', ''BACHELOR''), (''BACHELORS'', ''BACHELOR''),
     (''MASTER'' @ [CHR 0x27] @ ''S'', ''MASTER''), (''MASTERS'', ''MASTER''), (''PH.D'', ''PHD'')]"

definition normalize_degree :: "json \<Rightarrow> string result" where
  "normalize_degree value = (case value of
     JStr s \<Rightarrow>
       (let v = rstrip (\<lambda>c. c = CHR ''.'') (upper (strip s));
            w = (case map_of degree_spellings v of Some u \<Rightarrow> u | None \<Rightarrow> v)
        in if w \<in> fst ` set DEGREE_HIERARCHY then Inr w else Inl (ValueError ''Unknown degree level''))
   | _ \<Rightarrow> Inl (ValueError ''Degree level must be a string''))"

definition degree_rank :: "string \<Rightarrow> nat" where
  "degree_rank level = the (map_of DEGREE_HIERARCHY level)"

record degree_requirement =
  r_level :: string
  r_level_aliases :: "string list"
  r_fields :: "string list"
  r_field_aliases :: "string list"

text \<open>A list of nonempty strings, each trimmed and not blank.\<close>

fun term_of :: "json \<Rightarrow> string result" where
  "term_of (JStr s) = (if s = [] then Inl (ValueError ''String should have at least 1 character'') else Inr s)"
| "term_of _ = Inl (ValueError ''Input should be a valid string'')"

definition nonblank_terms :: "string list \<Rightarrow> string list result" where
  "nonblank_terms terms = (if list_ex (\<lambda>t. strip t = []) terms
     then Inl (ValueError ''Blank requirement terms are not allowed'') else Inr (map strip terms))"

fun terms_of :: "json \<Rightarrow> string list result" where
  "terms_of (JList xs) = rbind (rmap term_of xs) nonblank_terms"
| "terms_of _ = Inl (ValueError ''Input should be a valid list'')"

definition coherent_requirement :: "degree_requirement \<Rightarrow> degree_requirement result" where
  "coherent_requirement r =
    (if degree_rank (r_level r) = 0 \<and> (r_fields r \<noteq> [] \<or> r_field_aliases r \<noteq> [] \<or> r_level_aliases r \<noteq> [])
     then Inl (ValueError ''Degree fields/aliases require an active degree level'')
     else rbind (rmap (\<lambda>a. rbind (normalize_degree (JStr a)) (\<lambda>level.
            if degree_rank level \<noteq> degree_rank (r_level r)
            then Inl (ValueError ''Degree aliases must have the same level as the requirement'') else Inr a))
          (r_level_aliases r)) (\<lambda>_. Inr r))"

definition degree_keys :: "string list" where
  "degree_keys = [''level'', ''level_aliases'', ''fields'', ''field_aliases'']"

definition field_or :: "pydict \<Rightarrow> string \<Rightarrow> 'a \<Rightarrow> (json \<Rightarrow> 'a result) \<Rightarrow> 'a result" where
  "field_or d k x parse = (case map_of d k of None \<Rightarrow> Inr x | Some v \<Rightarrow> parse v)"

definition forbid_extra :: "string list \<Rightarrow> pydict \<Rightarrow> unit result" where
  "forbid_extra keys d = (if list_all (\<lambda>(k, _). k \<in> set keys) d then Inr ()
     else Inl (ValueError ''Extra inputs are not permitted''))"

fun parse_degree :: "json \<Rightarrow> degree_requirement result" where
  "parse_degree (JDict d) =
     rbind (forbid_extra degree_keys d) (\<lambda>_.
     rbind (field_or d ''level'' ''NONE'' normalize_degree) (\<lambda>level.
     rbind (field_or d ''level_aliases'' [] terms_of) (\<lambda>level_aliases.
     rbind (field_or d ''fields'' [] terms_of) (\<lambda>fields.
     rbind (field_or d ''field_aliases'' [] terms_of) (\<lambda>field_aliases.
       coherent_requirement \<lparr>r_level = level, r_level_aliases = level_aliases, r_fields = fields,
         r_field_aliases = field_aliases\<rparr>)))))"
| "parse_degree _ = Inl (ValueError ''Input should be a valid dictionary'')"

section \<open>Hard filters\<close>

record hard_filters =
  min_years_experience :: rat
  degree_required :: "degree_requirement option"
  require_work_authorization :: bool

text \<open>A rule set with only the fields that were given (\<open>model_fields_set\<close>).\<close>

record filter_set =
  fs_years :: "rat option"
  fs_degree :: "degree_requirement option option"
  fs_authorization :: "bool option"

definition no_filters :: filter_set where
  "no_filters = \<lparr>fs_years = None, fs_degree = None, fs_authorization = None\<rparr>"

definition filter_keys :: "string list" where
  "filter_keys = [''min_years_experience'', ''degree_requirement'', ''require_work_authorization'']"

fun parse_optional_degree :: "json \<Rightarrow> degree_requirement option result" where
  "parse_optional_degree JNull = Inr None"
| "parse_optional_degree v = rbind (parse_degree v) (\<lambda>r. Inr (Some r))"

fun strict_bool :: "json \<Rightarrow> bool result" where
  "strict_bool (JBool b) = Inr b"
| "strict_bool _ = Inl (ValueError ''Input should be a valid boolean'')"

definition given :: "(json \<Rightarrow> 'a result) \<Rightarrow> json \<Rightarrow> 'a option result" where
  "given parse v = rbind (parse v) (\<lambda>x. Inr (Some x))"

fun parse_filters :: "json \<Rightarrow> filter_set result" where
  "parse_filters (JDict d) =
     rbind (forbid_extra filter_keys d) (\<lambda>_.
     rbind (field_or d ''min_years_experience'' None (given numeric_years)) (\<lambda>years.
     rbind (field_or d ''degree_requirement'' None (given parse_optional_degree)) (\<lambda>degree.
     rbind (field_or d ''require_work_authorization'' None (given strict_bool)) (\<lambda>auth.
       Inr \<lparr>fs_years = years, fs_degree = degree, fs_authorization = auth\<rparr>))))"
| "parse_filters _ = Inl (ValueError ''Input should be a valid dictionary'')"

definition merge_field :: "string \<Rightarrow> 'a option \<Rightarrow> 'a option \<Rightarrow> 'a option result" where
  "merge_field key old new = (case (old, new) of
     (Some x, Some y) \<Rightarrow> if x \<noteq> y then Inl (ValueError (''Conflicting hard filter: '' @ key)) else Inr (Some y)
   | (_, Some y) \<Rightarrow> Inr (Some y) | (_, None) \<Rightarrow> Inr old)"

definition merge_filters :: "filter_set \<Rightarrow> filter_set \<Rightarrow> filter_set result" where
  "merge_filters f g =
     rbind (merge_field ''min_years_experience'' (fs_years f) (fs_years g)) (\<lambda>years.
     rbind (merge_field ''degree_requirement'' (fs_degree f) (fs_degree g)) (\<lambda>degree.
     rbind (merge_field ''require_work_authorization'' (fs_authorization f) (fs_authorization g)) (\<lambda>auth.
       Inr \<lparr>fs_years = years, fs_degree = degree, fs_authorization = auth\<rparr>)))"

definition merge_source :: "json \<Rightarrow> filter_set \<Rightarrow> filter_set result" where
  "merge_source source f = (if source = JNull then Inr f
     else rbind (parse_filters source) (merge_filters f))"

definition with_defaults :: "filter_set \<Rightarrow> hard_filters" where
  "with_defaults f = \<lparr>min_years_experience = (case fs_years f of None \<Rightarrow> 0 | Some x \<Rightarrow> x),
     degree_required = (case fs_degree f of None \<Rightarrow> None | Some r \<Rightarrow> r),
     require_work_authorization = (case fs_authorization f of None \<Rightarrow> True | Some b \<Rightarrow> b)\<rparr>"

definition profile_metadata :: "string list" where
  "profile_metadata = [''job_id'', ''title'', ''job_title'', ''jd_category_queries'', ''must_have_skills'',
     ''nice_to_have_skills'', ''min_match_threshold'', ''hard_filter_rules'', ''relevance_contract'']"

definition resolve_hard_filters :: "pydict \<Rightarrow> json \<Rightarrow> hard_filters result" where
  "resolve_hard_filters profile explicit =
     rbind (parse_filters (JDict (filter (\<lambda>(k, _). k \<notin> set profile_metadata) profile))) (\<lambda>root.
     rbind (merge_source (dget profile ''hard_filter_rules'' JNull) root) (\<lambda>merged.
     rbind (merge_source explicit merged) (\<lambda>f. Inr (with_defaults f))))"

section \<open>Candidate input\<close>

record candidate_attributes =
  a_experience_years :: "rat option"
  a_experience_source :: attribute_source
  a_work_authorized :: authorization_status
  a_authorization_source :: attribute_source
  a_degree :: "string option"

record recruiter_overrides =
  o_experience_years :: "rat option"
  o_work_authorized :: "authorization_status option"

record candidate_input =
  i_candidate_id :: string
  i_raw_cv_text :: string
  i_work_authorized :: "authorization_status option"
  i_authorization_source :: attribute_source
  i_parsed :: candidate_attributes
  i_overrides :: recruiter_overrides

text \<open>\<open>i_work_authorized\<close> is \<open>None\<close> when the field was not given.\<close>

definition given_authorization :: "candidate_input \<Rightarrow> authorization_status" where
  "given_authorization c = (case i_work_authorized c of None \<Rightarrow> AUTH_UNKNOWN | Some a \<Rightarrow> a)"

definition consistent_authorization :: "candidate_input \<Rightarrow> candidate_input result" where
  "consistent_authorization c =
    (let nested = a_work_authorized (i_parsed c); own = given_authorization c in
     if own \<noteq> AUTH_UNKNOWN \<and> nested \<noteq> AUTH_UNKNOWN \<and> own \<noteq> nested \<and> o_work_authorized (i_overrides c) = None
     then Inl (ValueError ''Conflicting authorization inputs require an explicit recruiter override'')
     else Inr c)"

record candidate_facts =
  f_experience_years :: "rat option"
  f_experience_source :: attribute_source
  f_work_authorized :: authorization_status
  f_authorization_source :: attribute_source

definition rule_facts :: "candidate_input \<Rightarrow> candidate_facts" where
  "rule_facts c =
    (let attrs = i_parsed c; overrides = i_overrides c;
         (auth, auth_source) = (case i_work_authorized c of
            None \<Rightarrow> (a_work_authorized attrs, a_authorization_source attrs)
          | Some a \<Rightarrow> (a, i_authorization_source c));
         (years, years_source) = (case o_experience_years overrides of
            Some y \<Rightarrow> (Some y, RECRUITER_VERIFIED)
          | None \<Rightarrow> (a_experience_years attrs, a_experience_source attrs));
         (auth2, auth_source2) = (case o_work_authorized overrides of
            Some a \<Rightarrow> (a, RECRUITER_VERIFIED) | None \<Rightarrow> (auth, auth_source))
     in \<lparr>f_experience_years = years, f_experience_source = years_source,
         f_work_authorized = auth2, f_authorization_source = auth_source2\<rparr>)"

section \<open>Rule sets survive their JSON form\<close>

definition dump_degree :: "degree_requirement \<Rightarrow> json" where
  "dump_degree r = JDict [(''level'', JStr (r_level r)), (''level_aliases'', JList (map JStr (r_level_aliases r))),
     (''fields'', JList (map JStr (r_fields r))), (''field_aliases'', JList (map JStr (r_field_aliases r)))]"

definition dump_filters :: "hard_filters \<Rightarrow> json" where
  "dump_filters h = JDict [(''min_years_experience'', JNum (min_years_experience h)),
     (''degree_requirement'', case degree_required h of None \<Rightarrow> JNull | Some r \<Rightarrow> dump_degree r),
     (''require_work_authorization'', JBool (require_work_authorization h))]"

definition clean_terms :: "string list \<Rightarrow> bool" where
  "clean_terms ts = list_all (\<lambda>t. t \<noteq> [] \<and> strip t = t) ts"

definition valid_degree :: "degree_requirement \<Rightarrow> bool" where
  "valid_degree r \<longleftrightarrow> r_level r \<in> fst ` set DEGREE_HIERARCHY \<and> clean_terms (r_level_aliases r) \<and>
     clean_terms (r_fields r) \<and> clean_terms (r_field_aliases r) \<and> coherent_requirement r = Inr r"

definition valid_filters :: "hard_filters \<Rightarrow> bool" where
  "valid_filters h \<longleftrightarrow> 0 \<le> min_years_experience h \<and> (\<forall>r. degree_required h = Some r \<longrightarrow> valid_degree r)"

lemma dropWhile_idem [simp]: "dropWhile P (dropWhile P s) = dropWhile P s"
  by (induction s) auto

lemma rstrip_simps [simp]: "rstrip P [] = []" "rstrip P (s @ [c]) = (if P c then rstrip P s else s @ [c])"
  by (simp_all add: rstrip_def)

lemma lstrip_rstrip: "lstrip (rstrip is_space (lstrip s)) = rstrip is_space (lstrip s)"
proof (cases "rstrip is_space (lstrip s)")
  case Nil
  then show ?thesis by (simp add: lstrip_def)
next
  case (Cons c u)
  have "\<exists>v. lstrip s = rstrip is_space (lstrip s) @ v"
    unfolding rstrip_def by (metis dropWhile_eq_drop rev_rev_ident takeWhile_dropWhile_id rev_append)
  then have "hd (lstrip s) = c" "lstrip s \<noteq> []" using Cons by (metis append_Cons list.sel(1), metis append_is_Nil_conv list.discI)
  then have "\<not> is_space c" using hd_dropWhile [of is_space s] by (simp add: lstrip_def)
  then show ?thesis using Cons by (simp add: lstrip_def)
qed

lemma strip_idem [simp]: "strip (strip s) = strip s"
  by (simp add: strip_def lstrip_rstrip) (simp add: rstrip_def)

lemma nonblank_terms_clean: "nonblank_terms ts = Inr us \<Longrightarrow> clean_terms us"
  by (auto simp: nonblank_terms_def clean_terms_def list_all_iff list_ex_iff split: if_splits dest!: sym [of "[]"])

lemma terms_of_clean: "terms_of v = Inr us \<Longrightarrow> clean_terms us"
  by (cases v) (auto simp: rbind_Inr_conv nonblank_terms_clean)

lemma terms_of_dump: "clean_terms ts \<Longrightarrow> terms_of (JList (map JStr ts)) = Inr ts"
proof -
  assume c: "clean_terms ts"
  then have "rmap term_of (map JStr ts) = Inr ts"
    by (induction ts) (auto simp: clean_terms_def)
  moreover have "nonblank_terms ts = Inr ts"
    using c by (auto simp: nonblank_terms_def clean_terms_def list_all_iff list_ex_iff map_idI)
  ultimately show ?thesis by simp
qed

lemma degree_keys_normal:
  "list_all (\<lambda>(k, n). normalize_degree (JStr k) = Inr k) DEGREE_HIERARCHY"
  by code_simp

lemma normalize_degree_key: "k \<in> fst ` set DEGREE_HIERARCHY \<Longrightarrow> normalize_degree (JStr k) = Inr k"
  using degree_keys_normal by (auto simp: list_all_iff)

lemma normalize_degree_known: "normalize_degree v = Inr k \<Longrightarrow> k \<in> fst ` set DEGREE_HIERARCHY"
  by (auto simp: normalize_degree_def Let_def split: json.splits if_splits)

lemma coherent_requirement_id: "coherent_requirement r = Inr q \<Longrightarrow> q = r"
  by (auto simp: coherent_requirement_def rbind_Inr_conv split: if_splits)

lemma field_or_cases:
  assumes "field_or d k x parse = Inr y" "P x" "\<And>v. parse v = Inr y \<Longrightarrow> P y"
  shows "P y"
  using assms by (auto simp: field_or_def split: option.splits)

lemma parse_degree_valid:
  assumes "parse_degree v = Inr r"
  shows "valid_degree r"
proof (cases v)
  case (JDict d)
  then obtain l la f fa where p: "field_or d ''level'' ''NONE'' normalize_degree = Inr l"
    "field_or d ''level_aliases'' [] terms_of = Inr la" "field_or d ''fields'' [] terms_of = Inr f"
    "field_or d ''field_aliases'' [] terms_of = Inr fa"
    and c: "coherent_requirement \<lparr>r_level = l, r_level_aliases = la, r_fields = f, r_field_aliases = fa\<rparr> = Inr r"
    using assms by (auto simp: rbind_Inr_conv)
  have "l \<in> fst ` set DEGREE_HIERARCHY"
    by (rule field_or_cases [OF p(1)]) (simp add: DEGREE_HIERARCHY_def, erule normalize_degree_known)
  moreover have "clean_terms la" "clean_terms f" "clean_terms fa"
    using field_or_cases [OF p(2), of clean_terms] field_or_cases [OF p(3), of clean_terms]
      field_or_cases [OF p(4), of clean_terms] terms_of_clean by (auto simp: clean_terms_def)
  ultimately show ?thesis using c coherent_requirement_id [OF c] by (simp add: valid_degree_def)
qed (use assms in auto)

lemma parse_degree_dump: "valid_degree r \<Longrightarrow> parse_degree (dump_degree r) = Inr r"
  by (cases r) (simp add: dump_degree_def forbid_extra_def degree_keys_def field_or_def normalize_degree_key terms_of_dump
      valid_degree_def del: terms_of.simps)

lemma numeric_years_nonneg: "numeric_years v = Inr x \<Longrightarrow> 0 \<le> x"
  by (cases v) (auto split: if_splits)

definition set_ok :: "filter_set \<Rightarrow> bool" where
  "set_ok f \<longleftrightarrow> (\<forall>x. fs_years f = Some x \<longrightarrow> 0 \<le> x) \<and> (\<forall>r. fs_degree f = Some (Some r) \<longrightarrow> valid_degree r)"

lemma parse_optional_degree_valid: "parse_optional_degree v = Inr (Some r) \<Longrightarrow> valid_degree r"
  by (cases v) (auto simp: rbind_Inr_conv simp del: parse_degree.simps dest: parse_degree_valid)

lemma parse_filters_ok: "parse_filters v = Inr f \<Longrightarrow> set_ok f"
proof (cases v)
  case (JDict d)
  assume "parse_filters v = Inr f"
  then show ?thesis using JDict
    by (auto simp: rbind_Inr_conv set_ok_def field_or_def given_def dest: numeric_years_nonneg parse_optional_degree_valid
        split: option.splits)
qed auto

lemma merge_field_Inr:
  "merge_field k a b = Inr c \<Longrightarrow> (c = a \<or> c = b) \<and> (a \<noteq> None \<longrightarrow> c = a) \<and> (b \<noteq> None \<longrightarrow> c = b)"
  by (auto simp: merge_field_def split: option.splits if_splits)

lemma merge_filters_Inr:
  assumes "merge_filters f g = Inr h"
  shows "(fs_years h = fs_years f \<or> fs_years h = fs_years g) \<and> (fs_years f \<noteq> None \<longrightarrow> fs_years h = fs_years f) \<and>
      (fs_years g \<noteq> None \<longrightarrow> fs_years h = fs_years g)"
    "(fs_degree h = fs_degree f \<or> fs_degree h = fs_degree g) \<and> (fs_degree f \<noteq> None \<longrightarrow> fs_degree h = fs_degree f) \<and>
      (fs_degree g \<noteq> None \<longrightarrow> fs_degree h = fs_degree g)"
    "(fs_authorization h = fs_authorization f \<or> fs_authorization h = fs_authorization g) \<and>
      (fs_authorization f \<noteq> None \<longrightarrow> fs_authorization h = fs_authorization f) \<and>
      (fs_authorization g \<noteq> None \<longrightarrow> fs_authorization h = fs_authorization g)"
proof -
  obtain y d a where "merge_field ''min_years_experience'' (fs_years f) (fs_years g) = Inr y"
    "merge_field ''degree_requirement'' (fs_degree f) (fs_degree g) = Inr d"
    "merge_field ''require_work_authorization'' (fs_authorization f) (fs_authorization g) = Inr a"
    "h = \<lparr>fs_years = y, fs_degree = d, fs_authorization = a\<rparr>"
    using assms by (auto simp: merge_filters_def rbind_Inr_conv)
  note m = merge_field_Inr [OF this(1)] merge_field_Inr [OF this(2)] merge_field_Inr [OF this(3)] this(4)
  show "(fs_years h = fs_years f \<or> fs_years h = fs_years g) \<and> (fs_years f \<noteq> None \<longrightarrow> fs_years h = fs_years f) \<and>
      (fs_years g \<noteq> None \<longrightarrow> fs_years h = fs_years g)"
    using m(1,4) by simp
  show "(fs_degree h = fs_degree f \<or> fs_degree h = fs_degree g) \<and> (fs_degree f \<noteq> None \<longrightarrow> fs_degree h = fs_degree f) \<and>
      (fs_degree g \<noteq> None \<longrightarrow> fs_degree h = fs_degree g)"
    using m(2,4) by simp
  show "(fs_authorization h = fs_authorization f \<or> fs_authorization h = fs_authorization g) \<and>
      (fs_authorization f \<noteq> None \<longrightarrow> fs_authorization h = fs_authorization f) \<and>
      (fs_authorization g \<noteq> None \<longrightarrow> fs_authorization h = fs_authorization g)"
    using m(3,4) by simp
qed

text \<open>\<open>g\<close> says nothing else than \<open>h\<close>: what it sets, \<open>h\<close> has.\<close>

definition carries :: "filter_set \<Rightarrow> filter_set \<Rightarrow> bool" where
  "carries h g \<longleftrightarrow> (fs_years g \<noteq> None \<longrightarrow> fs_years h = fs_years g) \<and>
     (fs_degree g \<noteq> None \<longrightarrow> fs_degree h = fs_degree g) \<and>
     (fs_authorization g \<noteq> None \<longrightarrow> fs_authorization h = fs_authorization g)"

lemma merge_filters_carries: "merge_filters f g = Inr h \<Longrightarrow> carries h f \<and> carries h g"
  using merge_filters_Inr [of f g h] by (simp add: carries_def)

lemma carries_trans: "carries h g \<Longrightarrow> carries g f \<Longrightarrow> carries h f"
  by (auto simp: carries_def)

lemma merge_filters_ok:
  assumes "merge_filters f g = Inr h" "set_ok f" "set_ok g"
  shows "set_ok h"
  using merge_filters_Inr(1,2) [OF assms(1)] assms(2,3) by (fastforce simp: set_ok_def)

lemma merge_source_ok: "merge_source v f = Inr g \<Longrightarrow> set_ok f \<Longrightarrow> set_ok g"
  by (auto simp: merge_source_def rbind_Inr_conv split: if_splits intro: merge_filters_ok parse_filters_ok)

lemma merge_source_carries:
  assumes "merge_source v f = Inr g"
  shows "carries g f" "v \<noteq> JNull \<Longrightarrow> parse_filters v = Inr p \<Longrightarrow> carries g p"
  using assms merge_filters_carries [of f _ g]
  by (auto simp: merge_source_def rbind_Inr_conv carries_def split: if_splits)

lemma resolve_valid: "resolve_hard_filters profile explicit = Inr h \<Longrightarrow> valid_filters h"
  unfolding resolve_hard_filters_def rbind_Inr_conv
  by (elim exE conjE, drule parse_filters_ok, drule (1) merge_source_ok, drule (1) merge_source_ok)
    (auto simp: set_ok_def valid_filters_def with_defaults_def split: option.splits)

lemma parse_filters_dump:
  assumes "valid_filters h"
  shows "parse_filters (dump_filters h) = Inr \<lparr>fs_years = Some (min_years_experience h),
    fs_degree = Some (degree_required h), fs_authorization = Some (require_work_authorization h)\<rparr>"
proof -
  have d: "parse_optional_degree (case degree_required h of None \<Rightarrow> JNull | Some r \<Rightarrow> dump_degree r) = Inr (degree_required h)"
  proof (cases "degree_required h")
    case (Some r)
    then have "parse_degree (dump_degree r) = Inr r" using assms parse_degree_dump by (simp add: valid_filters_def)
    then show ?thesis using Some by (simp add: dump_degree_def)
  qed simp
  show ?thesis using assms d
    by (simp add: dump_filters_def forbid_extra_def filter_keys_def field_or_def given_def valid_filters_def)
qed

end
