(* ===== verification/Skill_Terms.thy ===== *)
theory Skill_Terms
  imports Patterns Candidate_Rules
begin

text \<open>
  \<open>app/stage1_rules/jd_matcher.py\<close> and \<open>jd_profiler.py\<close>: the pattern of a skill term, identity
  aliases, the evidence for a required skill, the match of a CV against active JDs, the validation
  of skill clusters and the envelope of a JD text in a prompt.
\<close>

section \<open>Terms and identity aliases\<close>

definition IDENTITY_ALIASES :: "string list list" where
  "IDENTITY_ALIASES = [
     [''JavaScript'', ''Java Script'', ''JS''],
     [''TypeScript'', ''Type Script'', ''TS''],
     [''Kubernetes'', ''K8s''],
     [''PostgreSQL'', ''Postgres''],
     [''Node.js'', ''NodeJS'', ''Node JS''],
     [''React.js'', ''ReactJS'', ''React''],
     [''C#'', ''C Sharp'', ''CSharp''],
     [''C++'', ''CPP'', ''C Plus Plus''],
     [''.NET'', ''dotnet'', ''dot net''],
     [''Amazon Web Services'', ''AWS''],
     [''Google Cloud Platform'', ''GCP''],
     [''REST API'', ''REST APIs'', ''RESTful API'', ''RESTful APIs''],
     [''Apache Spark'', ''Spark''],
     [''ETL'', ''extract-transform-load'', ''extract transform load'']]"

definition term_separator :: pattern where
  "term_separator = Sym (\<lambda>c. is_space c \<or> c \<in> set ''._-'')"

definition term_parts :: "string \<Rightarrow> string list" where
  "term_parts s = re_split (plus term_separator) s"

fun separated_by :: "pattern \<Rightarrow> pattern list \<Rightarrow> pattern list" where
  "separated_by sep [] = []"
| "separated_by sep [p] = [p]"
| "separated_by sep (p # q # ps) = p # sep # separated_by sep (q # ps)"

definition term_pattern :: "string \<Rightarrow> pattern" where
  "term_pattern t =
    (let normalized = strip t;
         leading = (if starts_with ''.'' normalized then ''.'' else [])
     in isolated (Cat (lit leading)
          (cats (separated_by (Star term_separator) (map lit_i (term_parts (drop (length leading) normalized)))))))"

definition identity_terms :: "string list \<Rightarrow> string list" where
  "identity_terms terms = dict_fromkeys (terms @ concat (filter
     (\<lambda>group. list_ex (\<lambda>t. lower t \<in> set (map lower group)) terms) IDENTITY_ALIASES))"

section \<open>Evidence for a required skill\<close>

record skill_cluster =
  s_canonical :: string
  s_aliases :: "string list"
  s_substitutes :: "string list"

record skill_evidence =
  e_matched_term :: "string option"
  e_excerpt :: "string option"
  e_weight :: rat
  e_negated :: bool

definition negation_pattern :: pattern where
  "negation_pattern = bounded_word [''no'', ''not'', ''without'', ''lack'', ''lacking'', ''never'']"

definition not_only_pattern :: pattern where
  "not_only_pattern = cats [word_boundary, lit_i ''not'', spaces1, lit_i ''only'', word_boundary]"

text \<open>The clause before a mention, at most 80 characters of it.\<close>

definition clause_before :: "string \<Rightarrow> nat \<Rightarrow> string" where
  "clause_before s i = last (re_split (any_of (''.!?'' @ [newline])) (slice s (i - 80) i))"

definition negated_mention :: "string \<Rightarrow> found \<Rightarrow> bool" where
  "negated_mention s m = re_found negation_pattern (re_sub not_only_pattern [] (clause_before s (m_start m)))"

definition mention :: "string \<Rightarrow> string \<Rightarrow> rat \<Rightarrow> found \<Rightarrow> skill_evidence" where
  "mention s term weight m =
    (let e = \<lparr>e_matched_term = Some term, e_excerpt = Some (slice s (m_start m - 80) (m_end m + 80)),
              e_weight = weight, e_negated = False\<rparr>
     in if negated_mention s m then e\<lparr>e_weight := 0, e_negated := True\<rparr> else e)"

definition no_evidence :: skill_evidence where
  "no_evidence = \<lparr>e_matched_term = None, e_excerpt = None, e_weight = 0, e_negated = False\<rparr>"

text \<open>The loops over the terms and their matches: the first positive mention, or the last negated one.\<close>

fun first_mention :: "skill_evidence option \<Rightarrow> skill_evidence list \<Rightarrow> skill_evidence" where
  "first_mention uncertain [] = (case uncertain of None \<Rightarrow> no_evidence | Some e \<Rightarrow> e)"
| "first_mention uncertain (e # es) = (if e_negated e then first_mention (Some e) es else e)"

definition term_mentions :: "string \<Rightarrow> string list \<times> rat \<Rightarrow> skill_evidence list" where
  "term_mentions s = (\<lambda>(terms, weight).
     concat (map (\<lambda>t. map (mention s t weight) (re_finditer (term_pattern t) s)) terms))"

definition skill_term_groups :: "skill_cluster \<Rightarrow> (string list \<times> rat) list" where
  "skill_term_groups c = [(identity_terms (s_canonical c # s_aliases c), 1), (identity_terms (s_substitutes c), 3 / 4)]"

definition required_skill_evidence :: "string \<Rightarrow> skill_cluster \<Rightarrow> skill_evidence" where
  "required_skill_evidence s c = first_mention None (concat (map (term_mentions s) (skill_term_groups c)))"

definition evaluate_skill_cluster_match :: "string \<Rightarrow> skill_cluster \<Rightarrow> rat" where
  "evaluate_skill_cluster_match s c = e_weight (required_skill_evidence s c)"

section \<open>Matching a CV against the active JDs\<close>

record active_jd =
  aj_job_id :: json
  aj_title :: json
  aj_must_have :: "skill_cluster list"
  aj_threshold :: rat

record pipeline_match =
  pm_job_id :: json
  pm_title :: json
  pm_score :: rat
  pm_skills :: "(string \<times> rat) list"

definition match_score :: "string \<Rightarrow> skill_cluster list \<Rightarrow> rat" where
  "match_score s clusters = (\<Sum>c\<leftarrow>clusters. let w = evaluate_skill_cluster_match s c in if 0 < w then w else 0)
     / of_nat (length clusters)"

definition match_cv_against_jds :: "string \<Rightarrow> active_jd list \<Rightarrow> pipeline_match list" where
  "match_cv_against_jds cv jds =
    (if cv = [] then []
     else concat (map (\<lambda>j.
       if aj_must_have j = [] \<or> match_score (lower cv) (aj_must_have j) < aj_threshold j then []
       else [\<lparr>pm_job_id = aj_job_id j, pm_title = aj_title j,
              pm_score = py_round 2 (match_score (lower cv) (aj_must_have j)),
              pm_skills = filter (\<lambda>(n, w). 0 < w)
                (map (\<lambda>c. (s_canonical c, evaluate_skill_cluster_match (lower cv) c)) (aj_must_have j))\<rparr>]) jds))"

section \<open>Skill clusters and the JD envelope\<close>

definition skill_term_ok :: "string \<Rightarrow> bool" where
  "skill_term_ok s \<longleftrightarrow> 1 \<le> length s \<and> length s \<le> 120 \<and> list_ex (\<lambda>c. \<not> is_space c) s"

definition validate_cluster :: "skill_cluster \<Rightarrow> skill_cluster result" where
  "validate_cluster c =
    (if \<not> skill_term_ok (s_canonical c) \<or> 30 < length (s_aliases c) \<or> 30 < length (s_substitutes c) \<or>
        \<not> list_all skill_term_ok (s_aliases c) \<or> \<not> list_all skill_term_ok (s_substitutes c)
     then Inl (ValueError ''Invalid skill cluster'')
     else Inr \<lparr>s_canonical = strip (s_canonical c), s_aliases = dict_fromkeys (map strip (s_aliases c)),
                s_substitutes = dict_fromkeys (map strip (s_substitutes c))\<rparr>)"

definition open_tag :: string where "open_tag = ''<job_description>''"
definition close_tag :: string where "close_tag = ''</job_description>''"

definition safe_content :: "string \<Rightarrow> string" where
  "safe_content s = replace_all open_tag ''&lt;job_description&gt;''
     (replace_all close_tag ''&lt;/job_description&gt;'' s)"

definition encapsulate_jd_data :: "string \<Rightarrow> string" where
  "encapsulate_jd_data s =
    (if s = [] then open_tag @ [newline] @ close_tag
     else open_tag @ [newline] @ strip (safe_content s) @ [newline] @ close_tag)"

section \<open>What the evidence shows\<close>

lemma first_mention_cases:
  assumes "list_all (\<lambda>e. e_negated e \<longrightarrow> e_weight e = 0) es" "\<And>e. unc = Some e \<Longrightarrow> e_negated e \<and> e_weight e = 0"
  shows "e_weight (first_mention unc es) \<noteq> 0 \<Longrightarrow> first_mention unc es \<in> set es \<and> \<not> e_negated (first_mention unc es)"
  using assms by (induction unc es rule: first_mention.induct) (auto simp: no_evidence_def split: option.splits)

lemma term_mentions_negated: "list_all (\<lambda>e. e_negated e \<longrightarrow> e_weight e = 0) (term_mentions s g)"
  by (auto simp: term_mentions_def list_all_iff mention_def Let_def split: prod.splits)

text \<open>Negation inside: a cluster is negated only if some term of it is mentioned and negated.\<close>

lemma first_mention_negated:
  "e_negated (first_mention unc es) \<Longrightarrow> (\<forall>e. unc = Some e \<longrightarrow> P e) \<Longrightarrow> list_all P es \<Longrightarrow> P (first_mention unc es)"
  by (induction unc es rule: first_mention.induct) (auto simp: no_evidence_def split: option.splits if_splits)

lemma required_skill_evidence_positive:
  assumes "e_weight (required_skill_evidence s c) \<noteq> 0"
  obtains terms weight t m where "(terms, weight) \<in> set (skill_term_groups c)" "t \<in> set terms"
    "m \<in> set (re_finditer (term_pattern t) s)" "\<not> negated_mention s m"
    "required_skill_evidence s c = mention s t weight m" "e_weight (required_skill_evidence s c) = weight"
proof -
  let ?es = "concat (map (term_mentions s) (skill_term_groups c))"
  have "list_all (\<lambda>e. e_negated e \<longrightarrow> e_weight e = 0) ?es"
    using term_mentions_negated by (auto simp: list_all_iff)
  then have e: "required_skill_evidence s c \<in> set ?es" "\<not> e_negated (required_skill_evidence s c)"
    using first_mention_cases [of ?es None] assms by (auto simp: required_skill_evidence_def)
  then obtain terms weight t m where g: "(terms, weight) \<in> set (skill_term_groups c)" "t \<in> set terms"
    "m \<in> set (re_finditer (term_pattern t) s)" "required_skill_evidence s c = mention s t weight m"
    by (auto simp: term_mentions_def)
  moreover have "\<not> negated_mention s m" using e(2) g(4) by (auto simp: mention_def Let_def)
  moreover have "e_weight (mention s t weight m) = weight"
    using \<open>\<not> negated_mention s m\<close> by (simp add: mention_def)
  ultimately show thesis using that by simp
qed

lemma skill_weights: "e_weight (required_skill_evidence s c) \<in> {0, 3 / 4, 1}"
proof (cases "e_weight (required_skill_evidence s c) = 0")
  case False
  then show ?thesis by (rule required_skill_evidence_positive) (auto simp: skill_term_groups_def)
qed simp

lemma term_match_isolated:
  assumes "m \<in> set (re_finditer (term_pattern t) s)"
  shows "m_start m = 0 \<or> \<not> is_word (s ! (m_start m - 1))" "m_end m = length s \<or> \<not> is_word (s ! m_end m)"
  using isolated_match re_finditer_run_in [OF assms] by (auto simp: term_pattern_def Let_def)

section \<open>A JD text cannot leave its envelope\<close>

lemma replace_all_Nil [simp]: "replace_all old new [] = []"
  by (simp add: replace_all.simps)

lemma replace_all_prefix:
  assumes "new \<noteq> []" "hd new \<notin> set p"
  shows "starts_with p (replace_all old new s) \<Longrightarrow> starts_with p s"
  using assms
proof (induction p arbitrary: s)
  case (Cons c p)
  obtain d t where s: "s = d # t" using Cons.prems(1) by (cases s) auto
  show ?case
  proof (cases "old \<noteq> [] \<and> starts_with old s")
    case True
    then have "replace_all old new s = new @ replace_all old new (drop (length old) s)" using s by (simp add: replace_all.simps)
    then have "c = hd new" using Cons.prems(1) \<open>new \<noteq> []\<close> by (cases new) auto
    then show ?thesis using Cons.prems(3) by simp
  next
    case False
    then have "replace_all old new s = d # replace_all old new t" using s by (subst replace_all.simps) auto
    then show ?thesis using Cons s by simp
  qed
qed simp

lemma contains_append_free:
  assumes "hd p \<notin> set u" "p \<noteq> []"
  shows "contains p (u @ v) \<longleftrightarrow> contains p v"
  using assms(1)
proof (induction u)
  case (Cons c u)
  have "\<not> starts_with p (c # u @ v)" using Cons.prems assms(2) by (cases p) auto
  then show ?case using Cons by simp
qed simp

lemma contains_suffix: "contains p v \<Longrightarrow> contains p (u @ v)"
  unfolding contains_iff by (metis append.assoc)

lemma contains_prefix: "contains p u \<Longrightarrow> contains p (u @ v)"
  unfolding contains_iff by (metis append.assoc)

lemma contains_drop: "contains p (drop n s) \<Longrightarrow> contains p s"
  using contains_suffix [of p "drop n s" "take n s"] by simp

text \<open>Replacement brings no delimiter with it: one that is in the result was in the text before.\<close>

lemma contains_replace_all:
  assumes "p \<noteq> []" "hd p \<notin> set new" "new \<noteq> []" "hd new \<notin> set p"
  shows "contains p (replace_all old new s) \<Longrightarrow> contains p s"
proof (induction s rule: length_induct)
  case (1 s)
  show ?case
  proof (cases s)
    case (Cons c t)
    show ?thesis
    proof (cases "old \<noteq> [] \<and> starts_with old s")
      case True
      then have "replace_all old new s = new @ replace_all old new (drop (length old) s)" using Cons by (simp add: replace_all.simps)
      then have "contains p (replace_all old new (drop (length old) s))"
        using "1.prems" contains_append_free [OF assms(2,1)] by simp
      then have "contains p (drop (length old) s)" using "1.IH" True Cons by auto
      then show ?thesis by (rule contains_drop)
    next
      case False
      then have r: "replace_all old new s = c # replace_all old new t" using Cons by (subst replace_all.simps) auto
      then have "starts_with p (replace_all old new s) \<or> contains p (replace_all old new t)" using "1.prems" by simp
      then show ?thesis
        using replace_all_prefix [OF assms(3,4), of old s] "1.IH" Cons by auto
    qed
  qed (use 1 assms in auto)
qed

lemma replace_all_removes:
  assumes "old \<noteq> []" "hd old \<notin> set new" "new \<noteq> []" "hd new \<notin> set old"
  shows "\<not> contains old (replace_all old new s)"
proof (induction s rule: length_induct)
  case (1 s)
  show ?case
  proof (cases s)
    case (Cons c t)
    show ?thesis
    proof (cases "starts_with old s")
      case True
      then have "replace_all old new s = new @ replace_all old new (drop (length old) s)" using Cons assms(1) by (simp add: replace_all.simps)
      then show ?thesis using 1 Cons assms(1) contains_append_free [OF assms(2,1)] by auto
    next
      case False
      then have r: "replace_all old new s = c # replace_all old new t" using Cons by (subst replace_all.simps) auto
      have "\<not> starts_with old (replace_all old new s)" using replace_all_prefix [OF assms(3,4)] False by blast
      then show ?thesis using r 1 Cons by auto
    qed
  qed (use assms in auto)
qed

lemma contains_strip: "contains p (strip s) \<Longrightarrow> contains p s"
proof -
  have l: "\<exists>u. s = u @ lstrip s" for s :: string by (metis lstrip_def takeWhile_dropWhile_id)
  have r: "\<exists>v. s = rstrip is_space s @ v" for s :: string
    unfolding rstrip_def by (metis takeWhile_dropWhile_id rev_append rev_rev_ident)
  assume "contains p (strip s)"
  then have "contains p (lstrip s)" using r [of "lstrip s"] contains_prefix unfolding strip_def by metis
  then show "contains p s" using l [of s] contains_suffix by metis
qed

lemma safe_content_free: "\<not> contains open_tag (safe_content s)" "\<not> contains close_tag (safe_content s)"
proof -
  show "\<not> contains open_tag (safe_content s)"
    unfolding safe_content_def by (rule replace_all_removes) (simp_all add: open_tag_def)
  let ?once = "replace_all close_tag ''&lt;/job_description&gt;'' s"
  have free: "close_tag \<noteq> []" "hd close_tag \<notin> set ''&lt;job_description&gt;''" "''&lt;job_description&gt;'' \<noteq> []"
    "hd ''&lt;job_description&gt;'' \<notin> set close_tag"
    by (simp_all add: close_tag_def)
  have "\<not> contains close_tag ?once" by (rule replace_all_removes) (simp_all add: close_tag_def)
  then show "\<not> contains close_tag (safe_content s)"
    unfolding safe_content_def using contains_replace_all [OF free, of open_tag ?once] by blast
qed

end
