(* ===== verification/Lexical.thy ===== *)
theory Lexical
  imports Skill_Terms
begin

text \<open>
  \<open>app/stage2_retrieval/sparse.py\<close>: the lexical normal form of a text, sparse concepts and the
  plan both retrievers share; and the rank fusion of \<open>hybrid_search.py\<close>.
\<close>

section \<open>Normal form\<close>

definition LEXICAL_VERSION :: string where
  "LEXICAL_VERSION = ''concept-v1''"

definition TECHNICAL_IDENTITIES_V1 :: "(string \<times> string list) list" where
  "TECHNICAL_IDENTITIES_V1 = [
     (''techjavascript'', [''JavaScript'', ''Java Script'', ''JS'']),
     (''techtypescript'', [''TypeScript'', ''Type Script'', ''TS'']),
     (''techkubernetes'', [''Kubernetes'', ''K8s'']),
     (''techpostgresql'', [''PostgreSQL'', ''Postgres'']),
     (''technodejs'', [''Node.js'', ''NodeJS'', ''Node JS'']),
     (''techreactjs'', [''React.js'', ''ReactJS'', ''React'']),
     (''techcsharp'', [''C#'', ''C Sharp'', ''CSharp'']),
     (''techcplusplus'', [''C++'', ''CPP'', ''C Plus Plus'']),
     (''techdotnet'', [''.NET'', ''dotnet'', ''dot net'']),
     (''techaws'', [''Amazon Web Services'', ''AWS'']),
     (''techgcp'', [''Google Cloud Platform'', ''GCP''])]"

definition STOP_WORDS :: "string list" where
  "STOP_WORDS = words (''a an and or the of in on to for with by as at from is are be have has required preferred '' @
     ''requirement requirements experience experienced demonstrating hands hands-on projects project skills skill '' @
     ''knowledge strong good excellent ability working work developer development years year explicit no not '' @
     ''minimum must should candidate candidates including using proficiency proficient familiarity familiar '' @
     ''relevant degree education section'')"

definition lexical_variants :: "(string \<times> string) list" where
  "lexical_variants = sort_key (\<lambda>(alias, token). - int (length alias))
     (concat (map (\<lambda>(token, group). map (\<lambda>alias. (alias, token)) group) TECHNICAL_IDENTITIES_V1))"

definition normalize_lexical_v1 :: "string \<Rightarrow> string" where
  "normalize_lexical_v1 s =
     join_with '' '' (re_findall (plus (Sym is_alnum))
       (fold (\<lambda>(alias, token) t. re_sub (term_pattern alias) token t) lexical_variants (lower s)))"

section \<open>Concepts and plans\<close>

record sparse_concept =
  sc_name :: string
  sc_alternatives :: "string list"
  sc_priority :: string
  sc_substitutes :: "string list"

definition concept_tsquery :: "sparse_concept \<Rightarrow> string" where
  "concept_tsquery c = ''('' @ join_with '' | '' (dict_fromkeys (map (\<lambda>v. join_with '' <-> '' (words v))
     (filter (\<lambda>v. v \<noteq> []) (sc_alternatives c @ sc_substitutes c)))) @ '')''"

definition concept_matches :: "sparse_concept \<Rightarrow> string \<Rightarrow> bool" where
  "concept_matches c normalized = list_ex (\<lambda>v. v \<noteq> [] \<and> contains ('' '' @ v @ '' '') ('' '' @ normalized @ '' ''))
     (sc_alternatives c @ sc_substitutes c)"

definition plan_tsquery :: "sparse_concept list \<Rightarrow> string" where
  "plan_tsquery plan = join_with '' | '' (map concept_tsquery plan)"

definition plan_coverage :: "sparse_concept list \<Rightarrow> string \<Rightarrow> nat list" where
  "plan_coverage plan s = (let normalized = normalize_lexical_v1 s in
     map (\<lambda>priority. length (filter (\<lambda>c. sc_priority c = priority \<and> concept_matches c normalized) plan))
       [''required'', ''preferred'', ''context''])"

text \<open>The closure \<open>add\<close>: a concept whose terms were added before is dropped.\<close>

definition normal_terms :: "string list \<Rightarrow> string list" where
  "normal_terms terms = dict_fromkeys (map normalize_lexical_v1 (filter (\<lambda>t. strip t \<noteq> []) (identity_terms terms)))"

definition add_concept :: "string \<Rightarrow> string list \<Rightarrow> string list \<Rightarrow> string \<Rightarrow> sparse_concept list \<Rightarrow> sparse_concept list" where
  "add_concept nm aliases substitutes priority concepts =
    (let terms = filter (\<lambda>t. t \<noteq> []) (normal_terms (nm # aliases)) in
     if terms = [] \<or> terms \<in> set (map sc_alternatives concepts) then concepts
     else concepts @ [\<lparr>sc_name = nm, sc_alternatives = terms, sc_priority = priority,
            sc_substitutes = normal_terms substitutes\<rparr>])"

definition add_clusters :: "string \<Rightarrow> skill_cluster list \<Rightarrow> sparse_concept list \<Rightarrow> sparse_concept list" where
  "add_clusters priority clusters = fold (\<lambda>c. add_concept (s_canonical c) (s_aliases c) (s_substitutes c) priority) clusters"

definition add_degree :: "degree_requirement \<Rightarrow> sparse_concept list \<Rightarrow> sparse_concept list" where
  "add_degree r concepts =
    (if r_level r = ''NONE'' then concepts
     else let cs = add_concept (r_level r) (r_level_aliases r) [] ''required'' concepts in
       case r_fields r of [] \<Rightarrow> cs
       | f # fs \<Rightarrow> add_concept f (fs @ r_field_aliases r) [] ''required'' cs)"

fun at_most :: "nat \<Rightarrow> pattern \<Rightarrow> pattern" where
  "at_most 0 p = Empty"
| "at_most (Suc n) p = opt (Cat p (at_most n p))"

definition compound_pattern :: pattern where
  "compound_pattern = cats [word_boundary, alts (map lit_i [''spring boot'', ''computer science'', ''software engineering'',
     ''machine learning'', ''data engineering'', ''quality assurance'', ''test automation''] @
     [Cat (lit_i ''rest api'') (opt (chr_i CHR ''s''))]), word_boundary]"

definition quoted_pattern :: pattern where
  "quoted_pattern = (let inside = Sym (\<lambda>c. c \<noteq> CHR 0x22 \<and> c \<noteq> newline) in
     cats [chr CHR 0x22, Capture 1 (Cat inside (at_most 119 inside)), chr CHR 0x22])"

definition noise_word :: "string \<Rightarrow> bool" where
  "noise_word w \<longleftrightarrow> w \<in> set STOP_WORDS \<or> w \<noteq> [] \<and> list_all is_digit w"

definition trim_noise :: "string list \<Rightarrow> string list" where
  "trim_noise ws = rev (dropWhile noise_word (rev (dropWhile noise_word ws)))"

definition list_items :: "string \<Rightarrow> string list" where
  "list_items query =
    (if contains '','' query \<or> contains '';'' query
     then map (join_with '' '') (filter (\<lambda>ws. 1 \<le> length ws \<and> length ws \<le> 6)
       (map (\<lambda>item. trim_noise (words (normalize_lexical_v1 item)))
         (re_split (Alt (any_of '',;'') (bounded_word [''and'', ''or''])) query)))
     else [])"

definition query_phrases :: "string \<Rightarrow> string list" where
  "query_phrases query =
     map hd (filter (list_ex (\<lambda>alias. re_found (term_pattern alias) query)) IDENTITY_ALIASES) @
     re_findall compound_pattern query @
     map (\<lambda>m. m_group m 1) (re_finditer quoted_pattern query) @ list_items query"

text \<open>The single words that no concept covers yet, until there are 64 concepts.\<close>

fun add_words :: "string list \<Rightarrow> string list \<Rightarrow> sparse_concept list \<Rightarrow> sparse_concept list" where
  "add_words covered [] concepts = concepts"
| "add_words covered (w # ws) concepts =
    (let fresh = w \<notin> set covered \<and> \<not> noise_word w;
         cs = (if fresh then add_concept w [] [] ''context'' concepts else concepts)
     in if 64 \<le> length cs then cs else add_words (if fresh then w # covered else covered) ws cs)"

definition covered_words :: "sparse_concept list \<Rightarrow> string list" where
  "covered_words concepts = concat (map words (concat (map (\<lambda>c. sc_alternatives c @ sc_substitutes c) concepts)))"

definition build_sparse_plan ::
  "string \<Rightarrow> string \<Rightarrow> skill_cluster list \<Rightarrow> skill_cluster list \<Rightarrow> degree_requirement option \<Rightarrow> sparse_concept list" where
  "build_sparse_plan query category required preferred degree =
    (let concepts = (if category \<noteq> ''EDUCATION''
           then add_clusters ''preferred'' preferred (add_clusters ''required'' required [])
           else case degree of None \<Rightarrow> [] | Some r \<Rightarrow> add_degree r []);
         full = (if contains ''no explicit requirement'' (lower query) then concepts
           else let cs = fold (\<lambda>p. add_concept p [] [] ''context'') (query_phrases query) concepts
                in add_words (covered_words cs) (words (normalize_lexical_v1 query)) cs)
     in take 128 full)"

section \<open>Reciprocal rank fusion\<close>

text \<open>A hit: its chunk, the scores of the two searches, and the ranks the fusion adds.\<close>

record hit =
  h_id :: string
  h_text :: string
  h_dense_score :: "rat option"
  h_sparse :: "nat list option"
  h_rrf_score :: rat
  h_dense_rank :: "nat option"
  h_sparse_rank :: "nat option"

text \<open>The last rank of a chunk in a result list, counted from 1, and its score contribution.\<close>

definition rank_in :: "string \<Rightarrow> hit list \<Rightarrow> nat option" where
  "rank_in i hits = map_of (rev (zip (map h_id hits) [1..<length hits + 1])) i"

definition rrf_part :: "nat \<Rightarrow> string \<Rightarrow> hit list \<Rightarrow> rat" where
  "rrf_part k i hits = (\<Sum>(j, rank)\<leftarrow>zip (map h_id hits) [1..<length hits + 1]. if j = i then 1 / of_nat (k + rank) else 0)"

definition fused_hit :: "nat \<Rightarrow> hit list \<Rightarrow> hit list \<Rightarrow> string \<Rightarrow> hit" where
  "fused_hit k dense sparse i =
    (let first = (case find (\<lambda>h. h_id h = i) (dense @ sparse) of Some h \<Rightarrow> h
           | None \<Rightarrow> \<lparr>h_id = i, h_text = [], h_dense_score = None, h_sparse = None, h_rrf_score = 0,
                       h_dense_rank = None, h_sparse_rank = None\<rparr>);
         base = (case find (\<lambda>h. h_id h = i \<and> h_sparse h \<noteq> None) (rev sparse) of
            Some q \<Rightarrow> first\<lparr>h_sparse := h_sparse q\<rparr> | None \<Rightarrow> first)
     in base\<lparr>h_rrf_score := py_round 6 (rrf_part k i dense + rrf_part k i sparse),
             h_dense_rank := rank_in i dense, h_sparse_rank := rank_in i sparse\<rparr>)"

definition compute_rrf_score :: "nat \<Rightarrow> nat option \<Rightarrow> hit list \<Rightarrow> hit list \<Rightarrow> hit list" where
  "compute_rrf_score k top_n dense sparse =
    (let fused = sort_key (\<lambda>h. (- h_rrf_score h, h_id h))
           (map (fused_hit k dense sparse) (dict_fromkeys (map h_id dense @ map h_id sparse)))
     in case top_n of None \<Rightarrow> fused | Some n \<Rightarrow> take n fused)"

section \<open>Plans and fusions are well formed\<close>

definition plan_ok :: "sparse_concept list \<Rightarrow> bool" where
  "plan_ok cs \<longleftrightarrow> distinct (map sc_alternatives cs) \<and> list_all (\<lambda>c. sc_alternatives c \<noteq> [] \<and> [] \<notin> set (sc_alternatives c)) cs"

lemma plan_ok_Nil [simp]: "plan_ok []"
  by (simp add: plan_ok_def)

lemma add_concept_ok [simp]: "plan_ok cs \<Longrightarrow> plan_ok (add_concept nm as ss pr cs)"
  by (auto simp: plan_ok_def add_concept_def Let_def list_all_iff)

lemma fold_ok: "(\<And>x cs. plan_ok cs \<Longrightarrow> plan_ok (f x cs)) \<Longrightarrow> plan_ok cs \<Longrightarrow> plan_ok (fold f xs cs)"
  by (induction xs arbitrary: cs) auto

lemma add_words_ok: "plan_ok cs \<Longrightarrow> plan_ok (add_words covered ws cs)"
  by (induction covered ws cs rule: add_words.induct) (auto simp: Let_def)

lemma plan_ok_take: "plan_ok cs \<Longrightarrow> plan_ok (take n cs)"
  by (auto simp: plan_ok_def list_all_iff simp flip: take_map dest: in_set_takeD)

lemma build_sparse_plan_ok: "plan_ok (build_sparse_plan query category required preferred degree)"
  unfolding build_sparse_plan_def Let_def add_clusters_def add_degree_def
  by (intro plan_ok_take) (auto intro!: add_words_ok fold_ok split: option.splits list.splits)

lemma build_sparse_plan_length: "length (build_sparse_plan query category required preferred degree) \<le> 128"
  by (simp add: build_sparse_plan_def Let_def)

lemma h_id_fused [simp]: "h_id (fused_hit k dense sparse i) = i"
  by (auto simp: fused_hit_def Let_def split: option.splits dest: find_SomeD)

lemma compute_rrf_ids:
  "distinct (map h_id (compute_rrf_score k None dense sparse))"
  "set (map h_id (compute_rrf_score k None dense sparse)) = h_id ` set dense \<union> h_id ` set sparse"
proof -
  let ?ids = "dict_fromkeys (map h_id dense @ map h_id sparse)"
  have m: "mset (map h_id (compute_rrf_score k None dense sparse)) = mset ?ids"
    by (simp add: compute_rrf_score_def image_mset.compositionality comp_def)
  then show "distinct (map h_id (compute_rrf_score k None dense sparse))"
    using distinct_dict_fromkeys mset_eq_imp_distinct_iff by blast
  show "set (map h_id (compute_rrf_score k None dense sparse)) = h_id ` set dense \<union> h_id ` set sparse"
    using mset_eq_setD [OF m] by auto
qed

end
