(* ===== verification/Sections.thy ===== *)
theory Sections
  imports Patterns
begin

text \<open>
  \<open>app/stage2_retrieval/chunker.py\<close>: the section headers of a CV, its split into sections and
  blocks, and the bounded chunks the retrieval works on.
\<close>

section \<open>Section headers\<close>

definition CATEGORY_MAP :: "(string \<times> string) list" where
  "CATEGORY_MAP = [(''SUMMARY'', ''EXPERIENCE''), (''EXPERIENCE'', ''EXPERIENCE''), (''SKILLS'', ''SKILLS''),
     (''PROJECTS'', ''PROJECTS''), (''EDUCATION'', ''EDUCATION''), (''CERTIFICATIONS'', ''EDUCATION'')]"

text \<open>An alias is a phrase with \<open>\s+\<close> between its words, or the one composed alternative.\<close>

datatype header_alias = Phrase string | Licenses_And_Certifications

definition SECTION_ALIASES :: "(string \<times> header_alias list) list" where
  "SECTION_ALIASES = [
     (''SUMMARY'', map Phrase [''PROFESSIONAL SUMMARY'', ''EXECUTIVE SUMMARY'', ''SUMMARY OF QUALIFICATIONS'',
        ''SUMMARY'', ''PROFILE'', ''PERSONAL PROFILE'', ''ABOUT ME'', ''OBJECTIVE'', ''OVERVIEW'']),
     (''EXPERIENCE'', map Phrase [''WORK EXPERIENCE'', ''PROFESSIONAL EXPERIENCE'', ''RELEVANT EXPERIENCE'',
        ''EMPLOYMENT HISTORY'', ''WORK HISTORY'', ''CAREER HISTORY'', ''EXPERIENCE'']),
     (''SKILLS'', map Phrase [''TECHNICAL SKILLS'', ''CORE COMPETENCIES'', ''KEY COMPETENCIES'',
        ''TECHNOLOGIES'', ''TECHNICAL EXPERTISE'', ''TECH STACK'', ''SKILLS'']),
     (''PROJECTS'', map Phrase [''KEY PROJECTS'', ''MAJOR PROJECTS'', ''PERSONAL PROJECTS'',
        ''ACADEMIC PROJECTS'', ''SELECTED PROJECTS'', ''NOTABLE PROJECTS'',
        ''RELEVANT PROJECTS'', ''TECHNICAL PROJECTS'', ''PROFESSIONAL PROJECTS'',
        ''RESEARCH PROJECTS'', ''PROJECT EXPERIENCE'', ''PROJECT HIGHLIGHTS'',
        ''PROJECT PORTFOLIO'', ''PROJECTS'']),
     (''EDUCATION'', map Phrase [''ACADEMIC QUALIFICATIONS'', ''ACADEMIC BACKGROUND'', ''EDUCATIONAL BACKGROUND'',
        ''QUALIFICATIONS'', ''EDUCATION'']),
     (''CERTIFICATIONS'', Licenses_And_Certifications # map Phrase [''PROFESSIONAL CERTIFICATIONS'',
        ''CERTIFICATIONS'', ''LICENSES'', ''COURSES''])]"

text \<open>The pattern of an alias and the length of its source text, by which the aliases are sorted.\<close>

fun alias_pattern :: "header_alias \<Rightarrow> pattern" where
  "alias_pattern (Phrase s) = phrase_i s"
| "alias_pattern Licenses_And_Certifications =
     cats [lit_i ''LICENSES'', spaces0, Alt (lit ''&'') (lit_i ''AND''), spaces0, lit_i ''CERTIFICATIONS'']"

fun source_length :: "header_alias \<Rightarrow> nat" where
  "source_length (Phrase s) = length s + 2 * length (filter (\<lambda>c. c = CHR '' '') s)"
| "source_length Licenses_And_Certifications = 37"

definition ALL_HEADER_PATTERNS :: "header_alias list" where
  "ALL_HEADER_PATTERNS = sort_key (\<lambda>a. - int (source_length a)) (concat (map snd SECTION_ALIASES))"

definition SECTION_HEADER_PATTERN :: pattern where
  "SECTION_HEADER_PATTERN = cats [line_start, Star (Sym (\<lambda>c. c \<in> set ''#*=-'' \<or> is_space c)),
     Capture 1 (alts (map alias_pattern ALL_HEADER_PATTERNS)),
     Star (Sym (\<lambda>c. c \<in> set '':-*=#'' \<or> is_space c)), line_end]"

definition normalize_header_to_canonical :: "string \<Rightarrow> string" where
  "normalize_header_to_canonical raw_header =
    (let clean_raw = upper (strip raw_header) in
     case find (\<lambda>(key, aliases). list_ex (\<lambda>a. re_fullmatch (alias_pattern a) clean_raw \<noteq> None) aliases)
            SECTION_ALIASES of
       Some (key, _) \<Rightarrow> key | None \<Rightarrow> ''EXPERIENCE'')"

section \<open>Sections and blocks\<close>

text \<open>\<open>sections[name] += "\n\n" + content\<close> for a repeated section.\<close>

definition append_section :: "string \<Rightarrow> string \<Rightarrow> (string \<times> string) list \<Rightarrow> (string \<times> string) list" where
  "append_section nm content d =
    (case map_of d nm of None \<Rightarrow> d @ [(nm, content)]
     | Some old \<Rightarrow> AList.update nm (old @ [newline, newline] @ content) d)"

fun collect_sections :: "string \<Rightarrow> found list \<Rightarrow> (string \<times> string) list \<Rightarrow> (string \<times> string) list" where
  "collect_sections s [] d = d"
| "collect_sections s (m # ms) d =
     (let stop = (case ms of [] \<Rightarrow> length s | n # _ \<Rightarrow> m_start n);
          content = strip (slice s (m_end m) stop)
      in collect_sections s ms
           (if content = [] then d else append_section (normalize_header_to_canonical (m_group m 1)) content d))"

definition parse_cv_sections :: "string \<Rightarrow> (string \<times> string) list" where
  "parse_cv_sections s =
    (if s = [] then []
     else case re_finditer SECTION_HEADER_PATTERN s of
       [] \<Rightarrow> [(''EXPERIENCE'', strip s)]
     | m # ms \<Rightarrow>
         let leading = strip (slice s 0 (m_start m)) in
         collect_sections s (m # ms)
           (if m_start m > 0 \<and> leading \<noteq> [] then [(''SUMMARY'', leading)] else []))"

definition block_separator :: pattern where
  "block_separator = alts [
     cats [chr newline, spaces0, any_of ''-*'', spaces0],
     Cat (chr newline) (plus (chr newline)),
     Cat (chr newline) (Anchor (\<lambda>b a. runs (cats [plus (Sym is_digit), chr CHR ''.'', spaces1]) (b, a, []) \<noteq> []))]"

definition split_text_into_structural_blocks :: "string \<Rightarrow> string list" where
  "split_text_into_structural_blocks s =
     map strip (filter (\<lambda>b. b \<noteq> [] \<and> 5 < length (strip b)) (re_split block_separator s))"

section \<open>Chunks\<close>

record chunk =
  k_section :: string
  k_category :: string
  k_index :: nat
  k_text :: string
  k_char_length :: nat
  k_global_id :: nat
  k_id :: string
  k_location :: json

text \<open>\<open>block.rfind(" ", 0, n)\<close>.\<close>

definition rfind_space :: "string \<Rightarrow> nat \<Rightarrow> nat option" where
  "rfind_space s n = find (\<lambda>i. s ! i = CHR '' '') (rev [0..<min n (length s)])"

definition split_boundary :: "nat \<Rightarrow> string \<Rightarrow> nat" where
  "split_boundary capacity s = (case rfind_space s (capacity + 1) of
     Some (Suc n) \<Rightarrow> Suc n | _ \<Rightarrow> capacity)"

text \<open>
  The inner loop over one block. The size check of the caller makes the capacity positive, without
  which the loop would not advance.
\<close>

lemma split_boundary_pos: "0 < capacity \<Longrightarrow> 0 < split_boundary capacity s"
  by (auto simp: split_boundary_def split: option.splits nat.splits)

function block_pieces :: "nat \<Rightarrow> string \<Rightarrow> string list" where
  "block_pieces capacity s =
    (if capacity = 0 \<or> length s \<le> capacity then (if s = [] then [] else [s])
     else strip (take (split_boundary capacity s) s) #
          block_pieces capacity (strip (drop (split_boundary capacity s) s)))"
  by pat_completeness auto
termination
proof (relation "measure (\<lambda>(c, s). length s)", goal_cases)
  case (2 capacity s)
  then have "0 < split_boundary capacity s" by (intro split_boundary_pos) simp
  then have "length (strip (drop (split_boundary capacity s) s)) < length s"
    using 2 length_strip [of "drop (split_boundary capacity s) s"] by (simp add: not_le) linarith
  then show ?case by simp
qed simp

declare block_pieces.simps [simp del]

text \<open>The pieces are joined to passages of at least the minimum length.\<close>

fun join_pieces :: "nat \<Rightarrow> nat \<Rightarrow> string \<Rightarrow> string list \<Rightarrow> string list" where
  "join_pieces min_chars capacity pending [] = (if pending = [] then [] else [pending])"
| "join_pieces min_chars capacity pending (piece # pieces) =
    (let joined = (if pending = [] then piece else strip (pending @ '' '' @ piece)) in
     if capacity < length joined then pending # join_pieces min_chars capacity piece pieces
     else if min_chars \<le> length joined then joined # join_pieces min_chars capacity [] pieces
     else join_pieces min_chars capacity joined pieces)"

definition section_prefix :: "string \<Rightarrow> string" where
  "section_prefix nm = ''[Section: '' @ nm @ ''] ''"

definition section_chunk :: "string \<Rightarrow> nat \<Rightarrow> string \<Rightarrow> chunk" where
  "section_chunk nm i body = \<lparr>k_section = nm,
     k_category = (case map_of CATEGORY_MAP nm of None \<Rightarrow> ''EXPERIENCE'' | Some c \<Rightarrow> c),
     k_index = i, k_text = section_prefix nm @ body, k_char_length = length body,
     k_global_id = 0, k_id = [], k_location = JNull\<rparr>"

definition chunk_section_structurally :: "string \<Rightarrow> string \<Rightarrow> int \<Rightarrow> int \<Rightarrow> chunk list result" where
  "chunk_section_structurally nm content min_chars max_chars =
    (if min_chars < 1 \<or> max_chars \<le> int (length (section_prefix nm)) \<or> max_chars < min_chars
     then Inl (ValueError ''Invalid chunk size bounds'')
     else let capacity = nat max_chars - length (section_prefix nm);
              pieces = concat (map (block_pieces capacity) (split_text_into_structural_blocks content))
          in Inr (map (\<lambda>(i, body). section_chunk nm i body)
               (enumerate 0 (join_pieces (nat min_chars) capacity [] pieces))))"

section \<open>Chunks of a document\<close>

record source_block =
  b_text :: string
  b_number :: nat
  b_bbox :: json

record source_page =
  g_number :: nat
  g_blocks :: "source_block list"

record chunking =
  c_chunks :: "chunk list"
  c_section :: string
  c_pending :: "(string \<times> pydict) list"

definition numbered :: "nat \<Rightarrow> chunk \<Rightarrow> chunk" where
  "numbered n c = c\<lparr>k_global_id := n, k_id := ''chk_'' @ show_nat n\<rparr>"

text \<open>A continuation passage of an entry repeats the entry's header.\<close>

definition with_header :: "string \<Rightarrow> string \<Rightarrow> chunk \<Rightarrow> chunk" where
  "with_header nm header c =
    (if k_index c \<noteq> 0 \<and> nm \<in> {''EXPERIENCE'', ''PROJECTS''}
     then let body = header @ [newline] @ drop (length (section_prefix nm)) (k_text c)
          in c\<lparr>k_text := section_prefix nm @ body, k_char_length := length body\<rparr>
     else c)"

definition entry_location :: "string \<Rightarrow> pydict list \<Rightarrow> chunk \<Rightarrow> chunk" where
  "entry_location nm locations c =
    (let base = dmerge (hd locations) [(''section'', JStr nm), (''chunk_index'', JNum (of_nat (k_index c)))]
     in c\<lparr>k_location := JDict (if 1 < length locations
            then dset ''blocks'' (JList (map JDict locations)) base else base)\<rparr>)"

definition flush :: "chunking \<Rightarrow> chunking result" where
  "flush st =
    (if c_pending st = [] then Inr st
     else let content = join_with [newline, newline] (map fst (c_pending st));
              header = take 160 (join_with '' '' (map fst (take 2 (c_pending st))))
          in rbind (chunk_section_structurally (c_section st) content 400 420) (\<lambda>chunks.
               Inr (st\<lparr>c_chunks := c_chunks st @ map (\<lambda>(i, c). entry_location (c_section st) (map snd (c_pending st))
                        (numbered (length (c_chunks st) + i) (with_header (c_section st) header c))) (enumerate 0 chunks),
                      c_pending := []\<rparr>)))"

definition year_pattern :: pattern where
  "year_pattern = cats [word_boundary, Alt (lit ''19'') (lit ''20''), Sym is_digit, Sym is_digit, word_boundary]"

definition list_item_pattern :: pattern where
  "list_item_pattern = Alt (Cat text_start (any_of ''-*''))
     (cats [text_start, alts (map lit_i [''technologies'', ''tech stack'', ''skills'']), spaces0, lit '':''])"

text \<open>A compact title followed by a date block starts a new entry.\<close>

definition is_title :: "string \<Rightarrow> string \<Rightarrow> string \<Rightarrow> bool" where
  "is_title nm content next_text \<longleftrightarrow> nm \<in> {''EXPERIENCE'', ''PROJECTS''} \<and> length content < 180 \<and>
     (re_found year_pattern next_text \<or> nm = ''PROJECTS'' \<and> contains ''|'' content) \<and>
     re_match list_item_pattern content = None"

definition block_location :: "nat \<Rightarrow> source_block \<Rightarrow> pydict" where
  "block_location page_number b = [(''page_number'', JNum (of_nat page_number)),
     (''block_index'', JNum (of_nat (b_number b))), (''bbox'', b_bbox b)]"

fun add_sections :: "bool \<Rightarrow> string \<Rightarrow> pydict \<Rightarrow> (string \<times> string) list \<Rightarrow> chunking \<Rightarrow> chunking result" where
  "add_sections embedded next_text loc [] st = Inr st"
| "add_sections embedded next_text loc ((nm, content) # secs) st =
    rbind (if embedded then rbind (flush st) (\<lambda>t. Inr (t\<lparr>c_section := nm\<rparr>)) else Inr st) (\<lambda>st1.
    rbind (if is_title (c_section st1) content next_text \<and> c_pending st1 \<noteq> [] then flush st1 else Inr st1) (\<lambda>st2.
      add_sections embedded next_text loc secs (st2\<lparr>c_pending := c_pending st2 @ [(content, loc)]\<rparr>)))"

definition add_block :: "nat \<Rightarrow> source_block \<Rightarrow> string \<Rightarrow> chunking \<Rightarrow> chunking result" where
  "add_block page_number b next_text st =
    (case re_fullmatch SECTION_HEADER_PATTERN (strip (b_text b)) of
       Some m \<Rightarrow> rbind (flush st) (\<lambda>t. Inr (t\<lparr>c_section := normalize_header_to_canonical (m_group m 1)\<rparr>))
     | None \<Rightarrow> add_sections (re_found SECTION_HEADER_PATTERN (b_text b)) next_text
                 (block_location page_number b) (parse_cv_sections (b_text b)) st)"

text \<open>\<open>following\<close>: the next block on the page, or the first one of the next page.\<close>

fun add_blocks :: "nat \<Rightarrow> source_block list \<Rightarrow> source_block list \<Rightarrow> chunking \<Rightarrow> chunking result" where
  "add_blocks page_number next_page [] st = Inr st"
| "add_blocks page_number next_page (b # bs) st =
    rbind (add_block page_number b (case bs of x # _ \<Rightarrow> b_text x
        | [] \<Rightarrow> (case next_page of x # _ \<Rightarrow> b_text x | [] \<Rightarrow> [])) st)
      (add_blocks page_number next_page bs)"

fun add_pages :: "source_page list \<Rightarrow> chunking \<Rightarrow> chunking result" where
  "add_pages [] st = Inr st"
| "add_pages (p # ps) st =
    rbind (add_blocks (g_number p) (case ps of [] \<Rightarrow> [] | q # _ \<Rightarrow> g_blocks q) (g_blocks p) st) (add_pages ps)"

definition generate_cv_chunks :: "string \<Rightarrow> source_page list option \<Rightarrow> chunk list result" where
  "generate_cv_chunks cv source_pages =
    (case source_pages of
       Some pages \<Rightarrow> rbind (add_pages pages \<lparr>c_chunks = [], c_section = ''EXPERIENCE'', c_pending = []\<rparr>)
                      (\<lambda>st. rbind (flush st) (\<lambda>t. Inr (c_chunks t)))
     | None \<Rightarrow> rbind (rmap (\<lambda>(nm, content). chunk_section_structurally nm content 150 600) (parse_cv_sections cv))
                 (\<lambda>chunks. Inr (map (\<lambda>(n, c). numbered n c) (enumerate 0 (concat chunks)))))"

section \<open>Chunks are bounded and lose no text\<close>

definition visible :: "string \<Rightarrow> string" where
  "visible s = filter (\<lambda>c. \<not> is_space c) s"

lemma visible_simps [simp]: "visible [] = []" "visible (s @ t) = visible s @ visible t" "visible ('' '' @ t) = visible t"
  by (simp_all add: visible_def is_space_def code_point_def)

lemma visible_space_Cons [simp]: "visible (CHR '' '' # t) = visible t"
  using visible_simps(3) [of t] by simp

lemma visible_dropWhile [simp]: "visible (dropWhile is_space s) = visible s"
  by (induction s) (auto simp: visible_def)

lemma visible_rev: "visible (rev s) = rev (visible s)"
  by (simp add: visible_def rev_filter)

lemma visible_strip [simp]: "visible (strip s) = visible s"
  by (simp add: strip_def rstrip_def lstrip_def visible_rev)

lemma visible_take_drop: "visible (take n s) @ visible (drop n s) = visible s"
  by (metis append_take_drop_id visible_simps(2))

lemma block_pieces_visible: "visible (concat (block_pieces capacity s)) = visible s"
proof (induction capacity s rule: block_pieces.induct)
  case (1 capacity s)
  then show ?case by (subst block_pieces.simps) (auto simp: visible_take_drop)
qed

lemma split_boundary_le: "split_boundary capacity s \<le> capacity"
proof -
  have "n \<le> capacity" if "rfind_space s (capacity + 1) = Some n" for n
    using find_SomeD [OF that [unfolded rfind_space_def]] by auto
  then show ?thesis by (auto simp: split_boundary_def split: option.splits nat.splits)
qed

lemma block_pieces_length:
  assumes "0 < capacity"
  shows "w \<in> set (block_pieces capacity s) \<Longrightarrow> length w \<le> capacity"
  using assms
proof (induction capacity s rule: block_pieces.induct)
  case (1 capacity s)
  have "length (strip (take (split_boundary capacity s) s)) \<le> capacity"
    using length_strip [of "take (split_boundary capacity s) s"] split_boundary_le [of capacity s] by simp
  then show ?case using 1 by (subst (asm) (2) block_pieces.simps) (auto split: if_splits)
qed

lemma join_pieces_visible: "visible (concat (join_pieces m capacity pending ps)) = visible (pending @ concat ps)"
  by (induction m capacity pending ps rule: join_pieces.induct) (auto simp: Let_def)

lemma join_pieces_length:
  assumes "length pending \<le> capacity" "\<forall>p\<in>set ps. length p \<le> capacity"
  shows "\<forall>w\<in>set (join_pieces m capacity pending ps). length w \<le> capacity"
  using assms by (induction m capacity pending ps rule: join_pieces.induct) (auto simp: Let_def)

lemma section_chunk_simps [simp]:
  "k_text (section_chunk nm i body) = section_prefix nm @ body" "k_index (section_chunk nm i body) = i"
  "k_section (section_chunk nm i body) = nm"
  by (simp_all add: section_chunk_def)

lemma chunk_section_bounds:
  assumes "chunk_section_structurally nm content a b = Inr cs"
  shows "\<forall>c\<in>set cs. int (length (k_text c)) \<le> b" "map k_index cs = [0..<length cs]"
    "visible (concat (map (\<lambda>c. drop (length (section_prefix nm)) (k_text c)) cs)) =
     visible (concat (split_text_into_structural_blocks content))"
proof -
  let ?cap = "nat b - length (section_prefix nm)"
  let ?pieces = "concat (map (block_pieces ?cap) (split_text_into_structural_blocks content))"
  have ok: "int (length (section_prefix nm)) < b"
    and cs: "cs = map (\<lambda>(i, body). section_chunk nm i body) (enumerate 0 (join_pieces (nat a) ?cap [] ?pieces))"
    using assms by (auto simp: chunk_section_structurally_def Let_def split: if_splits)
  have "\<forall>p\<in>set ?pieces. length p \<le> ?cap" using block_pieces_length [of ?cap] ok by auto
  then have "\<forall>w\<in>set (join_pieces (nat a) ?cap [] ?pieces). length w \<le> ?cap" by (intro join_pieces_length) auto
  then show "\<forall>c\<in>set cs. int (length (k_text c)) \<le> b"
    using ok by (auto simp: cs enumerate_eq_zip dest!: set_zip_rightD)
  show "map k_index cs = [0..<length cs]"
    by (simp add: cs comp_def case_prod_unfold)
  have "map (\<lambda>c. drop (length (section_prefix nm)) (k_text c)) cs = join_pieces (nat a) ?cap [] ?pieces"
    by (simp add: cs comp_def case_prod_unfold)
  moreover have "visible (concat (concat (map (block_pieces ?cap) bs))) = visible (concat bs)" for bs
    by (induction bs) (simp_all add: block_pieces_visible)
  ultimately show "visible (concat (map (\<lambda>c. drop (length (section_prefix nm)) (k_text c)) cs)) =
     visible (concat (split_text_into_structural_blocks content))"
    by (simp add: join_pieces_visible)
qed

text \<open>
  The names of parsed sections are canonical, so the size check of the chunker never fails on a
  document, and the chunk numbers of a document count up from 0.
\<close>

definition canonical_names :: "string set" where
  "canonical_names = fst ` set SECTION_ALIASES"

lemma canonical_names_eq: "canonical_names =
  {''SUMMARY'', ''EXPERIENCE'', ''SKILLS'', ''PROJECTS'', ''EDUCATION'', ''CERTIFICATIONS''}"
  by (auto simp: canonical_names_def SECTION_ALIASES_def)

lemma canonical_prefix: "nm \<in> canonical_names \<Longrightarrow> length (section_prefix nm) \<le> 26"
  by (auto simp: canonical_names_eq section_prefix_def)

lemma normalize_header_canonical [simp]: "normalize_header_to_canonical h \<in> canonical_names"
  by (auto simp: normalize_header_to_canonical_def Let_def canonical_names_def SECTION_ALIASES_def
      split: option.splits dest: find_SomeD)

lemma keys_append_section: "fst ` set (append_section nm content d) = insert nm (fst ` set d)"
  by (auto simp: append_section_def dom_update split: option.splits dest: map_of_SomeD)

lemma collect_sections_canonical:
  "fst ` set d \<subseteq> canonical_names \<Longrightarrow> fst ` set (collect_sections s ms d) \<subseteq> canonical_names"
proof (induction s ms d rule: collect_sections.induct)
  case (2 s m ms d)
  show ?case
    unfolding collect_sections.simps Let_def
    by (rule "2.IH" [OF refl refl]) (simp add: keys_append_section "2.prems")
qed simp

lemma parse_cv_sections_canonical: "fst ` set (parse_cv_sections s) \<subseteq> canonical_names"
proof (cases "s = [] \<or> re_finditer SECTION_HEADER_PATTERN s = []")
  case True
  then show ?thesis by (auto simp: parse_cv_sections_def canonical_names_eq)
next
  case False
  then obtain m ms where m: "re_finditer SECTION_HEADER_PATTERN s = m # ms" "s \<noteq> []"
    by (cases "re_finditer SECTION_HEADER_PATTERN s") auto
  show ?thesis
    unfolding parse_cv_sections_def Let_def
    by (simp only: m list.case if_False)
       (rule collect_sections_canonical, auto simp: canonical_names_eq)
qed

lemma chunk_section_total:
  assumes "nm \<in> canonical_names" "1 \<le> a" "a \<le> b" "26 < b"
  shows "\<exists>cs. chunk_section_structurally nm content a b = Inr cs"
  using canonical_prefix [OF assms(1)] assms(2-4) by (simp add: chunk_section_structurally_def Let_def)

definition chunking_ok :: "chunking \<Rightarrow> bool" where
  "chunking_ok st \<longleftrightarrow> c_section st \<in> canonical_names \<and> map k_global_id (c_chunks st) = [0..<length (c_chunks st)] \<and>
     list_all (\<lambda>c. length (k_text c) \<le> 600) (c_chunks st)"

text \<open>The repeated header adds at most 161 characters to a chunk of 420.\<close>

lemma with_header_length:
  assumes "length (k_text c) \<le> 420" "length header \<le> 160" "nm \<in> canonical_names"
  shows "length (k_text (with_header nm header c)) \<le> 600"
proof -
  have "length (section_prefix nm) + (length header + (length (k_text c) - length (section_prefix nm))) \<le> 599"
    using assms(1,2) canonical_prefix [OF assms(3)] by linarith
  then show ?thesis using assms(1) by (simp add: with_header_def Let_def)
qed

lemma flush_ok:
  assumes "chunking_ok st"
  shows "\<exists>t. flush st = Inr t \<and> chunking_ok t"
proof (cases "c_pending st = []")
  case True
  then show ?thesis using assms by (simp add: flush_def)
next
  case False
  let ?content = "join_with [newline, newline] (map fst (c_pending st))"
  have "c_section st \<in> canonical_names" using assms by (simp add: chunking_ok_def)
  then obtain cs where cs: "chunk_section_structurally (c_section st) ?content 400 420 = Inr cs"
    using chunk_section_total [of "c_section st" 400 420 ?content] by auto
  have "length (k_text c) \<le> 420" if "c \<in> set cs" for c using chunk_section_bounds(1) [OF cs] that by auto
  then have short: "length (k_text (with_header (c_section st) (take 160 w) c)) \<le> 600" if "c \<in> set cs" for c w
    using with_header_length [of c "take 160 w" "c_section st"] that assms by (simp add: chunking_ok_def)
  have "map (\<lambda>x. length (c_chunks st) + fst x) (enumerate 0 cs) = [length (c_chunks st)..<length (c_chunks st) + length cs]"
    by (rule nth_equalityI) (simp_all add: nth_enumerate_eq)
  then show ?thesis using False cs assms
    by (simp add: flush_def Let_def chunking_ok_def comp_def case_prod_unfold entry_location_def numbered_def
        upt_add_eq_append [symmetric] list_all_iff) (use short in \<open>auto simp: enumerate_eq_zip dest!: set_zip_rightD\<close>)
qed

lemma add_sections_ok:
  "chunking_ok st \<Longrightarrow> fst ` set secs \<subseteq> canonical_names \<Longrightarrow>
   \<exists>t. add_sections embedded next_text loc secs st = Inr t \<and> chunking_ok t"
proof (induction embedded next_text loc secs st rule: add_sections.induct)
  case (2 embedded next_text loc nm content secs st)
  obtain s1 where s1: "(if embedded then rbind (flush st) (\<lambda>t. Inr (t\<lparr>c_section := nm\<rparr>)) else Inr st) = Inr s1" "chunking_ok s1"
    using flush_ok [OF "2.prems"(1)] "2.prems" by (cases embedded) (auto simp: chunking_ok_def)
  obtain s2 where s2: "(if is_title (c_section s1) content next_text \<and> c_pending s1 \<noteq> [] then flush s1 else Inr s1) = Inr s2" "chunking_ok s2"
    using flush_ok [OF s1(2)] s1(2)
    by (cases "is_title (c_section s1) content next_text \<and> c_pending s1 \<noteq> []") auto
  have "chunking_ok (s2\<lparr>c_pending := c_pending s2 @ [(content, loc)]\<rparr>)" using s2(2) by (simp add: chunking_ok_def)
  then show ?case using "2.IH" [of s2] "2.prems"(2) s1(1) s2(1) by simp
qed simp

lemma add_block_ok:
  assumes "chunking_ok st"
  shows "\<exists>t. add_block n b next_text st = Inr t \<and> chunking_ok t"
proof (cases "re_fullmatch SECTION_HEADER_PATTERN (strip (b_text b))")
  case None
  then show ?thesis using add_sections_ok [OF assms parse_cv_sections_canonical] by (simp add: add_block_def)
next
  case (Some m)
  obtain t where "flush st = Inr t" "chunking_ok t" using flush_ok [OF assms] by blast
  then show ?thesis using Some by (simp add: add_block_def chunking_ok_def)
qed

lemma add_blocks_ok: "chunking_ok st \<Longrightarrow> \<exists>t. add_blocks n np bs st = Inr t \<and> chunking_ok t"
proof (induction bs arbitrary: st)
  case (Cons b bs)
  obtain t where "add_block n b (case bs of x # _ \<Rightarrow> b_text x | [] \<Rightarrow> (case np of x # _ \<Rightarrow> b_text x | [] \<Rightarrow> [])) st = Inr t"
    "chunking_ok t" using add_block_ok [OF Cons.prems] by blast
  then show ?case using Cons.IH by simp
qed simp

lemma add_pages_ok: "chunking_ok st \<Longrightarrow> \<exists>t. add_pages ps st = Inr t \<and> chunking_ok t"
proof (induction ps arbitrary: st)
  case (Cons p ps)
  obtain t where "add_blocks (g_number p) (case ps of [] \<Rightarrow> [] | q # _ \<Rightarrow> g_blocks q) (g_blocks p) st = Inr t"
    "chunking_ok t" using add_blocks_ok [OF Cons.prems] by blast
  then show ?case using Cons.IH by simp
qed simp

lemma rmap_total: "(\<And>x. x \<in> set xs \<Longrightarrow> \<exists>y. f x = Inr y) \<Longrightarrow> \<exists>ys. rmap f xs = Inr ys"
proof (induction xs)
  case (Cons x xs)
  then obtain y ys where "f x = Inr y" "rmap f xs = Inr ys" by (meson list.set_intros)
  then show ?case by simp
qed simp

lemma generate_total: "\<exists>cs. generate_cv_chunks cv pages = Inr cs \<and> map k_global_id cs = [0..<length cs] \<and>
  list_all (\<lambda>c. length (k_text c) \<le> 600) cs"
proof (cases pages)
  case (Some ps)
  have "chunking_ok \<lparr>c_chunks = [], c_section = ''EXPERIENCE'', c_pending = []\<rparr>"
    by (simp add: chunking_ok_def canonical_names_eq)
  then obtain st where st: "add_pages ps \<lparr>c_chunks = [], c_section = ''EXPERIENCE'', c_pending = []\<rparr> = Inr st" "chunking_ok st"
    using add_pages_ok by blast
  then show ?thesis using flush_ok [OF st(2)] Some by (auto simp: generate_cv_chunks_def chunking_ok_def)
next
  case None
  have "\<exists>ys. rmap (\<lambda>(nm, content). chunk_section_structurally nm content 150 600) (parse_cv_sections cv) = Inr ys"
    by (rule rmap_total) (use parse_cv_sections_canonical [of cv] chunk_section_total in fastforce)
  then obtain ys where ys: "rmap (\<lambda>(nm, content). chunk_section_structurally nm content 150 600) (parse_cv_sections cv) = Inr ys" ..
  have "\<forall>cs\<in>set ys. \<forall>c\<in>set cs. length (k_text c) \<le> 600"
    using ys unfolding rmap_Inr_iff
    by (induction rule: list_all2_induct) (auto dest!: chunk_section_bounds(1))
  then have "list_all (\<lambda>c. length (k_text c) \<le> 600) (map (\<lambda>(n, c). numbered n c) (enumerate 0 (concat ys)))"
    by (fastforce simp: list_all_iff numbered_def enumerate_eq_zip dest!: set_zip_rightD)
  then show ?thesis using None ys by (simp add: generate_cv_chunks_def comp_def case_prod_unfold numbered_def)
qed

end
