(* ===== verification/Coverage.thy ===== *)
theory Coverage
  imports Lexical Sections Shortlist
begin

text \<open>
  \<open>app/stage1_rules/relevance.py\<close>, \<open>app/stage2_retrieval/coverage.py\<close> and the extraction of
  \<open>evidence_extractor.py\<close>: relevance targets, the coverage a CV's passages give them, the score of
  Stage 2 and the payload the shortlist ranks. The embedding model and the reranker enter as the
  functions \<open>retrieve\<close> and \<open>rerank\<close>, the content hash as \<open>identity\<close>.
\<close>

section \<open>The relevance contract\<close>

datatype treatment = Requirement | Preference
datatype origin = Approved | Derived

record target =
  t_id :: string
  t_category :: string
  t_kind :: string
  t_text :: string
  t_importance :: rat
  t_treatment :: treatment
  t_terms :: "string list list"
  t_substitutes :: "string list"
  t_origin :: origin

record relevance_contract =
  rc_targets :: "target list"
  rc_minimum :: rat

definition CATEGORIES :: "string list" where
  "CATEGORIES = [''SKILLS'', ''EXPERIENCE'', ''PROJECTS'', ''EDUCATION'']"

definition target_kinds :: "string list" where
  "target_kinds = [''skill'', ''responsibility'', ''domain'', ''experience'', ''project'', ''education'']"

definition target_id_ok :: "string \<Rightarrow> bool" where
  "target_id_ok s \<longleftrightarrow> 1 \<le> length s \<and> length s \<le> 80 \<and> list_all (\<lambda>c. is_alnum c \<or> c \<in> set ''_-'') s"

definition validate_target :: "target \<Rightarrow> target result" where
  "validate_target t =
    (if \<not> target_id_ok (t_id t) \<or> t_category t \<notin> set CATEGORIES \<or> t_kind t \<notin> set target_kinds \<or>
        t_text t = [] \<or> 600 < length (t_text t) \<or> strip (t_text t) = [] \<or> \<not> (0 < t_importance t \<and> t_importance t \<le> 5) \<or>
        t_terms t = [] \<or> 8 < length (t_terms t)
     then Inl (ValueError ''Invalid relevance target'')
     else if list_ex (\<lambda>g. g = [] \<or> 20 < length g \<or> list_ex (\<lambda>w. strip w = [] \<or> 120 < length w) g) (t_terms t)
     then Inl (ValueError ''Evidence groups must contain bounded, nonblank terms'')
     else if t_kind t = ''domain'' \<and> t_treatment t \<noteq> Preference
     then Inl (ValueError ''Domain context must remain a soft preference'')
     else Inr t)"

definition validate_contract :: "relevance_contract \<Rightarrow> relevance_contract result" where
  "validate_contract c =
    (if 48 < length (rc_targets c) \<or> \<not> (0 \<le> rc_minimum c \<and> rc_minimum c \<le> 1)
     then Inl (ValueError ''Invalid relevance contract'')
     else rbind (rmap validate_target (rc_targets c)) (\<lambda>targets.
       if \<not> distinct (map t_id targets) then Inl (ValueError ''Relevance target IDs must be unique'')
       else Inr (c\<lparr>rc_targets := targets\<rparr>)))"

section \<open>Matching a term against a passage\<close>

definition action_words :: "string list" where
  "action_words = concat (map (\<lambda>(stem, suffixes). map (\<lambda>x. stem @ x) suffixes) [
     (''built'', [[]]), (''build'', [''ing'', ''s'', []]), (''develop'', [''ed'', ''ing'', ''s'', []]),
     (''implement'', [''ed'', ''ing'', ''s'', []]), (''design'', [''ed'', ''ing'', ''s'', []]),
     (''deploy'', [''ed'', ''ing'', ''s'', []]), (''operat'', [''e'', ''ed'', ''ing'', ''es'']),
     (''maintain'', [''ed'', ''ing'', ''s'', []]), (''test'', [''ed'', ''ing'', ''s'', []]),
     (''automat'', [''e'', ''ed'', ''ing'', ''es'']), (''deliver'', [''ed'', ''ing'', ''s'', []]),
     (''integrat'', [''e'', ''ed'', ''ing'', ''es'']), (''led'', [[]]), (''lead'', [''ing'', ''s'', []]),
     (''manag'', [''e'', ''ed'', ''ing'', ''es'']), (''architect'', [''ed'', ''ing'', ''s'', []]),
     (''optimiz'', [''e'', ''ed'', ''ing'', ''es'']), (''support'', [''ed'', ''ing'', ''s'', []]),
     (''resolv'', [''e'', ''ed'', ''ing'', ''es'']), (''creat'', [''e'', ''ed'', ''ing'', ''es'']),
     (''migrat'', [''e'', ''ed'', ''ing'', ''es'']), (''use'', [''d'', []]), (''using'', [[]]),
     (''review'', [''ed'', ''ing'', ''s'', []]), (''document'', [''ed'', ''ing'', ''s'', []]),
     (''introduc'', [''e'', ''ed'', ''ing'', ''es'']), (''add'', [''ed'', ''ing'', ''s'', []]),
     (''investigat'', [''e'', ''ed'', ''ing'', ''es'']), (''refactor'', [''ed'', ''ing'', ''s'', []]),
     (''reduc'', [''e'', ''ed'', ''ing'', ''es'']), (''troubleshoot'', [''ing'', ''s'', []]),
     (''configure'', [''d'', ''s'', []])])"

definition ACTION :: pattern where
  "ACTION = bounded_word action_words"

definition matching :: "string \<Rightarrow> string \<Rightarrow> bool" where
  "matching term s \<longleftrightarrow>
     (let normalized = '' '' @ normalize_lexical_v1 s @ '' '' in
      list_ex (\<lambda>alias. normalize_lexical_v1 alias \<noteq> [] \<and>
        (re_found (term_pattern alias) s \<or> contains ('' '' @ normalize_lexical_v1 alias @ '' '') normalized))
        (identity_terms [term]))"

definition passage_separator :: pattern where
  "passage_separator = Alt (any_of (newline # '';'')) (cats [Anchor (\<lambda>b a. b \<noteq> [] \<and> hd b \<in> set ''.!?''),
     spaces1, Anchor (\<lambda>b a. a \<noteq> [] \<and> is_upper (hd a))])"

section \<open>Targets of a job\<close>

text \<open>\<open>str.title()\<close>.\<close>

fun title_from :: "bool \<Rightarrow> string \<Rightarrow> string" where
  "title_from inside [] = []"
| "title_from inside (c # s) = (if is_upper c \<or> is_lower c
     then (if inside then lower_char c else upper_char c) # title_from True s else c # title_from False s)"

text \<open>A reviewed degree rule replaces the terms of the education target that names its level.\<close>

definition degree_terms :: "degree_requirement \<Rightarrow> target \<Rightarrow> target" where
  "degree_terms r t =
    (let level_terms = dict_fromkeys (title_from False (r_level r) # r_level_aliases r);
         field_terms = dict_fromkeys (r_fields r @ r_field_aliases r)
     in if t_kind t = ''education'' \<and> t_treatment t = Requirement \<and> r_level r \<noteq> ''NONE'' \<and>
           list_ex (\<lambda>w. matching w (t_text t)) level_terms
        then t\<lparr>t_terms := level_terms # (if field_terms \<noteq> [] then [field_terms] else [])\<rparr> else t)"

definition cluster_target :: "string \<Rightarrow> nat \<Rightarrow> string \<Rightarrow> string \<Rightarrow> string \<Rightarrow> treatment \<Rightarrow> bool \<Rightarrow> skill_cluster \<Rightarrow> target" where
  "cluster_target stem i category kind prefix tr with_substitutes c =
     \<lparr>t_id = stem @ show_nat i, t_category = category, t_kind = kind, t_text = prefix @ s_canonical c,
      t_importance = 1, t_treatment = tr, t_terms = [s_canonical c # s_aliases c],
      t_substitutes = (if with_substitutes then s_substitutes c else []), t_origin = Derived\<rparr>"

definition delivery_targets :: "string \<Rightarrow> skill_cluster list \<Rightarrow> target list" where
  "delivery_targets stem clusters = map (\<lambda>(i, c). cluster_target stem i ''EXPERIENCE'' ''experience''
     ''Hands-on delivery using '' Requirement True c) (enumerate 0 clusters)"

definition legacy_target :: "(string \<times> string) list \<Rightarrow> degree_requirement option \<Rightarrow> string \<Rightarrow> target list" where
  "legacy_target queries degree category =
    (let query = (case map_of queries category of None \<Rightarrow> [] | Some q \<Rightarrow> q) in
     if strip query = [] \<or> contains ''no explicit requirement'' (lower query) then []
     else if category = ''EXPERIENCE'' \<and>
             re_found (cats [word_boundary, lit_i ''year'', opt (chr_i CHR ''s''), word_boundary]) query then []
     else let plan = build_sparse_plan query category [] [] degree;
              groups = map sc_alternatives (filter (\<lambda>c. lower (sc_name c) \<notin> set STOP_WORDS) plan)
          in if groups = [] then []
             else [\<lparr>t_id = ''legacy_'' @ lower category, t_category = category,
                    t_kind = (if category = ''SKILLS'' then ''skill'' else if category = ''PROJECTS'' then ''project''
                              else lower category),
                    t_text = query, t_importance = 1, t_treatment = Requirement, t_terms = take 8 groups,
                    t_substitutes = [], t_origin = Derived\<rparr>])"

definition category_targets ::
  "(string \<times> string) list \<Rightarrow> skill_cluster list \<Rightarrow> skill_cluster list \<Rightarrow> degree_requirement option \<Rightarrow> string list \<Rightarrow>
   string \<Rightarrow> target list" where
  "category_targets queries required preferred degree explicit category =
    (if category \<in> set explicit then []
     else if category \<in> {''SKILLS'', ''EXPERIENCE''} \<and> required \<noteq> []
     then (if category = ''SKILLS''
           then map (\<lambda>(i, c). cluster_target ''derived_skills_'' i category ''skill'' [] Requirement True c) (enumerate 0 required) @
                map (\<lambda>(i, c). cluster_target ''derived_preferred_'' i category ''skill'' [] Preference False c) (enumerate 0 preferred)
           else delivery_targets ''derived_experience_'' required)
     else legacy_target queries degree category)"

definition resolve_targets ::
  "(string \<times> string) list \<Rightarrow> skill_cluster list \<Rightarrow> skill_cluster list \<Rightarrow> degree_requirement option \<Rightarrow>
   relevance_contract \<Rightarrow> (target list \<times> rat) result" where
  "resolve_targets queries required preferred degree contract =
     rbind (validate_contract contract) (\<lambda>c.
       let approved = map (\<lambda>t. t\<lparr>t_origin := Approved, t_substitutes := []\<rparr>) (rc_targets c);
           targets = (case degree of None \<Rightarrow> approved | Some r \<Rightarrow> map (degree_terms r) approved);
           explicit = map t_category (filter (\<lambda>t. t_treatment t = Requirement) targets);
           delivery = (if ''EXPERIENCE'' \<in> set explicit then delivery_targets ''derived_delivery_'' required else [])
       in Inr (targets @ delivery @
            concat (map (category_targets queries required preferred degree explicit) CATEGORIES), rc_minimum c))"

section \<open>Assessment of a target\<close>

datatype assessment_status = DIRECT | PARTIAL | MISSING_INFORMATION

record assessment =
  s_target_id :: string
  s_target_category :: string
  s_target_text :: string
  s_origin :: origin
  s_status :: assessment_status
  s_coverage :: rat
  s_citations :: "string list"
  s_matched_groups :: "nat list"
  s_supporting_text :: string
  s_accepted_substitute :: bool

definition unassessed :: "target \<Rightarrow> assessment" where
  "unassessed t = \<lparr>s_target_id = t_id t, s_target_category = t_category t, s_target_text = t_text t, s_origin = t_origin t,
     s_status = MISSING_INFORMATION, s_coverage = 0, s_citations = [], s_matched_groups = [], s_supporting_text = [],
     s_accepted_substitute = False\<rparr>"

definition applied_kind :: "string \<Rightarrow> bool" where
  "applied_kind k \<longleftrightarrow> k \<in> {''experience'', ''responsibility'', ''project''}"

definition matched_groups :: "target \<Rightarrow> string \<Rightarrow> nat list" where
  "matched_groups t passage = map fst (filter (\<lambda>(i, terms). list_ex (\<lambda>w. matching w passage) terms) (enumerate 0 (t_terms t)))"

text \<open>Whether a passage may support the target at all.\<close>

definition admissible :: "target \<Rightarrow> chunk \<Rightarrow> string \<Rightarrow> bool" where
  "admissible t c passage \<longleftrightarrow>
     (applied_kind (t_kind t) \<longrightarrow> k_category c \<in> {''EXPERIENCE'', ''PROJECTS''} \<and> re_found ACTION passage) \<and>
     \<not> re_found negation_pattern passage"

definition substitute_match :: "target \<Rightarrow> string \<Rightarrow> bool" where
  "substitute_match t passage \<longleftrightarrow> matched_groups t passage = [] \<and> list_ex (\<lambda>w. matching w passage) (t_substitutes t)"

definition passage_coverage :: "target \<Rightarrow> string \<Rightarrow> rat" where
  "passage_coverage t passage = (if substitute_match t passage then 1 / 2
     else of_nat (length (matched_groups t passage)) / of_nat (length (t_terms t)))"

definition assess_passage :: "target \<Rightarrow> chunk \<Rightarrow> string \<Rightarrow> assessment \<Rightarrow> assessment" where
  "assess_passage t c passage best =
    (let coverage = passage_coverage t passage; substitute = substitute_match t passage in
     if \<not> admissible t c passage \<or> coverage \<le> s_coverage best then best
     else best\<lparr>s_status := (if coverage = 1 \<and> \<not> substitute then DIRECT else PARTIAL), s_coverage := coverage,
            s_citations := [k_id c], s_matched_groups := matched_groups t passage,
            s_supporting_text := passage, s_accepted_substitute := substitute\<rparr>)"

definition chunk_passages :: "chunk \<Rightarrow> string list" where
  "chunk_passages c = re_split passage_separator (k_text c)"

definition assess_target :: "target \<Rightarrow> chunk list \<Rightarrow> assessment" where
  "assess_target t chunks =
     fold (\<lambda>(c, passage). assess_passage t c passage) (concat (map (\<lambda>c. map (Pair c) (chunk_passages c)) chunks)) (unassessed t)"

section \<open>The score of a candidate\<close>

type_synonym evidence_map = "(string \<times> chunk list) list"

definition evidence_of :: "evidence_map \<Rightarrow> string \<Rightarrow> chunk list" where
  "evidence_of evidence category = (case map_of evidence category of None \<Rightarrow> [] | Some cs \<Rightarrow> cs)"

type_synonym assessed = "(target \<times> assessment) list"

definition assess_all :: "target list \<Rightarrow> evidence_map \<Rightarrow> assessed" where
  "assess_all targets evidence = map (\<lambda>t. (t, assess_target t (evidence_of evidence (t_category t)))) targets"

definition average :: "assessed \<Rightarrow> rat" where
  "average items = (if items = [] then 0
     else (\<Sum>(t, a)\<leftarrow>items. t_importance t * s_coverage a) / (\<Sum>(t, a)\<leftarrow>items. t_importance t))"

text \<open>Preferences contribute at most a tenth, and only to a category with a requirement.\<close>

definition category_score :: "assessed \<Rightarrow> string \<Rightarrow> rat option" where
  "category_score assessed category =
    (let rows = filter (\<lambda>(t, a). t_category t = category) assessed;
         main = filter (\<lambda>(t, a). t_treatment t \<noteq> Preference) rows;
         prefs = filter (\<lambda>(t, a). t_treatment t = Preference) rows
     in if main = [] then None
        else Some (if prefs \<noteq> [] then min 1 (average main + 1 / 10 * average prefs) else average main))"

definition weight_of :: "(string \<times> rat) list \<Rightarrow> string \<Rightarrow> rat" where
  "weight_of weights category = (case map_of weights category of None \<Rightarrow> 0 | Some w \<Rightarrow> w)"

definition active_categories :: "assessed \<Rightarrow> string list" where
  "active_categories assessed = filter (\<lambda>c. category_score assessed c \<noteq> None) CATEGORIES"

definition total_weight :: "(string \<times> rat) list \<Rightarrow> assessed \<Rightarrow> rat" where
  "total_weight weights assessed = (\<Sum>c\<leftarrow>active_categories assessed. weight_of weights c)"

definition raw_score :: "(string \<times> rat) list \<Rightarrow> assessed \<Rightarrow> rat" where
  "raw_score weights assessed = (if total_weight weights assessed = 0 then 0
     else (\<Sum>c\<leftarrow>active_categories assessed. weight_of weights c * the (category_score assessed c)) / total_weight weights assessed)"

definition supported_count :: "assessed \<Rightarrow> nat" where
  "supported_count assessed = length (filter (\<lambda>(t, a). t_treatment t \<noteq> Preference \<and> 0 < s_coverage a) assessed)"

definition applied_supported :: "assessed \<Rightarrow> bool" where
  "applied_supported assessed =
    (let applied = filter (\<lambda>(t, a). applied_kind (t_kind t) \<and> t_treatment t \<noteq> Preference) assessed in
     applied = [] \<or> list_ex (\<lambda>(t, a). s_status a = DIRECT \<or> s_accepted_substitute a \<or>
       1 / 2 \<le> s_coverage a \<and> 2 \<le> length (s_matched_groups a)) applied)"

record coverage_result =
  cr_composite_score :: rat
  cr_category_scores :: "(string \<times> rat option) list"
  cr_assessments :: "assessment list"
  cr_active_weights :: "(string \<times> rat) list"
  cr_eligible :: bool
  cr_review_required :: bool
  cr_source_review :: bool
  cr_reason :: "string option"
  cr_supported :: nat
  cr_responsibility :: rat
  cr_applied :: rat

definition coverage_sum :: "(target \<Rightarrow> bool) \<Rightarrow> assessed \<Rightarrow> rat" where
  "coverage_sum P assessed = (\<Sum>(t, a)\<leftarrow>assessed. if P t then s_coverage a else 0)"

definition score_coverage :: "bool \<Rightarrow> target list \<Rightarrow> evidence_map \<Rightarrow> (string \<times> rat) list \<Rightarrow> rat \<Rightarrow> coverage_result" where
  "score_coverage production targets evidence weights minimum =
    (let assessed = assess_all targets evidence;
         score = raw_score weights assessed; total = total_weight weights assessed;
         supported = supported_count assessed;
         source_review = list_all (\<lambda>t. t_origin t \<noteq> Approved) targets;
         ok = (0 < supported \<and> applied_supported assessed \<and> 0 < score \<and> minimum \<le> score \<and>
               \<not> (production \<and> source_review))
     in \<lparr>cr_composite_score = py_round 6 score,
         cr_category_scores = map (\<lambda>c. (c, category_score assessed c)) CATEGORIES,
         cr_assessments = map snd assessed,
         cr_active_weights = (if total = 0 then [] else map (\<lambda>c. (c, weight_of weights c / total)) (active_categories assessed)),
         cr_eligible = ok, cr_review_required = (targets = [] \<or> \<not> ok), cr_source_review = source_review,
         cr_reason = (if source_review \<and> production then Some ''SOURCE_CONTEXT_REVIEW_REQUIRED''
            else if targets = [] then Some ''NO_RELEVANCE_TARGETS''
            else if \<not> ok then Some ''INSUFFICIENT_SUPPORTED_RELEVANCE'' else None),
         cr_supported = supported,
         cr_responsibility = coverage_sum (\<lambda>t. t_kind t = ''responsibility'') assessed,
         cr_applied = coverage_sum (\<lambda>t. t_kind t \<in> {''experience'', ''project''}) assessed\<rparr>)"

section \<open>Extraction of the evidence\<close>

definition DEFAULT_CATEGORY_WEIGHTS :: "(string \<times> rat) list" where
  "DEFAULT_CATEGORY_WEIGHTS = [(''EXPERIENCE'', 40 / 100), (''SKILLS'', 30 / 100), (''PROJECTS'', 15 / 100), (''EDUCATION'', 15 / 100)]"

definition no_requirement :: "string \<Rightarrow> bool" where
  "no_requirement query \<longleftrightarrow> strip query = [] \<or> contains ''no explicit requirement'' (lower query)"

definition resolve_retrieval_queries :: "(string \<times> string) list \<Rightarrow> skill_cluster list \<Rightarrow> (string \<times> string) list" where
  "resolve_retrieval_queries queries required =
    (if \<not> no_requirement (case map_of queries ''PROJECTS'' of None \<Rightarrow> [] | Some q \<Rightarrow> q) then queries
     else let skills = dict_fromkeys (filter (\<lambda>n. n \<noteq> []) (map (\<lambda>c. strip (s_canonical c)) required))
          in AList.update ''PROJECTS'' (''Projects demonstrating hands-on experience'' @
               (if skills = [] then [] else '' with '' @ join_with '', '' skills)) queries)"

definition retrieval_targets :: "(string \<times> string) list \<Rightarrow> target list \<Rightarrow> string \<Rightarrow> string list" where
  "retrieval_targets queries targets category =
    (let texts = dict_fromkeys (map t_text (filter (\<lambda>t. t_category t = category) targets));
         query = (case map_of queries category of None \<Rightarrow> [] | Some q \<Rightarrow> q);
         resolved = (if texts = [] \<and> \<not> no_requirement query then [query] else texts)
     in if category = ''EDUCATION'' \<and> resolved = [] then [''Education and certifications stated in the CV''] else resolved)"

definition source_categories :: "string \<Rightarrow> string list" where
  "source_categories category =
    (if category = ''SKILLS'' then [''SKILLS'', ''EXPERIENCE'', ''PROJECTS'']
     else if category \<in> {''EXPERIENCE'', ''PROJECTS''}
     then [category, if category = ''EXPERIENCE'' then ''PROJECTS'' else ''EXPERIENCE''] else [category])"

definition target_sparse_plan :: "string \<Rightarrow> string \<Rightarrow> target list \<Rightarrow> degree_requirement option \<Rightarrow> sparse_concept list" where
  "target_sparse_plan query category targets degree = take 128 (build_sparse_plan query category [] [] degree @
     concat (map (\<lambda>t. List.map_filter (\<lambda>(i, terms).
         let alternatives = filter (\<lambda>a. a \<noteq> []) (dict_fromkeys (map normalize_lexical_v1 (identity_terms terms))) in
         if alternatives = [] then None
         else Some \<lparr>sc_name = t_id t @ '':'' @ show_nat i, sc_alternatives = alternatives,
                    sc_priority = (if t_treatment t = Preference then ''preferred'' else ''required''),
                    sc_substitutes = []\<rparr>) (enumerate 0 (t_terms t)))
       (filter (\<lambda>t. t_category t = category \<and> t_text t = query) targets)))"

text \<open>\<open>max(hits, key=...)\<close>: the first hit of the best coverage.\<close>

fun best_hit :: "target \<Rightarrow> chunk \<Rightarrow> chunk list \<Rightarrow> chunk" where
  "best_hit t b [] = b"
| "best_hit t b (h # hs) =
     best_hit t (if s_coverage (assess_target t [b]) < s_coverage (assess_target t [h]) then h else b) hs"

definition best_lexical :: "chunk list \<Rightarrow> target list \<Rightarrow> chunk list" where
  "best_lexical hits targets = (case hits of [] \<Rightarrow> []
     | h # hs \<Rightarrow> List.map_filter (\<lambda>t. let b = best_hit t h hs in
         if 0 < s_coverage (assess_target t [b]) then Some b else None) targets)"

definition retain_evidence :: "chunk list \<Rightarrow> chunk list \<Rightarrow> chunk list \<Rightarrow> target list \<Rightarrow> chunk list" where
  "retain_evidence existing hits ranked targets =
     fold (\<lambda>c kept. if k_id c \<in> set (map k_id kept) then kept else kept @ [c]) (ranked @ best_lexical hits targets) existing"

type_synonym retriever = "string \<Rightarrow> sparse_concept list \<Rightarrow> chunk list \<Rightarrow> chunk list"
type_synonym reranker = "string \<Rightarrow> chunk list \<Rightarrow> chunk list"

definition category_evidence ::
  "retriever \<Rightarrow> reranker \<Rightarrow> target list \<Rightarrow> degree_requirement option \<Rightarrow> chunk list \<Rightarrow> string list \<Rightarrow> string \<Rightarrow> chunk list" where
  "category_evidence retrieve rerank targets degree chunks queries category =
    (let scoped = filter (\<lambda>c. k_category c \<in> set (source_categories category)) chunks in
     if queries = [] \<or> scoped = [] then []
     else fold (\<lambda>query kept.
       let hits = retrieve query (target_sparse_plan query category targets degree) scoped
       in retain_evidence kept hits (rerank query hits) (filter (\<lambda>t. t_category t = category) targets)) queries [])"

text \<open>The identity of a chunk until the database assigns one.\<close>

definition identified :: "(json list \<Rightarrow> string) \<Rightarrow> string \<Rightarrow> string \<Rightarrow> chunk \<Rightarrow> chunk" where
  "identified identity candidate_id cv c =
    (let document_id = ''unredacted:'' @ identity [JStr candidate_id, JStr cv] in
     c\<lparr>k_id := ''chunk:'' @ identity [JStr document_id, JNum (of_nat (k_global_id c)), JStr (k_text c)],
       k_location := (if k_location c = JNull
          then JDict [(''section'', JStr (k_section c)), (''chunk_index'', JNum (of_nat (k_index c)))] else k_location c)\<rparr>)"

datatype extraction_result = Empty_CV | No_Chunks | Evidence coverage_result "target list" evidence_map

definition extract_candidate_category_evidence ::
  "(json list \<Rightarrow> string) \<Rightarrow> retriever \<Rightarrow> reranker \<Rightarrow> bool \<Rightarrow> string \<Rightarrow> string \<Rightarrow> (string \<times> string) list \<Rightarrow>
   source_page list option \<Rightarrow> skill_cluster list \<Rightarrow> skill_cluster list \<Rightarrow> degree_requirement option \<Rightarrow>
   relevance_contract \<Rightarrow> extraction_result result" where
  "extract_candidate_category_evidence identity retrieve rerank production candidate_id cv queries pages required preferred degree contract =
    (if cv = [] then Inr Empty_CV
     else rbind (generate_cv_chunks cv pages) (\<lambda>chunks0.
       if chunks0 = [] then Inr No_Chunks
       else let chunks = map (identified identity candidate_id cv) chunks0 in
         rbind (resolve_targets queries required preferred degree contract) (\<lambda>(targets, minimum).
           let query_targets = retrieval_targets (resolve_retrieval_queries queries required) targets;
               evidence = map (\<lambda>c. (c, category_evidence retrieve rerank targets degree chunks (query_targets c) c)) CATEGORIES
           in Inr (Evidence (score_coverage production targets evidence DEFAULT_CATEGORY_WEIGHTS minimum) targets evidence))))"

text \<open>The payload of the shortlist; the snapshot fields that no selection reads are left out.\<close>

definition coverage_payload :: "string \<Rightarrow> coverage_result \<Rightarrow> pydict" where
  "coverage_payload candidate_id r = [(''candidate_id'', JStr candidate_id), (''scoring_version'', JStr SCORING_VERSION),
     (''composite_score'', JNum (cr_composite_score r)),
     (''category_scores'', JDict (map (\<lambda>(c, x). (c, opt_num x)) (cr_category_scores r))),
     (''active_category_weights'', JDict (map (\<lambda>(c, x). (c, JNum x)) (cr_active_weights r))),
     (''shortlist_eligible'', JBool (cr_eligible r)), (''relevance_review_required'', JBool (cr_review_required r)),
     (''source_context_review_required'', JBool (cr_source_review r)), (''relevance_reason'', opt_str (cr_reason r)),
     (''supported_target_count'', JNum (of_nat (cr_supported r))),
     (''responsibility_coverage'', JNum (cr_responsibility r)), (''applied_coverage'', JNum (cr_applied r)),
     (''calibration_status'', JStr ''UNVALIDATED''), (''status'', JStr ''SUCCESS'')]"

definition extraction_payload :: "string \<Rightarrow> extraction_result \<Rightarrow> pydict" where
  "extraction_payload candidate_id x = (case x of
     Empty_CV \<Rightarrow> [(''candidate_id'', JStr candidate_id), (''composite_score'', JNum 0),
        (''evidence_by_category'', JDict []), (''status'', JStr ''EMPTY_CV'')]
   | No_Chunks \<Rightarrow> [(''candidate_id'', JStr candidate_id), (''composite_score'', JNum 0),
        (''evidence_by_category'', JDict []), (''status'', JStr ''NO_CHUNKS'')]
   | Evidence r _ _ \<Rightarrow> coverage_payload candidate_id r)"

end
