(* ===== verification/Coverage_Bounds.thy ===== *)
theory Coverage_Bounds
  imports Coverage
begin

text \<open>
  What the Stage 2 score promises: an assessment is the best admissible passage, scores stay in the
  unit interval, and the payload is always accepted by the ranking of the shortlist.
\<close>

section \<open>Assessments\<close>

definition valid_terms :: "target \<Rightarrow> bool" where
  "valid_terms t \<longleftrightarrow> t_terms t \<noteq> [] \<and> 0 < t_importance t"

lemma matched_groups_length: "length (matched_groups t passage) \<le> length (t_terms t)"
  unfolding matched_groups_def using length_filter_le [of _ "enumerate 0 (t_terms t)"] by simp

lemma passage_coverage_unit: "0 \<le> passage_coverage t passage \<and> passage_coverage t passage \<le> 1"
proof -
  have "(of_nat (length (matched_groups t passage)) :: rat) \<le> of_nat (length (t_terms t))"
    using matched_groups_length by simp
  then show ?thesis
    by (cases "t_terms t = []") (auto simp: passage_coverage_def divide_le_eq)
qed

text \<open>The passage an assessment rests on, if it found any.\<close>

definition supported_by :: "target \<Rightarrow> (chunk \<times> string) list \<Rightarrow> assessment \<Rightarrow> bool" where
  "supported_by t ps a \<longleftrightarrow>
     (if s_coverage a = 0 then a = unassessed t
      else \<exists>(c, passage)\<in>set ps. admissible t c passage \<and> s_coverage a = passage_coverage t passage \<and>
        s_citations a = [k_id c] \<and> s_supporting_text a = passage \<and> s_matched_groups a = matched_groups t passage \<and>
        s_accepted_substitute a = substitute_match t passage)"

definition best_of :: "target \<Rightarrow> (chunk \<times> string) list \<Rightarrow> assessment \<Rightarrow> bool" where
  "best_of t ps a \<longleftrightarrow> supported_by t ps a \<and> 0 \<le> s_coverage a \<and> s_coverage a \<le> 1 \<and>
     (s_status a = MISSING_INFORMATION \<longleftrightarrow> s_coverage a = 0) \<and>
     (\<forall>(c, passage)\<in>set ps. admissible t c passage \<longrightarrow> passage_coverage t passage \<le> s_coverage a)"

lemma assess_passage_best:
  assumes "best_of t ps a"
  shows "best_of t (ps @ [(c, passage)]) (assess_passage t c passage a)"
proof (cases "\<not> admissible t c passage \<or> passage_coverage t passage \<le> s_coverage a")
  case True
  then have "assess_passage t c passage a = a" by (simp add: assess_passage_def Let_def)
  then show ?thesis using assms True by (auto simp: best_of_def supported_by_def)
next
  case False
  then have pos: "0 < passage_coverage t passage" "s_coverage a < passage_coverage t passage" "admissible t c passage"
    using assms by (auto simp: best_of_def)
  let ?b = "assess_passage t c passage a"
  have b: "s_coverage ?b = passage_coverage t passage" "s_citations ?b = [k_id c]" "s_supporting_text ?b = passage"
    "s_matched_groups ?b = matched_groups t passage" "s_accepted_substitute ?b = substitute_match t passage"
    "s_status ?b \<noteq> MISSING_INFORMATION"
    using False by (auto simp: assess_passage_def Let_def)
  have "\<forall>(d, q)\<in>set ps. admissible t d q \<longrightarrow> passage_coverage t q \<le> passage_coverage t passage"
    using assms pos(2) unfolding best_of_def by fastforce
  then show ?thesis
    using b pos passage_coverage_unit [of t passage] by (auto simp: best_of_def supported_by_def)
qed

definition all_passages :: "chunk list \<Rightarrow> (chunk \<times> string) list" where
  "all_passages chunks = concat (map (\<lambda>c. map (Pair c) (chunk_passages c)) chunks)"

lemma fold_assess_best:
  "best_of t ps a \<Longrightarrow> best_of t (ps @ qs) (fold (\<lambda>(c, passage). assess_passage t c passage) qs a)"
proof (induction qs arbitrary: ps a)
  case (Cons q qs)
  then show ?case using assess_passage_best [OF Cons.prems, of "fst q" "snd q"] Cons.IH [of "ps @ [q]"]
    by (cases q) simp
qed simp

lemma assess_target_best: "best_of t (all_passages chunks) (assess_target t chunks)"
proof -
  have "best_of t [] (unassessed t)" by (simp add: best_of_def supported_by_def unassessed_def)
  from fold_assess_best [OF this, of "all_passages chunks"] show ?thesis
    by (simp add: assess_target_def all_passages_def)
qed

lemma assess_target_unit: "0 \<le> s_coverage (assess_target t chunks)" "s_coverage (assess_target t chunks) \<le> 1"
  using assess_target_best [of t chunks] by (simp_all add: best_of_def)

section \<open>Weighted means\<close>

definition unit_items :: "assessed \<Rightarrow> bool" where
  "unit_items items \<longleftrightarrow> (\<forall>(t, a)\<in>set items. 0 < t_importance t \<and> 0 \<le> s_coverage a \<and> s_coverage a \<le> 1)"

lemma weighted_sum_bounds:
  fixes w x :: "'a \<Rightarrow> rat"
  assumes "\<forall>i\<in>set is. 0 \<le> w i \<and> 0 \<le> x i \<and> x i \<le> 1"
  shows "0 \<le> (\<Sum>i\<leftarrow>is. w i * x i)" "(\<Sum>i\<leftarrow>is. w i * x i) \<le> (\<Sum>i\<leftarrow>is. w i)" "0 \<le> (\<Sum>i\<leftarrow>is. w i)"
proof -
  have "0 \<le> (\<Sum>i\<leftarrow>is. w i * x i) \<and> (\<Sum>i\<leftarrow>is. w i * x i) \<le> (\<Sum>i\<leftarrow>is. w i) \<and> 0 \<le> (\<Sum>i\<leftarrow>is. w i)"
    using assms
  proof (induction "is")
    case (Cons i "is")
    have "w i * x i \<le> w i" "0 \<le> w i * x i" using Cons.prems by (auto intro: mult_left_le)
    then show ?case using Cons by (simp add: add_mono)
  qed simp
  then show "0 \<le> (\<Sum>i\<leftarrow>is. w i * x i)" "(\<Sum>i\<leftarrow>is. w i * x i) \<le> (\<Sum>i\<leftarrow>is. w i)" "0 \<le> (\<Sum>i\<leftarrow>is. w i)" by auto
qed

lemma average_unit: "unit_items items \<Longrightarrow> 0 \<le> average items \<and> average items \<le> 1"
proof -
  assume u: "unit_items items"
  have b: "\<forall>i\<in>set items. 0 \<le> t_importance (fst i) \<and> 0 \<le> s_coverage (snd i) \<and> s_coverage (snd i) \<le> 1"
    using u by (auto simp: unit_items_def intro: less_imp_le)
  note w = weighted_sum_bounds [of items "\<lambda>i. t_importance (fst i)" "\<lambda>i. s_coverage (snd i)", OF b]
  show ?thesis using w
    by (auto simp: average_def case_prod_unfold divide_le_eq_1 intro!: divide_nonneg_nonneg)
qed

lemma unit_items_filter: "unit_items items \<Longrightarrow> unit_items (filter P items)"
  by (auto simp: unit_items_def)

lemma assess_all_unit: "\<forall>t\<in>set targets. 0 < t_importance t \<Longrightarrow> unit_items (assess_all targets evidence)"
  by (auto simp: unit_items_def assess_all_def assess_target_unit)

lemma category_score_unit:
  assumes "unit_items assessed" "category_score assessed c = Some x"
  shows "0 \<le> x \<and> x \<le> 1"
  using assms average_unit [OF unit_items_filter [OF unit_items_filter [OF assms(1)]]]
  by (auto simp: category_score_def Let_def min_def split: if_splits)

lemma raw_score_unit:
  assumes "unit_items assessed" "\<forall>(c, w)\<in>set weights. 0 \<le> w"
  shows "0 \<le> raw_score weights assessed \<and> raw_score weights assessed \<le> 1"
proof -
  have nonneg: "0 \<le> weight_of weights c" for c
    using assms(2) by (auto simp: weight_of_def split: option.splits dest: map_of_SomeD)
  have "\<forall>c\<in>set (active_categories assessed). 0 \<le> weight_of weights c \<and> 0 \<le> the (category_score assessed c) \<and>
      the (category_score assessed c) \<le> 1"
    using nonneg category_score_unit [OF assms(1)] by (auto simp: active_categories_def)
  from weighted_sum_bounds [OF this] show ?thesis
    by (auto simp: raw_score_def total_weight_def divide_le_eq_1 intro!: divide_nonneg_nonneg)
qed

lemma round_half_even_bounds:
  assumes "0 \<le> x" "x \<le> of_int k"
  shows "0 \<le> round_half_even x \<and> round_half_even x \<le> k"
proof (cases "x = of_int k")
  case True
  then show ?thesis using assms by simp
next
  case False
  then have "\<lfloor>x\<rfloor> < k" using assms(2) by (simp add: floor_less_iff)
  then show ?thesis using assms(1) by (auto simp: round_half_even_def Let_def)
qed

lemma py_round_unit: "0 \<le> x \<Longrightarrow> x \<le> 1 \<Longrightarrow> 0 \<le> py_round n x \<and> py_round n x \<le> 1"
proof -
  assume "0 \<le> x" "x \<le> 1"
  then have "0 \<le> x * 10 ^ n" "x * 10 ^ n \<le> of_int (10 ^ n)" by simp_all
  from round_half_even_bounds [OF this]
  have "(0::rat) \<le> of_int (round_half_even (x * 10 ^ n))" "of_int (round_half_even (x * 10 ^ n)) \<le> (of_int (10 ^ n) :: rat)"
    by (simp, blast intro: of_int_le_iff [THEN iffD2])
  then show ?thesis by (simp add: py_round_def divide_le_eq_1)
qed

section \<open>The payload in the ranking\<close>

lemma payload_sort_key:
  "candidate_sort_key (coverage_payload i r) = Inr (- cr_composite_score r, - cr_responsibility r, - cr_applied r, i)"
  by (simp add: candidate_sort_key_def coverage_payload_def dget_def dindex_def)

lemma payload_eligible:
  "eligible (coverage_payload i r) \<longleftrightarrow> cr_eligible r \<and> 0 < cr_composite_score r \<and> cr_composite_score r \<le> 1"
  by (simp add: eligible_def coverage_payload_def dget_def)

text \<open>Targets of a job are valid when its contract is.\<close>

lemma validate_target_valid: "validate_target t = Inr u \<Longrightarrow> u = t \<and> valid_terms t"
  by (auto simp: validate_target_def valid_terms_def split: if_splits)

lemma degree_terms_valid: "valid_terms t \<Longrightarrow> valid_terms (degree_terms r t)"
  by (simp add: degree_terms_def valid_terms_def Let_def)

lemma cluster_target_valid [simp]: "valid_terms (cluster_target stem i c kind pre tr sub k)"
  by (simp add: cluster_target_def valid_terms_def)

lemma category_targets_valid: "t \<in> set (category_targets q req pref d ex c) \<Longrightarrow> valid_terms t"
  by (auto simp: category_targets_def delivery_targets_def legacy_target_def Let_def valid_terms_def
      cluster_target_def filter_empty_conv split: if_splits)

lemma resolve_targets_valid:
  assumes "resolve_targets queries required preferred degree contract = Inr (targets, minimum)"
  shows "\<forall>t\<in>set targets. valid_terms t" "0 \<le> minimum" "minimum \<le> 1"
proof -
  obtain c where c: "validate_contract contract = Inr c"
    using assms by (auto simp: resolve_targets_def rbind_Inr_conv)
  then obtain ts where ts: "rmap validate_target (rc_targets contract) = Inr ts" "rc_targets c = ts"
    "rc_minimum c = rc_minimum contract" "0 \<le> rc_minimum contract" "rc_minimum contract \<le> 1"
    by (auto simp: validate_contract_def rbind_Inr_conv split: if_splits)
  have v: "\<forall>t\<in>set (rc_targets c). valid_terms t"
  proof
    fix t assume "t \<in> set (rc_targets c)"
    then obtain u where "validate_target u = Inr t"
      using ts by (auto simp: rmap_Inr_iff list_all2_conv_all_nth in_set_conv_nth)
    then show "valid_terms t" using validate_target_valid by auto
  qed
  let ?approved = "map (\<lambda>t. t\<lparr>t_origin := Approved, t_substitutes := []\<rparr>) (rc_targets c)"
  let ?ts = "case degree of None \<Rightarrow> ?approved | Some r \<Rightarrow> map (degree_terms r) ?approved"
  have "\<forall>t\<in>set ?approved. valid_terms t" using v by (simp add: valid_terms_def)
  then have "\<forall>t\<in>set ?ts. valid_terms t" using degree_terms_valid by (cases degree) auto
  moreover have "\<forall>t\<in>set (delivery_targets stem cs). valid_terms t" for stem cs by (auto simp: delivery_targets_def)
  moreover obtain delivery ex where "targets = ?ts @ delivery @ concat (map (category_targets queries required preferred degree ex) CATEGORIES)"
    "delivery \<in> {[], delivery_targets ''derived_delivery_'' required}"
    using assms c by (auto simp: resolve_targets_def Let_def)
  ultimately show "\<forall>t\<in>set targets. valid_terms t" using category_targets_valid by fastforce
  show "0 \<le> minimum" "minimum \<le> 1" using assms c ts by (auto simp: resolve_targets_def Let_def)
qed

lemma default_weights_nonneg: "\<forall>(c, w)\<in>set DEFAULT_CATEGORY_WEIGHTS. 0 \<le> w"
  by (simp add: DEFAULT_CATEGORY_WEIGHTS_def)

lemma score_coverage_unit:
  assumes "\<forall>t\<in>set targets. valid_terms t" "\<forall>(c, w)\<in>set weights. 0 \<le> w"
  shows "0 \<le> cr_composite_score (score_coverage production targets evidence weights minimum)"
    "cr_composite_score (score_coverage production targets evidence weights minimum) \<le> 1"
proof -
  have "unit_items (assess_all targets evidence)"
    by (rule assess_all_unit) (use assms(1) in \<open>simp add: valid_terms_def\<close>)
  note u = raw_score_unit [OF this assms(2)]
  show "0 \<le> cr_composite_score (score_coverage production targets evidence weights minimum)"
    "cr_composite_score (score_coverage production targets evidence weights minimum) \<le> 1"
    using py_round_unit [of "raw_score weights (assess_all targets evidence)" 6] u
    by (simp_all add: score_coverage_def Let_def)
qed

section \<open>Where evidence comes from\<close>

lemma retain_evidence_set: "set (retain_evidence existing hits ranked targets) \<subseteq> set existing \<union> set ranked \<union> set hits"
proof -
  have best: "best_hit t b hs \<in> insert b (set hs)" for t b hs
    by (induction hs arbitrary: b) (auto split: if_splits)
  have lex: "set (best_lexical hits targets) \<subseteq> set hits"
    using best by (fastforce simp: best_lexical_def List.map_filter_def Let_def split: list.splits if_splits)
  have "set (fold (\<lambda>c kept. if k_id c \<in> set (map k_id kept) then kept else kept @ [c]) xs ys) \<subseteq> set xs \<union> set ys" for xs ys
    by (induction xs arbitrary: ys) (auto, fastforce)
  then show ?thesis using lex unfolding retain_evidence_def by (fastforce dest: subsetD)
qed

lemma fold_retain_distinct:
  "distinct (map k_id ys) \<Longrightarrow>
   distinct (map k_id (fold (\<lambda>c kept. if k_id c \<in> set (map k_id kept) then kept else kept @ [c]) xs ys))"
  by (induction xs arbitrary: ys) auto

lemma retain_evidence_distinct:
  "distinct (map k_id existing) \<Longrightarrow> distinct (map k_id (retain_evidence existing hits ranked targets))"
  unfolding retain_evidence_def by (rule fold_retain_distinct)

text \<open>Documented behaviour of the search and the reranker: they select from their input.\<close>

definition selects :: "retriever \<Rightarrow> reranker \<Rightarrow> bool" where
  "selects retrieve rerank \<longleftrightarrow> (\<forall>q p cs. set (retrieve q p cs) \<subseteq> set cs) \<and> (\<forall>q cs. set (rerank q cs) \<subseteq> set cs)"

lemma category_evidence_source:
  assumes "selects retrieve rerank"
  shows "set (category_evidence retrieve rerank targets degree chunks queries category) \<subseteq>
      {c \<in> set chunks. k_category c \<in> set (source_categories category)}"
    "distinct (map k_id (category_evidence retrieve rerank targets degree chunks queries category))"
proof -
  let ?scoped = "filter (\<lambda>c. k_category c \<in> set (source_categories category)) chunks"
  let ?step = "\<lambda>query kept. let hits = retrieve query (target_sparse_plan query category targets degree) ?scoped
       in retain_evidence kept hits (rerank query hits) (filter (\<lambda>t. t_category t = category) targets)"
  have step: "set (?step q kept) \<subseteq> set kept \<union> set ?scoped" for q kept
    using retain_evidence_set assms unfolding selects_def Let_def by blast
  have "set kept \<subseteq> set ?scoped \<Longrightarrow> distinct (map k_id kept) \<Longrightarrow>
      set (fold ?step qs kept) \<subseteq> set ?scoped \<and> distinct (map k_id (fold ?step qs kept))" for qs kept
  proof (induction qs arbitrary: kept)
    case (Cons q qs)
    have "set (?step q kept) \<subseteq> set ?scoped" using step [of q kept] Cons.prems by blast
    moreover have "distinct (map k_id (?step q kept))"
      unfolding Let_def by (rule retain_evidence_distinct [OF Cons.prems(2)])
    ultimately show ?case using Cons.IH by simp
  qed simp
  from this [of "[]" queries] show "set (category_evidence retrieve rerank targets degree chunks queries category) \<subseteq>
      {c \<in> set chunks. k_category c \<in> set (source_categories category)}"
    "distinct (map k_id (category_evidence retrieve rerank targets degree chunks queries category))"
    by (auto simp: category_evidence_def Let_def)
qed

end
