(* ===== verification/Hybrid_Search.thy ===== *)
theory Hybrid_Search
  imports Coverage_Bounds
begin

text \<open>
  The search over the chunks of one category (\<open>stage2_retrieval/hybrid_search.py\<close>), the reranker
  (\<open>stage2_retrieval/reranker.py\<close>) and the counts they report
  (\<open>retrieval_diagnostics\<close> of \<open>stage2_retrieval/sparse.py\<close>). The embeddings, the square float_sqrt of
  the floating point library and the scores of the cross encoder are parameters.
\<close>

section \<open>Dense and lexical search\<close>

definition cosine_similarity :: "(rat \<Rightarrow> rat) \<Rightarrow> rat list \<Rightarrow> rat list \<Rightarrow> rat" where
  "cosine_similarity float_sqrt u v =
    (if u = [] \<or> v = [] \<or> length u \<noteq> length v then 0
     else let norm_u = float_sqrt (\<Sum>a\<leftarrow>u. a * a); norm_v = float_sqrt (\<Sum>b\<leftarrow>v. b * b)
       in if norm_u = 0 \<or> norm_v = 0 then 0 else (\<Sum>(a, b)\<leftarrow>zip u v. a * b) / (norm_u * norm_v))"

definition plain_hit :: "chunk \<Rightarrow> hit" where
  "plain_hit c = \<lparr>h_id = k_id c, h_text = k_text c, h_dense_score = None, h_sparse = None, h_rrf_score = 0,
     h_dense_rank = None, h_sparse_rank = None\<rparr>"

definition dense_hits :: "(rat \<Rightarrow> rat) \<Rightarrow> (string \<Rightarrow> rat list) \<Rightarrow> rat list \<Rightarrow> nat \<Rightarrow> chunk list \<Rightarrow> hit list" where
  "dense_hits float_sqrt embedding query_vector top_k chunks =
     take top_k (sort_key (\<lambda>h. (- the (h_dense_score h), h_id h))
       (map (\<lambda>c. (plain_hit c)\<lparr>h_dense_score := Some (py_round 4 (cosine_similarity float_sqrt query_vector (embedding (k_text c))))\<rparr>)
         (filter (\<lambda>c. embedding (k_text c) \<noteq> []) chunks)))"

definition sparse_hits :: "sparse_concept list \<Rightarrow> nat \<Rightarrow> chunk list \<Rightarrow> hit list" where
  "sparse_hits plan top_k chunks =
     take top_k (sort_key (\<lambda>h. (map (\<lambda>n. - int n) (the (h_sparse h)), h_id h))
       (map (\<lambda>c. (plain_hit c)\<lparr>h_sparse := Some (plan_coverage plan (k_text c))\<rparr>)
         (filter (\<lambda>c. list_ex (\<lambda>n. n \<noteq> 0) (plan_coverage plan (k_text c))) chunks)))"

definition execute_category_hybrid_search ::
  "(rat \<Rightarrow> rat) \<Rightarrow> (string \<Rightarrow> rat list) \<Rightarrow> string \<Rightarrow> rat list \<Rightarrow> chunk list \<Rightarrow> nat \<Rightarrow> nat \<Rightarrow> sparse_concept list \<Rightarrow> hit list" where
  "execute_category_hybrid_search float_sqrt embedding query query_vector chunks top_k k_rrf plan =
    (if chunks = [] \<or> query = [] then []
     else compute_rrf_score k_rrf (Some (2 * top_k)) (dense_hits float_sqrt embedding query_vector top_k chunks)
            (sparse_hits plan top_k chunks))"

text \<open>A hit is a copy of its chunk with the scores added; the passages of the hits in their order.\<close>

definition hit_chunks :: "chunk list \<Rightarrow> hit list \<Rightarrow> chunk list" where
  "hit_chunks chunks hits = List.map_filter (\<lambda>h. find (\<lambda>c. k_id c = h_id h) chunks) hits"

definition search_chunks :: "(rat \<Rightarrow> rat) \<Rightarrow> (string \<Rightarrow> rat list) \<Rightarrow> retriever" where
  "search_chunks float_sqrt embedding query plan chunks =
     hit_chunks chunks (execute_category_hybrid_search float_sqrt embedding query (embedding query) chunks 10 60 plan)"

definition rerank_category_chunks :: "(string \<Rightarrow> string \<Rightarrow> rat) \<Rightarrow> nat \<Rightarrow> reranker" where
  "rerank_category_chunks predict top_n query chunks =
    (if query = [] \<or> chunks = [] then []
     else take top_n (map snd (sort_key (\<lambda>(score, c). - score) (map (\<lambda>c. (py_round 4 (predict query (k_text c)), c)) chunks))))"

record diagnostics =
  g_version :: string
  g_concepts :: nat
  g_dense :: nat
  g_sparse :: nat
  g_fused :: nat
  g_returned :: nat
  g_returned_sparse :: nat

definition retrieval_diagnostics :: "sparse_concept list \<Rightarrow> hit list \<Rightarrow> hit list \<Rightarrow> diagnostics" where
  "retrieval_diagnostics plan hits ranked =
    \<lparr>g_version = LEXICAL_VERSION, g_concepts = length plan,
     g_dense = length (filter (\<lambda>h. h_dense_rank h \<noteq> None) hits),
     g_sparse = length (filter (\<lambda>h. h_sparse_rank h \<noteq> None) hits), g_fused = length hits,
     g_returned = length ranked, g_returned_sparse = length (filter (\<lambda>h. h_sparse_rank h \<noteq> None) ranked)\<rparr>"

section \<open>What a search returns\<close>

lemma set_dense_hits: "h \<in> set (dense_hits float_sqrt embedding v n chunks) \<Longrightarrow> h_id h \<in> k_id ` set chunks"
  by (auto simp: dense_hits_def plain_hit_def dest!: in_set_takeD)

lemma set_sparse_hits: "h \<in> set (sparse_hits plan n chunks) \<Longrightarrow> h_id h \<in> k_id ` set chunks"
  by (auto simp: sparse_hits_def plain_hit_def dest!: in_set_takeD)

lemma compute_rrf_take: "compute_rrf_score k (Some n) ds ss = take n (compute_rrf_score k None ds ss)"
  by (simp add: compute_rrf_score_def)

lemma hybrid_search_ids:
  "distinct (map h_id (execute_category_hybrid_search float_sqrt embedding q v chunks n k plan))"
  "h_id ` set (execute_category_hybrid_search float_sqrt embedding q v chunks n k plan) \<subseteq> k_id ` set chunks"
  "length (execute_category_hybrid_search float_sqrt embedding q v chunks n k plan) \<le> 2 * n"
proof -
  let ?ds = "dense_hits float_sqrt embedding v n chunks" and ?ss = "sparse_hits plan n chunks"
  have "h_id ` set (take (2 * n) (compute_rrf_score k None ?ds ?ss)) \<subseteq> h_id ` set ?ds \<union> h_id ` set ?ss"
    unfolding compute_rrf_ids(2) [of k ?ds ?ss, unfolded set_map, symmetric] by (rule image_mono [OF set_take_subset])
  also have "\<dots> \<subseteq> k_id ` set chunks" by (auto dest: set_dense_hits set_sparse_hits)
  finally show "h_id ` set (execute_category_hybrid_search float_sqrt embedding q v chunks n k plan) \<subseteq> k_id ` set chunks"
    by (simp add: execute_category_hybrid_search_def compute_rrf_take)
  show "distinct (map h_id (execute_category_hybrid_search float_sqrt embedding q v chunks n k plan))"
    using distinct_take [OF compute_rrf_ids(1)] by (simp add: execute_category_hybrid_search_def compute_rrf_take take_map)
  show "length (execute_category_hybrid_search float_sqrt embedding q v chunks n k plan) \<le> 2 * n"
    by (simp add: execute_category_hybrid_search_def compute_rrf_take)
qed

lemma set_hit_chunks: "set (hit_chunks chunks hits) \<subseteq> set chunks"
  by (auto simp: hit_chunks_def List.map_filter_def split: option.splits dest: find_SomeD)

text \<open>The search and the reranker discharge what the extraction relies on.\<close>

lemma selects_search: "selects (search_chunks float_sqrt embedding) (rerank_category_chunks predict n)"
  unfolding selects_def search_chunks_def rerank_category_chunks_def
  using set_hit_chunks by (auto dest!: in_set_takeD)

lemmas searched_evidence = category_evidence_source [OF selects_search]

text \<open>The lexical branch returns only chunks that mention a concept of the plan.\<close>

lemma sparse_hits_mention:
  "h \<in> set (sparse_hits plan n chunks) \<Longrightarrow>
     \<exists>c \<in> set chunks. h_id h = k_id c \<and> list_ex (\<lambda>m. m \<noteq> 0) (plan_coverage plan (k_text c))"
  by (auto simp: sparse_hits_def plain_hit_def dest!: in_set_takeD) (blast intro: refl)

end
