(* ===== verification/Experience.thy ===== *)
theory Experience
  imports Sections
begin

text \<open>
  \<open>app/stage1_rules/experience.py\<close>: the total experience a CV claims, or else the union of its
  month-dated employment intervals.
\<close>

section \<open>Explicit totals\<close>

fun digits_value :: "nat \<Rightarrow> string \<Rightarrow> nat" where
  "digits_value acc [] = acc"
| "digits_value acc (c # s) = digits_value (10 * acc + (code_point c - 48)) s"

definition int_of_digits :: "string \<Rightarrow> int" where
  "int_of_digits s = int (digits_value 0 s)"

text \<open>\<open>float\<close> of digits with an optional fraction.\<close>

definition decimal_value :: "string \<Rightarrow> rat" where
  "decimal_value s = (case split_char CHR ''.'' s of
     [w, f] \<Rightarrow> of_nat (digits_value 0 w) + of_nat (digits_value 0 f) / 10 ^ length f
   | _ \<Rightarrow> of_nat (digits_value 0 s))"

definition digits1 :: pattern where "digits1 = plus (Sym is_digit)"

definition decimal_pattern :: pattern where
  "decimal_pattern = Capture 1 (Cat digits1 (opt (Cat (chr CHR ''.'') digits1)))"

definition years_pattern :: pattern where
  "years_pattern = Alt (Cat (lit_i ''year'') (opt (chr_i CHR ''s''))) (Cat (lit_i ''yr'') (opt (chr_i CHR ''s'')))"

definition total_first_pattern :: pattern where
  "total_first_pattern = cats [Alt (lit_i ''total'') (lit_i ''overall''), spaces1,
     opt (Cat (Alt (lit_i ''professional'') (lit_i ''work'')) spaces1), lit_i ''experience'',
     spaces0, opt (any_of '':=-''), spaces0, decimal_pattern, spaces0, opt (chr CHR ''+''), spaces0,
     years_pattern, word_boundary]"

definition years_first_pattern :: pattern where
  "years_first_pattern = cats [decimal_pattern, spaces0, opt (chr CHR ''+''), spaces0, years_pattern, spaces1,
     opt (Cat (lit_i ''of'') spaces1),
     plus (Cat (alts (map lit_i [''total'', ''overall'', ''professional'', ''work'', ''industry''])) spaces1),
     lit_i ''experience'', word_boundary]"

definition bound_prefix_pattern :: pattern where
  "bound_prefix_pattern = cats [alts (map lit_i [''over'', ''more than'', ''at least'', ''about'', ''approximately'',
       ''nearly'', ''under'', ''less than''] @ [cats [Sym is_digit, spaces0, chr CHR ''-'']]), spaces0, text_end]"

definition skill_suffix_pattern :: pattern where
  "skill_suffix_pattern = cats [spaces0, alts (map lit_i [''in'', ''with'', ''using'', ''of'']), word_boundary]"

text \<open>What a claim says: nothing (a bound, a range, one skill) or an exact total.\<close>

definition exact_claim :: "string \<Rightarrow> found \<Rightarrow> bool" where
  "exact_claim line m \<longleftrightarrow> \<not> re_found bound_prefix_pattern (slice line 0 (m_start m)) \<and>
     \<not> contains ''+'' (matched line m) \<and>
     re_match skill_suffix_pattern (slice line (m_end m) (length line)) = None"

definition claim_matches :: "string \<Rightarrow> found list" where
  "claim_matches line = re_finditer total_first_pattern line @ re_finditer years_first_pattern line"

definition collapse_spaces :: "string \<Rightarrow> string" where
  "collapse_spaces s = strip (re_sub spaces1 '' '' s)"

definition paragraphs :: "string \<Rightarrow> string list" where
  "paragraphs s = map collapse_spaces (re_split (cats [chr newline, spaces0, chr newline]) s)"

definition line_claims :: "string \<Rightarrow> (rat \<times> string) list" where
  "line_claims line = map (\<lambda>m. (decimal_value (m_group m 1), strip line)) (filter (exact_claim line) (claim_matches line))"

section \<open>Dated employment\<close>

record date =
  d_year :: int
  d_month :: int
  d_iso :: string

datatype experience =
    Claimed (claimed_years: rat) (claimed_excerpt: string)
  | Dated (dated_months: int) (dated_intervals: "(int \<times> int) list") (dated_as_of: string) (dated_excerpt: string)

text \<open>\<open>evidence["years"]\<close> and \<open>evidence.get("years_upper_bound", d)\<close>.\<close>

fun experience_years :: "experience \<Rightarrow> rat" where
  "experience_years (Claimed y _) = y"
| "experience_years (Dated n _ _ _) = of_int n / 12"

fun years_upper_bound :: "experience \<Rightarrow> rat \<Rightarrow> rat" where
  "years_upper_bound (Claimed _ _) d = d"
| "years_upper_bound (Dated n iv _ _) d = (of_int n + of_nat (length iv)) / 12"

definition month_names :: "string list" where
  "month_names = [''jan'', ''feb'', ''mar'', ''apr'', ''may'', ''jun'', ''jul'', ''aug'', ''sep'', ''oct'', ''nov'', ''dec'']"

definition month_number :: "string \<Rightarrow> int option" where
  "month_number s = map_of (zip month_names [1..12]) s"

definition letter :: "char \<Rightarrow> bool" where "letter c = (is_upper c \<or> is_lower c)"

definition endpoint_pattern :: pattern where
  "endpoint_pattern = (let d = Sym is_digit; d12 = Cat d (opt d); d4 = cats [d, d, d, d]; sep = any_of ''/.-'' in
     alts [cats [plus (Sym letter), opt (chr CHR ''.''), spaces1, d4], cats [d12, sep, d4], cats [d4, sep, d12],
           d4, lit_i ''Present'', lit_i ''Current'', lit_i ''Now''])"

definition range_pattern :: pattern where
  "range_pattern = cats [Capture 1 endpoint_pattern, spaces0,
     Alt (chr CHR ''-'') (cats [word_boundary, lit_i ''to'', word_boundary]), spaces0, Capture 2 endpoint_pattern]"

definition role_pattern :: pattern where
  "role_pattern = cats [line_start, plus (Sym (\<lambda>c. c \<noteq> newline \<and> c \<noteq> CHR ''|'')), chr CHR ''|'',
     plus (Sym (\<lambda>c. c \<noteq> newline)), line_end]"

definition PRESENT_WORDS :: "string list" where
  "PRESENT_WORDS = [''present'', ''current'', ''now'']"

definition this_month :: "date \<Rightarrow> int" where
  "this_month today = d_year today * 12 + d_month today - 1"

definition valid_month :: "date \<Rightarrow> int \<Rightarrow> int \<Rightarrow> int result" where
  "valid_month today year month =
    (if \<not> (1 \<le> month \<and> month \<le> 12) \<or> \<not> (1900 \<le> year \<and> year \<le> d_year today)
     then Inl (ValueError ''Invalid employment date'') else Inr (year * 12 + month - 1))"

definition month_index :: "date \<Rightarrow> string \<Rightarrow> int result" where
  "month_index today raw =
    (let value = lower (strip raw) in
     if value \<in> set PRESENT_WORDS then Inr (this_month today)
     else if re_fullmatch (cats [Sym is_digit, Sym is_digit, Sym is_digit, Sym is_digit]) value \<noteq> None
     then Inl (ValueError ''Year-only dates cannot establish precise duration'')
     else if value \<noteq> [] \<and> letter (hd value)
     then (case words value of
        [nm, year] \<Rightarrow> (case month_number (take 3 nm) of
            None \<Rightarrow> Inl (KeyError (take 3 nm))
          | Some month \<Rightarrow> valid_month today (int_of_digits year) month)
      | _ \<Rightarrow> Inl (ValueError ''not enough values to unpack''))
     else (case re_split (any_of ''/.-'') value of
        [f, g] \<Rightarrow> (let a = int_of_digits f; b = int_of_digits g in
            if 1900 \<le> a then valid_month today a b else valid_month today b a)
      | _ \<Rightarrow> Inl (ValueError ''not enough values to unpack'')))"

text \<open>One range; a reversed or future range, or one from the present, makes the history unusable.\<close>

definition range_interval :: "date \<Rightarrow> found \<Rightarrow> (int \<times> int) result" where
  "range_interval today m =
    rbind (month_index today (m_group m 1)) (\<lambda>start. rbind (month_index today (m_group m 2)) (\<lambda>stop.
      if stop < start \<or> this_month today < stop \<or> lower (m_group m 1) \<in> set PRESENT_WORDS
      then Inl (ValueError ''unusable range'') else Inr (start, stop)))"

text \<open>The merge of overlapping intervals; \<open>merged\<close> is kept with its last element first.\<close>

fun merge_step :: "(int \<times> int) list \<Rightarrow> int \<times> int \<Rightarrow> (int \<times> int) list" where
  "merge_step [] (s, e) = [(s, e)]"
| "merge_step ((a, b) # ms) (s, e) = (if s \<le> b then (a, max e b) # ms else (s, e) # (a, b) # ms)"

definition merge_intervals :: "(int \<times> int) list \<Rightarrow> (int \<times> int) list" where
  "merge_intervals xs = rev (foldl merge_step [] (sort xs))"

definition total_months :: "(int \<times> int) list \<Rightarrow> int" where
  "total_months merged = (\<Sum>(s, e)\<leftarrow>merged. e - s)"

text \<open>Every role of the history has a date range before the next role.\<close>

fun roles_dated :: "nat \<Rightarrow> found list \<Rightarrow> found list \<Rightarrow> bool" where
  "roles_dated n ranges [] = True"
| "roles_dated n ranges (r # rs) =
    (let stop = (case rs of [] \<Rightarrow> n | q # _ \<Rightarrow> m_start q)
     in list_ex (\<lambda>m. m_start r \<le> m_start m \<and> m_start m < stop) ranges \<and> roles_dated n ranges rs)"

definition has_experience_header :: "string \<Rightarrow> bool" where
  "has_experience_header s = list_ex (\<lambda>m. normalize_header_to_canonical (m_group m 1) = ''EXPERIENCE'')
     (re_finditer SECTION_HEADER_PATTERN s)"

definition dated_history :: "date \<Rightarrow> string \<Rightarrow> experience option" where
  "dated_history today history =
    (let ranges = re_finditer range_pattern history in
     if ranges = [] \<or> \<not> roles_dated (length history) ranges (re_finditer role_pattern history) then None
     else case rmap (range_interval today) ranges of
         Inl _ \<Rightarrow> None
       | Inr intervals \<Rightarrow> (let merged = merge_intervals intervals in
           Some (Dated (total_months merged) merged (d_iso today)
             (join_with [newline] (map (matched history) ranges)))))"

definition dated_work_experience :: "date \<Rightarrow> string \<Rightarrow> experience option" where
  "dated_work_experience today s =
    (if \<not> has_experience_header s then None
     else dated_history today (case map_of (parse_cv_sections s) ''EXPERIENCE'' of None \<Rightarrow> [] | Some h \<Rightarrow> h))"

definition extract_experience :: "date \<Rightarrow> string \<Rightarrow> experience option" where
  "extract_experience today s =
    (let claims = concat (map line_claims (paragraphs s)) in
     if claims \<noteq> [] \<and> length (dict_fromkeys (map fst claims)) = 1
     then Some (Claimed (fst (hd claims)) (snd (hd claims)))
     else if list_ex (\<lambda>line. claim_matches line \<noteq> []) (paragraphs s) then None
     else dated_work_experience today s)"

section \<open>The months of a history are counted once\<close>

definition covered :: "(int \<times> int) list \<Rightarrow> int set" where
  "covered xs = (\<Union>(s, e)\<in>set xs. {s..<e})"

lemma covered_simps [simp]: "covered [] = {}" "covered ((s, e) # xs) = {s..<e} \<union> covered xs"
  "covered (xs @ ys) = covered xs \<union> covered ys"
  by (auto simp: covered_def)

lemma covered_cong: "set xs = set ys \<Longrightarrow> covered xs = covered ys"
  by (simp add: covered_def)

lemma finite_covered [simp]: "finite (covered xs)"
  by (auto simp: covered_def)

text \<open>Separated intervals, the last one first.\<close>

fun separated :: "(int \<times> int) list \<Rightarrow> bool" where
  "separated [] = True"
| "separated [(s, e)] = (s \<le> e)"
| "separated ((s, e) # (a, b) # ms) = (s \<le> e \<and> b < s \<and> separated ((a, b) # ms))"

lemma separated_below: "separated ((s, e) # ms) \<Longrightarrow> x \<in> covered ms \<Longrightarrow> x < s"
proof (induction ms arbitrary: s e)
  case (Cons p ms)
  obtain a b where p: "p = (a, b)" by (cases p)
  then show ?case using Cons.IH [of a b] Cons.prems
    by (cases ms) (auto split: prod.splits)
qed simp

lemma separated_tl: "separated (p # ms) \<Longrightarrow> separated ms"
  by (cases p; cases ms) auto

lemma separated_card: "separated ms \<Longrightarrow> int (card (covered ms)) = total_months ms"
proof (induction ms)
  case (Cons p ms)
  obtain s e where p: "p = (s, e)" by (cases p)
  have le: "s \<le> e" using Cons.prems p by (cases ms) auto
  have "{s..<e} \<inter> covered ms = {}" using separated_below [OF Cons.prems [unfolded p]] by fastforce
  then have "card (covered (p # ms)) = card {s..<e} + card (covered ms)"
    using p by (simp add: card_Un_disjoint)
  then show ?case using Cons.IH [OF separated_tl [OF Cons.prems]] le p by (simp add: total_months_def)
qed (simp add: total_months_def)

lemma merge_step_separated:
  assumes "separated ms" "s \<le> e" "ms \<noteq> [] \<Longrightarrow> fst (hd ms) \<le> s"
  shows "separated (merge_step ms (s, e)) \<and> covered (merge_step ms (s, e)) = {s..<e} \<union> covered ms \<and>
    fst (hd (merge_step ms (s, e))) \<le> s \<and> merge_step ms (s, e) \<noteq> []"
proof (cases ms)
  case Nil
  then show ?thesis using assms by auto
next
  case (Cons p qs)
  obtain a b where p: "p = (a, b)" by (cases p)
  have ab: "a \<le> b" "a \<le> s" using assms(1,3) Cons p by (cases qs; auto)+
  show ?thesis
  proof (cases "s \<le> b")
    case True
    have "separated ((a, max e b) # qs)" using assms(1) Cons p ab by (cases qs) auto
    then show ?thesis using True Cons p ab by auto
  next
    case False
    then show ?thesis using assms Cons p ab by auto
  qed
qed

lemma foldl_merge_separated:
  assumes "sorted xs" "\<forall>(s, e)\<in>set xs. s \<le> e" "separated ms" "\<forall>x\<in>set xs. ms \<noteq> [] \<longrightarrow> fst (hd ms) \<le> fst x"
  shows "separated (foldl merge_step ms xs) \<and> covered (foldl merge_step ms xs) = covered ms \<union> covered xs"
  using assms
proof (induction xs arbitrary: ms)
  case (Cons x xs)
  obtain s e where x: "x = (s, e)" by (cases x)
  have step: "separated (merge_step ms (s, e))" "covered (merge_step ms (s, e)) = {s..<e} \<union> covered ms"
    "fst (hd (merge_step ms (s, e))) \<le> s"
    using merge_step_separated [OF Cons.prems(3), of s e] Cons.prems x by auto
  have "\<forall>y\<in>set xs. s \<le> fst y" using Cons.prems(1) x by (auto simp: less_eq_prod_def)
  then have "\<forall>y\<in>set xs. merge_step ms (s, e) \<noteq> [] \<longrightarrow> fst (hd (merge_step ms (s, e))) \<le> fst y"
    using step(3) by fastforce
  then have "separated (foldl merge_step (merge_step ms (s, e)) xs) \<and>
      covered (foldl merge_step (merge_step ms (s, e)) xs) = covered (merge_step ms (s, e)) \<union> covered xs"
    using Cons.IH step(1) Cons.prems by auto
  then show ?case using step(2) x by auto
qed simp

lemma total_months_rev [simp]: "total_months (rev ms) = total_months ms"
  by (simp add: total_months_def rev_map [symmetric])

lemma merge_intervals_covers:
  assumes "\<forall>(s, e)\<in>set xs. s \<le> e"
  shows "total_months (merge_intervals xs) = int (card (covered xs))" "covered (merge_intervals xs) = covered xs"
    "separated (rev (merge_intervals xs))"
proof -
  have "separated (foldl merge_step [] (sort xs)) \<and> covered (foldl merge_step [] (sort xs)) = covered [] \<union> covered (sort xs)"
    by (rule foldl_merge_separated) (use assms in auto)
  moreover have "covered (sort xs) = covered xs" by (rule covered_cong) simp
  ultimately have m: "separated (foldl merge_step [] (sort xs))" "covered (foldl merge_step [] (sort xs)) = covered xs"
    by simp_all
  show "total_months (merge_intervals xs) = int (card (covered xs))"
    using separated_card [OF m(1)] m(2) by (simp add: merge_intervals_def)
  show "covered (merge_intervals xs) = covered xs" using m(2) covered_cong [of "merge_intervals xs"]
    by (simp add: merge_intervals_def)
  show "separated (rev (merge_intervals xs))" using m(1) by (simp add: merge_intervals_def)
qed

lemma valid_month_range: "valid_month today y m = Inr k \<Longrightarrow> 1900 * 12 \<le> k"
  by (auto simp: valid_month_def split: if_splits)

lemma month_index_range: "month_index today v = Inr k \<Longrightarrow> k = this_month today \<or> 1900 * 12 \<le> k"
  by (auto simp: month_index_def Let_def split: if_splits list.splits option.splits dest: valid_month_range)

lemma range_interval_bounds:
  "range_interval today m = Inr (s, e) \<Longrightarrow> s \<le> e \<and> e \<le> this_month today"
  by (auto simp: range_interval_def rbind_Inr_conv split: if_splits)

lemma rmap_Inr_D: "rmap f xs = Inr ys \<Longrightarrow> y \<in> set ys \<Longrightarrow> \<exists>x\<in>set xs. f x = Inr y"
  by (auto simp: rmap_Inr_iff list_all2_conv_all_nth in_set_conv_nth) (metis nth_mem)

lemma dated_historyD:
  assumes "dated_history today h = Some x"
  obtains intervals where "rmap (range_interval today) (re_finditer range_pattern h) = Inr intervals"
    "dated_intervals x = merge_intervals intervals" "dated_months x = int (card (covered intervals))"
    "covered (dated_intervals x) = covered intervals" "separated (rev (dated_intervals x))"
    "\<forall>(s, e)\<in>set intervals. s \<le> e \<and> e \<le> this_month today" "x = Dated (dated_months x) (dated_intervals x) (dated_as_of x) (dated_excerpt x)"
proof -
  obtain intervals where iv: "rmap (range_interval today) (re_finditer range_pattern h) = Inr intervals"
    and x: "dated_intervals x = merge_intervals intervals" "dated_months x = total_months (merge_intervals intervals)"
      "x = Dated (dated_months x) (dated_intervals x) (dated_as_of x) (dated_excerpt x)"
    using assms by (auto simp: dated_history_def Let_def split: if_splits sum.splits)
  have ok: "\<forall>(s, e)\<in>set intervals. s \<le> e \<and> e \<le> this_month today"
    using rmap_Inr_D [OF iv] range_interval_bounds by fastforce
  then have "\<forall>(s, e)\<in>set intervals. s \<le> e" by auto
  from merge_intervals_covers [OF this] show thesis using that iv x ok by simp
qed

lemma separated_length: "separated ms \<Longrightarrow> 0 \<le> total_months ms"
  using separated_card [of ms] by simp

end
