(* ===== verification/Eligibility.thy ===== *)
theory Eligibility
  imports Experience Skill_Terms
begin

text \<open>
  \<open>app/stage1_rules/rules_engine.py\<close>: the education entries of a CV and the hard filters of Stage 1.
  The result keeps every check with its code; \<open>result_dict\<close> is the dictionary the code returns.
\<close>

section \<open>Patterns\<close>

definition STAGE1_POLICY_VERSION :: string where
  "STAGE1_POLICY_VERSION = ''stage1-v1.3.2''"

definition EDUCATION_CONTEXT_ANCHORS :: pattern where
  "EDUCATION_CONTEXT_ANCHORS = bounded_word [''university'', ''college'', ''campus'', ''institute'', ''gpa'', ''cgpa'',
     ''graduated'', ''degree'', ''faculty'', ''board'', ''school'', ''passed'', ''major'', ''specialization'']"

definition IN_PROGRESS_PATTERNS :: pattern where
  "IN_PROGRESS_PATTERNS = bounded_word [''pursuing'', ''ongoing'', ''enrolled'', ''expected'', ''current'', ''present'',
     ''running'', ''incomplete'', ''dropped out'', ''not completed'']"

definition blanks0 :: pattern where
  "blanks0 = Star (any_of [CHR '' '', char_of (9::nat)])"

definition EDUCATION_SECTION_PATTERN :: pattern where
  "EDUCATION_SECTION_PATTERN = cats [line_start, blanks0,
     alts (map phrase_i [''education'', ''academic background'', ''academic qualifications'',
       ''educational background'', ''qualifications'']), blanks0, Alt (Cat (chr CHR '':'') blanks0) line_end]"

text \<open>\<open>b\.?tech\.?\<close> and the like: parts each followed by an optional dot.\<close>

definition dotted :: "string list \<Rightarrow> pattern" where
  "dotted parts = cats (concat (map (\<lambda>p. [lit_i p, opt (chr CHR ''.'')]) parts))"

definition possessive :: "string \<Rightarrow> pattern" where
  "possessive s = Cat (lit_i s) (opt (Alt (lit_i [CHR 0x27, CHR ''s'']) (chr_i CHR ''s'')))"

definition DEGREE_PATTERN :: pattern where
  "DEGREE_PATTERN = isolated (Capture 1 (alts (
     [possessive ''bachelor'', possessive ''master'', Cat (lit_i ''ph'') (Cat (opt (chr CHR ''.'')) (Cat (lit_i ''d'') (opt (chr CHR ''.'')))),
      lit_i ''doctorate'', phrase_i ''high school'', phrase_i ''higher secondary''] @
     map lit_i [''secondary'', ''diploma'', ''+2'', ''intermediate'', ''a-levels'', ''12th'', ''10th'', ''slc'', ''see''] @
     map dotted [[''b'', ''tech''], [''b'', ''sc''], [''b'', ''e''], [''b'', ''s'']] @
     map lit_i [''bca'', ''bit'', ''bba'', ''bim''] @
     map dotted [[''m'', ''tech''], [''m'', ''sc''], [''m'', ''e''], [''m'', ''s'']] @
     map lit_i [''mca'', ''mba''])))"

section \<open>Education entries\<close>

definition extract_education_zone :: "string \<Rightarrow> string \<times> bool" where
  "extract_education_zone cv =
    (let zones = map (\<lambda>m. slice cv (m_end m)
           (case re_search SECTION_HEADER_PATTERN cv (m_end m) of Some h \<Rightarrow> m_start h | None \<Rightarrow> length cv))
         (re_finditer EDUCATION_SECTION_PATTERN cv)
     in if zones \<noteq> [] then (join_with [newline, newline] zones, True) else (cv, False))"

definition islower :: "string \<Rightarrow> bool" where
  "islower s = (list_ex is_lower s \<and> \<not> list_ex is_upper s)"

definition cleaned_degree :: "string \<Rightarrow> string" where
  "cleaned_degree term =
    (let c = replace_all [CHR 0x27, CHR ''S''] [] (replace_all ''.'' [] (upper term))
     in if c \<in> {''BACHELORS'', ''MASTERS''} then butlast c else c)"

definition degree_match :: "string \<Rightarrow> found \<Rightarrow> (string \<times> nat) option" where
  "degree_match line m =
    (let term = m_group m 1; cleaned = cleaned_degree term; before = slice line 0 (m_start m) in
     if cleaned \<in> {''BE'', ''ME'', ''SEE'', ''BIT''} \<and> islower term \<and> \<not> contains ''.'' term then None
     else if cleaned = ''MASTER'' \<and> re_found (cats [word_boundary, lit_i ''scrum'', spaces0, text_end]) before then None
     else if cleaned = ''DIPLOMA'' \<and>
             re_found (cats [word_boundary, phrase_i ''high school'', spaces0, text_end]) before then None
     else find (\<lambda>(key, rank). replace_all ''.'' [] key = cleaned) DEGREE_HIERARCHY)"

definition degree_matches :: "string \<Rightarrow> (string \<times> nat) list" where
  "degree_matches line = List.map_filter (degree_match line) (re_finditer DEGREE_PATTERN line)"

text \<open>\<open>str.splitlines()\<close>.\<close>

definition line_break :: "char \<Rightarrow> bool" where
  "line_break c = (let n = code_point c in 10 \<le> n \<and> n \<le> 13 \<or> 28 \<le> n \<and> n \<le> 30)"

fun split_lines :: "string \<Rightarrow> string \<Rightarrow> string list" where
  "split_lines acc [] = (if acc = [] then [] else [rev acc])"
| "split_lines acc (c # s) =
    (if line_break c
     then rev acc # split_lines [] (if c = char_of (13::nat) \<and> s \<noteq> [] \<and> hd s = newline then tl s else s)
     else split_lines (c # acc) s)"

record degree_entry =
  en_level :: string
  en_rank :: nat
  en_matched_text :: string
  en_in_progress :: bool
  en_ambiguous :: bool
  en_context :: string

text \<open>The lines after a qualification that belong to it, at most three.\<close>

definition following_context :: "string list \<Rightarrow> string list" where
  "following_context following = map strip (takeWhile (\<lambda>l. strip l \<noteq> [] \<and> degree_matches l = [] \<and>
     re_fullmatch SECTION_HEADER_PATTERN l = None) (take 3 following))"

definition entry_context :: "string option \<Rightarrow> string \<Rightarrow> string list \<Rightarrow> string" where
  "entry_context previous line following = join_with '' ''
    ((case previous of Some p \<Rightarrow> if degree_matches p = [] \<and> re_found IN_PROGRESS_PATTERNS p then [strip p] else []
      | None \<Rightarrow> []) @ [strip line] @ following_context following)"

definition line_entries :: "bool \<Rightarrow> string option \<Rightarrow> string \<Rightarrow> string list \<Rightarrow> degree_entry list" where
  "line_entries scoped previous line following =
    (let ms = dict_fromkeys (degree_matches line); context = entry_context previous line following in
     if ms = [] \<or> \<not> scoped \<and> \<not> re_found EDUCATION_CONTEXT_ANCHORS context then []
     else map (\<lambda>(key, rank). \<lparr>en_level = key, en_rank = rank, en_matched_text = strip line,
            en_in_progress = re_found IN_PROGRESS_PATTERNS context,
            en_ambiguous = 1 < length (dict_fromkeys (map snd ms)), en_context = context\<rparr>) ms)"

fun entries_of_lines :: "bool \<Rightarrow> string option \<Rightarrow> string list \<Rightarrow> degree_entry list" where
  "entries_of_lines scoped previous [] = []"
| "entries_of_lines scoped previous (l # ls) =
     line_entries scoped previous l ls @ entries_of_lines scoped (Some l) ls"

definition parse_degree_entries :: "string \<Rightarrow> degree_entry list" where
  "parse_degree_entries cv = (case extract_education_zone cv of
     (zone, scoped) \<Rightarrow> entries_of_lines scoped None (split_lines [] zone))"

definition check_field_alignment :: "string \<Rightarrow> string list \<Rightarrow> string list \<Rightarrow> bool" where
  "check_field_alignment entry req_fields aliases \<longleftrightarrow> req_fields @ aliases = [] \<or>
     list_ex (\<lambda>t. re_found (isolated (lit_i t)) entry) (req_fields @ aliases)"

definition has_explicit_field :: "degree_entry \<Rightarrow> bool" where
  "has_explicit_field e =
    (let line = hd (re_split (Alt (cats [Sym is_space, any_of ''-|;'', Sym is_space])
                 (bounded_word [''university'', ''college'', ''institute''])) (en_matched_text e))
     in case re_search (cats [word_boundary, alts (map lit_i [''of'', ''in'', ''major'', ''specialization'']),
               spaces1, Capture 1 (plus (Sym (\<lambda>c. c \<noteq> newline)))]) line 0 of
          None \<Rightarrow> False
        | Some m \<Rightarrow> lower (strip (re_sub (plus (Sym (\<lambda>c. is_digit c \<or> \<not> is_word c))) '' '' (m_group m 1)))
                      \<notin> {[], ''science'', ''arts'', ''engineering''})"

section \<open>Checks\<close>

datatype check_status = PASS | REVIEW | FAIL

fun check_status_value :: "check_status \<Rightarrow> string" where
  "check_status_value PASS = ''PASS''"
| "check_status_value REVIEW = ''REVIEW''"
| "check_status_value FAIL = ''FAIL''"

record check =
  ck_rule :: string
  ck_status :: check_status
  ck_code :: string
  ck_message :: string
  ck_extra :: pydict

definition plain_check :: "string \<Rightarrow> check_status \<Rightarrow> string \<Rightarrow> string \<Rightarrow> check" where
  "plain_check rule st code msg = \<lparr>ck_rule = rule, ck_status = st, ck_code = code, ck_message = msg, ck_extra = []\<rparr>"

definition authorization_check :: "hard_filters \<Rightarrow> candidate_facts \<Rightarrow> check" where
  "authorization_check rules facts =
    (if \<not> require_work_authorization rules
     then plain_check ''authorization'' PASS ''AUTHORIZATION_NOT_REQUIRED'' ''JD does not require an authorization filter.''
     else if f_work_authorized facts = AUTH_UNKNOWN
     then plain_check ''authorization'' REVIEW ''AUTHORIZATION_UNKNOWN'' ''Work authorization is unknown.''
     else if f_authorization_source facts \<noteq> RECRUITER_VERIFIED
     then plain_check ''authorization'' REVIEW ''AUTHORIZATION_UNVERIFIED'' ''Work authorization requires recruiter verification.''
     else if f_work_authorized facts = INELIGIBLE
     then plain_check ''authorization'' FAIL ''AUTHORIZATION_INELIGIBLE'' ''Work authorization check failed.''
     else plain_check ''authorization'' PASS ''AUTHORIZATION_ELIGIBLE'' ''Verified work authorization meets the requirement.'')"

definition insufficient_message :: "(rat \<Rightarrow> string) \<Rightarrow> rat \<Rightarrow> rat \<Rightarrow> string" where
  "insufficient_message show_number years required = ''Insufficient YoE: candidate has '' @ show_number years @
     '' years, JD requires '' @ show_number required @ '' years.''"

definition experience_check ::
  "(rat \<Rightarrow> string) \<Rightarrow> hard_filters \<Rightarrow> candidate_facts \<Rightarrow> experience option \<Rightarrow> check" where
  "experience_check show_number rules facts evidence =
    (if min_years_experience rules = 0
     then plain_check ''experience'' PASS ''EXPERIENCE_NOT_REQUIRED'' ''JD has no minimum experience requirement.''
     else case f_experience_years facts of
       None \<Rightarrow> plain_check ''experience'' REVIEW ''EXPERIENCE_UNKNOWN'' ''Years of experience are unknown.''
     | Some years \<Rightarrow>
        if years < min_years_experience rules
        then (if (case evidence of None \<Rightarrow> False | Some e \<Rightarrow> min_years_experience rules \<le> years_upper_bound e years)
              then plain_check ''experience'' REVIEW ''EXPERIENCE_DATE_PRECISION''
                ''Month-only employment dates cannot resolve the minimum experience boundary.''
              else plain_check ''experience'' FAIL ''INSUFFICIENT_EXPERIENCE''
                (insufficient_message show_number years (min_years_experience rules)))
        else if f_experience_source facts \<noteq> RECRUITER_VERIFIED
        then plain_check ''experience'' REVIEW ''EXPERIENCE_UNVERIFIED'' ''Experience requires recruiter verification.''
        else plain_check ''experience'' PASS ''EXPERIENCE_MET'' ''Verified experience meets the minimum.'')"

definition qualifying :: "nat \<Rightarrow> degree_entry list \<Rightarrow> degree_entry list" where
  "qualifying rank entries = filter (\<lambda>e. rank \<le> en_rank e \<and> \<not> en_ambiguous e) entries"

definition education_check :: "hard_filters \<Rightarrow> degree_entry list \<Rightarrow> check" where
  "education_check rules entries =
    (case degree_required rules of
       None \<Rightarrow> plain_check ''education'' PASS ''EDUCATION_NOT_REQUIRED'' ''JD has no degree requirement.''
     | Some r \<Rightarrow>
       (let rank = degree_rank (r_level r); quals = qualifying rank entries;
            matching = filter (\<lambda>e. check_field_alignment (en_context e) (r_fields r) (r_field_aliases r)) quals in
        if rank = 0 then plain_check ''education'' PASS ''EDUCATION_NOT_REQUIRED'' ''JD has no degree requirement.''
        else if entries = []
        then plain_check ''education'' REVIEW ''EDUCATION_UNKNOWN'' ''No unambiguous education entry was found.''
        else if list_ex (\<lambda>e. \<not> en_in_progress e) matching
        then plain_check ''education'' PASS ''EDUCATION_MET'' ''Degree level and field meet the requirement.''
        else if matching \<noteq> []
        then plain_check ''education'' REVIEW ''EDUCATION_IN_PROGRESS''
          ''Required degree level and field found, but status is IN-PROGRESS or incomplete.''
        else if list_ex en_ambiguous entries
        then plain_check ''education'' REVIEW ''EDUCATION_AMBIGUOUS'' ''Degree level and field cannot be reliably associated.''
        else if quals \<noteq> []
        then (if list_all has_explicit_field quals
              then plain_check ''education'' FAIL ''EDUCATION_FIELD_MISMATCH''
                ''Education field mismatch: required field not found in documented qualifications.''
              else plain_check ''education'' REVIEW ''EDUCATION_FIELD_UNKNOWN'' ''Required degree field cannot be determined.'')
        else plain_check ''education'' FAIL ''EDUCATION_LEVEL_MISMATCH''
               ''Education level mismatch: detected level is below the requirement.''))"

definition skill_dict :: "skill_cluster \<Rightarrow> skill_evidence \<Rightarrow> pydict" where
  "skill_dict c e = [(''canonical'', JStr (s_canonical c)), (''matched_term'', opt_str (e_matched_term e)),
     (''excerpt'', opt_str (e_excerpt e)), (''match_weight'', JNum (e_weight e)),
     (''negated'', JBool (e_negated e)), (''source'', JStr ''cv_extracted'')]"

definition skill_check :: "string \<Rightarrow> skill_cluster \<Rightarrow> check" where
  "skill_check cv c =
    (let e = required_skill_evidence cv c;
         (st, code, msg) =
           (if e_weight e \<noteq> 0 then (PASS, ''REQUIRED_SKILL_FOUND'',
               if e_weight e = 3 / 4 then ''approved substitute found'' else ''term found in CV'')
            else if e_negated e then (FAIL, ''REQUIRED_SKILL_NEGATED'', ''CV explicitly negates this required skill'')
            else (REVIEW, ''REQUIRED_SKILL_NOT_DOCUMENTED'',
               ''required skill is not explicitly documented; verify with the candidate''))
     in \<lparr>ck_rule = ''skill'', ck_status = st, ck_code = code, ck_message = s_canonical c @ '': '' @ msg,
         ck_extra = skill_dict c e\<rparr>)"

section \<open>The verdict\<close>

record filter_result =
  fr_status :: check_status
  fr_checks :: "check list"
  fr_facts :: candidate_facts
  fr_rules :: hard_filters
  fr_evidence :: "experience option"
  fr_entries :: "degree_entry list"

text \<open>Years that were not given are taken from the CV and marked as extracted.\<close>

definition complete_facts :: "date \<Rightarrow> string \<Rightarrow> candidate_facts \<Rightarrow> candidate_facts \<times> experience option" where
  "complete_facts today cv facts =
    (case f_experience_years facts of
       Some _ \<Rightarrow> (facts, None)
     | None \<Rightarrow> (case extract_experience today cv of
          None \<Rightarrow> (facts, None)
        | Some e \<Rightarrow> (facts\<lparr>f_experience_years := Some (experience_years e), f_experience_source := CV_EXTRACTED\<rparr>, Some e)))"

definition overall_status :: "check list \<Rightarrow> check_status" where
  "overall_status checks = (if list_ex (\<lambda>c. ck_status c = FAIL) checks then FAIL
     else if list_ex (\<lambda>c. ck_status c = REVIEW) checks then REVIEW else PASS)"

definition evaluate_stage1_hard_filters ::
  "(rat \<Rightarrow> string) \<Rightarrow> date \<Rightarrow> candidate_facts \<Rightarrow> string \<Rightarrow> hard_filters \<Rightarrow> skill_cluster list \<Rightarrow> filter_result result" where
  "evaluate_stage1_hard_filters show_number today given_facts cv rules required_skills =
    (case complete_facts today cv given_facts of
       (facts, evidence) \<Rightarrow>
         rbind (rmap validate_cluster required_skills) (\<lambda>clusters.
           let entries = parse_degree_entries cv;
               checks = [authorization_check rules facts, experience_check show_number rules facts evidence,
                         education_check rules entries] @ map (skill_check cv) clusters
           in Inr \<lparr>fr_status = overall_status checks, fr_checks = checks, fr_facts = facts, fr_rules = rules,
                   fr_evidence = evidence, fr_entries = entries\<rparr>))"

definition check_dict :: "check \<Rightarrow> pydict" where
  "check_dict c = [(''rule'', JStr (ck_rule c)), (''status'', JStr (check_status_value (ck_status c))),
     (''code'', JStr (ck_code c)), (''message'', JStr (ck_message c))] @ ck_extra c"

definition entry_dict :: "degree_entry \<Rightarrow> pydict" where
  "entry_dict e = [(''level_key'', JStr (en_level e)), (''level_rank'', JNum (of_nat (en_rank e))),
     (''matched_text'', JStr (en_matched_text e)), (''is_in_progress'', JBool (en_in_progress e)),
     (''is_ambiguous'', JBool (en_ambiguous e)), (''full_context'', JStr (en_context e))]"

fun experience_dict :: "experience \<Rightarrow> pydict" where
  "experience_dict (Claimed y x) = [(''years'', JNum y), (''excerpt'', JStr x)]"
| "experience_dict (Dated n iv d x) = [(''years'', JNum (of_int n / 12)), (''months'', JNum (of_int n)),
     (''years_upper_bound'', JNum ((of_int n + of_nat (length iv)) / 12)),
     (''method'', JStr ''dated_work_history_union''), (''as_of'', JStr d), (''excerpt'', JStr x),
     (''intervals'', JList (map (\<lambda>(s, e). JDict [(''start_month'', JNum (of_int s)), (''end_month'', JNum (of_int e))]) iv))]"

definition messages :: "check_status \<Rightarrow> check list \<Rightarrow> json" where
  "messages st checks = JList (map (\<lambda>c. JStr (ck_message c)) (filter (\<lambda>c. ck_status c = st) checks))"

definition result_dict :: "filter_result \<Rightarrow> pydict" where
  "result_dict r = [(''status'', JStr (check_status_value (fr_status r))),
     (''policy_version'', JStr STAGE1_POLICY_VERSION),
     (''checks'', JList (map (\<lambda>c. JDict (check_dict c)) (fr_checks r))),
     (''failed_reasons'', messages FAIL (fr_checks r)), (''review_notes'', messages REVIEW (fr_checks r)),
     (''metrics'', JDict [(''candidate_yoe'', opt_num (f_experience_years (fr_facts r))),
        (''min_required_yoe'', JNum (min_years_experience (fr_rules r))),
        (''work_authorized'', JStr (authorization_value (f_work_authorized (fr_facts r)))),
        (''require_work_authorization'', JBool (require_work_authorization (fr_rules r))),
        (''experience_source'', JStr (source_value (f_experience_source (fr_facts r)))),
        (''experience_evidence'', case fr_evidence r of None \<Rightarrow> JNull | Some e \<Rightarrow> JDict (experience_dict e)),
        (''authorization_source'', JStr (source_value (f_authorization_source (fr_facts r)))),
        (''parsed_degrees'', JList (map (\<lambda>e. JDict (entry_dict e)) (fr_entries r)))])]"

section \<open>When a candidate is rejected\<close>

lemma plain_check_simps [simp]: "ck_status (plain_check rule st code msg) = st" "ck_code (plain_check rule st code msg) = code"
  "ck_extra (plain_check rule st code msg) = []"
  by (simp_all add: plain_check_def)

lemma authorization_FAIL:
  "ck_status (authorization_check rules facts) = FAIL \<longleftrightarrow> require_work_authorization rules \<and>
     f_work_authorized facts = INELIGIBLE \<and> f_authorization_source facts = RECRUITER_VERIFIED"
  by (auto simp: authorization_check_def)

lemma experience_FAIL:
  "ck_status (experience_check show_number rules facts evidence) = FAIL \<longleftrightarrow>
     (\<exists>years. f_experience_years facts = Some years \<and> min_years_experience rules \<noteq> 0 \<and>
       years < min_years_experience rules \<and>
       (\<forall>e. evidence = Some e \<longrightarrow> years_upper_bound e years < min_years_experience rules))"
  by (auto simp: experience_check_def split: option.splits)

lemma education_FAIL:
  assumes "ck_status (education_check rules entries) = FAIL"
  obtains r where "degree_required rules = Some r" "entries \<noteq> []" "\<forall>e\<in>set entries. \<not> en_ambiguous e"
    "\<forall>e\<in>set entries. degree_rank (r_level r) \<le> en_rank e \<longrightarrow>
       has_explicit_field e \<and> \<not> check_field_alignment (en_context e) (r_fields r) (r_field_aliases r)"
proof (cases "degree_required rules")
  case None
  then show thesis using assms by (simp add: education_check_def)
next
  case (Some r)
  let ?quals = "qualifying (degree_rank (r_level r)) entries"
  have e: "entries \<noteq> []" "\<not> list_ex en_ambiguous entries"
    "filter (\<lambda>e. check_field_alignment (en_context e) (r_fields r) (r_field_aliases r)) ?quals = []"
    "?quals \<noteq> [] \<longrightarrow> list_all has_explicit_field ?quals"
    using assms Some by (auto simp: education_check_def Let_def simp del: filter_empty_conv split: if_splits)
  show thesis
  proof (rule that [OF Some e(1)])
    show "\<forall>x\<in>set entries. \<not> en_ambiguous x" using e(2) by (auto simp: list_ex_iff)
    then show "\<forall>x\<in>set entries. degree_rank (r_level r) \<le> en_rank x \<longrightarrow>
       has_explicit_field x \<and> \<not> check_field_alignment (en_context x) (r_fields r) (r_field_aliases r)"
      using e(3,4) by (force simp: qualifying_def filter_empty_conv list_all_iff)
  qed
qed

lemma skill_check_status:
  "ck_status (skill_check cv c) = (if e_weight (required_skill_evidence cv c) \<noteq> 0 then PASS
     else if e_negated (required_skill_evidence cv c) then FAIL else REVIEW)"
  by (simp add: skill_check_def Let_def)

lemma overall_status_iff:
  "overall_status checks = FAIL \<longleftrightarrow> (\<exists>c\<in>set checks. ck_status c = FAIL)"
  "overall_status checks = PASS \<longleftrightarrow> (\<forall>c\<in>set checks. ck_status c = PASS)"
  "overall_status checks = REVIEW \<longleftrightarrow> (\<forall>c\<in>set checks. ck_status c \<noteq> FAIL) \<and> (\<exists>c\<in>set checks. ck_status c = REVIEW)"
proof -
  have "ck_status c = PASS \<longleftrightarrow> ck_status c \<noteq> FAIL \<and> ck_status c \<noteq> REVIEW" for c by (cases "ck_status c") simp_all
  then show "overall_status checks = PASS \<longleftrightarrow> (\<forall>c\<in>set checks. ck_status c = PASS)"
    by (auto simp: overall_status_def list_ex_iff)
qed (simp_all add: overall_status_def list_ex_iff)

lemma evaluate_stage1_Inr:
  assumes "evaluate_stage1_hard_filters show_number today supplied cv rules skills = Inr r"
  obtains clusters facts evidence where "rmap validate_cluster skills = Inr clusters"
    "complete_facts today cv supplied = (facts, evidence)" "fr_facts r = facts" "fr_evidence r = evidence"
    "fr_entries r = parse_degree_entries cv"
    "fr_checks r = [authorization_check rules facts, experience_check show_number rules facts evidence,
       education_check rules (parse_degree_entries cv)] @ map (skill_check cv) clusters"
    "fr_status r = overall_status (fr_checks r)"
  using assms
  by (auto simp: evaluate_stage1_hard_filters_def Let_def rbind_Inr_conv split: prod.splits intro: that)

text \<open>A retrieval outcome keeps the checks in review of this result.\<close>

lemma complete_facts_keeps:
  "f_work_authorized (fst (complete_facts today cv g)) = f_work_authorized g"
  "f_authorization_source (fst (complete_facts today cv g)) = f_authorization_source g"
  by (simp_all add: complete_facts_def split: option.splits)

end
