(* ===== verification/Evaluation_Dump.thy ===== *)
theory Evaluation_Dump
  imports Evaluation
begin

text \<open>
  The JSON form of a final evaluation, \<open>FinalCandidateEvaluation.model_dump(mode="json")\<close>: every field
  of the models of \<open>stage3_evaluation/schemas.py\<close> under its name, in the order of the declarations.
  The screening run stores this form, and the stored score and tier are recomputed from it later.
\<close>

section \<open>Fields\<close>

definition str_list :: "string list \<Rightarrow> json" where
  "str_list xs = JList (map JStr xs)"

definition nat_list :: "nat list \<Rightarrow> json" where
  "nat_list ns = JList (map (\<lambda>n. JNum (of_nat n)) ns)"

definition opt_nat :: "nat option \<Rightarrow> json" where
  "opt_nat n = opt_num (map_option of_nat n)"

fun flag_type_value :: "flag_type \<Rightarrow> string" where
  "flag_type_value DOCUMENTED_INCONSISTENCY = ''DOCUMENTED_INCONSISTENCY''"
| "flag_type_value EVIDENCED_CAREER_GAP = ''EVIDENCED_CAREER_GAP''"
| "flag_type_value MISSING_INFORMATION = ''MISSING_INFORMATION''"

fun severity_value :: "severity \<Rightarrow> string" where
  "severity_value LOW = ''LOW''"
| "severity_value MEDIUM = ''MEDIUM''"
| "severity_value HIGH = ''HIGH''"
| "severity_value CRITICAL = ''CRITICAL''"

section \<open>Models\<close>

definition claim_dump :: "supported_claim \<Rightarrow> json" where
  "claim_dump c = JDict [(''claim'', JStr (cl_claim c)), (''citation'', JStr (cl_citation c)),
     (''quote'', JStr (cl_quote c)), (''evidence_id'', opt_str (cl_evidence_id c))]"

definition assessment_dump :: "category_assessment \<Rightarrow> pydict" where
  "assessment_dump a = [(''score'', JNum (ca_score a)), (''rationale'', JStr (ca_rationale a)),
     (''citations'', str_list (ca_citations a)), (''claims'', JList (map claim_dump (ca_claims a)))]"

definition flag_dump :: "flag_detail \<Rightarrow> json" where
  "flag_dump f = JDict [(''type'', JStr (flag_type_value (fl_type f))),
     (''severity'', JStr (severity_value (fl_severity f))), (''description'', JStr (fl_description f)),
     (''citations'', str_list (fl_citations f)), (''claims'', JList (map claim_dump (fl_claims f)))]"

definition output_dump :: "llm_evaluation_output \<Rightarrow> pydict" where
  "output_dump x = [(''skills'', JDict (assessment_dump (skills x))),
     (''experience'', JDict (assessment_dump (experience x))),
     (''projects'', JDict (assessment_dump (projects x))),
     (''education'', JDict (assessment_dump (education x))),
     (''flags'', JList (map flag_dump (flags x))),
     (''executive_summary'', JStr (executive_summary x)),
     (''improvement_suggestions'', str_list (improvement_suggestions x))]"

definition location_dump :: "source_location \<Rightarrow> json" where
  "location_dump l = JDict [(''section'', opt_str (sl_section l)), (''chunk_index'', opt_nat (sl_chunk_index l)),
     (''page_number'', opt_nat (sl_page_number l)), (''block_index'', opt_nat (sl_block_index l)),
     (''bbox'', case sl_bbox l of None \<Rightarrow> JNull | Some (a, b, c, d) \<Rightarrow> JList (map JNum [a, b, c, d])),
     (''blocks'', JList (sl_blocks l)), (''char_start'', opt_nat (sl_char_start l)),
     (''char_end'', opt_nat (sl_char_end l))]"

definition reference_dump :: "evidence_reference \<Rightarrow> json" where
  "reference_dump r = JDict [(''candidate_id'', JStr (er_candidate_id r)), (''category'', JStr (er_category r)),
     (''source_category'', JStr (er_source_category r)), (''chunk_id'', JStr (er_chunk_id r)),
     (''document_id'', opt_str (er_document_id r)), (''source_location'', location_dump (er_source_location r)),
     (''text'', JStr (er_text r)), (''evidence_id'', opt_str (er_evidence_id r)),
     (''sentence_start'', opt_nat (er_sentence_start r)), (''sentence_end'', opt_nat (er_sentence_end r))]"

definition citation_check_dump :: "citation_check \<Rightarrow> json" where
  "citation_check_dump c = JDict [(''field'', JStr (ck_field c)), (''citation'', JStr (ck_citation c)),
     (''valid'', JBool (ck_valid c)), (''reason'', opt_str (ck_reason c))]"

definition verification_dump :: "evidence_verification \<Rightarrow> pydict" where
  "verification_dump v =
    [(''registry'', JDict (map (\<lambda>(i, r). (i, reference_dump r)) (ev_registry v))),
     (''checks'', JList (map citation_check_dump (ev_checks v))),
     (''review_reasons'', str_list (ev_review_reasons v)),
     (''verified_flag_indices'', nat_list (ev_verified_flag_indices v)),
     (''injection_signals'', str_list (ev_injection_signals v)),
     (''context_metadata'', JDict (ev_context_metadata v))]"

definition evaluation_dump :: "final_evaluation \<Rightarrow> pydict" where
  "evaluation_dump e =
    [(''candidate_id'', JStr (fe_candidate_id e)),
     (''evaluation_status'', JStr (evaluation_status_value (fe_evaluation_status e))),
     (''scoring_policy_version'', JStr (fe_scoring_policy_version e)),
     (''composite_score'', opt_num (fe_composite_score e)),
     (''tier'', opt_str (map_option tier_value (fe_tier e))),
     (''category_scores'', JDict (map (\<lambda>(k, x). (k, JNum x)) (fe_category_scores e))),
     (''llm_raw_output'', case fe_llm_raw_output e of None \<Rightarrow> JNull | Some x \<Rightarrow> JDict (output_dump x)),
     (''verified_citations'', str_list (fe_verified_citations e)),
     (''invalid_citations'', str_list (fe_invalid_citations e)),
     (''has_critical_flags'', JBool (fe_has_critical_flags e)),
     (''review_reasons'', str_list (fe_review_reasons e)),
     (''error_code'', opt_str (fe_error_code e)), (''error_message'', opt_str (fe_error_message e)),
     (''evidence_verification'', case fe_evidence_verification e of None \<Rightarrow> JNull | Some v \<Rightarrow> JDict (verification_dump v)),
     (''is_mock'', JBool (fe_is_mock e))]"

section \<open>Reading a stored evaluation back\<close>

lemma dget_Cons: "dget ((k, v) # d) k' x = (if k' = k then v else dget d k' x)"
  by (simp add: dget_def)

lemma evaluation_dump_get [simp]:
  "dget (evaluation_dump e) ''candidate_id'' x = JStr (fe_candidate_id e)"
  "dget (evaluation_dump e) ''evaluation_status'' x = JStr (evaluation_status_value (fe_evaluation_status e))"
  "dget (evaluation_dump e) ''scoring_policy_version'' x = JStr (fe_scoring_policy_version e)"
  "dget (evaluation_dump e) ''composite_score'' x = opt_num (fe_composite_score e)"
  "dget (evaluation_dump e) ''tier'' x = opt_str (map_option tier_value (fe_tier e))"
  "dget (evaluation_dump e) ''llm_raw_output'' x =
     (case fe_llm_raw_output e of None \<Rightarrow> JNull | Some y \<Rightarrow> JDict (output_dump y))"
  by (simp_all add: evaluation_dump_def dget_Cons)

lemma output_dump_scores [simp]:
  "dget (output_dump x) ''skills'' y = JDict (assessment_dump (skills x))"
  "dget (output_dump x) ''experience'' y = JDict (assessment_dump (experience x))"
  "dget (output_dump x) ''projects'' y = JDict (assessment_dump (projects x))"
  "dget (output_dump x) ''education'' y = JDict (assessment_dump (education x))"
  by (simp_all add: output_dump_def dget_Cons)

lemma assessment_dump_score [simp]: "dget (assessment_dump a) ''score'' x = JNum (ca_score a)"
  by (simp add: assessment_dump_def dget_Cons)

end
