(* ===== verification/Screening_Pipeline.thy ===== *)
theory Screening_Pipeline
  imports Hybrid_Search Eligibility Evaluation_Dump
begin

text \<open>
  The end-to-end screening run of \<open>app/orchestrator.py\<close>: every candidate is filtered (Stage 1), the
  evidence of the survivors is extracted and ranked (Stage 2), the shortlist is evaluated (Stage 3),
  and the metrics, the four response lists and the outcome of every candidate are kept on the way.
  The clock, the hash, the retrieval models, the PostgreSQL extractor and the Stage 3 batch call are
  fields of the environment; timings and log records are left out.
\<close>

section \<open>State\<close>

record event =
  evt_stage :: string
  evt_status :: string
  evt_details :: "pydict option"

record outcome_row =
  x_id :: string
  x_input :: pydict
  x_history :: "event list"
  x_evidence :: "pydict option"
  x_outcome :: "string option"
  x_stage :: "string option"
  x_result :: pydict

record metrics =
  mt_total_input :: nat
  mt_stage0_processed :: nat
  mt_stage1_passed :: nat
  mt_stage1_rejected :: nat
  mt_stage1_review :: nat
  mt_stage1_failed :: nat
  mt_stage2_shortlisted :: nat
  mt_stage3_evaluated :: nat
  mt_stage3_succeeded :: nat
  mt_stage3_review :: nat
  mt_stage3_failed :: nat
  mt_stage0_failed :: nat
  mt_stage0_review :: nat
  mt_stage2_failed :: nat
  mt_stage2_review :: nat
  mt_stage2_excluded :: nat
  mt_accounted :: nat

definition no_metrics :: "nat \<Rightarrow> metrics" where
  "no_metrics n = \<lparr>mt_total_input = n, mt_stage0_processed = 0, mt_stage1_passed = 0, mt_stage1_rejected = 0,
     mt_stage1_review = 0, mt_stage1_failed = 0, mt_stage2_shortlisted = 0, mt_stage3_evaluated = 0,
     mt_stage3_succeeded = 0, mt_stage3_review = 0, mt_stage3_failed = 0, mt_stage0_failed = 0,
     mt_stage0_review = 0, mt_stage2_failed = 0, mt_stage2_review = 0, mt_stage2_excluded = 0, mt_accounted = 0\<rparr>"

record survivor =
  sur_id :: string
  sur_text :: string
  sur_details :: pydict

text \<open>The local variables of the coroutine.\<close>

record pipeline =
  pl_metrics :: metrics
  pl_survivors :: "survivor list"
  pl_payloads :: "pydict list"
  pl_leaderboard :: "pydict list"
  pl_rejected :: "pydict list"
  pl_review :: "pydict list"
  pl_failed :: "pydict list"
  pl_outcomes :: "outcome_row list"

text \<open>The response; a run without input returns no outcomes, read as an empty list.\<close>

record screening_result =
  sr_metrics :: metrics
  sr_leaderboard :: "pydict list"
  sr_rejected :: "pydict list"
  sr_review :: "pydict list"
  sr_failed :: "pydict list"
  sr_outcomes :: "outcome_row list"

record screening_job =
  jp_profile :: pydict
  jp_must_have :: "skill_cluster list"
  jp_nice_to_have :: "skill_cluster list"
  jp_queries :: "(string \<times> string) list"
  jp_contract :: relevance_contract

text \<open>What the retrieval of the development backend takes from its models.\<close>

record retrieval_models =
  rm_identity :: "json list \<Rightarrow> string"
  rm_sqrt :: "rat \<Rightarrow> rat"
  rm_embedding :: "string \<Rightarrow> rat list"
  rm_predict :: "string \<Rightarrow> string \<Rightarrow> rat"

record screening_env =
  sv_today :: date
  sv_show_number :: "rat \<Rightarrow> string"
  sv_sha256 :: "string \<Rightarrow> string"
  sv_production :: bool
  sv_postgres_backend :: bool
  sv_models :: retrieval_models
  sv_postgres :: "screening_job \<Rightarrow> degree_requirement option \<Rightarrow> string \<Rightarrow> string \<Rightarrow> source_page list option \<Rightarrow> pydict result"
  sv_evaluate :: "pydict list \<Rightarrow> final_evaluation list result"

section \<open>Snapshots\<close>

definition attributes_dump :: "candidate_attributes \<Rightarrow> pydict" where
  "attributes_dump a = [(''experience_years'', opt_num (a_experience_years a)),
     (''experience_source'', JStr (source_value (a_experience_source a))),
     (''work_authorized'', JStr (authorization_value (a_work_authorized a))),
     (''authorization_source'', JStr (source_value (a_authorization_source a))), (''degree'', opt_str (a_degree a))]"

definition overrides_dump :: "recruiter_overrides \<Rightarrow> pydict" where
  "overrides_dump o' = [(''experience_years'', opt_num (o_experience_years o')),
     (''work_authorized'', opt_str (map_option authorization_value (o_work_authorized o')))]"

definition exclude_none :: "pydict \<Rightarrow> pydict" where
  "exclude_none d = filter (\<lambda>(_, v). v \<noteq> JNull) d"

definition input_snapshot :: "screening_env \<Rightarrow> candidate_input \<Rightarrow> pydict" where
  "input_snapshot env c = [(''candidate_id'', JStr (i_candidate_id c)),
     (''input_sha256'', JStr (sv_sha256 env (i_raw_cv_text c))),
     (''work_authorized'', JStr (authorization_value (given_authorization c))),
     (''authorization_source'', JStr (source_value (i_authorization_source c))),
     (''parsed_attributes'', JDict (attributes_dump (i_parsed c))),
     (''recruiter_overrides'', JDict (overrides_dump (i_overrides c)))]"

definition input_provenance :: "candidate_input \<Rightarrow> pydict" where
  "input_provenance c = [(''reported_experience_years'', opt_num (a_experience_years (i_parsed c))),
     (''reported_experience_source'', JStr (source_value (a_experience_source (i_parsed c)))),
     (''reported_work_authorized'', JStr (authorization_value (given_authorization c))),
     (''reported_authorization_source'', JStr (source_value (i_authorization_source c))),
     (''nested_work_authorized'', JStr (authorization_value (a_work_authorized (i_parsed c)))),
     (''nested_authorization_source'', JStr (source_value (a_authorization_source (i_parsed c)))),
     (''recruiter_overrides'', JDict (exclude_none (overrides_dump (i_overrides c))))]"

definition stage1_reviews :: "pydict \<Rightarrow> json list" where
  "stage1_reviews details =
     filter (\<lambda>c. dget (as_dict c) ''status'' JNull = JStr ''REVIEW'') (as_list (dget details ''checks'' JNull))"

definition stage1_verification :: "pydict \<Rightarrow> pydict" where
  "stage1_verification details = [(''verification_required'', JBool (stage1_reviews details \<noteq> [])),
     (''verification_reasons'', JList (stage1_reviews details)), (''stage1_filter_details'', JDict details)]"

definition new_row :: "screening_env \<Rightarrow> candidate_input \<Rightarrow> outcome_row" where
  "new_row env c = \<lparr>x_id = i_candidate_id c, x_input = input_snapshot env c, x_history = [], x_evidence = None,
     x_outcome = None, x_stage = None, x_result = []\<rparr>"

text \<open>A dictionary comprehension: a repeated key keeps its place and takes the last value.\<close>

definition initial_outcomes :: "screening_env \<Rightarrow> candidate_input list \<Rightarrow> outcome_row list" where
  "initial_outcomes env cands = List.map_filter
     (\<lambda>i. map_option (new_row env) (find (\<lambda>c. i_candidate_id c = i) (rev cands))) (dict_fromkeys (map i_candidate_id cands))"

definition initial_pipeline :: "screening_env \<Rightarrow> candidate_input list \<Rightarrow> pipeline" where
  "initial_pipeline env cands = \<lparr>pl_metrics = no_metrics (length cands), pl_survivors = [], pl_payloads = [],
     pl_leaderboard = [], pl_rejected = [], pl_review = [], pl_failed = [], pl_outcomes = initial_outcomes env cands\<rparr>"

section \<open>Bookkeeping\<close>

definition at_row :: "string \<Rightarrow> (outcome_row \<Rightarrow> outcome_row) \<Rightarrow> pipeline \<Rightarrow> pipeline" where
  "at_row i f st = st\<lparr>pl_outcomes := update_where (\<lambda>r. x_id r = i) f (pl_outcomes st)\<rparr>"

definition bump :: "(metrics \<Rightarrow> metrics) \<Rightarrow> pipeline \<Rightarrow> pipeline" where
  "bump f st = st\<lparr>pl_metrics := f (pl_metrics st)\<rparr>"

definition logged :: "string \<Rightarrow> string \<Rightarrow> pydict option \<Rightarrow> outcome_row \<Rightarrow> outcome_row" where
  "logged stage status details r = r\<lparr>x_history := x_history r @ [\<lparr>evt_stage = stage, evt_status = status, evt_details = details\<rparr>]\<rparr>"

definition decided :: "string \<Rightarrow> string \<Rightarrow> pydict \<Rightarrow> outcome_row \<Rightarrow> outcome_row" where
  "decided outcome stage item r = r\<lparr>x_outcome := Some outcome, x_stage := Some stage, x_result := item\<rparr>"

definition item_id :: "pydict \<Rightarrow> string" where
  "item_id item = str_of (dget item ''candidate_id'' JNull)"

section \<open>Stage 0 and Stage 1\<close>

definition stage0_row :: "candidate_input \<Rightarrow> outcome_row \<Rightarrow> outcome_row" where
  "stage0_row c r = logged ''STAGE0'' ''PROCESSED'' None
     (r\<lparr>x_input := dset ''redacted_cv_text'' (JStr (i_raw_cv_text c)) (x_input r)\<rparr>)"

definition screen_candidate :: "screening_env \<Rightarrow> screening_job \<Rightarrow> hard_filters \<Rightarrow> candidate_input \<Rightarrow> (check_status \<times> pydict) result" where
  "screen_candidate env job rules c =
    rbind (evaluate_stage1_hard_filters (sv_show_number env) (sv_today env) (rule_facts c) (i_raw_cv_text c) rules (jp_must_have job))
      (\<lambda>r. Inr (fr_status r, dset ''input_provenance'' (JDict (input_provenance c)) (result_dict r)))"

definition rule_failure :: "candidate_input \<Rightarrow> pydict" where
  "rule_failure c = [(''candidate_id'', JStr (i_candidate_id c)), (''stage'', JStr ''STAGE1''),
     (''evaluation_status'', JStr ''PROCESSING_FAILED''), (''reason'', JStr ''RULE_EVALUATION_FAILED'')]"

definition filter_rejection :: "candidate_input \<Rightarrow> pydict \<Rightarrow> pydict" where
  "filter_rejection c details = [(''candidate_id'', JStr (i_candidate_id c)),
     (''reason'', JStr ''FAILED_STAGE1_FILTERS''), (''filter_details'', JDict details)]"

definition stage1_step :: "screening_env \<Rightarrow> screening_job \<Rightarrow> hard_filters \<Rightarrow> candidate_input \<Rightarrow> pipeline \<Rightarrow> pipeline" where
  "stage1_step env job rules c st0 =
    (let i = i_candidate_id c;
         st = bump (\<lambda>m. m\<lparr>mt_stage0_processed := mt_stage0_processed m + 1\<rparr>) (at_row i (stage0_row c) st0)
     in case screen_candidate env job rules c of
       Inl _ \<Rightarrow>
         bump (\<lambda>m. m\<lparr>mt_stage1_failed := mt_stage1_failed m + 1\<rparr>)
           (at_row i (logged ''STAGE1'' ''FAILED'' None \<circ> decided ''PROCESSING_FAILED'' ''STAGE1'' (rule_failure c))
             (st\<lparr>pl_failed := pl_failed st @ [rule_failure c]\<rparr>))
     | Inr (status, details) \<Rightarrow>
         let st = at_row i (logged ''STAGE1'' (check_status_value status) (Some details)) st in
         if status \<in> {PASS, REVIEW} then
           (bump (\<lambda>m. if status = PASS then m\<lparr>mt_stage1_passed := mt_stage1_passed m + 1\<rparr>
                      else m\<lparr>mt_stage1_review := mt_stage1_review m + 1\<rparr>) st)
             \<lparr>pl_survivors := pl_survivors st @ [\<lparr>sur_id = i, sur_text = i_raw_cv_text c, sur_details = details\<rparr>]\<rparr>
         else at_row i (decided ''FILTER_REJECTED'' ''STAGE1'' (filter_rejection c details))
           (bump (\<lambda>m. m\<lparr>mt_stage1_rejected := mt_stage1_rejected m + 1\<rparr>)
             (st\<lparr>pl_rejected := pl_rejected st @ [filter_rejection c details]\<rparr>)))"

section \<open>Stage 2\<close>

definition memory_extractor ::
  "screening_env \<Rightarrow> screening_job \<Rightarrow> degree_requirement option \<Rightarrow> string \<Rightarrow> string \<Rightarrow> source_page list option \<Rightarrow> pydict result" where
  "memory_extractor env job degree i cv pages =
    (let rm = sv_models env in
     rbind (extract_candidate_category_evidence (rm_identity rm) (search_chunks (rm_sqrt rm) (rm_embedding rm))
         (rerank_category_chunks (rm_predict rm) 2) (sv_production env) i cv (jp_queries job) pages
         (jp_must_have job) (jp_nice_to_have job) degree (jp_contract job))
       (\<lambda>x. Inr (extraction_payload i x)))"

definition extract_evidence ::
  "screening_env \<Rightarrow> screening_job \<Rightarrow> hard_filters \<Rightarrow> (string \<times> source_page list) list \<Rightarrow> survivor \<Rightarrow> pydict result" where
  "extract_evidence env job rules views v =
    rbind ((if sv_postgres_backend env then sv_postgres env job else memory_extractor env job)
        (degree_required rules) (sur_id v) (sur_text v) (map_of views (sur_id v)))
      (\<lambda>payload. if dget payload ''candidate_id'' JNull \<noteq> JStr (sur_id v)
         then Inl (ValueError ''Evidence ownership mismatch'') else Inr payload)"

definition stage2_payload :: "survivor \<Rightarrow> pydict \<Rightarrow> pydict" where
  "stage2_payload v payload =
     dmerge (dset ''candidate_cv_text'' (JStr (sur_text v)) payload) (stage1_verification (sur_details v))"

definition extraction_failure :: "survivor \<Rightarrow> pydict" where
  "extraction_failure v = dmerge [(''candidate_id'', JStr (sur_id v)), (''stage'', JStr ''STAGE2''),
     (''evaluation_status'', JStr ''EXTRACTION_FAILED''), (''reason'', JStr ''EVIDENCE_EXTRACTION_FAILED'')]
     (stage1_verification (sur_details v))"

definition stage2_step ::
  "screening_env \<Rightarrow> screening_job \<Rightarrow> hard_filters \<Rightarrow> (string \<times> source_page list) list \<Rightarrow> survivor \<Rightarrow> pipeline \<Rightarrow> pipeline" where
  "stage2_step env job rules views v st =
    (case extract_evidence env job rules views v of
       Inl _ \<Rightarrow>
         bump (\<lambda>m. m\<lparr>mt_stage2_failed := mt_stage2_failed m + 1\<rparr>)
           (at_row (sur_id v) (logged ''STAGE2'' ''FAILED'' None \<circ> decided ''EXTRACTION_FAILED'' ''STAGE2'' (extraction_failure v))
             (st\<lparr>pl_failed := pl_failed st @ [extraction_failure v]\<rparr>))
     | Inr payload \<Rightarrow>
         (at_row (sur_id v) (logged ''STAGE2'' ''EXTRACTED'' None \<circ> (\<lambda>r. r\<lparr>x_evidence := Some payload\<rparr>)) st)
           \<lparr>pl_payloads := pl_payloads st @ [stage2_payload v payload]\<rparr>)"

definition shortlist_payloads :: "int \<Rightarrow> pydict list \<Rightarrow> pydict list result" where
  "shortlist_payloads cutoff payloads =
    rbind (rank_and_filter_candidate_batch cutoff payloads) (\<lambda>selected.
      if \<not> distinct (map item_id selected) \<or> \<not> set (map item_id selected) \<subseteq> set (map item_id payloads)
      then Inl (ValueError ''Invalid shortlist'') else Inr selected)"

text \<open>The three keys of the Stage 1 verification, copied from the payload.\<close>

definition carried_verification :: "pydict \<Rightarrow> pydict" where
  "carried_verification payload = map (\<lambda>k. (k, dget payload k JNull))
     [''verification_required'', ''verification_reasons'', ''stage1_filter_details'']"

definition ranking_failure :: "pydict \<Rightarrow> pydict" where
  "ranking_failure p = dmerge [(''candidate_id'', dget p ''candidate_id'' JNull), (''stage'', JStr ''STAGE2''),
     (''evaluation_status'', JStr ''PROCESSING_FAILED''), (''reason'', JStr ''RANKING_FAILED'')] (carried_verification p)"

definition ranking_failed_step :: "pydict \<Rightarrow> pipeline \<Rightarrow> pipeline" where
  "ranking_failed_step p st = bump (\<lambda>m. m\<lparr>mt_stage2_failed := mt_stage2_failed m + 1\<rparr>)
     (at_row (item_id p) (logged ''STAGE2'' ''FAILED'' None \<circ> decided ''PROCESSING_FAILED'' ''STAGE2'' (ranking_failure p))
       (st\<lparr>pl_failed := pl_failed st @ [ranking_failure p]\<rparr>))"

definition relevance_review :: "pydict \<Rightarrow> bool" where
  "relevance_review p \<longleftrightarrow> truthy (dget p ''relevance_review_required'' JNull) \<or>
     dget p ''scoring_version'' JNull \<noteq> JStr SCORING_VERSION"

definition review_item :: "pydict \<Rightarrow> pydict" where
  "review_item p = dmerge [(''candidate_id'', dget p ''candidate_id'' JNull), (''stage'', JStr ''STAGE2''),
     (''evaluation_status'', JStr ''REVIEW_REQUIRED''),
     (''reason'', let r = dget p ''relevance_reason'' JNull in if truthy r then r else JStr ''STAGE2_SCORING_REPLAY_REQUIRED''),
     (''retrieval_score'', dget p ''composite_score'' JNull)]
     (stage1_verification (as_dict (dget p ''stage1_filter_details'' JNull)))"

definition cutoff_item :: "pydict \<Rightarrow> pydict" where
  "cutoff_item p = dmerge [(''candidate_id'', dget p ''candidate_id'' JNull), (''stage'', JStr ''STAGE2''),
     (''reason'', JStr ''CUTOFF_EXCLUDED''), (''retrieval_score'', dget p ''composite_score'' JNull)] (carried_verification p)"

definition cutoff_step :: "pydict list \<Rightarrow> pydict \<Rightarrow> pipeline \<Rightarrow> pipeline" where
  "cutoff_step shortlisted p st =
    (if item_id p \<in> set (map item_id shortlisted) then st
     else if relevance_review p then
       at_row (item_id p) (logged ''STAGE2'' ''REVIEW_REQUIRED'' None \<circ> decided ''REVIEW_REQUIRED'' ''STAGE2'' (review_item p))
         (bump (\<lambda>m. m\<lparr>mt_stage2_review := mt_stage2_review m + 1\<rparr>) (st\<lparr>pl_review := pl_review st @ [review_item p]\<rparr>))
     else
       bump (\<lambda>m. m\<lparr>mt_stage2_excluded := mt_stage2_excluded m + 1\<rparr>)
         (at_row (item_id p) (logged ''STAGE2'' ''CUTOFF_EXCLUDED'' None \<circ> decided ''CUTOFF_EXCLUDED'' ''STAGE2'' (cutoff_item p))
           (st\<lparr>pl_rejected := pl_rejected st @ [cutoff_item p]\<rparr>)))"

definition stage2_cut :: "int \<Rightarrow> pipeline \<Rightarrow> pipeline \<times> pydict list" where
  "stage2_cut cutoff st =
    (case shortlist_payloads cutoff (pl_payloads st) of
       Inl _ \<Rightarrow> ((fold ranking_failed_step (pl_payloads st) st)\<lparr>pl_payloads := []\<rparr>, [])
     | Inr shortlisted \<Rightarrow>
         (fold (cutoff_step shortlisted) (pl_payloads st)
           (bump (\<lambda>m. m\<lparr>mt_stage2_shortlisted := length shortlisted\<rparr>) st), shortlisted))"

section \<open>Stage 3\<close>

definition batch_results :: "screening_env \<Rightarrow> pydict list \<Rightarrow> final_evaluation list result" where
  "batch_results env shortlisted =
    (let returned = (case sv_evaluate env shortlisted of Inl _ \<Rightarrow> [] | Inr es \<Rightarrow> es) in
     rmap (\<lambda>p. case find (\<lambda>e. fe_candidate_id e = item_id p) (rev returned) of
         Some e \<Rightarrow> Inr e
       | None \<Rightarrow> failed_evaluation (item_id p) ''BATCH_EVALUATION_FAILED'' ''Evaluation did not return a result.'' False)
       shortlisted)"

definition result_item :: "final_evaluation \<Rightarrow> pydict \<Rightarrow> pydict" where
  "result_item e details =
    (let item = dmerge (evaluation_dump e) (stage1_verification details) in
     dset ''provisional'' (JBool (fe_evaluation_status e = E_SUCCESS \<and>
       truthy (dget item ''verification_required'' JNull))) item)"

definition stage3_step :: "final_evaluation \<times> pydict \<Rightarrow> pipeline \<Rightarrow> pipeline" where
  "stage3_step = (\<lambda>(e, details) st0.
    let item = result_item e details; status = evaluation_status_value (fe_evaluation_status e);
        st = at_row (fe_candidate_id e) (logged ''STAGE3'' status None \<circ> decided status ''STAGE3'' item) st0
    in case fe_evaluation_status e of
         E_SUCCESS \<Rightarrow> bump (\<lambda>m. m\<lparr>mt_stage3_succeeded := mt_stage3_succeeded m + 1\<rparr>)
           (st\<lparr>pl_leaderboard := pl_leaderboard st @ [item]\<rparr>)
       | E_REVIEW_REQUIRED \<Rightarrow> bump (\<lambda>m. m\<lparr>mt_stage3_review := mt_stage3_review m + 1\<rparr>)
           (st\<lparr>pl_review := pl_review st @ [dset ''stage'' (JStr ''STAGE3'') item]\<rparr>)
       | E_EVALUATION_FAILED \<Rightarrow> bump (\<lambda>m. m\<lparr>mt_stage3_failed := mt_stage3_failed m + 1\<rparr>)
           (st\<lparr>pl_failed := pl_failed st @ [item]\<rparr>))"

text \<open>\<open>stage1_details[result.candidate_id]\<close> for the results in their order.\<close>

definition with_details :: "survivor list \<Rightarrow> final_evaluation \<Rightarrow> (final_evaluation \<times> pydict) result" where
  "with_details survivors e =
    (case find (\<lambda>v. sur_id v = fe_candidate_id e) (rev survivors) of
       None \<Rightarrow> Inl (KeyError (fe_candidate_id e)) | Some v \<Rightarrow> Inr (e, sur_details v))"

definition stage3 :: "screening_env \<Rightarrow> pydict list \<Rightarrow> pipeline \<Rightarrow> pipeline result" where
  "stage3 env shortlisted st =
    rbind (batch_results env shortlisted) (\<lambda>results.
    rbind (rmap (with_details (pl_survivors st)) (sort_key evaluation_sort_key results)) (\<lambda>rows.
      Inr (fold stage3_step rows (bump (\<lambda>m. m\<lparr>mt_stage3_evaluated := length results\<rparr>) st))))"

section \<open>The run\<close>

definition accounted :: "outcome_row \<Rightarrow> bool" where
  "accounted r \<longleftrightarrow> (case x_outcome r of None \<Rightarrow> False | Some x \<Rightarrow> x \<noteq> [])"

definition finish :: "nat \<Rightarrow> pipeline \<Rightarrow> screening_result result" where
  "finish n st =
    (let st = bump (\<lambda>m. m\<lparr>mt_accounted := count_where accounted (pl_outcomes st)\<rparr>) st in
     if mt_accounted (pl_metrics st) \<noteq> n then Inl (RuntimeError ''Candidate accounting is incomplete'')
     else Inr \<lparr>sr_metrics = pl_metrics st, sr_leaderboard = pl_leaderboard st,
       sr_rejected = sort_key item_id (pl_rejected st), sr_review = sort_key item_id (pl_review st),
       sr_failed = sort_key item_id (pl_failed st), sr_outcomes = pl_outcomes st\<rparr>)"

definition run_end_to_end_screening_pipeline ::
  "screening_env \<Rightarrow> screening_job \<Rightarrow> json \<Rightarrow> int \<Rightarrow> (string \<times> source_page list) list \<Rightarrow> candidate_input list \<Rightarrow>
   screening_result result" where
  "run_end_to_end_screening_pipeline env job explicit cutoff views raw =
    rbind (resolve_hard_filters (jp_profile job) explicit) (\<lambda>rules.
      if \<not> (1 \<le> cutoff \<and> cutoff \<le> 15) then Inl (ValueError ''Stage 2 cutoff must be between 1 and 15'')
      else rbind (rmap consistent_authorization raw) (\<lambda>cands.
        if raw = [] \<or> jp_profile job = []
        then Inr \<lparr>sr_metrics = no_metrics (length raw), sr_leaderboard = [], sr_rejected = [], sr_review = [],
               sr_failed = [], sr_outcomes = []\<rparr>
        else let st1 = fold (stage1_step env job rules) cands (initial_pipeline env cands) in
          if pl_survivors st1 = [] then finish (length cands) st1
          else if sv_production env \<and> \<not> sv_postgres_backend env
          then Inl (RuntimeError ''Production Stage 2 requires STAGE2_BACKEND=postgres'')
          else case stage2_cut cutoff (fold (stage2_step env job rules views) (pl_survivors st1) st1) of
            (st2, shortlisted) \<Rightarrow> rbind (stage3 env shortlisted st2) (finish (length cands))))"

end
