(* ===== verification/Run_Accounting.thy ===== *)
theory Run_Accounting
  imports Screening_Pipeline
begin

text \<open>
  The check that every screening result passes before it is published, \<open>validate_accounting\<close> of
  \<open>app/run_audit.py\<close>, and what one loop of the screening run does to the accounts: the locale states
  the contract of a stage, and each of the five loops of \<open>app/orchestrator.py\<close> is shown to keep it.
\<close>

section \<open>The accounting check\<close>

definition ensure :: "string \<Rightarrow> bool \<Rightarrow> unit result" where
  "ensure msg ok = (if ok then Inr () else Inl (ValueError msg))"

definition public_items :: "screening_result \<Rightarrow> pydict list" where
  "public_items r = sr_leaderboard r @ sr_review r @ sr_rejected r @ sr_failed r"

definition count_outcome :: "outcome_row list \<Rightarrow> string \<Rightarrow> nat" where
  "count_outcome rows name = count_where (\<lambda>r. x_outcome r = Some name) rows"

definition outcome_names :: "string list" where
  "outcome_names = [''SUCCESS'', ''REVIEW_REQUIRED'', ''EVALUATION_FAILED'', ''FILTER_REJECTED'',
     ''CUTOFF_EXCLUDED'', ''EXTRACTION_FAILED'', ''PROCESSING_FAILED'']"

definition stage_failures :: "outcome_row list \<Rightarrow> string \<Rightarrow> nat" where
  "stage_failures rows stage = count_where
     (\<lambda>r. x_stage r = Some stage \<and> x_outcome r \<in> {Some ''EXTRACTION_FAILED'', Some ''PROCESSING_FAILED''}) rows"

definition stage_reviews :: "outcome_row list \<Rightarrow> string \<Rightarrow> nat" where
  "stage_reviews rows stage = count_where (\<lambda>r. x_stage r = Some stage \<and> x_outcome r = Some ''REVIEW_REQUIRED'') rows"

definition stage1_reviewed :: "outcome_row \<Rightarrow> bool" where
  "stage1_reviewed r \<longleftrightarrow> list_ex (\<lambda>ev. evt_stage ev = ''STAGE1'' \<and> evt_status ev = ''REVIEW'') (x_history r)"

definition row_details :: "outcome_row \<Rightarrow> pydict option" where
  "row_details r = (case find (\<lambda>ev. evt_stage ev = ''STAGE1'' \<and> evt_details ev \<noteq> None) (x_history r) of
     None \<Rightarrow> None | Some ev \<Rightarrow> evt_details ev)"

definition verification_check :: "outcome_row \<Rightarrow> unit result" where
  "verification_check r =
    (case row_details r of
       None \<Rightarrow> Inr ()
     | Some details \<Rightarrow>
         if x_stage r \<notin> {Some ''STAGE2'', Some ''STAGE3''} then Inr ()
         else let decision = x_result r; reasons = stage1_reviews details in
           rbind (ensure ''Stage 1 verification metadata does not reconcile''
             (json_eq (dget decision ''stage1_filter_details'' JNull) (JDict details) \<and>
              json_eq (dget decision ''verification_reasons'' JNull) (JList reasons) \<and>
              dget decision ''verification_required'' JNull = JBool (reasons \<noteq> [])))
           (\<lambda>_. ensure ''Provisional outcome does not reconcile''
             (x_stage r \<noteq> Some ''STAGE3'' \<or>
              dget decision ''provisional'' JNull = JBool (x_outcome r = Some ''SUCCESS'' \<and> reasons \<noteq> []))))"

definition validate_accounting :: "screening_result \<Rightarrow> string list \<Rightarrow> unit result" where
  "validate_accounting res candidate_ids =
    (let outcomes = sr_outcomes res; m = sr_metrics res; expected = set candidate_ids; n = card expected;
         ids = map item_id (public_items res) in
     rbind (ensure ''Candidate outcomes do not match the input batch'' (n = length candidate_ids \<and> length outcomes = n)) (\<lambda>_.
     rbind (ensure ''Candidate outcomes do not match the input batch'' (x_id ` set outcomes = expected)) (\<lambda>_.
     rbind (ensure ''Candidate response lists do not reconcile'' (length ids = n \<and> set ids = expected)) (\<lambda>_.
     rbind (ensure ''Candidate outcome is incomplete''
       (list_all (\<lambda>r. accounted r \<and> x_stage r \<noteq> None \<and> x_stage r \<noteq> Some []) outcomes)) (\<lambda>_.
     rbind (ensure ''Input metric does not match candidate outcomes'' (mt_total_input m = n)) (\<lambda>_.
     rbind (ensure ''Outcome counts do not reconcile'' ((\<Sum>name\<leftarrow>outcome_names. count_outcome outcomes name) = n)) (\<lambda>_.
     rbind (ensure ''Stage 3 metrics do not reconcile''
       (mt_stage3_succeeded m = count_outcome outcomes ''SUCCESS'' \<and>
        mt_stage3_failed m = count_outcome outcomes ''EVALUATION_FAILED'')) (\<lambda>_.
     rbind (ensure ''STAGE0 failure metric does not reconcile'' (stage_failures outcomes ''STAGE0'' = mt_stage0_failed m)) (\<lambda>_.
     rbind (ensure ''STAGE1 failure metric does not reconcile'' (stage_failures outcomes ''STAGE1'' = mt_stage1_failed m)) (\<lambda>_.
     rbind (ensure ''STAGE2 failure metric does not reconcile'' (stage_failures outcomes ''STAGE2'' = mt_stage2_failed m)) (\<lambda>_.
     rbind (ensure ''Stage 1 review metric does not reconcile'' (mt_stage1_review m = count_where stage1_reviewed outcomes)) (\<lambda>_.
     rbind (rmap verification_check outcomes) (\<lambda>_.
     rbind (ensure ''Stage 3 review metric does not reconcile'' (mt_stage3_review m = stage_reviews outcomes ''STAGE3'')) (\<lambda>_.
     rbind (ensure ''Stage 1/2 metrics do not reconcile''
       (mt_stage1_rejected m = count_outcome outcomes ''FILTER_REJECTED'' \<and>
        mt_stage2_excluded m = count_outcome outcomes ''CUTOFF_EXCLUDED'')) (\<lambda>_.
     rbind (ensure ''Accounted metric does not reconcile'' (mt_accounted m = n)) (\<lambda>_.
     rbind (ensure ''Stage 0 metrics do not reconcile'' (mt_stage0_processed m + mt_stage0_failed m + mt_stage0_review m = n)) (\<lambda>_.
     rbind (ensure ''Stage 0 review metric does not reconcile'' (mt_stage0_review m = stage_reviews outcomes ''STAGE0'')) (\<lambda>_.
     rbind (ensure ''Stage 1 metrics do not reconcile''
       (mt_stage1_passed m + mt_stage1_rejected m + mt_stage1_review m + mt_stage1_failed m = mt_stage0_processed m)) (\<lambda>_.
     rbind (ensure ''Stage 2 review metric does not reconcile'' (mt_stage2_review m = stage_reviews outcomes ''STAGE2'')) (\<lambda>_.
     rbind (ensure ''Stage 2 metrics do not reconcile''
       (mt_stage2_shortlisted m + mt_stage2_excluded m + mt_stage2_failed m + mt_stage2_review m =
        mt_stage1_passed m + mt_stage1_review m)) (\<lambda>_.
     ensure ''Stage 3 metrics do not reconcile''
       (mt_stage3_succeeded m + mt_stage3_review m + mt_stage3_failed m = mt_stage3_evaluated m \<and>
        mt_stage3_evaluated m = mt_stage2_shortlisted m))))))))))))))))))))))"

section \<open>What the loops share\<close>

text \<open>The decision on a row, absent while the candidate is still in the run.\<close>

definition mark :: "outcome_row \<Rightarrow> (string \<times> string) option" where
  "mark r = (case (x_outcome r, x_stage r) of (Some a, Some b) \<Rightarrow> Some (a, b) | _ \<Rightarrow> None)"

definition public_ids :: "pipeline \<Rightarrow> string list" where
  "public_ids st = map item_id (pl_leaderboard st @ pl_review st @ pl_rejected st @ pl_failed st)"

definition tally :: "pipeline \<Rightarrow> string \<times> string \<Rightarrow> nat" where
  "tally st v = count_where (\<lambda>r. mark r = Some v) (pl_outcomes st)"

text \<open>The candidates \<open>pending\<close> are the open rows, the others are on exactly one response list.\<close>

definition books :: "string list \<Rightarrow> string list \<Rightarrow> pipeline \<Rightarrow> bool" where
  "books ids pending st \<longleftrightarrow> distinct ids \<and> map x_id (pl_outcomes st) = ids \<and>
     mset (public_ids st) + mset pending = mset ids \<and>
     (\<forall>r\<in>set (pl_outcomes st). mark r = None \<longleftrightarrow> x_id r \<in> set pending)"

lemma booksD:
  assumes "books ids pending st"
  shows "distinct ids" "map x_id (pl_outcomes st) = ids" "distinct pending" "set pending \<subseteq> set ids"
    "r \<in> set (pl_outcomes st) \<Longrightarrow> mark r = None \<longleftrightarrow> x_id r \<in> set pending"
proof -
  have m: "mset (public_ids st @ pending) = mset ids" and d: "distinct ids" using assms by (auto simp: books_def)
  show "set pending \<subseteq> set ids" using mset_eq_setD [OF m] by auto
  show "distinct pending" using mset_eq_imp_distinct_iff [OF m] d by simp
qed (use assms in \<open>auto simp: books_def\<close>)

lemma books_perm: "books ids p st \<Longrightarrow> mset q = mset p \<Longrightarrow> books ids q st"
  unfolding books_def using mset_eq_setD [of q p] by simp

lemma count_update_open:
  assumes "distinct (map x_id rows)" "i \<in> x_id ` set rows" "\<And>r. r \<in> set rows \<Longrightarrow> x_id r = i \<Longrightarrow> \<not> P r"
    "\<And>r. r \<in> set rows \<Longrightarrow> x_id r = i \<Longrightarrow> P (f r) = Q"
  shows "count_where P (update_where (\<lambda>r. x_id r = i) f rows) = count_where P rows + of_bool Q"
  using assms
proof (induction rows)
  case (Cons a rows)
  show ?case
  proof (cases "x_id a = i")
    case True
    then have "update_where (\<lambda>r. x_id r = i) f rows = rows" using Cons.prems(1) by (intro update_where_False) (auto simp: image_iff)
    then show ?thesis using True Cons.prems(3,4) by auto
  next
    case False
    then show ?thesis using Cons by auto
  qed
qed simp

locale stage_loop =
  fixes step :: "'x \<Rightarrow> pipeline \<Rightarrow> pipeline"
    and key :: "'x \<Rightarrow> string"
    and revise :: "'x \<Rightarrow> outcome_row \<Rightarrow> outcome_row"
    and verdict :: "'x \<Rightarrow> (string \<times> string) option"
  assumes outcomes: "pl_outcomes (step x st) = update_where (\<lambda>r. x_id r = key x) (revise x) (pl_outcomes st)"
    and revise_id: "x_id (revise x r) = x_id r"
    and revise_mark: "mark (revise x r) = (case verdict x of None \<Rightarrow> mark r | Some v \<Rightarrow> Some v)"
    and published: "mset (public_ids (step x st)) = mset (public_ids st) + (if verdict x = None then {#} else {#key x#})"
begin

lemma ids_step [simp]: "map x_id (pl_outcomes (step x st)) = map x_id (pl_outcomes st)"
  unfolding outcomes by (rule map_update_where_key) (rule revise_id)

lemma ids_fold [simp]: "map x_id (pl_outcomes (fold step xs st)) = map x_id (pl_outcomes st)"
  by (induction xs arbitrary: st) auto

text \<open>A step decides one open candidate or leaves it pending.\<close>

lemma books_step:
  assumes "books ids (key x # pending) st"
  shows "books ids (if verdict x = None then key x # pending else pending) (step x st)"
proof -
  have x: "key x \<notin> set pending" using booksD(3) [OF assms] by simp
  have m: "mark r = None \<longleftrightarrow> x_id r \<in> set (if verdict x = None then key x # pending else pending)"
    if "r \<in> set (pl_outcomes (step x st))" for r
    using that booksD(5) [OF assms] x revise_id revise_mark unfolding outcomes
    by (elim update_where_cases) (auto split: option.splits)
  show ?thesis using assms m published [of x st] by (auto simp: books_def simp del: map_map)
qed

lemma books_fold_aux:
  assumes "books ids (map key xs @ pending) st"
  shows "books ids (map key (filter (\<lambda>x. verdict x = None) xs) @ pending) (fold step xs st)"
  using assms
proof (induction xs arbitrary: st pending)
  case (Cons x xs)
  show ?case
  proof (cases "verdict x = None")
    case True
    have "books ids (map key xs @ key x # pending) (step x st)"
      by (rule books_perm [OF books_step [OF Cons.prems [simplified]]]) (simp add: True)
    from Cons.IH [OF this] have "books ids (map key (filter (\<lambda>x. verdict x = None) xs) @ key x # pending) (fold step xs (step x st))" .
    from books_perm [OF this] show ?thesis using True by simp
  next
    case False
    have "books ids (map key xs @ pending) (step x st)"
      using books_step [OF Cons.prems [simplified]] by (simp add: False)
    from Cons.IH [OF this] show ?thesis by (simp add: False)
  qed
qed simp

lemma books_fold: "books ids (map key xs) st \<Longrightarrow> books ids (map key (filter (\<lambda>x. verdict x = None) xs)) (fold step xs st)"
  using books_fold_aux [of ids xs "[]"] by simp

lemma tally_step:
  assumes "books ids (key x # pending) st"
  shows "tally (step x st) v = tally st v + of_bool (verdict x = Some v)"
proof -
  note b = booksD [OF assms]
  have "key x \<in> x_id ` set (pl_outcomes st)" using b(2,4) by (metis insert_subset list.set(2) list.set_map)
  moreover have "mark r = None" if "r \<in> set (pl_outcomes st)" "x_id r = key x" for r
    using b(5) [OF that(1)] that(2) by simp
  ultimately show ?thesis
    unfolding tally_def outcomes using b(1,2)
    by (intro count_update_open) (auto simp: revise_mark split: option.splits)
qed

lemma tally_fold_aux:
  assumes "books ids (map key xs @ pending) st"
  shows "tally (fold step xs st) v = tally st v + count_where (\<lambda>x. verdict x = Some v) xs"
  using assms
proof (induction xs arbitrary: st pending)
  case (Cons x xs)
  have "books ids (if verdict x = None then key x # map key xs @ pending else map key xs @ pending) (step x st)"
    by (rule books_step [OF Cons.prems [simplified]])
  then have "books ids (map key xs @ (if verdict x = None then key x # pending else pending)) (step x st)"
    by (elim books_perm) simp
  from Cons.IH [OF this] tally_step [of ids x "map key xs @ pending" st v] Cons.prems
  show ?case by simp
qed simp

lemma tally_fold:
  "books ids (map key xs) st \<Longrightarrow> tally (fold step xs st) v = tally st v + count_where (\<lambda>x. verdict x = Some v) xs"
  using tally_fold_aux [of ids xs "[]"] by simp

text \<open>A row is revised by the element of its key, if there is one.\<close>

lemma row_fold:
  assumes "distinct (map key xs)" "r \<in> set (pl_outcomes (fold step xs st))"
  obtains (same) "r \<in> set (pl_outcomes st)" "x_id r \<notin> key ` set xs"
    | (revised) x q where "x \<in> set xs" "q \<in> set (pl_outcomes st)" "x_id q = key x" "r = revise x q"
proof -
  have "r \<in> set (pl_outcomes st) \<and> x_id r \<notin> key ` set xs \<or>
      (\<exists>x\<in>set xs. \<exists>q\<in>set (pl_outcomes st). x_id q = key x \<and> r = revise x q)"
    using assms
  proof (induction xs arbitrary: st)
    case (Cons x xs)
    from Cons.IH [of "step x st"] Cons.prems consider
        (a) "r \<in> set (pl_outcomes (step x st))" "x_id r \<notin> key ` set xs"
      | (b) y q where "y \<in> set xs" "q \<in> set (pl_outcomes (step x st))" "x_id q = key y" "r = revise y q"
      by auto
    then show ?case
    proof cases
      case a
      then show ?thesis unfolding outcomes by (elim update_where_cases) (auto simp: revise_id)
    next
      case b
      have "q \<in> set (pl_outcomes st)"
        using b(2) unfolding outcomes
      proof (rule update_where_cases)
        fix q' assume "q' \<in> set (pl_outcomes st)" "x_id q' = key x" "q = revise x q'"
        then have "key x = key y" using b(3) revise_id by metis
        then show ?thesis using b(1) Cons.prems(1) by (metis distinct.simps(2) image_eqI list.map(2) set_map)
      qed
      then show ?thesis using b by auto
    qed
  qed simp
  then show thesis using that by blast
qed

text \<open>Invariants of the rows, and the rows of a first loop that meets every row once.\<close>

lemma rows_fold:
  assumes "\<And>r. r \<in> set (pl_outcomes st) \<Longrightarrow> P r"
    "\<And>x r. x \<in> set xs \<Longrightarrow> x_id r = key x \<Longrightarrow> P r \<Longrightarrow> P (revise x r)"
  shows "r \<in> set (pl_outcomes (fold step xs st)) \<Longrightarrow> P r"
  using assms
proof (induction xs arbitrary: st)
  case (Cons x xs)
  have "P q" if "q \<in> set (pl_outcomes (step x st))" for q
    using that Cons.prems(2,3) unfolding outcomes by (elim update_where_cases) auto
  then show ?case using Cons.IH [of "step x st"] Cons.prems(1,3) by simp
qed simp

lemma count_fold_same:
  assumes "\<And>x r. P (revise x r) = P r"
  shows "count_where P (pl_outcomes (fold step xs st)) = count_where P (pl_outcomes st)"
proof (induction xs arbitrary: st)
  case (Cons x xs)
  have "count_where P (pl_outcomes (step x st)) = count_where P (pl_outcomes st)"
    unfolding outcomes by (rule count_update_same) (rule assms)
  then show ?case using Cons by simp
qed simp

lemma all_rows_fold:
  assumes "\<And>x. x_id (h x) = key x"
  shows "distinct (map key xs) \<Longrightarrow> x_id ` set pre \<inter> key ` set xs = {} \<Longrightarrow> pl_outcomes st = pre @ map h xs \<Longrightarrow>
    pl_outcomes (fold step xs st) = pre @ map (\<lambda>x. revise x (h x)) xs"
proof (induction xs arbitrary: pre st)
  case (Cons x xs)
  have pre: "update_where (\<lambda>r. x_id r = key x) f pre = pre" for f
    using Cons.prems(2) by (intro update_where_False) (auto simp: image_iff)
  have rest: "update_where (\<lambda>r. x_id r = key x) f (map h xs) = map h xs" for f
    using Cons.prems(1) by (intro update_where_False) (auto simp: assms image_iff)
  have "pl_outcomes (step x st) = (pre @ [revise x (h x)]) @ map h xs"
    using Cons.prems(3) pre rest by (simp add: outcomes update_where_def assms)
  from Cons.IH [OF _ _ this] Cons.prems(1,2) show ?case
    by (simp add: revise_id assms)
qed simp

end

end
