(* ===== verification/Run_Audit.thy ===== *)
theory Run_Audit
  imports Run_Accounting
begin

text \<open>
  The audit tables of a screening run (\<open>app/run_audit.py\<close>): reservation under an idempotency key,
  publication of a result in one transaction, and recomputation of a stored decision. The tables are
  the lists of their rows; a call that raises before its commit leaves the tables it found. Times
  are in seconds, and the hash of a canonical JSON text is an argument.
\<close>

section \<open>Tables\<close>

record job_profile =
  jb_id :: string
  jb_owner :: string
  jb_title :: json
  jb_queries :: json
  jb_filters :: json

datatype run_status = R_QUEUED | R_RUNNING | R_FAILED | R_COMPLETED

record screening_run =
  u_id :: string
  u_owner :: string
  u_job :: string
  u_status :: run_status
  u_metrics :: "metrics option"
  u_key :: "string option"
  u_request_hash :: string
  u_job_snapshot :: pydict
  u_policy :: pydict
  u_response :: "pydict option"
  u_request :: "pydict option"
  u_attempts :: int
  u_lease_until :: "int option"
  u_lease_owner :: "string option"
  u_failure :: "string option"
  u_created :: int

record candidate_outcome =
  co_run :: string
  co_candidate :: string
  co_outcome :: string
  co_stage :: string
  co_input :: pydict
  co_history :: "event list"
  co_evidence :: "pydict option"
  co_citations :: json
  co_validated :: json
  co_result :: pydict
  co_provider :: json
  co_model :: json
  co_prompt_version :: json
  co_policy_version :: json

record stored_evaluation =
  es_run :: string
  es_job :: string
  es_candidate :: string
  es_score :: json
  es_tier :: json
  es_status :: json
  es_policy_version :: json
  es_category_scores :: json
  es_verified :: json
  es_invalid :: json
  es_critical :: json
  es_raw :: pydict

record audit_db =
  au_jobs :: "job_profile list"
  au_runs :: "screening_run list"
  au_outcomes :: "candidate_outcome list"
  au_evaluations :: "stored_evaluation list"

definition run_by_id :: "string \<Rightarrow> audit_db \<Rightarrow> screening_run option" where
  "run_by_id i db = find (\<lambda>r. u_id r = i) (au_runs db)"

definition run_by_key :: "string option \<Rightarrow> audit_db \<Rightarrow> screening_run option" where
  "run_by_key key db = (if nonempty key then find (\<lambda>r. u_key r = key) (au_runs db) else None)"

definition put_run :: "screening_run \<Rightarrow> audit_db \<Rightarrow> audit_db" where
  "put_run r db = db\<lparr>au_runs := update_where (\<lambda>q. u_id q = u_id r) (\<lambda>_. r) (au_runs db)\<rparr>"

section \<open>The policy of a run\<close>

definition PROMPT_VERSION :: string where
  "PROMPT_VERSION = ''stage3-prompt-v14''"

definition weight_texts :: "(string \<times> string) list" where
  "weight_texts = [(''skills'', ''0.40''), (''experience'', ''0.30''), (''projects'', ''0.20''), (''education'', ''0.10'')]"

text \<open>The entries that the audit reads again; versions, hashes and limits follow as \<open>others\<close>.\<close>

definition policy_snapshot :: "json \<Rightarrow> json \<Rightarrow> pydict \<Rightarrow> int \<Rightarrow> pydict" where
  "policy_snapshot provider model others cutoff =
    [(''scoring_policy_version'', JStr SCORING_POLICY_VERSION),
     (''category_weights'', JDict (map (\<lambda>(k, w). (k, JStr w)) weight_texts)),
     (''tier_thresholds'', JDict [(''TIER_1'', JNum 75), (''TIER_2'', JNum 55)]),
     (''prompt_version'', JStr PROMPT_VERSION), (''provider'', provider), (''model'', model),
     (''stage2_cutoff'', JNum (of_int cutoff))] @ others"

section \<open>Reservation\<close>

datatype reservation = CONFLICT | REPLAY | IN_PROGRESS | RESERVED

definition existing_run :: "int \<Rightarrow> string \<Rightarrow> bool \<Rightarrow> string \<Rightarrow> screening_run \<Rightarrow> reservation result" where
  "existing_run now owner admin request_hash r =
    (if u_owner r \<noteq> owner \<and> \<not> admin then Inl (HTTPException 403 ''Run access denied'')
     else if u_request_hash r \<noteq> request_hash then Inr CONFLICT
     else if u_status r = R_COMPLETED then Inr REPLAY
     else if u_status r = R_QUEUED then Inr IN_PROGRESS
     else if u_status r = R_RUNNING \<and> u_request r \<noteq> None \<and>
             (case u_lease_until r of None \<Rightarrow> True | Some lease \<Rightarrow> now < lease) then Inr IN_PROGRESS
     else if u_status r = R_RUNNING \<and> now - u_created r < 300 then Inr IN_PROGRESS
     else Inr RESERVED)"

definition upsert_job :: "string \<Rightarrow> bool \<Rightarrow> pydict \<Rightarrow> audit_db \<Rightarrow> (string \<times> audit_db) result" where
  "upsert_job owner admin job db =
    rbind (dindex job ''job_id'') (\<lambda>jid. rbind (dindex job ''title'') (\<lambda>title.
    rbind (dindex job ''jd_category_queries'') (\<lambda>queries. rbind (dindex job ''hard_filter_rules'') (\<lambda>filters.
      let i = str_of jid in
      case find (\<lambda>j. jb_id j = i) (au_jobs db) of
        None \<Rightarrow> Inr (i, db\<lparr>au_jobs := au_jobs db @
          [\<lparr>jb_id = i, jb_owner = owner, jb_title = title, jb_queries = queries, jb_filters = filters\<rparr>]\<rparr>)
      | Some j \<Rightarrow>
          if jb_owner j \<noteq> owner \<and> \<not> admin then Inl (HTTPException 403 ''Job access denied'')
          else Inr (i, db\<lparr>au_jobs := update_where (\<lambda>q. jb_id q = i)
            (\<lambda>q. q\<lparr>jb_title := title, jb_queries := queries, jb_filters := filters\<rparr>) (au_jobs db)\<rparr>)))))"

definition reserved_outcome :: "(json \<Rightarrow> string) \<Rightarrow> string \<Rightarrow> pydict \<Rightarrow> pydict \<Rightarrow> candidate_outcome" where
  "reserved_outcome canonical_hash run_id policy c =
    \<lparr>co_run = run_id, co_candidate = item_id c, co_outcome = ''PENDING'', co_stage = ''RUN'',
     co_input = [(''candidate_id'', JStr (item_id c)), (''input_sha256'', JStr (canonical_hash (JDict c)))],
     co_history = [\<lparr>evt_stage = ''RUN'', evt_status = ''RESERVED'', evt_details = None\<rparr>],
     co_evidence = None, co_citations = JNull, co_validated = JNull, co_result = [],
     co_provider = dget policy ''provider'' JNull, co_model = dget policy ''model'' JNull,
     co_prompt_version = dget policy ''prompt_version'' JNull,
     co_policy_version = dget policy ''scoring_policy_version'' JNull\<rparr>"

definition new_run :: "int \<Rightarrow> string \<Rightarrow> string \<Rightarrow> string option \<Rightarrow> string \<Rightarrow> string \<Rightarrow> pydict \<Rightarrow> pydict \<Rightarrow> screening_run" where
  "new_run now run_id owner key request_hash job_id job policy =
    \<lparr>u_id = run_id, u_owner = owner, u_job = job_id, u_status = R_RUNNING, u_metrics = None, u_key = key,
     u_request_hash = request_hash, u_job_snapshot = job, u_policy = policy, u_response = None, u_request = None,
     u_attempts = 0, u_lease_until = None, u_lease_owner = None, u_failure = None, u_created = now\<rparr>"

text \<open>The insertion: a key that another request took meanwhile, or a candidate twice, is an integrity error.\<close>

definition insert_run ::
  "(json \<Rightarrow> string) \<Rightarrow> int \<Rightarrow> string \<Rightarrow> string \<Rightarrow> bool \<Rightarrow> string option \<Rightarrow> string \<Rightarrow> pydict \<Rightarrow> pydict \<Rightarrow> pydict list \<Rightarrow>
   audit_db \<Rightarrow> (screening_run \<times> audit_db) result" where
  "insert_run canonical_hash now run_id owner admin key request_hash job policy candidates db =
    rbind (upsert_job owner admin job db) (\<lambda>(job_id, db1).
      let r = new_run now run_id owner key request_hash job_id job policy in
      if run_id \<in> u_id ` set (au_runs db1) \<or> key \<noteq> None \<and> key \<in> u_key ` set (au_runs db1) \<or> \<not> distinct (map item_id candidates)
      then Inl IntegrityError
      else Inr (r, db1\<lparr>au_runs := au_runs db1 @ [r],
             au_outcomes := au_outcomes db1 @ map (reserved_outcome canonical_hash run_id policy) candidates\<rparr>))"

text \<open>\<open>race\<close> is what other sessions commit between the lookup of the key and the insertion.\<close>

definition reserve_run ::
  "(json \<Rightarrow> string) \<Rightarrow> (audit_db \<Rightarrow> audit_db) \<Rightarrow> int \<Rightarrow> string \<Rightarrow> string \<Rightarrow> bool \<Rightarrow> string option \<Rightarrow> string \<Rightarrow> pydict \<Rightarrow> pydict \<Rightarrow>
   pydict list \<Rightarrow> audit_db \<Rightarrow> (reservation \<times> screening_run) result \<times> audit_db" where
  "reserve_run canonical_hash race now run_id owner admin key request_hash job policy candidates db =
    (case run_by_key key db of
       Some r \<Rightarrow>
         (case existing_run now owner admin request_hash r of
            Inl e \<Rightarrow> (Inl e, db)
          | Inr RESERVED \<Rightarrow> let q = r\<lparr>u_status := R_RUNNING, u_created := now\<rparr> in (Inr (RESERVED, q), put_run q db)
          | Inr v \<Rightarrow> (Inr (v, r), db))
     | None \<Rightarrow>
         (let db = race db in
          case insert_run canonical_hash now run_id owner admin key request_hash job policy candidates db of
            Inr (r, db1) \<Rightarrow> (Inr (RESERVED, r), db1)
          | Inl e \<Rightarrow>
              if e \<noteq> IntegrityError then (Inl e, db)
              else (case run_by_key key db of
                  None \<Rightarrow> (Inl e, db)
                | Some r \<Rightarrow>
                    (Inr (if u_request_hash r \<noteq> request_hash then CONFLICT
                          else if u_status r = R_COMPLETED then REPLAY else IN_PROGRESS, r), db))))"

section \<open>Publication\<close>

definition text_or_empty :: "string option \<Rightarrow> string" where
  "text_or_empty x = (case x of None \<Rightarrow> [] | Some t \<Rightarrow> t)"

definition final_outcome :: "screening_run \<Rightarrow> outcome_row \<Rightarrow> candidate_outcome \<Rightarrow> candidate_outcome" where
  "final_outcome run item o' =
    (let decision = x_result item in o'
     \<lparr>co_outcome := text_or_empty (x_outcome item), co_stage := text_or_empty (x_stage item),
      co_input := x_input item, co_history := co_history o' @ x_history item, co_evidence := x_evidence item,
      co_citations := dget (as_dict (dget decision ''evidence_verification'' JNull)) ''registry'' JNull,
      co_validated := dget decision ''llm_raw_output'' JNull, co_result := decision,
      co_policy_version := dget decision ''scoring_policy_version'' (dget (u_policy run) ''scoring_policy_version'' JNull)\<rparr>)"

definition evaluation_of :: "screening_run \<Rightarrow> outcome_row \<Rightarrow> stored_evaluation result" where
  "evaluation_of run item =
    (let decision = x_result item in
     rbind (dindex decision ''evaluation_status'') (\<lambda>status. rbind (dindex decision ''scoring_policy_version'') (\<lambda>version.
       Inr \<lparr>es_run = u_id run, es_job = u_job run, es_candidate = x_id item,
         es_score = dget decision ''composite_score'' JNull, es_tier = dget decision ''tier'' JNull, es_status = status,
         es_policy_version = version, es_category_scores = dget decision ''category_scores'' (JDict []),
         es_verified = dget decision ''verified_citations'' (JList []), es_invalid = dget decision ''invalid_citations'' (JList []),
         es_critical = dget decision ''has_critical_flags'' (JBool False), es_raw = decision\<rparr>)))"

definition finalize_outcome :: "screening_run \<Rightarrow> outcome_row \<Rightarrow> audit_db \<Rightarrow> audit_db result" where
  "finalize_outcome run item db =
    (let mine = (\<lambda>o'. co_run o' = u_id run \<and> co_candidate o' = x_id item) in
     case find mine (au_outcomes db) of
       None \<Rightarrow> Inl (KeyError (x_id item))
     | Some o' \<Rightarrow>
         if co_outcome o' \<noteq> ''PENDING'' then Inl (ValueError ''Candidate outcome has already been finalized'')
         else let db1 = db\<lparr>au_outcomes := update_where mine (final_outcome run item) (au_outcomes db)\<rparr> in
           if x_stage item = Some ''STAGE3''
           then rbind (evaluation_of run item) (\<lambda>ev. Inr (db1\<lparr>au_evaluations := au_evaluations db1 @ [ev]\<rparr>))
           else Inr db1)"

fun finalize_outcomes :: "screening_run \<Rightarrow> outcome_row list \<Rightarrow> audit_db \<Rightarrow> audit_db result" where
  "finalize_outcomes run [] db = Inr db"
| "finalize_outcomes run (item # items) db = rbind (finalize_outcome run item db) (finalize_outcomes run items)"

definition complete_run :: "screening_run \<Rightarrow> screening_result \<Rightarrow> string list \<Rightarrow> pydict \<Rightarrow> audit_db \<Rightarrow> audit_db result" where
  "complete_run run res ids response db =
    rbind (validate_accounting res ids) (\<lambda>_.
    rbind (finalize_outcomes run (sr_outcomes res) db) (\<lambda>db1.
      Inr (db1\<lparr>au_runs := update_where (\<lambda>q. u_id q = u_id run)
        (\<lambda>q. q\<lparr>u_metrics := Some (sr_metrics res), u_response := Some response, u_status := R_COMPLETED\<rparr>) (au_runs db1)\<rparr>)))"

section \<open>Replay of a stored decision\<close>

record replay =
  y_score :: rat
  y_tier :: "string option"
  y_matches :: bool

definition stored_score :: "json \<Rightarrow> string \<times> json \<Rightarrow> rat result" where
  "stored_score validated = (\<lambda>(name, weight).
     rbind (dindex (as_dict validated) name) (\<lambda>part. rbind (dindex (as_dict part) ''score'') (\<lambda>score.
       Inr (num_of score * decimal_value (str_of weight)))))"

definition stored_tier :: "pydict \<Rightarrow> rat \<Rightarrow> string" where
  "stored_tier thresholds score =
    (if num_of (dget thresholds ''TIER_1'' JNull) \<le> score then ''TIER_1''
     else if num_of (dget thresholds ''TIER_2'' JNull) \<le> score then ''TIER_2'' else ''TIER_3'')"

definition recompute_stored_decision :: "screening_run \<Rightarrow> candidate_outcome \<Rightarrow> replay option result" where
  "recompute_stored_decision run o' =
    (if co_stage o' \<noteq> ''STAGE3'' \<or> co_validated o' = JNull then Inr None
     else rbind (rmap (stored_score (co_validated o')) (as_dict (dget (u_policy run) ''category_weights'' JNull))) (\<lambda>parts.
       let score = quantize_half_up 2 (sum_list parts);
           tier = (if co_outcome o' \<noteq> ''SUCCESS'' then None
                   else Some (stored_tier (as_dict (dget (u_policy run) ''tier_thresholds'' JNull)) score))
       in Inr (Some \<lparr>y_score = score, y_tier = tier,
            y_matches = (dget (co_result o') ''composite_score'' JNull = JNum score \<and>
                         dget (co_result o') ''tier'' JNull = opt_str tier)\<rparr>)))"

end
