(* ===== verification/Pipeline_Accounting.thy ===== *)
theory Pipeline_Accounting
  imports Run_Accounting
begin

text \<open>
  Every loop of the screening run keeps the contract of \<open>stage_loop\<close>, so a run whose candidates have
  distinct identifiers always ends with accounts that \<open>validate_accounting\<close> accepts.
\<close>

section \<open>The loops keep the books\<close>

lemma at_row_simps [simp]:
  "pl_outcomes (at_row i f st) = update_where (\<lambda>r. x_id r = i) f (pl_outcomes st)"
  "pl_metrics (at_row i f st) = pl_metrics st" "pl_survivors (at_row i f st) = pl_survivors st"
  "pl_payloads (at_row i f st) = pl_payloads st" "pl_leaderboard (at_row i f st) = pl_leaderboard st"
  "pl_rejected (at_row i f st) = pl_rejected st" "pl_review (at_row i f st) = pl_review st"
  "pl_failed (at_row i f st) = pl_failed st"
  by (simp_all add: at_row_def)

lemma bump_simps [simp]:
  "pl_outcomes (bump f st) = pl_outcomes st" "pl_metrics (bump f st) = f (pl_metrics st)"
  "pl_survivors (bump f st) = pl_survivors st" "pl_payloads (bump f st) = pl_payloads st"
  "pl_leaderboard (bump f st) = pl_leaderboard st" "pl_rejected (bump f st) = pl_rejected st"
  "pl_review (bump f st) = pl_review st" "pl_failed (bump f st) = pl_failed st"
  by (simp_all add: bump_def)

lemma row_simps [simp]:
  "x_id (logged s t d r) = x_id r" "x_id (decided a s item r) = x_id r" "x_id (stage0_row c r) = x_id r"
  "mark (logged s t d r) = mark r" "mark (decided a s item r) = Some (a, s)" "mark (stage0_row c r) = mark r"
  "x_stage (logged s t d r) = x_stage r" "x_result (logged s t d r) = x_result r" "x_outcome (logged s t d r) = x_outcome r"
  "x_stage (decided a s item r) = Some s" "x_result (decided a s item r) = item" "x_outcome (decided a s item r) = Some a"
  "x_history (decided a s item r) = x_history r"
  "x_history (logged s t d r) = x_history r @ [\<lparr>evt_stage = s, evt_status = t, evt_details = d\<rparr>]"
  by (simp_all add: logged_def decided_def stage0_row_def mark_def)

lemma evidence_row_simps [simp]:
  "x_id (r\<lparr>x_evidence := e\<rparr>) = x_id r" "mark (r\<lparr>x_evidence := e\<rparr>) = mark r"
  by (simp_all add: mark_def)

lemma update_where_twice:
  "(\<And>r. x_id (f r) = x_id r) \<Longrightarrow>
   update_where (\<lambda>r. x_id r = i) g (update_where (\<lambda>r. x_id r = i) f rows) = update_where (\<lambda>r. x_id r = i) (g \<circ> f) rows"
  by (simp add: update_where_def)

text \<open>Verdict and revised row of a candidate in Stage 1.\<close>

definition stage1_verdict :: "screening_env \<Rightarrow> screening_job \<Rightarrow> hard_filters \<Rightarrow> candidate_input \<Rightarrow> (string \<times> string) option" where
  "stage1_verdict env job rules c =
    (case screen_candidate env job rules c of
       Inl _ \<Rightarrow> Some (''PROCESSING_FAILED'', ''STAGE1'')
     | Inr (status, _) \<Rightarrow> if status = FAIL then Some (''FILTER_REJECTED'', ''STAGE1'') else None)"

definition stage1_row :: "screening_env \<Rightarrow> screening_job \<Rightarrow> hard_filters \<Rightarrow> candidate_input \<Rightarrow> outcome_row \<Rightarrow> outcome_row" where
  "stage1_row env job rules c =
    (case screen_candidate env job rules c of
       Inl _ \<Rightarrow> logged ''STAGE1'' ''FAILED'' None \<circ> decided ''PROCESSING_FAILED'' ''STAGE1'' (rule_failure c)
     | Inr (status, details) \<Rightarrow>
         (if status = FAIL then decided ''FILTER_REJECTED'' ''STAGE1'' (filter_rejection c details) else id)
         \<circ> logged ''STAGE1'' (check_status_value status) (Some details)) \<circ> stage0_row c"

lemma item_id_simps [simp]: "item_id ((''candidate_id'', v) # d) = str_of v"
  by (simp add: item_id_def dget_Cons)

lemma not_FAIL_iff: "s = PASS \<or> s = REVIEW \<longleftrightarrow> s \<noteq> FAIL"
  by (cases s) auto

interpretation s1: stage_loop "stage1_step env job rules" i_candidate_id "stage1_row env job rules"
  "stage1_verdict env job rules" for env job rules
  by unfold_locales
     (auto simp: stage1_step_def stage1_row_def stage1_verdict_def Let_def update_where_twice comp_assoc not_FAIL_iff
        rule_failure_def filter_rejection_def public_ids_def split: sum.splits)

text \<open>Stage 2.\<close>

definition stage2_verdict ::
  "screening_env \<Rightarrow> screening_job \<Rightarrow> hard_filters \<Rightarrow> (string \<times> source_page list) list \<Rightarrow> survivor \<Rightarrow> (string \<times> string) option" where
  "stage2_verdict env job rules views v =
    (if is_error (extract_evidence env job rules views v) then Some (''EXTRACTION_FAILED'', ''STAGE2'') else None)"

definition stage2_row ::
  "screening_env \<Rightarrow> screening_job \<Rightarrow> hard_filters \<Rightarrow> (string \<times> source_page list) list \<Rightarrow> survivor \<Rightarrow> outcome_row \<Rightarrow> outcome_row" where
  "stage2_row env job rules views v =
    (case extract_evidence env job rules views v of
       Inl _ \<Rightarrow> logged ''STAGE2'' ''FAILED'' None \<circ> decided ''EXTRACTION_FAILED'' ''STAGE2'' (extraction_failure v)
     | Inr payload \<Rightarrow> logged ''STAGE2'' ''EXTRACTED'' None \<circ> (\<lambda>r. r\<lparr>x_evidence := Some payload\<rparr>))"

lemma item_id_dmerge [simp]: "''candidate_id'' \<notin> fst ` set e \<Longrightarrow> item_id (dmerge d e) = item_id d"
  unfolding item_id_def by (induction e arbitrary: d) auto

lemma verification_keys [simp]:
  "''candidate_id'' \<notin> fst ` set (stage1_verification details)" "''candidate_id'' \<notin> fst ` set (carried_verification p)"
  by (auto simp: stage1_verification_def carried_verification_def)

interpretation s2: stage_loop "stage2_step env job rules views" sur_id "stage2_row env job rules views"
  "stage2_verdict env job rules views" for env job rules views
  by unfold_locales
     (auto simp: stage2_step_def stage2_row_def stage2_verdict_def extraction_failure_def public_ids_def split: sum.splits)

interpretation rf: stage_loop ranking_failed_step item_id
  "\<lambda>p. logged ''STAGE2'' ''FAILED'' None \<circ> decided ''PROCESSING_FAILED'' ''STAGE2'' (ranking_failure p)"
  "\<lambda>p. Some (''PROCESSING_FAILED'', ''STAGE2'')"
  by unfold_locales (auto simp: ranking_failed_step_def ranking_failure_def public_ids_def item_id_def [symmetric])

definition cutoff_verdict :: "pydict list \<Rightarrow> pydict \<Rightarrow> (string \<times> string) option" where
  "cutoff_verdict shortlisted p =
    (if item_id p \<in> set (map item_id shortlisted) then None
     else if relevance_review p then Some (''REVIEW_REQUIRED'', ''STAGE2'') else Some (''CUTOFF_EXCLUDED'', ''STAGE2''))"

definition cutoff_row :: "pydict list \<Rightarrow> pydict \<Rightarrow> outcome_row \<Rightarrow> outcome_row" where
  "cutoff_row shortlisted p =
    (if item_id p \<in> set (map item_id shortlisted) then id
     else if relevance_review p then logged ''STAGE2'' ''REVIEW_REQUIRED'' None \<circ> decided ''REVIEW_REQUIRED'' ''STAGE2'' (review_item p)
     else logged ''STAGE2'' ''CUTOFF_EXCLUDED'' None \<circ> decided ''CUTOFF_EXCLUDED'' ''STAGE2'' (cutoff_item p))"

lemma update_where_id [simp]: "update_where P id rows = rows"
  by (induction rows) auto

interpretation cs: stage_loop "cutoff_step shortlisted" item_id "cutoff_row shortlisted" "cutoff_verdict shortlisted" for shortlisted
  by unfold_locales
     (auto simp: cutoff_step_def cutoff_row_def cutoff_verdict_def review_item_def cutoff_item_def public_ids_def item_id_def [symmetric])

text \<open>Stage 3.\<close>

definition evaluation_verdict :: "final_evaluation \<times> pydict \<Rightarrow> (string \<times> string) option" where
  "evaluation_verdict z = Some (evaluation_status_value (fe_evaluation_status (fst z)), ''STAGE3'')"

definition evaluation_row :: "final_evaluation \<times> pydict \<Rightarrow> outcome_row \<Rightarrow> outcome_row" where
  "evaluation_row z = (let status = evaluation_status_value (fe_evaluation_status (fst z)) in
     logged ''STAGE3'' status None \<circ> decided status ''STAGE3'' (result_item (fst z) (snd z)))"

lemma item_id_result [simp]: "item_id (result_item e details) = fe_candidate_id e"
  unfolding result_item_def Let_def by (simp add: item_id_def) (simp add: item_id_def [symmetric], simp add: item_id_def)

lemma item_id_dset [simp]: "k \<noteq> ''candidate_id'' \<Longrightarrow> item_id (dset k v d) = item_id d"
  by (simp add: item_id_def)

interpretation s3: stage_loop stage3_step "fe_candidate_id \<circ> fst" evaluation_row evaluation_verdict
  by unfold_locales
     (auto simp: stage3_step_def evaluation_row_def evaluation_verdict_def Let_def public_ids_def split: evaluation_status.splits)

section \<open>Metrics of the loops\<close>

text \<open>A step changes the metrics by a function of its element, and so does a loop.\<close>

lemma metrics_fold:
  assumes "\<And>x st. pl_metrics (step x st) = upd x (pl_metrics st)"
  shows "pl_metrics (fold step xs st) = fold upd xs (pl_metrics st)"
  by (induction xs arbitrary: st) (simp_all add: assms)

definition stage1_status :: "screening_env \<Rightarrow> screening_job \<Rightarrow> hard_filters \<Rightarrow> candidate_input \<Rightarrow> check_status option" where
  "stage1_status env job rules c = (case screen_candidate env job rules c of Inl _ \<Rightarrow> None | Inr z \<Rightarrow> Some (fst z))"

fun stage1_count :: "check_status option \<Rightarrow> metrics \<Rightarrow> metrics" where
  "stage1_count None m = m\<lparr>mt_stage0_processed := mt_stage0_processed m + 1, mt_stage1_failed := mt_stage1_failed m + 1\<rparr>"
| "stage1_count (Some PASS) m = m\<lparr>mt_stage0_processed := mt_stage0_processed m + 1, mt_stage1_passed := mt_stage1_passed m + 1\<rparr>"
| "stage1_count (Some REVIEW) m = m\<lparr>mt_stage0_processed := mt_stage0_processed m + 1, mt_stage1_review := mt_stage1_review m + 1\<rparr>"
| "stage1_count (Some FAIL) m = m\<lparr>mt_stage0_processed := mt_stage0_processed m + 1, mt_stage1_rejected := mt_stage1_rejected m + 1\<rparr>"

lemma stage1_step_metrics:
  "pl_metrics (stage1_step env job rules c st) = stage1_count (stage1_status env job rules c) (pl_metrics st)"
proof (cases "screen_candidate env job rules c")
  case (Inr z)
  show ?thesis by (cases z; cases "fst z") (simp_all add: Inr stage1_step_def stage1_status_def Let_def)
qed (simp add: stage1_step_def stage1_status_def Let_def)

lemma stage1_count_fold:
  "fold (\<lambda>c. stage1_count (s c)) cs m =
     m\<lparr>mt_stage0_processed := mt_stage0_processed m + length cs,
       mt_stage1_passed := mt_stage1_passed m + count_where (\<lambda>c. s c = Some PASS) cs,
       mt_stage1_review := mt_stage1_review m + count_where (\<lambda>c. s c = Some REVIEW) cs,
       mt_stage1_rejected := mt_stage1_rejected m + count_where (\<lambda>c. s c = Some FAIL) cs,
       mt_stage1_failed := mt_stage1_failed m + count_where (\<lambda>c. s c = None) cs\<rparr>"
proof (induction cs arbitrary: m)
  case (Cons c cs)
  consider "s c = None" | "s c = Some PASS" | "s c = Some REVIEW" | "s c = Some FAIL"
    by (metis check_status.exhaust option.exhaust)
  then show ?case by cases (simp_all add: Cons.IH)
qed simp

lemmas stage1_metrics = metrics_fold [where upd = "\<lambda>c. stage1_count (stage1_status env job rules c)" for env job rules,
    OF stage1_step_metrics, unfolded stage1_count_fold]

definition stage1_survivor :: "screening_env \<Rightarrow> screening_job \<Rightarrow> hard_filters \<Rightarrow> candidate_input \<Rightarrow> survivor option" where
  "stage1_survivor env job rules c =
    (case screen_candidate env job rules c of Inl _ \<Rightarrow> None
     | Inr (status, details) \<Rightarrow> if status = FAIL then None
       else Some \<lparr>sur_id = i_candidate_id c, sur_text = i_raw_cv_text c, sur_details = details\<rparr>)"

lemma stage1_step_survivors:
  "pl_survivors (stage1_step env job rules c st) =
     pl_survivors st @ (case stage1_survivor env job rules c of None \<Rightarrow> [] | Some v \<Rightarrow> [v])"
  by (cases "screen_candidate env job rules c") (auto simp: stage1_step_def stage1_survivor_def Let_def not_FAIL_iff)

lemma stage1_survivors:
  "pl_survivors (fold (stage1_step env job rules) cs st) =
     pl_survivors st @ List.map_filter (stage1_survivor env job rules) cs"
proof (induction cs arbitrary: st)
  case (Cons c cs)
  show ?case by (cases "stage1_survivor env job rules c") (simp_all add: Cons.IH stage1_step_survivors map_filter_simps)
qed (simp add: map_filter_simps)

lemma stage2_step_metrics:
  "pl_metrics (stage2_step env job rules views v st) = (if is_error (extract_evidence env job rules views v)
     then (pl_metrics st)\<lparr>mt_stage2_failed := mt_stage2_failed (pl_metrics st) + 1\<rparr> else pl_metrics st)"
  by (cases "extract_evidence env job rules views v") (simp_all add: stage2_step_def)

lemma stage2_metrics:
  "pl_metrics (fold (stage2_step env job rules views) vs st) = (pl_metrics st)
     \<lparr>mt_stage2_failed := mt_stage2_failed (pl_metrics st) + count_where (\<lambda>v. is_error (extract_evidence env job rules views v)) vs\<rparr>"
  by (induction vs arbitrary: st) (simp_all add: stage2_step_metrics)

definition stage2_result ::
  "screening_env \<Rightarrow> screening_job \<Rightarrow> hard_filters \<Rightarrow> (string \<times> source_page list) list \<Rightarrow> survivor \<Rightarrow> pydict option" where
  "stage2_result env job rules views v =
    (case extract_evidence env job rules views v of Inl _ \<Rightarrow> None | Inr payload \<Rightarrow> Some (stage2_payload v payload))"

lemma stage2_step_payloads:
  "pl_payloads (stage2_step env job rules views v st) =
     pl_payloads st @ (case stage2_result env job rules views v of None \<Rightarrow> [] | Some p \<Rightarrow> [p])"
  "pl_survivors (stage2_step env job rules views v st) = pl_survivors st"
  by (cases "extract_evidence env job rules views v"; simp add: stage2_step_def stage2_result_def)+

lemma stage2_payloads:
  "pl_payloads (fold (stage2_step env job rules views) vs st) =
     pl_payloads st @ List.map_filter (stage2_result env job rules views) vs"
proof (induction vs arbitrary: st)
  case (Cons v vs)
  show ?case by (cases "stage2_result env job rules views v") (simp_all add: Cons.IH stage2_step_payloads map_filter_simps)
qed (simp add: map_filter_simps)

lemma stage2_survivors: "pl_survivors (fold (stage2_step env job rules views) vs st) = pl_survivors st"
  by (induction vs arbitrary: st) (simp_all add: stage2_step_payloads)

lemma ranking_failed_metrics:
  "pl_metrics (fold ranking_failed_step ps st) = (pl_metrics st)\<lparr>mt_stage2_failed := mt_stage2_failed (pl_metrics st) + length ps\<rparr>"
  "pl_survivors (fold ranking_failed_step ps st) = pl_survivors st"
  by (induction ps arbitrary: st) (simp_all add: ranking_failed_step_def)

lemma cutoff_step_metrics:
  "pl_metrics (cutoff_step shortlisted p st) = (let m = pl_metrics st in
     m\<lparr>mt_stage2_review := mt_stage2_review m + of_bool (cutoff_verdict shortlisted p = Some (''REVIEW_REQUIRED'', ''STAGE2'')),
       mt_stage2_excluded := mt_stage2_excluded m + of_bool (cutoff_verdict shortlisted p = Some (''CUTOFF_EXCLUDED'', ''STAGE2''))\<rparr>)"
  "pl_survivors (cutoff_step shortlisted p st) = pl_survivors st"
  by (simp_all add: cutoff_step_def cutoff_verdict_def Let_def)

lemma cutoff_metrics:
  "pl_metrics (fold (cutoff_step shortlisted) ps st) = (let m = pl_metrics st in
     m\<lparr>mt_stage2_review := mt_stage2_review m + count_where (\<lambda>p. cutoff_verdict shortlisted p = Some (''REVIEW_REQUIRED'', ''STAGE2'')) ps,
       mt_stage2_excluded := mt_stage2_excluded m + count_where (\<lambda>p. cutoff_verdict shortlisted p = Some (''CUTOFF_EXCLUDED'', ''STAGE2'')) ps\<rparr>)"
  "pl_survivors (fold (cutoff_step shortlisted) ps st) = pl_survivors st"
  by (induction ps arbitrary: st) (simp_all add: cutoff_step_metrics Let_def)

fun evaluation_count :: "evaluation_status \<Rightarrow> metrics \<Rightarrow> metrics" where
  "evaluation_count E_SUCCESS m = m\<lparr>mt_stage3_succeeded := mt_stage3_succeeded m + 1\<rparr>"
| "evaluation_count E_REVIEW_REQUIRED m = m\<lparr>mt_stage3_review := mt_stage3_review m + 1\<rparr>"
| "evaluation_count E_EVALUATION_FAILED m = m\<lparr>mt_stage3_failed := mt_stage3_failed m + 1\<rparr>"

lemma stage3_step_metrics: "pl_metrics (stage3_step z st) = evaluation_count (fe_evaluation_status (fst z)) (pl_metrics st)"
  by (cases z; cases "fe_evaluation_status (fst z)") (simp_all add: stage3_step_def Let_def)

lemma evaluation_count_fold:
  "fold (\<lambda>z. evaluation_count (s z)) zs m =
     m\<lparr>mt_stage3_succeeded := mt_stage3_succeeded m + count_where (\<lambda>z. s z = E_SUCCESS) zs,
       mt_stage3_review := mt_stage3_review m + count_where (\<lambda>z. s z = E_REVIEW_REQUIRED) zs,
       mt_stage3_failed := mt_stage3_failed m + count_where (\<lambda>z. s z = E_EVALUATION_FAILED) zs\<rparr>"
proof (induction zs arbitrary: m)
  case (Cons z zs)
  show ?case by (cases "s z") (simp_all add: Cons.IH)
qed simp

lemmas stage3_metrics = metrics_fold [where upd = "\<lambda>z. evaluation_count (fe_evaluation_status (fst z))",
    OF stage3_step_metrics, unfolded evaluation_count_fold]

end
