(* ===== verification/Pipeline_Reconciles.thy ===== *)
theory Pipeline_Reconciles
  imports Pipeline_Accounting
begin

text \<open>
  The accounts of a whole screening run: the invariant that ties the metrics to the decided rows is
  kept from loop to loop, and at the end \<open>finish\<close> succeeds and its result passes the accounting check.
\<close>

section \<open>The ledger\<close>

abbreviation "filter_rejected \<equiv> (''FILTER_REJECTED'', ''STAGE1'')"
abbreviation "rule_failed \<equiv> (''PROCESSING_FAILED'', ''STAGE1'')"
abbreviation "extraction_failed_mark \<equiv> (''EXTRACTION_FAILED'', ''STAGE2'')"
abbreviation "ranking_failed_mark \<equiv> (''PROCESSING_FAILED'', ''STAGE2'')"
abbreviation "stage2_reviewed \<equiv> (''REVIEW_REQUIRED'', ''STAGE2'')"
abbreviation "cut_off \<equiv> (''CUTOFF_EXCLUDED'', ''STAGE2'')"
abbreviation "succeeded \<equiv> (''SUCCESS'', ''STAGE3'')"
abbreviation "stage3_reviewed \<equiv> (''REVIEW_REQUIRED'', ''STAGE3'')"
abbreviation "evaluation_failed_mark \<equiv> (''EVALUATION_FAILED'', ''STAGE3'')"

definition final_marks :: "(string \<times> string) list" where
  "final_marks = [filter_rejected, rule_failed, extraction_failed_mark, ranking_failed_mark, stage2_reviewed, cut_off,
     succeeded, stage3_reviewed, evaluation_failed_mark]"

definition ledger :: "pipeline \<Rightarrow> bool" where
  "ledger st \<longleftrightarrow> (let m = pl_metrics st; t = tally st in
     mt_stage0_failed m = 0 \<and> mt_stage0_review m = 0 \<and> mt_total_input m = length (pl_outcomes st) \<and>
     mt_stage0_processed m = mt_total_input m \<and>
     mt_stage1_passed m + mt_stage1_rejected m + mt_stage1_review m + mt_stage1_failed m = mt_stage0_processed m \<and>
     mt_stage1_review m = count_where stage1_reviewed (pl_outcomes st) \<and>
     mt_stage1_rejected m = t filter_rejected \<and> mt_stage1_failed m = t rule_failed \<and>
     mt_stage2_failed m = t extraction_failed_mark + t ranking_failed_mark \<and> mt_stage2_review m = t stage2_reviewed \<and>
     mt_stage2_excluded m = t cut_off \<and> mt_stage3_succeeded m = t succeeded \<and> mt_stage3_review m = t stage3_reviewed \<and>
     mt_stage3_failed m = t evaluation_failed_mark)"

lemmas ledgerD = ledger_def [THEN iffD1, unfolded Let_def]

text \<open>What holds of every row at any time.\<close>

definition row_ok :: "survivor list \<Rightarrow> outcome_row \<Rightarrow> bool" where
  "row_ok vs r \<longleftrightarrow> (mark r = None \<longrightarrow> x_stage r = None) \<and> (mark r \<noteq> None \<longrightarrow> mark r \<in> Some ` set final_marks) \<and>
     verification_check r = Inr () \<and> (\<forall>v\<in>set vs. sur_id v = x_id r \<longrightarrow> row_details r = Some (sur_details v))"

lemma count_disj: "(\<And>r. \<not> (P r \<and> Q r)) \<Longrightarrow> count_where (\<lambda>r. P r \<or> Q r) rows = count_where P rows + count_where Q rows"
  by (induction rows) auto

text \<open>Counts by outcome or stage are sums of tallies.\<close>

lemma mark_fields: "mark r = Some v \<Longrightarrow> x_outcome r = Some (fst v) \<and> x_stage r = Some (snd v)"
  by (auto simp: mark_def split: option.splits)

lemma marked_row:
  assumes "mark r \<in> Some ` set final_marks"
  shows "\<exists>v\<in>set final_marks. mark r = Some v \<and> x_outcome r = Some (fst v) \<and> x_stage r = Some (snd v)"
  using assms mark_fields by blast

lemma count_by_marks:
  assumes marks: "\<And>r. r \<in> set rows \<Longrightarrow> mark r \<in> Some ` set final_marks"
    and Q: "\<And>r a b. x_outcome r = Some a \<Longrightarrow> x_stage r = Some b \<Longrightarrow> Q r \<longleftrightarrow> P a b"
    and P: "list_all (\<lambda>v. P (fst v) (snd v) \<longleftrightarrow> List.member ws v) final_marks" "distinct ws"
  shows "count_where Q rows = (\<Sum>w\<leftarrow>ws. count_where (\<lambda>r. mark r = Some w) rows)"
proof -
  have "count_where Q rows = count_where (\<lambda>r. mark r \<in> set (map Some ws)) rows"
  proof (rule count_where_cong)
    fix r assume "r \<in> set rows"
    from marked_row [OF marks [OF this]] obtain v where v: "v \<in> set final_marks" "mark r = Some v"
      "x_outcome r = Some (fst v)" "x_stage r = Some (snd v)" by blast
    show "Q r = (mark r \<in> set (map Some ws))"
      using Q [OF v(3,4)] P(1) v(1) by (auto simp: v(2) list_all_iff)
  qed
  also have "\<dots> = (\<Sum>x\<leftarrow>map Some ws. count_where (\<lambda>r. mark r = x) rows)"
    by (rule sum_count_by_key [symmetric]) (simp add: P(2) distinct_map)
  finally show ?thesis by (simp add: comp_def)
qed

lemma stage_reviews_tally:
  assumes "\<And>r. r \<in> set rows \<Longrightarrow> mark r \<in> Some ` set final_marks"
  shows "stage_reviews rows ''STAGE0'' = 0"
    "stage_reviews rows ''STAGE2'' = count_where (\<lambda>r. mark r = Some stage2_reviewed) rows"
    "stage_reviews rows ''STAGE3'' = count_where (\<lambda>r. mark r = Some stage3_reviewed) rows"
proof -
  note by_marks = count_by_marks [OF assms, of rows _ "\<lambda>a b. b = s \<and> a = ''REVIEW_REQUIRED''" for s]
  show "stage_reviews rows ''STAGE0'' = 0"
    unfolding stage_reviews_def by (subst by_marks [of _ "''STAGE0''" "[]"]) (simp_all only: option.inject, code_simp+)
  show "stage_reviews rows ''STAGE2'' = count_where (\<lambda>r. mark r = Some stage2_reviewed) rows"
    unfolding stage_reviews_def
    by (subst by_marks [of _ "''STAGE2''" "[stage2_reviewed]"]) (simp_all only: option.inject, code_simp+, simp)
  show "stage_reviews rows ''STAGE3'' = count_where (\<lambda>r. mark r = Some stage3_reviewed) rows"
    unfolding stage_reviews_def
    by (subst by_marks [of _ "''STAGE3''" "[stage3_reviewed]"]) (simp_all only: option.inject, code_simp+, simp)
qed

lemma stage_failures_tally:
  assumes "\<And>r. r \<in> set rows \<Longrightarrow> mark r \<in> Some ` set final_marks"
  shows "stage_failures rows ''STAGE0'' = 0"
    "stage_failures rows ''STAGE1'' = count_where (\<lambda>r. mark r = Some rule_failed) rows"
    "stage_failures rows ''STAGE2'' = count_where (\<lambda>r. mark r = Some extraction_failed_mark) rows +
       count_where (\<lambda>r. mark r = Some ranking_failed_mark) rows"
proof -
  let ?P = "\<lambda>s a b. b = s \<and> (a = ''EXTRACTION_FAILED'' \<or> a = ''PROCESSING_FAILED'')"
  have Q: "x_outcome r = Some a \<Longrightarrow> x_stage r = Some b \<Longrightarrow>
      (x_stage r = Some s \<and> x_outcome r \<in> {Some ''EXTRACTION_FAILED'', Some ''PROCESSING_FAILED''}) = ?P s a b" for r a b s
    by simp
  show "stage_failures rows ''STAGE0'' = 0"
    unfolding stage_failures_def by (subst count_by_marks [OF assms Q, where ws = "[]"]) (assumption | code_simp)+
  show "stage_failures rows ''STAGE1'' = count_where (\<lambda>r. mark r = Some rule_failed) rows"
    unfolding stage_failures_def
    by (subst count_by_marks [OF assms Q, where ws = "[rule_failed]"]) (assumption | code_simp | simp)+
  show "stage_failures rows ''STAGE2'' = count_where (\<lambda>r. mark r = Some extraction_failed_mark) rows +
       count_where (\<lambda>r. mark r = Some ranking_failed_mark) rows"
    unfolding stage_failures_def
    by (subst count_by_marks [OF assms Q, where ws = "[extraction_failed_mark, ranking_failed_mark]"]) (assumption | code_simp | simp)+
qed

lemma count_outcome_tally:
  assumes "\<And>r. r \<in> set rows \<Longrightarrow> mark r \<in> Some ` set final_marks"
  shows "count_outcome rows ''SUCCESS'' = count_where (\<lambda>r. mark r = Some succeeded) rows"
    "count_outcome rows ''EVALUATION_FAILED'' = count_where (\<lambda>r. mark r = Some evaluation_failed_mark) rows"
    "count_outcome rows ''FILTER_REJECTED'' = count_where (\<lambda>r. mark r = Some filter_rejected) rows"
    "count_outcome rows ''CUTOFF_EXCLUDED'' = count_where (\<lambda>r. mark r = Some cut_off) rows"
proof -
  have Q: "x_outcome r = Some a \<Longrightarrow> x_stage r = Some b \<Longrightarrow> (x_outcome r = Some name) = (a = name)" for r a b name
    by simp
  note by_mark = count_by_marks [OF assms Q]
  show "count_outcome rows ''SUCCESS'' = count_where (\<lambda>r. mark r = Some succeeded) rows"
    unfolding count_outcome_def by (subst by_mark [where ws = "[succeeded]"]) (assumption | code_simp | simp)+
  show "count_outcome rows ''EVALUATION_FAILED'' = count_where (\<lambda>r. mark r = Some evaluation_failed_mark) rows"
    unfolding count_outcome_def by (subst by_mark [where ws = "[evaluation_failed_mark]"]) (assumption | code_simp | simp)+
  show "count_outcome rows ''FILTER_REJECTED'' = count_where (\<lambda>r. mark r = Some filter_rejected) rows"
    unfolding count_outcome_def by (subst by_mark [where ws = "[filter_rejected]"]) (assumption | code_simp | simp)+
  show "count_outcome rows ''CUTOFF_EXCLUDED'' = count_where (\<lambda>r. mark r = Some cut_off) rows"
    unfolding count_outcome_def by (subst by_mark [where ws = "[cut_off]"]) (assumption | code_simp | simp)+
qed

lemma outcome_names_cover: "v \<in> set final_marks \<Longrightarrow> fst v \<in> set outcome_names \<and> fst v \<noteq> [] \<and> snd v \<noteq> []"
proof -
  have "list_all (\<lambda>v. List.member outcome_names (fst v) \<and> fst v \<noteq> [] \<and> snd v \<noteq> []) final_marks" by code_simp
  then show "v \<in> set final_marks \<Longrightarrow> fst v \<in> set outcome_names \<and> fst v \<noteq> [] \<and> snd v \<noteq> []"
    by (auto simp: list_all_iff)
qed

lemma count_outcome_total:
  assumes "\<And>r. r \<in> set rows \<Longrightarrow> mark r \<in> Some ` set final_marks"
  shows "(\<Sum>name\<leftarrow>outcome_names. count_outcome rows name) = length rows"
proof -
  have d: "distinct outcome_names" by code_simp
  have "(\<Sum>name\<leftarrow>outcome_names. count_outcome rows name) = (\<Sum>x\<leftarrow>map Some outcome_names. count_where (\<lambda>r. x_outcome r = x) rows)"
    by (simp add: count_outcome_def comp_def)
  also have "\<dots> = count_where (\<lambda>r. x_outcome r \<in> set (map Some outcome_names)) rows"
    by (rule sum_count_by_key) (simp add: d distinct_map)
  also have "\<dots> = length rows"
  proof (rule count_where_all)
    fix r assume "r \<in> set rows"
    from marked_row [OF assms [OF this]] obtain v where "v \<in> set final_marks" "x_outcome r = Some (fst v)" by blast
    then show "x_outcome r \<in> set (map Some outcome_names)" using outcome_names_cover by simp
  qed
  finally show ?thesis .
qed

section \<open>A settled run passes the check\<close>

lemma settled_validates:
  assumes b: "books ids [] st" and l: "ledger st" and ok: "\<And>r. r \<in> set (pl_outcomes st) \<Longrightarrow> row_ok vs r"
    and flow2: "mt_stage2_shortlisted m + mt_stage2_excluded m + mt_stage2_failed m + mt_stage2_review m =
      mt_stage1_passed m + mt_stage1_review m"
    and flow3: "mt_stage3_succeeded m + mt_stage3_review m + mt_stage3_failed m = mt_stage3_evaluated m"
      "mt_stage3_evaluated m = mt_stage2_shortlisted m"
    and m: "m = pl_metrics st"
  shows "\<exists>res. finish (length ids) st = Inr res \<and> map x_id (sr_outcomes res) = ids \<and> validate_accounting res ids = Inr ()"
proof -
  let ?rows = "pl_outcomes st"
  have marks: "mark r \<in> Some ` set final_marks" if "r \<in> set ?rows" for r
    using ok [OF that] booksD(5) [OF b that] by (auto simp: row_ok_def)
  have len: "length ?rows = length ids" using booksD(2) [OF b] by (metis length_map)
  have acc: "accounted r \<and> x_stage r \<noteq> None \<and> x_stage r \<noteq> Some []" if "r \<in> set ?rows" for r
    using marked_row [OF marks [OF that]] outcome_names_cover by (fastforce simp: accounted_def)
  have n: "count_where accounted ?rows = length ids" using count_where_all [of ?rows accounted] acc len by simp
  have idset: "x_id ` set ?rows = set ids" using booksD(2) [OF b] by (metis set_map)
  have card: "card (set ids) = length ids" using booksD(1) [OF b] by (rule distinct_card)
  define res where "res = \<lparr>sr_metrics = m\<lparr>mt_accounted := length ids\<rparr>, sr_leaderboard = pl_leaderboard st,
       sr_rejected = sort_key item_id (pl_rejected st), sr_review = sort_key item_id (pl_review st),
       sr_failed = sort_key item_id (pl_failed st), sr_outcomes = ?rows\<rparr>"
  have f: "finish (length ids) st = Inr res" by (simp add: finish_def n res_def m)
  have pub: "mset (map item_id (public_items res)) = mset ids"
    using b by (simp add: books_def public_items_def public_ids_def res_def)
  have pubs: "length (map item_id (public_items res)) = length ids" "set (map item_id (public_items res)) = set ids"
    using mset_eq_length [OF pub] mset_eq_setD [OF pub] by simp_all
  have v: "rmap verification_check ?rows = Inr (map (\<lambda>_. ()) ?rows)"
    by (rule rmap_Inr_map) (use ok in \<open>simp add: row_ok_def\<close>)
  have "validate_accounting res ids = Inr ()"
    unfolding validate_accounting_def Let_def
    using ledgerD [OF l] flow2 flow3 len idset card pubs acc v
      stage_reviews_tally [OF marks] stage_failures_tally [OF marks] count_outcome_tally [OF marks] count_outcome_total [OF marks]
    by (simp add: res_def ensure_def m tally_def list_all_iff)
  moreover have "map x_id (sr_outcomes res) = ids" using booksD(2) [OF b] by (simp add: res_def)
  ultimately show ?thesis using f by auto
qed

end
