(* ===== verification/Pipeline_Run.thy ===== *)
theory Pipeline_Run
  imports Pipeline_Reconciles
begin

text \<open>
  The loops of \<open>app/orchestrator.py\<close> in sequence: each hands a balanced ledger to the next, so a run
  over candidates with distinct identifiers ends in a result that \<open>validate_accounting\<close> accepts.
\<close>

section \<open>After Stage 1\<close>

lemma find_distinct_key:
  assumes "distinct (map k xs)" "x \<in> set xs"
  shows "find (\<lambda>y. k y = k x) (rev xs) = Some x"
proof -
  have "find (\<lambda>y. k y = k x) (rev xs) \<noteq> None" using assms(2) by (auto simp: find_None_iff)
  then obtain y where y: "find (\<lambda>y. k y = k x) (rev xs) = Some y" by auto
  then have "y \<in> set xs \<and> k y = k x" by (auto dest: find_SomeD)
  then have "y = x" using assms by (meson distinct_map inj_onD)
  then show ?thesis using y by simp
qed

lemma map_filter_total: "(\<And>x. x \<in> set xs \<Longrightarrow> f x = Some (g x)) \<Longrightarrow> List.map_filter f xs = map g xs"
  by (induction xs) (simp_all add: map_filter_simps)

lemma initial_outcomes_distinct:
  assumes "distinct (map i_candidate_id cands)"
  shows "initial_outcomes env cands = map (new_row env) cands"
proof -
  have "initial_outcomes env cands = List.map_filter
      (\<lambda>c. map_option (new_row env) (find (\<lambda>d. i_candidate_id d = i_candidate_id c) (rev cands))) cands"
    by (simp add: initial_outcomes_def dict_fromkeys_id [OF assms] List.map_filter_def filter_map comp_def)
  then show ?thesis by (simp add: map_filter_total find_distinct_key [OF assms])
qed

lemma new_row_simps [simp]: "x_id (new_row env c) = i_candidate_id c" "mark (new_row env c) = None"
  "x_stage (new_row env c) = None" "x_outcome (new_row env c) = None" "x_history (new_row env c) = []"
  "x_stage (stage0_row c r) = x_stage r"
  by (simp_all add: new_row_def mark_def stage0_row_def)

lemma row_details_logged [simp]: "row_details (logged s t None r) = row_details r"
  "row_details (decided a s item r) = row_details r" "row_details (r\<lparr>x_evidence := e\<rparr>) = row_details r"
  by (simp_all add: row_details_def find_append split: option.splits)

lemma stage1_reviewed_logged [simp]: "s \<noteq> ''STAGE1'' \<Longrightarrow> stage1_reviewed (logged s t d r) = stage1_reviewed r"
  "stage1_reviewed (decided a s item r) = stage1_reviewed r" "stage1_reviewed (r\<lparr>x_evidence := e\<rparr>) = stage1_reviewed r"
  by (auto simp: stage1_reviewed_def)

lemma stage1_verdict_status:
  "stage1_verdict env job rules c = (case stage1_status env job rules c of None \<Rightarrow> Some rule_failed
     | Some s \<Rightarrow> if s = FAIL then Some filter_rejected else None)"
  by (auto simp: stage1_verdict_def stage1_status_def split: sum.splits)

lemma check_status_value_REVIEW: "check_status_value s = ''REVIEW'' \<longleftrightarrow> s = REVIEW"
  by (cases s) simp_all

lemma stage1_row_reviewed:
  "stage1_reviewed (stage1_row env job rules c (new_row env c)) \<longleftrightarrow> stage1_status env job rules c = Some REVIEW"
  by (auto simp: stage1_row_def stage1_status_def stage1_reviewed_def stage0_row_def logged_def decided_def new_row_def
      check_status_value_REVIEW split: sum.splits)

lemma stage1_survivor_id:
  "stage1_survivor env job rules c = Some v \<Longrightarrow> sur_id v = i_candidate_id c \<and> stage1_verdict env job rules c = None \<and>
     row_details (stage1_row env job rules c (new_row env c)) = Some (sur_details v)"
  by (auto simp: stage1_survivor_def stage1_verdict_def stage1_row_def row_details_def stage0_row_def logged_def new_row_def
      split: sum.splits if_splits)

lemma stage1_survivor_None: "stage1_survivor env job rules c = None \<longleftrightarrow> stage1_verdict env job rules c \<noteq> None"
  by (cases "screen_candidate env job rules c") (simp_all add: stage1_survivor_def stage1_verdict_def split: prod.splits)

lemma stage1_survivor_ids:
  "map sur_id (List.map_filter (stage1_survivor env job rules) cs) =
     map i_candidate_id (filter (\<lambda>c. stage1_verdict env job rules c = None) cs)"
proof (induction cs)
  case (Cons c cs)
  show ?case
    using Cons stage1_survivor_None [of env job rules c] stage1_survivor_id [of env job rules c]
    by (cases "stage1_survivor env job rules c") (simp_all add: map_filter_simps)
qed (simp add: map_filter_simps)

lemma stage1_row_check: "verification_check (stage1_row env job rules c (new_row env c)) = Inr ()"
  by (auto simp: verification_check_def stage1_row_def split: option.splits sum.splits)

lemma stage1_row_mark:
  "mark (stage1_row env job rules c (new_row env c)) = stage1_verdict env job rules c"
  "mark (stage1_row env job rules c (new_row env c)) = None \<Longrightarrow> x_stage (stage1_row env job rules c (new_row env c)) = None"
  by (auto simp: stage1_row_def stage1_verdict_def stage0_row_def logged_def new_row_def mark_def decided_def
      split: sum.splits if_splits)

lemma status_partition:
  "count_where (\<lambda>c. s c = Some PASS) cs + count_where (\<lambda>c. s c = Some FAIL) cs + count_where (\<lambda>c. s c = Some REVIEW) cs +
     count_where (\<lambda>c. s c = None) cs = length cs"
proof (induction cs)
  case (Cons c cs)
  consider "s c = None" | "s c = Some PASS" | "s c = Some REVIEW" | "s c = Some FAIL"
    by (metis check_status.exhaust option.exhaust)
  then show ?case using Cons by cases simp_all
qed simp

lemma stage1_payloads: "pl_payloads (fold (stage1_step env job rules) cs st) = pl_payloads st"
proof (induction cs arbitrary: st)
  case (Cons c cs)
  have "pl_payloads (stage1_step env job rules c st) = pl_payloads st"
    by (cases "screen_candidate env job rules c") (simp_all add: stage1_step_def Let_def split: prod.splits)
  then show ?case by (simp add: Cons.IH)
qed simp

lemma stage1_done:
  fixes env job rules cands
  defines "st \<equiv> fold (stage1_step env job rules) cands (initial_pipeline env cands)"
  assumes d: "distinct (map i_candidate_id cands)"
  shows "books (map i_candidate_id cands) (map sur_id (pl_survivors st)) st" "ledger st"
    "\<And>r. r \<in> set (pl_outcomes st) \<Longrightarrow> row_ok (pl_survivors st) r"
    "mt_stage1_passed (pl_metrics st) + mt_stage1_review (pl_metrics st) = length (pl_survivors st)"
    "mt_stage2_shortlisted (pl_metrics st) = 0" "mt_stage3_evaluated (pl_metrics st) = 0" "pl_payloads st = []"
    "mt_stage2_failed (pl_metrics st) = 0" "mt_stage2_review (pl_metrics st) = 0" "mt_stage2_excluded (pl_metrics st) = 0"
    "mt_stage3_succeeded (pl_metrics st) = 0" "mt_stage3_review (pl_metrics st) = 0" "mt_stage3_failed (pl_metrics st) = 0"
proof -
  let ?st0 = "initial_pipeline env cands" and ?v = "stage1_verdict env job rules" and ?s = "stage1_status env job rules"
  have b0: "books (map i_candidate_id cands) (map i_candidate_id cands) ?st0"
    using d by (auto simp: books_def initial_pipeline_def initial_outcomes_distinct public_ids_def)
  have surv: "pl_survivors st = List.map_filter (stage1_survivor env job rules) cands"
    by (simp add: st_def stage1_survivors initial_pipeline_def)
  show b: "books (map i_candidate_id cands) (map sur_id (pl_survivors st)) st"
    using s1.books_fold [OF b0, of env job rules] by (simp add: st_def [symmetric] surv stage1_survivor_ids)
  have rows: "pl_outcomes st = map (\<lambda>c. stage1_row env job rules c (new_row env c)) cands"
    using s1.all_rows_fold [of "new_row env" cands "[]" ?st0 env job rules] d
    by (simp add: st_def initial_pipeline_def initial_outcomes_distinct)
  have m: "pl_metrics st = (no_metrics (length cands))
     \<lparr>mt_stage0_processed := length cands, mt_stage1_passed := count_where (\<lambda>c. ?s c = Some PASS) cands,
       mt_stage1_review := count_where (\<lambda>c. ?s c = Some REVIEW) cands,
       mt_stage1_rejected := count_where (\<lambda>c. ?s c = Some FAIL) cands,
       mt_stage1_failed := count_where (\<lambda>c. ?s c = None) cands\<rparr>"
    by (simp add: st_def stage1_metrics initial_pipeline_def no_metrics_def)
  have t: "tally st v = count_where (\<lambda>c. ?v c = Some v) cands" for v
  proof -
    have "tally ?st0 v = 0"
      by (simp add: tally_def initial_pipeline_def initial_outcomes_distinct [OF d] count_where_zero)
    then show ?thesis using s1.tally_fold [OF b0, of env job rules v] by (simp add: st_def)
  qed
  have zero: "tally st v = 0" if "v \<noteq> filter_rejected" "v \<noteq> rule_failed" for v
    unfolding t count_where_zero using that by (auto simp: stage1_verdict_status split: option.splits)
  have rej: "tally st filter_rejected = count_where (\<lambda>c. ?s c = Some FAIL) cands"
    unfolding t by (rule count_where_cong) (simp add: stage1_verdict_status split: option.splits)
  have rf: "tally st rule_failed = count_where (\<lambda>c. ?s c = None) cands"
    unfolding t by (rule count_where_cong) (simp add: stage1_verdict_status split: option.splits)
  have rev: "count_where stage1_reviewed (pl_outcomes st) = count_where (\<lambda>c. ?s c = Some REVIEW) cands"
    by (simp add: rows count_where_def filter_map comp_def stage1_row_reviewed)
  show "ledger st"
    unfolding ledger_def Let_def using status_partition [of ?s cands]
    by (simp add: m rej rf rev zero) (simp add: no_metrics_def rows)
  show "row_ok (pl_survivors st) r" if "r \<in> set (pl_outcomes st)" for r
  proof -
    from that obtain c where c: "c \<in> set cands" "r = stage1_row env job rules c (new_row env c)" by (auto simp: rows)
    have details: "row_details r = Some (sur_details v)" if v: "v \<in> set (pl_survivors st)" "sur_id v = x_id r" for v
    proof -
      from v(1) obtain c' where c': "c' \<in> set cands" "stage1_survivor env job rules c' = Some v"
        by (auto simp: surv List.map_filter_def)
      have "i_candidate_id c' = i_candidate_id c" using stage1_survivor_id [OF c'(2)] v(2) c(2) s1.revise_id by simp
      then have "c' = c" using d c(1) c'(1) by (meson distinct_map inj_onD)
      then show ?thesis using stage1_survivor_id [OF c'(2)] c(2) by simp
    qed
    have "mark r \<noteq> None \<longrightarrow> mark r \<in> Some ` set final_marks"
      by (auto simp: c(2) stage1_row_mark(1) stage1_verdict_status final_marks_def split: option.splits)
    then show ?thesis using details stage1_row_check stage1_row_mark(2) by (simp add: row_ok_def c(2))
  qed
  have "?v c = None \<longleftrightarrow> ?s c = Some PASS \<or> ?s c = Some REVIEW" for c
    using not_FAIL_iff by (simp add: stage1_verdict_status split: option.splits)
  then have "count_where (\<lambda>c. ?v c = None) cands = count_where (\<lambda>c. ?s c = Some PASS) cands + count_where (\<lambda>c. ?s c = Some REVIEW) cands"
    using count_disj [of "\<lambda>c. ?s c = Some PASS" "\<lambda>c. ?s c = Some REVIEW" cands] by simp
  moreover have "length (pl_survivors st) = count_where (\<lambda>c. ?v c = None) cands"
    using arg_cong [OF stage1_survivor_ids [of env job rules cands], of length] by (simp add: surv count_where_def)
  ultimately have "count_where (\<lambda>c. ?s c = Some PASS) cands + count_where (\<lambda>c. ?s c = Some REVIEW) cands = length (pl_survivors st)"
    by simp
  then show "mt_stage1_passed (pl_metrics st) + mt_stage1_review (pl_metrics st) = length (pl_survivors st)"
    by (simp add: m)
qed (simp_all add: st_def stage1_metrics stage1_payloads initial_pipeline_def no_metrics_def)

section \<open>After the extraction\<close>

definition verified_item :: "pydict \<Rightarrow> pydict \<Rightarrow> bool" where
  "verified_item item details \<longleftrightarrow> dget item ''stage1_filter_details'' JNull = JDict details \<and>
     dget item ''verification_reasons'' JNull = JList (stage1_reviews details) \<and>
     dget item ''verification_required'' JNull = JBool (stage1_reviews details \<noteq> [])"

lemma verified_merge [simp]: "verified_item (dmerge d (stage1_verification details)) details"
  by (simp add: verified_item_def stage1_verification_def)

lemma verified_carried: "verified_item p details \<Longrightarrow> verified_item (dmerge d (carried_verification p)) details"
  by (simp add: verified_item_def carried_verification_def)

lemma verification_check_logged [simp]: "verification_check (logged s t None r) = verification_check r"
  "verification_check (r\<lparr>x_evidence := e\<rparr>) = verification_check r"
  by (simp_all add: verification_check_def split: option.split)

lemma verification_check_decided:
  assumes "row_details r = Some details" "verified_item item details"
    "s = ''STAGE3'' \<Longrightarrow> dget item ''provisional'' JNull = JBool (a = ''SUCCESS'' \<and> stage1_reviews details \<noteq> [])"
  shows "verification_check (decided a s item r) = Inr ()"
  using assms by (simp add: verification_check_def ensure_def verified_item_def)

lemma row_ok_decided:
  assumes "row_ok vs r" "v \<in> set vs" "sur_id v = x_id r" "verified_item item (sur_details v)" "(a, s) \<in> set final_marks"
    "s = ''STAGE3'' \<Longrightarrow> dget item ''provisional'' JNull = JBool (a = ''SUCCESS'' \<and> stage1_reviews (sur_details v) \<noteq> [])"
  shows "row_ok vs (logged s t None (decided a s item r))"
  using assms verification_check_decided [of r "sur_details v" item s a] by (simp add: row_ok_def)

lemma row_ok_logged: "row_ok vs r \<Longrightarrow> row_ok vs (logged s t None (r\<lparr>x_evidence := e\<rparr>))"
  by (simp add: row_ok_def)

lemma final_marks_mem:
  "extraction_failed_mark \<in> set final_marks" "ranking_failed_mark \<in> set final_marks"
  "stage2_reviewed \<in> set final_marks" "cut_off \<in> set final_marks"
  "(evaluation_status_value s, ''STAGE3'') \<in> set final_marks"
  by (cases s; simp add: final_marks_def)+

lemma stage2_payload_item:
  assumes "extract_evidence env job rules views v = Inr payload"
  shows "item_id (stage2_payload v payload) = sur_id v" "verified_item (stage2_payload v payload) (sur_details v)"
proof -
  have "dget payload ''candidate_id'' JNull = JStr (sur_id v)"
    using assms by (auto simp: extract_evidence_def rbind_Inr_conv split: if_splits)
  then show "item_id (stage2_payload v payload) = sur_id v" by (simp add: stage2_payload_def item_id_def [of payload])
qed (simp add: stage2_payload_def)

lemma stage2_result_cases:
  "stage2_result env job rules views v = None \<longleftrightarrow> stage2_verdict env job rules views v \<noteq> None"
  "stage2_result env job rules views v = Some p \<Longrightarrow> item_id p = sur_id v \<and> verified_item p (sur_details v)"
  using stage2_payload_item [of env job rules views v]
  by (cases "extract_evidence env job rules views v"; auto simp: stage2_result_def stage2_verdict_def)+

lemma stage2_payload_ids:
  "map item_id (List.map_filter (stage2_result env job rules views) vs) =
     map sur_id (filter (\<lambda>v. stage2_verdict env job rules views v = None) vs)"
proof (induction vs)
  case (Cons v vs)
  show ?case
    using Cons stage2_result_cases [of env job rules views v]
    by (cases "stage2_result env job rules views v") (simp_all add: map_filter_simps)
qed (simp add: map_filter_simps)

lemma stage2_verdict_iff: "stage2_verdict env job rules views v =
    (if is_error (extract_evidence env job rules views v) then Some extraction_failed_mark else None)"
  by (simp add: stage2_verdict_def)

lemma stage2_row_ok:
  assumes "v \<in> set vs" "x_id r = sur_id v" "row_ok vs r"
  shows "row_ok vs (stage2_row env job rules views v r)"
proof (cases "extract_evidence env job rules views v")
  case (Inl e)
  show ?thesis
    unfolding stage2_row_def Inl sum.case comp_apply
    by (rule row_ok_decided [OF assms(3,1)]) (simp_all add: assms(2) extraction_failure_def final_marks_mem)
next
  case (Inr p)
  then show ?thesis using row_ok_logged [OF assms(3)] by (simp add: stage2_row_def)
qed

lemma stage2_row_reviewed: "stage1_reviewed (stage2_row env job rules views v r) = stage1_reviewed r"
  by (simp add: stage2_row_def split: sum.splits)

lemma count_where_False [simp]: "count_where (\<lambda>x. False) xs = 0"
  by (simp add: count_where_def)

lemma stage2_done:
  fixes env job rules views vs st
  defines "st' \<equiv> fold (stage2_step env job rules views) vs st"
  assumes b: "books ids (map sur_id vs) st" and l: "ledger st" and ok: "\<And>r. r \<in> set (pl_outcomes st) \<Longrightarrow> row_ok vs r"
    and p: "pl_payloads st = []"
  shows "books ids (map item_id (pl_payloads st')) st'" "ledger st'"
    "\<And>r. r \<in> set (pl_outcomes st') \<Longrightarrow> row_ok vs r"
    "\<And>q. q \<in> set (pl_payloads st') \<Longrightarrow> \<exists>v\<in>set vs. sur_id v = item_id q \<and> verified_item q (sur_details v)"
    "mt_stage2_failed (pl_metrics st') + length (pl_payloads st') = mt_stage2_failed (pl_metrics st) + length vs"
    "pl_metrics st' = (pl_metrics st)\<lparr>mt_stage2_failed := mt_stage2_failed (pl_metrics st')\<rparr>"
proof -
  let ?V = "stage2_verdict env job rules views"
  have ps: "pl_payloads st' = List.map_filter (stage2_result env job rules views) vs"
    by (simp add: st'_def stage2_payloads p)
  show "books ids (map item_id (pl_payloads st')) st'"
    using s2.books_fold [OF b, of env job rules views] by (simp add: st'_def [symmetric] ps stage2_payload_ids)
  show m: "pl_metrics st' = (pl_metrics st)\<lparr>mt_stage2_failed := mt_stage2_failed (pl_metrics st')\<rparr>"
    by (simp add: st'_def stage2_metrics)
  have t: "tally st' v = tally st v + count_where (\<lambda>x. ?V x = Some v) vs" for v
    unfolding st'_def by (rule s2.tally_fold [OF b])
  have same: "tally st' v = tally st v" if "v \<noteq> extraction_failed_mark" for v
    using that by (simp add: t stage2_verdict_iff count_where_zero)
  have failed: "mt_stage2_failed (pl_metrics st') = mt_stage2_failed (pl_metrics st) + count_where (\<lambda>x. ?V x = Some extraction_failed_mark) vs"
    by (simp add: st'_def stage2_metrics stage2_verdict_iff)
  have M: "pl_metrics st' = (pl_metrics st)
      \<lparr>mt_stage2_failed := mt_stage2_failed (pl_metrics st) + count_where (\<lambda>x. ?V x = Some extraction_failed_mark) vs\<rparr>"
    using m by (simp only: failed)
  have rv: "count_where stage1_reviewed (pl_outcomes st') = count_where stage1_reviewed (pl_outcomes st)"
    unfolding st'_def by (rule s2.count_fold_same) (rule stage2_row_reviewed)
  have len: "length (pl_outcomes st') = length (pl_outcomes st)"
    using s2.ids_fold [of env job rules views vs st] unfolding st'_def by (metis length_map)
  show "ledger st'"
    unfolding ledger_def Let_def using ledgerD [OF l]
    by (simp add: M t [of extraction_failed_mark] same rv len)
  show "row_ok vs r" if "r \<in> set (pl_outcomes st')" for r
    by (rule s2.rows_fold [where P = "row_ok vs", OF ok stage2_row_ok that [unfolded st'_def]])
  show "\<exists>v\<in>set vs. sur_id v = item_id q \<and> verified_item q (sur_details v)" if "q \<in> set (pl_payloads st')" for q
    using that stage2_result_cases(2) by (fastforce simp: ps List.map_filter_def)
  have "length (pl_payloads st') = count_where (\<lambda>v. ?V v = None) vs"
    using arg_cong [OF stage2_payload_ids [of env job rules views vs], of length] by (simp add: ps count_where_def)
  moreover have "count_where (\<lambda>v. ?V v = Some extraction_failed_mark) vs + count_where (\<lambda>v. ?V v = None) vs = length vs"
    by (induction vs) (auto simp: stage2_verdict_iff)
  ultimately show "mt_stage2_failed (pl_metrics st') + length (pl_payloads st') = mt_stage2_failed (pl_metrics st) + length vs"
    by (simp add: failed)
qed

section \<open>After the cutoff\<close>

lemma sort_key_payload_ids:
  assumes "shortlist_payloads cutoff payloads = Inr selected"
  shows "distinct (map item_id selected)" "set (map item_id selected) \<subseteq> set (map item_id payloads)"
  using assms by (auto simp: shortlist_payloads_def rbind_Inr_conv split: if_splits)

lemma row_ok_payload:
  assumes "row_ok vs r" "x_id r = item_id p" "\<exists>v\<in>set vs. sur_id v = item_id p \<and> verified_item p (sur_details v)"
    "\<And>d. verified_item p d \<Longrightarrow> verified_item item d" "(a, ''STAGE2'') \<in> set final_marks"
  shows "row_ok vs (logged ''STAGE2'' t None (decided a ''STAGE2'' item r))"
proof -
  from assms(3) obtain v where "v \<in> set vs" "sur_id v = x_id r" "verified_item p (sur_details v)" using assms(2) by auto
  then show ?thesis using row_ok_decided [OF assms(1), of v item a "''STAGE2''"] assms(4,5) by simp
qed

lemma verified_items:
  "verified_item p d \<Longrightarrow> verified_item (ranking_failure p) d"
  "verified_item p d \<Longrightarrow> verified_item (cutoff_item p) d"
  "verified_item p d \<Longrightarrow> verified_item (review_item p) d"
proof -
  assume v: "verified_item p d"
  show "verified_item (ranking_failure p) d" "verified_item (cutoff_item p) d"
    unfolding ranking_failure_def cutoff_item_def by (rule verified_carried [OF v])+
  have "as_dict (dget p ''stage1_filter_details'' JNull) = d" using v by (simp add: verified_item_def)
  then show "verified_item (review_item p) d" by (simp add: review_item_def)
qed

lemma ranking_failed_done:
  assumes b: "books ids (map item_id ps) st" and l: "ledger st" and ok: "\<And>r. r \<in> set (pl_outcomes st) \<Longrightarrow> row_ok vs r"
    and ps: "\<And>q. q \<in> set ps \<Longrightarrow> \<exists>v\<in>set vs. sur_id v = item_id q \<and> verified_item q (sur_details v)"
  shows "books ids [] (fold ranking_failed_step ps st)" "ledger (fold ranking_failed_step ps st)"
    "\<And>r. r \<in> set (pl_outcomes (fold ranking_failed_step ps st)) \<Longrightarrow> row_ok vs r"
proof -
  let ?st' = "fold ranking_failed_step ps st"
  show "books ids [] ?st'" using rf.books_fold [OF b] by simp
  have t: "tally ?st' v = tally st v + (if v = ranking_failed_mark then length ps else 0)" for v
    using rf.tally_fold [OF b, of v] by (auto simp: count_where_def)
  have rv: "count_where stage1_reviewed (pl_outcomes ?st') = count_where stage1_reviewed (pl_outcomes st)"
    by (rule rf.count_fold_same) simp
  have len: "length (pl_outcomes ?st') = length (pl_outcomes st)"
    using rf.ids_fold [of ps st] by (metis length_map)
  show "ledger ?st'"
    unfolding ledger_def Let_def using ledgerD [OF l] by (simp add: ranking_failed_metrics t rv len)
  show "row_ok vs r" if "r \<in> set (pl_outcomes ?st')" for r
  proof (rule rf.rows_fold [OF ok _ that])
    fix x q assume "x \<in> set ps" "x_id q = item_id x" "row_ok vs q"
    then show "row_ok vs ((logged ''STAGE2'' ''FAILED'' None \<circ> decided ''PROCESSING_FAILED'' ''STAGE2'' (ranking_failure x)) q)"
      unfolding comp_apply by (intro row_ok_payload ps verified_items(1) final_marks_mem(2))
  qed
qed

lemma cutoff_row_ok:
  assumes "row_ok vs r" "x_id r = item_id p" "\<exists>v\<in>set vs. sur_id v = item_id p \<and> verified_item p (sur_details v)"
  shows "row_ok vs (cutoff_row shortlisted p r)"
  using row_ok_payload [OF assms verified_items(2) final_marks_mem(4)]
    row_ok_payload [OF assms verified_items(3) final_marks_mem(3)] assms(1)
  by (simp add: cutoff_row_def)

lemma cutoff_done:
  fixes ps st selected
  defines "st' \<equiv> fold (cutoff_step selected) ps (bump (\<lambda>m. m\<lparr>mt_stage2_shortlisted := length selected\<rparr>) st)"
  assumes b: "books ids (map item_id ps) st" and l: "ledger st" and ok: "\<And>r. r \<in> set (pl_outcomes st) \<Longrightarrow> row_ok vs r"
    and ps: "\<And>q. q \<in> set ps \<Longrightarrow> \<exists>v\<in>set vs. sur_id v = item_id q \<and> verified_item q (sur_details v)"
    and sel: "distinct (map item_id selected)" "set (map item_id selected) \<subseteq> set (map item_id ps)"
  shows "books ids (map item_id selected) st'" "ledger st'"
    "\<And>r. r \<in> set (pl_outcomes st') \<Longrightarrow> row_ok vs r"
    "mt_stage2_shortlisted (pl_metrics st') + mt_stage2_excluded (pl_metrics st') + mt_stage2_review (pl_metrics st') =
       mt_stage2_excluded (pl_metrics st) + mt_stage2_review (pl_metrics st) + length ps"
    "mt_stage2_shortlisted (pl_metrics st') = length selected"
    "mt_stage2_failed (pl_metrics st') = mt_stage2_failed (pl_metrics st)"
    "mt_stage1_passed (pl_metrics st') = mt_stage1_passed (pl_metrics st)"
    "mt_stage1_review (pl_metrics st') = mt_stage1_review (pl_metrics st)"
proof -
  let ?st = "bump (\<lambda>m. m\<lparr>mt_stage2_shortlisted := length selected\<rparr>) st" and ?V = "cutoff_verdict selected"
  have b': "books ids (map item_id ps) ?st" using b by (simp add: books_def public_ids_def)
  have d: "distinct (map item_id ps)" by (rule booksD(3) [OF b])
  have kept: "mset (map item_id (filter (\<lambda>p. ?V p = None) ps)) = mset (map item_id selected)"
  proof -
    have "set (map item_id (filter (\<lambda>p. ?V p = None) ps)) = set (map item_id selected)"
    proof
      show "set (map item_id selected) \<subseteq> set (map item_id (filter (\<lambda>p. ?V p = None) ps))"
      proof
        fix i assume i: "i \<in> set (map item_id selected)"
        then obtain p where "p \<in> set ps" "i = item_id p" using sel(2) by auto
        then show "i \<in> set (map item_id (filter (\<lambda>p. ?V p = None) ps))" using i by (auto simp: cutoff_verdict_def)
      qed
    qed (auto simp: cutoff_verdict_def split: if_splits)
    then show ?thesis using set_eq_iff_mset_eq_distinct [OF distinct_map_filter [OF d] sel(1)] by blast
  qed
  show "books ids (map item_id selected) st'"
    using books_perm [OF cs.books_fold [OF b', of selected], of "map item_id selected"] kept by (simp add: st'_def)
  have t: "tally st' v = tally st v + count_where (\<lambda>x. ?V x = Some v) ps" for v
    using cs.tally_fold [OF b', of selected v] by (simp add: st'_def tally_def)
  have same: "tally st' v = tally st v" if "v \<noteq> stage2_reviewed" "v \<noteq> cut_off" for v
    using that by (simp add: t cutoff_verdict_def count_where_zero)
  have rv: "count_where stage1_reviewed (pl_outcomes st') = count_where stage1_reviewed (pl_outcomes st)"
    using cs.count_fold_same [of stage1_reviewed selected ps ?st] by (simp add: st'_def cutoff_row_def)
  have len: "length (pl_outcomes st') = length (pl_outcomes st)"
    by (rule map_eq_imp_length_eq [of x_id _ x_id]) (simp add: st'_def)
  have M: "pl_metrics st' = (pl_metrics st)\<lparr>mt_stage2_shortlisted := length selected,
      mt_stage2_review := mt_stage2_review (pl_metrics st) + count_where (\<lambda>p. ?V p = Some stage2_reviewed) ps,
      mt_stage2_excluded := mt_stage2_excluded (pl_metrics st) + count_where (\<lambda>p. ?V p = Some cut_off) ps\<rparr>"
    by (simp add: st'_def cutoff_metrics Let_def)
  show "ledger st'"
    unfolding ledger_def Let_def using ledgerD [OF l]
    by (simp add: M t [of stage2_reviewed] t [of cut_off] same rv len)
  show "row_ok vs r" if "r \<in> set (pl_outcomes st')" for r
  proof (rule cs.rows_fold [OF _ _ that [unfolded st'_def]])
    fix x q assume "x \<in> set ps" "x_id q = item_id x" "row_ok vs q"
    then show "row_ok vs (cutoff_row selected x q)" by (intro cutoff_row_ok ps)
  qed (simp add: ok)
  have "count_where (\<lambda>p. ?V p = None) ps = length selected"
    using mset_eq_length [OF kept] by (simp add: count_where_def)
  moreover have "count_where (\<lambda>p. ?V p = Some stage2_reviewed) ps + count_where (\<lambda>p. ?V p = Some cut_off) ps +
      count_where (\<lambda>p. ?V p = None) ps = length ps"
    by (induction ps) (auto simp: cutoff_verdict_def)
  ultimately show "mt_stage2_shortlisted (pl_metrics st') + mt_stage2_excluded (pl_metrics st') + mt_stage2_review (pl_metrics st') =
       mt_stage2_excluded (pl_metrics st) + mt_stage2_review (pl_metrics st) + length ps"
    by (simp add: M)
qed (simp_all add: st'_def cutoff_metrics Let_def)

section \<open>After the evaluation\<close>

lemma batch_results_ids:
  assumes "batch_results env shortlisted = Inr results"
  shows "map fe_candidate_id results = map item_id shortlisted"
proof -
  have "fe_candidate_id e = item_id p"
    if "(case find (\<lambda>e. fe_candidate_id e = item_id p) es of Some e \<Rightarrow> Inr e
       | None \<Rightarrow> failed_evaluation (item_id p) code msg m) = Inr e" for p e es code msg m
    using that by (cases "find (\<lambda>e. fe_candidate_id e = item_id p) es")
      (auto dest: find_SomeD make_evaluation_InrD simp: failed_evaluation_def)
  then have "list_all2 (\<lambda>p e. fe_candidate_id e = item_id p) shortlisted results"
    using assms unfolding batch_results_def Let_def rmap_Inr_iff by (elim list_all2_mono) blast
  then show ?thesis by (induction rule: list_all2_induct) auto
qed

lemma batch_failure_Inr: "\<exists>e. failed_evaluation i (c # cs) (d # ds) m = Inr e"
  by (simp add: failed_evaluation_def make_evaluation_def validate_outcome_def nonempty_def)

lemma batch_results_Inr: "\<exists>results. batch_results env shortlisted = Inr results"
  unfolding batch_results_def Let_def
  by (rule rmap_total) (simp add: batch_failure_Inr split: option.splits)

lemma with_details_Inr:
  "with_details vs e = Inr z \<Longrightarrow> fst z = e \<and> (\<exists>v\<in>set vs. sur_id v = fe_candidate_id e \<and> snd z = sur_details v)"
  by (auto simp: with_details_def split: option.splits dest!: find_SomeD)

lemma with_details_total: "fe_candidate_id e \<in> sur_id ` set vs \<Longrightarrow> \<exists>z. with_details vs e = Inr z"
  by (auto simp: with_details_def find_None_iff split: option.splits)

lemma result_item_fields:
  "verified_item (result_item e details) details"
  "dget (result_item e details) ''provisional'' JNull = JBool (fe_evaluation_status e = E_SUCCESS \<and> stage1_reviews details \<noteq> [])"
  by (simp_all add: result_item_def Let_def verified_item_def stage1_verification_def)

lemma status_SUCCESS_iff: "evaluation_status_value s = ''SUCCESS'' \<longleftrightarrow> s = E_SUCCESS"
  by (cases s) simp_all

lemma stage3_done:
  fixes zs st
  defines "st' \<equiv> fold stage3_step zs (bump (\<lambda>m. m\<lparr>mt_stage3_evaluated := length zs\<rparr>) st)"
  assumes b: "books ids (map (fe_candidate_id \<circ> fst) zs) st" and l: "ledger st"
    and ok: "\<And>r. r \<in> set (pl_outcomes st) \<Longrightarrow> row_ok vs r"
    and zs: "\<And>z. z \<in> set zs \<Longrightarrow> \<exists>v\<in>set vs. sur_id v = fe_candidate_id (fst z) \<and> snd z = sur_details v"
    and zero: "mt_stage3_succeeded (pl_metrics st) = 0" "mt_stage3_review (pl_metrics st) = 0" "mt_stage3_failed (pl_metrics st) = 0"
  shows "books ids [] st'" "ledger st'" "\<And>r. r \<in> set (pl_outcomes st') \<Longrightarrow> row_ok vs r"
    "mt_stage3_succeeded (pl_metrics st') + mt_stage3_review (pl_metrics st') + mt_stage3_failed (pl_metrics st') = length zs"
    "mt_stage3_evaluated (pl_metrics st') = length zs"
    "mt_stage2_shortlisted (pl_metrics st') = mt_stage2_shortlisted (pl_metrics st)"
    "mt_stage2_excluded (pl_metrics st') = mt_stage2_excluded (pl_metrics st)"
    "mt_stage2_failed (pl_metrics st') = mt_stage2_failed (pl_metrics st)"
    "mt_stage2_review (pl_metrics st') = mt_stage2_review (pl_metrics st)"
    "mt_stage1_passed (pl_metrics st') = mt_stage1_passed (pl_metrics st)"
    "mt_stage1_review (pl_metrics st') = mt_stage1_review (pl_metrics st)"
proof -
  let ?st = "bump (\<lambda>m. m\<lparr>mt_stage3_evaluated := length zs\<rparr>) st" and ?S = "\<lambda>z. fe_evaluation_status (fst z)"
  have b': "books ids (map (fe_candidate_id \<circ> fst) zs) ?st" using b by (simp add: books_def public_ids_def)
  show "books ids [] st'" using s3.books_fold [OF b'] by (simp add: st'_def evaluation_verdict_def)
  have t: "tally st' v = tally st v + count_where (\<lambda>z. evaluation_verdict z = Some v) zs" for v
    using s3.tally_fold [OF b', of v] by (simp add: st'_def tally_def)
  have same: "tally st' v = tally st v" if "snd v \<noteq> ''STAGE3''" for v
    using that by (auto simp: t evaluation_verdict_def count_where_zero)
  have t3: "tally st' (evaluation_status_value s, ''STAGE3'') = tally st (evaluation_status_value s, ''STAGE3'') + count_where (\<lambda>z. ?S z = s) zs" for s
  proof -
    have "evaluation_status_value a = evaluation_status_value s \<longleftrightarrow> a = s" for a by (cases a; cases s) simp_all
    then show ?thesis by (simp add: t evaluation_verdict_def)
  qed
  have rv: "count_where stage1_reviewed (pl_outcomes st') = count_where stage1_reviewed (pl_outcomes st)"
    using s3.count_fold_same [of stage1_reviewed zs ?st] by (simp add: st'_def evaluation_row_def Let_def)
  have len: "length (pl_outcomes st') = length (pl_outcomes st)"
    by (rule map_eq_imp_length_eq [of x_id _ x_id]) (simp add: st'_def)
  have M: "pl_metrics st' = (pl_metrics st)\<lparr>mt_stage3_evaluated := length zs,
      mt_stage3_succeeded := mt_stage3_succeeded (pl_metrics st) + count_where (\<lambda>z. ?S z = E_SUCCESS) zs,
      mt_stage3_review := mt_stage3_review (pl_metrics st) + count_where (\<lambda>z. ?S z = E_REVIEW_REQUIRED) zs,
      mt_stage3_failed := mt_stage3_failed (pl_metrics st) + count_where (\<lambda>z. ?S z = E_EVALUATION_FAILED) zs\<rparr>"
    by (simp add: st'_def stage3_metrics)
  show "ledger st'"
    unfolding ledger_def Let_def using ledgerD [OF l] t3 [of E_SUCCESS] t3 [of E_REVIEW_REQUIRED] t3 [of E_EVALUATION_FAILED]
    by (simp add: M same rv len)
  show "row_ok vs r" if "r \<in> set (pl_outcomes st')" for r
  proof (rule s3.rows_fold [OF _ _ that [unfolded st'_def]])
    fix z q assume z: "z \<in> set zs" "x_id q = (fe_candidate_id \<circ> fst) z" "row_ok vs q"
    from zs [OF z(1)] obtain v where v: "v \<in> set vs" "sur_id v = fe_candidate_id (fst z)" "snd z = sur_details v" by blast
    show "row_ok vs (evaluation_row z q)"
      unfolding evaluation_row_def Let_def comp_apply
      by (rule row_ok_decided [OF z(3) v(1)])
         (use z(2) v(2,3) in \<open>simp_all add: result_item_fields final_marks_mem status_SUCCESS_iff\<close>)
  qed (simp add: ok)
  have "count_where (\<lambda>z. ?S z = E_SUCCESS) zs + count_where (\<lambda>z. ?S z = E_REVIEW_REQUIRED) zs +
      count_where (\<lambda>z. ?S z = E_EVALUATION_FAILED) zs = length zs"
  proof (induction zs)
    case (Cons z zs)
    then show ?case by (cases "?S z") simp_all
  qed simp
  then show "mt_stage3_succeeded (pl_metrics st') + mt_stage3_review (pl_metrics st') + mt_stage3_failed (pl_metrics st') = length zs"
    by (simp add: M zero)
qed (simp_all add: st'_def stage3_metrics)

section \<open>The whole run\<close>

lemma stage3_settles:
  assumes b: "books ids (map item_id shortlisted) st" and l: "ledger st"
    and ok: "\<And>r. r \<in> set (pl_outcomes st) \<Longrightarrow> row_ok (pl_survivors st) r"
    and sub: "set (map item_id shortlisted) \<subseteq> sur_id ` set (pl_survivors st)"
    and zero: "mt_stage3_succeeded (pl_metrics st) = 0" "mt_stage3_review (pl_metrics st) = 0" "mt_stage3_failed (pl_metrics st) = 0"
    and short: "mt_stage2_shortlisted (pl_metrics st) = length shortlisted"
    and flow: "mt_stage2_shortlisted (pl_metrics st) + mt_stage2_excluded (pl_metrics st) + mt_stage2_failed (pl_metrics st) +
      mt_stage2_review (pl_metrics st) = mt_stage1_passed (pl_metrics st) + mt_stage1_review (pl_metrics st)"
  shows "\<exists>res. rbind (stage3 env shortlisted st) (finish (length ids)) = Inr res \<and> map x_id (sr_outcomes res) = ids \<and> validate_accounting res ids = Inr ()"
proof -
  obtain results where r: "batch_results env shortlisted = Inr results" using batch_results_Inr by blast
  note rid = batch_results_ids [OF r]
  let ?sorted = "sort_key evaluation_sort_key results"
  have "\<exists>z. with_details (pl_survivors st) e = Inr z" if "e \<in> set ?sorted" for e
  proof (rule with_details_total)
    have "fe_candidate_id e \<in> set (map fe_candidate_id results)" using that by simp
    then show "fe_candidate_id e \<in> sur_id ` set (pl_survivors st)" using sub by (auto simp: rid)
  qed
  then obtain zs where zs: "rmap (with_details (pl_survivors st)) ?sorted = Inr zs" using rmap_total by metis
  then have la: "list_all2 (\<lambda>e z. with_details (pl_survivors st) e = Inr z) ?sorted zs" by (simp add: rmap_Inr_iff)
  have fz: "map fst zs = ?sorted"
    using la by (induction rule: list_all2_induct) (auto dest: with_details_Inr)
  have len: "length zs = length results" using arg_cong [OF fz, of length] by simp
  have zd: "\<exists>v\<in>set (pl_survivors st). sur_id v = fe_candidate_id (fst z) \<and> snd z = sur_details v" if z: "z \<in> set zs" for z
  proof -
    from z la obtain e where "with_details (pl_survivors st) e = Inr z" by (auto simp: list_all2_conv_all_nth in_set_conv_nth)
    then show ?thesis using with_details_Inr by metis
  qed
  have mz: "mset (map (fe_candidate_id \<circ> fst) zs) = mset (map item_id shortlisted)"
  proof -
    have "mset (map (fe_candidate_id \<circ> fst) zs) = image_mset fe_candidate_id (mset (map fst zs))" by (simp add: image_mset.compositionality)
    also have "\<dots> = mset (map fe_candidate_id results)" by (simp add: fz)
    finally show ?thesis by (simp only: rid)
  qed
  let ?st' = "fold stage3_step zs (bump (\<lambda>m. m\<lparr>mt_stage3_evaluated := length zs\<rparr>) st)"
  note d = stage3_done [OF books_perm [OF b mz] l ok zd zero]
  have ls: "length zs = length shortlisted" using mset_eq_length [OF mz] by simp
  have s3: "stage3 env shortlisted st = Inr ?st'" by (simp add: stage3_def r zs len)
  have "\<exists>res. finish (length ids) ?st' = Inr res \<and> map x_id (sr_outcomes res) = ids \<and> validate_accounting res ids = Inr ()"
    by (rule settled_validates [OF d(1,2) d(3) _ _ _ refl]) (use d(4-11) flow short ls in simp_all)
  then show ?thesis unfolding s3 by auto
qed

lemma stage2_cut_settles:
  assumes b: "books ids (map item_id (pl_payloads st)) st" and l: "ledger st"
    and ok: "\<And>r. r \<in> set (pl_outcomes st) \<Longrightarrow> row_ok (pl_survivors st) r"
    and ps: "\<And>q. q \<in> set (pl_payloads st) \<Longrightarrow> \<exists>v\<in>set (pl_survivors st). sur_id v = item_id q \<and> verified_item q (sur_details v)"
    and zero: "mt_stage3_succeeded (pl_metrics st) = 0" "mt_stage3_review (pl_metrics st) = 0" "mt_stage3_failed (pl_metrics st) = 0"
      "mt_stage2_review (pl_metrics st) = 0" "mt_stage2_excluded (pl_metrics st) = 0" "mt_stage2_shortlisted (pl_metrics st) = 0"
    and flow: "mt_stage2_failed (pl_metrics st) + length (pl_payloads st) = mt_stage1_passed (pl_metrics st) + mt_stage1_review (pl_metrics st)"
  shows "\<exists>res. (case stage2_cut cutoff st of (st2, shortlisted) \<Rightarrow> rbind (stage3 env shortlisted st2) (finish (length ids))) = Inr res \<and>
    map x_id (sr_outcomes res) = ids \<and> validate_accounting res ids = Inr ()"
proof (cases "shortlist_payloads cutoff (pl_payloads st)")
  case (Inl e)
  let ?st' = "(fold ranking_failed_step (pl_payloads st) st)\<lparr>pl_payloads := []\<rparr>"
  note d = ranking_failed_done [OF b l ok ps]
  have "\<exists>res. rbind (stage3 env [] ?st') (finish (length ids)) = Inr res \<and> map x_id (sr_outcomes res) = ids \<and> validate_accounting res ids = Inr ()"
    by (rule stage3_settles)
       (use d zero flow in \<open>simp_all add: books_def ledger_def tally_def public_ids_def ranking_failed_metrics\<close>)
  then show ?thesis by (simp add: stage2_cut_def Inl)
next
  case (Inr selected)
  let ?st' = "fold (cutoff_step selected) (pl_payloads st) (bump (\<lambda>m. m\<lparr>mt_stage2_shortlisted := length selected\<rparr>) st)"
  note sel = sort_key_payload_ids [OF Inr]
  note d = cutoff_done [OF b l ok ps sel]
  have surv: "pl_survivors ?st' = pl_survivors st" by (simp add: cutoff_metrics)
  have "set (map item_id selected) \<subseteq> sur_id ` set (pl_survivors st)"
  proof
    fix i assume "i \<in> set (map item_id selected)"
    then obtain q where "q \<in> set (pl_payloads st)" "i = item_id q" using sel(2) by auto
    then show "i \<in> sur_id ` set (pl_survivors st)" using ps by force
  qed
  moreover have "mt_stage3_succeeded (pl_metrics ?st') = 0" "mt_stage3_review (pl_metrics ?st') = 0" "mt_stage3_failed (pl_metrics ?st') = 0"
    using zero by (simp_all add: cutoff_metrics Let_def)
  ultimately have "\<exists>res. rbind (stage3 env selected ?st') (finish (length ids)) = Inr res \<and> map x_id (sr_outcomes res) = ids \<and> validate_accounting res ids = Inr ()"
    by (intro stage3_settles [OF d(1,2)]) (use d(3-8) flow zero surv in simp_all)
  then show ?thesis by (simp add: stage2_cut_def Inr)
qed

text \<open>The run succeeds, and its result reconciles.\<close>

theorem run_reconciles:
  assumes d: "distinct (map i_candidate_id raw)" and ne: "raw \<noteq> []" "jp_profile job \<noteq> []"
    and rules: "resolve_hard_filters (jp_profile job) explicit = Inr rules" and cutoff: "1 \<le> cutoff" "cutoff \<le> 15"
    and auth: "rmap consistent_authorization raw = Inr cands" and backend: "\<not> (sv_production env \<and> \<not> sv_postgres_backend env)"
  shows "\<exists>res. run_end_to_end_screening_pipeline env job explicit cutoff views raw = Inr res \<and>
    map x_id (sr_outcomes res) = map i_candidate_id raw \<and> validate_accounting res (map i_candidate_id raw) = Inr ()"
proof -
  have "list_all2 (\<lambda>c c'. c' = c) raw cands"
    using auth unfolding rmap_Inr_iff
    by (elim list_all2_mono) (auto simp: consistent_authorization_def Let_def split: if_splits)
  then have cands: "cands = raw" by (induction rule: list_all2_induct) simp_all
  define st1 where "st1 = fold (stage1_step env job rules) raw (initial_pipeline env raw)"
  define st2 where "st2 = fold (stage2_step env job rules views) (pl_survivors st1) st1"
  let ?ids = "map i_candidate_id raw"
  note d1 = stage1_done [OF d, where env = env and job = job and rules = rules, folded st1_def]
  note d2 = stage2_done [OF d1(1,2,3,7), where env = env and job = job and rules = rules and views = views, folded st2_def]
  have run: "run_end_to_end_screening_pipeline env job explicit cutoff views raw =
      (if pl_survivors st1 = [] then finish (length ?ids) st1
       else case stage2_cut cutoff st2 of (st, shortlisted) \<Rightarrow> rbind (stage3 env shortlisted st) (finish (length ?ids)))"
    using ne cutoff backend
    by (auto simp: run_end_to_end_screening_pipeline_def rules auth cands st1_def [symmetric] st2_def [symmetric] Let_def)
  show ?thesis
  proof (cases "pl_survivors st1 = []")
    case True
    have "\<exists>res. finish (length ?ids) st1 = Inr res \<and> map x_id (sr_outcomes res) = ?ids \<and> validate_accounting res ?ids = Inr ()"
      by (rule settled_validates [where vs = "pl_survivors st1", OF _ d1(2,3) _ _ _ refl]) (use d1(1,4-13) True in simp_all)
    then show ?thesis by (auto simp: run True)
  next
    case False
    have surv: "pl_survivors st2 = pl_survivors st1" by (simp add: st2_def stage2_survivors)
    have other: "mt_stage3_succeeded (pl_metrics st2) = 0" "mt_stage3_review (pl_metrics st2) = 0" "mt_stage3_failed (pl_metrics st2) = 0"
      "mt_stage2_review (pl_metrics st2) = 0" "mt_stage2_excluded (pl_metrics st2) = 0" "mt_stage2_shortlisted (pl_metrics st2) = 0"
      "mt_stage1_passed (pl_metrics st2) = mt_stage1_passed (pl_metrics st1)"
      "mt_stage1_review (pl_metrics st2) = mt_stage1_review (pl_metrics st1)"
      using d1 by (simp_all add: st2_def stage2_metrics)
    have "\<exists>res. (case stage2_cut cutoff st2 of (st, shortlisted) \<Rightarrow> rbind (stage3 env shortlisted st) (finish (length ?ids))) = Inr res \<and>
        map x_id (sr_outcomes res) = ?ids \<and> validate_accounting res ?ids = Inr ()"
      by (rule stage2_cut_settles) (use d2 d1(4,8) other surv in \<open>simp_all del: length_map\<close>)
    then show ?thesis by (simp add: run False)
  qed
qed

end
