(* ===== verification/Pipeline_Results.thy ===== *)
theory Pipeline_Results
  imports Pipeline_Run
begin

text \<open>
  Where the decisions of a screening run come from: a row that reached Stage 3 carries the dump of an
  evaluation the batch call returned, or of the failure that stands for a missing one.
\<close>

definition evaluated_by :: "screening_env \<Rightarrow> final_evaluation \<Rightarrow> bool" where
  "evaluated_by env e \<longleftrightarrow> (\<exists>ps es. sv_evaluate env ps = Inr es \<and> e \<in> set es) \<or>
     failed_evaluation (fe_candidate_id e) ''BATCH_EVALUATION_FAILED'' ''Evaluation did not return a result.'' False = Inr e"

lemma failed_no_output: "failed_evaluation i code msg m = Inr e \<Longrightarrow> fe_llm_raw_output e = None"
  by (auto simp: failed_evaluation_def dest!: make_evaluation_InrD)

definition stage3_row_ok :: "screening_env \<Rightarrow> outcome_row \<Rightarrow> bool" where
  "stage3_row_ok env r \<longleftrightarrow> (x_stage r = Some ''STAGE3'' \<longrightarrow> (\<exists>e details. evaluated_by env e \<and>
     x_result r = result_item e details \<and> x_outcome r = Some (evaluation_status_value (fe_evaluation_status e))))"

lemma stage3_row_ok_logged [simp]: "stage3_row_ok env (logged s t d r) = stage3_row_ok env r"
  by (simp add: stage3_row_ok_def)

lemma stage3_row_ok_other [simp]:
  "stage3_row_ok env (decided a ''STAGE1'' item r)" "stage3_row_ok env (decided a ''STAGE2'' item r)"
  "stage3_row_ok env (r\<lparr>x_evidence := e\<rparr>) = stage3_row_ok env r"
  "stage3_row_ok env (stage0_row c r) = stage3_row_ok env r" "stage3_row_ok env (new_row env' c)"
  by (simp_all add: stage3_row_ok_def stage0_row_def new_row_def logged_def)

lemma stage3_row_ok_evaluation: "evaluated_by env (fst z) \<Longrightarrow> stage3_row_ok env (evaluation_row z r)"
  by (auto simp: stage3_row_ok_def evaluation_row_def Let_def)

lemma batch_results_from:
  assumes "batch_results env shortlisted = Inr results" "e \<in> set results"
  shows "evaluated_by env e"
proof -
  obtain p where p: "(case find (\<lambda>e. fe_candidate_id e = item_id p)
        (rev (case sv_evaluate env shortlisted of Inl _ \<Rightarrow> [] | Inr es \<Rightarrow> es)) of Some e \<Rightarrow> Inr e
      | None \<Rightarrow> failed_evaluation (item_id p) ''BATCH_EVALUATION_FAILED'' ''Evaluation did not return a result.'' False) = Inr e"
    using assms unfolding batch_results_def Let_def rmap_Inr_iff by (auto simp: list_all2_conv_all_nth in_set_conv_nth)
  show ?thesis
  proof (cases "find (\<lambda>e. fe_candidate_id e = item_id p) (rev (case sv_evaluate env shortlisted of Inl _ \<Rightarrow> [] | Inr es \<Rightarrow> es))")
    case None
    then have f: "failed_evaluation (item_id p) ''BATCH_EVALUATION_FAILED'' ''Evaluation did not return a result.'' False = Inr e"
      using p by simp
    then have "fe_candidate_id e = item_id p" by (auto dest: make_evaluation_InrD simp: failed_evaluation_def)
    then show ?thesis using f by (simp add: evaluated_by_def)
  next
    case (Some e')
    then have "e' = e" "e' \<in> set (case sv_evaluate env shortlisted of Inl _ \<Rightarrow> [] | Inr es \<Rightarrow> es)"
      using p by (auto dest: find_SomeD)
    then show ?thesis unfolding evaluated_by_def by (cases "sv_evaluate env shortlisted") auto
  qed
qed

lemma list_all2_right: "list_all2 P xs ys \<Longrightarrow> y \<in> set ys \<Longrightarrow> \<exists>x\<in>set xs. P x y"
  by (induction rule: list_all2_induct) auto

lemma finish_outcomes: "finish n st = Inr res \<Longrightarrow> sr_outcomes res = pl_outcomes st"
  by (auto simp: finish_def Let_def split: if_splits)

lemma stage1_rows_ok:
  assumes "\<And>r. r \<in> set (pl_outcomes st) \<Longrightarrow> stage3_row_ok env r" "r \<in> set (pl_outcomes (fold (stage1_step env job rules) cs st))"
  shows "stage3_row_ok env r"
  by (rule s1.rows_fold [OF assms(1) _ assms(2)]) (auto simp: stage1_row_def split: sum.splits)

lemma stage2_rows_ok:
  assumes "\<And>r. r \<in> set (pl_outcomes st) \<Longrightarrow> stage3_row_ok env r" "r \<in> set (pl_outcomes (fold (stage2_step env job rules views) vs st))"
  shows "stage3_row_ok env r"
  by (rule s2.rows_fold [OF assms(1) _ assms(2)]) (auto simp: stage2_row_def split: sum.splits)

lemma stage2_cut_rows_ok:
  assumes "\<And>r. r \<in> set (pl_outcomes st) \<Longrightarrow> stage3_row_ok env r" "r \<in> set (pl_outcomes (fst (stage2_cut cutoff st)))"
  shows "stage3_row_ok env r"
proof (cases "shortlist_payloads cutoff (pl_payloads st)")
  case (Inl e)
  have "r \<in> set (pl_outcomes (fold ranking_failed_step (pl_payloads st) st))" using assms(2) by (simp add: stage2_cut_def Inl)
  from rf.rows_fold [where P = "stage3_row_ok env", OF assms(1) _ this] show ?thesis by simp
next
  case (Inr selected)
  have "r \<in> set (pl_outcomes (fold (cutoff_step selected) (pl_payloads st) (bump (\<lambda>m. m\<lparr>mt_stage2_shortlisted := length selected\<rparr>) st)))"
    using assms(2) by (simp add: stage2_cut_def Inr)
  from cs.rows_fold [OF _ _ this, of "stage3_row_ok env"] assms(1) show ?thesis by (simp add: cutoff_row_def)
qed

lemma stage3_rows_ok:
  assumes "stage3 env shortlisted st = Inr st'" "\<And>r. r \<in> set (pl_outcomes st) \<Longrightarrow> stage3_row_ok env r" "r \<in> set (pl_outcomes st')"
  shows "stage3_row_ok env r"
proof -
  obtain results rows where b: "batch_results env shortlisted = Inr results"
    and rows: "rmap (with_details (pl_survivors st)) (sort_key evaluation_sort_key results) = Inr rows"
    and st': "st' = fold stage3_step rows (bump (\<lambda>m. m\<lparr>mt_stage3_evaluated := length results\<rparr>) st)"
    using assms(1) by (auto simp: stage3_def rbind_Inr_conv)
  have ev: "evaluated_by env (fst z)" if "z \<in> set rows" for z
  proof -
    have "list_all2 (\<lambda>e z. with_details (pl_survivors st) e = Inr z) (sort_key evaluation_sort_key results) rows"
      using rows by (simp add: rmap_Inr_iff)
    from list_all2_right [OF this that] obtain e where
      e: "e \<in> set (sort_key evaluation_sort_key results)" "with_details (pl_survivors st) e = Inr z" by blast
    then have "fst z = e" "e \<in> set results" using with_details_Inr by (blast, simp)
    then show ?thesis using batch_results_from [OF b] by simp
  qed
  show ?thesis
    by (rule s3.rows_fold [OF _ _ assms(3) [unfolded st']]) (simp_all add: assms(2) stage3_row_ok_evaluation ev)
qed

lemma initial_rows_ok: "r \<in> set (pl_outcomes (initial_pipeline env cands)) \<Longrightarrow> stage3_row_ok env r"
  by (auto simp: initial_pipeline_def initial_outcomes_def List.map_filter_def)

theorem run_rows_ok:
  assumes "run_end_to_end_screening_pipeline env job explicit cutoff views raw = Inr res" "r \<in> set (sr_outcomes res)"
  shows "stage3_row_ok env r"
proof (cases "raw = [] \<or> jp_profile job = []")
  case True
  then show ?thesis using assms by (auto simp: run_end_to_end_screening_pipeline_def rbind_Inr_conv split: if_splits)
next
  case False
  obtain rules cands where rc: "resolve_hard_filters (jp_profile job) explicit = Inr rules" "rmap consistent_authorization raw = Inr cands"
    using assms(1) by (auto simp: run_end_to_end_screening_pipeline_def rbind_Inr_conv split: if_splits)
  have run: "(let st1 = fold (stage1_step env job rules) cands (initial_pipeline env cands) in
      if pl_survivors st1 = [] then finish (length cands) st1
      else case stage2_cut cutoff (fold (stage2_step env job rules views) (pl_survivors st1) st1) of
        (st2, shortlisted) \<Rightarrow> rbind (stage3 env shortlisted st2) (finish (length cands))) = Inr res"
    using assms(1) False by (auto simp: run_end_to_end_screening_pipeline_def rc Let_def split: if_splits)
  define st1 where "st1 = fold (stage1_step env job rules) cands (initial_pipeline env cands)"
  define st2 where "st2 = fold (stage2_step env job rules views) (pl_survivors st1) st1"
  have ok1: "stage3_row_ok env q" if "q \<in> set (pl_outcomes st1)" for q
    by (rule stage1_rows_ok [OF initial_rows_ok that [unfolded st1_def]])
  have ok2: "stage3_row_ok env q" if "q \<in> set (pl_outcomes st2)" for q
    by (rule stage2_rows_ok [OF ok1 that [unfolded st2_def]])
  show ?thesis
  proof (cases "pl_survivors st1 = []")
    case True
    then have "sr_outcomes res = pl_outcomes st1" using run finish_outcomes by (simp add: st1_def)
    then show ?thesis using ok1 assms(2) by simp
  next
    case False
    obtain st3 shortlisted where cut: "stage2_cut cutoff st2 = (st3, shortlisted)" by (cases "stage2_cut cutoff st2")
    obtain st4 where s3: "stage3 env shortlisted st3 = Inr st4" "finish (length cands) st4 = Inr res"
      using run False cut by (auto simp: st1_def [symmetric] st2_def [symmetric] rbind_Inr_conv)
    have "stage3_row_ok env q" if "q \<in> set (pl_outcomes st3)" for q
      using stage2_cut_rows_ok [OF ok2, where r = q and cutoff = cutoff] that by (simp add: cut)
    from stage3_rows_ok [OF s3(1) this] show ?thesis using assms(2) finish_outcomes [OF s3(2)] by simp
  qed
qed

end
