(* ===== verification/Run_Publication.thy ===== *)
theory Run_Publication
  imports Run_Audit Pipeline_Results
begin

text \<open>
  Publication of a run: the result of the pipeline is stored in one transaction, exactly once, for the
  candidates that were reserved; every stored decision can be recomputed from its stored output and the
  policy of its run.
\<close>

section \<open>Replay\<close>

lemma weight_values: "map (\<lambda>(k, w). (k, decimal_value w)) weight_texts = CATEGORY_WEIGHTS"
proof -
  have "decimal_value ''0.40'' = 40 / 100 \<and> decimal_value ''0.30'' = 30 / 100 \<and>
      decimal_value ''0.20'' = 20 / 100 \<and> decimal_value ''0.10'' = 10 / 100"
    by code_simp
  then show ?thesis by (simp add: weight_texts_def CATEGORY_WEIGHTS_def)
qed

lemma result_item_get:
  assumes "k \<notin> {''verification_required'', ''verification_reasons'', ''stage1_filter_details'', ''provisional''}"
  shows "dget (result_item e details) k x = dget (evaluation_dump e) k x"
  using assms by (simp add: result_item_def Let_def stage1_verification_def)

lemma dindex_dget: "dget d k JNull \<noteq> JNull \<Longrightarrow> dindex d k = Inr (dget d k JNull)"
  by (simp add: dindex_def dget_def split: option.splits)

lemma stored_scores:
  "rmap (stored_score (JDict (output_dump out))) (map (\<lambda>(k, w). (k, JStr w)) weight_texts) =
     Inr [ca_score (skills out) * (40 / 100), ca_score (experience out) * (30 / 100),
       ca_score (projects out) * (20 / 100), ca_score (education out) * (10 / 100)]"
proof -
  have w: "decimal_value ''0.40'' = 40 / 100" "decimal_value ''0.30'' = 30 / 100"
    "decimal_value ''0.20'' = 20 / 100" "decimal_value ''0.10'' = 10 / 100"
    using weight_values by (simp_all add: weight_texts_def CATEGORY_WEIGHTS_def)
  have s: "stored_score (JDict (output_dump out)) (k, JStr t) = Inr (ca_score a * decimal_value t)"
    if "dget (output_dump out) k JNull = JDict (assessment_dump a)" for k t a
    using that by (simp add: stored_score_def dindex_dget)
  show ?thesis by (simp add: weight_texts_def s w)
qed

text \<open>A stored Stage 3 decision that came from the scoring policy is found again.\<close>

lemma decision_replays:
  assumes e: "score_evaluation i out v m = Inr e"
    and weights: "dget (u_policy run) ''category_weights'' JNull = JDict (map (\<lambda>(k, w). (k, JStr w)) weight_texts)"
    and tiers: "dget (u_policy run) ''tier_thresholds'' JNull = JDict [(''TIER_1'', JNum 75), (''TIER_2'', JNum 55)]"
    and stored: "co_stage o' = ''STAGE3''" "co_outcome o' = evaluation_status_value (fe_evaluation_status e)"
      "co_result o' = result_item e details" "co_validated o' = dget (co_result o') ''llm_raw_output'' JNull"
  shows "recompute_stored_decision run o' = Inr (Some
    \<lparr>y_score = the (fe_composite_score e), y_tier = map_option tier_value (fe_tier e), y_matches = True\<rparr>)"
proof -
  note f = score_evaluation_Inr [OF e]
  let ?a = "ca_score (skills out)" and ?b = "ca_score (experience out)" and ?c = "ca_score (projects out)"
    and ?d = "ca_score (education out)"
  define x where "x = the (fe_composite_score e)"
  have x: "fe_composite_score e = Some x" using f(4) by (auto simp: x_def)
  have xq: "x = quantize_half_up 2 (?a * (40 / 100) + (?b * (30 / 100) + (?c * (20 / 100) + ?d * (10 / 100))))"
    using f(3) by (simp add: weighted_score_output weighted_sum_def x add.assoc)
  have validated: "co_validated o' = JDict (output_dump out)"
    by (simp add: stored(3,4) result_item_get f(2))
  have "output_dump out \<noteq> []" by (simp add: output_dump_def)
  have tier: "(if co_outcome o' \<noteq> ''SUCCESS'' then None else Some (stored_tier [(''TIER_1'', JNum 75), (''TIER_2'', JNum 55)] x)) =
      map_option tier_value (fe_tier e)"
    using f(5,6) by (simp add: stored(2) x stored_tier_def dget_Cons)
  have got: "dget (result_item e details) ''composite_score'' JNull = JNum x"
    "dget (result_item e details) ''tier'' JNull = opt_str (map_option tier_value (fe_tier e))"
    by (simp_all add: result_item_get x)
  have qs: "quantize_half_up 2 (sum_list [?a * (40 / 100), ?b * (30 / 100), ?c * (20 / 100), ?d * (10 / 100)]) = x"
    by (simp add: xq)
  have "recompute_stored_decision run o' = Inr (Some \<lparr>y_score = x, y_tier = map_option tier_value (fe_tier e),
      y_matches = (dget (co_result o') ''composite_score'' JNull = JNum x \<and>
        dget (co_result o') ''tier'' JNull = opt_str (map_option tier_value (fe_tier e)))\<rparr>)"
    unfolding recompute_stored_decision_def validated weights tiers as_dict.simps stored_scores rbind_simps Let_def qs tier
    by (simp add: stored(1))
  then show ?thesis using got by (simp add: stored(3) x_def)
qed

section \<open>Storing the outcomes\<close>

text \<open>What a published batch makes of one row.\<close>

definition published_row :: "screening_run \<Rightarrow> outcome_row list \<Rightarrow> candidate_outcome \<Rightarrow> candidate_outcome" where
  "published_row run items o' =
    (if co_run o' \<noteq> u_id run then o'
     else case find (\<lambda>item. x_id item = co_candidate o') items of None \<Rightarrow> o' | Some item \<Rightarrow> final_outcome run item o')"

definition stage3_stored :: "outcome_row \<Rightarrow> bool" where
  "stage3_stored r \<longleftrightarrow> (x_stage r = Some ''STAGE3'' \<longrightarrow>
     \<not> is_error (dindex (x_result r) ''evaluation_status'') \<and> \<not> is_error (dindex (x_result r) ''scoring_policy_version''))"

lemma evaluation_of_Inr:
  "stage3_stored r \<Longrightarrow> x_stage r = Some ''STAGE3'' \<Longrightarrow> \<exists>ev. evaluation_of run r = Inr ev \<and> es_run ev = u_id run \<and> es_candidate ev = x_id r"
  by (auto simp: stage3_stored_def evaluation_of_def Let_def rbind_def is_error_def split: sum.splits)

definition reserved_for :: "screening_run \<Rightarrow> string list \<Rightarrow> audit_db \<Rightarrow> bool" where
  "reserved_for run ids db \<longleftrightarrow> (\<forall>i\<in>set ids. \<exists>o'\<in>set (au_outcomes db). co_run o' = u_id run \<and> co_candidate o' = i) \<and>
     (\<forall>o'\<in>set (au_outcomes db). co_run o' = u_id run \<and> co_candidate o' \<in> set ids \<longrightarrow> co_outcome o' = ''PENDING'')"

lemma reserved_forD:
  assumes "reserved_for run ids db" "i \<in> set ids"
  obtains o' where "find (\<lambda>o'. co_run o' = u_id run \<and> co_candidate o' = i) (au_outcomes db) = Some o'" "co_outcome o' = ''PENDING''"
proof -
  obtain o' where o': "find (\<lambda>o'. co_run o' = u_id run \<and> co_candidate o' = i) (au_outcomes db) = Some o'"
    using assms by (cases "find (\<lambda>o'. co_run o' = u_id run \<and> co_candidate o' = i) (au_outcomes db)")
      (fastforce simp: reserved_for_def find_None_iff)+
  then have "o' \<in> set (au_outcomes db) \<and> co_run o' = u_id run \<and> co_candidate o' = i" by (auto dest: find_SomeD)
  then show ?thesis using that o' assms by (auto simp: reserved_for_def)
qed

lemma final_outcome_keys [simp]:
  "co_run (final_outcome run item o') = co_run o'" "co_candidate (final_outcome run item o') = co_candidate o'"
  by (simp_all add: final_outcome_def Let_def)

lemma finalize_outcome_Inr:
  assumes "reserved_for run [x_id item] db" "stage3_stored item"
  shows "\<exists>db'. finalize_outcome run item db = Inr db' \<and> au_runs db' = au_runs db \<and> au_jobs db' = au_jobs db \<and>
    au_outcomes db' = map (published_row run [item]) (au_outcomes db)"
proof -
  let ?mine = "\<lambda>o'. co_run o' = u_id run \<and> co_candidate o' = x_id item"
  obtain o' where o': "find ?mine (au_outcomes db) = Some o'" "co_outcome o' = ''PENDING''"
    using reserved_forD [OF assms(1), of "x_id item"] by auto
  have "update_where ?mine (final_outcome run item) rows = map (published_row run [item]) rows" for rows
    by (simp add: update_where_def published_row_def)
  then show ?thesis
    using o' evaluation_of_Inr [OF assms(2), of run]
    by (auto simp: finalize_outcome_def Let_def)
qed

lemma published_row_Cons:
  assumes "x_id item \<notin> x_id ` set items"
  shows "published_row run items (published_row run [item] o') = published_row run (item # items) o'"
proof -
  have "find (\<lambda>r. x_id r = x_id item) items = None" using assms by (auto simp: find_None_iff image_iff)
  then show ?thesis by (cases "x_id item = co_candidate o'") (simp_all add: published_row_def split: option.split)
qed

lemma reserved_for_Cons:
  assumes "reserved_for run (i # ids) db" "i \<notin> set ids" "x_id item = i"
    "au_outcomes db' = map (published_row run [item]) (au_outcomes db)"
  shows "reserved_for run ids db'"
proof -
  have keys: "co_run (published_row run [item] o') = co_run o'" "co_candidate (published_row run [item] o') = co_candidate o'" for o'
    by (simp_all add: published_row_def)
  have same: "published_row run [item] o' = o'" if "co_candidate o' \<in> set ids" for o'
    using that assms(2,3) by (auto simp: published_row_def)
  show ?thesis
    using assms(1) unfolding reserved_for_def assms(4) by (auto simp: keys same)
qed

lemma finalize_outcomes_Inr:
  assumes "reserved_for run (map x_id items) db" "distinct (map x_id items)" "\<And>r. r \<in> set items \<Longrightarrow> stage3_stored r"
  shows "\<exists>db'. finalize_outcomes run items db = Inr db' \<and> au_runs db' = au_runs db \<and> au_jobs db' = au_jobs db \<and>
    au_outcomes db' = map (published_row run items) (au_outcomes db)"
  using assms
proof (induction items arbitrary: db)
  case Nil
  have "published_row run [] = id" by (auto simp: published_row_def)
  then show ?case by simp
next
  case (Cons item items)
  have "reserved_for run [x_id item] db" using Cons.prems(1) by (auto simp: reserved_for_def)
  from finalize_outcome_Inr [OF this] Cons.prems(3) obtain db1 where
    db1: "finalize_outcome run item db = Inr db1" "au_runs db1 = au_runs db" "au_jobs db1 = au_jobs db"
      "au_outcomes db1 = map (published_row run [item]) (au_outcomes db)" by auto
  have "reserved_for run (map x_id items) db1"
    by (rule reserved_for_Cons [OF _ _ refl db1(4)]) (use Cons.prems in simp_all)
  from Cons.IH [OF this] Cons.prems(2,3) obtain db2 where
    "finalize_outcomes run items db1 = Inr db2" "au_runs db2 = au_runs db1" "au_jobs db2 = au_jobs db1"
      "au_outcomes db2 = map (published_row run items) (au_outcomes db1)" by auto
  then show ?case using db1 published_row_Cons [of item items run] Cons.prems(2) by simp
qed

text \<open>A result that was accepted and whose rows are reserved is published.\<close>

lemma complete_run_Inr:
  assumes "validate_accounting res ids = Inr ()" "reserved_for run ids db" "map x_id (sr_outcomes res) = ids"
    "\<And>r. r \<in> set (sr_outcomes res) \<Longrightarrow> stage3_stored r" "distinct ids"
  shows "\<exists>db'. complete_run run res ids response db = Inr db' \<and>
    au_runs db' = update_where (\<lambda>q. u_id q = u_id run)
      (\<lambda>q. q\<lparr>u_metrics := Some (sr_metrics res), u_response := Some response, u_status := R_COMPLETED\<rparr>) (au_runs db) \<and>
    au_outcomes db' = map (published_row run (sr_outcomes res)) (au_outcomes db)"
  using finalize_outcomes_Inr [of run "sr_outcomes res" db] assms
  by (auto simp: complete_run_def)

end
