(* ===== verification/Accounts.thy ===== *)
theory Accounts
  imports Settings
begin

text \<open>
  Recruiter accounts: service credentials, access tokens and the principal of a request
  (\<open>app/core/auth.py\<close>), login with its lockout and logout (\<open>app/api/auth.py\<close>). The password hash, the
  signature of the tokens and the SHA-256 digest are arguments; times are in seconds.
\<close>

section \<open>State\<close>

record recruiter_user =
  ru_id :: string
  ru_email :: string
  ru_username :: string
  ru_password_hash :: string
  ru_role :: string
  ru_is_active :: bool
  ru_token_version :: int
  ru_failed_attempts :: int
  ru_locked_until :: "int option"

record principal =
  pr_id :: string
  pr_role :: string

record http_request =
  rq_method :: string
  rq_authorization :: string
  rq_access_cookie :: "string option"
  rq_csrf_cookie :: "string option"
  rq_csrf_header :: string
  rq_sec_fetch_site :: string
  rq_origin :: string
  rq_host :: string

text \<open>What the code takes from PyJWT, argon2 and hashlib; the times are those of the call.\<close>

record crypto =
  cr_encode :: "pydict \<Rightarrow> string"
  cr_decode :: "int \<Rightarrow> string \<Rightarrow> pydict option"
  cr_verify :: "string \<Rightarrow> string \<Rightarrow> bool"
  cr_sha256 :: "string \<Rightarrow> string"

definition user_by_id :: "string \<Rightarrow> recruiter_user list \<Rightarrow> recruiter_user option" where
  "user_by_id i users = find (\<lambda>u. ru_id u = i) users"

definition put_user :: "recruiter_user \<Rightarrow> recruiter_user list \<Rightarrow> recruiter_user list" where
  "put_user u users = update_where (\<lambda>v. ru_id v = ru_id u) (\<lambda>_. u) users"

section \<open>Service credentials\<close>

definition credential_ok :: "string set \<Rightarrow> string set \<Rightarrow> pydict \<Rightarrow> bool" where
  "credential_ok ids tokens entry \<longleftrightarrow> set (map fst entry) = {''id'', ''role'', ''token''} \<and>
     (case (dget entry ''id'' JNull, dget entry ''role'' JNull, dget entry ''token'' JNull) of
        (JStr i, JStr role, JStr token) \<Rightarrow>
          i \<noteq> [] \<and> length i \<le> 64 \<and> i \<noteq> ''local'' \<and> role \<in> {''admin'', ''recruiter''} \<and>
          32 \<le> length token \<and> i \<notin> ids \<and> token \<notin> tokens
      | _ \<Rightarrow> False)"

fun check_credentials :: "string set \<Rightarrow> string set \<Rightarrow> json list \<Rightarrow> pydict list result" where
  "check_credentials ids tokens [] = Inr []"
| "check_credentials ids tokens (e # es) =
    (let entry = as_dict e in
     if \<not> credential_ok ids tokens entry then Inl (ValueError ''Invalid or duplicate API credential'')
     else rbind (check_credentials (insert (str_of (dget entry ''id'' JNull)) ids)
                   (insert (str_of (dget entry ''token'' JNull)) tokens) es) (\<lambda>rest. Inr (entry # rest)))"

text \<open>\<open>loads\<close> is \<open>json.loads\<close>, whose error becomes a ValueError.\<close>

definition configured_principals :: "(string \<Rightarrow> json option) \<Rightarrow> string option \<Rightarrow> pydict list result" where
  "configured_principals loads raw =
    (case raw of None \<Rightarrow> Inr [] | Some [] \<Rightarrow> Inr []
     | Some t \<Rightarrow>
         (case loads t of
            None \<Rightarrow> Inl (ValueError ''Invalid API_TOKENS_JSON'')
          | Some (JList (e # es)) \<Rightarrow> check_credentials {} {} (e # es)
          | Some _ \<Rightarrow> Inl (ValueError ''API_TOKENS_JSON must be a nonempty list'')))"

section \<open>Tokens\<close>

definition access_claims :: "settings \<Rightarrow> int \<Rightarrow> string \<Rightarrow> string \<Rightarrow> recruiter_user \<Rightarrow> pydict" where
  "access_claims cfg now jti csrf_digest u =
    [(''iss'', JStr ''cv-screening''), (''aud'', JStr ''cv-screening-api''), (''sub'', JStr (ru_id u)),
     (''iat'', JNum (of_int now)), (''nbf'', JNum (of_int now)),
     (''exp'', JNum (of_int (now + 60 * JWT_ACCESS_MINUTES cfg))), (''jti'', JStr jti),
     (''ver'', JNum (of_int (ru_token_version u))), (''csrf'', JStr csrf_digest)]"

definition issue_access_token ::
  "crypto \<Rightarrow> settings \<Rightarrow> int \<Rightarrow> string \<Rightarrow> string \<Rightarrow> recruiter_user \<Rightarrow> string \<times> string" where
  "issue_access_token cr cfg now jti csrf u = (cr_encode cr (access_claims cfg now jti (cr_sha256 cr csrf) u), csrf)"

text \<open>\<open>header.partition(' ')\<close>.\<close>

definition bearer_of :: "string \<Rightarrow> string option" where
  "bearer_of header =
    (let scheme = takeWhile (\<lambda>c. c \<noteq> CHR '' '') header; bearer = drop (length scheme + 1) header in
     if lower scheme = ''bearer'' \<and> bearer \<noteq> [] then Some bearer else None)"

definition unauthorized :: py_exn where
  "unauthorized = HTTPException 401 ''Authentication required''"

definition is_int_json :: "json \<Rightarrow> bool" where
  "is_int_json v = (case v of JBool _ \<Rightarrow> True | JNum x \<Rightarrow> x \<in> \<int> | _ \<Rightarrow> False)"

lemma is_int_json_code [code, simp]:
  "is_int_json (JNum x) = (snd (quotient_of x) = 1)" "is_int_json (JBool b) = True" "is_int_json JNull = False"
  "is_int_json JNonFinite = False" "is_int_json (JStr s) = False" "is_int_json (JList l) = False" "is_int_json (JDict d) = False"
proof -
  have "x \<in> \<int> \<longleftrightarrow> snd (quotient_of x) = 1"
  proof
    assume "x \<in> \<int>"
    then obtain k where "x = of_int k" by (auto elim: Ints_cases)
    then show "snd (quotient_of x) = 1" by simp
  next
    assume "snd (quotient_of x) = 1"
    then have "x = of_int (fst (quotient_of x))" using quotient_of_div [of x "fst (quotient_of x)" 1] by (cases "quotient_of x") simp
    then show "x \<in> \<int>" by (metis Ints_of_int)
  qed
  then show "is_int_json (JNum x) = (snd (quotient_of x) = 1)" by (simp add: is_int_json_def)
qed (simp_all add: is_int_json_def)

definition csrf_ok :: "crypto \<Rightarrow> http_request \<Rightarrow> pydict \<Rightarrow> bool" where
  "csrf_ok cr rq claims \<longleftrightarrow> (case rq_csrf_cookie rq of
     None \<Rightarrow> False
   | Some cookie \<Rightarrow> cookie \<noteq> [] \<and> cookie = rq_csrf_header rq \<and> JStr (cr_sha256 cr cookie) = dget claims ''csrf'' JNull)"

text \<open>A decoded token: its claims, the account it names and the double-submitted cookie.\<close>

definition token_principal ::
  "crypto \<Rightarrow> int \<Rightarrow> http_request \<Rightarrow> recruiter_user list \<Rightarrow> string \<Rightarrow> principal result" where
  "token_principal cr now rq users token =
    (case cr_decode cr now token of
       None \<Rightarrow> Inl unauthorized
     | Some claims \<Rightarrow>
         (case dget claims ''sub'' JNull of
            JStr sub \<Rightarrow>
              if \<not> is_int_json (dget claims ''ver'' JNull) then Inl unauthorized
              else (case user_by_id sub users of
                  None \<Rightarrow> Inl unauthorized
                | Some u \<Rightarrow>
                    if \<not> ru_is_active u \<or> of_int (ru_token_version u) \<noteq> num_of (dget claims ''ver'' JNull) then Inl unauthorized
                    else if Some token = rq_access_cookie rq \<and> rq_method rq \<notin> {''GET'', ''HEAD'', ''OPTIONS''} \<and> \<not> csrf_ok cr rq claims
                    then Inl (HTTPException 403 ''CSRF check failed'')
                    else Inr \<lparr>pr_id = ru_id u, pr_role = ru_role u\<rparr>)
          | _ \<Rightarrow> Inl unauthorized))"

definition current_principal ::
  "crypto \<Rightarrow> settings \<Rightarrow> (string \<Rightarrow> json option) \<Rightarrow> int \<Rightarrow> http_request \<Rightarrow> recruiter_user list \<Rightarrow> principal result" where
  "current_principal cr cfg loads now rq users =
    (case bearer_of (rq_authorization rq) of
       Some bearer \<Rightarrow>
         rbind (configured_principals loads (API_TOKENS_JSON cfg)) (\<lambda>entries.
           case find (\<lambda>e. dget e ''token'' JNull = JStr bearer) entries of
             Some e \<Rightarrow> Inr \<lparr>pr_id = str_of (dget e ''id'' JNull), pr_role = str_of (dget e ''role'' JNull)\<rparr>
           | None \<Rightarrow> token_principal cr now rq users bearer)
     | None \<Rightarrow>
         (case rq_access_cookie rq of
            Some (c # cs) \<Rightarrow> token_principal cr now rq users (c # cs)
          | _ \<Rightarrow> if lower (ENVIRONMENT cfg) \<noteq> ''production'' then Inr \<lparr>pr_id = ''local'', pr_role = ''admin''\<rparr>
                 else Inl unauthorized))"

definition can_access :: "string \<Rightarrow> principal \<Rightarrow> bool" where
  "can_access owner p \<longleftrightarrow> pr_role p = ''admin'' \<or> owner = pr_id p"

section \<open>Login and logout\<close>

text \<open>\<open>urlsplit(origin)\<close> is the argument \<open>split_url\<close>: the scheme and the network location.\<close>

definition same_origin :: "(string \<Rightarrow> string \<times> string) \<Rightarrow> http_request \<Rightarrow> unit result" where
  "same_origin split_url rq =
    (let denied = Inl (HTTPException 403 ''Cross-site request denied'') in
     if rq_sec_fetch_site rq = ''cross-site'' then denied
     else if rq_origin rq \<noteq> [] \<and>
       (case split_url (rq_origin rq) of (scheme, netloc) \<Rightarrow>
          scheme \<notin> {''http'', ''https''} \<or> lower netloc \<noteq> lower (rq_host rq)) then denied
     else Inr ())"

definition public_user :: "recruiter_user \<Rightarrow> pydict" where
  "public_user u = [(''id'', JStr (ru_id u)), (''email'', JStr (ru_email u)), (''username'', JStr (ru_username u)),
     (''role'', JStr (ru_role u))]"

definition names_user :: "string \<Rightarrow> recruiter_user \<Rightarrow> bool" where
  "names_user identifier u \<longleftrightarrow> lower (ru_email u) = identifier \<or> lower (ru_username u) = identifier"

definition is_locked :: "int \<Rightarrow> recruiter_user \<Rightarrow> bool" where
  "is_locked now u \<longleftrightarrow> (case ru_locked_until u of None \<Rightarrow> False | Some t \<Rightarrow> now < t)"

definition failed_login :: "int \<Rightarrow> recruiter_user \<Rightarrow> recruiter_user" where
  "failed_login now u =
    (if is_locked now u then u
     else if 5 \<le> ru_failed_attempts u + 1 then u\<lparr>ru_locked_until := Some (now + 900), ru_failed_attempts := 0\<rparr>
     else u\<lparr>ru_failed_attempts := ru_failed_attempts u + 1\<rparr>)"

text \<open>The account behind an identifier; two matching rows raise.\<close>

definition find_account :: "string \<Rightarrow> recruiter_user list \<Rightarrow> recruiter_user option result" where
  "find_account identifier users =
    (case filter (names_user identifier) users of
       [] \<Rightarrow> Inr None | [u] \<Rightarrow> Inr (Some u) | _ \<Rightarrow> Inl (OtherException ''MultipleResultsFound''))"

text \<open>The check of the password of a row, and what the row becomes; \<open>strip\<close> is \<open>str.strip\<close>.\<close>

definition check_login :: "crypto \<Rightarrow> int \<Rightarrow> string \<Rightarrow> recruiter_user \<Rightarrow> bool \<times> recruiter_user" where
  "check_login cr now password u =
    (if \<not> ru_is_active u \<or> is_locked now u \<or> \<not> cr_verify cr (ru_password_hash u) password
     then (False, failed_login now u)
     else (True, u\<lparr>ru_failed_attempts := 0, ru_locked_until := None\<rparr>))"

definition login ::
  "crypto \<Rightarrow> settings \<Rightarrow> (string \<Rightarrow> string) \<Rightarrow> (string \<Rightarrow> string \<times> string) \<Rightarrow> int \<Rightarrow> string \<Rightarrow> string \<Rightarrow> http_request \<Rightarrow> string \<Rightarrow> string \<Rightarrow>
   recruiter_user list \<Rightarrow> (recruiter_user \<times> string \<times> string) result \<times> recruiter_user list" where
  "login cr cfg strip split_url now jti csrf rq identifier password users =
    (case rbind (same_origin split_url rq) (\<lambda>_. find_account (lower (strip identifier)) users) of
       Inl e \<Rightarrow> (Inl e, users)
     | Inr None \<Rightarrow> (Inl (HTTPException 401 ''Invalid credentials''), users)
     | Inr (Some u) \<Rightarrow>
         (case check_login cr now password u of
            (False, v) \<Rightarrow> (Inl (HTTPException 401 ''Invalid credentials''), put_user v users)
          | (True, v) \<Rightarrow> (Inr (v, issue_access_token cr cfg now jti csrf v), put_user v users)))"

definition me :: "settings \<Rightarrow> principal \<Rightarrow> recruiter_user list \<Rightarrow> pydict result" where
  "me cfg p users =
    (if pr_id p = ''local'' \<and> lower (ENVIRONMENT cfg) \<noteq> ''production''
     then Inr [(''id'', JStr ''local''), (''email'', JStr []), (''username'', JStr ''Local development''), (''role'', JStr ''admin'')]
     else (case user_by_id (pr_id p) users of None \<Rightarrow> Inl unauthorized | Some u \<Rightarrow> Inr (public_user u)))"

definition logout ::
  "(string \<Rightarrow> string \<times> string) \<Rightarrow> http_request \<Rightarrow> principal \<Rightarrow> recruiter_user list \<Rightarrow> unit result \<times> recruiter_user list" where
  "logout split_url rq p users =
    (case same_origin split_url rq of
       Inl e \<Rightarrow> (Inl e, users)
     | Inr _ \<Rightarrow>
         (case user_by_id (pr_id p) users of
            None \<Rightarrow> (Inr (), users)
          | Some u \<Rightarrow> (Inr (), put_user (u\<lparr>ru_token_version := ru_token_version u + 1\<rparr>) users)))"

section \<open>Token versions only grow\<close>

definition versions_le :: "recruiter_user list \<Rightarrow> recruiter_user list \<Rightarrow> bool" where
  "versions_le us vs \<longleftrightarrow> (\<forall>i u. user_by_id i us = Some u \<longrightarrow>
     (\<exists>v. user_by_id i vs = Some v \<and> ru_token_version u \<le> ru_token_version v))"

text \<open>What requests do to the accounts: logins of anyone and logouts of principals, in any order.\<close>

inductive account_step :: "recruiter_user list \<Rightarrow> recruiter_user list \<Rightarrow> bool" where
  logs_in: "account_step us (snd (login cr cfg strip split_url now jti csrf rq identifier password us))"
| logs_out: "account_step us (snd (logout split_url rq p us))"

lemma find_put_user:
  assumes "user_by_id (ru_id v) us = Some u"
  shows "user_by_id i (put_user v us) = (if i = ru_id v then Some v else user_by_id i us)"
proof (cases "i = ru_id v")
  case False
  then have "find (\<lambda>u. ru_id u = i) (put_user v us) = find (\<lambda>u. ru_id u = i) us"
    unfolding put_user_def by (induction us) auto
  with False show ?thesis by (simp add: user_by_id_def)
next
  case True
  have "find (\<lambda>u. ru_id u = ru_id v) (put_user v us) = Some v"
    using assms unfolding put_user_def user_by_id_def by (induction us) (auto split: if_splits)
  with True show ?thesis by (simp add: user_by_id_def)
qed

lemma versions_put_user:
  assumes "user_by_id (ru_id v) us = Some u" "ru_token_version u \<le> ru_token_version v"
  shows "versions_le us (put_user v us)"
  using assms by (auto simp: versions_le_def find_put_user [OF assms(1)])

lemma versions_leD: "versions_le us vs \<Longrightarrow> user_by_id i us = Some u \<Longrightarrow>
    \<exists>v. user_by_id i vs = Some v \<and> ru_token_version u \<le> ru_token_version v"
  by (simp add: versions_le_def)

lemma versions_le_refl [simp]: "versions_le us us"
  by (simp add: versions_le_def)

lemma versions_le_trans: "versions_le us vs \<Longrightarrow> versions_le vs ws \<Longrightarrow> versions_le us ws"
  unfolding versions_le_def by (meson order_trans)

lemma check_login_keeps:
  "ru_id (snd (check_login cr now password u)) = ru_id u"
  "ru_token_version (snd (check_login cr now password u)) = ru_token_version u"
  by (simp_all add: check_login_def failed_login_def)

lemma find_account_mem: "find_account i us = Inr (Some u) \<Longrightarrow> u \<in> set us \<and> names_user i u"
  unfolding find_account_def
  by (auto split: list.splits dest: filter_eq_ConsD)

lemma user_by_id_mem: "u \<in> set us \<Longrightarrow> \<exists>w. user_by_id (ru_id u) us = Some w"
  by (simp add: user_by_id_def) (metis (mono_tags, lifting) find_None_iff not_Some_eq)

lemma user_by_id_distinct:
  "distinct (map ru_id us) \<Longrightarrow> u \<in> set us \<Longrightarrow> user_by_id (ru_id u) us = Some u"
  unfolding user_by_id_def by (induction us) auto

lemma map_put_user [simp]: "map ru_id (put_user v us) = map ru_id us"
  by (simp add: put_user_def update_where_def)

lemma account_step_ids: "account_step us vs \<Longrightarrow> map ru_id vs = map ru_id us"
  by (induction rule: account_step.induct)
     (simp_all add: login_def logout_def split: sum.splits option.splits prod.splits bool.splits)

lemma account_step_versions:
  assumes "account_step us vs" "distinct (map ru_id us)"
  shows "versions_le us vs"
  using assms(1)
proof cases
  case (logs_in cr cfg strip split_url now jti csrf rq ident password)
  have "versions_le us (put_user (snd (check_login cr now password u)) us)" if "find_account i us = Inr (Some u)" for i u
    by (rule versions_put_user [where u = u])
       (simp_all add: check_login_keeps user_by_id_distinct [OF assms(2) find_account_mem [OF that, THEN conjunct1]])
  then show ?thesis
    by (auto simp: logs_in login_def rbind_def split: sum.splits option.splits prod.splits bool.splits)
       (metis snd_conv)+
next
  case (logs_out split_url rq p)
  have "ru_id u = i" if "user_by_id i us = Some u" for i u
    using that by (auto simp: user_by_id_def find_Some_iff)
  then show ?thesis
    by (auto simp: logs_out logout_def intro!: versions_put_user split: sum.splits option.splits)
qed

lemma account_steps_versions:
  assumes "account_step\<^sup>*\<^sup>* us vs" "distinct (map ru_id us)"
  shows "versions_le us vs \<and> distinct (map ru_id vs)"
  using assms(1)
  by induction (use assms(2) account_step_ids account_step_versions versions_le_trans in \<open>fastforce+\<close>)

lemma outdated_token:
  assumes "cr_decode cr now token = Some claims" "dget claims ''sub'' JNull = JStr i" "dget claims ''ver'' JNull = JNum (of_int v)"
    "user_by_id i users = Some u" "v < ru_token_version u"
  shows "token_principal cr now rq users token = Inl unauthorized"
  using assms by (simp add: token_principal_def)

section \<open>The lockout\<close>

text \<open>The attempts at one account, and how many of them were made while it was not locked.\<close>

fun guesses :: "crypto \<Rightarrow> (int \<times> string) list \<Rightarrow> recruiter_user \<Rightarrow> nat" where
  "guesses cr [] u = 0"
| "guesses cr ((now, password) # attempts) u =
     (if is_locked now u then 0 else 1) + guesses cr attempts (snd (check_login cr now password u))"

definition wrong_attempts :: "crypto \<Rightarrow> recruiter_user \<Rightarrow> int \<Rightarrow> int \<Rightarrow> (int \<times> string) list \<Rightarrow> bool" where
  "wrong_attempts cr u t0 t1 attempts \<longleftrightarrow>
     list_all (\<lambda>(now, password). t0 \<le> now \<and> now < t1 \<and> \<not> cr_verify cr (ru_password_hash u) password) attempts"

lemma wrong_attempts_Cons:
  "wrong_attempts cr u t0 t1 ((now, password) # attempts) \<longleftrightarrow>
     t0 \<le> now \<and> now < t1 \<and> \<not> cr_verify cr (ru_password_hash u) password \<and> wrong_attempts cr u t0 t1 attempts"
  by (simp add: wrong_attempts_def)

lemma wrong_attempts_hash: "ru_password_hash v = ru_password_hash u \<Longrightarrow> wrong_attempts cr v = wrong_attempts cr u"
  by (intro ext) (simp add: wrong_attempts_def)

lemma locked_guesses:
  "ru_locked_until u = Some l \<Longrightarrow> t1 \<le> l \<Longrightarrow> wrong_attempts cr u t0 t1 attempts \<Longrightarrow> guesses cr attempts u = 0"
  by (induction attempts) (auto simp: wrong_attempts_Cons is_locked_def check_login_def failed_login_def)

lemma wrong_login:
  assumes "\<not> cr_verify cr (ru_password_hash u) password"
  shows "snd (check_login cr now password u) = failed_login now u"
  using assms by (simp add: check_login_def)

lemma guesses_bound:
  assumes "0 \<le> ru_failed_attempts u" "ru_failed_attempts u < 5" "wrong_attempts cr u t (t + 900) attempts"
  shows "int (guesses cr attempts u) \<le> 5 - ru_failed_attempts u"
  using assms
proof (induction attempts arbitrary: u)
  case (Cons a attempts)
  obtain now password where a: "a = (now, password)" by (cases a)
  note w = Cons.prems(3) [unfolded a wrong_attempts_Cons]
  consider (locked) "is_locked now u" | (locks) "\<not> is_locked now u" "5 \<le> ru_failed_attempts u + 1"
    | (counts) "\<not> is_locked now u" "ru_failed_attempts u + 1 < 5" by linarith
  then show ?case
  proof cases
    case locked
    then show ?thesis using Cons.IH [OF Cons.prems(1,2)] w by (simp add: a wrong_login failed_login_def)
  next
    case locks
    define v where "v = u\<lparr>ru_locked_until := Some (now + 900), ru_failed_attempts := 0\<rparr>"
    have "wrong_attempts cr v = wrong_attempts cr u" by (rule wrong_attempts_hash) (simp add: v_def)
    then have "guesses cr attempts v = 0"
      using w by (intro locked_guesses [where l = "now + 900" and ?t0.0 = t and ?t1.0 = "t + 900"]) (simp_all add: v_def)
    then show ?thesis using locks w Cons.prems(2) by (simp add: a wrong_login failed_login_def v_def)
  next
    case counts
    define v where "v = u\<lparr>ru_failed_attempts := ru_failed_attempts u + 1\<rparr>"
    have "wrong_attempts cr v = wrong_attempts cr u" by (rule wrong_attempts_hash) (simp add: v_def)
    then have "int (guesses cr attempts v) \<le> 5 - ru_failed_attempts v"
      using Cons.prems counts w by (intro Cons.IH) (simp_all add: v_def)
    then show ?thesis using counts w by (simp add: a wrong_login failed_login_def v_def)
  qed
qed simp

lemma failed_attempts_range:
  "0 \<le> ru_failed_attempts u \<Longrightarrow> ru_failed_attempts u < 5 \<Longrightarrow>
     0 \<le> ru_failed_attempts (snd (check_login cr now password u)) \<and> ru_failed_attempts (snd (check_login cr now password u)) < 5"
  by (simp add: check_login_def failed_login_def)

end
