(* ===== verification/Screening_Runs.thy ===== *)
theory Screening_Runs
  imports Run_Publication Leases Accounts
begin

text \<open>
  The life of a screening run: reservation and queueing by the endpoints (\<open>app/api/endpoints.py\<close>), its
  claim under a lease, execution and publication by a worker, and the recovery scan
  (\<open>app/workers/tasks.py\<close>). Encryption, PDF extraction and the validation of candidates are fields of
  the worker; a transaction that raises leaves the tables it found.
\<close>

section \<open>The worker's environment\<close>

record pdf_view =
  vw_status :: string
  vw_code :: string
  vw_text :: string
  vw_pages :: "source_page list"

record run_worker =
  rw_env :: screening_env
  rw_job :: "pydict \<Rightarrow> screening_job"
  rw_open :: "string \<Rightarrow> json result"
  rw_ingest :: "string \<Rightarrow> pdf_view result"
  rw_candidate :: "json \<Rightarrow> candidate_input result"
  rw_in_time :: bool

datatype run_error = NonRetryableRunError string | Raised py_exn

definition run_error_code :: "run_error \<Rightarrow> string" where
  "run_error_code e = (case e of
     NonRetryableRunError code \<Rightarrow> code
   | Raised x \<Rightarrow> if x = TimeoutError then ''RUN_TIMEOUT'' else ''WORKER_ERROR'')"

section \<open>Claim\<close>

definition claim_run :: "settings \<Rightarrow> int \<Rightarrow> string \<Rightarrow> string \<Rightarrow> audit_db \<Rightarrow> (string + screening_run) \<times> audit_db" where
  "claim_run cfg now owner i db =
    (case run_by_id i db of
       None \<Rightarrow> (Inl ''ALREADY_COMPLETE'', db)
     | Some r \<Rightarrow>
         if u_status r = R_COMPLETED then (Inl ''ALREADY_COMPLETE'', db)
         else if u_status r = R_RUNNING \<and> (case u_lease_until r of None \<Rightarrow> False | Some t \<Rightarrow> now < t)
         then (Inl ''ALREADY_RUNNING'', db)
         else if u_request r \<in> {None, Some []} then (Inl ''NOT_RUNNABLE'', db)
         else if RUN_MAX_ATTEMPTS cfg \<le> u_attempts r
         then (Inl ''ATTEMPTS_EXHAUSTED'', put_run (r\<lparr>u_status := R_FAILED, u_failure := Some ''ATTEMPTS_EXHAUSTED''\<rparr>) db)
         else let q = r\<lparr>u_status := R_RUNNING, u_attempts := u_attempts r + 1,
                u_lease_until := Some (now + RUN_TIMEOUT_SECONDS cfg + 35), u_lease_owner := Some owner, u_failure := None\<rparr>
           in (Inr q, put_run q db))"

section \<open>Execution\<close>

definition run_raise :: "'a result \<Rightarrow> run_error + 'a" where
  "run_raise r = (case r of Inl e \<Rightarrow> Inl (Raised e) | Inr x \<Rightarrow> Inr x)"

text \<open>The candidates of a request and, for a PDF, the pages of its document.\<close>

definition request_candidates ::
  "run_worker \<Rightarrow> pydict \<Rightarrow> run_error + (json list \<times> (string \<times> source_page list) list)" where
  "request_candidates w request =
    (let kind = dget request ''kind'' JNull in
     if kind = JStr ''text''
     then run_raise (rbind (dindex request ''encrypted_candidates'') (\<lambda>c. rbind (rw_open w (str_of c)) (\<lambda>cs. Inr (as_list cs, []))))
     else if kind = JStr ''pdf''
     then (case rbind (dindex request ''encrypted_pdf'') (\<lambda>c. rw_ingest w (str_of c)) of
         Inl e \<Rightarrow> Inl (Raised e)
       | Inr view \<Rightarrow>
           if vw_status view \<noteq> ''success'' then Inl (NonRetryableRunError (vw_code view))
           else run_raise (rbind (dindex request ''attributes'') (\<lambda>a.
             let candidate = dset ''raw_cv_text'' (JStr (vw_text view)) (as_dict a) in
             Inr ([JDict candidate], [(item_id candidate, vw_pages view)]))))
     else run_raise (rbind (dindex request ''candidates'') (\<lambda>cs. Inr (as_list cs, []))))"

definition run_analysis :: "run_worker \<Rightarrow> screening_run \<Rightarrow> run_error + (screening_result \<times> string list)" where
  "run_analysis w r =
    (case request_candidates w (case u_request r of None \<Rightarrow> [] | Some d \<Rightarrow> d) of
       Inl e \<Rightarrow> Inl e
     | Inr (raw, views) \<Rightarrow> run_raise (
         if \<not> rw_in_time w then Inl TimeoutError
         else rbind (dindex (u_policy r) ''stage2_cutoff'') (\<lambda>cutoff. rbind (rmap (rw_candidate w) raw) (\<lambda>cands.
           rbind (run_end_to_end_screening_pipeline (rw_env w) (rw_job w (u_job_snapshot r))
               (dget (u_job_snapshot r) ''hard_filter_rules'' JNull) \<lfloor>num_of cutoff\<rfloor> views cands)
             (\<lambda>res. Inr (res, map (\<lambda>c. item_id (as_dict c)) raw))))))"

definition nat_json :: "nat \<Rightarrow> json" where
  "nat_json n = JNum (of_nat n)"

definition metrics_dump :: "metrics \<Rightarrow> pydict" where
  "metrics_dump m =
    [(''total_input_candidates'', nat_json (mt_total_input m)), (''stage0_processed'', nat_json (mt_stage0_processed m)),
     (''stage1_passed'', nat_json (mt_stage1_passed m)), (''stage1_rejected'', nat_json (mt_stage1_rejected m)),
     (''stage1_review_required'', nat_json (mt_stage1_review m)), (''stage1_failed'', nat_json (mt_stage1_failed m)),
     (''stage2_shortlisted'', nat_json (mt_stage2_shortlisted m)), (''stage3_evaluated'', nat_json (mt_stage3_evaluated m)),
     (''stage3_succeeded'', nat_json (mt_stage3_succeeded m)), (''stage3_review_required'', nat_json (mt_stage3_review m)),
     (''stage3_failed'', nat_json (mt_stage3_failed m)), (''stage0_failed'', nat_json (mt_stage0_failed m)),
     (''stage0_review_required'', nat_json (mt_stage0_review m)), (''stage2_failed'', nat_json (mt_stage2_failed m)),
     (''stage2_review_required'', nat_json (mt_stage2_review m)), (''stage2_excluded'', nat_json (mt_stage2_excluded m)),
     (''accounted_candidates'', nat_json (mt_accounted m))]"

definition dict_list :: "pydict list \<Rightarrow> json" where
  "dict_list ds = JList (map JDict ds)"

definition screening_response :: "screening_run \<Rightarrow> screening_result \<Rightarrow> pydict result" where
  "screening_response r res =
    (case u_key r of
       None \<Rightarrow> Inl (ValueError ''idempotency_key'')
     | Some key \<Rightarrow> Inr [(''run_id'', JStr (u_id r)), (''idempotency_key'', JStr key), (''job_id'', JStr (u_job r)),
         (''metrics'', JDict (metrics_dump (sr_metrics res))), (''leaderboard'', dict_list (sr_leaderboard res)),
         (''rejected_candidates'', dict_list (sr_rejected res)), (''review_candidates'', dict_list (sr_review res)),
         (''failed_candidates'', dict_list (sr_failed res))])"

definition publish_run ::
  "string \<Rightarrow> string \<Rightarrow> screening_result \<Rightarrow> string list \<Rightarrow> audit_db \<Rightarrow> (run_error + string) \<times> audit_db" where
  "publish_run owner i res ids db =
    (case run_by_id i db of
       None \<Rightarrow> (Inl (Raised NoResultFound), db)
     | Some r \<Rightarrow>
         if u_status r = R_COMPLETED then (Inr ''ALREADY_COMPLETE'', db)
         else if u_status r \<noteq> R_RUNNING \<or> u_lease_owner r \<noteq> Some owner then (Inr ''LEASE_LOST'', db)
         else (case rbind (screening_response r res) (\<lambda>response.
                 complete_run r res ids response
                   (put_run (r\<lparr>u_request := None, u_lease_until := None, u_lease_owner := None\<rparr>) db)) of
             Inl e \<Rightarrow> (Inl (Raised e), db)
           | Inr db1 \<Rightarrow> (Inr ''COMPLETED'', db1)))"

definition fail_run :: "string \<Rightarrow> run_error \<Rightarrow> string \<Rightarrow> audit_db \<Rightarrow> audit_db" where
  "fail_run owner e i db =
    (case run_by_id i db of
       None \<Rightarrow> db
     | Some r \<Rightarrow>
         if u_status r \<noteq> R_COMPLETED \<and> u_lease_owner r = Some owner
         then put_run (r\<lparr>u_status := R_FAILED, u_failure := Some (run_error_code e),
           u_request := (case e of NonRetryableRunError _ \<Rightarrow> None | Raised _ \<Rightarrow> u_request r),
           u_lease_until := None, u_lease_owner := None\<rparr>) db
         else db)"

text \<open>The task; \<open>race n\<close> is what other sessions commit before its n-th later transaction.\<close>

definition execute_run ::
  "settings \<Rightarrow> run_worker \<Rightarrow> (nat \<Rightarrow> audit_db \<Rightarrow> audit_db) \<Rightarrow> int \<Rightarrow> string \<Rightarrow> string \<Rightarrow> audit_db \<Rightarrow> (run_error + string) \<times> audit_db" where
  "execute_run cfg w race now owner i db =
    (case claim_run cfg now owner i db of
       (Inl code, db1) \<Rightarrow> (Inr code, db1)
     | (Inr r, db1) \<Rightarrow>
         (case (case run_analysis w r of
                  Inl e \<Rightarrow> (Inl e, db1)
                | Inr (res, ids) \<Rightarrow> publish_run owner i res ids (race 0 db1)) of
            (Inr code, db2) \<Rightarrow> (Inr code, db2)
          | (Inl e, db2) \<Rightarrow> (Inl e, fail_run owner e i (race 1 db2))))"

definition retryable :: "run_error \<Rightarrow> bool" where
  "retryable e \<longleftrightarrow> e \<in> {Raised TimeoutError, Raised OperationalError, Raised (OtherException ''httpx.TimeoutException''),
     Raised (OtherException ''httpx.TransportError''), Raised (OtherException ''ConnectionError'')}"

datatype task_result = Task_Done string | Task_Failed run_error | Task_Retry nat

definition screening_task :: "settings \<Rightarrow> nat \<Rightarrow> run_error + string \<Rightarrow> task_result" where
  "screening_task cfg retries r =
    (case r of
       Inr code \<Rightarrow> Task_Done code
     | Inl e \<Rightarrow> if \<not> retryable e \<or> RUN_MAX_ATTEMPTS cfg - 1 \<le> int retries then Task_Failed e
                else Task_Retry (min 60 (2 ^ (retries + 1))))"

section \<open>Recovery\<close>

definition lease_passed :: "int \<Rightarrow> screening_run \<Rightarrow> bool" where
  "lease_passed now r \<longleftrightarrow> (case u_lease_until r of None \<Rightarrow> False | Some t \<Rightarrow> t < now)"

definition interrupted :: "settings \<Rightarrow> int \<Rightarrow> screening_run \<Rightarrow> bool" where
  "interrupted cfg now r \<longleftrightarrow> u_status r = R_RUNNING \<and> lease_passed now r \<and> RUN_MAX_ATTEMPTS cfg \<le> u_attempts r"

definition recoverable :: "settings \<Rightarrow> int \<Rightarrow> screening_run \<Rightarrow> bool" where
  "recoverable cfg now r \<longleftrightarrow> u_request r \<noteq> None \<and> u_attempts r < RUN_MAX_ATTEMPTS cfg \<and>
     u_status r \<in> {R_QUEUED, R_RUNNING} \<and> lease_passed now r"

definition interrupt_runs :: "settings \<Rightarrow> int \<Rightarrow> audit_db \<Rightarrow> audit_db" where
  "interrupt_runs cfg now db = db\<lparr>au_runs := update_where (interrupted cfg now)
     (\<lambda>r. r\<lparr>u_status := R_FAILED, u_failure := Some ''WORKER_INTERRUPTED'', u_lease_owner := None, u_lease_until := None\<rparr>)
     (au_runs db)\<rparr>"

definition find_recoverable_runs :: "settings \<Rightarrow> int \<Rightarrow> audit_db \<Rightarrow> string list \<times> audit_db" where
  "find_recoverable_runs cfg now db0 =
    (let db = interrupt_runs cfg now db0; rows = filter (recoverable cfg now) (au_runs db) in
     (map u_id rows,
      db\<lparr>au_runs := update_where (\<lambda>r. recoverable cfg now r \<and> u_status r = R_QUEUED)
        (\<lambda>r. r\<lparr>u_lease_until := Some (now + QUEUE_RECOVERY_SECONDS cfg)\<rparr>) (au_runs db)\<rparr>))"

section \<open>Endpoints\<close>

record approved_jd =
  ap_id :: string
  ap_owner :: string
  ap_profile :: pydict

record screening_request =
  sq_job_profile :: "pydict option"
  sq_approved_jd_id :: "string option"
  sq_candidates :: "json list"
  sq_cutoff :: int
  sq_key :: "string option"

text \<open>What the endpoints call: the canonical hash, encryption, the identifier of a new run, the broker.\<close>

record run_api =
  ra_cfg :: settings
  ra_hash :: "json \<Rightarrow> string"
  ra_encrypt :: "json \<Rightarrow> string result"
  ra_policy :: "int \<Rightarrow> pydict"
  ra_run_id :: string
  ra_race :: "audit_db \<Rightarrow> audit_db"
  ra_broker_up :: bool

definition is_production :: "settings \<Rightarrow> bool" where
  "is_production cfg \<longleftrightarrow> lower (ENVIRONMENT cfg) = ''production''"

definition resolve_approved_profile ::
  "settings \<Rightarrow> approved_jd list \<Rightarrow> principal \<Rightarrow> screening_request \<Rightarrow> screening_request result" where
  "resolve_approved_profile cfg approved p q =
    (if nonempty (sq_approved_jd_id q)
     then (case find (\<lambda>a. Some (ap_id a) = sq_approved_jd_id q) approved of
         None \<Rightarrow> Inl (HTTPException 404 ''Approved JD not found'')
       | Some a \<Rightarrow> if ap_owner a \<noteq> pr_id p then Inl (HTTPException 404 ''Approved JD not found'')
                   else Inr (q\<lparr>sq_job_profile := Some (ap_profile a)\<rparr>))
     else if is_production cfg then Inl (HTTPException 422 ''Screening requires an approved_jd_id'')
     else Inr q)"

definition run_status_value :: "run_status \<Rightarrow> string" where
  "run_status_value st = (case st of R_QUEUED \<Rightarrow> ''QUEUED'' | R_RUNNING \<Rightarrow> ''RUNNING'' | R_FAILED \<Rightarrow> ''FAILED''
     | R_COMPLETED \<Rightarrow> ''COMPLETED'')"

definition run_link :: "screening_run \<Rightarrow> pydict" where
  "run_link r = [(''run_id'', JStr (u_id r)), (''status'', JStr (run_status_value (u_status r))),
     (''result_url'', JStr (''/api/v1/screening/runs/'' @ u_id r))]"

definition queued_run :: "settings \<Rightarrow> int \<Rightarrow> pydict \<Rightarrow> screening_run \<Rightarrow> screening_run" where
  "queued_run cfg now request r = r\<lparr>u_request := Some request, u_status := R_QUEUED,
     u_lease_until := Some (now + QUEUE_RECOVERY_SECONDS cfg), u_failure := None\<rparr>"

text \<open>From the reservation to the answer; the last component lists the messages sent to the broker.\<close>

definition queue_reserved ::
  "run_api \<Rightarrow> int \<Rightarrow> pydict \<Rightarrow> (reservation \<times> screening_run) result \<times> audit_db \<Rightarrow> pydict result \<times> audit_db \<times> string list" where
  "queue_reserved api now request reserved =
    (case reserved of
       (Inl e, db) \<Rightarrow> (Inl e, db, [])
     | (Inr (CONFLICT, r), db) \<Rightarrow> (Inl (HTTPException 409 ''Idempotency key belongs to a different request''), db, [])
     | (Inr (REPLAY, r), db) \<Rightarrow> (Inr (run_link r), db, [])
     | (Inr (IN_PROGRESS, r), db) \<Rightarrow> (Inr (run_link r), db, [])
     | (Inr (RESERVED, r), db) \<Rightarrow>
         (let q = queued_run (ra_cfg api) now request r in
          if ra_broker_up api then (Inr (run_link q), put_run q db, [u_id q])
          else (Inl (HTTPException 503 ''QUEUE_UNAVAILABLE''),
            put_run (q\<lparr>u_status := R_FAILED, u_failure := Some ''QUEUE_UNAVAILABLE''\<rparr>) db, [])))"

definition reserve_request ::
  "run_api \<Rightarrow> int \<Rightarrow> principal \<Rightarrow> string option \<Rightarrow> json \<Rightarrow> pydict \<Rightarrow> pydict \<Rightarrow> pydict list \<Rightarrow> audit_db \<Rightarrow>
   (reservation \<times> screening_run) result \<times> audit_db" where
  "reserve_request api now p key digested job policy candidates db =
    (let digest = ra_hash api digested in
     reserve_run (ra_hash api) (ra_race api) now (ra_run_id api) (pr_id p) (pr_role p = ''admin'')
       (if nonempty key then key else Some digest) digest job policy candidates db)"

definition submit_screening ::
  "run_api \<Rightarrow> approved_jd list \<Rightarrow> int \<Rightarrow> principal \<Rightarrow> screening_request \<Rightarrow> audit_db \<Rightarrow> pydict result \<times> audit_db \<times> string list" where
  "submit_screening api approved now p q0 db =
    (if is_production (ra_cfg api) then (Inl (HTTPException 404 ''Text screening is available only for internal use''), db, [])
     else if sq_candidates q0 = [] then (Inl (HTTPException 400 ''Candidate list cannot be empty''), db, [])
     else case resolve_approved_profile (ra_cfg api) approved p q0 of
       Inl e \<Rightarrow> (Inl e, db, [])
     | Inr q \<Rightarrow>
         (case ra_encrypt api (JList (sq_candidates q)) of
            Inl _ \<Rightarrow> (Inl (HTTPException 503 ''ENCRYPTION_NOT_CONFIGURED''), db, [])
          | Inr cipher \<Rightarrow>
              let job = (case sq_job_profile q of None \<Rightarrow> [] | Some j \<Rightarrow> j); policy = ra_policy api (sq_cutoff q) in
              queue_reserved api now [(''kind'', JStr ''text''), (''encrypted_candidates'', JStr cipher)]
                (reserve_request api now p (sq_key q)
                  (JDict [(''job'', JDict job), (''candidates'', JList (sq_candidates q)), (''policy'', JDict policy)])
                  job policy (map as_dict (sq_candidates q)) db)))"

text \<open>A PDF request: \<open>b64\<close> decodes the upload, \<open>attributes\<close> are the dumped fields of the candidate.\<close>

record pdf_request =
  pq_request :: screening_request
  pq_candidate :: string
  pq_attributes :: pydict
  pq_base64 :: string

definition submit_pdf ::
  "run_api \<Rightarrow> (string \<Rightarrow> string option) \<Rightarrow> (string \<Rightarrow> string) \<Rightarrow> approved_jd list \<Rightarrow> int \<Rightarrow> principal \<Rightarrow> pdf_request \<Rightarrow> audit_db \<Rightarrow>
   pydict result \<times> audit_db \<times> string list" where
  "submit_pdf api b64 digest_of approved now p x db =
    (let limit = PDF_MAX_BYTES (ra_cfg api); stop = (\<lambda>code detail. (Inl (HTTPException code detail), db, [])) in
     case resolve_approved_profile (ra_cfg api) approved p (pq_request x) of
       Inl e \<Rightarrow> (Inl e, db, [])
     | Inr q \<Rightarrow>
         if (limit + 2) div 3 * 4 < int (length (pq_base64 x)) then stop 413 ''PDF_TOO_LARGE''
         else case b64 (pq_base64 x) of
           None \<Rightarrow> stop 422 ''INVALID_PDF_ENCODING''
         | Some pdf \<Rightarrow>
             if limit < int (length pdf) then stop 413 ''PDF_TOO_LARGE''
             else case ra_encrypt api (JStr pdf) of
               Inl _ \<Rightarrow> stop 503 ''ENCRYPTION_NOT_CONFIGURED''
             | Inr cipher \<Rightarrow>
                 let job = (case sq_job_profile q of None \<Rightarrow> [] | Some j \<Rightarrow> j); policy = ra_policy api (sq_cutoff q) in
                 queue_reserved api now
                   [(''kind'', JStr ''pdf''), (''encrypted_pdf'', JStr cipher), (''attributes'', JDict (pq_attributes x))]
                   (reserve_request api now p (sq_key q)
                     (JDict [(''job'', JDict job), (''attributes'', JDict (pq_attributes x)),
                        (''pdf_sha256'', JStr (digest_of pdf)), (''policy'', JDict policy)])
                     job policy [[(''candidate_id'', JStr (pq_candidate x)), (''pdf_sha256'', JStr (digest_of pdf))]] db))"

definition get_screening_run :: "principal \<Rightarrow> string \<Rightarrow> audit_db \<Rightarrow> pydict result" where
  "get_screening_run p i db =
    (case run_by_id i db of
       None \<Rightarrow> Inl (HTTPException 404 ''Run not found'')
     | Some r \<Rightarrow>
         if \<not> can_access (u_owner r) p then Inl (HTTPException 404 ''Run not found'')
         else Inr [(''run_id'', JStr (u_id r)), (''status'', JStr (run_status_value (u_status r))),
           (''attempt_count'', JNum (of_int (u_attempts r))), (''failure_code'', opt_str (u_failure r)),
           (''result'', case u_response r of None \<Rightarrow> JNull | Some d \<Rightarrow> JDict d)])"

text \<open>A run that the request itself executes has no lease: it stores its result or marks the run as failed.\<close>

definition publish_or_fail ::
  "screening_run \<Rightarrow> (screening_result \<times> string list \<times> pydict) result \<Rightarrow> audit_db \<Rightarrow> pydict result \<times> audit_db" where
  "publish_or_fail r outcome db =
    (case rbind outcome (\<lambda>(res, ids, response). rbind (complete_run r res ids response db) (\<lambda>db1. Inr (response, db1))) of
       Inr (response, db1) \<Rightarrow> (Inr response, db1)
     | Inl e \<Rightarrow> (Inl e, db\<lparr>au_runs := update_where (\<lambda>q. u_id q = u_id r) (\<lambda>q. q\<lparr>u_status := R_FAILED\<rparr>) (au_runs db)\<rparr>))"

text \<open>Reservation and publication in one request; \<open>between\<close> is what other sessions commit meanwhile.\<close>

definition run_reserved ::
  "(audit_db \<Rightarrow> audit_db) \<Rightarrow> (screening_run \<Rightarrow> (screening_result \<times> string list \<times> pydict) result) \<Rightarrow>
   (reservation \<times> screening_run) result \<times> audit_db \<Rightarrow> pydict result \<times> audit_db" where
  "run_reserved between work reserved =
    (case reserved of
       (Inl e, db) \<Rightarrow> (Inl e, db)
     | (Inr (CONFLICT, r), db) \<Rightarrow> (Inl (HTTPException 409 ''Idempotency key belongs to a different request''), db)
     | (Inr (IN_PROGRESS, r), db) \<Rightarrow> (Inl (HTTPException 409 ''Screening run is in progress''), db)
     | (Inr (REPLAY, r), db) \<Rightarrow> (Inr (case u_response r of None \<Rightarrow> [] | Some d \<Rightarrow> d), db)
     | (Inr (RESERVED, r), db) \<Rightarrow> publish_or_fail r (work r) (between db))"

definition run_screening ::
  "run_api \<Rightarrow> run_worker \<Rightarrow> (audit_db \<Rightarrow> audit_db) \<Rightarrow> approved_jd list \<Rightarrow> (string \<times> source_page list) list \<Rightarrow> int \<Rightarrow> principal \<Rightarrow>
   screening_request \<Rightarrow> audit_db \<Rightarrow> pydict result \<times> audit_db" where
  "run_screening api w between approved views now p q0 db =
    (case resolve_approved_profile (ra_cfg api) approved p q0 of
       Inl e \<Rightarrow> (Inl e, db)
     | Inr q \<Rightarrow>
         if sq_candidates q = [] then (Inl (HTTPException 400 ''Candidate list cannot be empty.''), db)
         else let job = (case sq_job_profile q of None \<Rightarrow> [] | Some j \<Rightarrow> j); policy = ra_policy api (sq_cutoff q) in
           run_reserved between
             (\<lambda>r. rbind (rmap (rw_candidate w) (sq_candidates q)) (\<lambda>cands.
               rbind (run_end_to_end_screening_pipeline (rw_env w) (rw_job w job) (dget job ''hard_filter_rules'' JNull)
                   (sq_cutoff q) views cands) (\<lambda>res.
               rbind (screening_response r res) (\<lambda>response.
                 Inr (res, map (\<lambda>c. item_id (as_dict c)) (sq_candidates q), response)))))
             (reserve_request api now p (sq_key q)
               (JDict [(''job'', JDict job), (''candidates'', JList (sq_candidates q)), (''policy'', JDict policy)])
               job policy (map as_dict (sq_candidates q)) db))"

text \<open>A document that could not be read is a finished run as well; the code of the event is kept as its details.\<close>

definition pdf_failure_item :: "string \<Rightarrow> string \<Rightarrow> bool \<Rightarrow> pydict" where
  "pdf_failure_item cand code review = [(''candidate_id'', JStr cand), (''stage'', JStr ''STAGE0''),
     (''evaluation_status'', JStr (if review then ''REVIEW_REQUIRED'' else ''EXTRACTION_FAILED'')), (''reason'', JStr code)]"

definition pdf_failure_result :: "string \<Rightarrow> string \<Rightarrow> string \<Rightarrow> bool \<Rightarrow> screening_result" where
  "pdf_failure_result cand pdf_hash code review =
    (let item = pdf_failure_item cand code review in
     \<lparr>sr_metrics = (no_metrics 1)\<lparr>mt_stage0_failed := of_bool (\<not> review), mt_stage0_review := of_bool review, mt_accounted := 1\<rparr>,
      sr_leaderboard = [], sr_rejected = [], sr_review = (if review then [item] else []),
      sr_failed = (if review then [] else [item]),
      sr_outcomes = [\<lparr>x_id = cand, x_input = [(''candidate_id'', JStr cand), (''pdf_sha256'', JStr pdf_hash)],
        x_history = [\<lparr>evt_stage = ''STAGE0'', evt_status = ''FAILED'', evt_details = Some [(''code'', JStr code)]\<rparr>],
        x_evidence = None, x_outcome = Some (if review then ''REVIEW_REQUIRED'' else ''EXTRACTION_FAILED''),
        x_stage = Some ''STAGE0'', x_result = item\<rparr>]\<rparr>)"

definition record_pdf_failure ::
  "run_api \<Rightarrow> (audit_db \<Rightarrow> audit_db) \<Rightarrow> int \<Rightarrow> principal \<Rightarrow> screening_request \<Rightarrow> string \<Rightarrow> string \<Rightarrow> string \<Rightarrow> string \<Rightarrow> audit_db \<Rightarrow>
   pydict result \<times> audit_db" where
  "record_pdf_failure api between now p q cand pdf_hash code outcome_status db =
    (let job = (case sq_job_profile q of None \<Rightarrow> [] | Some j \<Rightarrow> j); policy = ra_policy api (sq_cutoff q);
         review = (outcome_status = ''review'') in
     run_reserved between
       (\<lambda>r. Inr (pdf_failure_result cand pdf_hash code review, [cand],
         [(''status'', JStr outcome_status), (''code'', JStr code), (''candidate_id'', JStr cand), (''run_id'', JStr (u_id r)),
          (''idempotency_key'', opt_str (u_key r))]))
       (reserve_request api now p (sq_key q)
         (JDict [(''job'', JDict job), (''candidate_id'', JStr cand), (''pdf_sha256'', JStr pdf_hash), (''policy'', JDict policy)])
         job policy [[(''candidate_id'', JStr cand), (''pdf_sha256'', JStr pdf_hash)]] db))"

text \<open>The synchronous PDF endpoint of the development deployment.\<close>

definition run_pdf_screening ::
  "run_api \<Rightarrow> run_worker \<Rightarrow> (audit_db \<Rightarrow> audit_db) \<Rightarrow> (string \<Rightarrow> string option) \<Rightarrow> (string \<Rightarrow> string) \<Rightarrow> (string \<Rightarrow> pdf_view) \<Rightarrow>
   approved_jd list \<Rightarrow> int \<Rightarrow> principal \<Rightarrow> pdf_request \<Rightarrow> audit_db \<Rightarrow> pydict result \<times> audit_db" where
  "run_pdf_screening api w between b64 digest_of ingest approved now p x db =
    (case resolve_approved_profile (ra_cfg api) approved p (pq_request x) of
       Inl e \<Rightarrow> (Inl e, db)
     | Inr q \<Rightarrow>
         let failed = (\<lambda>code status. record_pdf_failure api between now p q (pq_candidate x) (digest_of (pq_base64 x)) code status db) in
         if (PDF_MAX_BYTES (ra_cfg api) + 2) div 3 * 4 < int (length (pq_base64 x)) then failed ''PDF_TOO_LARGE'' ''failure''
         else case b64 (pq_base64 x) of
           None \<Rightarrow> failed ''INVALID_PDF_ENCODING'' ''failure''
         | Some pdf \<Rightarrow>
             let view = ingest pdf in
             if vw_status view \<noteq> ''success'' then failed (vw_code view) (vw_status view)
             else
               let candidate = dset ''raw_cv_text'' (JStr (vw_text view)) (pq_attributes x) in
               (case run_screening api w between approved [(pq_candidate x, vw_pages view)] now p
                   (q\<lparr>sq_candidates := [JDict candidate], sq_approved_jd_id := None\<rparr>) db of
                  (Inl e, db1) \<Rightarrow> (Inl e, db1)
                | (Inr response, db1) \<Rightarrow> (Inr [(''status'', JStr ''success''), (''code'', JStr ''OK''), (''screening'', JDict response)], db1)))"

text \<open>The upload stops at the first chunk that would exceed the limit.\<close>

fun receive_pdf :: "nat \<Rightarrow> string \<Rightarrow> string list \<Rightarrow> string option" where
  "receive_pdf limit data [] = Some data"
| "receive_pdf limit data (chunk # chunks) =
     (if limit < length data + length chunk then None else receive_pdf limit (data @ chunk) chunks)"

text \<open>Status, code and pages of the answer.\<close>

definition ingest_pdf_upload ::
  "settings \<Rightarrow> (string \<Rightarrow> pdf_view) \<Rightarrow> string \<Rightarrow> string list \<Rightarrow> string \<times> string \<times> source_page list" where
  "ingest_pdf_upload cfg ingest content_type chunks =
    (if lower (hd (split_char CHR '';'' content_type)) \<noteq> ''application/pdf'' then (''failure'', ''INVALID_CONTENT_TYPE'', [])
     else case receive_pdf (nat (PDF_MAX_BYTES cfg)) [] chunks of
       None \<Rightarrow> (''failure'', ''PDF_TOO_LARGE'', [])
     | Some data \<Rightarrow> let view = ingest data in
         (vw_status view, vw_code view, if vw_status view = ''success'' then vw_pages view else []))"

end
