(* ===== verification/Run_Lifecycle.thy ===== *)
theory Run_Lifecycle
  imports Screening_Runs
begin

text \<open>
  The life of a run: workers publish under the same lease contract as the campaign tasks, a published
  run is final, the recovery scan returns runs that can be claimed, and a queued run that is executed
  without interference is published.
\<close>

section \<open>Rows of the run table\<close>

lemma run_by_id_D: "run_by_id i db = Some r \<Longrightarrow> r \<in> set (au_runs db) \<and> u_id r = i"
  by (auto simp: run_by_id_def dest: find_SomeD)

lemma run_by_key_D: "run_by_key key db = Some r \<Longrightarrow> r \<in> set (au_runs db)"
  by (auto simp: run_by_key_def dest: find_SomeD split: if_splits)

lemma run_by_id_same: "au_runs db' = au_runs db \<Longrightarrow> run_by_id i db' = run_by_id i db"
  by (simp add: run_by_id_def)

lemma run_by_id_update:
  assumes "\<And>q. q \<in> set (au_runs db) \<Longrightarrow> P q \<Longrightarrow> u_id (f q) = u_id q"
  shows "run_by_id i (db\<lparr>au_runs := update_where P f (au_runs db)\<rparr>) =
    map_option (\<lambda>q. if P q then f q else q) (run_by_id i db)"
  unfolding run_by_id_def using find_update_where [where k = u_id and xs = "au_runs db" and P = P and f = f] assms by simp

lemma run_by_id_put: "run_by_id i (put_run r db) = map_option (\<lambda>q. if u_id q = u_id r then r else q) (run_by_id i db)"
  unfolding put_run_def by (subst run_by_id_update) simp_all

lemma put_run_other: "run_by_id i db = Some q \<Longrightarrow> i \<noteq> u_id r \<Longrightarrow> run_by_id i (put_run r db) = Some q"
  by (auto simp: run_by_id_put dest: run_by_id_D)

lemma put_run_simps [simp]:
  "au_outcomes (put_run r db) = au_outcomes db" "au_evaluations (put_run r db) = au_evaluations db"
  "map u_id (au_runs (put_run r db)) = map u_id (au_runs db)"
  by (simp_all add: put_run_def update_where_def)

lemma run_in_unique: "distinct (map u_id (au_runs db)) \<Longrightarrow> r \<in> set (au_runs db) \<Longrightarrow> run_by_id (u_id r) db = Some r"
  unfolding run_by_id_def using find_distinct by metis

section \<open>Publication under a lease\<close>

lemma finalize_outcome_frame:
  assumes "finalize_outcome run item db = Inr db'"
  shows "au_runs db' = au_runs db \<and>
    filter (\<lambda>o'. co_run o' \<noteq> u_id run) (au_outcomes db') = filter (\<lambda>o'. co_run o' \<noteq> u_id run) (au_outcomes db) \<and>
    filter (\<lambda>e. es_run e \<noteq> u_id run) (au_evaluations db') = filter (\<lambda>e. es_run e \<noteq> u_id run) (au_evaluations db)"
proof -
  have other: "filter (\<lambda>o'. co_run o' \<noteq> u_id run)
      (update_where (\<lambda>o'. co_run o' = u_id run \<and> co_candidate o' = i) (final_outcome run item) rows) =
      filter (\<lambda>o'. co_run o' \<noteq> u_id run) rows" for rows i
    by (induction rows) auto
  have ev: "evaluation_of run item = Inr ev \<Longrightarrow> es_run ev = u_id run" for ev
    by (auto simp: evaluation_of_def Let_def rbind_Inr_conv)
  show ?thesis
    using assms by (auto simp: finalize_outcome_def Let_def other rbind_Inr_conv ev split: option.splits if_splits)
qed

lemma finalize_outcomes_frame:
  assumes "finalize_outcomes run items db = Inr db'"
  shows "au_runs db' = au_runs db \<and>
    filter (\<lambda>o'. co_run o' \<noteq> u_id run) (au_outcomes db') = filter (\<lambda>o'. co_run o' \<noteq> u_id run) (au_outcomes db) \<and>
    filter (\<lambda>e. es_run e \<noteq> u_id run) (au_evaluations db') = filter (\<lambda>e. es_run e \<noteq> u_id run) (au_evaluations db)"
  using assms
proof (induction items arbitrary: db)
  case (Cons item items)
  then obtain db1 where "finalize_outcome run item db = Inr db1" "finalize_outcomes run items db1 = Inr db'"
    by (auto simp: rbind_Inr_conv)
  then show ?case using Cons.IH finalize_outcome_frame by simp
qed simp

lemma complete_run_frame:
  assumes "complete_run run res ids response db = Inr db'"
  shows "au_runs db' = update_where (\<lambda>q. u_id q = u_id run)
      (\<lambda>q. q\<lparr>u_metrics := Some (sr_metrics res), u_response := Some response, u_status := R_COMPLETED\<rparr>) (au_runs db)"
    "filter (\<lambda>o'. co_run o' \<noteq> u_id run) (au_outcomes db') = filter (\<lambda>o'. co_run o' \<noteq> u_id run) (au_outcomes db)"
    "filter (\<lambda>e. es_run e \<noteq> u_id run) (au_evaluations db') = filter (\<lambda>e. es_run e \<noteq> u_id run) (au_evaluations db)"
  using assms by (auto simp: complete_run_def rbind_Inr_conv dest!: finalize_outcomes_frame)

lemma complete_run_status:
  assumes "complete_run run res ids response db = Inr db'"
  shows "run_by_id i db' = map_option (\<lambda>q. if u_id q = u_id run
    then q\<lparr>u_metrics := Some (sr_metrics res), u_response := Some response, u_status := R_COMPLETED\<rparr> else q) (run_by_id i db)"
proof -
  let ?f = "\<lambda>q. q\<lparr>u_metrics := Some (sr_metrics res), u_response := Some response, u_status := R_COMPLETED\<rparr>"
  have "run_by_id i db' = run_by_id i (db\<lparr>au_runs := update_where (\<lambda>q. u_id q = u_id run) ?f (au_runs db)\<rparr>)"
    by (rule run_by_id_same) (simp add: complete_run_frame(1) [OF assms])
  then show ?thesis by (subst (asm) run_by_id_update) simp_all
qed

definition run_holds :: "string \<Rightarrow> string \<Rightarrow> audit_db \<Rightarrow> bool" where
  "run_holds i token db = (case run_by_id i db of None \<Rightarrow> False
     | Some r \<Rightarrow> u_status r \<noteq> R_COMPLETED \<and> u_lease_owner r = Some token)"

text \<open>What the worker of a run delivers.\<close>

datatype run_message = Run_Result screening_result "string list" | Run_Failure run_error

fun settle_run :: "string \<Rightarrow> string \<Rightarrow> run_message \<Rightarrow> audit_db \<Rightarrow> audit_db" where
  "settle_run i token (Run_Result res ids) db = snd (publish_run token i res ids db)"
| "settle_run i token (Run_Failure e) db = fail_run token e i db"

lemma publish_run_cases:
  assumes "publish_run owner i res ids db = (x, db')"
  obtains (kept) "db' = db"
    | (published) r response where "run_by_id i db = Some r" "u_status r = R_RUNNING" "u_lease_owner r = Some owner"
        "screening_response r res = Inr response" "x = Inr ''COMPLETED''"
        "complete_run r res ids response (put_run (r\<lparr>u_request := None, u_lease_until := None, u_lease_owner := None\<rparr>) db) = Inr db'"
  using assms by (auto simp: publish_run_def rbind_Inr_conv split: option.splits if_splits sum.splits)

lemma publish_run_status:
  assumes "publish_run owner i res ids db = (x, db')" "db' \<noteq> db"
  shows "\<exists>r response. run_by_id i db' = Some r \<and> u_status r = R_COMPLETED \<and> u_response r = Some response"
  using assms(1)
proof (cases rule: publish_run_cases)
  case (published r response)
  then show ?thesis using run_by_id_D [OF published(1)] by (auto simp: complete_run_status run_by_id_put)
qed (use assms(2) in simp)

interpretation screening: fenced_lease "run_holds i" "settle_run i"
proof unfold_locales
  fix token w db
  show "\<not> run_holds i token db \<Longrightarrow> settle_run i token w db = db"
    by (cases w) (auto simp: run_holds_def fail_run_def publish_run_def split: option.splits)
  show "settle_run i token w db \<noteq> db \<Longrightarrow> \<not> run_holds i token (settle_run i token w db)"
  proof (cases w)
    case (Run_Result res ids)
    then show "settle_run i token w db \<noteq> db \<Longrightarrow> ?thesis"
      using publish_run_status [of token i res ids db] by (cases "publish_run token i res ids db") (auto simp: run_holds_def)
  next
    case (Run_Failure e)
    then show "settle_run i token w db \<noteq> db \<Longrightarrow> ?thesis"
      by (auto simp: run_holds_def fail_run_def run_by_id_put dest: run_by_id_D split: option.splits if_splits)
  qed
qed

section \<open>A published run is final\<close>

text \<open>What the endpoints and the workers do to the runs; a key may have been looked up in an older state.\<close>

inductive run_step :: "settings \<Rightarrow> audit_db \<Rightarrow> audit_db \<Rightarrow> bool" for cfg where
  submits: "run_step cfg db (fst (snd (queue_reserved api now request
      (reserve_run h id now run_id owner admin key hash job policy candidates db))))"
| reserves_late: "run_by_key key db0 = None \<Longrightarrow>
     run_step cfg db (snd (reserve_run h (\<lambda>_. db) now run_id owner admin key hash job policy candidates db0))"
| claims: "run_step cfg db (snd (claim_run cfg now owner i db))"
| settles: "run_step cfg db (settle_run i token w db)"
| recovers: "run_step cfg db (snd (find_recoverable_runs cfg now db))"

definition final_view :: "string \<Rightarrow> audit_db \<Rightarrow> screening_run option \<times> candidate_outcome list \<times> stored_evaluation list" where
  "final_view i db = (run_by_id i db, filter (\<lambda>o'. co_run o' = i) (au_outcomes db), filter (\<lambda>e. es_run e = i) (au_evaluations db))"

definition run_published :: "string \<Rightarrow> audit_db \<Rightarrow> bool" where
  "run_published i db \<longleftrightarrow> (case run_by_id i db of None \<Rightarrow> False | Some r \<Rightarrow> u_status r = R_COMPLETED)"

lemma filter_other: "filter (\<lambda>x. k x \<noteq> a) xs = filter (\<lambda>x. k x \<noteq> a) ys \<Longrightarrow> i \<noteq> a \<Longrightarrow>
  filter (\<lambda>x. k x = i) xs = filter (\<lambda>x. k x = i) ys"
proof -
  assume eq: "filter (\<lambda>x. k x \<noteq> a) xs = filter (\<lambda>x. k x \<noteq> a) ys" and "i \<noteq> a"
  then have "filter (\<lambda>x. k x = i) (filter (\<lambda>x. k x \<noteq> a) zs) = filter (\<lambda>x. k x = i) zs" for zs
    by (induction zs) auto
  then show ?thesis using eq by metis
qed

lemma final_view_put:
  "run_by_id i db = Some q \<Longrightarrow> i \<noteq> u_id r \<Longrightarrow> final_view i (put_run r db) = final_view i db"
  by (simp add: final_view_def put_run_other)

lemma insert_run_view:
  assumes "insert_run h now run_id owner admin key hash job policy candidates db = Inr (r, db')" "run_by_id i db = Some q"
  shows "final_view i db' = final_view i db" "map u_id (au_runs db') = map u_id (au_runs db) @ [u_id r]"
    "u_id r = run_id" "run_id \<notin> u_id ` set (au_runs db)"
proof -
  obtain job_id db1 where up: "upsert_job owner admin job db = Inr (job_id, db1)"
    and r: "r = new_run now run_id owner key hash job_id job policy" "run_id \<notin> u_id ` set (au_runs db1)"
    and db': "db' = db1\<lparr>au_runs := au_runs db1 @ [r], au_outcomes := au_outcomes db1 @ map (reserved_outcome h run_id policy) candidates\<rparr>"
    using assms(1) by (auto simp: insert_run_def rbind_Inr_conv Let_def split: if_splits)
  have db1: "au_runs db1 = au_runs db" "au_outcomes db1 = au_outcomes db" "au_evaluations db1 = au_evaluations db"
    using up by (auto simp: upsert_job_def rbind_Inr_conv Let_def split: option.splits if_splits)
  have i: "i \<noteq> run_id" using run_by_id_D [OF assms(2)] r(2) by (auto simp: db1)
  have none: "filter (\<lambda>o'. co_run o' = i) (map (reserved_outcome h run_id policy) candidates) = []"
    using i by (auto simp: filter_empty_conv reserved_outcome_def)
  show "final_view i db' = final_view i db"
    using assms(2) none by (simp add: final_view_def db' db1 run_by_id_def find_append)
  show "map u_id (au_runs db') = map u_id (au_runs db) @ [u_id r]" "u_id r = run_id" "run_id \<notin> u_id ` set (au_runs db)"
    using r by (simp_all add: db' db1 new_run_def)
qed

lemma reserve_run_cases:
  assumes "reserve_run h race now run_id owner admin key hash job policy candidates db = (x, db')"
  obtains (kept) y where "db' = (if run_by_key key db = None then race db else db)" "x = Inl y"
    | (answered) v r where "db' = (if run_by_key key db = None then race db else db)" "x = Inr (v, r)" "v \<noteq> RESERVED"
    | (again) r where "run_by_key key db = Some r" "u_status r \<noteq> R_COMPLETED" "u_status r \<noteq> R_QUEUED"
        "x = Inr (RESERVED, r\<lparr>u_status := R_RUNNING, u_created := now\<rparr>)"
        "db' = put_run (r\<lparr>u_status := R_RUNNING, u_created := now\<rparr>) db"
    | (inserted) r where "run_by_key key db = None" "x = Inr (RESERVED, r)"
        "insert_run h now run_id owner admin key hash job policy candidates (race db) = Inr (r, db')"
proof (cases "run_by_key key db")
  case None
  show thesis
    using assms None
    by (auto simp: reserve_run_def Let_def split: sum.splits option.splits if_splits prod.splits intro: kept answered inserted)
next
  case (Some r)
  show thesis
  proof (cases "existing_run now owner admin hash r")
    case (Inl e)
    then show thesis using assms Some by (auto simp: reserve_run_def intro: kept)
  next
    case (Inr v)
    then show thesis
    proof (cases "v = RESERVED")
      case True
      then have "u_status r \<noteq> R_COMPLETED" "u_status r \<noteq> R_QUEUED"
        using Inr by (auto simp: existing_run_def split: if_splits)
      then show thesis using assms Some Inr True by (auto simp: reserve_run_def Let_def intro: again)
    next
      case False
      then show thesis using assms Some Inr by (cases v) (auto simp: reserve_run_def intro: answered)
    qed
  qed
qed

definition ids_distinct :: "audit_db \<Rightarrow> bool" where
  "ids_distinct db \<longleftrightarrow> distinct (map u_id (au_runs db))"

lemma reserve_run_final:
  assumes "reserve_run h race now run_id owner admin key hash job policy candidates db = (x, db')" "ids_distinct db"
    "run_by_key key db = None \<Longrightarrow> run_published i (race db)" "run_by_key key db \<noteq> None \<Longrightarrow> run_published i db"
  shows "final_view i db' = final_view i (if run_by_key key db = None then race db else db)"
    "x = Inr (RESERVED, r) \<Longrightarrow> u_id r \<noteq> i"
    "ids_distinct (race db) \<Longrightarrow> ids_distinct db'"
proof -
  have "final_view i db' = final_view i (if run_by_key key db = None then race db else db) \<and>
      (x = Inr (RESERVED, r) \<longrightarrow> u_id r \<noteq> i) \<and> (ids_distinct (race db) \<longrightarrow> ids_distinct db')"
    using assms(1)
  proof (cases rule: reserve_run_cases)
    case (again q)
    have q: "run_by_id (u_id q) db = Some q" using run_in_unique assms(2) run_by_key_D [OF again(1)] by (simp add: ids_distinct_def)
    obtain p where p: "run_by_id i db = Some p" "u_status p = R_COMPLETED"
      using assms(4) again(1) by (auto simp: run_published_def split: option.splits)
    have "u_id q \<noteq> i" using p q again(2) by auto
    then show ?thesis using again(1,4,5) final_view_put [OF p(1)] assms(2) by (auto simp: ids_distinct_def)
  next
    case (inserted q)
    obtain p where p: "run_by_id i (race db) = Some p" using assms(3) inserted(1) by (auto simp: run_published_def split: option.splits)
    note v = insert_run_view [OF inserted(3) p]
    have "run_id \<noteq> i" using v(4) run_by_id_D [OF p] by auto
    then show ?thesis using v inserted by (auto simp: ids_distinct_def)
  qed (use assms(2) in \<open>auto split: if_splits\<close>)
  then show "final_view i db' = final_view i (if run_by_key key db = None then race db else db)"
    "x = Inr (RESERVED, r) \<Longrightarrow> u_id r \<noteq> i" "ids_distinct (race db) \<Longrightarrow> ids_distinct db'" by auto
qed

lemma published_view: "final_view i db' = final_view i db \<Longrightarrow> run_published i db' = run_published i db"
  by (simp add: final_view_def run_published_def)

lemma run_published_D:
  assumes "run_published i db" obtains r where "run_by_id i db = Some r" "u_status r = R_COMPLETED"
  using assms by (auto simp: run_published_def split: option.splits)

lemma final_view_update:
  assumes "run_by_id i db = Some r" "\<not> P r" "\<And>q. u_id (f q) = u_id q"
  shows "final_view i (db\<lparr>au_runs := update_where P f (au_runs db)\<rparr>) = final_view i db"
  using assms by (simp add: final_view_def run_by_id_update)

lemma ids_distinct_update:
  "(\<And>q. u_id (f q) = u_id q) \<Longrightarrow> ids_distinct (db\<lparr>au_runs := update_where P f (au_runs db)\<rparr>) = ids_distinct db"
  by (simp add: ids_distinct_def map_update_where_key)

lemma ids_distinct_put [simp]: "ids_distinct (put_run r db) = ids_distinct db"
  by (simp add: ids_distinct_def)

lemma publish_run_final:
  assumes "publish_run owner j res ids db = (x, db')" "run_published i db"
  shows "final_view i db' = final_view i db" "ids_distinct db' = ids_distinct db"
proof -
  have "final_view i db' = final_view i db \<and> ids_distinct db' = ids_distinct db"
    using assms(1)
  proof (cases rule: publish_run_cases)
    case (published r response)
    let ?db = "put_run (r\<lparr>u_request := None, u_lease_until := None, u_lease_owner := None\<rparr>) db"
    note f = complete_run_frame [OF published(6)]
    obtain p where p: "run_by_id i db = Some p" "u_status p = R_COMPLETED" by (rule run_published_D [OF assms(2)])
    have i: "i \<noteq> u_id r" using p published(1,2) run_by_id_D [OF published(1)] by auto
    have "run_by_id i db' = run_by_id i ?db"
      unfolding complete_run_status [OF published(6)] using i p(1) by (auto simp: run_by_id_put dest: run_by_id_D)
    moreover have "map u_id (au_runs db') = map u_id (au_runs ?db)" by (simp add: f(1) update_where_def del: put_run_simps)
    ultimately show ?thesis
      using filter_other [OF f(2) i] filter_other [OF f(3) i] put_run_other [OF p(1)] i p(1)
      by (simp add: final_view_def ids_distinct_def)
  qed simp
  then show "final_view i db' = final_view i db" "ids_distinct db' = ids_distinct db" by auto
qed

lemma recover_final:
  assumes "run_published i db"
  shows "final_view i (snd (find_recoverable_runs cfg now db)) = final_view i db"
    "ids_distinct (snd (find_recoverable_runs cfg now db)) = ids_distinct db"
proof -
  obtain r where r: "run_by_id i db = Some r" "u_status r = R_COMPLETED" by (rule run_published_D [OF assms])
  have v: "final_view i (interrupt_runs cfg now db) = final_view i db"
    unfolding interrupt_runs_def by (rule final_view_update [OF r(1)]) (simp_all add: interrupted_def r(2))
  then have r': "run_by_id i (interrupt_runs cfg now db) = Some r" using r(1) by (simp add: final_view_def)
  show "final_view i (snd (find_recoverable_runs cfg now db)) = final_view i db"
    unfolding find_recoverable_runs_def Let_def snd_conv v [symmetric]
    by (rule final_view_update [OF r']) (simp_all add: r(2))
  show "ids_distinct (snd (find_recoverable_runs cfg now db)) = ids_distinct db"
    by (simp add: find_recoverable_runs_def Let_def interrupt_runs_def ids_distinct_def map_update_where_key)
qed

lemma put_run_final:
  "run_published i db \<Longrightarrow> run_by_id j db = Some q \<Longrightarrow> u_status q \<noteq> R_COMPLETED \<Longrightarrow> u_id r = u_id q \<Longrightarrow>
     final_view i (put_run r db) = final_view i db"
  using run_by_id_D [of j db q] by (auto simp: run_published_def intro!: final_view_put split: option.splits)

lemma claim_run_final:
  assumes "run_published i db"
  shows "final_view i (snd (claim_run cfg now owner j db)) = final_view i db"
    "ids_distinct (snd (claim_run cfg now owner j db)) = ids_distinct db"
  using assms by (auto simp: claim_run_def Let_def intro: put_run_final split: option.splits)

lemma queue_reserved_final:
  assumes "run_published i db" "\<And>v r. x = Inr (v, r) \<Longrightarrow> v = RESERVED \<Longrightarrow> u_id r \<noteq> i"
  shows "final_view i (fst (snd (queue_reserved api now request (x, db)))) = final_view i db"
    "ids_distinct (fst (snd (queue_reserved api now request (x, db)))) = ids_distinct db"
proof -
  obtain q where q: "run_by_id i db = Some q" by (rule run_published_D [OF assms(1)])
  show "final_view i (fst (snd (queue_reserved api now request (x, db)))) = final_view i db"
    "ids_distinct (fst (snd (queue_reserved api now request (x, db)))) = ids_distinct db"
    using assms(2) final_view_put [OF q]
    by (auto simp: queue_reserved_def Let_def queued_run_def split: sum.splits prod.splits reservation.splits)
qed

lemma run_step_final:
  assumes "run_step cfg db db'" "run_published i db" "ids_distinct db"
  shows "final_view i db' = final_view i db \<and> ids_distinct db'"
  using assms(1)
proof cases
  case (submits api now request h run_id owner admin key hash job policy candidates)
  obtain x db1 where r: "reserve_run h id now run_id owner admin key hash job policy candidates db = (x, db1)"
    by (cases "reserve_run h id now run_id owner admin key hash job policy candidates db")
  note f = reserve_run_final [OF r assms(3), of i, simplified, OF assms(2,2)]
  have "run_published i db1" using published_view [OF f(1)] assms(2) by simp
  from queue_reserved_final [OF this, of x api now request] f show ?thesis
    using assms(3) by (auto simp: submits r)
next
  case (reserves_late key db0 h now run_id owner admin hash job policy candidates)
  obtain x db1 where r: "reserve_run h (\<lambda>_. db) now run_id owner admin key hash job policy candidates db0 = (x, db1)"
    by (cases "reserve_run h (\<lambda>_. db) now run_id owner admin key hash job policy candidates db0")
  have "final_view i db1 = final_view i db \<and> ids_distinct db1"
    using r
  proof (cases rule: reserve_run_cases)
    case (inserted q)
    obtain p where p: "run_by_id i db = Some p" by (rule run_published_D [OF assms(2)])
    show ?thesis using insert_run_view [OF inserted(3) p] assms(3) by (auto simp: ids_distinct_def)
  qed (use reserves_late(2) assms(3) in auto)
  then show ?thesis by (simp add: reserves_late r)
next
  case (claims now owner j)
  then show ?thesis using claim_run_final [OF assms(2)] assms(3) by simp
next
  case (settles j token w)
  show ?thesis
  proof (cases w)
    case (Run_Result res ids)
    then show ?thesis using publish_run_final [OF _ assms(2)] assms(3) settles
      by (cases "publish_run token j res ids db") auto
  next
    case (Run_Failure e)
    then show ?thesis using assms(2,3) settles
      by (auto simp: fail_run_def intro: put_run_final split: option.splits)
  qed
next
  case (recovers now)
  then show ?thesis using recover_final [OF assms(2)] assms(3) by simp
qed

lemma run_steps_final:
  assumes "(run_step cfg)\<^sup>*\<^sup>* db db'" "run_published i db" "ids_distinct db"
  shows "final_view i db' = final_view i db \<and> ids_distinct db'"
  using assms(1)
proof induction
  case (step db1 db2)
  then show ?case using run_step_final [OF step(2), of i] published_view [of i db1 db] assms(2) by simp
qed (use assms(3) in simp)

section \<open>Recovery\<close>

definition run_requests_ok :: "audit_db \<Rightarrow> bool" where
  "run_requests_ok db \<longleftrightarrow> list_all (\<lambda>r. u_request r \<noteq> Some []) (au_runs db)"

text \<open>After a scan, what the scan returned can be claimed, and no exhausted run still looks alive.\<close>

lemma recovered_rows:
  assumes "find_recoverable_runs cfg now db = (ids, db')"
  shows "ids = map u_id (filter (recoverable cfg now) (au_runs (interrupt_runs cfg now db)))"
    "au_runs db' = update_where (\<lambda>r. recoverable cfg now r \<and> u_status r = R_QUEUED)
        (\<lambda>r. r\<lparr>u_lease_until := Some (now + QUEUE_RECOVERY_SECONDS cfg)\<rparr>) (au_runs (interrupt_runs cfg now db))"
  using assms by (auto simp: find_recoverable_runs_def Let_def)

lemma recovered_claim:
  assumes scan: "find_recoverable_runs cfg now db = (ids, db')" and i: "i \<in> set ids"
    and ok: "ids_distinct db" "run_requests_ok db" and later: "now \<le> later"
  shows "\<exists>r db''. claim_run cfg later owner i db' = (Inr r, db'') \<and> u_id r = i \<and> u_lease_owner r = Some owner \<and>
    u_attempts r \<le> RUN_MAX_ATTEMPTS cfg \<and> u_lease_until r = Some (later + RUN_TIMEOUT_SECONDS cfg + 35)"
proof -
  let ?mid = "interrupt_runs cfg now db"
  note rows = recovered_rows [OF scan]
  obtain r where r: "r \<in> set (au_runs ?mid)" "recoverable cfg now r" "u_id r = i" using i by (auto simp: rows(1))
  have d: "distinct (map u_id (au_runs ?mid))" using ok(1) by (simp add: interrupt_runs_def ids_distinct_def map_update_where_key)
  have mid: "run_by_id i ?mid = Some r" using run_in_unique [OF d r(1)] r(3) by simp
  have "run_by_id i db' = map_option (\<lambda>q. if recoverable cfg now q \<and> u_status q = R_QUEUED
      then q\<lparr>u_lease_until := Some (now + QUEUE_RECOVERY_SECONDS cfg)\<rparr> else q) (run_by_id i ?mid)"
    by (subst run_by_id_update [symmetric]) (simp_all add: run_by_id_def rows(2))
  then have run: "run_by_id i db' = Some (if u_status r = R_QUEUED then r\<lparr>u_lease_until := Some (now + QUEUE_RECOVERY_SECONDS cfg)\<rparr> else r)"
    using mid r(2) by simp
  have "u_request r \<noteq> Some []"
    using r(1) ok(2) by (auto simp: interrupt_runs_def run_requests_ok_def list_all_iff elim!: update_where_cases)
  then show ?thesis
    using r(2,3) later run
    by (auto simp: claim_run_def Let_def recoverable_def lease_passed_def split: option.splits)
qed

lemma recovered_none_interrupted:
  assumes "find_recoverable_runs cfg now db = (ids, db')" "r \<in> set (au_runs db')"
  shows "\<not> interrupted cfg now r"
proof -
  have "\<not> interrupted cfg now q" if "q \<in> set (au_runs (interrupt_runs cfg now db))" for q
    using that by (auto simp: interrupt_runs_def interrupted_def elim!: update_where_cases)
  then show ?thesis
    using assms(2) unfolding recovered_rows(2) [OF assms(1)] by (auto simp: interrupted_def elim!: update_where_cases)
qed

end
