(* ===== verification/Run_Endings.thy ===== *)
theory Run_Endings
  imports Run_Lifecycle
begin

text \<open>
  How a run ends: a queued run that is executed without interference is published; a document that
  could not be read passes the same accounting check; and two ends the code does not mean, a
  resubmitted run whose attempts are used up and a late synchronous run that marks a published one as
  failed.
\<close>

section \<open>A queued run is published\<close>

text \<open>The request of the run decodes, and the pipeline accepts it.\<close>

definition executable :: "run_worker \<Rightarrow> screening_run \<Rightarrow> json list \<Rightarrow> candidate_input list \<Rightarrow> bool" where
  "executable w r cs raw \<longleftrightarrow>
     (\<exists>request views. u_request r = Some request \<and> request \<noteq> [] \<and> request_candidates w request = Inr (cs, views)) \<and>
     raw \<noteq> [] \<and> rmap (rw_candidate w) cs = Inr raw \<and> map (\<lambda>c. item_id (as_dict c)) cs = map i_candidate_id raw \<and>
     distinct (map i_candidate_id raw) \<and> \<not> is_error (rmap consistent_authorization raw) \<and>
     (\<exists>n. dget (u_policy r) ''stage2_cutoff'' JNull = JNum (of_int n) \<and> 1 \<le> n \<and> n \<le> 15) \<and>
     jp_profile (rw_job w (u_job_snapshot r)) \<noteq> [] \<and>
     \<not> is_error (resolve_hard_filters (jp_profile (rw_job w (u_job_snapshot r))) (dget (u_job_snapshot r) ''hard_filter_rules'' JNull)) \<and>
     \<not> (sv_production (rw_env w) \<and> \<not> sv_postgres_backend (rw_env w)) \<and> rw_in_time w"

lemma is_error_Inr: "\<not> is_error x \<longleftrightarrow> (\<exists>y. x = Inr y)"
  by (cases x) simp_all

lemma executable_analysis:
  assumes "executable w r cs raw"
  shows "\<exists>res. run_analysis w r = Inr (res, map i_candidate_id raw) \<and> validate_accounting res (map i_candidate_id raw) = Inr () \<and>
    map x_id (sr_outcomes res) = map i_candidate_id raw \<and> (\<forall>o'\<in>set (sr_outcomes res). stage3_row_ok (rw_env w) o')"
proof -
  from assms obtain request views n rules cands where
    e: "u_request r = Some request" "request_candidates w request = Inr (cs, views)"
      "raw \<noteq> []" "rmap (rw_candidate w) cs = Inr raw" "map (\<lambda>c. item_id (as_dict c)) cs = map i_candidate_id raw"
      "distinct (map i_candidate_id raw)" "rmap consistent_authorization raw = Inr cands"
      "dget (u_policy r) ''stage2_cutoff'' JNull = JNum (of_int n)" "1 \<le> n" "n \<le> 15"
      "jp_profile (rw_job w (u_job_snapshot r)) \<noteq> []"
      "resolve_hard_filters (jp_profile (rw_job w (u_job_snapshot r))) (dget (u_job_snapshot r) ''hard_filter_rules'' JNull) = Inr rules"
      "\<not> (sv_production (rw_env w) \<and> \<not> sv_postgres_backend (rw_env w))" "rw_in_time w"
    unfolding executable_def is_error_Inr by blast
  obtain res where res: "run_end_to_end_screening_pipeline (rw_env w) (rw_job w (u_job_snapshot r))
      (dget (u_job_snapshot r) ''hard_filter_rules'' JNull) n views raw = Inr res"
    "validate_accounting res (map i_candidate_id raw) = Inr ()" "map x_id (sr_outcomes res) = map i_candidate_id raw"
    using run_reconciles [OF e(6,3,11,12,9,10,7,13), of views] by blast
  have "run_analysis w r = Inr (res, map i_candidate_id raw)"
    using e(14) by (simp add: run_analysis_def e(1,2,4,5,8) dindex_dget run_raise_def res(1))
  then show ?thesis using res(2,3) run_rows_ok [OF res(1)] by blast
qed

lemma stage3_row_stored:
  assumes "stage3_row_ok env r"
  shows "stage3_stored r"
proof (cases "x_stage r = Some ''STAGE3''")
  case True
  then obtain e details where "x_result r = result_item e details" using assms by (auto simp: stage3_row_ok_def)
  then show ?thesis by (simp add: stage3_stored_def dindex_dget result_item_get)
qed (simp add: stage3_stored_def)

lemma reserved_for_put [simp]: "reserved_for r ids (put_run q db) = reserved_for r ids db"
  by (simp add: reserved_for_def)

lemma reserved_for_id: "u_id q = u_id r \<Longrightarrow> reserved_for q ids db = reserved_for r ids db"
  by (simp add: reserved_for_def)

lemma executable_claimed:
  "u_request q = u_request r \<Longrightarrow> u_policy q = u_policy r \<Longrightarrow> u_job_snapshot q = u_job_snapshot r \<Longrightarrow>
     executable w q cs raw = executable w r cs raw"
  by (simp add: executable_def)

lemma published_row_keys [simp]:
  "co_run (published_row run items o') = co_run o'" "co_candidate (published_row run items o') = co_candidate o'"
  by (simp_all add: published_row_def split: option.split)

lemma published_not_pending:
  assumes "o' \<in> set (map (published_row run items) rows)" "co_run o' = u_id run" "co_candidate o' \<in> x_id ` set items"
    "\<And>item. item \<in> set items \<Longrightarrow> x_outcome item \<noteq> Some ''PENDING'' \<and> x_outcome item \<noteq> None"
  shows "co_outcome o' \<noteq> ''PENDING''"
proof -
  obtain q where q: "o' = published_row run items q" using assms(1) by auto
  have keys: "co_run q = co_run o'" "co_candidate q = co_candidate o'"
    unfolding q by (simp_all add: published_row_def split: option.split)
  obtain item where item: "find (\<lambda>item. x_id item = co_candidate q) items = Some item"
    using assms(3) keys(2) by (cases "find (\<lambda>item. x_id item = co_candidate q) items") (auto simp: find_None_iff)
  then have "o' = final_outcome run item q" using q keys(1) assms(2) by (simp add: published_row_def)
  then show ?thesis using assms(4) [of item] find_SomeD [OF item]
    by (auto simp: final_outcome_def Let_def text_or_empty_def split: option.splits)
qed

lemma accounted_outcomes:
  assumes "validate_accounting res ids = Inr ()" "r \<in> set (sr_outcomes res)"
  shows "x_outcome r \<in> Some ` set outcome_names"
proof -
  let ?rows = "sr_outcomes res" and ?ks = "map Some outcome_names"
  have "(\<Sum>n\<leftarrow>outcome_names. count_outcome ?rows n) = card (set ids)" "length ?rows = card (set ids)"
    using assms(1) by (auto simp: validate_accounting_def Let_def ensure_def rbind_Inr_conv split: if_splits)
  moreover have "(\<Sum>n\<leftarrow>outcome_names. count_outcome ?rows n) = (\<Sum>x\<leftarrow>?ks. count_where (\<lambda>r. x_outcome r = x) ?rows)"
    by (simp add: count_outcome_def comp_def)
  moreover have "distinct ?ks" by (simp add: outcome_names_def)
  ultimately have "count_where (\<lambda>r. x_outcome r \<in> set ?ks) ?rows = length ?rows"
    using sum_count_by_key by metis
  then have "\<not> x_outcome r \<notin> set ?ks"
    using length_filter_less [OF assms(2), of "\<lambda>r. x_outcome r \<in> set ?ks"] by (auto simp: count_where_def)
  then show ?thesis by simp
qed

lemma queued_run_published:
  assumes r: "run_by_id i db = Some r" "u_status r = R_QUEUED" "u_attempts r < RUN_MAX_ATTEMPTS cfg" "u_key r = Some key"
    and ex: "executable w r cs raw" and res: "reserved_for r (map i_candidate_id raw) db"
  shows "\<exists>db'. execute_run cfg w (\<lambda>_. id) now owner i db = (Inr ''COMPLETED'', db') \<and> run_published i db' \<and>
    (\<exists>rows. map x_id rows = map i_candidate_id raw \<and> (\<forall>x\<in>set rows. x_outcome x \<in> Some ` set outcome_names) \<and>
       au_outcomes db' = map (published_row r rows) (au_outcomes db))"
proof -
  define q where "q = r\<lparr>u_status := R_RUNNING, u_attempts := u_attempts r + 1,
    u_lease_until := Some (now + RUN_TIMEOUT_SECONDS cfg + 35), u_lease_owner := Some owner, u_failure := None\<rparr>"
  have rid: "u_id r = i" using run_by_id_D [OF r(1)] by simp
  have "u_request r \<notin> {None, Some []}" using ex by (auto simp: executable_def)
  then have claim: "claim_run cfg now owner i db = (Inr q, put_run q db)"
    using r(1-3) by (simp add: claim_run_def Let_def q_def)
  have q: "run_by_id i (put_run q db) = Some q" using r(1) rid by (simp add: run_by_id_put) (simp add: q_def)
  have "executable w q cs raw" using ex by (subst executable_claimed [where r = r]) (simp_all add: q_def)
  from executable_analysis [OF this] obtain res where
    res': "run_analysis w q = Inr (res, map i_candidate_id raw)" "validate_accounting res (map i_candidate_id raw) = Inr ()"
      "map x_id (sr_outcomes res) = map i_candidate_id raw" "\<forall>o'\<in>set (sr_outcomes res). stage3_row_ok (rw_env w) o'" by blast
  obtain response where response: "screening_response q res = Inr response" using r(4) by (simp add: screening_response_def q_def)
  let ?db = "put_run (q\<lparr>u_request := None, u_lease_until := None, u_lease_owner := None\<rparr>) (put_run q db)"
  have "reserved_for q (map i_candidate_id raw) ?db" using res by (subst reserved_for_id [where r = r]) (simp_all add: q_def)
  moreover have "distinct (map i_candidate_id raw)" using ex by (auto simp: executable_def)
  ultimately obtain db' where db': "complete_run q res (map i_candidate_id raw) response ?db = Inr db'"
    "au_outcomes db' = map (published_row q (sr_outcomes res)) (au_outcomes ?db)"
    using complete_run_Inr [OF res'(2) _ res'(3)] stage3_row_stored res'(4) by metis
  have pub: "publish_run owner i res (map i_candidate_id raw) (put_run q db) = (Inr ''COMPLETED'', db')"
    using q db'(1) response by (simp add: publish_run_def) (simp add: q_def)
  have "run_published i db'"
    unfolding run_published_def complete_run_status [OF db'(1)]
    using r(1) rid by (simp add: run_by_id_put) (simp add: q_def)
  moreover have "published_row q = published_row r"
    by (intro ext) (simp add: published_row_def q_def final_outcome_def Let_def split: option.split)
  ultimately show ?thesis
    using res'(3) accounted_outcomes [OF res'(2)]
    by (intro exI [of _ db']) (auto simp: execute_run_def claim res'(1) pub db'(2) intro!: exI [of _ "sr_outcomes res"])
qed

section \<open>From the request to the queue\<close>

text \<open>A key that is not in use, tables that hold nothing of the new run, and a job the caller may use.\<close>

definition new_request :: "run_api \<Rightarrow> principal \<Rightarrow> string \<Rightarrow> pydict \<Rightarrow> audit_db \<Rightarrow> bool" where
  "new_request api p key job db \<longleftrightarrow> run_by_key (Some key) db = None \<and> key \<noteq> [] \<and> Some key \<notin> u_key ` set (au_runs db) \<and>
     ra_run_id api \<notin> u_id ` set (au_runs db) \<and> (\<forall>o'\<in>set (au_outcomes db). co_run o' \<noteq> ra_run_id api) \<and>
     \<not> is_error (upsert_job (pr_id p) (pr_role p = ''admin'') job db)"

lemma upsert_job_frame:
  "upsert_job owner admin job db = Inr (j, db') \<Longrightarrow>
     au_runs db' = au_runs db \<and> au_outcomes db' = au_outcomes db \<and> au_evaluations db' = au_evaluations db"
  by (auto simp: upsert_job_def rbind_Inr_conv Let_def split: option.splits if_splits)

lemma new_request_reserved:
  assumes new: "new_request api p key job db" and d: "distinct (map item_id candidates)" and race: "ra_race api = id"
  obtains r db1 where
    "reserve_run (ra_hash api) (ra_race api) now (ra_run_id api) (pr_id p) (pr_role p = ''admin'') (Some key) digest job policy candidates db
       = (Inr (RESERVED, r), db1)"
    "u_id r = ra_run_id api" "u_key r = Some key" "u_policy r = policy" "u_job_snapshot r = job" "u_attempts r = 0"
    "run_by_id (u_id r) db1 = Some r" "reserved_for r (map item_id candidates) db1"
proof -
  obtain j db0 where up: "upsert_job (pr_id p) (pr_role p = ''admin'') job db = Inr (j, db0)"
    using new unfolding new_request_def is_error_Inr by force
  note f = upsert_job_frame [OF up]
  define r where "r = new_run now (ra_run_id api) (pr_id p) (Some key) digest j job policy"
  define db1 where "db1 = db0\<lparr>au_runs := au_runs db0 @ [r],
    au_outcomes := au_outcomes db0 @ map (reserved_outcome (ra_hash api) (ra_run_id api) policy) candidates\<rparr>"
  have ins: "insert_run (ra_hash api) now (ra_run_id api) (pr_id p) (pr_role p = ''admin'') (Some key) digest job policy candidates db = Inr (r, db1)"
    using new d by (simp add: insert_run_def up Let_def r_def db1_def f new_request_def)
  have "reserve_run (ra_hash api) (ra_race api) now (ra_run_id api) (pr_id p) (pr_role p = ''admin'') (Some key) digest job policy candidates db
      = (Inr (RESERVED, r), db1)"
    using new by (simp add: reserve_run_def new_request_def race ins)
  moreover have "find (\<lambda>q. u_id q = ra_run_id api) (au_runs db) = None"
    using new by (auto simp: find_None_iff new_request_def image_iff)
  then have "run_by_id (u_id r) db1 = Some r"
    by (simp add: run_by_id_def db1_def find_append f r_def new_run_def)
  moreover have "\<exists>o'\<in>set (au_outcomes db1). co_run o' = u_id r \<and> co_candidate o' = item_id c" if "c \<in> set candidates" for c
    using that by (intro bexI [of _ "reserved_outcome (ra_hash api) (ra_run_id api) policy c"])
      (simp_all add: db1_def reserved_outcome_def r_def new_run_def)
  then have "reserved_for r (map item_id candidates) db1"
    using new by (auto simp: reserved_for_def db1_def f r_def new_run_def reserved_outcome_def new_request_def)
  ultimately show thesis using that by (simp add: r_def new_run_def)
qed

text \<open>A new text request: the answer, the message to the broker, and the run as the worker finds it.\<close>

lemma submitted_run_queued:
  assumes new: "new_request api p key job db" and d: "distinct (map (item_id \<circ> as_dict) (sq_candidates q))"
    and race: "ra_race api = id" and up: "ra_broker_up api"
    and q: "sq_candidates q \<noteq> []" "sq_job_profile q = Some job" "sq_key q = Some key" "sq_approved_jd_id q = None"
    and dev: "\<not> is_production (ra_cfg api)" and enc: "ra_encrypt api (JList (sq_candidates q)) = Inr cipher"
  obtains r db1 where
    "submit_screening api approved now p q db = (Inr (run_link r), db1, [u_id r])"
    "run_by_id (u_id r) db1 = Some r" "u_id r = ra_run_id api" "u_status r = R_QUEUED" "u_attempts r = 0" "u_key r = Some key"
    "u_policy r = ra_policy api (sq_cutoff q)" "u_job_snapshot r = job"
    "u_request r = Some [(''kind'', JStr ''text''), (''encrypted_candidates'', JStr cipher)]"
    "reserved_for r (map (item_id \<circ> as_dict) (sq_candidates q)) db1"
proof -
  let ?digested = "JDict [(''job'', JDict job), (''candidates'', JList (sq_candidates q)), (''policy'', JDict (ra_policy api (sq_cutoff q)))]"
    and ?request = "[(''kind'', JStr ''text''), (''encrypted_candidates'', JStr cipher)]"
  have d': "distinct (map item_id (map as_dict (sq_candidates q)))" using d by simp
  obtain r db1 where r: "reserve_run (ra_hash api) (ra_race api) now (ra_run_id api) (pr_id p) (pr_role p = ''admin'') (Some key)
      (ra_hash api ?digested) job (ra_policy api (sq_cutoff q)) (map as_dict (sq_candidates q)) db = (Inr (RESERVED, r), db1)"
    and f: "u_id r = ra_run_id api" "u_key r = Some key" "u_policy r = ra_policy api (sq_cutoff q)" "u_job_snapshot r = job"
      "u_attempts r = 0" "run_by_id (u_id r) db1 = Some r" "reserved_for r (map item_id (map as_dict (sq_candidates q))) db1"
    by (rule new_request_reserved [OF new d' race])
  let ?q = "queued_run (ra_cfg api) now ?request r"
  have "nonempty (Some key)" using new by (simp add: new_request_def nonempty_def)
  then have "submit_screening api approved now p q db = (Inr (run_link ?q), put_run ?q db1, [u_id ?q])"
    using dev q enc up
    by (simp add: submit_screening_def resolve_approved_profile_def nonempty_def reserve_request_def Let_def r queue_reserved_def)
  moreover have "run_by_id (u_id ?q) (put_run ?q db1) = Some ?q" using f(6) by (simp add: run_by_id_put queued_run_def)
  moreover have "reserved_for ?q (map (item_id \<circ> as_dict) (sq_candidates q)) (put_run ?q db1)"
    using f(7) by (subst reserved_for_id [where r = r]) (simp_all add: queued_run_def)
  ultimately show thesis using that f by (simp add: queued_run_def)
qed

section \<open>Documents that could not be read\<close>

lemma pdf_failure_validates: "validate_accounting (pdf_failure_result cand pdf_hash code review) [cand] = Inr ()"
  by (cases review)
     (simp_all add: validate_accounting_def pdf_failure_result_def pdf_failure_item_def Let_def ensure_def public_items_def
        no_metrics_def count_outcome_def outcome_names_def stage_failures_def stage_reviews_def stage1_reviewed_def
        verification_check_def row_details_def accounted_def)

section \<open>Ends the code does not mean\<close>

text \<open>
  A run that failed with its attempts used up is reserved again by a repeated request, but its attempts
  are not reset: the worker refuses it at once, whenever it comes.
\<close>

lemma resubmitted_run_exhausted:
  assumes r: "run_by_key (Some key) db = Some r" "u_status r = R_FAILED" "RUN_MAX_ATTEMPTS cfg \<le> u_attempts r" "u_request_hash r = digest"
    and owner: "u_owner r = owner \<or> admin" and d: "ids_distinct db" and up: "ra_broker_up api" and request: "request \<noteq> []"
  shows "\<exists>q db1. queue_reserved api now request (reserve_run h race now run_id owner admin (Some key) digest job policy candidates db) =
      (Inr (run_link q), db1, [u_id r]) \<and> u_status q = R_QUEUED \<and>
    (\<exists>t. claim_run cfg later worker (u_id r) db1 = (Inl ''ATTEMPTS_EXHAUSTED'', put_run t db1) \<and> u_status t = R_FAILED \<and>
       u_id t = u_id r \<and> u_key t = u_key r \<and> u_request_hash t = digest \<and> u_owner t = u_owner r \<and> u_attempts t = u_attempts r)"
proof -
  define r1 where "r1 = r\<lparr>u_status := R_RUNNING, u_created := now\<rparr>"
  define q where "q = queued_run (ra_cfg api) now request r1"
  have id: "run_by_id (u_id r) db = Some r" using run_in_unique run_by_key_D [OF r(1)] d by (simp add: ids_distinct_def)
  have "existing_run now owner admin digest r = Inr RESERVED"
    using r(2,4) owner by (auto simp: existing_run_def)
  then have res: "reserve_run h race now run_id owner admin (Some key) digest job policy candidates db = (Inr (RESERVED, r1), put_run r1 db)"
    using r(1) by (simp add: reserve_run_def r1_def Let_def)
  have qid: "u_id r1 = u_id r" "u_id q = u_id r" by (simp_all add: r1_def q_def queued_run_def)
  have "queue_reserved api now request (Inr (RESERVED, r1), put_run r1 db) = (Inr (run_link q), put_run q (put_run r1 db), [u_id r])"
    using up qid by (simp add: queue_reserved_def Let_def q_def)
  moreover have "run_by_id (u_id r) (put_run q (put_run r1 db)) = Some q"
    using id by (simp add: run_by_id_put qid)
  then have "claim_run cfg later worker (u_id r) (put_run q (put_run r1 db)) = (Inl ''ATTEMPTS_EXHAUSTED'',
      put_run (q\<lparr>u_status := R_FAILED, u_failure := Some ''ATTEMPTS_EXHAUSTED''\<rparr>) (put_run q (put_run r1 db)))"
    using r(3) request by (simp add: claim_run_def q_def queued_run_def r1_def)
  moreover have "u_status q = R_QUEUED" "u_key q = u_key r" "u_request_hash q = digest" "u_owner q = u_owner r" "u_attempts q = u_attempts r"
    using r(4) by (simp_all add: q_def queued_run_def r1_def)
  ultimately show ?thesis unfolding res using qid by (intro exI [of _ q]) auto
qed

text \<open>
  A synchronous run holds no lease. If it is published while another request, which found it older than
  five minutes, executes it again, the second publication raises, and its handler marks the published
  run as failed.
\<close>

lemma late_run_fails_published:
  assumes r: "run_published i db" "u_id r = i"
    and late: "sr_outcomes res \<noteq> []" "\<And>o'. o' \<in> set (au_outcomes db) \<Longrightarrow> co_run o' = i \<Longrightarrow> co_outcome o' \<noteq> ''PENDING''"
  shows "\<exists>e db'. publish_or_fail r (Inr (res, ids, response)) db = (Inl e, db') \<and>
    run_by_id i db' = map_option (\<lambda>q. q\<lparr>u_status := R_FAILED\<rparr>) (run_by_id i db)"
proof -
  obtain item items where items: "sr_outcomes res = item # items" using late(1) by (cases "sr_outcomes res") auto
  have "is_error (finalize_outcome r item db)"
    using late(2) r(2) by (auto simp: finalize_outcome_def Let_def split: option.split dest: find_SomeD)
  then obtain e where "finalize_outcome r item db = Inl e" by (auto simp: is_error_def split: sum.splits)
  then have "finalize_outcomes r (sr_outcomes res) db = Inl e" by (simp add: items)
  then obtain e' where e: "complete_run r res ids response db = Inl e'"
    by (cases "validate_accounting res ids") (simp_all add: complete_run_def)
  obtain q where q: "run_by_id i db = Some q" by (rule run_published_D [OF r(1)])
  then have "u_id q = i" using run_by_id_D by blast
  then show ?thesis
    using q r(2) by (simp add: publish_or_fail_def e run_by_id_update)
qed

end
