(* ===== verification/Example_Screening.thy ===== *)
theory Example_Screening
  imports Run_Endings
begin

text \<open>
  A small deployment: one service that queues text requests, one worker whose encryption is the
  identity and whose language model is unreachable, one candidate.
\<close>

definition demo_candidate :: candidate_input where
  "demo_candidate = \<lparr>i_candidate_id = ''c1'', i_raw_cv_text = ''Python'', i_work_authorized = None,
     i_authorization_source = SOURCE_UNKNOWN,
     i_parsed = \<lparr>a_experience_years = None, a_experience_source = SOURCE_UNKNOWN, a_work_authorized = AUTH_UNKNOWN,
       a_authorization_source = SOURCE_UNKNOWN, a_degree = None\<rparr>,
     i_overrides = \<lparr>o_experience_years = None, o_work_authorized = None\<rparr>\<rparr>"

definition demo_profile :: pydict where
  "demo_profile = [(''job_id'', JStr ''j1''), (''title'', JStr ''Engineer''), (''jd_category_queries'', JDict []),
     (''hard_filter_rules'', JDict [])]"

definition demo_job :: "pydict \<Rightarrow> screening_job" where
  "demo_job profile = \<lparr>jp_profile = profile, jp_must_have = [], jp_nice_to_have = [], jp_queries = [],
     jp_contract = \<lparr>rc_targets = [], rc_minimum = 0\<rparr>\<rparr>"

definition demo_env :: screening_env where
  "demo_env = \<lparr>sv_today = \<lparr>d_year = 2025, d_month = 1, d_iso = ''2025-01-01''\<rparr>, sv_show_number = (\<lambda>_. []),
     sv_sha256 = id, sv_production = False, sv_postgres_backend = False,
     sv_models = \<lparr>rm_identity = (\<lambda>_. []), rm_sqrt = id, rm_embedding = (\<lambda>_. []), rm_predict = (\<lambda>_ _. 0)\<rparr>,
     sv_postgres = (\<lambda>_ _ _ _ _. Inl OperationalError), sv_evaluate = (\<lambda>_. Inl TimeoutError)\<rparr>"

definition demo_worker :: run_worker where
  "demo_worker = \<lparr>rw_env = demo_env, rw_job = demo_job, rw_open = (\<lambda>_. Inr (JList [JDict [(''candidate_id'', JStr ''c1'')]])),
     rw_ingest = (\<lambda>_. Inl TimeoutError), rw_candidate = (\<lambda>_. Inr demo_candidate), rw_in_time = True\<rparr>"

definition demo_policy :: "int \<Rightarrow> pydict" where
  "demo_policy cutoff = policy_snapshot (JStr ''mock'') (JStr ''mock'') [] cutoff"

definition demo_api :: run_api where
  "demo_api = \<lparr>ra_cfg = default_settings, ra_hash = (\<lambda>_. ''hash''), ra_encrypt = (\<lambda>_. Inr ''sealed''), ra_policy = demo_policy,
     ra_run_id = ''r1'', ra_race = id, ra_broker_up = True\<rparr>"

definition demo_tables :: audit_db where
  "demo_tables = \<lparr>au_jobs = [], au_runs = [], au_outcomes = [], au_evaluations = []\<rparr>"

definition demo_principal :: principal where
  "demo_principal = \<lparr>pr_id = ''recruiter'', pr_role = ''recruiter''\<rparr>"

definition demo_request :: screening_request where
  "demo_request = \<lparr>sq_job_profile = Some demo_profile, sq_approved_jd_id = None,
     sq_candidates = [JDict [(''candidate_id'', JStr ''c1'')]], sq_cutoff = 15, sq_key = Some ''key''\<rparr>"

lemma demo_rules: "\<exists>rules. resolve_hard_filters demo_profile (JDict []) = Inr rules"
proof -
  have "\<not> is_error (resolve_hard_filters demo_profile (JDict []))" by code_simp
  then show ?thesis by (simp add: is_error_Inr)
qed

lemma demo_authorization: "\<exists>cands. rmap consistent_authorization [demo_candidate] = Inr cands"
proof -
  have "\<not> is_error (rmap consistent_authorization [demo_candidate])" by code_simp
  then show ?thesis by (simp add: is_error_Inr)
qed

text \<open>A stored run in every state the endpoints and the scan tell apart.\<close>

definition demo_run :: "run_status \<Rightarrow> int \<Rightarrow> int option \<Rightarrow> screening_run" where
  "demo_run st attempts lease = \<lparr>u_id = ''r1'', u_owner = ''recruiter'', u_job = ''j1'', u_status = st, u_metrics = None,
     u_key = Some ''key'', u_request_hash = ''hash'', u_job_snapshot = demo_profile, u_policy = demo_policy 15,
     u_response = (if st = R_COMPLETED then Some [(''run_id'', JStr ''r1'')] else None),
     u_request = (if st = R_COMPLETED then None else Some [(''kind'', JStr ''text'')]),
     u_attempts = attempts, u_lease_until = lease, u_lease_owner = map_option (\<lambda>_. ''w1'') lease, u_failure = None, u_created = 0\<rparr>"

definition demo_outcome :: candidate_outcome where
  "demo_outcome = \<lparr>co_run = ''r1'', co_candidate = ''c1'', co_outcome = ''CUTOFF_EXCLUDED'', co_stage = ''STAGE2'', co_input = [],
     co_history = [], co_evidence = None, co_citations = JNull, co_validated = JNull, co_result = [], co_provider = JNull,
     co_model = JNull, co_prompt_version = JNull, co_policy_version = JNull\<rparr>"

definition demo_stored :: "screening_run \<Rightarrow> audit_db" where
  "demo_stored r = \<lparr>au_jobs = [], au_runs = [r], au_outcomes = [demo_outcome], au_evaluations = []\<rparr>"

lemma demo_stored_simps [simp]:
  "ids_distinct (demo_stored r)" "run_by_id (u_id r) (demo_stored r) = Some r" "u_id (demo_run st n l) = ''r1''"
  "u_status (demo_run st n l) = st" "run_by_id ''r1'' (demo_stored (demo_run st n l)) = Some (demo_run st n l)"
  by (simp_all add: ids_distinct_def run_by_id_def demo_stored_def demo_run_def)

text \<open>Accounts: tokens are the claims themselves, and every password is wrong.\<close>

definition demo_claims :: pydict where
  "demo_claims = access_claims default_settings 0 ''jti'' ''csrf''
     \<lparr>ru_id = ''u1'', ru_email = ''a@b'', ru_username = ''ann'', ru_password_hash = ''hash'', ru_role = ''recruiter'',
      ru_is_active = True, ru_token_version = 0, ru_failed_attempts = 0, ru_locked_until = None\<rparr>"

definition demo_crypto :: crypto where
  "demo_crypto = \<lparr>cr_encode = (\<lambda>_. ''token''), cr_decode = (\<lambda>_ t. if t = ''token'' then Some demo_claims else None),
     cr_verify = (\<lambda>_ _. False), cr_sha256 = id\<rparr>"

definition demo_user :: recruiter_user where
  "demo_user = \<lparr>ru_id = ''u1'', ru_email = ''a@b'', ru_username = ''ann'', ru_password_hash = ''hash'', ru_role = ''recruiter'',
      ru_is_active = True, ru_token_version = 0, ru_failed_attempts = 0, ru_locked_until = None\<rparr>"

definition demo_browser :: http_request where
  "demo_browser = \<lparr>rq_method = ''GET'', rq_authorization = [], rq_access_cookie = Some ''token'', rq_csrf_cookie = None,
     rq_csrf_header = [], rq_sec_fetch_site = [], rq_origin = [], rq_host = ''host''\<rparr>"

text \<open>A candidate whose authorization a recruiter has checked.\<close>

definition demo_verified :: candidate_facts where
  "demo_verified = \<lparr>f_experience_years = Some 1, f_experience_source = RECRUITER_VERIFIED, f_work_authorized = INELIGIBLE,
     f_authorization_source = RECRUITER_VERIFIED\<rparr>"

end
