(* ===== verification/Excerpts.thy ===== *)
theory Excerpts
  imports Patterns
begin

text \<open>
  When a claim is an excerpt of its source (\<open>claim_is_source_excerpt\<close> of
  \<open>app/stage3_evaluation/evidence.py\<close>): it occurs there between word boundaries, and no word that limits
  a sentence it touches is left out of it.
\<close>

section \<open>Definitions\<close>

definition limiting_words :: "string list" where
  "limiting_words = [''no'', ''not'', ''never'', ''without'', ''lack'', ''lacks'', ''lacking'', ''limited'', ''basic'',
     ''beginner'', ''introductory'', ''familiarity'', ''exposure'', ''assisted'', ''helped'', ''supported'', ''supervised'',
     ''supervision'', ''academic'', ''prototype'', ''prototyping'', ''course'', ''coursework'', ''tutorial'', ''learning'',
     ''studying'', ''training'', ''aspiring'', ''planned'', ''planning'', ''intended'', ''only'', ''partly'', ''partially'']"

definition LIMITING_TERMS :: pattern where
  "LIMITING_TERMS = bounded_word limiting_words"

definition normalize_text :: "string \<Rightarrow> string" where
  "normalize_text value = lower (join_with '' '' (words value))"

definition excerpt_pattern :: "string \<Rightarrow> pattern" where
  "excerpt_pattern claim = isolated (lit claim)"

definition sentence_gap :: pattern where
  "sentence_gap = Cat (Anchor (\<lambda>b a. b \<noteq> [] \<and> hd b \<in> set ''.!?'')) spaces1"

fun spans_from :: "nat \<Rightarrow> found list \<Rightarrow> nat \<Rightarrow> (nat \<times> nat) list" where
  "spans_from start [] n = [(start, n)]"
| "spans_from start (m # ms) n = (start, m_start m) # spans_from (m_end m) ms n"

definition sentence_spans :: "string \<Rightarrow> (nat \<times> nat) list" where
  "sentence_spans source = spans_from 0 (re_finditer sentence_gap source) (length source)"

definition touches :: "found \<Rightarrow> nat \<times> nat \<Rightarrow> bool" where
  "touches m sp = (fst sp < m_end m \<and> m_start m < snd sp)"

definition quoted_part :: "string \<Rightarrow> found \<Rightarrow> nat \<times> nat \<Rightarrow> string" where
  "quoted_part source m sp = slice source (max (fst sp) (m_start m)) (min (snd sp) (m_end m))"

definition keeps_limits :: "string \<Rightarrow> found \<Rightarrow> bool" where
  "keeps_limits source m = list_all (\<lambda>sp. touches m sp \<longrightarrow>
     set (re_findall LIMITING_TERMS (slice source (fst sp) (snd sp))) \<subseteq>
     set (re_findall LIMITING_TERMS (quoted_part source m sp))) (sentence_spans source)"

definition claim_is_source_excerpt :: "string \<Rightarrow> string \<Rightarrow> bool" where
  "claim_is_source_excerpt claim0 source0 =
    (let claim = normalize_text claim0; source = normalize_text source0
     in claim \<noteq> [] \<and> list_ex is_word claim \<and>
        (claim = source \<or> list_ex (keeps_limits source) (re_finditer (excerpt_pattern claim) source)))"

section \<open>What an accepted claim is\<close>

lemma lit_runs: "(b', a', c') \<in> set (runs (lit w) (b, a, c)) \<longleftrightarrow> a = w @ a' \<and> b' = rev w @ b \<and> c' = c"
proof (induction w arbitrary: b a)
  case (Cons x w)
  show ?case
  proof (cases w)
    case Nil
    then show ?thesis by (cases a) (auto simp: lit_def chr_def)
  next
    case (Cons y v)
    have "runs (lit (x # w)) (b, a, c) = (case a of [] \<Rightarrow> [] | z # a1 \<Rightarrow> if z = x then runs (lit w) (z # b, a1, c) else [])"
      using Cons by (cases a) (auto simp: lit_def chr_def)
    then show ?thesis using Cons.IH by (cases a) auto
  qed
qed (auto simp: lit_def)

lemma excerpt_match:
  assumes "m \<in> set (re_finditer (excerpt_pattern claim) source)"
  shows "matched source m = claim" "m_start m \<le> m_end m" "m_end m \<le> length source"
    "m_start m = 0 \<or> \<not> is_word (source ! (m_start m - 1))" "m_end m = length source \<or> \<not> is_word (source ! m_end m)"
proof -
  have r: "run_in (isolated (lit claim)) source m"
    using re_finditer_run_in assms by (simp add: excerpt_pattern_def)
  show "m_start m \<le> m_end m" "m_end m \<le> length source" using run_in_bounds [OF r] by auto
  show "m_start m = 0 \<or> \<not> is_word (source ! (m_start m - 1))" "m_end m = length source \<or> \<not> is_word (source ! m_end m)"
    using isolated_match [OF r] by auto
  obtain b a b' a' where s: "(b', a', snd (snd m)) \<in> set (runs (isolated (lit claim)) (b, a, []))" "b' = rev (matched source m) @ b"
    using slice_run [OF r] by blast
  then have "b' = rev claim @ b"
    by (auto simp: isolated_def not_in_word_before_def not_in_word_after_def lit_runs split: if_splits)
  then show "matched source m = claim" using s(2) by simp
qed

lemma slice_slice: "i \<le> i' \<Longrightarrow> j' \<le> j \<Longrightarrow> slice s i' j' = slice (slice s i j) (i' - i) (j' - i)"
  by (simp add: slice_def drop_take min_def)

lemma contains_slice: "contains (slice s i j) s"
proof -
  have "s = take i s @ slice s i j @ drop (j - i) (drop i s)" unfolding slice_def by (simp only: append_take_drop_id)
  then show ?thesis unfolding contains_iff by blast
qed

lemma slice_contains: "i \<le> i' \<Longrightarrow> j' \<le> j \<Longrightarrow> contains (slice s i' j') (slice s i j)"
  by (subst slice_slice) (auto intro: contains_slice)

lemma findall_contains: "w \<in> set (re_findall p s) \<Longrightarrow> contains w s"
  by (auto simp: re_findall_def matched_def contains_slice)

lemma contains_trans: "contains p q \<Longrightarrow> contains q s \<Longrightarrow> contains p s"
  unfolding contains_iff by (metis append.assoc)

lemma excerpt_sound:
  assumes "claim_is_source_excerpt claim source" "normalize_text claim \<noteq> normalize_text source"
  obtains m where "slice (normalize_text source) (m_start m) (m_end m) = normalize_text claim"
    "m_start m = 0 \<or> \<not> is_word (normalize_text source ! (m_start m - 1))"
    "m_end m = length (normalize_text source) \<or> \<not> is_word (normalize_text source ! m_end m)"
    "\<And>s e w. (s, e) \<in> set (sentence_spans (normalize_text source)) \<Longrightarrow> s < m_end m \<Longrightarrow> m_start m < e \<Longrightarrow>
       w \<in> set (re_findall LIMITING_TERMS (slice (normalize_text source) s e)) \<Longrightarrow> contains w (normalize_text claim)"
proof -
  let ?s = "normalize_text source" let ?c = "normalize_text claim"
  obtain m where m: "m \<in> set (re_finditer (excerpt_pattern ?c) ?s)" "keeps_limits ?s m"
    using assms by (auto simp: claim_is_source_excerpt_def Let_def list_ex_iff)
  note x = excerpt_match [OF m(1)]
  have "contains w ?c" if "(s, e) \<in> set (sentence_spans ?s)" "s < m_end m" "m_start m < e"
    "w \<in> set (re_findall LIMITING_TERMS (slice ?s s e))" for s e w
  proof -
    have "w \<in> set (re_findall LIMITING_TERMS (quoted_part ?s m (s, e)))"
      using m(2) that unfolding keeps_limits_def list_all_iff touches_def by force
    then have "contains w (quoted_part ?s m (s, e))" by (rule findall_contains)
    moreover have "contains (quoted_part ?s m (s, e)) (matched ?s m)"
      unfolding quoted_part_def matched_def by (rule slice_contains) auto
    ultimately show ?thesis using x(1) contains_trans by metis
  qed
  with x show thesis by (intro that [of m]) (auto simp: matched_def)
qed

lemma excerpt_refl: "list_ex is_word (normalize_text s) \<Longrightarrow> claim_is_source_excerpt s s"
  by (auto simp: claim_is_source_excerpt_def Let_def list_ex_iff)

end
