(* ===== verification/Injection.thy ===== *)
theory Injection
  imports Skill_Terms
begin

text \<open>
  The prompt injection guard (\<open>app/stage0_extraction/injection_guard.py\<close>): the heuristics that flag
  imperative overrides and forged structure tags, and the envelope around a CV text.
\<close>

section \<open>Heuristics\<close>

definition one_of_i :: "string list \<Rightarrow> pattern" where
  "one_of_i ws = alts (map phrase_i ws)"

definition ignore_override :: pattern where
  "ignore_override = cats [word_boundary, one_of_i [''ignore'', ''disregard'', ''forget'', ''bypass''], spaces1,
     opt (Cat (lit_i ''all'') spaces1), one_of_i [''previous'', ''prior'', ''above''], spaces1,
     one_of_i [''instructions'', ''prompts'', ''directions'', ''rules''], word_boundary]"

definition system_override :: pattern where
  "system_override = cats [word_boundary, alts [phrase_i ''system override'', phrase_i ''new system prompt'',
     cats [phrase_i ''you are now'', spaces1, opt (cats [chr_i CHR ''a'', opt (chr_i CHR ''n''), spaces1]),
       one_of_i [''evaluator'', ''admin'', ''hiring manager'', ''system'']]], word_boundary]"

definition score_override :: pattern where
  "score_override = cats [word_boundary, one_of_i [''rate'', ''score'', ''give''], spaces1,
     one_of_i [''this candidate'', ''me'', ''them''], spaces1, opt (Cat (chr_i CHR ''a'') spaces1),
     one_of_i [''100'', ''10/10'', ''top score'', ''perfect score''], word_boundary]"

definition output_override :: pattern where
  "output_override = cats [word_boundary, one_of_i [''output'', ''respond with''], spaces1,
     opt (Cat (lit_i ''only'') spaces1), chr CHR ''{'', spaces0, lit_i ''\"category_scores\"'']"

definition INJECTION_OVERRIDE_PATTERNS :: "pattern list" where
  "INJECTION_OVERRIDE_PATTERNS = [ignore_override, system_override, score_override, output_override]"

definition structure_tags :: "string list" where
  "structure_tags = [''candidate_data'', ''candidate_evidence'', ''evaluation_request'', ''snippet'', ''category'',
     ''job_description'', ''system_prompt'', ''system'', ''instruction'', ''context'']"

definition DELIMITER_INJECTION_PATTERN :: pattern where
  "DELIMITER_INJECTION_PATTERN = cats [chr CHR ''<'', spaces0, opt (chr CHR ''/''), spaces0, one_of_i structure_tags,
     opt (Cat (Sym is_space) (Star (Sym (\<lambda>c. c \<notin> set ''<>'')))), spaces0, chr CHR ''>'']"

text \<open>What was detected: the number of the override pattern, a forged tag, a flood of invisible characters.\<close>

datatype anomaly = Prompt_Override nat | Delimiter_Forgery | Invisible_Characters nat

text \<open>The four zero-width characters are not ASCII, so a text of the model contains none.\<close>

definition ZERO_WIDTH_CHARS :: "char list" where
  "ZERO_WIDTH_CHARS = []"

definition scan_for_injection_anomalies :: "nat \<Rightarrow> string \<Rightarrow> bool \<times> anomaly list" where
  "scan_for_injection_anomalies max_zero_width s =
    (if s = [] then (False, [])
     else let overrides = map (Prompt_Override \<circ> fst)
              (filter (\<lambda>(i, p). re_found p s) (List.enumerate 1 INJECTION_OVERRIDE_PATTERNS));
            delimiters = (if re_found DELIMITER_INJECTION_PATTERN s then [Delimiter_Forgery] else []);
            count = length (filter (\<lambda>c. c \<in> set ZERO_WIDTH_CHARS) s);
            invisible = (if max_zero_width < count then [Invisible_Characters count] else []);
            detected = overrides @ delimiters @ invisible
       in (detected \<noteq> [], detected))"

definition is_flagged :: "string \<Rightarrow> bool" where
  "is_flagged s = fst (scan_for_injection_anomalies 5 s)"

section \<open>The envelope of a CV\<close>

definition xml_escape :: "string \<Rightarrow> string" where
  "xml_escape s = replace_all ''>'' ''&gt;'' (replace_all ''<'' ''&lt;'' (replace_all ''&'' ''&amp;'' s))"

definition encapsulate_candidate_data :: "string \<Rightarrow> string" where
  "encapsulate_candidate_data s =
    (if s = [] then ''<candidate_data>'' @ [newline] @ ''</candidate_data>''
     else ''<candidate_data>'' @ [newline] @ xml_escape (strip s) @ [newline] @ ''</candidate_data>'')"

lemma replace_char: "replace_all [c] new s = concat (map (\<lambda>d. if d = c then new else [d]) s)"
proof (induction s)
  case (Cons d s)
  then show ?case by (subst replace_all.simps) auto
qed simp

lemma set_xml_escape: "CHR ''<'' \<notin> set (xml_escape s)" "CHR ''>'' \<notin> set (xml_escape s)"
  by (auto simp: xml_escape_def replace_char split: if_splits)

lemma is_flagged_iff:
  "is_flagged s \<longleftrightarrow> s \<noteq> [] \<and> ((\<exists>p\<in>set INJECTION_OVERRIDE_PATTERNS. re_found p s) \<or> re_found DELIMITER_INJECTION_PATTERN s)"
  by (auto simp: is_flagged_def scan_for_injection_anomalies_def Let_def filter_empty_conv INJECTION_OVERRIDE_PATTERNS_def
      ZERO_WIDTH_CHARS_def)

section \<open>Short texts\<close>

text \<open>The length of the shortest text a pattern can match; every heuristic needs at least eight characters.\<close>

primrec min_length :: "pattern \<Rightarrow> nat" where
  "min_length Empty = 0"
| "min_length (Sym P) = 1"
| "min_length (Cat p q) = min_length p + min_length q"
| "min_length (Alt p q) = min (min_length p) (min_length q)"
| "min_length (Star p) = 0"
| "min_length (Anchor P) = 0"
| "min_length (Capture n p) = min_length p"

lemma runs_min_length: "t \<in> set (runs p s) \<Longrightarrow> min_length p + length (fst (snd t)) \<le> length (fst (snd s))"
proof (induction p arbitrary: s t)
  case (Star p)
  then show ?case using runs_advance [of t "Star p" s] by (auto simp: advances_def)
next
  case (Cat p q)
  from Cat.prems obtain r where r: "r \<in> set (runs p s)" "t \<in> set (runs q r)" by auto
  then show ?case using Cat.IH(1) [OF r(1)] Cat.IH(2) [OF r(2)] by simp
next
  case (Capture n p)
  obtain b a c where s: "s = (b, a, c)" by (cases s)
  with Capture.prems obtain r where "r \<in> set (runs p s)" "fst (snd t) = fst (snd r)" by auto
  then show ?case using Capture.IH by fastforce
next
  case (Alt p q)
  then show ?case using min.cobounded1 [of "min_length p" "min_length q"] min.cobounded2 [of "min_length p" "min_length q"]
    by (fastforce dest: Alt.IH)
qed (auto split: prod.splits list.splits if_splits)

lemma first_run_min_length:
  assumes "first_run p progress b a = Some t"
  shows "min_length p \<le> length a"
proof -
  have "t \<in> set (runs p (b, a, []))" using assms by (auto simp: first_run_def dest: find_SomeD)
  from runs_min_length [OF this] show ?thesis by simp
qed

lemma search_from_min_length: "search_from p b a \<noteq> None \<Longrightarrow> min_length p \<le> length a"
proof (induction p b a rule: search_from.induct)
  case (2 p b x a)
  then show ?case using first_run_min_length [of p False b "x # a"] by (auto split: option.splits)
qed (auto dest: first_run_min_length)

lemma re_found_min_length: "re_found p s \<Longrightarrow> min_length p \<le> length s"
  using search_from_min_length [of p "[]" s] by (simp add: re_found_def re_search_def)

lemma min_length_cats [simp]: "min_length (cats ps) = sum_list (map min_length ps)"
  by (induction ps rule: cats.induct) auto

lemma min_length_lits [simp]: "min_length (lit_i w) = length w" "min_length (chr c) = 1" "min_length (chr_i c) = 1"
  "min_length spaces1 = 1" "min_length spaces0 = 0" "min_length word_boundary = 0" "min_length (opt p) = 0" "min_length (plus p) = min_length p"
  by (simp_all add: lit_i_def chr_def chr_i_def spaces1_def spaces0_def word_boundary_def opt_def plus_def comp_def sum_list_triv)

definition phrase_length :: "string \<Rightarrow> nat" where
  "phrase_length s = (case map length (words s) of [] \<Rightarrow> 0 | n # ns \<Rightarrow> n + sum_list (map Suc ns))"

lemma min_length_phrase [simp]: "min_length (phrase_i s) = phrase_length s"
proof -
  have "sum_list (map min_length (concat (map (\<lambda>q. [spaces1, q]) (map lit_i ws)))) = sum_list (map Suc (map length ws))" for ws
    by (induction ws) auto
  then show ?thesis by (cases "words s") (simp_all add: phrase_i_def phrase_length_def)
qed

lemma min_length_alts: "ps \<noteq> [] \<Longrightarrow> list_all (\<lambda>p. k \<le> min_length p) ps \<Longrightarrow> k \<le> min_length (alts ps)"
  by (induction ps rule: alts.induct) auto

lemma min_length_one_of: "ws \<noteq> [] \<Longrightarrow> list_all (\<lambda>n. k \<le> n) (map phrase_length ws) \<Longrightarrow> k \<le> min_length (one_of_i ws)"
  unfolding one_of_i_def by (rule min_length_alts) (auto simp: list_all_iff)

lemma phrase_lengths:
  "list_all (\<lambda>n. 6 \<le> n) (map phrase_length [''ignore'', ''disregard'', ''forget'', ''bypass''])"
  "list_all (\<lambda>n. 4 \<le> n) (map phrase_length [''rate'', ''score'', ''give''])"
  "list_all (\<lambda>n. 2 \<le> n) (map phrase_length [''this candidate'', ''me'', ''them''])"
  "list_all (\<lambda>n. 6 \<le> n) (map phrase_length [''output'', ''respond with''])"
  "list_all (\<lambda>n. 6 \<le> n) (map phrase_length structure_tags)"
  "8 \<le> phrase_length ''system override''" "8 \<le> phrase_length ''new system prompt''" "8 \<le> phrase_length ''you are now''"
  by code_simp+

lemma heuristics_min_length:
  "8 \<le> min_length ignore_override" "8 \<le> min_length system_override" "8 \<le> min_length score_override"
  "8 \<le> min_length output_override" "8 \<le> min_length DELIMITER_INJECTION_PATTERN"
proof -
  note one_of = phrase_lengths(1-5) [THEN min_length_one_of [rotated]]
  show "8 \<le> min_length ignore_override" using one_of(1) by (simp add: ignore_override_def)
  show "8 \<le> min_length system_override" using phrase_lengths(6-8) by (simp add: system_override_def)
  show "8 \<le> min_length score_override" using one_of(2,3) by (simp add: score_override_def)
  show "8 \<le> min_length output_override" using one_of(4) by (simp add: output_override_def)
  show "8 \<le> min_length DELIMITER_INJECTION_PATTERN"
    using one_of(5) by (simp add: DELIMITER_INJECTION_PATTERN_def structure_tags_def)
qed

lemma short_text_passes: "length s < 8 \<Longrightarrow> \<not> is_flagged s"
  unfolding is_flagged_iff INJECTION_OVERRIDE_PATTERNS_def using heuristics_min_length re_found_min_length by fastforce

end
