(* ===== verification/Citations.thy ===== *)
theory Citations
  imports Excerpts Injection Evaluation
begin

text \<open>
  Verification of the citations and claims of a Stage 3 assessment against the registry of evidence
  (\<open>verify_evidence\<close> of \<open>app/stage3_evaluation/evidence.py\<close>): what it checks, and what an assessment
  that needs no review has behind it.
\<close>

section \<open>Definitions\<close>

type_synonym registry = "(string \<times> evidence_reference) list"

definition EVIDENCE_CATEGORIES :: "string list" where
  "EVIDENCE_CATEGORIES = [''SKILLS'', ''EXPERIENCE'', ''PROJECTS'', ''EDUCATION'']"

definition CITATION_PATTERN :: pattern where
  "CITATION_PATTERN = cats [alts (map lit EVIDENCE_CATEGORIES), chr CHR '':'', Sym (\<lambda>c. is_digit c \<and> c \<noteq> CHR ''0''),
     Star (Sym is_digit), Anchor (\<lambda>b a. a = [])]"

definition number_pattern :: pattern where
  "number_pattern = Cat (plus (Sym is_digit)) (opt (Cat (chr CHR ''.'') (plus (Sym is_digit))))"

definition numbers_in :: "string \<Rightarrow> string list" where
  "numbers_in s = re_findall number_pattern s"

definition citation_reason :: "registry \<Rightarrow> string list \<Rightarrow> string \<Rightarrow> string option" where
  "citation_reason reg allowed citation =
    (if re_fullmatch CITATION_PATTERN citation = None then Some ''MALFORMED_CITATION''
     else case map_of reg citation of
        None \<Rightarrow> Some ''UNKNOWN_CITATION''
      | Some r \<Rightarrow> if er_category r \<notin> set allowed then Some ''WRONG_CATEGORY'' else None)"

definition checked :: "string \<Rightarrow> string \<Rightarrow> string option \<Rightarrow> citation_check" where
  "checked field citation reason =
     \<lparr>ck_field = field, ck_citation = citation, ck_valid = (reason = None), ck_reason = reason\<rparr>"

text \<open>What a check adds: entries, reasons, and whether it passed.\<close>

type_synonym findings = "citation_check list \<times> string list \<times> bool"

definition check_citations :: "registry \<Rightarrow> string list \<Rightarrow> string \<Rightarrow> string list \<Rightarrow> findings" where
  "check_citations reg allowed field citations =
    (let checks = map (\<lambda>c. checked field c (citation_reason reg allowed c)) citations
     in (checks,
         (if citations = [] then [''MISSING_CITATIONS:'' @ field] else []) @
         (if list_ex (\<lambda>c. \<not> ck_valid c) checks then [''INVALID_CITATIONS:'' @ field] else []),
         citations \<noteq> [] \<and> list_all ck_valid checks))"

definition claim_reason :: "registry \<Rightarrow> string list \<Rightarrow> string list \<Rightarrow> supported_claim \<Rightarrow> string option" where
  "claim_reason reg allowed citations c =
    (case map_of reg (cl_citation c) of
       None \<Rightarrow> Some ''INVALID_CLAIM_CITATION''
     | Some r \<Rightarrow>
         if er_category r \<notin> set allowed \<or> cl_citation c \<notin> set citations then Some ''INVALID_CLAIM_CITATION''
         else if strip (cl_claim c) = [] \<or> strip (cl_quote c) = [] then Some ''EMPTY_CLAIM_SUPPORT''
         else if \<not> nonempty (cl_evidence_id c) \<and> contains ''...'' (cl_quote c) then Some ''ELLIPSIS_IN_QUOTE''
         else if \<not> contains (normalize_text (cl_quote c)) (normalize_text (er_text r)) then Some ''QUOTE_NOT_IN_SOURCE''
         else if nonempty (cl_evidence_id c) \<and> cl_evidence_id c \<noteq> er_evidence_id r then Some ''INVALID_EVIDENCE_ID''
         else if nonempty (cl_evidence_id c) \<and> \<not> claim_is_source_excerpt (cl_claim c) (er_text r)
         then Some ''CLAIM_NOT_EXPLICIT_IN_SOURCE''
         else if \<not> set (numbers_in (cl_claim c)) \<subseteq> set (numbers_in (cl_quote c)) then Some ''NUMERIC_CLAIM_NOT_IN_QUOTE''
         else None)"

definition check_support ::
  "bool \<Rightarrow> registry \<Rightarrow> string list \<Rightarrow> string \<Rightarrow> string list \<Rightarrow> supported_claim list \<Rightarrow> findings" where
  "check_support require_claim_support reg allowed field citations claims =
    (let reasons = map (claim_reason reg allowed citations) claims;
         backed = map cl_citation (filter (\<lambda>c. claim_reason reg allowed citations c = None) claims);
         unclaimed = require_claim_support \<and> citations \<noteq> [] \<and> claims = [];
         unsupported = list_ex (\<lambda>r. r \<noteq> None) reasons;
         uncovered = require_claim_support \<and> \<not> set citations \<subseteq> set backed
     in (map (\<lambda>c. checked (field @ ''.claims'') (cl_citation c) (claim_reason reg allowed citations c)) claims,
         (if unclaimed \<or> uncovered then [''MISSING_CLAIM_SUPPORT:'' @ field] else []) @
         (if unsupported then [''UNSUPPORTED_CLAIM:'' @ field] else []),
         \<not> unclaimed \<and> \<not> unsupported \<and> \<not> uncovered))"

definition both :: "findings \<Rightarrow> findings \<Rightarrow> findings" where
  "both f g = (fst f @ fst g, fst (snd f) @ fst (snd g), snd (snd f) \<and> snd (snd g))"

definition check_item ::
  "bool \<Rightarrow> registry \<Rightarrow> string list \<Rightarrow> string \<Rightarrow> string list \<Rightarrow> supported_claim list \<Rightarrow> findings" where
  "check_item require reg allowed field citations claims =
     both (check_citations reg allowed field citations) (check_support require reg allowed field citations claims)"

definition assessments :: "llm_evaluation_output \<Rightarrow> (string \<times> category_assessment) list" where
  "assessments out = zip EVIDENCE_CATEGORIES [skills out, experience out, projects out, education out]"

definition check_category :: "bool \<Rightarrow> registry \<Rightarrow> string \<times> category_assessment \<Rightarrow> findings" where
  "check_category require reg x = (case x of (category, a) \<Rightarrow>
     both ([], if list_ex (\<lambda>r. er_category r = category) (map snd reg) then [] else [''MISSING_EVIDENCE:'' @ category], True)
       (check_item require reg [category] (lower category) (ca_citations a) (ca_claims a)))"

definition flag_categories :: "flag_detail \<Rightarrow> string list" where
  "flag_categories f = (if fl_type f = EVIDENCED_CAREER_GAP then [''EXPERIENCE''] else EVIDENCE_CATEGORIES)"

definition check_flag :: "bool \<Rightarrow> registry \<Rightarrow> nat \<times> flag_detail \<Rightarrow> findings" where
  "check_flag require reg x = (case x of (index, f) \<Rightarrow>
     check_item require reg (flag_categories f) (''flags['' @ show_nat index @ '']'') (fl_citations f) (fl_claims f))"

definition evidence_signals :: "registry \<Rightarrow> string list" where
  "evidence_signals reg = map (\<lambda>(tag, r). ''EVIDENCE_INJECTION_SIGNAL:'' @ tag) (filter (\<lambda>(tag, r). is_flagged (er_text r)) reg)"

definition verify_evidence ::
  "llm_evaluation_output \<Rightarrow> registry \<Rightarrow> string \<Rightarrow> string list \<Rightarrow> bool \<Rightarrow> bool \<Rightarrow> evidence_verification result" where
  "verify_evidence out reg candidate_id injection_signals require_claim_support context_complete =
    (if list_ex (\<lambda>r. er_candidate_id r \<noteq> candidate_id) (map snd reg) then Inl (ValueError ''Cross-candidate registry'')
     else let signals = injection_signals @ evidence_signals reg;
              flagged = map (\<lambda>x. (fst x, check_flag require_claim_support reg x)) (List.enumerate 0 (flags out));
              found = map (check_category require_claim_support reg) (assessments out) @ map snd flagged;
              reasons = (if context_complete then [] else [''EVIDENCE_CONTEXT_TRUNCATED'']) @ concat (map (fst \<circ> snd) found) @
                (if signals = [] then [] else [''INJECTION_SIGNAL_REQUIRES_REVIEW''])
       in Inr \<lparr>ev_registry = reg, ev_checks = concat (map fst found), ev_review_reasons = sorted_set reasons,
               ev_verified_flag_indices = map fst (filter (snd \<circ> snd \<circ> snd) flagged),
               ev_injection_signals = sorted_set signals, ev_context_metadata = []\<rparr>)"

section \<open>What a verified item has behind it\<close>

text \<open>A cited tag names evidence of an allowed category; a claim is quoted from the evidence it cites.\<close>

definition cites :: "registry \<Rightarrow> string list \<Rightarrow> string \<Rightarrow> bool" where
  "cites reg allowed citation = (\<exists>r. map_of reg citation = Some r \<and> er_category r \<in> set allowed)"

definition claim_backed :: "registry \<Rightarrow> string list \<Rightarrow> string list \<Rightarrow> supported_claim \<Rightarrow> bool" where
  "claim_backed reg allowed citations c = (\<exists>r. map_of reg (cl_citation c) = Some r \<and> er_category r \<in> set allowed \<and>
     cl_citation c \<in> set citations \<and> contains (normalize_text (cl_quote c)) (normalize_text (er_text r)) \<and>
     set (numbers_in (cl_claim c)) \<subseteq> set (numbers_in (cl_quote c)) \<and>
     (nonempty (cl_evidence_id c) \<longrightarrow> cl_evidence_id c = er_evidence_id r \<and> claim_is_source_excerpt (cl_claim c) (er_text r)))"

definition item_backed :: "bool \<Rightarrow> registry \<Rightarrow> string list \<Rightarrow> string list \<Rightarrow> supported_claim list \<Rightarrow> bool" where
  "item_backed require reg allowed citations claims \<longleftrightarrow> citations \<noteq> [] \<and> list_all (cites reg allowed) citations \<and>
     list_all (claim_backed reg allowed citations) claims \<and> (require \<longrightarrow> set citations \<subseteq> set (map cl_citation claims))"

lemma citation_reason_None: "citation_reason reg allowed c = None \<Longrightarrow> cites reg allowed c"
  by (auto simp: citation_reason_def cites_def split: if_splits option.splits)

lemma claim_reason_None: "claim_reason reg allowed citations c = None \<Longrightarrow> claim_backed reg allowed citations c"
  by (auto simp: claim_reason_def claim_backed_def split: if_splits option.splits)

lemma checked_simps [simp]: "ck_valid (checked f c r) \<longleftrightarrow> r = None" "ck_citation (checked f c r) = c"
  "ck_field (checked f c r) = f" "ck_reason (checked f c r) = r"
  by (simp_all add: checked_def)

lemma check_citations_passed:
  "snd (snd (check_citations reg allowed field citations)) \<longleftrightarrow> fst (snd (check_citations reg allowed field citations)) = []"
  by (auto simp: check_citations_def Let_def list_ex_iff list_all_iff)

lemma check_support_passed:
  "snd (snd (check_support require reg allowed field citations claims)) \<longleftrightarrow>
     fst (snd (check_support require reg allowed field citations claims)) = []"
  by (auto simp: check_support_def Let_def)

lemma check_item_passed:
  "snd (snd (check_item require reg allowed field citations claims)) \<longleftrightarrow>
     fst (snd (check_item require reg allowed field citations claims)) = []"
  by (simp add: check_item_def both_def check_citations_passed check_support_passed)

lemma check_item_backed:
  assumes "fst (snd (check_item require reg allowed field citations claims)) = []"
  shows "item_backed require reg allowed citations claims"
proof -
  have c: "citations \<noteq> []" "\<And>x. x \<in> set citations \<Longrightarrow> citation_reason reg allowed x = None"
    using assms by (auto simp: check_item_def both_def check_citations_def Let_def list_ex_iff split: if_splits)
  have s: "\<And>x. x \<in> set claims \<Longrightarrow> claim_reason reg allowed citations x = None"
    "require \<Longrightarrow> set citations \<subseteq> cl_citation ` set claims"
    using assms by (auto simp: check_item_def both_def check_support_def Let_def list_ex_iff image_iff subset_iff split: if_splits)
  show ?thesis using c s by (auto simp: item_backed_def list_all_iff intro: citation_reason_None claim_reason_None)
qed

lemma verify_evidence_Inr:
  assumes "verify_evidence out reg i signals require whole = Inr v"
  shows "ev_registry v = reg" "list_all (\<lambda>r. er_candidate_id r = i) (map snd reg)"
    "ev_review_reasons v = [] \<Longrightarrow> whole \<and> signals = [] \<and> evidence_signals reg = [] \<and>
       list_all (\<lambda>x. fst (snd (check_category require reg x)) = []) (assessments out) \<and>
       list_all (\<lambda>x. fst (snd (check_flag require reg x)) = []) (List.enumerate 0 (flags out))"
    "k \<in> set (ev_verified_flag_indices v) \<Longrightarrow> k < length (flags out) \<and> fst (snd (check_flag require reg (k, flags out ! k))) = []"
proof -
  have own: "list_all (\<lambda>r. er_candidate_id r = i) (map snd reg)"
    using assms by (auto simp: verify_evidence_def list_ex_iff list_all_iff split: if_splits)
  then have v: "v = (case verify_evidence out reg i signals require whole of Inr x \<Rightarrow> x)" "\<not> list_ex (\<lambda>r. er_candidate_id r \<noteq> i) (map snd reg)"
    using assms by (auto simp: list_ex_iff list_all_iff)
  note d = v(1) [unfolded verify_evidence_def if_not_P [OF v(2)] Let_def sum.case]
  show "ev_registry v = reg" by (simp add: d)
  show "list_all (\<lambda>r. er_candidate_id r = i) (map snd reg)" by (rule own)
  show "ev_review_reasons v = [] \<Longrightarrow> whole \<and> signals = [] \<and> evidence_signals reg = [] \<and>
       list_all (\<lambda>x. fst (snd (check_category require reg x)) = []) (assessments out) \<and>
       list_all (\<lambda>x. fst (snd (check_flag require reg x)) = []) (List.enumerate 0 (flags out))"
    by (auto simp: d list_all_iff split: if_splits)
  have flag: "snd (snd (check_flag require reg x)) \<longleftrightarrow> fst (snd (check_flag require reg x)) = []" for x
    by (simp add: check_flag_def check_item_passed split: prod.splits)
  show "k \<in> set (ev_verified_flag_indices v) \<Longrightarrow> k < length (flags out) \<and> fst (snd (check_flag require reg (k, flags out ! k))) = []"
    by (auto simp: d flag in_set_enumerate_eq)
qed

text \<open>An assessment without review reasons rests on clean, complete, cited evidence in every category.\<close>

lemma verified_assessment:
  assumes "verify_evidence out reg i signals require whole = Inr v" "ev_review_reasons v = []"
  shows "whole" "signals = []" "list_all (\<lambda>r. \<not> is_flagged (er_text r)) (map snd reg)"
    "\<And>category a. (category, a) \<in> set (assessments out) \<Longrightarrow> item_backed require reg [category] (ca_citations a) (ca_claims a)"
    "\<And>f. f \<in> set (flags out) \<Longrightarrow> item_backed require reg (flag_categories f) (fl_citations f) (fl_claims f)"
proof -
  note v = verify_evidence_Inr(3) [OF assms]
  show "whole" "signals = []" using v by auto
  show "list_all (\<lambda>r. \<not> is_flagged (er_text r)) (map snd reg)"
    using v by (auto simp: evidence_signals_def filter_empty_conv list_all_iff)
  show "item_backed require reg [category] (ca_citations a) (ca_claims a)" if "(category, a) \<in> set (assessments out)" for category a
  proof -
    have "fst (snd (check_category require reg (category, a))) = []" using v that by (auto simp: list_all_iff)
    then show ?thesis by (intro check_item_backed [where field = "lower category"]) (auto simp: check_category_def both_def)
  qed
  show "item_backed require reg (flag_categories f) (fl_citations f) (fl_claims f)" if f: "f \<in> set (flags out)" for f
  proof -
    obtain k where "k < length (flags out)" "flags out ! k = f" using f unfolding in_set_conv_nth by blast
    then have "(k, f) \<in> set (List.enumerate 0 (flags out))" by (auto simp: in_set_enumerate_eq)
    then have "fst (snd (check_flag require reg (k, f))) = []" using v by (auto simp: list_all_iff)
    then show ?thesis by (intro check_item_backed [where field = "''flags['' @ show_nat k @ '']''"]) (auto simp: check_flag_def)
  qed
qed

lemma verified_flag:
  assumes "verify_evidence out reg i signals require whole = Inr v" "k \<in> set (ev_verified_flag_indices v)"
  shows "item_backed require reg (flag_categories (flags out ! k)) (fl_citations (flags out ! k)) (fl_claims (flags out ! k))"
  using verify_evidence_Inr(4) [OF assms]
  by (intro check_item_backed [where field = "''flags['' @ show_nat k @ '']''"]) (auto simp: check_flag_def)

end
