(* ===== verification/Evidence_Registry.thy ===== *)
theory Evidence_Registry
  imports Citations Evaluation_Dump
begin

text \<open>
  The registry of citable evidence (\<open>build_evidence_registry\<close> and \<open>sentence_registry\<close> of
  \<open>app/stage3_evaluation/evidence.py\<close>): built from the retrieved chunks of one candidate, never from
  model output. The hash of a JSON list is the parameter \<open>H\<close>; the numbers pydantic reads out of values that
  are not JSON numbers (booleans, numeric strings) are the parameter \<open>lax\<close>.
\<close>

section \<open>Validated values\<close>

definition xml_char :: "char \<Rightarrow> bool" where
  "xml_char c = (c \<in> set [char_of (9::nat), char_of (10::nat), char_of (13::nat)] \<or> 32 \<le> code_point c)"

fun checked_text :: "json \<Rightarrow> string result" where
  "checked_text (JStr s) = (if list_all xml_char s then Inr s else Inl (ValueError ''Invalid XML text''))"
| "checked_text _ = Inl (ValueError ''Invalid XML text'')"

definition xml_safe_text :: "string \<Rightarrow> string" where
  "xml_safe_text s = map (\<lambda>c. if xml_char c then c else CHR '' '') s"

definition invalid :: "'a result" where
  "invalid = Inl (ValueError ''validation error'')"

fun valid_opt_str :: "json \<Rightarrow> string option result" where
  "valid_opt_str JNull = Inr None"
| "valid_opt_str (JStr s) = Inr (Some s)"
| "valid_opt_str _ = invalid"

definition lax_number :: "(json \<Rightarrow> rat option) \<Rightarrow> json \<Rightarrow> rat option" where
  "lax_number lax v = (case v of JNum x \<Rightarrow> Some x | _ \<Rightarrow> lax v)"

definition valid_nat :: "(json \<Rightarrow> rat option) \<Rightarrow> nat \<Rightarrow> json \<Rightarrow> nat result" where
  "valid_nat lax least v = (case lax_number lax v of
     None \<Rightarrow> invalid
   | Some x \<Rightarrow> if x = of_int \<lfloor>x\<rfloor> \<and> int least \<le> \<lfloor>x\<rfloor> then Inr (nat \<lfloor>x\<rfloor>) else invalid)"

definition valid_opt_nat :: "(json \<Rightarrow> rat option) \<Rightarrow> nat \<Rightarrow> json \<Rightarrow> nat option result" where
  "valid_opt_nat lax least v = (if v = JNull then Inr None else rbind (valid_nat lax least v) (\<lambda>n. Inr (Some n)))"

definition valid_bbox :: "(json \<Rightarrow> rat option) \<Rightarrow> json \<Rightarrow> (rat \<times> rat \<times> rat \<times> rat) result" where
  "valid_bbox lax v = (case v of
     JList vs \<Rightarrow> (case map (lax_number lax) vs of
         [Some a, Some b, Some c, Some d] \<Rightarrow> Inr (a, b, c, d)
       | _ \<Rightarrow> invalid)
   | _ \<Rightarrow> invalid)"

definition bbox_json :: "rat \<times> rat \<times> rat \<times> rat \<Rightarrow> json" where
  "bbox_json x = (case x of (a, b, c, d) \<Rightarrow> JList (map JNum [a, b, c, d]))"

definition valid_block :: "(json \<Rightarrow> rat option) \<Rightarrow> json \<Rightarrow> json result" where
  "valid_block lax v = (case v of
     JDict d \<Rightarrow>
       if \<not> set (map fst d) \<subseteq> {''page_number'', ''block_index'', ''bbox''} then invalid
       else rbind (valid_nat lax 1 (dget d ''page_number'' JNull)) (\<lambda>p.
            rbind (valid_nat lax 0 (dget d ''block_index'' JNull)) (\<lambda>b.
            rbind (valid_bbox lax (dget d ''bbox'' JNull)) (\<lambda>x.
              Inr (JDict [(''page_number'', JNum (of_nat p)), (''block_index'', JNum (of_nat b)), (''bbox'', bbox_json x)]))))
   | _ \<Rightarrow> invalid)"

definition location_fields :: "string list" where
  "location_fields = [''section'', ''chunk_index'', ''page_number'', ''block_index'', ''bbox'', ''blocks'', ''char_start'', ''char_end'']"

definition valid_blocks :: "(json \<Rightarrow> rat option) \<Rightarrow> json \<Rightarrow> json list result" where
  "valid_blocks lax v = (case v of JList vs \<Rightarrow> rmap (valid_block lax) vs | _ \<Rightarrow> invalid)"

definition validate_location :: "(json \<Rightarrow> rat option) \<Rightarrow> json \<Rightarrow> source_location result" where
  "validate_location lax v = (case v of
     JDict d \<Rightarrow>
       if \<not> set (map fst d) \<subseteq> set location_fields then invalid
       else rbind (valid_opt_str (dget d ''section'' JNull)) (\<lambda>section.
            rbind (valid_opt_nat lax 0 (dget d ''chunk_index'' JNull)) (\<lambda>chunk_index.
            rbind (valid_opt_nat lax 1 (dget d ''page_number'' JNull)) (\<lambda>page_number.
            rbind (valid_opt_nat lax 0 (dget d ''block_index'' JNull)) (\<lambda>block_index.
            rbind (let b = dget d ''bbox'' JNull in if b = JNull then Inr None else rbind (valid_bbox lax b) (\<lambda>x. Inr (Some x))) (\<lambda>bbox.
            rbind (valid_blocks lax (dget d ''blocks'' (JList []))) (\<lambda>blocks.
            rbind (valid_opt_nat lax 0 (dget d ''char_start'' JNull)) (\<lambda>char_start.
            rbind (valid_opt_nat lax 0 (dget d ''char_end'' JNull)) (\<lambda>char_end.
              Inr \<lparr>sl_section = section, sl_chunk_index = chunk_index, sl_page_number = page_number,
                   sl_block_index = block_index, sl_bbox = bbox, sl_blocks = blocks, sl_char_start = char_start,
                   sl_char_end = char_end\<rparr>))))))))
   | _ \<Rightarrow> invalid)"

section \<open>One chunk\<close>

definition unhashable :: "json \<Rightarrow> bool" where
  "unhashable v = (case v of JList _ \<Rightarrow> True | JDict _ \<Rightarrow> True | _ \<Rightarrow> False)"

definition allowed_sources :: "string \<Rightarrow> string list" where
  "allowed_sources category =
    (if category = ''SKILLS'' then [''SKILLS'', ''EXPERIENCE'', ''PROJECTS'']
     else if category \<in> {''EXPERIENCE'', ''PROJECTS''} then [''EXPERIENCE'', ''PROJECTS''] else [''EDUCATION'']) @ [''CONTEXT'']"

definition source_of :: "string \<Rightarrow> pydict \<Rightarrow> string result" where
  "source_of category chunk =
    (let v = dget chunk ''category'' (JStr category)
     in if unhashable v then Inl (TypeError ''unhashable type'')
        else case v of JStr s \<Rightarrow> if s \<in> set (allowed_sources category) then Inr s else Inl (ValueError ''Invalid source category'')
           | _ \<Rightarrow> Inl (ValueError ''Invalid source category''))"

definition chunk_location :: "(json \<Rightarrow> rat option) \<Rightarrow> pydict \<Rightarrow> source_location result" where
  "chunk_location lax chunk =
    (let v = dget chunk ''source_location'' JNull
     in validate_location lax (if truthy v then v else JDict
          [(''section'', dget chunk ''section'' JNull), (''chunk_index'', dget chunk ''chunk_index'' JNull),
           (''page_number'', dget chunk ''page_number'' JNull), (''block_index'', dget chunk ''block_index'' JNull)]))"

definition chunk_identity :: "(json list \<Rightarrow> string) \<Rightarrow> string \<Rightarrow> string \<Rightarrow> source_location \<Rightarrow> string \<Rightarrow> pydict \<Rightarrow> string result" where
  "chunk_identity H candidate_id source location body chunk =
    (let v = dget chunk ''chunk_id'' JNull
     in rbind (checked_text (if truthy v then v
                 else JStr (''snapshot:'' @ H [JStr candidate_id, JStr source, location_dump location, JStr body]))) (\<lambda>i.
          if strip i = [] then Inl (ValueError ''Empty chunk identity'') else Inr i))"

type_synonym chunk_signature = "string \<times> string \<times> source_location"
type_synonym building = "registry \<times> ((json \<times> string) \<times> chunk_signature) list"

definition add_chunk ::
  "(json list \<Rightarrow> string) \<Rightarrow> (json \<Rightarrow> rat option) \<Rightarrow> string \<Rightarrow> string \<Rightarrow> nat \<Rightarrow> json \<Rightarrow> building \<Rightarrow> building result" where
  "add_chunk H lax candidate_id category index v st =
    (case v of
       JDict chunk \<Rightarrow>
         if dget chunk ''candidate_id'' (JStr candidate_id) \<noteq> JStr candidate_id then Inl (ValueError ''Invalid evidence ownership'')
         else rbind (checked_text (dget chunk ''text'' (JStr []))) (\<lambda>body.
           if strip body = [] then Inr st
           else rbind (source_of category chunk) (\<lambda>source.
                rbind (chunk_location lax chunk) (\<lambda>location.
                rbind (chunk_identity H candidate_id source location body chunk) (\<lambda>chunk_id.
                  let document = dget chunk ''document_id'' JNull; signature = (body, source, location)
                  in if unhashable document then Inl (TypeError ''unhashable type'')
                     else if map_of (snd st) (document, chunk_id) \<notin> {None, Some signature}
                     then Inl (ValueError ''Conflicting chunk identity'')
                     else rbind (valid_opt_str document) (\<lambda>document_id.
                       Inr (fst st @ [(category @ '':'' @ show_nat index,
                         \<lparr>er_candidate_id = candidate_id, er_category = category, er_source_category = source,
                          er_chunk_id = chunk_id, er_document_id = document_id, er_source_location = location, er_text = body,
                          er_evidence_id = Some (''ev_'' @ H [JStr candidate_id, JStr category, document, JStr chunk_id,
                            JStr source, location_dump location, JStr body]),
                          er_sentence_start = None, er_sentence_end = None\<rparr>)],
                         ((document, chunk_id), signature) # snd st))))))
     | _ \<Rightarrow> Inl (ValueError ''Invalid evidence ownership''))"

section \<open>The registry\<close>

fun add_chunks ::
  "(json list \<Rightarrow> string) \<Rightarrow> (json \<Rightarrow> rat option) \<Rightarrow> string \<Rightarrow> string \<Rightarrow> nat \<Rightarrow> json list \<Rightarrow> building \<Rightarrow> building result" where
  "add_chunks H lax candidate_id category index [] st = Inr st"
| "add_chunks H lax candidate_id category index (v # vs) st =
     rbind (add_chunk H lax candidate_id category index v st) (add_chunks H lax candidate_id category (index + 1) vs)"

fun add_categories ::
  "(json list \<Rightarrow> string) \<Rightarrow> (json \<Rightarrow> rat option) \<Rightarrow> string \<Rightarrow> pydict \<Rightarrow> string list \<Rightarrow> building \<Rightarrow> building result" where
  "add_categories H lax candidate_id evidence [] st = Inr st"
| "add_categories H lax candidate_id evidence (category # cs) st =
    (case dget evidence category (JList []) of
       JList chunks \<Rightarrow> rbind (add_chunks H lax candidate_id category 1 chunks st) (add_categories H lax candidate_id evidence cs)
     | _ \<Rightarrow> Inl (ValueError ''Evidence category must be a list''))"

text \<open>The part of \<open>build_evidence_registry\<close> after the preparation of the payload.\<close>

definition registry_of_payload ::
  "(json list \<Rightarrow> string) \<Rightarrow> (json \<Rightarrow> rat option) \<Rightarrow> string \<Rightarrow> pydict \<Rightarrow> registry result" where
  "registry_of_payload H lax candidate_id payload =
     rbind (checked_text (JStr candidate_id)) (\<lambda>_.
       if dget payload ''candidate_id'' (JStr candidate_id) \<noteq> JStr candidate_id
       then Inl (ValueError ''Evidence belongs to another candidate'')
       else case dget payload ''evidence_by_category'' (JDict []) of
          JDict evidence \<Rightarrow>
            if \<not> set (map fst evidence) \<subseteq> set EVIDENCE_CATEGORIES then Inl (ValueError ''Invalid evidence categories'')
            else rbind (add_categories H lax candidate_id evidence EVIDENCE_CATEGORIES ([], [])) (\<lambda>st. Inr (fst st))
        | _ \<Rightarrow> Inl (ValueError ''Invalid evidence categories''))"

section \<open>Sentences\<close>

definition sentence_stop :: pattern where
  "sentence_stop = Alt (Cat (any_of ''!?'') (Anchor (\<lambda>b a. a = [] \<or> is_space (hd a))))
     (Cat (chr CHR ''.'') (Alt (Anchor (\<lambda>b a. a \<noteq> [] \<and> is_space (hd a) \<and> dropWhile is_space a \<noteq> [] \<and>
        is_upper (hd (dropWhile is_space a)))) text_end))"

fun pieces_at :: "nat \<Rightarrow> nat list \<Rightarrow> (nat \<times> nat) list" where
  "pieces_at start [] = []"
| "pieces_at start (stop # stops) = (start, stop) # pieces_at stop stops"

definition sentence_pieces :: "string \<Rightarrow> (nat \<times> nat) list" where
  "sentence_pieces body = pieces_at 0 (map m_end (re_finditer sentence_stop body) @ [length body])"

definition sentence_of :: "(json list \<Rightarrow> string) \<Rightarrow> evidence_reference \<Rightarrow> nat \<times> nat \<Rightarrow> evidence_reference" where
  "sentence_of H r piece = (case piece of (start, stop) \<Rightarrow>
     r\<lparr>er_text := slice (er_text r) start stop, er_sentence_start := Some start, er_sentence_end := Some stop,
       er_evidence_id := Some (''ev_'' @ take 24 (H [JStr ''sentence-v1'', opt_str (er_evidence_id r),
         JNum (of_nat start), JNum (of_nat stop)]))\<rparr>)"

definition sentences_of :: "(json list \<Rightarrow> string) \<Rightarrow> evidence_reference \<Rightarrow> evidence_reference list" where
  "sentences_of H r = filter (\<lambda>s. strip (er_text s) \<noteq> []) (map (sentence_of H r) (sentence_pieces (er_text r)))"

fun numbered_refs :: "(string \<Rightarrow> nat) \<Rightarrow> evidence_reference list \<Rightarrow> registry" where
  "numbered_refs counts [] = []"
| "numbered_refs counts (r # rs) = (let c = er_category r; n = counts c + 1
     in (c @ '':'' @ show_nat n, r) # numbered_refs (counts(c := n)) rs)"

definition sentence_registry :: "(json list \<Rightarrow> string) \<Rightarrow> registry \<Rightarrow> registry" where
  "sentence_registry H reg = numbered_refs (\<lambda>_. 0) (concat (map (sentences_of H \<circ> snd) reg))"

end
