(* ===== verification/Registry_Facts.thy ===== *)
theory Registry_Facts
  imports Evidence_Registry
begin

text \<open>
  What a registry guarantees: every entry is a chunk of the payload of one candidate under the tag that
  cites it, tags are distinct and well formed, and the sentences of a text cover it without a gap.
\<close>

section \<open>Tags\<close>

lemma digit_code: "n < 10 \<Longrightarrow> code_point (digit n) = 48 + n"
  by (simp add: digit_def code_point_def)

lemma digit_inj: "m < 10 \<Longrightarrow> n < 10 \<Longrightarrow> digit m = digit n \<Longrightarrow> m = n"
  by (metis digit_code add_left_cancel)

lemma show_nat_not_Nil [simp]: "show_nat n \<noteq> []"
  by (subst show_nat.simps) auto

lemma show_nat_inj: "show_nat m = show_nat n \<Longrightarrow> m = n"
proof (induction m arbitrary: n rule: less_induct)
  case (less m)
  show ?case
  proof (cases "m < 10 \<or> n < 10")
    case True
    then show ?thesis using less.prems digit_inj [of m n]
      by (subst (asm) (2) show_nat.simps, subst (asm) (1) show_nat.simps)
        (auto split: if_splits simp: show_nat_not_Nil [THEN not_sym])
  next
    case False
    then have e: "show_nat (m div 10) = show_nat (n div 10)" "digit (m mod 10) = digit (n mod 10)"
      using less.prems by (subst (asm) (2) show_nat.simps, subst (asm) (1) show_nat.simps, simp)+
    have "m div 10 = n div 10" using less.IH [of "m div 10"] e(1) False by simp
    moreover have "m mod 10 = n mod 10" using e(2) by (intro digit_inj) auto
    ultimately show ?thesis by (metis div_mult_mod_eq)
  qed
qed

lemma digit_is_digit: "n < 10 \<Longrightarrow> is_digit (digit n)" "n < 10 \<Longrightarrow> digit n = CHR ''0'' \<longleftrightarrow> n = 0"
proof -
  show "n < 10 \<Longrightarrow> is_digit (digit n)" by (simp add: is_digit_def digit_code)
  have "digit 0 = CHR ''0''" by code_simp
  then show "n < 10 \<Longrightarrow> digit n = CHR ''0'' \<longleftrightarrow> n = 0" using digit_inj [of n 0] by auto
qed

lemma show_nat_digits: "list_all is_digit (show_nat n) \<and> (0 < n \<longrightarrow> hd (show_nat n) \<noteq> CHR ''0'')"
proof (induction n rule: less_induct)
  case (less n)
  show ?case
  proof (cases "n < 10")
    case True
    then show ?thesis by (subst (1 2) show_nat.simps) (simp add: digit_is_digit)
  next
    case False
    then have "list_all is_digit (show_nat (n div 10)) \<and> hd (show_nat (n div 10)) \<noteq> CHR ''0''"
      using less.IH [of "n div 10"] by auto
    then show ?thesis using False by (subst (1 2) show_nat.simps) (simp add: digit_is_digit)
  qed
qed

lemma star_digits: "list_all is_digit w \<Longrightarrow> (rev w @ b, [], c) \<in> set (runs (Star (Sym is_digit)) (b, w, c))"
proof -
  assume w: "list_all is_digit w"
  let ?f = "\<lambda>s t. t \<in> set (runs (Sym is_digit) s) \<and> length (fst (snd t)) < length (fst (snd s))"
  have "?f\<^sup>*\<^sup>* (b, w, c) (rev w @ b, [], c)" using w
  proof (induction w arbitrary: b)
    case (Cons x w)
    show ?case
    proof (rule converse_rtranclp_into_rtranclp)
      show "?f (b, x # w, c) (x # b, w, c)" using Cons.prems by simp
      show "?f\<^sup>*\<^sup>* (x # b, w, c) (rev (x # w) @ b, [], c)" using Cons.IH [of "x # b"] Cons.prems by simp
    qed
  qed simp
  from repeat_runs_complete [OF this, of "length w"] show ?thesis by simp
qed

lemma alts_runs: "t \<in> set (runs (alts ps) s) \<longleftrightarrow> (\<exists>p\<in>set ps. t \<in> set (runs p s))"
  by (induction ps rule: alts.induct) (auto split: list.splits)

lemma runs_CatI: "t \<in> set (runs p s) \<Longrightarrow> u \<in> set (runs q t) \<Longrightarrow> u \<in> set (runs (Cat p q) s)"
  by auto

text \<open>Every tag of a registry has the form that the verification accepts as a citation.\<close>

lemma tag_is_citation:
  assumes "category \<in> set EVIDENCE_CATEGORIES" "0 < n"
  shows "re_fullmatch CITATION_PATTERN (category @ '':'' @ show_nat n) \<noteq> None"
proof -
  obtain x w where xw: "show_nat n = x # w" by (cases "show_nat n") auto
  then have d: "is_digit x" "x \<noteq> CHR ''0''" "list_all is_digit w" using show_nat_digits [of n] assms(2) by auto
  let ?s = "category @ '':'' @ x # w"
  have s1: "(rev category, '':'' @ x # w, []) \<in> set (runs (alts (map lit EVIDENCE_CATEGORIES)) ([], ?s, []))"
    using assms(1) by (auto simp: alts_runs lit_runs intro!: bexI [of _ category])
  have s2: "(CHR '':'' # rev category, x # w, []) \<in> set (runs (chr CHR '':'') (rev category, '':'' @ x # w, []))"
    by (simp add: chr_def)
  have s3: "(x # CHR '':'' # rev category, w, []) \<in>
      set (runs (Sym (\<lambda>c. is_digit c \<and> c \<noteq> CHR ''0'')) (CHR '':'' # rev category, x # w, []))"
    using d by simp
  note s4 = star_digits [OF d(3), of "x # CHR '':'' # rev category" "[]"]
  have s5: "(rev w @ x # CHR '':'' # rev category, [], []) \<in>
      set (runs (Anchor (\<lambda>b a. a = [])) (rev w @ x # CHR '':'' # rev category, [], []))" by simp
  have "(rev w @ x # CHR '':'' # rev category, [], []) \<in> set (runs CITATION_PATTERN ([], ?s, []))"
    unfolding CITATION_PATTERN_def cats.simps
    by (rule runs_CatI [OF s1 runs_CatI [OF s2 runs_CatI [OF s3 runs_CatI [OF s4 s5]]]])
  then have "find (\<lambda>t. fst (snd t) = []) (runs CITATION_PATTERN ([], ?s, [])) \<noteq> None"
    unfolding find_None_iff by (metis fst_conv snd_conv)
  then show ?thesis by (simp add: re_fullmatch_def xw)
qed

lemma tag_inj:
  assumes "c \<in> set EVIDENCE_CATEGORIES" "d \<in> set EVIDENCE_CATEGORIES" "c @ '':'' @ x = d @ '':'' @ y"
  shows "c = d" "x = y"
  using assms by (auto simp: EVIDENCE_CATEGORIES_def)

section \<open>Entries\<close>

text \<open>The chunk that a tag names, and what holds of its entry.\<close>

definition chunk_at :: "pydict \<Rightarrow> string \<Rightarrow> nat \<Rightarrow> pydict \<Rightarrow> bool" where
  "chunk_at evidence category n chunk \<longleftrightarrow> 0 < n \<and>
     (\<exists>vs. dget evidence category (JList []) = JList vs \<and> n \<le> length vs \<and> vs ! (n - 1) = JDict chunk)"

definition entry_ok :: "string \<Rightarrow> pydict \<Rightarrow> string \<times> evidence_reference \<Rightarrow> bool" where
  "entry_ok candidate_id evidence e \<longleftrightarrow> (case e of (tag, r) \<Rightarrow>
     er_candidate_id r = candidate_id \<and> er_category r \<in> set EVIDENCE_CATEGORIES \<and>
     er_source_category r \<in> set (allowed_sources (er_category r)) \<and> strip (er_text r) \<noteq> [] \<and>
     (\<exists>n chunk. chunk_at evidence (er_category r) n chunk \<and> dget chunk ''text'' (JStr []) = JStr (er_text r) \<and>
        tag = er_category r @ '':'' @ show_nat n))"

definition before :: "string \<Rightarrow> nat \<Rightarrow> string \<times> evidence_reference \<Rightarrow> bool" where
  "before category index e \<longleftrightarrow> er_category (snd e) = category \<longrightarrow> (\<exists>n<index. fst e = category @ '':'' @ show_nat n)"

lemma before_Suc: "before c (Suc n) e \<Longrightarrow> before c (Suc (Suc n)) e"
  unfolding before_def by (metis less_SucI)

lemma checked_text_Inr: "checked_text v = Inr s \<Longrightarrow> v = JStr s \<and> list_all xml_char s"
  by (cases v) (auto split: if_splits)

lemma add_chunk_Inr:
  assumes "add_chunk H lax i category index v st = Inr st'"
  obtains (skipped) "st' = st"
  | (added) chunk r where "v = JDict chunk" "fst st' = fst st @ [(category @ '':'' @ show_nat index, r)]"
      "er_candidate_id r = i" "er_category r = category" "dget chunk ''text'' (JStr []) = JStr (er_text r)"
      "strip (er_text r) \<noteq> []" "er_source_category r \<in> set (allowed_sources category)"
proof -
  obtain chunk where v: "v = JDict chunk" using assms by (cases v) (auto simp: add_chunk_def)
  obtain body where b: "checked_text (dget chunk ''text'' (JStr [])) = Inr body"
    using assms by (auto simp: add_chunk_def v rbind_Inr_conv split: if_splits)
  show thesis
  proof (cases "strip body = []")
    case True
    then show thesis using assms b by (intro skipped) (auto simp: add_chunk_def v split: if_splits)
  next
    case False
    obtain source location chunk_id document_id where x: "source_of category chunk = Inr source"
      "fst st' = fst st @ [(category @ '':'' @ show_nat index,
         \<lparr>er_candidate_id = i, er_category = category, er_source_category = source,
          er_chunk_id = chunk_id, er_document_id = document_id, er_source_location = location, er_text = body,
          er_evidence_id = Some (''ev_'' @ H [JStr i, JStr category, dget chunk ''document_id'' JNull, JStr chunk_id,
            JStr source, location_dump location, JStr body]),
          er_sentence_start = None, er_sentence_end = None\<rparr>)]"
      using assms b False by (auto simp: add_chunk_def v rbind_Inr_conv Let_def split: if_splits)
    have "source \<in> set (allowed_sources category)"
      using x(1) by (auto simp: source_of_def Let_def split: if_splits json.splits)
    then show thesis using b False v x(2) by (intro added) (auto dest!: checked_text_Inr)
  qed
qed

lemma add_chunks_ok:
  assumes "add_chunks H lax i category (length pre + 1) vs st = Inr st'" "category \<in> set EVIDENCE_CATEGORIES"
    and "dget evidence category (JList []) = JList (pre @ vs)" "list_all (entry_ok i evidence) (fst st)"
    and "list_all (before category (length pre + 1)) (fst st)" "distinct (map fst (fst st))"
  shows "list_all (entry_ok i evidence) (fst st') \<and> distinct (map fst (fst st')) \<and>
    (\<forall>e\<in>set (fst st'). e \<in> set (fst st) \<or> er_category (snd e) = category)"
  using assms
proof (induction vs arbitrary: pre st)
  case (Cons v vs)
  obtain st1 where s1: "add_chunk H lax i category (length pre + 1) v st = Inr st1"
    and s2: "add_chunks H lax i category (length (pre @ [v]) + 1) vs st1 = Inr st'"
    using Cons.prems(1) by (auto simp: rbind_Inr_conv)
  have b: "list_all (before category (length (pre @ [v]) + 1)) (fst st)"
    using Cons.prems(5) by (auto simp: list_all_iff intro: before_Suc)
  from s1 show ?case
  proof (cases rule: add_chunk_Inr)
    case skipped
    show ?thesis using Cons.IH [OF s2] Cons.prems b by (simp add: skipped)
  next
    case (added chunk r)
    let ?tag = "category @ '':'' @ show_nat (length pre + 1)"
    have "chunk_at evidence category (length pre + 1) chunk"
      using Cons.prems(3) added(1) by (simp add: chunk_at_def)
    then have "entry_ok i evidence (?tag, r)"
      using added Cons.prems(2) unfolding entry_ok_def by auto
    moreover have "before category (length (pre @ [v]) + 1) (?tag, r)" by (auto simp: before_def)
    moreover have "?tag \<notin> set (map fst (fst st))"
    proof
      assume "?tag \<in> set (map fst (fst st))"
      then obtain q where q: "(?tag, q) \<in> set (fst st)" by auto
      then obtain n where n: "?tag = er_category q @ '':'' @ show_nat n" "er_category q \<in> set EVIDENCE_CATEGORIES"
        using Cons.prems(4) by (fastforce simp: list_all_iff entry_ok_def)
      then have "category = er_category q" using tag_inj Cons.prems(2) by metis
      then obtain m where "m < length pre + 1" "?tag = category @ '':'' @ show_nat m"
        using q Cons.prems(5) by (fastforce simp: list_all_iff before_def)
      then show False using show_nat_inj by (metis less_irrefl same_append_eq)
    qed
    ultimately have "list_all (entry_ok i evidence) (fst st1)" "list_all (before category (length (pre @ [v]) + 1)) (fst st1)"
      "distinct (map fst (fst st1))"
      using Cons.prems b added(2) by auto
    then have "list_all (entry_ok i evidence) (fst st') \<and> distinct (map fst (fst st')) \<and>
        (\<forall>e\<in>set (fst st'). e \<in> set (fst st1) \<or> er_category (snd e) = category)"
      using Cons.IH [OF s2 Cons.prems(2)] Cons.prems(3) by simp
    then show ?thesis using added(2,4) by fastforce
  qed
qed simp

lemma add_categories_ok:
  assumes "add_categories H lax i evidence cs st = Inr st'" "set cs \<subseteq> set EVIDENCE_CATEGORIES" "distinct cs"
    and "list_all (entry_ok i evidence) (fst st)" "distinct (map fst (fst st))" "\<forall>e\<in>set (fst st). er_category (snd e) \<notin> set cs"
  shows "list_all (entry_ok i evidence) (fst st') \<and> distinct (map fst (fst st'))"
  using assms
proof (induction cs arbitrary: st)
  case (Cons c cs)
  obtain vs st1 where v: "dget evidence c (JList []) = JList vs" "add_chunks H lax i c 1 vs st = Inr st1"
    "add_categories H lax i evidence cs st1 = Inr st'"
    using Cons.prems(1) by (auto simp: rbind_Inr_conv split: json.splits)
  have "list_all (before c 1) (fst st)" using Cons.prems(6) by (auto simp: list_all_iff before_def)
  then have s1: "list_all (entry_ok i evidence) (fst st1) \<and> distinct (map fst (fst st1)) \<and>
      (\<forall>e\<in>set (fst st1). e \<in> set (fst st) \<or> er_category (snd e) = c)"
    using add_chunks_ok [of H lax i c "[]" vs st st1 evidence] v(1,2) Cons.prems by simp
  then have "\<forall>e\<in>set (fst st1). er_category (snd e) \<notin> set cs" using Cons.prems(3,6) by fastforce
  then show ?case using Cons.IH [OF v(3)] Cons.prems(2,3) s1 by simp
qed simp

lemma registry_of_payload_ok:
  assumes "registry_of_payload H lax i payload = Inr reg"
  obtains evidence where "dget payload ''evidence_by_category'' (JDict []) = JDict evidence"
    "list_all (entry_ok i evidence) reg" "distinct (map fst reg)"
proof -
  obtain evidence st where e: "dget payload ''evidence_by_category'' (JDict []) = JDict evidence"
    "add_categories H lax i evidence EVIDENCE_CATEGORIES ([], []) = Inr st" "reg = fst st"
    using assms by (auto simp: registry_of_payload_def rbind_Inr_conv split: if_splits json.splits)
  show thesis
    using that [OF e(1)] add_categories_ok [OF e(2)] e(3) by (simp add: EVIDENCE_CATEGORIES_def)
qed

section \<open>Sentences\<close>

lemma slice_append: "i \<le> j \<Longrightarrow> j \<le> k \<Longrightarrow> slice s i j @ slice s j k = slice s i k"
proof -
  assume a: "i \<le> j" "j \<le> k"
  have "drop j s = drop (j - i) (drop i s)" using a by simp
  moreover have "k - i = (j - i) + (k - j)" using a by simp
  ultimately show ?thesis by (simp only: slice_def take_add)
qed

lemma pieces_cover:
  assumes "sorted stops" "stops \<noteq> []" "start \<le> hd stops"
  shows "concat (map (\<lambda>(a, b). slice s a b) (pieces_at start stops)) = slice s start (last stops)"
  using assms
proof (induction start stops rule: pieces_at.induct)
  case (2 start stop stops)
  show ?case
  proof (cases "stops = []")
    case False
    then have "stop \<le> hd stops" using 2 by (cases stops) auto
    moreover have "hd stops \<le> last stops" using 2 False by (cases stops) auto
    ultimately show ?thesis using 2 False by (simp add: slice_append)
  qed simp
qed simp

lemma finditer_ends_sorted: "sorted (map m_end (re_finditer p s))"
proof -
  have "sorted_wrt (\<lambda>m n. m_end m \<le> m_end n) (re_finditer p s)"
    using re_finditer_sorted [of p s]
    by (rule sorted_wrt_mono_rel [rotated]) (meson order_trans re_finditer_run_in run_in_bounds)
  then show ?thesis by (simp add: sorted_wrt_map)
qed

text \<open>The sentences of a text, blank ones included, are its consecutive pieces: nothing is lost.\<close>

lemma sentences_cover: "concat (map (\<lambda>(a, b). slice body a b) (sentence_pieces body)) = body"
proof -
  let ?stops = "map m_end (re_finditer sentence_stop body) @ [length body]"
  have "sorted ?stops"
    using finditer_ends_sorted re_finditer_run_in run_in_bounds by (fastforce simp: sorted_append)
  then show ?thesis unfolding sentence_pieces_def using pieces_cover [of ?stops 0 body] by (simp add: slice_def)
qed

lemma sentences_of_iff:
  "q \<in> set (sentences_of H r) \<longleftrightarrow> (\<exists>piece\<in>set (sentence_pieces (er_text r)). q = sentence_of H r piece \<and> strip (er_text q) \<noteq> [])"
  by (auto simp: sentences_of_def)

lemma sentence_of_simps [simp]:
  "er_candidate_id (sentence_of H r piece) = er_candidate_id r" "er_category (sentence_of H r piece) = er_category r"
  "er_source_category (sentence_of H r piece) = er_source_category r" "er_chunk_id (sentence_of H r piece) = er_chunk_id r"
  "er_document_id (sentence_of H r piece) = er_document_id r"
  "er_text (sentence_of H r piece) = slice (er_text r) (fst piece) (snd piece)"
  by (simp_all add: sentence_of_def split: prod.splits)

lemma numbered_refs_in:
  "(tag, r) \<in> set (numbered_refs counts rs) \<Longrightarrow>
     r \<in> set rs \<and> (\<exists>n. counts (er_category r) < n \<and> tag = er_category r @ '':'' @ show_nat n)"
proof (induction rs arbitrary: counts)
  case (Cons q rs)
  let ?counts = "counts(er_category q := counts (er_category q) + 1)"
  consider "tag = er_category q @ '':'' @ show_nat (counts (er_category q) + 1)" "r = q" | "(tag, r) \<in> set (numbered_refs ?counts rs)"
    using Cons.prems by (auto simp: Let_def)
  then show ?case
  proof cases
    case 1
    then show ?thesis by (auto intro!: exI [of _ "counts (er_category q) + 1"])
  next
    case 2
    then obtain n where "r \<in> set rs" "?counts (er_category r) < n" "tag = er_category r @ '':'' @ show_nat n"
      using Cons.IH by blast
    then show ?thesis by (intro conjI exI [of _ n]) (auto split: if_splits)
  qed
qed simp

lemma numbered_refs_distinct:
  "(\<forall>r\<in>set rs. er_category r \<in> set EVIDENCE_CATEGORIES) \<Longrightarrow> distinct (map fst (numbered_refs counts rs))"
proof (induction rs arbitrary: counts)
  case (Cons r rs)
  let ?c = "er_category r"
  let ?n = "counts ?c + 1"
  have "(?c @ '':'' @ show_nat ?n, q) \<notin> set (numbered_refs (counts(?c := ?n)) rs)" for q
  proof
    assume q: "(?c @ '':'' @ show_nat ?n, q) \<in> set (numbered_refs (counts(?c := ?n)) rs)"
    from numbered_refs_in [OF this] obtain n where n: "q \<in> set rs" "(counts(?c := ?n)) (er_category q) < n"
      "?c @ '':'' @ show_nat ?n = er_category q @ '':'' @ show_nat n" by blast
    then have "?c = er_category q" "show_nat ?n = show_nat n" using tag_inj [OF _ _ n(3)] Cons.prems by auto
    then show False using n(2) show_nat_inj by fastforce
  qed
  then have "?c @ '':'' @ show_nat ?n \<notin> fst ` set (numbered_refs (counts(?c := ?n)) rs)" by (auto simp: image_iff)
  then show ?case using Cons.IH [of "counts(?c := ?n)"] Cons.prems by (simp add: Let_def del: fun_upd_apply)
qed simp

lemma sentence_registry_in:
  assumes "(tag, q) \<in> set (sentence_registry H reg)"
  obtains t r piece where "(t, r) \<in> set reg" "piece \<in> set (sentence_pieces (er_text r))" "q = sentence_of H r piece"
    "strip (er_text q) \<noteq> []" "\<exists>n>0. tag = er_category q @ '':'' @ show_nat n"
proof -
  from numbered_refs_in [OF assms [unfolded sentence_registry_def]]
  have q: "\<exists>n>0. tag = er_category q @ '':'' @ show_nat n" "\<exists>x\<in>set reg. q \<in> set (sentences_of H (snd x))" by auto
  then obtain t r where r: "(t, r) \<in> set reg" "q \<in> set (sentences_of H r)" by auto
  then obtain piece where p: "piece \<in> set (sentence_pieces (er_text r))" "q = sentence_of H r piece" "strip (er_text q) \<noteq> []"
    unfolding sentences_of_iff by blast
  show thesis by (rule that [OF r(1) p q(1)])
qed

lemma sentence_registry_distinct:
  assumes "list_all (entry_ok i evidence) reg"
  shows "distinct (map fst (sentence_registry H reg))"
  unfolding sentence_registry_def
  by (rule numbered_refs_distinct) (use assms in \<open>fastforce simp: sentences_of_iff list_all_iff entry_ok_def\<close>)

end
