(* ===== verification/Trusted_Selection.thy ===== *)
theory Trusted_Selection
  imports Registry_Facts
begin

text \<open>
  The language model only selects evidence; trusted code attaches the text
  (\<open>resolve_evidence_selection\<close>, \<open>resolve_sentence_selection\<close> of \<open>app/stage3_evaluation/evidence.py\<close> and the
  handles of \<open>compact.py\<close>). A selection that pydantic accepted is a record; the constraint on its scores is
  \<open>score_ok\<close>.
\<close>

section \<open>Selections\<close>

record sentence_assessment =
  st_score :: rat
  st_rationale :: string
  st_citations :: "string list"

record sentence_flag =
  sf_type :: flag_type
  sf_severity :: severity
  sf_description :: string
  sf_citations :: "string list"

record selection_claim =
  sc_claim :: string
  sc_citation :: string

record evidence_assessment = sentence_assessment +
  ea_claims :: "selection_claim list"

record evidence_flag = sentence_flag +
  ef_claims :: "selection_claim list"

record ('a, 'f) selection =
  so_skills :: 'a
  so_experience :: 'a
  so_projects :: 'a
  so_education :: 'a
  so_flags :: "'f list"
  so_executive_summary :: string
  so_improvement_suggestions :: "string list"

record ('a, 'f) compact_selection = "('a, 'f) selection" +
  so_evidence_scope :: string

definition map_selection :: "('a \<Rightarrow> 'b) \<Rightarrow> ('f \<Rightarrow> 'g) \<Rightarrow> ('a, 'f, 'z) selection_scheme \<Rightarrow> ('b, 'g) selection" where
  "map_selection f g x = \<lparr>so_skills = f (so_skills x), so_experience = f (so_experience x), so_projects = f (so_projects x),
     so_education = f (so_education x), so_flags = map g (so_flags x), so_executive_summary = so_executive_summary x,
     so_improvement_suggestions = so_improvement_suggestions x\<rparr>"

section \<open>From identifiers to trusted text\<close>

text \<open>\<open>by_id\<close>: the last entry under an identifier wins.\<close>

definition entry_by_id :: "registry \<Rightarrow> string \<Rightarrow> (string \<times> evidence_reference) option" where
  "entry_by_id reg i = find (\<lambda>(tag, r). i \<noteq> [] \<and> er_evidence_id r = Some i) (rev reg)"

definition resolved_citation :: "registry \<Rightarrow> string \<Rightarrow> string" where
  "resolved_citation reg c = (case entry_by_id reg c of Some (tag, r) \<Rightarrow> tag | None \<Rightarrow> ''UNKNOWN_ID:'' @ c)"

definition resolved_claim :: "registry \<Rightarrow> selection_claim \<Rightarrow> supported_claim" where
  "resolved_claim reg c = \<lparr>cl_claim = sc_claim c, cl_citation = resolved_citation reg (sc_citation c),
     cl_quote = (case entry_by_id reg (sc_citation c) of Some (tag, r) \<Rightarrow> er_text r | None \<Rightarrow> []),
     cl_evidence_id = Some (sc_citation c)\<rparr>"

definition resolved_assessment :: "registry \<Rightarrow> evidence_assessment \<Rightarrow> category_assessment" where
  "resolved_assessment reg a = \<lparr>ca_score = st_score a, ca_rationale = st_rationale a,
     ca_citations = map (resolved_citation reg) (st_citations a), ca_claims = map (resolved_claim reg) (ea_claims a)\<rparr>"

definition resolved_flag :: "registry \<Rightarrow> evidence_flag \<Rightarrow> flag_detail" where
  "resolved_flag reg f = \<lparr>fl_type = sf_type f, fl_severity = sf_severity f, fl_description = sf_description f,
     fl_citations = map (resolved_citation reg) (sf_citations f), fl_claims = map (resolved_claim reg) (ef_claims f)\<rparr>"

definition resolve_evidence_selection ::
  "(evidence_assessment, evidence_flag) selection \<Rightarrow> registry \<Rightarrow> string \<Rightarrow> llm_evaluation_output result" where
  "resolve_evidence_selection x reg candidate_id =
    (if list_ex (\<lambda>r. er_candidate_id r \<noteq> candidate_id) (map snd reg) then Inl (ValueError ''Cross-candidate registry'')
     else Inr \<lparr>skills = resolved_assessment reg (so_skills x), experience = resolved_assessment reg (so_experience x),
       projects = resolved_assessment reg (so_projects x), education = resolved_assessment reg (so_education x),
       flags = map (resolved_flag reg) (so_flags x), executive_summary = so_executive_summary x,
       improvement_suggestions = so_improvement_suggestions x\<rparr>)"

definition sentence_text :: "registry \<Rightarrow> string \<Rightarrow> string" where
  "sentence_text reg c = (case find (\<lambda>(tag, r). er_evidence_id r = Some c) (rev reg) of Some (tag, r) \<Rightarrow> er_text r | None \<Rightarrow> [])"

definition quoted_claims :: "registry \<Rightarrow> string list \<Rightarrow> selection_claim list" where
  "quoted_claims reg = map (\<lambda>c. \<lparr>sc_claim = sentence_text reg c, sc_citation = c\<rparr>)"

definition claimed_assessment :: "registry \<Rightarrow> sentence_assessment \<Rightarrow> evidence_assessment" where
  "claimed_assessment reg a = \<lparr>st_score = st_score a, st_rationale = st_rationale a, st_citations = st_citations a,
     ea_claims = quoted_claims reg (st_citations a)\<rparr>"

definition claimed_flag :: "registry \<Rightarrow> sentence_flag \<Rightarrow> evidence_flag" where
  "claimed_flag reg f = \<lparr>sf_type = sf_type f, sf_severity = sf_severity f, sf_description = sf_description f,
     sf_citations = sf_citations f, ef_claims = quoted_claims reg (sf_citations f)\<rparr>"

definition resolve_sentence_selection ::
  "(sentence_assessment, sentence_flag) selection \<Rightarrow> registry \<Rightarrow> string \<Rightarrow> llm_evaluation_output result" where
  "resolve_sentence_selection x reg =
     resolve_evidence_selection (map_selection (claimed_assessment reg) (claimed_flag reg) x) reg"

section \<open>Handles\<close>

definition PREFIXES :: "(string \<times> char) list" where
  "PREFIXES = zip EVIDENCE_CATEGORIES ''SEPD''"

type_synonym sentence_key = "string option \<times> string \<times> nat option \<times> nat option \<times> string"
type_synonym sentence_group = "sentence_key \<times> (string \<times> evidence_reference) list"

definition key_of :: "evidence_reference \<Rightarrow> sentence_key" where
  "key_of r = (er_document_id r, er_chunk_id r, er_sentence_start r, er_sentence_end r, er_text r)"

fun add_to_group :: "evidence_reference \<Rightarrow> sentence_group list \<Rightarrow> sentence_group list" where
  "add_to_group r [] = [(key_of r, [(er_category r, r)])]"
| "add_to_group r ((k, refs) # gs) =
     (if k = key_of r then (k, AList.update (er_category r) r refs) # gs else (k, refs) # add_to_group r gs)"

definition sentence_groups :: "registry \<Rightarrow> sentence_group list" where
  "sentence_groups reg = fold (add_to_group \<circ> snd) reg []"

definition is_context :: "sentence_group \<Rightarrow> bool" where
  "is_context g = (case fst (fst g) of None \<Rightarrow> False | Some d \<Rightarrow> starts_with ''context:'' d)"

definition section_label :: pattern where
  "section_label = cats [Anchor (\<lambda>b a. b = []), spaces0, lit ''[Section: '', plus (Sym (\<lambda>c. c \<noteq> CHR '']'')), chr CHR '']'', spaces0]"

definition unlabelled :: "string \<Rightarrow> string" where
  "unlabelled body = join_with '' '' (words (re_sub section_label [] body))"

definition contained_in :: "string \<times> evidence_reference \<Rightarrow> sentence_group \<Rightarrow> bool" where
  "contained_in x other = (case x of (category, r) \<Rightarrow> (case map_of (snd other) category of
       None \<Rightarrow> False
     | Some q \<Rightarrow> er_source_category r = er_source_category q \<and> unlabelled (er_text r) \<noteq> [] \<and>
         re_found (excerpt_pattern (unlabelled (er_text r))) (unlabelled (er_text q))))"

definition retrieval_copy :: "sentence_group list \<Rightarrow> sentence_group \<Rightarrow> bool" where
  "retrieval_copy groups g \<longleftrightarrow> \<not> is_context g \<and>
     list_all (\<lambda>x. list_ex (contained_in x) (filter is_context groups)) (snd g)"

definition first_ref :: "sentence_group \<Rightarrow> evidence_reference" where
  "first_ref g = snd (hd (snd g))"

definition group_order :: "sentence_group \<Rightarrow> bool \<times> nat \<times> nat" where
  "group_order g = (\<not> is_context g, (case sl_char_start (er_source_location (first_ref g)) of None \<Rightarrow> 0 | Some n \<Rightarrow> n),
     (case fst (snd (snd (fst g))) of None \<Rightarrow> 0 | Some n \<Rightarrow> n))"

definition kept_groups :: "registry \<Rightarrow> sentence_group list" where
  "kept_groups reg = (let groups = sentence_groups reg in sort_key group_order (filter (\<lambda>g. \<not> retrieval_copy groups g) groups))"

definition group_handles :: "nat \<Rightarrow> sentence_group \<Rightarrow> (string \<times> string \<times> evidence_reference) list" where
  "group_handles index g = concat (map (\<lambda>(category, prefix). case map_of (snd g) category of
       None \<Rightarrow> [] | Some r \<Rightarrow> [(category, prefix # show_nat index, r)]) PREFIXES)"

record evidence_manifest =
  mf_scope :: string
  mf_rows :: "(evidence_reference \<times> (string \<times> string) list) list"
  mf_handles :: "(string \<times> evidence_reference) list"
  mf_deduplicated :: "string option list"

definition manifest_owners :: "registry \<Rightarrow> string option \<Rightarrow> string list result" where
  "manifest_owners reg candidate_id =
    (let owners = dict_fromkeys (map (er_candidate_id \<circ> snd) reg)
     in case candidate_id of
          None \<Rightarrow> if 1 < length owners then Inl (ValueError ''Cross-candidate registry'') else Inr owners
        | Some i \<Rightarrow> if owners \<noteq> [] \<and> owners \<noteq> [i] then Inl (ValueError ''Cross-candidate registry'') else Inr [i])"

text \<open>\<open>sorted\<close> of several identifiers raises when one of them is missing.\<close>

definition sorted_ids :: "registry \<Rightarrow> string option list result" where
  "sorted_ids reg = (let ids = map (er_evidence_id \<circ> snd) reg in
     if 1 < length ids \<and> None \<in> set ids then Inl (TypeError ''not supported between instances'')
     else Inr (if None \<in> set ids then ids else map Some (sort (map the ids))))"

definition evidence_manifest :: "(json list \<Rightarrow> string) \<Rightarrow> registry \<Rightarrow> string option \<Rightarrow> evidence_manifest result" where
  "evidence_manifest H reg candidate_id =
    rbind (manifest_owners reg candidate_id) (\<lambda>owners.
      let groups = sentence_groups reg; rows = map (\<lambda>(i, g). (first_ref g, group_handles i g)) (List.enumerate 1 (kept_groups reg));
          handles = concat (map (map snd \<circ> snd) rows)
      in rbind (sorted_ids reg) (\<lambda>ids. Inr
        \<lparr>mf_scope = take 32 (H [JStr ''selection-handles-v1'', str_list owners,
           JList (map (\<lambda>(h, r). JList [JStr h, opt_str (er_evidence_id r)]) handles), JList (map opt_str ids)]),
         mf_rows = map (\<lambda>(r, hs). (r, map (\<lambda>(category, handle, _). (category, handle)) hs)) rows, mf_handles = handles,
         mf_deduplicated = concat (map (map (er_evidence_id \<circ> snd) \<circ> snd) (filter (retrieval_copy groups) groups))\<rparr>))"

definition handle_id :: "evidence_manifest \<Rightarrow> string \<Rightarrow> string result" where
  "handle_id m handle = (case map_of (mf_handles m) handle of
     None \<Rightarrow> Inr (''UNKNOWN_HANDLE:'' @ handle)
   | Some r \<Rightarrow> (case er_evidence_id r of None \<Rightarrow> Inl (ValueError ''validation error'') | Some i \<Rightarrow> Inr i))"

definition identified_assessment :: "evidence_manifest \<Rightarrow> sentence_assessment \<Rightarrow> sentence_assessment result" where
  "identified_assessment m a = rbind (rmap (handle_id m) (st_citations a)) (\<lambda>cs. Inr (a\<lparr>st_citations := cs\<rparr>))"

definition identified_flag :: "evidence_manifest \<Rightarrow> sentence_flag \<Rightarrow> sentence_flag result" where
  "identified_flag m f = rbind (rmap (handle_id m) (sf_citations f)) (\<lambda>cs. Inr (f\<lparr>sf_citations := cs\<rparr>))"

definition resolve_compact_selection ::
  "(json list \<Rightarrow> string) \<Rightarrow> (sentence_assessment, sentence_flag) compact_selection \<Rightarrow> registry \<Rightarrow> string \<Rightarrow>
   llm_evaluation_output result" where
  "resolve_compact_selection H x reg candidate_id =
    rbind (evidence_manifest H reg (Some candidate_id)) (\<lambda>m.
      if so_evidence_scope x \<noteq> mf_scope m then Inl (OtherException ''SelectionScopeMismatch'')
      else if list_ex (\<lambda>r. er_candidate_id r \<noteq> candidate_id) (map snd reg) then Inl (ValueError ''Cross-candidate registry'')
      else rbind (identified_assessment m (so_skills x)) (\<lambda>a. rbind (identified_assessment m (so_experience x)) (\<lambda>b.
           rbind (identified_assessment m (so_projects x)) (\<lambda>c. rbind (identified_assessment m (so_education x)) (\<lambda>d.
           rbind (rmap (identified_flag m) (so_flags x)) (\<lambda>fs.
             resolve_sentence_selection
               \<lparr>so_skills = a, so_experience = b, so_projects = c, so_education = d, so_flags = fs,
                so_executive_summary = so_executive_summary x, so_improvement_suggestions = so_improvement_suggestions x\<rparr>
               reg candidate_id))))))"

end
