(* ===== verification/Selection_Parsing.thy ===== *)
theory Selection_Parsing
  imports Trusted_Selection
begin

text \<open>
  What the language model's JSON must look like (\<open>model_validate\<close> of the classes of
  \<open>app/stage3_evaluation/schemas.py\<close>): every field present with its type, scores from 0 to 100, no other
  field. \<open>lax\<close> is pydantic's reading of numbers from other values.
\<close>

section \<open>Fields\<close>

definition field_of :: "string \<Rightarrow> (json \<Rightarrow> 'a result) \<Rightarrow> pydict \<Rightarrow> 'a result" where
  "field_of k parse d = (case map_of d k of None \<Rightarrow> invalid | Some v \<Rightarrow> parse v)"

definition field_default :: "string \<Rightarrow> 'a \<Rightarrow> (json \<Rightarrow> 'a result) \<Rightarrow> pydict \<Rightarrow> 'a result" where
  "field_default k x parse d = (case map_of d k of None \<Rightarrow> Inr x | Some v \<Rightarrow> parse v)"

definition strict_dict :: "string list \<Rightarrow> (pydict \<Rightarrow> 'a result) \<Rightarrow> json \<Rightarrow> 'a result" where
  "strict_dict ks parse v = (case v of JDict d \<Rightarrow> if set (map fst d) \<subseteq> set ks then parse d else invalid | _ \<Rightarrow> invalid)"

definition parse_str :: "json \<Rightarrow> string result" where
  "parse_str v = (case v of JStr s \<Rightarrow> Inr s | _ \<Rightarrow> invalid)"

definition parse_list :: "(json \<Rightarrow> 'a result) \<Rightarrow> json \<Rightarrow> 'a list result" where
  "parse_list parse v = (case v of JList vs \<Rightarrow> rmap parse vs | _ \<Rightarrow> invalid)"

definition parse_score :: "(json \<Rightarrow> rat option) \<Rightarrow> json \<Rightarrow> rat result" where
  "parse_score lax v = (case lax_number lax v of Some x \<Rightarrow> if score_ok x then Inr x else invalid | None \<Rightarrow> invalid)"

definition parse_flag_type :: "json \<Rightarrow> flag_type result" where
  "parse_flag_type v =
    (if v = JStr ''DOCUMENTED_INCONSISTENCY'' then Inr DOCUMENTED_INCONSISTENCY
     else if v = JStr ''EVIDENCED_CAREER_GAP'' then Inr EVIDENCED_CAREER_GAP
     else if v = JStr ''MISSING_INFORMATION'' then Inr MISSING_INFORMATION else invalid)"

definition parse_severity :: "json \<Rightarrow> severity result" where
  "parse_severity v =
    (if v = JStr ''LOW'' then Inr LOW else if v = JStr ''MEDIUM'' then Inr MEDIUM
     else if v = JStr ''HIGH'' then Inr HIGH else if v = JStr ''CRITICAL'' then Inr CRITICAL else invalid)"

section \<open>Selections\<close>

definition parse_sentence_assessment :: "(json \<Rightarrow> rat option) \<Rightarrow> json \<Rightarrow> sentence_assessment result" where
  "parse_sentence_assessment lax = strict_dict [''score'', ''rationale'', ''citations''] (\<lambda>d.
     rbind (field_of ''score'' (parse_score lax) d) (\<lambda>s. rbind (field_of ''rationale'' parse_str d) (\<lambda>r.
     rbind (field_of ''citations'' (parse_list parse_str) d) (\<lambda>cs.
       Inr \<lparr>st_score = s, st_rationale = r, st_citations = cs\<rparr>))))"

definition parse_sentence_flag :: "json \<Rightarrow> sentence_flag result" where
  "parse_sentence_flag = strict_dict [''type'', ''severity'', ''description'', ''citations''] (\<lambda>d.
     rbind (field_of ''type'' parse_flag_type d) (\<lambda>t. rbind (field_of ''severity'' parse_severity d) (\<lambda>s.
     rbind (field_of ''description'' parse_str d) (\<lambda>x. rbind (field_of ''citations'' (parse_list parse_str) d) (\<lambda>cs.
       Inr \<lparr>sf_type = t, sf_severity = s, sf_description = x, sf_citations = cs\<rparr>)))))"

definition parse_selection_claim :: "json \<Rightarrow> selection_claim result" where
  "parse_selection_claim = strict_dict [''claim'', ''citation''] (\<lambda>d.
     rbind (field_of ''claim'' parse_str d) (\<lambda>c. rbind (field_of ''citation'' parse_str d) (\<lambda>i. Inr \<lparr>sc_claim = c, sc_citation = i\<rparr>)))"

definition parse_evidence_assessment :: "(json \<Rightarrow> rat option) \<Rightarrow> json \<Rightarrow> evidence_assessment result" where
  "parse_evidence_assessment lax = strict_dict [''score'', ''rationale'', ''citations'', ''claims''] (\<lambda>d.
     rbind (field_of ''score'' (parse_score lax) d) (\<lambda>s. rbind (field_of ''rationale'' parse_str d) (\<lambda>r.
     rbind (field_of ''citations'' (parse_list parse_str) d) (\<lambda>cs. rbind (field_of ''claims'' (parse_list parse_selection_claim) d) (\<lambda>xs.
       Inr \<lparr>st_score = s, st_rationale = r, st_citations = cs, ea_claims = xs\<rparr>)))))"

definition parse_evidence_flag :: "json \<Rightarrow> evidence_flag result" where
  "parse_evidence_flag = strict_dict [''type'', ''severity'', ''description'', ''citations'', ''claims''] (\<lambda>d.
     rbind (field_of ''type'' parse_flag_type d) (\<lambda>t. rbind (field_of ''severity'' parse_severity d) (\<lambda>s.
     rbind (field_of ''description'' parse_str d) (\<lambda>x. rbind (field_of ''citations'' (parse_list parse_str) d) (\<lambda>cs.
     rbind (field_of ''claims'' (parse_list parse_selection_claim) d) (\<lambda>xs.
       Inr \<lparr>sf_type = t, sf_severity = s, sf_description = x, sf_citations = cs, ef_claims = xs\<rparr>))))))"

definition output_fields :: "string list" where
  "output_fields = [''skills'', ''experience'', ''projects'', ''education'', ''flags'', ''executive_summary'', ''improvement_suggestions'']"

definition parse_fields :: "(json \<Rightarrow> 'a result) \<Rightarrow> (json \<Rightarrow> 'f result) \<Rightarrow> pydict \<Rightarrow> ('a, 'f) selection result" where
  "parse_fields assessment flag d =
     rbind (field_of ''skills'' assessment d) (\<lambda>a. rbind (field_of ''experience'' assessment d) (\<lambda>b.
     rbind (field_of ''projects'' assessment d) (\<lambda>c. rbind (field_of ''education'' assessment d) (\<lambda>e.
     rbind (field_of ''flags'' (parse_list flag) d) (\<lambda>fs. rbind (field_of ''executive_summary'' parse_str d) (\<lambda>x.
     rbind (field_default ''improvement_suggestions'' [] (parse_list parse_str) d) (\<lambda>is.
       Inr \<lparr>so_skills = a, so_experience = b, so_projects = c, so_education = e, so_flags = fs, so_executive_summary = x,
         so_improvement_suggestions = is\<rparr>)))))))"

definition parse_evidence_selection ::
  "(json \<Rightarrow> rat option) \<Rightarrow> json \<Rightarrow> (evidence_assessment, evidence_flag) selection result" where
  "parse_evidence_selection lax = strict_dict output_fields (parse_fields (parse_evidence_assessment lax) parse_evidence_flag)"

definition parse_compact_selection ::
  "(json \<Rightarrow> rat option) \<Rightarrow> json \<Rightarrow> (sentence_assessment, sentence_flag) compact_selection result" where
  "parse_compact_selection lax = strict_dict (output_fields @ [''evidence_scope'']) (\<lambda>d.
     rbind (parse_fields (parse_sentence_assessment lax) parse_sentence_flag d) (\<lambda>x.
     rbind (field_of ''evidence_scope'' parse_str d) (\<lambda>s.
       Inr \<lparr>so_skills = so_skills x, so_experience = so_experience x, so_projects = so_projects x, so_education = so_education x,
         so_flags = so_flags x, so_executive_summary = so_executive_summary x,
         so_improvement_suggestions = so_improvement_suggestions x, so_evidence_scope = s\<rparr>)))"

section \<open>Outputs\<close>

definition parse_claim :: "json \<Rightarrow> supported_claim result" where
  "parse_claim = strict_dict [''claim'', ''citation'', ''quote'', ''evidence_id''] (\<lambda>d.
     rbind (field_of ''claim'' parse_str d) (\<lambda>c. rbind (field_of ''citation'' parse_str d) (\<lambda>i.
     rbind (field_of ''quote'' parse_str d) (\<lambda>q. rbind (field_default ''evidence_id'' None valid_opt_str d) (\<lambda>e.
       Inr \<lparr>cl_claim = c, cl_citation = i, cl_quote = q, cl_evidence_id = e\<rparr>)))))"

definition parse_assessment :: "(json \<Rightarrow> rat option) \<Rightarrow> json \<Rightarrow> category_assessment result" where
  "parse_assessment lax = strict_dict [''score'', ''rationale'', ''citations'', ''claims''] (\<lambda>d.
     rbind (field_of ''score'' (parse_score lax) d) (\<lambda>s. rbind (field_of ''rationale'' parse_str d) (\<lambda>r.
     rbind (field_of ''citations'' (parse_list parse_str) d) (\<lambda>cs. rbind (field_default ''claims'' [] (parse_list parse_claim) d) (\<lambda>xs.
       Inr \<lparr>ca_score = s, ca_rationale = r, ca_citations = cs, ca_claims = xs\<rparr>)))))"

definition parse_flag :: "json \<Rightarrow> flag_detail result" where
  "parse_flag = strict_dict [''type'', ''severity'', ''description'', ''citations'', ''claims''] (\<lambda>d.
     rbind (field_of ''type'' parse_flag_type d) (\<lambda>t. rbind (field_of ''severity'' parse_severity d) (\<lambda>s.
     rbind (field_of ''description'' parse_str d) (\<lambda>x. rbind (field_of ''citations'' (parse_list parse_str) d) (\<lambda>cs.
     rbind (field_default ''claims'' [] (parse_list parse_claim) d) (\<lambda>xs.
       Inr \<lparr>fl_type = t, fl_severity = s, fl_description = x, fl_citations = cs, fl_claims = xs\<rparr>))))))"

definition parse_output :: "(json \<Rightarrow> rat option) \<Rightarrow> json \<Rightarrow> llm_evaluation_output result" where
  "parse_output lax = strict_dict output_fields (\<lambda>d. rbind (parse_fields (parse_assessment lax) parse_flag d) (\<lambda>x.
     Inr \<lparr>skills = so_skills x, experience = so_experience x, projects = so_projects x, education = so_education x,
       flags = so_flags x, executive_summary = so_executive_summary x, improvement_suggestions = so_improvement_suggestions x\<rparr>))"

section \<open>Facts\<close>

lemma strict_dict_Inr: "strict_dict ks parse v = Inr x \<Longrightarrow> \<exists>d. v = JDict d \<and> set (map fst d) \<subseteq> set ks \<and> parse d = Inr x"
  by (auto simp: strict_dict_def invalid_def split: json.splits if_splits)

lemma field_of_Inr: "field_of k parse d = Inr x \<Longrightarrow> \<exists>v. map_of d k = Some v \<and> parse v = Inr x"
  by (auto simp: field_of_def invalid_def split: option.splits)

lemma parse_score_ok: "parse_score lax v = Inr x \<Longrightarrow> score_ok x"
  by (auto simp: parse_score_def invalid_def split: option.splits if_splits)

text \<open>Every score that was accepted is a number from 0 to 100.\<close>

definition selection_scores_ok :: "('s \<Rightarrow> rat) \<Rightarrow> ('s, 'f, 'z) selection_scheme \<Rightarrow> bool" where
  "selection_scores_ok score x \<longleftrightarrow> score_ok (score (so_skills x)) \<and> score_ok (score (so_experience x)) \<and>
     score_ok (score (so_projects x)) \<and> score_ok (score (so_education x))"

lemma parse_fields_scores:
  assumes "parse_fields assessment flag d = Inr x" "\<And>v a. assessment v = Inr a \<Longrightarrow> score_ok (score a)"
  shows "selection_scores_ok score x"
  using assms(1) by (auto simp: parse_fields_def selection_scores_ok_def rbind_Inr_conv dest!: field_of_Inr intro: assms(2))

lemma parse_sentence_assessment_score: "parse_sentence_assessment lax v = Inr a \<Longrightarrow> score_ok (st_score a)"
  by (auto simp: parse_sentence_assessment_def rbind_Inr_conv dest!: strict_dict_Inr field_of_Inr parse_score_ok)

lemma parse_evidence_assessment_score: "parse_evidence_assessment lax v = Inr a \<Longrightarrow> score_ok (st_score a)"
  by (auto simp: parse_evidence_assessment_def rbind_Inr_conv dest!: strict_dict_Inr field_of_Inr parse_score_ok)

lemma parse_assessment_score: "parse_assessment lax v = Inr a \<Longrightarrow> score_ok (ca_score a)"
  by (auto simp: parse_assessment_def rbind_Inr_conv dest!: strict_dict_Inr field_of_Inr parse_score_ok)

lemma parse_compact_scores: "parse_compact_selection lax v = Inr x \<Longrightarrow> selection_scores_ok st_score x"
  unfolding parse_compact_selection_def
  by (auto dest!: strict_dict_Inr simp: rbind_Inr_conv selection_scores_ok_def
      dest!: parse_fields_scores [where score = st_score, OF _ parse_sentence_assessment_score])

lemma parse_evidence_scores: "parse_evidence_selection lax v = Inr x \<Longrightarrow> selection_scores_ok st_score x"
  unfolding parse_evidence_selection_def
  by (auto dest!: strict_dict_Inr parse_fields_scores [where score = st_score, OF _ parse_evidence_assessment_score])

lemma parse_output_scores: "parse_output lax v = Inr x \<Longrightarrow> output_ok x"
  unfolding parse_output_def
  by (auto dest!: strict_dict_Inr simp: rbind_Inr_conv selection_scores_ok_def output_ok_def
      dest!: parse_fields_scores [where score = ca_score, OF _ parse_assessment_score])

text \<open>Resolution keeps the scores.\<close>

lemma resolve_evidence_output_ok:
  "resolve_evidence_selection x reg i = Inr out \<Longrightarrow> selection_scores_ok st_score x \<Longrightarrow> output_ok out"
  by (auto simp: resolve_evidence_selection_def selection_scores_ok_def output_ok_def resolved_assessment_def split: if_splits)

lemma claimed_scores_ok:
  "selection_scores_ok st_score x \<Longrightarrow> selection_scores_ok st_score (map_selection (claimed_assessment reg) (claimed_flag reg) x)"
  by (simp add: selection_scores_ok_def map_selection_def claimed_assessment_def)

lemma resolve_sentence_output_ok:
  "resolve_sentence_selection x reg i = Inr out \<Longrightarrow> selection_scores_ok st_score x \<Longrightarrow> output_ok out"
  unfolding resolve_sentence_selection_def by (erule resolve_evidence_output_ok) (rule claimed_scores_ok)

lemma identified_assessment_score: "identified_assessment m a = Inr b \<Longrightarrow> st_score b = st_score a"
  by (auto simp: identified_assessment_def rbind_Inr_conv)

lemma resolve_compact_output_ok:
  fixes x :: "(sentence_assessment, sentence_flag) compact_selection"
  assumes "resolve_compact_selection H x reg i = Inr out" "selection_scores_ok st_score x"
  shows "output_ok out"
proof -
  obtain y :: "(sentence_assessment, sentence_flag) selection" where
    "resolve_sentence_selection y reg i = Inr out" "selection_scores_ok st_score y"
    using assms by (auto simp: resolve_compact_selection_def rbind_Inr_conv selection_scores_ok_def identified_assessment_score split: if_splits)
  then show ?thesis by (rule resolve_sentence_output_ok)
qed

end
