(* ===== verification/Grounded.thy ===== *)
theory Grounded
  imports Trusted_Selection
begin

text \<open>
  What resolution guarantees: every claim of a resolved selection is the text of an evidence sentence, never
  the model's; a selection of known sentences passes the verification; and an assessment that was published
  without review rests on sentences of the candidate's own documents.
\<close>

section \<open>Only trusted text\<close>

definition trusted_claim :: "registry \<Rightarrow> supported_claim \<Rightarrow> bool" where
  "trusted_claim reg c \<longleftrightarrow>
     (\<exists>(tag, r)\<in>set reg. cl_citation c = tag \<and> cl_claim c = er_text r \<and> cl_quote c = er_text r \<and> cl_evidence_id c = er_evidence_id r) \<or>
     (cl_claim c = [] \<and> cl_quote c = [] \<and> (\<exists>i. cl_citation c = ''UNKNOWN_ID:'' @ i))"

definition all_claims :: "llm_evaluation_output \<Rightarrow> supported_claim list" where
  "all_claims out = concat (map (ca_claims \<circ> snd) (assessments out)) @ concat (map fl_claims (flags out))"

definition ids_given :: "registry \<Rightarrow> bool" where
  "ids_given reg = list_all (\<lambda>(tag, r). nonempty (er_evidence_id r)) reg"

lemma entry_by_id_in: "entry_by_id reg i = Some (tag, r) \<Longrightarrow> (tag, r) \<in> set reg \<and> er_evidence_id r = Some i"
  using find_SomeD [of "\<lambda>(tag, r). i \<noteq> [] \<and> er_evidence_id r = Some i" "rev reg" "(tag, r)"] by (simp add: entry_by_id_def)

lemma sentence_text_entry:
  assumes "ids_given reg"
  shows "sentence_text reg i = (case entry_by_id reg i of Some (tag, r) \<Rightarrow> er_text r | None \<Rightarrow> [])"
proof (cases "i = []")
  case True
  have "er_evidence_id r \<noteq> Some []" if "(tag, r) \<in> set reg" for tag r
    using assms that by (auto simp: ids_given_def list_all_iff nonempty_def)
  then have "find (\<lambda>(tag, r). er_evidence_id r = Some []) (rev reg) = None" by (auto simp: find_None_iff)
  moreover have "find (\<lambda>(tag, r). False) (rev reg) = None" by (auto simp: find_None_iff)
  ultimately show ?thesis using True by (simp add: sentence_text_def entry_by_id_def)
next
  case False
  then show ?thesis by (simp add: sentence_text_def entry_by_id_def)
qed

lemma quoted_trusted:
  assumes "ids_given reg" "c \<in> set (map (resolved_claim reg) (quoted_claims reg ids))"
  shows "trusted_claim reg c"
proof -
  obtain i where c: "c = resolved_claim reg \<lparr>sc_claim = sentence_text reg i, sc_citation = i\<rparr>"
    using assms(2) by (auto simp: quoted_claims_def)
  show ?thesis
  proof (cases "entry_by_id reg i")
    case None
    then show ?thesis
      by (simp add: trusted_claim_def c resolved_claim_def resolved_citation_def sentence_text_entry [OF assms(1)])
  next
    case (Some e)
    obtain tag r where e: "e = (tag, r)" by (cases e)
    have "(tag, r) \<in> set reg" "er_evidence_id r = Some i" using entry_by_id_in Some e by auto
    then show ?thesis
      by (auto simp: trusted_claim_def c resolved_claim_def resolved_citation_def sentence_text_entry [OF assms(1)] Some e
          intro!: bexI [of _ "(tag, r)"])
  qed
qed

lemma resolve_sentence_trusted:
  assumes "resolve_sentence_selection x reg i = Inr out" "ids_given reg"
  shows "list_all (trusted_claim reg) (all_claims out)"
  using assms(1) quoted_trusted [OF assms(2)]
  by (auto simp: resolve_sentence_selection_def resolve_evidence_selection_def map_selection_def all_claims_def assessments_def
      EVIDENCE_CATEGORIES_def list_all_iff resolved_assessment_def claimed_assessment_def resolved_flag_def claimed_flag_def
      split: if_splits)

lemma resolve_compact_Inr:
  assumes "resolve_compact_selection H x reg i = Inr out"
  obtains m y where "evidence_manifest H reg (Some i) = Inr m" "so_evidence_scope x = mf_scope m"
    "resolve_sentence_selection y reg i = Inr out"
  using assms by (auto simp: resolve_compact_selection_def rbind_Inr_conv split: if_splits)

section \<open>Registries of sentences\<close>

lemma sentence_registry_ids: "ids_given (sentence_registry H reg)"
  by (auto simp: ids_given_def list_all_iff nonempty_def sentence_of_def split: prod.splits elim!: sentence_registry_in)

text \<open>A sentence of the registry is a piece of a chunk in the payload of its candidate.\<close>

definition payload_sentence :: "pydict \<Rightarrow> string \<Rightarrow> string \<Rightarrow> bool" where
  "payload_sentence evidence category body \<longleftrightarrow> (\<exists>n chunk full start stop. chunk_at evidence category n chunk \<and>
     dget chunk ''text'' (JStr []) = JStr full \<and> (start, stop) \<in> set (sentence_pieces full) \<and> body = slice full start stop)"

lemma sentence_from_payload:
  assumes "list_all (entry_ok i evidence) reg" "(tag, q) \<in> set (sentence_registry H reg)"
  shows "payload_sentence evidence (er_category q) (er_text q)" "er_candidate_id q = i" "er_category q \<in> set EVIDENCE_CATEGORIES"
    "strip (er_text q) \<noteq> []" "\<exists>n>0. tag = er_category q @ '':'' @ show_nat n"
proof -
  obtain t r piece where q: "(t, r) \<in> set reg" "piece \<in> set (sentence_pieces (er_text r))" "q = sentence_of H r piece"
    "strip (er_text q) \<noteq> []" "\<exists>n>0. tag = er_category q @ '':'' @ show_nat n"
    using assms(2) by (rule sentence_registry_in)
  have e: "entry_ok i evidence (t, r)" using assms(1) q(1) by (auto simp: list_all_iff)
  show "er_candidate_id q = i" "er_category q \<in> set EVIDENCE_CATEGORIES" using e q(3) by (auto simp: entry_ok_def)
  show "strip (er_text q) \<noteq> []" "\<exists>n>0. tag = er_category q @ '':'' @ show_nat n" by (rule q)+
  obtain n chunk where c: "chunk_at evidence (er_category r) n chunk" "dget chunk ''text'' (JStr []) = JStr (er_text r)"
    using e by (auto simp: entry_ok_def)
  have p: "(fst piece, snd piece) \<in> set (sentence_pieces (er_text r))" using q(2) by simp
  show "payload_sentence evidence (er_category q) (er_text q)"
    unfolding payload_sentence_def by (intro exI conjI) (use c p q(3) in auto)
qed

lemma sentence_registry_owned:
  "list_all (entry_ok i evidence) reg \<Longrightarrow> list_all (\<lambda>r. er_candidate_id r = i) (map snd (sentence_registry H reg))"
  by (auto simp: list_all_iff dest: sentence_from_payload(2) [rotated])

section \<open>Assessments without review\<close>

text \<open>
  A claim of an item that the verification passed without a reason: it cites the item's category, and its
  text is a sentence of a chunk of the candidate.
\<close>

lemma trusted_backed_claim:
  assumes "trusted_claim reg c" "claim_backed reg allowed citations c" "list_all (entry_ok i evidence) reg0"
    and "reg = sentence_registry H reg0"
  shows "\<exists>r. map_of reg (cl_citation c) = Some r \<and> er_category r \<in> set allowed \<and> cl_claim c = er_text r \<and>
    payload_sentence evidence (er_category r) (cl_claim c)"
proof -
  obtain q where q: "map_of reg (cl_citation c) = Some q" "er_category q \<in> set allowed"
    using assms(2) by (auto simp: claim_backed_def)
  then have in_reg: "(cl_citation c, q) \<in> set reg" by (simp add: map_of_SomeD)
  have d: "distinct (map fst reg)" using sentence_registry_distinct [OF assms(3)] assms(4) by simp
  from assms(1) consider tag r where "(tag, r) \<in> set reg" "cl_citation c = tag" "cl_claim c = er_text r"
    | j where "cl_citation c = ''UNKNOWN_ID:'' @ j" unfolding trusted_claim_def by blast
  then show ?thesis
  proof cases
    case 1
    then have "q = r" using q(1) d by (metis map_of_is_SomeI option.inject)
    then show ?thesis using q 1 sentence_from_payload(1) [OF assms(3), of "cl_citation c" r H] assms(4) by auto
  next
    case 2
    from sentence_from_payload(3,5) [OF assms(3), of "cl_citation c" q H] in_reg assms(4)
    obtain n where "cl_citation c = er_category q @ '':'' @ show_nat n" "er_category q \<in> set EVIDENCE_CATEGORIES" by auto
    then show ?thesis using 2 by (auto simp: EVIDENCE_CATEGORIES_def)
  qed
qed

lemma success_no_reasons:
  assumes "score_evaluation i out v m = Inr e" "fe_evaluation_status e = E_SUCCESS"
  shows "ev_review_reasons v = []"
  using score_evaluation_Inr(5) [OF assms(1)] assms(2) by (auto simp: needs_review_def split: if_splits)

section \<open>Known sentences pass\<close>

definition has_word :: "string \<Rightarrow> bool" where
  "has_word s = list_ex is_word (normalize_text s)"

lemma known_claim_passes:
  assumes "ids_given reg" "distinct (map fst reg)" "entry_by_id reg i = Some (tag, r)" "er_category r \<in> set allowed"
    and "tag \<in> set citations" "strip (er_text r) \<noteq> []" "has_word (er_text r)"
  shows "claim_reason reg allowed citations (resolved_claim reg \<lparr>sc_claim = sentence_text reg i, sc_citation = i\<rparr>) = None"
proof -
  have e: "(tag, r) \<in> set reg" "er_evidence_id r = Some i" using entry_by_id_in [OF assms(3)] by auto
  then have "map_of reg tag = Some r" using assms(2) by simp
  moreover have "i \<noteq> []" using e assms(1) by (auto simp: ids_given_def list_all_iff nonempty_def)
  moreover have "contains s s" for s unfolding contains_iff by (rule exI [of _ "[]"], rule exI [of _ "[]"]) simp
  moreover have "claim_is_source_excerpt (er_text r) (er_text r)"
    using assms(7) by (intro excerpt_refl) (simp add: has_word_def)
  ultimately show ?thesis
    using assms(3-6) e by (simp add: claim_reason_def resolved_claim_def resolved_citation_def sentence_text_entry [OF assms(1)] nonempty_def)
qed

definition known_sentence :: "registry \<Rightarrow> string list \<Rightarrow> string \<Rightarrow> bool" where
  "known_sentence reg allowed i = (case entry_by_id reg i of None \<Rightarrow> False
     | Some (tag, r) \<Rightarrow> er_category r \<in> set allowed \<and> has_word (er_text r))"

lemma known_sentences_pass:
  assumes "list_all (entry_ok c evidence) reg0" "reg = sentence_registry H reg0" "ids \<noteq> []"
    and "list_all (known_sentence reg allowed) ids"
  shows "fst (snd (check_item require reg allowed field (map (resolved_citation reg) ids)
     (map (resolved_claim reg) (quoted_claims reg ids)))) = []"
proof -
  have d: "distinct (map fst reg)" and g: "ids_given reg"
    using sentence_registry_distinct [OF assms(1)] sentence_registry_ids assms(2) by auto
  have known: "citation_reason reg allowed (resolved_citation reg i) = None \<and>
      claim_reason reg allowed (map (resolved_citation reg) ids) (resolved_claim reg \<lparr>sc_claim = sentence_text reg i, sc_citation = i\<rparr>) = None"
    if i: "i \<in> set ids" for i
  proof -
    obtain tag r where e: "entry_by_id reg i = Some (tag, r)" "er_category r \<in> set allowed" "has_word (er_text r)"
      using assms(4) i by (fastforce simp: list_all_iff known_sentence_def split: option.splits)
    have in_reg: "(tag, r) \<in> set reg" using entry_by_id_in [OF e(1)] by simp
    from sentence_from_payload [OF assms(1), of tag r H] in_reg assms(2)
    obtain n where n: "tag = er_category r @ '':'' @ show_nat n" "0 < n" "er_category r \<in> set EVIDENCE_CATEGORIES" "strip (er_text r) \<noteq> []"
      by auto
    have "tag \<in> set (map (resolved_citation reg) ids)" using i e(1) by (force simp: resolved_citation_def image_iff)
    then have "claim_reason reg allowed (map (resolved_citation reg) ids) (resolved_claim reg \<lparr>sc_claim = sentence_text reg i, sc_citation = i\<rparr>) = None"
      by (intro known_claim_passes [OF g d e(1,2) _ n(4) e(3)])
    moreover have "citation_reason reg allowed tag = None"
    proof -
      have "re_fullmatch CITATION_PATTERN tag \<noteq> None" using tag_is_citation [OF n(3,2)] n(1) by simp
      then show ?thesis using in_reg d e(2) by (simp add: citation_reason_def)
    qed
    ultimately show ?thesis using e(1) by (simp add: resolved_citation_def)
  qed
  then show ?thesis using assms(3)
    by (auto simp: check_item_def both_def check_citations_def check_support_def Let_def list_ex_iff quoted_claims_def resolved_claim_def image_iff)
qed

end
