(* ===== verification/Context.thy ===== *)
theory Context
  imports Grounded Sections
begin

text \<open>
  The bounded, citable context of an evaluation (\<open>app/stage3_evaluation/context.py\<close>): retrieved chunks and
  passages of the whole CV within a budget of characters, then a prompt within a budget of bytes.
\<close>

section \<open>Evidence and its size\<close>

type_synonym evidence_lists = "(string \<times> json list) list"

definition chunk_text :: "json \<Rightarrow> string result" where
  "chunk_text v = (case v of
     JDict d \<Rightarrow> (case map_of d ''text'' of None \<Rightarrow> Inl (KeyError ''text'') | Some (JStr s) \<Rightarrow> Inr s | Some _ \<Rightarrow> Inl (TypeError ''text''))
   | _ \<Rightarrow> Inl (OtherException ''AttributeError''))"

definition chunk_name :: "(json list \<Rightarrow> string) \<Rightarrow> json \<Rightarrow> string \<Rightarrow> json" where
  "chunk_name H v body = (let i = dget (as_dict v) ''chunk_id'' JNull in if truthy i then i else JStr (H [JStr body]))"

text \<open>The identity under which the prompt sends a chunk once: document, chunk and text.\<close>

definition chunk_source :: "(json list \<Rightarrow> string) \<Rightarrow> json \<Rightarrow> (json \<times> json \<times> string) result" where
  "chunk_source H v = rbind (chunk_text v) (\<lambda>body.
     let document = dget (as_dict v) ''document_id'' JNull; name = chunk_name H v body
     in if unhashable document \<or> unhashable name then Inl (TypeError ''unhashable type'')
        else Inr (json_norm document, json_norm name, body))"

definition all_chunks :: "evidence_lists \<Rightarrow> json list" where
  "all_chunks evidence = concat (map snd evidence)"

definition total_chars :: "(json \<times> json \<times> string) list \<Rightarrow> nat" where
  "total_chars sources = sum_list (map (length \<circ> snd \<circ> snd) (dict_fromkeys sources))"

definition unique_evidence_chars :: "(json list \<Rightarrow> string) \<Rightarrow> evidence_lists \<Rightarrow> nat result" where
  "unique_evidence_chars H evidence = rbind (rmap (chunk_source H) (all_chunks evidence)) (\<lambda>sources. Inr (total_chars sources))"

section \<open>Dropping retrieved chunks\<close>

definition text_length :: "json \<Rightarrow> nat" where
  "text_length v = (case chunk_text v of Inr s \<Rightarrow> length s | Inl _ \<Rightarrow> 0)"

definition chunks_of :: "evidence_lists \<Rightarrow> string \<Rightarrow> json list" where
  "chunks_of evidence category = (case map_of evidence category of None \<Rightarrow> [] | Some vs \<Rightarrow> vs)"

definition category_chars :: "evidence_lists \<Rightarrow> string \<Rightarrow> nat" where
  "category_chars evidence category = sum_list (map text_length (chunks_of evidence category))"

text \<open>\<open>max(evidence, key=...)\<close>: the first category with the largest number of characters.\<close>

fun heaviest :: "evidence_lists \<Rightarrow> string \<Rightarrow> string list \<Rightarrow> string" where
  "heaviest evidence best [] = best"
| "heaviest evidence best (c # cs) =
     heaviest evidence (if category_chars evidence best < category_chars evidence c then c else best) cs"

fun pop_chunk :: "string \<Rightarrow> evidence_lists \<Rightarrow> evidence_lists" where
  "pop_chunk category [] = []"
| "pop_chunk category ((c, vs) # xs) = (if c = category then (c, butlast vs) # xs else (c, vs) # pop_chunk category xs)"

definition omitted_name :: "(json list \<Rightarrow> string) \<Rightarrow> json \<Rightarrow> json" where
  "omitted_name H v = dget (as_dict v) ''chunk_id'' (JStr (''retrieved:'' @ H [dget (as_dict v) ''text'' JNull]))"

lemma pop_chunk_smaller: "chunks_of xs c \<noteq> [] \<Longrightarrow> length (all_chunks (pop_chunk c xs)) < length (all_chunks xs)"
  by (induction c xs rule: pop_chunk.induct) (auto simp: chunks_of_def all_chunks_def)

text \<open>One chunk goes from the end of the heaviest category until the rest fits; \<open>pop\<close> of an empty list raises.\<close>

function trim ::
  "(json list \<Rightarrow> string) \<Rightarrow> int \<Rightarrow> evidence_lists \<Rightarrow> json list \<Rightarrow> (evidence_lists \<times> json list) result" where
  "trim H limit evidence omitted =
     rbind (unique_evidence_chars H evidence) (\<lambda>used.
       if int used \<le> limit then Inr (evidence, omitted)
       else case evidence of
          [] \<Rightarrow> Inl (ValueError ''max() iterable argument is empty'')
        | x # xs \<Rightarrow>
            let category = heaviest evidence (fst x) (map fst xs); vs = chunks_of evidence category
            in if vs = [] then Inl (OtherException ''IndexError'')
               else trim H limit (pop_chunk category evidence) (omitted @ [omitted_name H (last vs)]))"
  by pat_completeness auto
termination
  by (relation "measure (\<lambda>(H, limit, evidence, omitted). length (all_chunks evidence))") (auto simp: pop_chunk_smaller)

declare trim.simps [simp del]

section \<open>Passages of the CV\<close>

definition rfind_newline :: "string \<Rightarrow> nat \<Rightarrow> nat \<Rightarrow> nat option" where
  "rfind_newline s i j = find (\<lambda>k. s ! k = newline) (rev [i..<min j (length s)])"

definition passage_stop :: "bool \<Rightarrow> string \<Rightarrow> nat \<Rightarrow> nat \<Rightarrow> nat" where
  "passage_stop complete_units body start stop =
    (if complete_units then stop
     else let m = min (start + 3000) stop
       in if m < stop then (case rfind_newline body (start + 1500) m of Some k \<Rightarrow> k + 1 | None \<Rightarrow> m) else m)"

lemma passage_stop_bounds: "start < stop \<Longrightarrow> start < passage_stop u body start stop \<and> passage_stop u body start stop \<le> stop"
  by (auto simp: passage_stop_def Let_def rfind_newline_def split: option.splits dest!: find_SomeD)

function passage_spans :: "bool \<Rightarrow> string \<Rightarrow> nat \<Rightarrow> nat \<Rightarrow> (nat \<times> nat) list" where
  "passage_spans u body start stop =
    (if start < stop then (start, passage_stop u body start stop) # passage_spans u body (passage_stop u body start stop) stop else [])"
  by pat_completeness auto
termination
  by (relation "measure (\<lambda>(u, body, start, stop). stop - start)") (use passage_stop_bounds in \<open>auto simp: diff_less_mono2\<close>)

declare passage_spans.simps [simp del]

record passage =
  ps_section :: string
  ps_category :: string
  ps_start :: nat
  ps_end :: nat
  ps_text :: string
  ps_chunk_id :: string

definition passage_json :: "string \<Rightarrow> string \<Rightarrow> passage \<Rightarrow> json" where
  "passage_json candidate_id document_id p = JDict
     [(''candidate_id'', JStr candidate_id), (''document_id'', JStr document_id), (''chunk_id'', JStr (ps_chunk_id p)),
      (''section'', JStr (ps_section p)), (''category'', JStr (ps_category p)), (''text'', JStr (ps_text p)),
      (''source_location'', JDict [(''section'', JStr (ps_section p)), (''char_start'', JNum (of_nat (ps_start p))),
         (''char_end'', JNum (of_nat (ps_end p)))])]"

definition section_boundaries :: "string \<Rightarrow> (nat \<times> string) list" where
  "section_boundaries body = (0, ''UNCLASSIFIED'') #
     map (\<lambda>m. (m_start m, normalize_header_to_canonical (m_group m 1))) (re_finditer SECTION_HEADER_PATTERN body)"

definition make_passage :: "(json list \<Rightarrow> string) \<Rightarrow> string \<Rightarrow> string \<Rightarrow> string \<Rightarrow> nat \<times> nat \<Rightarrow> passage" where
  "make_passage H document_id body header sp = (case sp of (start, stop) \<Rightarrow>
     \<lparr>ps_section = header, ps_category = (case map_of CATEGORY_MAP header of None \<Rightarrow> ''CONTEXT'' | Some c \<Rightarrow> c),
      ps_start = start, ps_end = stop, ps_text = slice body start stop,
      ps_chunk_id = ''context-chunk:'' @ H [JStr document_id, JNum (of_nat start), JNum (of_nat stop)]\<rparr>)"

fun section_passages ::
  "(json list \<Rightarrow> string) \<Rightarrow> string \<Rightarrow> bool \<Rightarrow> string \<Rightarrow> (nat \<times> string) list \<Rightarrow> passage list" where
  "section_passages H document_id u body [] = []"
| "section_passages H document_id u body ((start, header) # bs) =
     filter (\<lambda>p. strip (ps_text p) \<noteq> []) (map (make_passage H document_id body header)
       (passage_spans u body start (case bs of [] \<Rightarrow> length body | (following, _) # _ \<Rightarrow> following))) @
     section_passages H document_id u body bs"

definition cv_passages :: "(json list \<Rightarrow> string) \<Rightarrow> string \<Rightarrow> bool \<Rightarrow> string \<Rightarrow> passage list" where
  "cv_passages H document_id u body = section_passages H document_id u body (section_boundaries body)"

section \<open>Their order\<close>

definition queue_names :: "string list" where
  "queue_names = [''CONTEXT'', ''EXPERIENCE'', ''PROJECTS'', ''SKILLS'', ''EDUCATION'']"

function round_robin :: "'a list list \<Rightarrow> 'a list" where
  "round_robin qs = (if list_all (\<lambda>q. q = []) qs then [] else map hd (filter (\<lambda>q. q \<noteq> []) qs) @ round_robin (map tl qs))"
  by pat_completeness auto
termination
proof (relation "measure (\<lambda>qs. sum_list (map length qs))", goal_cases)
  case (2 qs)
  have "sum_list (map (length \<circ> tl) qs) \<le> sum_list (map length qs)" for qs :: "'a list list"
    by (rule sum_list_mono) simp
  moreover have "list_ex (\<lambda>q. q \<noteq> []) qs \<Longrightarrow> sum_list (map (length \<circ> tl) qs) < sum_list (map length qs)"
  proof (induction qs)
    case (Cons q qs)
    have "sum_list (map (length \<circ> tl) qs) \<le> sum_list (map length qs)" by (rule sum_list_mono) simp
    then show ?case using Cons by (cases q) (auto simp: comp_def less_Suc_eq_le)
  qed simp
  ultimately show ?case using 2 by (auto simp: list_ex_iff list_all_iff)
qed simp

declare round_robin.simps [simp del]

definition squash :: "string \<Rightarrow> string" where
  "squash s = join_with '' '' (words s)"

definition context_label :: pattern where
  "context_label = cats [Anchor (\<lambda>b a. b = []), lit ''[Section: '', plus (Sym (\<lambda>c. c \<noteq> CHR '']'')), chr CHR '']'', spaces0]"

definition focused_texts :: "evidence_lists \<Rightarrow> string list result" where
  "focused_texts evidence = rmap (\<lambda>v. rbind (chunk_text v) (\<lambda>body. Inr (squash (re_sub context_label [] body)))) (all_chunks evidence)"

definition is_anchor :: "string list \<Rightarrow> passage \<Rightarrow> bool" where
  "is_anchor focused p = list_ex (\<lambda>body. body \<noteq> [] \<and> contains body (squash (ps_text p))) focused"

definition is_nearby :: "string list \<Rightarrow> passage list \<Rightarrow> nat \<Rightarrow> bool" where
  "is_nearby focused ps i = list_ex (\<lambda>j. i \<le> j + 1 \<and> j \<le> i + 1 \<and> is_anchor focused (ps ! j) \<and>
     ps_section (ps ! i) = ps_section (ps ! j)) [0..<length ps]"

definition ordered_passages :: "string list \<Rightarrow> string list \<Rightarrow> passage list \<Rightarrow> passage list" where
  "ordered_passages mandatory_terms focused ps =
    (let fair = round_robin (map (\<lambda>c. filter (\<lambda>p. ps_category p = c) ps) queue_names);
         priority = map ((!) ps) (filter (is_nearby focused ps) [0..<length ps]);
         ordered = priority @ filter (\<lambda>p. ps_chunk_id p \<notin> set (map ps_chunk_id priority)) fair
     in if mandatory_terms = [] then ordered
        else sort_key (\<lambda>p. \<not> list_ex (\<lambda>t. contains (lower t) (lower (ps_text p))) mandatory_terms) ordered)"

section \<open>The prepared context\<close>

definition target_categories :: "string \<Rightarrow> string list" where
  "target_categories source =
    (if source = ''CONTEXT'' then [''EXPERIENCE'', ''PROJECTS'', ''SKILLS'', ''EDUCATION'']
     else if source = ''EXPERIENCE'' then [''EXPERIENCE'', ''PROJECTS'', ''SKILLS'']
     else if source = ''PROJECTS'' then [''PROJECTS'', ''EXPERIENCE'', ''SKILLS''] else [source])"

definition append_chunk :: "json \<Rightarrow> string \<Rightarrow> evidence_lists \<Rightarrow> evidence_lists" where
  "append_chunk v category evidence =
    (if category \<in> set (map fst evidence) then map (\<lambda>(c, vs). (c, if c = category then vs @ [v] else vs)) evidence
     else evidence @ [(category, [v])])"

record inclusion =
  in_evidence :: evidence_lists
  in_used :: nat
  in_included :: nat
  in_omitted :: "json list"

definition include_passage :: "string \<Rightarrow> string \<Rightarrow> int \<Rightarrow> passage \<Rightarrow> inclusion \<Rightarrow> inclusion" where
  "include_passage candidate_id document_id limit p st =
    (if limit < int (in_used st + length (ps_text p)) then st\<lparr>in_omitted := in_omitted st @ [JStr (ps_chunk_id p)]\<rparr>
     else st\<lparr>in_evidence := fold (append_chunk (passage_json candidate_id document_id p)) (target_categories (ps_category p)) (in_evidence st),
             in_used := in_used st + length (ps_text p), in_included := in_included st + length (ps_text p)\<rparr>)"

definition sanitized_chunk :: "json \<Rightarrow> json" where
  "sanitized_chunk v = (case v of
     JDict d \<Rightarrow> (case map_of d ''text'' of Some (JStr s) \<Rightarrow> JDict (dset ''text'' (JStr (xml_safe_text s)) d) | _ \<Rightarrow> v)
   | _ \<Rightarrow> v)"

definition sanitized_evidence :: "json \<Rightarrow> json" where
  "sanitized_evidence v = (case v of
     JDict d \<Rightarrow> JDict (map (\<lambda>(c, vs). (c, case vs of JList ws \<Rightarrow> JList (map sanitized_chunk ws) | _ \<Rightarrow> vs)) d)
   | _ \<Rightarrow> v)"

definition sanitized_payload :: "pydict \<Rightarrow> pydict result" where
  "sanitized_payload payload =
     rbind (case dget payload ''candidate_cv_text'' JNull of
         JNull \<Rightarrow> Inr payload
       | JStr s \<Rightarrow> Inr (dset ''candidate_cv_text'' (JStr (xml_safe_text s)) payload)
       | _ \<Rightarrow> Inl (TypeError ''Expected text'')) (\<lambda>d.
       case dget d ''evidence_by_category'' JNull of
         JDict e \<Rightarrow> Inr (dset ''evidence_by_category'' (sanitized_evidence (JDict e)) d)
       | _ \<Rightarrow> Inr d)"

definition listed :: "json \<Rightarrow> json list result" where
  "listed v = (case v of JList vs \<Rightarrow> Inr vs | JDict d \<Rightarrow> Inr (map (JStr \<circ> fst) d) | JStr s \<Rightarrow> Inr (map (\<lambda>c. JStr [c]) s)
     | _ \<Rightarrow> Inl (TypeError ''not iterable''))"

definition evidence_lists_of :: "pydict \<Rightarrow> evidence_lists result" where
  "evidence_lists_of payload = (case dget payload ''evidence_by_category'' (JDict []) of
     JDict d \<Rightarrow> rmap (\<lambda>(c, v). rbind (listed v) (\<lambda>vs. Inr (c, vs))) d
   | _ \<Rightarrow> Inl (OtherException ''AttributeError''))"

definition evidence_json :: "evidence_lists \<Rightarrow> json" where
  "evidence_json evidence = JDict (map (\<lambda>(c, vs). (c, JList vs)) evidence)"

definition context_document :: "(json list \<Rightarrow> string) \<Rightarrow> string \<Rightarrow> string \<Rightarrow> string" where
  "context_document H candidate_id body = ''context:'' @ H [JStr candidate_id, JStr body]"

definition fill_context ::
  "(json list \<Rightarrow> string) \<Rightarrow> int \<Rightarrow> bool \<Rightarrow> string list \<Rightarrow> string \<Rightarrow> string \<Rightarrow> evidence_lists \<Rightarrow> inclusion result" where
  "fill_context H limit u mandatory_terms candidate_id body evidence0 =
    rbind (trim H limit evidence0 []) (\<lambda>(evidence, omitted).
    rbind (unique_evidence_chars H evidence) (\<lambda>used.
    rbind (focused_texts evidence) (\<lambda>focused.
      let document_id = context_document H candidate_id body
      in Inr (fold (include_passage candidate_id document_id limit)
           (ordered_passages mandatory_terms focused (cv_passages H document_id u body))
           \<lparr>in_evidence = evidence, in_used = used, in_included = 0, in_omitted = omitted\<rparr>))))"

definition context_metadata :: "string \<Rightarrow> inclusion \<Rightarrow> pydict" where
  "context_metadata body st = [(''version'', JStr ''citable-cv-v3''), (''source_chars'', JNum (of_nat (length body))),
     (''budget_basis'', JStr ''unique_context_and_retrieved_chars''), (''included_context_chars'', JNum (of_nat (in_included st))),
     (''evidence_chars'', JNum (of_nat (in_used st))), (''omitted_passage_ids'', JList (in_omitted st)),
     (''complete'', JBool (in_omitted st = [])), (''require_claim_support'', JBool True)]"

definition prepare_evaluation_context ::
  "(json list \<Rightarrow> string) \<Rightarrow> int \<Rightarrow> string \<Rightarrow> bool \<Rightarrow> string list \<Rightarrow> pydict \<Rightarrow> pydict result" where
  "prepare_evaluation_context H limit candidate_id u mandatory_terms payload0 =
    (if dget payload0 ''candidate_id'' (JStr candidate_id) \<noteq> JStr candidate_id then Inl (ValueError ''Evidence ownership mismatch'')
     else rbind (sanitized_payload payload0) (\<lambda>payload.
       if dget payload ''context_metadata'' JNull \<noteq> JNull then Inr payload
       else case dget payload ''candidate_cv_text'' JNull of
         JNull \<Rightarrow> Inr payload
       | v \<Rightarrow> rbind (checked_text v) (\<lambda>body.
           if limit < 1 then Inl (ValueError ''Invalid context budget'')
           else rbind (evidence_lists_of payload) (\<lambda>evidence.
             rbind (fill_context H limit u mandatory_terms candidate_id body evidence) (\<lambda>st.
               Inr (dset ''context_metadata'' (JDict (context_metadata body st))
                 (dset ''evidence_by_category'' (evidence_json (in_evidence st)) payload)))))))"

definition build_evidence_registry ::
  "(json list \<Rightarrow> string) \<Rightarrow> (json \<Rightarrow> rat option) \<Rightarrow> int \<Rightarrow> string \<Rightarrow> pydict \<Rightarrow> registry result" where
  "build_evidence_registry H lax limit candidate_id payload =
     rbind (prepare_evaluation_context H limit candidate_id False [] payload) (registry_of_payload H lax candidate_id)"

end
