(* ===== verification/Bounded_Prompt.thy ===== *)
theory Bounded_Prompt
  imports Context
begin

text \<open>
  The prompt within its budget (\<open>bounded_evaluation_prompt\<close> of \<open>app/stage3_evaluation/context.py\<close>): whole
  sources are dropped until the prompt fits, and the registry is always built from what is sent. The text of
  the prompt and its token estimate are parameters.
\<close>

record prompt_env =
  pe_hash :: "json list \<Rightarrow> string"
  pe_lax :: "json \<Rightarrow> rat option"
  pe_context_limit :: int
  pe_mandatory :: "string list"
  pe_prompt :: "pydict \<Rightarrow> registry \<Rightarrow> string"
  pe_budget :: "string \<Rightarrow> bool \<times> json"

type_synonym source_key = "json \<times> json \<times> string"

definition prompt_key :: "json \<Rightarrow> source_key result" where
  "prompt_key v = rbind (chunk_text v) (\<lambda>body.
     let document = dget (as_dict v) ''document_id'' JNull; i = dget (as_dict v) ''chunk_id'' JNull
     in if unhashable document \<or> unhashable i then Inl (TypeError ''unhashable type'') else Inr (document, i, body))"

definition in_group :: "source_key \<Rightarrow> json \<Rightarrow> bool" where
  "in_group k v = (prompt_key v = Inr k)"

text \<open>The order in which sources are given up: \<open>min\<close> takes the first smallest.\<close>

definition group_priority :: "string list \<Rightarrow> evidence_lists \<Rightarrow> source_key \<Rightarrow> bool \<times> bool \<times> bool \<times> bool \<times> int" where
  "group_priority mandatory evidence k = (case k of (document, i, body) \<Rightarrow>
     (list_ex (\<lambda>(c, vs). list_ex (in_group k) vs \<and> length vs = 1) evidence,
      list_ex (\<lambda>t. contains (lower t) (lower body)) mandatory,
      (case document of JStr d \<Rightarrow> starts_with ''context:'' d | _ \<Rightarrow> False),
      list_ex (\<lambda>(c, vs). list_ex (in_group k) vs \<and> c \<in> {''EXPERIENCE'', ''PROJECTS''}) evidence,
      - int (length (lower body))))"

fun first_min :: "('a \<Rightarrow> 'b::linorder) \<Rightarrow> 'a \<Rightarrow> 'a list \<Rightarrow> 'a" where
  "first_min f best [] = best"
| "first_min f best (x # xs) = first_min f (if f x < f best then x else best) xs"

definition drop_group :: "source_key \<Rightarrow> evidence_lists \<Rightarrow> evidence_lists" where
  "drop_group k = map (\<lambda>(c, vs). (c, filter (\<lambda>v. \<not> in_group k v) vs))"

definition dropped_name :: "(json list \<Rightarrow> string) \<Rightarrow> source_key \<Rightarrow> json" where
  "dropped_name H k = (case k of (document, i, body) \<Rightarrow> if truthy i then i else JStr (H [JStr body]))"

definition drop_metadata :: "(json list \<Rightarrow> string) \<Rightarrow> source_key \<Rightarrow> nat \<Rightarrow> nat \<Rightarrow> pydict \<Rightarrow> pydict" where
  "drop_metadata H k n chars m =
     dset ''evidence_chars'' (JNum (of_nat chars))
       (dset ''prompt_omitted_chunk_count'' (JNum (num_of (dget m ''prompt_omitted_chunk_count'' (JNum 0)) + of_nat n))
         (dset ''require_claim_support'' (JBool True) (dset ''complete'' (JBool False)
           (dset ''omitted_passage_ids'' (JList (as_list (dget m ''omitted_passage_ids'' (JList [])) @ replicate n (dropped_name H k))) m))))"

definition sent_payload :: "pydict \<Rightarrow> evidence_lists \<Rightarrow> pydict \<Rightarrow> pydict" where
  "sent_payload payload evidence m = dset ''context_metadata'' (JDict m) (dset ''evidence_by_category'' (evidence_json evidence) payload)"

definition prompt_registry :: "prompt_env \<Rightarrow> string \<Rightarrow> bool \<Rightarrow> pydict \<Rightarrow> registry result" where
  "prompt_registry env candidate_id sentences payload =
     rbind (build_evidence_registry (pe_hash env) (pe_lax env) (pe_context_limit env) candidate_id payload)
       (\<lambda>reg. Inr (if sentences then sentence_registry (pe_hash env) reg else reg))"

definition fits :: "prompt_env \<Rightarrow> int \<Rightarrow> bool \<Rightarrow> string \<Rightarrow> bool" where
  "fits env limit sentences prompt \<longleftrightarrow> int (length prompt) \<le> limit \<and> (sentences \<longrightarrow> fst (pe_budget env prompt))"

lemma first_min_in: "first_min f x xs = x \<or> first_min f x xs \<in> set xs"
  by (induction f x xs rule: first_min.induct) auto

lemma rmap_image: "rmap f xs = Inr ys \<Longrightarrow> y \<in> set ys \<Longrightarrow> \<exists>x\<in>set xs. f x = Inr y"
  by (induction xs arbitrary: ys) (auto simp: rbind_Inr_conv)

lemma drop_group_smaller:
  "\<exists>v\<in>set (all_chunks evidence). in_group k v \<Longrightarrow> length (all_chunks (drop_group k evidence)) < length (all_chunks evidence)"
proof (induction evidence)
  case (Cons x evidence)
  have le: "length (all_chunks (drop_group k es)) \<le> length (all_chunks es)" for es
    by (induction es) (auto simp: all_chunks_def drop_group_def add_le_mono)
  obtain c vs where x: "x = (c, vs)" by (cases x)
  show ?case
  proof (cases "\<exists>v\<in>set vs. in_group k v")
    case True
    then have "length (filter (\<lambda>v. \<not> in_group k v) vs) < length vs" using length_filter_less by fastforce
    then show ?thesis using le [of evidence] by (simp add: x all_chunks_def drop_group_def add_less_le_mono)
  next
    case False
    then have "length (filter (\<lambda>v. \<not> in_group k v) vs) = length vs" by (simp add: filter_True)
    then show ?thesis using Cons False by (auto simp: x all_chunks_def drop_group_def)
  qed
qed (simp add: all_chunks_def)

lemma first_group_smaller:
  assumes "rmap prompt_key (all_chunks evidence) = Inr (k # ks)"
  shows "length (all_chunks (drop_group (first_min f k ks) evidence)) < length (all_chunks evidence)"
proof -
  have "first_min f k ks \<in> set (k # ks)" using first_min_in [of f k ks] by auto
  then show ?thesis using rmap_image [OF assms] drop_group_smaller by (metis in_group_def)
qed

lemma rbind_cong [fundef_cong]:
  "r = r' \<Longrightarrow> (\<And>x. r' = Inr x \<Longrightarrow> f x = g x) \<Longrightarrow> rbind r f = rbind r' g"
  by (auto simp: rbind_def split: sum.split)

function prompt_loop ::
  "prompt_env \<Rightarrow> string \<Rightarrow> bool \<Rightarrow> int \<Rightarrow> pydict \<Rightarrow> evidence_lists \<Rightarrow> pydict \<Rightarrow> (pydict \<times> registry \<times> string) result" where
  "prompt_loop env candidate_id sentences limit payload evidence m =
     rbind (prompt_registry env candidate_id sentences (sent_payload payload evidence m)) (\<lambda>reg.
       let prompt = pe_prompt env (sent_payload payload evidence m) reg
       in if fits env limit sentences prompt
          then Inr (sent_payload payload evidence (if sentences then dset ''token_budget'' (snd (pe_budget env prompt)) m else m), reg, prompt)
          else rbind (rmap prompt_key (all_chunks evidence)) (\<lambda>ks. case ks of
              [] \<Rightarrow> Inl (ValueError ''JD and prompt metadata exceed the provider prompt budget'')
            | k # ks' \<Rightarrow>
                let gone = first_min (group_priority (pe_mandatory env) evidence) k ks'
                in rbind (unique_evidence_chars (pe_hash env) (drop_group gone evidence)) (\<lambda>chars.
                     prompt_loop env candidate_id sentences limit payload (drop_group gone evidence)
                       (drop_metadata (pe_hash env) gone (length (filter (in_group gone) (all_chunks evidence))) chars m))))"
  by pat_completeness auto
termination
  by (relation "measure (\<lambda>(env, i, u, limit, payload, evidence, m). length (all_chunks evidence))") (auto intro: first_group_smaller)

declare prompt_loop.simps [simp del]

definition bounded_evaluation_prompt ::
  "prompt_env \<Rightarrow> string \<Rightarrow> bool \<Rightarrow> int \<Rightarrow> pydict \<Rightarrow> (pydict \<times> registry \<times> string) result" where
  "bounded_evaluation_prompt env candidate_id sentences limit payload =
     rbind (prepare_evaluation_context (pe_hash env) (pe_context_limit env) candidate_id sentences (pe_mandatory env) payload) (\<lambda>prepared.
     rbind (evidence_lists_of prepared) (\<lambda>evidence.
       let m0 = as_dict (dget prepared ''context_metadata'' JNull)
       in prompt_loop env candidate_id sentences limit prepared evidence
            (dset ''omitted_passage_ids'' (JList (as_list (dget m0 ''omitted_passage_ids'' (JList [])))) m0)))"

section \<open>What is sent\<close>

lemma sent_payload_get [simp]:
  "dget (sent_payload payload evidence m) ''context_metadata'' v = JDict m"
  "dget (sent_payload payload evidence m) ''evidence_by_category'' v = evidence_json evidence"
  by (simp_all add: sent_payload_def)

text \<open>
  The loop ends; what it returns fits both budgets, and the registry is the one of the evidence that the
  prompt holds, up to the estimate noted in the metadata.
\<close>

lemma prompt_loop_Inr:
  assumes "prompt_loop env i sentences limit payload evidence m = Inr (sent, reg, prompt)"
  shows "\<exists>e m'. prompt_registry env i sentences (sent_payload payload e m') = Inr reg \<and>
    prompt = pe_prompt env (sent_payload payload e m') reg \<and> fits env limit sentences prompt \<and>
    sent = sent_payload payload e (if sentences then dset ''token_budget'' (snd (pe_budget env prompt)) m' else m') \<and>
    set (all_chunks e) \<subseteq> set (all_chunks evidence) \<and> (m' = m \<or> dget m' ''complete'' JNull = JBool False)"
  using assms
proof (induction env i sentences limit payload evidence m rule: prompt_loop.induct)
  case (1 env i sentences limit payload evidence m)
  note run = "1.prems" [unfolded prompt_loop.simps [of env i sentences limit payload evidence m]]
  obtain r where r: "prompt_registry env i sentences (sent_payload payload evidence m) = Inr r"
    using run by (auto simp: rbind_Inr_conv)
  let ?p = "pe_prompt env (sent_payload payload evidence m) r"
  show ?case
  proof (cases "fits env limit sentences ?p")
    case True
    have "sent = sent_payload payload evidence (if sentences then dset ''token_budget'' (snd (pe_budget env ?p)) m else m) \<and>
        reg = r \<and> prompt = ?p"
      using run r True by (auto simp: Let_def)
    then show ?thesis using r True by (intro exI [of _ evidence] exI [of _ m]) simp
  next
    case False
    then obtain ks0 where ks0: "rmap prompt_key (all_chunks evidence) = Inr ks0"
      using run r by (auto simp: Let_def rbind_Inr_conv)
    then obtain k ks where k: "ks0 = k # ks" using run r False by (cases ks0) (auto simp: Let_def)
    define gone where "gone = first_min (group_priority (pe_mandatory env) evidence) k ks"
    obtain chars where c: "unique_evidence_chars (pe_hash env) (drop_group gone evidence) = Inr chars"
      "prompt_loop env i sentences limit payload (drop_group gone evidence)
         (drop_metadata (pe_hash env) gone (length (filter (in_group gone) (all_chunks evidence))) chars m) = Inr (sent, reg, prompt)"
      using run r False ks0 k by (auto simp: Let_def rbind_Inr_conv gone_def)
    have "set (all_chunks (drop_group gone evidence)) \<subseteq> set (all_chunks evidence)"
      by (auto simp: all_chunks_def drop_group_def)
    moreover have "dget (drop_metadata (pe_hash env) gone n chars m) ''complete'' JNull = JBool False" for n
      by (simp add: drop_metadata_def)
    moreover from "1.IH" [OF r refl False ks0 k gone_def c] obtain e m' where
      "prompt_registry env i sentences (sent_payload payload e m') = Inr reg \<and>
       prompt = pe_prompt env (sent_payload payload e m') reg \<and> fits env limit sentences prompt \<and>
       sent = sent_payload payload e (if sentences then dset ''token_budget'' (snd (pe_budget env prompt)) m' else m') \<and>
       set (all_chunks e) \<subseteq> set (all_chunks (drop_group gone evidence)) \<and>
       (m' = drop_metadata (pe_hash env) gone (length (filter (in_group gone) (all_chunks evidence))) chars m \<or>
        dget m' ''complete'' JNull = JBool False)" by blast
    ultimately show ?thesis by (intro exI [of _ e] exI [of _ m']) auto
  qed
qed

end
