(* ===== verification/Provider_Calls.thy ===== *)
theory Provider_Calls
  imports Workers Patterns
begin

text \<open>
  One call of the language model (\<open>LLMClientWrapper\<close> of \<open>app/stage3_evaluation/llm_client.py\<close>): the HTTP
  attempts with their retries, the reading of the answer, and the dispatch on the configured provider. What
  the network and the Gemini SDK answer to the attempt with a given number is a parameter; so are \<open>float\<close>
  of a text, the date parser and \<open>json.loads\<close>.
\<close>

section \<open>Retry-After\<close>

record reply_readers =
  rr_float :: "string \<Rightarrow> rat option"
  rr_seconds_until :: "string \<Rightarrow> rat option"
  rr_json :: "string \<Rightarrow> json option"

definition retry_after_seconds :: "reply_readers \<Rightarrow> string option \<Rightarrow> rat option" where
  "retry_after_seconds rr value =
    (case value of
       None \<Rightarrow> None
     | Some s \<Rightarrow>
         if s = [] then None
         else (case rr_float rr s of
             Some x \<Rightarrow> if 0 \<le> x \<and> x \<le> 86400 then Some x else map_option (\<lambda>d. max 0 (min 86400 d)) (rr_seconds_until rr s)
           | None \<Rightarrow> map_option (\<lambda>d. max 0 (min 86400 d)) (rr_seconds_until rr s)))"

section \<open>The text of an answer\<close>

definition backticks :: string where
  "backticks = replicate 3 (CHR 0x60)"

definition drop_suffix :: "string \<Rightarrow> string \<Rightarrow> string" where
  "drop_suffix suffix s = (if starts_with (rev suffix) (rev s) then take (length s - length suffix) s else s)"

definition clean_json_text :: "string \<Rightarrow> string" where
  "clean_json_text s0 =
    (let s = strip s0;
         s = (if starts_with (backticks @ ''json'') s then drop 7 s else if starts_with backticks s then drop 3 s else s)
     in strip (drop_suffix backticks s))"

text \<open>What a call of the provider raises.\<close>

datatype call_error = Call_Failed provider_failure | Status_Error nat | Bad_JSON | Call_Raised py_exn

definition loads :: "reply_readers \<Rightarrow> string \<Rightarrow> call_error + json" where
  "loads rr s = (case rr_json rr s of None \<Rightarrow> Inl Bad_JSON | Some v \<Rightarrow> Inr v)"

text \<open>\<open>data["choices"][0]["message"]["content"]\<close>.\<close>

definition py_index :: "string \<Rightarrow> json \<Rightarrow> json result" where
  "py_index k v = (case v of JDict d \<Rightarrow> dindex d k | _ \<Rightarrow> Inl (TypeError ''indices must be integers''))"

definition py_first :: "json \<Rightarrow> json result" where
  "py_first v = (case v of
     JList [] \<Rightarrow> Inl (OtherException ''IndexError'') | JList (x # xs) \<Rightarrow> Inr x
   | JStr [] \<Rightarrow> Inl (OtherException ''IndexError'') | JStr (c # cs) \<Rightarrow> Inr (JStr [c])
   | JDict d \<Rightarrow> Inl (KeyError ''0'') | _ \<Rightarrow> Inl (TypeError ''not subscriptable''))"

definition message_content :: "json \<Rightarrow> string result" where
  "message_content v = rbind (py_index ''choices'' v) (\<lambda>cs. rbind (py_first cs) (\<lambda>c.
     rbind (py_index ''message'' c) (\<lambda>m. rbind (py_index ''content'' m) (\<lambda>x.
       case x of JStr s \<Rightarrow> Inr s | _ \<Rightarrow> Inl (OtherException ''AttributeError'')))))"

definition read_reply :: "reply_readers \<Rightarrow> string \<Rightarrow> call_error + json" where
  "read_reply rr body = (case loads rr body of
     Inl e \<Rightarrow> Inl e
   | Inr v \<Rightarrow> (case message_content v of Inl e \<Rightarrow> Inl (Call_Raised e) | Inr s \<Rightarrow> loads rr (clean_json_text s)))"

section \<open>HTTP attempts\<close>

text \<open>The answer to one POST: a response, a timeout or transport error, or another exception of the client.\<close>

datatype http_reply = Response nat "string option" string | Lost_Request | Client_Raised py_exn

definition transient_statuses :: "nat list" where
  "transient_statuses = [500, 502, 503, 504]"

definition wait_time :: "nat \<Rightarrow> nat" where
  "wait_time attempt = min 8 (2 ^ attempt)"

text \<open>
  The loop \<open>for attempt in range(max_provider_attempts)\<close>, by the attempts left; it returns the result and
  the waits between the requests, of which there is one fewer than requests. Without attempts it returns
  \<open>None\<close>.
\<close>

fun http_attempts ::
  "reply_readers \<Rightarrow> (nat \<Rightarrow> http_reply) \<Rightarrow> nat \<Rightarrow> nat \<Rightarrow> (call_error + json) \<times> nat list" where
  "http_attempts rr post attempt 0 = (Inr JNull, [])"
| "http_attempts rr post attempt (Suc left) =
    (let again = (case http_attempts rr post (attempt + 1) left of (r, waits) \<Rightarrow> (r, wait_time attempt # waits))
     in case post attempt of
       Response status header body \<Rightarrow>
         if status = 429 then (Inl (Call_Failed (ProviderRateLimited (retry_after_seconds rr header))), [])
         else if status < 400 then (read_reply rr body, [])
         else if status \<notin> set transient_statuses then (Inl (Status_Error status), [])
         else if left = 0 then (Inl (Call_Failed (ProviderTransientFailure (retry_after_seconds rr header))), []) else again
     | Lost_Request \<Rightarrow> if left = 0 then (Inl (Call_Failed (ProviderTransientFailure None)), []) else again
     | Client_Raised e \<Rightarrow> (Inl (Call_Raised e), []))"

section \<open>Gemini\<close>

text \<open>The SDK answers with a text, or raises with a status and a retry hint, a timeout, or anything else.\<close>

datatype gemini_reply = Gemini_Text string | Gemini_Error nat "string option" | Gemini_Timeout | Gemini_Raised py_exn

fun gemini_attempts ::
  "reply_readers \<Rightarrow> (nat \<Rightarrow> gemini_reply) \<Rightarrow> nat \<Rightarrow> nat \<Rightarrow> (call_error + json) \<times> nat list" where
  "gemini_attempts rr post attempt 0 = (Inr JNull, [])"
| "gemini_attempts rr post attempt (Suc left) =
    (let again = (case gemini_attempts rr post (attempt + 1) left of (r, waits) \<Rightarrow> (r, wait_time attempt # waits))
     in case post attempt of
       Gemini_Text s \<Rightarrow> (if s = [] then Inl (Call_Raised (ValueError ''Empty response received from Gemini API.'')) else loads rr s, [])
     | Gemini_Error status hint \<Rightarrow>
         if status = 429 then (Inl (Call_Failed (ProviderRateLimited (retry_after_seconds rr hint))), [])
         else if status \<notin> set transient_statuses then (Inl (Call_Raised (OtherException ''APIError'')), [])
         else if left = 0 then (Inl (Call_Failed (ProviderTransientFailure None)), []) else again
     | Gemini_Timeout \<Rightarrow> if left = 0 then (Inl (Call_Failed (ProviderTransientFailure None)), []) else again
     | Gemini_Raised e \<Rightarrow> (Inl (Call_Raised e), []))"

section \<open>Dispatch\<close>

record provider =
  pv_readers :: reply_readers
  pv_http :: "string \<Rightarrow> nat \<Rightarrow> http_reply"
  pv_gemini :: "string \<Rightarrow> nat \<Rightarrow> gemini_reply"

definition mock_allowed :: "settings \<Rightarrow> bool" where
  "mock_allowed cfg \<longleftrightarrow> lower (ENVIRONMENT cfg) \<in> {''development'', ''test'', ''testing''}"

definition initialize_client :: "settings \<Rightarrow> unit result" where
  "initialize_client cfg =
    (let p = lower (LLM_PROVIDER cfg)
     in if p = ''mock'' then
          if mock_allowed cfg then Inr () else Inl (ValueError ''Mock provider is restricted to development/test environments'')
        else if p = ''gemini'' then
          if \<not> nonempty (GEMINI_API_KEY cfg) \<or> GEMINI_API_KEY cfg = Some ''mock_key_for_now''
          then Inl (ValueError ''GEMINI_API_KEY must be configured'') else Inr ()
        else if p = ''groq'' then if nonempty (GROQ_API_KEY cfg) then Inr () else Inl (ValueError ''GROQ_API_KEY must be configured'')
        else if p = ''openrouter'' then
          if nonempty (OPENROUTER_API_KEY cfg) then Inr () else Inl (ValueError ''OPENROUTER_API_KEY must be configured'')
        else Inl (ValueError ''Unsupported LLM provider''))"

definition mock_text :: string where
  "mock_text = ''Synthetic Mock output for offline testing; not an evidence judgment.''"

definition mock_category :: "rat \<Rightarrow> string \<Rightarrow> json" where
  "mock_category score citation = JDict [(''score'', JNum score), (''rationale'', JStr mock_text), (''citations'', JList [JStr citation])]"

definition call_mock :: "settings \<Rightarrow> json result" where
  "call_mock cfg =
    (if \<not> mock_allowed cfg then Inl (ValueError ''Mock provider is restricted to development/test environments'')
     else Inr (JDict [(''skills'', mock_category 90 ''SKILLS:1''), (''experience'', mock_category 85 ''EXPERIENCE:1''),
       (''projects'', mock_category 80 ''PROJECTS:1''), (''education'', mock_category 95 ''EDUCATION:1''),
       (''flags'', JList []), (''executive_summary'', JStr mock_text)]))"

definition generate_evaluation :: "settings \<Rightarrow> provider \<Rightarrow> string \<Rightarrow> nat \<Rightarrow> (call_error + json) \<times> nat list" where
  "generate_evaluation cfg pv prompt max_provider_attempts =
    (case initialize_client cfg of
       Inl e \<Rightarrow> (Inl (Call_Raised e), [])
     | Inr _ \<Rightarrow>
         if lower (LLM_PROVIDER cfg) = ''gemini'' then gemini_attempts (pv_readers pv) (pv_gemini pv prompt) 0 max_provider_attempts
         else if lower (LLM_PROVIDER cfg) \<in> {''groq'', ''openrouter''}
         then http_attempts (pv_readers pv) (pv_http pv prompt) 0 max_provider_attempts
         else (case call_mock cfg of Inl e \<Rightarrow> (Inl (Call_Raised e), []) | Inr v \<Rightarrow> (Inr v, [])))"

section \<open>Bounds\<close>

lemma wait_time_le: "wait_time n \<le> 8"
  by (simp add: wait_time_def)

lemma http_waits:
  "length (snd (http_attempts rr post attempt left)) \<le> left - 1 \<and>
     list_all (\<lambda>w. w \<le> 8) (snd (http_attempts rr post attempt left))"
proof (induction left arbitrary: attempt)
  case (Suc left)
  have "length (snd (http_attempts rr post (attempt + 1) left)) \<le> left - 1 \<and>
      list_all (\<lambda>w. w \<le> 8) (snd (http_attempts rr post (attempt + 1) left))" by (rule Suc)
  then show ?case
    by (auto simp: Let_def wait_time_le split: http_reply.split prod.split)
qed simp

lemma gemini_waits:
  "length (snd (gemini_attempts rr post attempt left)) \<le> left - 1 \<and>
     list_all (\<lambda>w. w \<le> 8) (snd (gemini_attempts rr post attempt left))"
proof (induction left arbitrary: attempt)
  case (Suc left)
  have "length (snd (gemini_attempts rr post (attempt + 1) left)) \<le> left - 1 \<and>
      list_all (\<lambda>w. w \<le> 8) (snd (gemini_attempts rr post (attempt + 1) left))" by (rule Suc)
  then show ?case
    by (auto simp: Let_def wait_time_le split: gemini_reply.split prod.split)
qed simp

text \<open>A call sends at most the configured number of requests and never waits longer than eight seconds.\<close>

lemma generate_waits:
  "length (snd (generate_evaluation cfg pv prompt n)) \<le> n - 1 \<and> list_all (\<lambda>w. w \<le> 8) (snd (generate_evaluation cfg pv prompt n))"
  using http_waits gemini_waits by (auto simp: generate_evaluation_def split: sum.split)

text \<open>A rate limit is never retried by the call itself.\<close>

lemma rate_limit_stops:
  assumes "post attempt = Response 429 header body"
  shows "http_attempts rr post attempt (Suc left) = (Inl (Call_Failed (ProviderRateLimited (retry_after_seconds rr header))), [])"
  using assms by (simp add: Let_def)

text \<open>After transient failures the answer is the one of the first attempt that is not lost.\<close>

definition transient_reply :: "http_reply \<Rightarrow> bool" where
  "transient_reply r = (case r of Response status _ _ \<Rightarrow> status \<in> set transient_statuses | Lost_Request \<Rightarrow> True | Client_Raised _ \<Rightarrow> False)"

lemma http_recovers:
  assumes "\<forall>k<n. transient_reply (post (attempt + k))" "n < left"
  shows "fst (http_attempts rr post attempt left) = fst (http_attempts rr post (attempt + n) (left - n))"
  using assms
proof (induction n arbitrary: attempt left)
  case (Suc n)
  obtain l where l: "left = Suc l" "0 < l" using Suc.prems(2) by (cases left) auto
  have t: "transient_reply (post attempt)" using Suc.prems(1) by force
  have "fst (http_attempts rr post attempt left) = fst (http_attempts rr post (attempt + 1) l)"
    using t l(2) unfolding l(1)
    by (auto simp: Let_def transient_reply_def transient_statuses_def split: http_reply.splits prod.splits)
  also have "\<dots> = fst (http_attempts rr post (attempt + 1 + n) (l - n))"
    using Suc.prems l by (intro Suc.IH) auto
  finally show ?case by (simp add: l(1))
qed simp

end
