(* ===== verification/Single_Evaluation.thy ===== *)
theory Single_Evaluation
  imports Selection_Parsing Grounded Bounded_Prompt Provider_Calls
begin

text \<open>
  The evaluation of one candidate (\<open>evaluate_single_candidate_async\<close> of
  \<open>app/stage3_evaluation/llm_client.py\<close>, \<open>compute_deterministic_tier\<close> of \<open>evaluator.py\<close>): the prompt, the
  calls of the provider with their retries, the resolution and verification of the answer, the score. What
  the provider answers to the call with a given number is a parameter. A candidate identifier is a text, as
  its type says; any other is refused by the model of every final evaluation.
\<close>

section \<open>Verification and score\<close>

definition context_metadata_of :: "pydict \<Rightarrow> pydict result" where
  "context_metadata_of sent = (case dget sent ''context_metadata'' (JDict []) of
     JDict m \<Rightarrow> Inr m | _ \<Rightarrow> Inl (OtherException ''AttributeError''))"

definition compute_deterministic_tier ::
  "prompt_env \<Rightarrow> string \<Rightarrow> llm_evaluation_output \<Rightarrow> pydict \<Rightarrow> registry option \<Rightarrow> string list \<Rightarrow> bool \<Rightarrow> final_evaluation result" where
  "compute_deterministic_tier env candidate_id out evidence_payload registry injection_signals is_mock =
     rbind (prepare_evaluation_context (pe_hash env) (pe_context_limit env) candidate_id False [] evidence_payload) (\<lambda>sent.
     rbind (case registry of
         Some reg \<Rightarrow> Inr reg
       | None \<Rightarrow> build_evidence_registry (pe_hash env) (pe_lax env) (pe_context_limit env) candidate_id sent) (\<lambda>reg.
     rbind (context_metadata_of sent) (\<lambda>m.
     rbind (verify_evidence out reg candidate_id injection_signals
         (truthy (dget m ''require_claim_support'' (JBool False)) \<and> \<not> is_mock) (truthy (dget m ''complete'' (JBool True)))) (\<lambda>v.
       score_evaluation candidate_id out (v\<lparr>ev_context_metadata := m\<rparr>) is_mock))))"

text \<open>\<open>except (ValueError, TypeError, AttributeError)\<close>, and the errors that pydantic reports.\<close>

definition evidence_error :: "py_exn \<Rightarrow> bool" where
  "evidence_error e = (case e of ValueError _ \<Rightarrow> True | TypeError _ \<Rightarrow> True | OtherException n \<Rightarrow> n = ''AttributeError'' | _ \<Rightarrow> False)"

definition validation_messages :: "string list" where
  "validation_messages = [''validation error'', ''Score must be between 0 and 100'',
     ''Failed evaluations cannot have suitability scores or a tier'',
     ''Failed evaluations require error details, not fabricated assessments'',
     ''System failures cannot imply candidate flags or evidence judgments'',
     ''Completed assessments require scores and validated output'',
     ''Completed assessments require evidence verification'',
     ''Evidence registry belongs to another candidate'', ''All four category scores are required'',
     ''Completed assessments cannot contain execution errors'',
     ''Successful evaluations require a tier and no review reasons'',
     ''Review outcomes require reasons and no final tier'']"

definition validation_error :: "py_exn \<Rightarrow> bool" where
  "validation_error e = (case e of ValueError m \<Rightarrow> m \<in> set validation_messages | _ \<Rightarrow> False)"

section \<open>The call\<close>

text \<open>The configured provider, or one that the caller supplies.\<close>

datatype llm_source = Configured "nat \<Rightarrow> provider" | Supplied bool "nat \<Rightarrow> string \<Rightarrow> call_error + json"

record evaluation_call =
  ec_settings :: settings
  ec_env :: prompt_env
  ec_source :: llm_source
  ec_prompt_limit :: int
  ec_max_retries :: int
  ec_raise_rate_limits :: bool
  ec_max_provider_attempts :: int
  ec_single_cv :: bool

definition call_is_mock :: "evaluation_call \<Rightarrow> bool" where
  "call_is_mock ec = (case ec_source ec of
     Configured _ \<Rightarrow> lower (LLM_PROVIDER (ec_settings ec)) = ''mock'' | Supplied mock _ \<Rightarrow> mock)"

definition is_configured :: "evaluation_call \<Rightarrow> bool" where
  "is_configured ec = (case ec_source ec of Configured _ \<Rightarrow> True | Supplied _ _ \<Rightarrow> False)"

definition sentence_selections :: "evaluation_call \<Rightarrow> bool" where
  "sentence_selections ec \<longleftrightarrow> \<not> call_is_mock ec \<and> is_configured ec"

definition provider_reply :: "evaluation_call \<Rightarrow> nat \<Rightarrow> string \<Rightarrow> call_error + json" where
  "provider_reply ec n prompt = (case ec_source ec of
     Configured pv \<Rightarrow> fst (generate_evaluation (ec_settings ec) (pv n) prompt (nat (ec_max_provider_attempts ec)))
   | Supplied _ answer \<Rightarrow> answer n prompt)"

text \<open>\<open>failed_evaluation\<close> raises inside the handlers only if the record itself is refused.\<close>

definition failure :: "evaluation_call \<Rightarrow> string \<Rightarrow> string \<Rightarrow> string \<Rightarrow> provider_answer" where
  "failure ec candidate_id error_code message =
     (case failed_evaluation candidate_id error_code message (call_is_mock ec) of Inl e \<Rightarrow> Provider_Raised e | Inr f \<Rightarrow> Answer f)"

section \<open>One attempt\<close>

datatype attempt = Scored final_evaluation | No_Suggestions | Bad_Output pydict | Refused nat
  | Unavailable provider_failure | Broken

definition useful_suggestions :: "json \<Rightarrow> bool" where
  "useful_suggestions v = (case v of
     JList vs \<Rightarrow> list_ex (\<lambda>x. case x of JStr s \<Rightarrow> strip s \<noteq> [] | _ \<Rightarrow> False) vs | _ \<Rightarrow> False)"

definition mock_suggestion :: json where
  "mock_suggestion = JList [JStr ''Add specific, verifiable examples that address the JD requirements.'']"

definition with_claim_support :: "pydict \<Rightarrow> pydict" where
  "with_claim_support sent = dset ''context_metadata''
     (JDict (dset ''require_claim_support'' (JBool True) (as_dict (dget sent ''context_metadata'' (JDict []))))) sent"

text \<open>The selection of a real provider becomes an assessment made of trusted text.\<close>

definition resolved_output ::
  "evaluation_call \<Rightarrow> registry \<Rightarrow> string \<Rightarrow> json \<Rightarrow> (bool + llm_evaluation_output)" where
  "resolved_output ec reg candidate_id data =
    (if call_is_mock ec then
       (case parse_output (pe_lax (ec_env ec)) data of Inl _ \<Rightarrow> Inl True | Inr out \<Rightarrow> Inr out)
     else if is_configured ec then
       (case parse_compact_selection (pe_lax (ec_env ec)) data of
          Inl _ \<Rightarrow> Inl True
        | Inr x \<Rightarrow> (case resolve_compact_selection (pe_hash (ec_env ec)) x reg candidate_id of
            Inl e \<Rightarrow> Inl (e = OtherException ''SelectionScopeMismatch'' \<or> validation_error e) | Inr out \<Rightarrow> Inr out))
     else
       (case parse_evidence_selection (pe_lax (ec_env ec)) data of
          Inl _ \<Rightarrow> Inl True
        | Inr x \<Rightarrow> (case resolve_evidence_selection x reg candidate_id of Inl _ \<Rightarrow> Inl False | Inr out \<Rightarrow> Inr out)))"

definition finish_attempt ::
  "evaluation_call \<Rightarrow> string \<Rightarrow> string list \<Rightarrow> pydict \<Rightarrow> registry \<Rightarrow> json \<Rightarrow> attempt" where
  "finish_attempt ec candidate_id signals sent reg data =
    (case resolved_output ec reg candidate_id data of
       Inl retry \<Rightarrow> if retry then Bad_Output sent else Broken
     | Inr out \<Rightarrow>
        let supported = (if call_is_mock ec then sent else with_claim_support sent)
        in (case compute_deterministic_tier (ec_env ec) candidate_id out supported (Some reg) signals (call_is_mock ec) of
              Inr f \<Rightarrow> Scored f
            | Inl e \<Rightarrow> if validation_error e then Bad_Output supported else Broken))"

definition read_answer ::
  "evaluation_call \<Rightarrow> string \<Rightarrow> string list \<Rightarrow> pydict \<Rightarrow> registry \<Rightarrow> json \<Rightarrow> attempt" where
  "read_answer ec candidate_id signals sent reg data =
    (if \<not> ec_single_cv ec then finish_attempt ec candidate_id signals sent reg data
     else case data of
       JDict d \<Rightarrow>
         if call_is_mock ec
         then finish_attempt ec candidate_id signals sent reg (JDict (dset ''improvement_suggestions'' mock_suggestion d))
         else if \<not> useful_suggestions (dget d ''improvement_suggestions'' JNull) then No_Suggestions
         else finish_attempt ec candidate_id signals sent reg data
     | _ \<Rightarrow> Broken)"

definition one_attempt ::
  "evaluation_call \<Rightarrow> string \<Rightarrow> string list \<Rightarrow> pydict \<Rightarrow> registry \<Rightarrow> string \<Rightarrow> nat \<Rightarrow> attempt" where
  "one_attempt ec candidate_id signals sent reg prompt n =
    (case provider_reply ec n prompt of
       Inl Bad_JSON \<Rightarrow> Bad_Output sent
     | Inl (Status_Error status) \<Rightarrow> Refused status
     | Inl (Call_Failed f) \<Rightarrow> Unavailable f
     | Inl (Call_Raised e) \<Rightarrow> Broken
     | Inr data \<Rightarrow> read_answer ec candidate_id signals sent reg data)"

section \<open>The loop\<close>

definition provider_error :: string where
  "provider_error = ''Evaluation failed: provider request could not complete.''"

definition shrunk_limit :: "string \<Rightarrow> int" where
  "shrunk_limit prompt = max 3000 (int (length prompt) div 2)"

text \<open>
  By the retries left and the chances left to shrink the prompt; the second result is the number of calls.
\<close>

function evaluation_loop ::
  "evaluation_call \<Rightarrow> string \<Rightarrow> string list \<Rightarrow> pydict \<Rightarrow> registry \<Rightarrow> string \<Rightarrow> nat \<Rightarrow> nat \<Rightarrow> nat \<Rightarrow> provider_answer \<times> nat" where
  "evaluation_loop ec candidate_id signals sent reg prompt n left shrinks =
    (case one_attempt ec candidate_id signals sent reg prompt n of
       Scored f \<Rightarrow> (Answer f, n + 1)
     | No_Suggestions \<Rightarrow>
         (failure ec candidate_id ''INVALID_LLM_OUTPUT'' ''Evaluation failed: improvement suggestions were missing.'', n + 1)
     | Bad_Output sent' \<Rightarrow>
         if left = 0 then (failure ec candidate_id ''INVALID_LLM_OUTPUT'' ''Evaluation failed: invalid provider response.'', n + 1)
         else evaluation_loop ec candidate_id signals sent' reg prompt (n + 1) (left - 1) shrinks
     | Refused status \<Rightarrow>
         if status = 413 \<and> 0 < shrinks then
           (case bounded_evaluation_prompt (ec_env ec) candidate_id (sentence_selections ec) (shrunk_limit prompt) sent of
              Inr (sent', reg', prompt') \<Rightarrow>
                evaluation_loop ec candidate_id signals sent' reg' prompt' (n + 1) left (shrinks - 1)
            | Inl e \<Rightarrow>
                (if evidence_error e
                 then failure ec candidate_id ''PROVIDER_CONTEXT_TOO_LARGE'' ''Evaluation context exceeds provider capacity.''
                 else Provider_Raised e, n + 1))
         else (failure ec candidate_id (if status = 413 then ''PROVIDER_CONTEXT_TOO_LARGE'' else ''PROVIDER_ERROR'') provider_error, n + 1)
     | Unavailable f \<Rightarrow>
         (if ec_raise_rate_limits ec then Retryable f
          else (case f of
              ProviderTransientFailure _ \<Rightarrow> failure ec candidate_id ''PROVIDER_ERROR'' provider_error
            | ProviderRateLimited _ \<Rightarrow> failure ec candidate_id ''PROVIDER_RATE_LIMITED'' ''Provider rate limit; retry is required.''), n + 1)
     | Broken \<Rightarrow> (failure ec candidate_id ''PROVIDER_ERROR'' provider_error, n + 1))"
  by pat_completeness auto
termination
  by (relation "measure (\<lambda>(ec, i, signals, sent, reg, prompt, n, left, shrinks). left + shrinks)") auto

declare evaluation_loop.simps [simp del]

section \<open>The evaluation\<close>

definition jd_text :: "pydict \<Rightarrow> string result" where
  "jd_text jd_profile =
     rbind (case dget jd_profile ''jd_category_queries'' (JDict []) of
         JDict q \<Rightarrow> Inr (map snd q) | _ \<Rightarrow> Inl (OtherException ''AttributeError'')) (\<lambda>queries.
     rbind (rmap (\<lambda>v. case v of JStr s \<Rightarrow> Inr s | _ \<Rightarrow> Inl (TypeError ''expected str instance''))
         (dget jd_profile ''title'' (JStr []) # queries)) (\<lambda>parts.
       Inr (join_with [newline] parts)))"

definition injection_signals :: "pydict \<Rightarrow> string \<Rightarrow> string list result" where
  "injection_signals jd_profile candidate_id = rbind (jd_text jd_profile) (\<lambda>body.
     Inr ((if is_flagged body then [''JD_INJECTION_SIGNAL''] else []) @
          (if is_flagged candidate_id then [''IDENTIFIER_INJECTION_SIGNAL''] else [])))"

definition evaluate_single_candidate :: "evaluation_call \<Rightarrow> pydict \<Rightarrow> pydict \<Rightarrow> provider_answer \<times> nat" where
  "evaluate_single_candidate ec candidate_payload jd_profile =
    (if ec_max_retries ec < 0 then (Provider_Raised (ValueError ''max_retries must be nonnegative''), 0)
     else if ec_max_provider_attempts ec < 1 then (Provider_Raised (ValueError ''max_provider_attempts must be positive''), 0)
     else case dget candidate_payload ''candidate_id'' (JStr ''UNKNOWN'') of
       JStr candidate_id \<Rightarrow>
         if call_is_mock ec \<and> \<not> mock_allowed (ec_settings ec)
         then (failure ec candidate_id ''MOCK_NOT_ALLOWED'' ''Mock evaluation is disabled in this environment.'', 0)
         else (case rbind (bounded_evaluation_prompt (ec_env ec) candidate_id (sentence_selections ec) (ec_prompt_limit ec) candidate_payload)
                     (\<lambda>(sent, reg, prompt). rbind (injection_signals jd_profile candidate_id) (\<lambda>signals. Inr (sent, reg, prompt, signals))) of
             Inl e \<Rightarrow>
               (if evidence_error e then failure ec candidate_id ''INVALID_EVIDENCE'' ''Invalid evidence or prompt context.''
                else Provider_Raised e, 0)
           | Inr (sent, reg, prompt, signals) \<Rightarrow>
               evaluation_loop ec candidate_id signals sent reg prompt 0 (nat (ec_max_retries ec)) 1)
     | _ \<Rightarrow> (Provider_Raised (ValueError ''validation error''), 0))"

text \<open>The same path for the caller that names the candidate itself.\<close>

definition evaluate_candidate_stage3 :: "evaluation_call \<Rightarrow> string \<Rightarrow> pydict \<Rightarrow> pydict \<Rightarrow> provider_answer \<times> nat" where
  "evaluate_candidate_stage3 ec candidate_id jd_profile evidence_payload =
    (if dget evidence_payload ''candidate_id'' (JStr candidate_id) \<noteq> JStr candidate_id
     then (case failed_evaluation candidate_id ''INVALID_EVIDENCE'' ''Evidence ownership mismatch.'' False of
         Inl e \<Rightarrow> Provider_Raised e | Inr f \<Rightarrow> Answer f, 0)
     else evaluate_single_candidate ec (dset ''candidate_id'' (JStr candidate_id) evidence_payload) jd_profile)"

end
