(* ===== verification/Context_Bounds.thy ===== *)
theory Context_Bounds
  imports Context
begin

text \<open>
  What the prepared context promises: the characters it sends stay within the budget, whatever was retrieved;
  when it is marked complete nothing was left out; the passages of a CV are cut from its text.
\<close>

section \<open>Counting a chunk once\<close>

lemma total_chars_sum: "total_chars xs = (\<Sum>x\<in>set xs. length (snd (snd x)))"
  unfolding total_chars_def by (simp add: sum_list_distinct_conv_sum_set comp_def)

lemma total_chars_insert:
  assumes "set ys \<subseteq> insert y (set xs)"
  shows "total_chars ys \<le> total_chars xs + length (snd (snd y))"
proof -
  have "total_chars ys \<le> (\<Sum>x\<in>insert y (set xs). length (snd (snd x)))"
    unfolding total_chars_sum using assms by (intro sum_mono2) auto
  also have "\<dots> \<le> (\<Sum>x\<in>set xs. length (snd (snd x))) + length (snd (snd y))"
    by (cases "y \<in> set xs") (simp_all add: insert_absorb)
  finally show ?thesis by (simp add: total_chars_sum)
qed

lemma rmap_set:
  assumes "rmap f xs = Inr ys"
  shows "set ys = {y. \<exists>x\<in>set xs. f x = Inr y}"
  using assms
proof (induction xs arbitrary: ys)
  case (Cons x xs)
  then show ?case by (auto simp: rbind_Inr_conv)
qed simp

lemma rmap_defined: "(\<exists>ys. rmap f xs = Inr ys) \<longleftrightarrow> (\<forall>x\<in>set xs. \<exists>y. f x = Inr y)"
  by (induction xs) (auto simp: rbind_Inr_conv)

lemma set_append_chunk: "set (all_chunks (append_chunk v c evidence)) = insert v (set (all_chunks evidence))"
proof -
  have "set (all_chunks (map (\<lambda>(d, vs). (d, if d = c then vs @ [v] else vs)) xs)) =
      (if c \<in> fst ` set xs then insert v (set (all_chunks xs)) else set (all_chunks xs))" for xs
    by (induction xs) (auto simp: all_chunks_def split: if_splits)
  then show ?thesis by (auto simp: append_chunk_def all_chunks_def)
qed

lemma set_append_chunks:
  "set (all_chunks (fold (append_chunk v) cs evidence)) = (if cs = [] then set (all_chunks evidence) else insert v (set (all_chunks evidence)))"
  by (induction cs arbitrary: evidence) (auto simp: set_append_chunk)

lemma unique_chars_add:
  assumes "unique_evidence_chars H evidence = Inr n" "chunk_source H v = Inr y"
  shows "\<exists>m. unique_evidence_chars H (fold (append_chunk v) cs evidence) = Inr m \<and> m \<le> n + length (snd (snd y))"
proof -
  let ?e = "fold (append_chunk v) cs evidence"
  obtain xs where xs: "rmap (chunk_source H) (all_chunks evidence) = Inr xs" "n = total_chars xs"
    using assms(1) by (auto simp: unique_evidence_chars_def rbind_Inr_conv)
  have sub: "set (all_chunks ?e) \<subseteq> insert v (set (all_chunks evidence))" by (auto simp: set_append_chunks)
  then have "\<forall>x\<in>set (all_chunks ?e). \<exists>y. chunk_source H x = Inr y"
    using rmap_defined [of "chunk_source H" "all_chunks evidence"] xs(1) assms(2) by blast
  then obtain ys where ys: "rmap (chunk_source H) (all_chunks ?e) = Inr ys"
    using rmap_defined [of "chunk_source H" "all_chunks ?e"] by blast
  have "set ys \<subseteq> insert y (set xs)" unfolding rmap_set [OF ys] rmap_set [OF xs(1)] using sub assms(2) by auto
  from total_chars_insert [OF this] show ?thesis by (simp add: unique_evidence_chars_def ys xs(2))
qed

section \<open>The budget\<close>

lemma trim_Inr:
  "trim H limit evidence omitted = Inr (evidence', omitted') \<Longrightarrow>
     (\<exists>n. unique_evidence_chars H evidence' = Inr n \<and> int n \<le> limit) \<and> (\<exists>ws. omitted' = omitted @ ws) \<and>
     set (all_chunks evidence') \<subseteq> set (all_chunks evidence) \<and> (omitted' = omitted \<longrightarrow> evidence' = evidence)"
proof (induction H limit evidence omitted rule: trim.induct)
  case (1 H limit evidence omitted)
  obtain used where used: "unique_evidence_chars H evidence = Inr used"
    using "1.prems" by (subst (asm) trim.simps) (auto simp: rbind_Inr_conv)
  show ?case
  proof (cases "int used \<le> limit")
    case True
    then show ?thesis using "1.prems" used by (subst (asm) trim.simps) auto
  next
    case False
    then obtain x xs where e: "evidence = x # xs"
      using "1.prems" used by (subst (asm) trim.simps) (auto split: list.splits)
    define c where "c = heaviest evidence (fst x) (map fst xs)"
    have t: "chunks_of evidence c \<noteq> []"
      "trim H limit (pop_chunk c evidence) (omitted @ [omitted_name H (last (chunks_of evidence c))]) = Inr (evidence', omitted')"
      using "1.prems" used False e by (subst (asm) trim.simps; auto simp: Let_def c_def split: if_splits)+
    have "set (all_chunks (pop_chunk c es)) \<subseteq> set (all_chunks es)" for es
      by (induction c es rule: pop_chunk.induct) (auto simp: all_chunks_def dest: in_set_butlastD)
    then show ?thesis using "1.IH" [OF False e c_def refl t] by fastforce
  qed
qed

lemma passage_source: "ps_chunk_id p \<noteq> [] \<Longrightarrow> chunk_source H (passage_json i d p) = Inr (JStr d, JStr (ps_chunk_id p), ps_text p)"
  by (simp add: chunk_source_def chunk_text_def passage_json_def chunk_name_def dget_def unhashable_def)

definition budgeted :: "(json list \<Rightarrow> string) \<Rightarrow> int \<Rightarrow> inclusion \<Rightarrow> bool" where
  "budgeted H limit st \<longleftrightarrow> int (in_used st) \<le> limit \<and>
     (\<exists>n. unique_evidence_chars H (in_evidence st) = Inr n \<and> n \<le> in_used st)"

lemma include_budgeted:
  assumes "budgeted H limit st" "ps_chunk_id p \<noteq> []"
  shows "budgeted H limit (include_passage i d limit p st)"
proof -
  obtain n where n: "unique_evidence_chars H (in_evidence st) = Inr n" "n \<le> in_used st" using assms(1) by (auto simp: budgeted_def)
  from unique_chars_add [OF n(1) passage_source [OF assms(2), of H i d], of "target_categories (ps_category p)"]
  show ?thesis using assms(1) n(2) by (auto simp: budgeted_def include_passage_def)
qed

lemma cv_passages_in:
  assumes "p \<in> set (cv_passages H d u body)"
  shows "ps_text p = slice body (ps_start p) (ps_end p)" "ps_chunk_id p \<noteq> []" "strip (ps_text p) \<noteq> []"
proof -
  have "p \<in> set (section_passages H d u body bs) \<Longrightarrow>
      ps_text p = slice body (ps_start p) (ps_end p) \<and> ps_chunk_id p \<noteq> [] \<and> strip (ps_text p) \<noteq> []" for bs
    by (induction H d u body bs rule: section_passages.induct) (auto simp: make_passage_def split: prod.splits)
  then show "ps_text p = slice body (ps_start p) (ps_end p)" "ps_chunk_id p \<noteq> []" "strip (ps_text p) \<noteq> []"
    using assms unfolding cv_passages_def by blast+
qed

lemma set_round_robin: "set (round_robin qs) = \<Union>(set ` set qs)"
proof (induction qs rule: round_robin.induct)
  case (1 qs)
  show ?case
  proof (cases "list_all (\<lambda>q. q = []) qs")
    case True
    then show ?thesis by (subst round_robin.simps) (auto simp: list_all_iff)
  next
    case False
    have "\<Union>(set ` set ps) = hd ` set (filter (\<lambda>q. q \<noteq> []) ps) \<union> \<Union>(set ` set (map tl ps))" for ps :: "'a list list"
    proof (induction ps)
      case (Cons q ps)
      then show ?case by (cases q) auto
    qed simp
    then show ?thesis using 1 False by (subst round_robin.simps) auto
  qed
qed

lemma set_ordered_passages:
  "set (ordered_passages terms focused ps) \<subseteq> set ps"
  "(\<forall>p\<in>set ps. ps_category p \<in> set queue_names) \<Longrightarrow> distinct (map ps_chunk_id ps) \<Longrightarrow> set (ordered_passages terms focused ps) = set ps"
proof -
  let ?near = "map ((!) ps) (filter (is_nearby focused ps) [0..<length ps])"
  let ?fair = "round_robin (map (\<lambda>c. filter (\<lambda>p. ps_category p = c) ps) queue_names)"
  have s: "set (ordered_passages terms focused ps) = set ?near \<union> {p \<in> set ?fair. ps_chunk_id p \<notin> ps_chunk_id ` set ?near}"
    unfolding ordered_passages_def Let_def by (cases "terms = []") auto
  have near: "set ?near \<subseteq> set ps" by auto
  have fair: "set ?fair \<subseteq> set ps" by (auto simp: set_round_robin)
  show "set (ordered_passages terms focused ps) \<subseteq> set ps" unfolding s using near fair by blast
  assume c: "\<forall>p\<in>set ps. ps_category p \<in> set queue_names" and d: "distinct (map ps_chunk_id ps)"
  have "set ps \<subseteq> set ?fair" using c by (auto simp: set_round_robin)
  moreover have "p = q" if "p \<in> set ps" "q \<in> set ps" "ps_chunk_id p = ps_chunk_id q" for p q
    using d that by (auto simp: distinct_map inj_on_def)
  ultimately have "set ps \<subseteq> set ?near \<union> {p \<in> set ?fair. ps_chunk_id p \<notin> ps_chunk_id ` set ?near}"
    using near by (smt (verit) CollectI UnI1 UnI2 image_iff subset_iff)
  then show "set (ordered_passages terms focused ps) = set ps" unfolding s using near fair by blast
qed

lemma fill_context_budgeted:
  assumes "fill_context H limit u terms i body evidence = Inr st"
  shows "budgeted H limit st"
proof -
  obtain e omitted used focused where e: "trim H limit evidence [] = Inr (e, omitted)" "unique_evidence_chars H e = Inr used"
    "st = fold (include_passage i (context_document H i body) limit)
       (ordered_passages terms focused (cv_passages H (context_document H i body) u body))
       \<lparr>in_evidence = e, in_used = used, in_included = 0, in_omitted = omitted\<rparr>"
    using assms by (auto simp: fill_context_def rbind_Inr_conv Let_def)
  let ?d = "context_document H i body"
  have start: "budgeted H limit \<lparr>in_evidence = e, in_used = used, in_included = 0, in_omitted = omitted\<rparr>"
    using trim_Inr [OF e(1)] e(2) by (auto simp: budgeted_def)
  have "budgeted H limit (fold (include_passage i ?d limit) ps s)"
    if "budgeted H limit s" "\<forall>p\<in>set ps. ps_chunk_id p \<noteq> []" for ps s
    using that by (induction ps arbitrary: s) (auto intro: include_budgeted)
  from this [OF start] show ?thesis
    unfolding e(3) using set_ordered_passages(1) cv_passages_in(2) by (meson subsetD)
qed

section \<open>Completeness\<close>

lemma include_keeps:
  "set (all_chunks (in_evidence st)) \<subseteq> set (all_chunks (in_evidence (include_passage i d limit p st)))"
  "\<exists>ws. in_omitted (include_passage i d limit p st) = in_omitted st @ ws"
  by (auto simp: include_passage_def set_append_chunks split: if_splits)

lemma fold_includes_keeps:
  "set (all_chunks (in_evidence st)) \<subseteq> set (all_chunks (in_evidence (fold (include_passage i d limit) ps st))) \<and>
     (\<exists>ws. in_omitted (fold (include_passage i d limit) ps st) = in_omitted st @ ws)"
proof (induction ps arbitrary: st)
  case (Cons p ps)
  let ?s = "include_passage i d limit p st"
  have "set (all_chunks (in_evidence st)) \<subseteq> set (all_chunks (in_evidence ?s))" by (rule include_keeps(1))
  moreover obtain ws where "in_omitted ?s = in_omitted st @ ws" using include_keeps(2) by blast
  ultimately show ?case using Cons.IH [of ?s] by auto
qed simp

lemma target_categories_not_Nil [simp]: "target_categories c \<noteq> []"
  by (simp add: target_categories_def)

lemma includes_all:
  assumes "in_omitted (fold (include_passage i d limit) ps st) = []" "p \<in> set ps"
  shows "in_omitted st = [] \<and> passage_json i d p \<in> set (all_chunks (in_evidence (fold (include_passage i d limit) ps st)))"
  using assms
proof (induction ps arbitrary: st)
  case (Cons q ps)
  let ?s = "include_passage i d limit q st"
  note keep = fold_includes_keeps [where i = i and d = d and limit = limit and ps = ps and st = ?s]
  have n: "in_omitted ?s = []" using keep Cons.prems(1) by auto
  then have st: "in_omitted st = []" "passage_json i d q \<in> set (all_chunks (in_evidence ?s))"
    by (auto simp: include_passage_def set_append_chunks split: if_splits)
  then show ?case using Cons keep by auto
qed simp

lemma passage_category: "p \<in> set (cv_passages H d u body) \<Longrightarrow> ps_category p \<in> set queue_names"
proof -
  have c: "(case map_of CATEGORY_MAP h of None \<Rightarrow> ''CONTEXT'' | Some c \<Rightarrow> c) \<in> set queue_names" for h
    by (auto simp: CATEGORY_MAP_def queue_names_def)
  have "p \<in> set (section_passages H d u body bs) \<Longrightarrow> ps_category p \<in> set queue_names" for bs
    by (induction H d u body bs rule: section_passages.induct) (use c in \<open>auto simp: make_passage_def split: prod.splits\<close>)
  then show "p \<in> set (cv_passages H d u body) \<Longrightarrow> ?thesis" by (auto simp: cv_passages_def)
qed

text \<open>A complete context holds every retrieved chunk and every passage of the CV.\<close>

lemma fill_context_complete:
  assumes "fill_context H limit u terms i body evidence = Inr st" "in_omitted st = []"
    and "distinct (map ps_chunk_id (cv_passages H (context_document H i body) u body))"
  shows "set (all_chunks evidence) \<subseteq> set (all_chunks (in_evidence st)) \<and>
    (\<forall>p\<in>set (cv_passages H (context_document H i body) u body).
       passage_json i (context_document H i body) p \<in> set (all_chunks (in_evidence st)))"
proof -
  let ?d = "context_document H i body"
  let ?ps = "cv_passages H ?d u body"
  obtain e omitted used focused where e: "trim H limit evidence [] = Inr (e, omitted)"
    "st = fold (include_passage i ?d limit) (ordered_passages terms focused ?ps)
       \<lparr>in_evidence = e, in_used = used, in_included = 0, in_omitted = omitted\<rparr>"
    using assms(1) by (auto simp: fill_context_def rbind_Inr_conv Let_def)
  let ?s = "\<lparr>in_evidence = e, in_used = used, in_included = 0, in_omitted = omitted\<rparr>"
  note mono = fold_includes_keeps [where i = i and d = ?d and limit = limit and ps = "ordered_passages terms focused ?ps" and st = ?s]
  have "omitted = []" using mono assms(2) e(2) by auto
  then have "e = evidence" using trim_Inr [OF e(1)] by simp
  then have "set (all_chunks evidence) \<subseteq> set (all_chunks (in_evidence st))"
    using mono e(2) by simp
  moreover have "set (ordered_passages terms focused ?ps) = set ?ps"
    using set_ordered_passages(2) passage_category assms(3) by blast
  then have "passage_json i ?d p \<in> set (all_chunks (in_evidence st))" if "p \<in> set ?ps" for p
    using includes_all assms(2) that unfolding e(2) by blast
  ultimately show ?thesis by blast
qed

end
