(* ===== verification/Evaluation_Sources.thy ===== *)
theory Evaluation_Sources
  imports Context_Bounds Bounded_Prompt
begin

text \<open>
  Where the evidence of a prompt comes from: every chunk that is sent, and with it every entry of the
  registry, is the text of a retrieved chunk of the candidate or a passage of the candidate's CV, with control
  characters replaced by spaces. The statement survives preparing, shrinking and shrinking again.
\<close>

section \<open>Sources\<close>

definition chunk_in :: "pydict \<Rightarrow> string \<Rightarrow> bool" where
  "chunk_in d body \<longleftrightarrow> (\<exists>evidence c vs chunk. dget d ''evidence_by_category'' JNull = JDict evidence \<and>
     (c, JList vs) \<in> set evidence \<and> JDict chunk \<in> set vs \<and> map_of chunk ''text'' = Some (JStr body))"

definition source_text :: "pydict \<Rightarrow> string \<Rightarrow> bool" where
  "source_text d body \<longleftrightarrow> (\<exists>s. chunk_in d s \<and> body = xml_safe_text s) \<or>
     (\<exists>cv i j. dget d ''candidate_cv_text'' JNull = JStr cv \<and> body = slice (xml_safe_text cv) i j)"

lemma xml_safe_idem [simp]: "xml_safe_text (xml_safe_text s) = xml_safe_text s"
  by (auto simp: xml_safe_text_def xml_char_def)

lemma slice_xml_safe: "slice (xml_safe_text s) i j = xml_safe_text (slice s i j)"
  by (simp add: slice_def xml_safe_text_def take_map drop_map)

lemma source_text_safe: "source_text d body \<Longrightarrow> xml_safe_text body = body"
  by (auto simp: source_text_def slice_xml_safe)

lemma chunk_text_Inr: "chunk_text v = Inr body \<longleftrightarrow> (\<exists>d. v = JDict d \<and> map_of d ''text'' = Some (JStr body))"
  by (auto simp: chunk_text_def split: json.splits option.splits)

lemma sanitized_chunk_text:
  "sanitized_chunk v = JDict d \<Longrightarrow> map_of d ''text'' = Some (JStr body) \<Longrightarrow>
     \<exists>e s. v = JDict e \<and> map_of e ''text'' = Some (JStr s) \<and> body = xml_safe_text s"
  by (auto simp: sanitized_chunk_def split: json.splits option.splits)

section \<open>Preparing\<close>

lemma sanitized_payload_Inr:
  assumes "sanitized_payload d = Inr e"
  shows "dget e ''evidence_by_category'' JNull = (case dget d ''evidence_by_category'' JNull of
      JDict x \<Rightarrow> sanitized_evidence (JDict x) | v \<Rightarrow> v)"
    "dget e ''candidate_cv_text'' JNull = (case dget d ''candidate_cv_text'' JNull of JStr s \<Rightarrow> JStr (xml_safe_text s) | v \<Rightarrow> v)"
    "dget e ''context_metadata'' v = dget d ''context_metadata'' v" "dget e ''candidate_id'' v = dget d ''candidate_id'' v"
  using assms by (auto simp: sanitized_payload_def rbind_def split: json.splits sum.splits)

lemma sanitized_chunk_in:
  assumes "sanitized_payload d = Inr e" "chunk_in e body"
  shows "\<exists>s. chunk_in d s \<and> body = xml_safe_text s"
proof -
  obtain x c vs chunk where x: "dget e ''evidence_by_category'' JNull = JDict x" "(c, JList vs) \<in> set x" "JDict chunk \<in> set vs"
    "map_of chunk ''text'' = Some (JStr body)" using assms(2) by (auto simp: chunk_in_def)
  obtain y where y: "dget d ''evidence_by_category'' JNull = JDict y" "sanitized_evidence (JDict y) = JDict x"
    using x(1) sanitized_payload_Inr(1) [OF assms(1)] by (auto split: json.splits)
  obtain ws where w: "(c, JList ws) \<in> set y" "vs = map sanitized_chunk ws"
    using x(2) y(2) by (fastforce simp: sanitized_evidence_def split: json.splits)
  obtain v where v: "v \<in> set ws" "sanitized_chunk v = JDict chunk" using x(3) w(2) by auto
  from sanitized_chunk_text [OF v(2) x(4)] show ?thesis
    using y(1) w(1) v(1) unfolding chunk_in_def by blast
qed

lemma sanitized_source:
  assumes "sanitized_payload d = Inr e"
  shows "source_text e body \<Longrightarrow> source_text d body"
proof -
  have cv: "dget e ''candidate_cv_text'' JNull = JStr t \<Longrightarrow>
      \<exists>cv. dget d ''candidate_cv_text'' JNull = JStr cv \<and> t = xml_safe_text cv" for t
    using sanitized_payload_Inr(2) [OF assms] by (auto split: json.splits)
  show "source_text e body \<Longrightarrow> source_text d body"
    unfolding source_text_def using sanitized_chunk_in [OF assms] cv xml_safe_idem by metis
qed

lemma chunk_in_evidence_json:
  assumes "dget d ''evidence_by_category'' JNull = evidence_json evidence"
  shows "chunk_in d body \<longleftrightarrow> (\<exists>v\<in>set (all_chunks evidence). chunk_text v = Inr body)"
proof
  assume "chunk_in d body"
  then obtain c vs chunk where "(c, vs) \<in> set evidence" "JDict chunk \<in> set vs" "map_of chunk ''text'' = Some (JStr body)"
    using assms by (auto simp: chunk_in_def evidence_json_def)
  then show "\<exists>v\<in>set (all_chunks evidence). chunk_text v = Inr body"
    by (intro bexI [of _ "JDict chunk"]) (auto simp: chunk_text_Inr all_chunks_def intro: bexI [of _ "(c, vs)"])
next
  assume "\<exists>v\<in>set (all_chunks evidence). chunk_text v = Inr body"
  then obtain c vs chunk where "(c, vs) \<in> set evidence" "JDict chunk \<in> set vs" "map_of chunk ''text'' = Some (JStr body)"
    by (auto simp: chunk_text_Inr all_chunks_def)
  moreover have "(c, JList vs) \<in> set (map (\<lambda>(c, vs). (c, JList vs)) evidence)" if "(c, vs) \<in> set evidence" for c vs
    using that by force
  ultimately show "chunk_in d body" unfolding chunk_in_def assms evidence_json_def by blast
qed

lemma evidence_lists_chunk:
  assumes "evidence_lists_of d = Inr evidence" "v \<in> set (all_chunks evidence)" "chunk_text v = Inr body"
  shows "chunk_in d body"
proof -
  obtain x where x: "dget d ''evidence_by_category'' (JDict []) = JDict x"
    "rmap (\<lambda>(c, v). rbind (listed v) (\<lambda>vs. Inr (c, vs))) x = Inr evidence"
    using assms(1) by (auto simp: evidence_lists_of_def split: json.splits)
  obtain c vs where c: "(c, vs) \<in> set evidence" "v \<in> set vs" using assms(2) by (auto simp: all_chunks_def)
  obtain w where w: "(c, w) \<in> set x" "listed w = Inr vs"
    using rmap_image [OF x(2) c(1)] by (auto simp: rbind_Inr_conv)
  obtain chunk where v: "v = JDict chunk" "map_of chunk ''text'' = Some (JStr body)" using assms(3) by (auto simp: chunk_text_Inr)
  have "w = JList vs" using w(2) c(2) v(1) by (auto simp: listed_def split: json.splits)
  moreover have "dget d ''evidence_by_category'' JNull = JDict x"
    using x(1) w(1) by (auto simp: dget_def split: option.splits)
  ultimately show ?thesis using w(1) c(2) v unfolding chunk_in_def by blast
qed

lemma evidence_lists_json:
  assumes "dget d ''evidence_by_category'' (JDict []) = evidence_json evidence"
  shows "evidence_lists_of d = Inr evidence"
proof -
  have "rmap (\<lambda>(c, v). rbind (listed v) (\<lambda>vs. Inr (c, vs))) (map (\<lambda>(c, vs). (c, JList vs)) es) = Inr es" for es
    by (induction es) (auto simp: listed_def)
  then show ?thesis using assms by (simp add: evidence_lists_of_def evidence_json_def)
qed

lemma include_chunks:
  "set (all_chunks (in_evidence (fold (include_passage i d limit) ps st))) \<subseteq>
     set (all_chunks (in_evidence st)) \<union> passage_json i d ` set ps"
proof (induction ps arbitrary: st)
  case (Cons p ps)
  have "set (all_chunks (in_evidence (include_passage i d limit p st))) \<subseteq> insert (passage_json i d p) (set (all_chunks (in_evidence st)))"
    by (auto simp: include_passage_def set_append_chunks split: if_splits)
  then show ?case using Cons [of "include_passage i d limit p st"] by auto
qed simp

lemma fill_context_chunks:
  assumes "fill_context H limit u terms i body evidence = Inr st" "v \<in> set (all_chunks (in_evidence st))" "chunk_text v = Inr t"
  shows "v \<in> set (all_chunks evidence) \<or> (\<exists>a b. t = slice body a b)"
proof -
  let ?d = "context_document H i body"
  obtain e omitted used focused where e: "trim H limit evidence [] = Inr (e, omitted)"
    "st = fold (include_passage i ?d limit) (ordered_passages terms focused (cv_passages H ?d u body))
       \<lparr>in_evidence = e, in_used = used, in_included = 0, in_omitted = omitted\<rparr>"
    using assms(1) by (auto simp: fill_context_def rbind_Inr_conv Let_def)
  have "v \<in> set (all_chunks e) \<or> (\<exists>p\<in>set (cv_passages H ?d u body). v = passage_json i ?d p)"
    using include_chunks assms(2) set_ordered_passages(1) unfolding e(2) by (fastforce simp del: fold.simps)
  then show ?thesis
  proof
    assume "v \<in> set (all_chunks e)"
    then show ?thesis using trim_Inr [OF e(1)] by blast
  next
    assume "\<exists>p\<in>set (cv_passages H ?d u body). v = passage_json i ?d p"
    then obtain p where p: "p \<in> set (cv_passages H ?d u body)" "v = passage_json i ?d p" by blast
    then have "t = ps_text p" using assms(3) by (simp add: chunk_text_Inr passage_json_def)
    then show ?thesis using cv_passages_in(1) [OF p(1)] by blast
  qed
qed

lemma prepare_Inr:
  assumes "prepare_evaluation_context H limit i u terms d = Inr prepared"
  obtains "sanitized_payload d = Inr prepared"
  | e body evidence st where "sanitized_payload d = Inr e" "dget e ''candidate_cv_text'' JNull = JStr body"
      "evidence_lists_of e = Inr evidence" "fill_context H limit u terms i body evidence = Inr st"
      "prepared = dset ''context_metadata'' (JDict (context_metadata body st))
         (dset ''evidence_by_category'' (evidence_json (in_evidence st)) e)"
proof -
  obtain e where e: "sanitized_payload d = Inr e"
    using assms by (auto simp: prepare_evaluation_context_def rbind_Inr_conv split: if_splits)
  show ?thesis
  proof (cases "dget e ''context_metadata'' JNull \<noteq> JNull \<or> dget e ''candidate_cv_text'' JNull = JNull")
    case True
    then have "prepared = e" using assms e by (auto simp: prepare_evaluation_context_def split: if_splits json.splits)
    then show ?thesis using that(1) e by simp
  next
    case False
    then obtain body evidence st where "checked_text (dget e ''candidate_cv_text'' JNull) = Inr body" "evidence_lists_of e = Inr evidence"
      "fill_context H limit u terms i body evidence = Inr st"
      "prepared = dset ''context_metadata'' (JDict (context_metadata body st))
         (dset ''evidence_by_category'' (evidence_json (in_evidence st)) e)"
      using assms e by (auto simp: prepare_evaluation_context_def rbind_Inr_conv split: if_splits json.splits)
    then show ?thesis using that(2) e by (cases "dget e ''candidate_cv_text'' JNull") (auto split: if_splits)
  qed
qed

lemma prepared_chunk:
  assumes "prepare_evaluation_context H limit i u terms d = Inr prepared" "chunk_in prepared t"
  shows "source_text d t"
  using assms(1)
proof (cases rule: prepare_Inr)
  case 1
  then show ?thesis using sanitized_chunk_in [OF 1 assms(2)] unfolding source_text_def by blast
next
  case (2 e body evidence st)
  have "dget prepared ''evidence_by_category'' JNull = evidence_json (in_evidence st)" by (simp add: 2(5))
  then obtain v where v: "v \<in> set (all_chunks (in_evidence st))" "chunk_text v = Inr t"
    using assms(2) chunk_in_evidence_json by blast
  from fill_context_chunks [OF 2(4) v] show ?thesis
  proof
    assume "v \<in> set (all_chunks evidence)"
    then have "chunk_in e t" using evidence_lists_chunk 2(3) v(2) by blast
    from sanitized_chunk_in [OF 2(1) this] show ?thesis unfolding source_text_def by blast
  next
    assume "\<exists>a b. t = slice body a b"
    moreover obtain cv where "dget d ''candidate_cv_text'' JNull = JStr cv" "body = xml_safe_text cv"
      using 2(2) sanitized_payload_Inr(2) [OF 2(1)] by (auto split: json.splits)
    ultimately show ?thesis unfolding source_text_def by blast
  qed
qed

lemma prepared_source:
  assumes "prepare_evaluation_context H limit i u terms d = Inr prepared" "source_text prepared t"
  shows "source_text d t"
proof -
  have cv: "dget prepared ''candidate_cv_text'' JNull = JStr c \<Longrightarrow>
      \<exists>cv. dget d ''candidate_cv_text'' JNull = JStr cv \<and> c = xml_safe_text cv" for c
    using assms(1) by (cases rule: prepare_Inr) (auto dest!: sanitized_payload_Inr(2) split: json.splits)
  from assms(2) consider s where "chunk_in prepared s" "t = xml_safe_text s"
    | c a b where "dget prepared ''candidate_cv_text'' JNull = JStr c" "t = slice (xml_safe_text c) a b"
    unfolding source_text_def by blast
  then show ?thesis
  proof cases
    case 1
    then show ?thesis using prepared_chunk [OF assms(1)] source_text_safe by metis
  next
    case 2
    then show ?thesis using cv unfolding source_text_def by (metis xml_safe_idem)
  qed
qed

section \<open>The registry of the prompt\<close>

text \<open>What an entry of the registry is, whichever prompt was sent.\<close>

definition sourced_entry :: "string \<Rightarrow> pydict \<Rightarrow> string \<times> evidence_reference \<Rightarrow> bool" where
  "sourced_entry candidate_id d e \<longleftrightarrow> (case e of (tag, r) \<Rightarrow>
     er_candidate_id r = candidate_id \<and> er_category r \<in> set EVIDENCE_CATEGORIES \<and> strip (er_text r) \<noteq> [] \<and>
     (\<exists>n>0. tag = er_category r @ '':'' @ show_nat n) \<and>
     (\<exists>full start stop. source_text d full \<and> er_text r = slice full start stop))"

definition sourced_registry :: "string \<Rightarrow> pydict \<Rightarrow> registry \<Rightarrow> bool" where
  "sourced_registry candidate_id d reg \<longleftrightarrow> list_all (sourced_entry candidate_id d) reg \<and> distinct (map fst reg)"

lemma sourced_entry_mono:
  "(\<And>t. source_text d t \<Longrightarrow> source_text d' t) \<Longrightarrow> sourced_entry i d e \<Longrightarrow> sourced_entry i d' e"
  by (auto simp: sourced_entry_def)

lemma sourced_registry_mono:
  "(\<And>t. source_text d t \<Longrightarrow> source_text d' t) \<Longrightarrow> sourced_registry i d reg \<Longrightarrow> sourced_registry i d' reg"
  using sourced_entry_mono by (fastforce simp: sourced_registry_def list_all_iff)

lemma chunk_at_text:
  assumes "chunk_at evidence c n chunk" "dget chunk ''text'' (JStr []) = JStr body" "body \<noteq> []"
    and "dget d ''evidence_by_category'' JNull = JDict evidence"
  shows "chunk_in d body"
proof -
  obtain vs where vs: "dget evidence c (JList []) = JList vs" "n - 1 < length vs" "vs ! (n - 1) = JDict chunk"
    using assms(1) by (auto simp: chunk_at_def)
  then have "JDict chunk \<in> set vs" "vs \<noteq> []" by (metis nth_mem, force)
  moreover have "(c, JList vs) \<in> set evidence"
    using vs(1) \<open>vs \<noteq> []\<close> by (auto simp: dget_def split: option.splits dest: map_of_SomeD)
  moreover have "map_of chunk ''text'' = Some (JStr body)"
    using assms(2,3) by (auto simp: dget_def split: option.splits)
  ultimately show ?thesis using assms(4) unfolding chunk_in_def by blast
qed

lemma strip_Nil [simp]: "strip [] = []"
  using length_strip [of "[]"] by simp

lemma entry_sourced:
  assumes "entry_ok i evidence (tag, r)" "dget d ''evidence_by_category'' JNull = JDict evidence"
    "\<And>t. chunk_in d t \<Longrightarrow> source_text d' t"
  shows "sourced_entry i d' (tag, r)" "source_text d' (er_text r)"
proof -
  obtain n chunk where c: "chunk_at evidence (er_category r) n chunk" "dget chunk ''text'' (JStr []) = JStr (er_text r)"
    "tag = er_category r @ '':'' @ show_nat n" using assms(1) by (auto simp: entry_ok_def)
  have "er_text r \<noteq> []" using assms(1) by (auto simp: entry_ok_def)
  then show s: "source_text d' (er_text r)" using chunk_at_text [OF c(1,2) _ assms(2)] assms(3) by blast
  have "er_text r = slice (er_text r) 0 (length (er_text r))" by (simp add: slice_def)
  then show "sourced_entry i d' (tag, r)"
    using assms(1) s c(1,3) unfolding sourced_entry_def entry_ok_def chunk_at_def by auto
qed

lemma prompt_registry_sourced:
  assumes "prompt_registry env i sentences d = Inr reg" "dget d ''context_metadata'' JNull = JDict m"
  shows "sourced_registry i d reg"
proof -
  obtain base where b: "build_evidence_registry (pe_hash env) (pe_lax env) (pe_context_limit env) i d = Inr base"
    "reg = (if sentences then sentence_registry (pe_hash env) base else base)"
    using assms(1) by (auto simp: prompt_registry_def rbind_Inr_conv)
  obtain e where e: "sanitized_payload d = Inr e" "registry_of_payload (pe_hash env) (pe_lax env) i e = Inr base"
    using b(1) assms(2) sanitized_payload_Inr(3) [of d _ JNull]
    by (auto simp: build_evidence_registry_def prepare_evaluation_context_def rbind_Inr_conv split: if_splits)
  obtain evidence where v: "dget e ''evidence_by_category'' (JDict []) = JDict evidence" "list_all (entry_ok i evidence) base"
    "distinct (map fst base)" using e(2) by (rule registry_of_payload_ok)
  have src: "chunk_in e t \<Longrightarrow> source_text d t" for t
    using sanitized_chunk_in [OF e(1)] unfolding source_text_def by blast
  show ?thesis
  proof (cases "base = []")
    case True
    have "sentence_registry (pe_hash env) [] = []" by (simp add: sentence_registry_def)
    then show ?thesis using True b(2) by (simp add: sourced_registry_def)
  next
    case False
    have ev: "dget e ''evidence_by_category'' JNull = JDict evidence"
    proof (rule ccontr)
      assume "\<not> ?thesis"
      then have "evidence = []" using v(1) by (auto simp: dget_def split: option.splits)
      then show False using v(2) False by (cases base) (auto simp: entry_ok_def chunk_at_def)
    qed
    have entry: "sourced_entry i d (tag, r)" "source_text d (er_text r)" if "(tag, r) \<in> set base" for tag r
      using entry_sourced [OF _ ev src] v(2) that by (auto simp: list_all_iff)
    have "sourced_entry i d (tag, q)" if mem: "(tag, q) \<in> set (sentence_registry (pe_hash env) base)" for tag q
    proof -
      obtain t r piece where q: "(t, r) \<in> set base" "q = sentence_of (pe_hash env) r piece"
        "strip (er_text q) \<noteq> []" "\<exists>n>0. tag = er_category q @ '':'' @ show_nat n"
        by (rule sentence_registry_in [OF mem])
      have "er_text q = slice (er_text r) (fst piece) (snd piece)" by (simp add: q(2))
      then show ?thesis using q entry [OF q(1)] unfolding sourced_entry_def by auto
    qed
    then show ?thesis
      using entry(1) b(2) v sentence_registry_distinct [OF v(2)] by (auto simp: sourced_registry_def list_all_iff)
  qed
qed

lemma bounded_prompt_sourced:
  assumes "bounded_evaluation_prompt env i sentences limit d = Inr (sent, reg, prompt)"
  shows "sourced_registry i d reg" "\<And>t. source_text sent t \<Longrightarrow> source_text d t"
    "\<exists>m. dget sent ''context_metadata'' JNull = JDict m" "sentences \<Longrightarrow> ids_given reg"
    "int (length prompt) \<le> limit" "sentences \<Longrightarrow> fst (pe_budget env prompt)"
proof -
  obtain prepared evidence m0 where p: "prepare_evaluation_context (pe_hash env) (pe_context_limit env) i sentences (pe_mandatory env) d = Inr prepared"
    "evidence_lists_of prepared = Inr evidence" "prompt_loop env i sentences limit prepared evidence m0 = Inr (sent, reg, prompt)"
    using assms by (auto simp: bounded_evaluation_prompt_def rbind_Inr_conv Let_def)
  from prompt_loop_Inr [OF p(3)] obtain e m' where
    l: "prompt_registry env i sentences (sent_payload prepared e m') = Inr reg" "fits env limit sentences prompt"
      "sent = sent_payload prepared e (if sentences then dset ''token_budget'' (snd (pe_budget env prompt)) m' else m')"
      "set (all_chunks e) \<subseteq> set (all_chunks evidence)" by blast
  have chunks: "chunk_in (sent_payload prepared e m) t \<Longrightarrow> source_text d t" for m t
    using chunk_in_evidence_json [of "sent_payload prepared e m" e t] l(4) evidence_lists_chunk [OF p(2)] prepared_chunk [OF p(1)]
    by auto
  have cv: "dget (sent_payload prepared e m) ''candidate_cv_text'' JNull = dget prepared ''candidate_cv_text'' JNull" for m
    by (simp add: sent_payload_def)
  have src: "source_text d t" if t: "source_text (sent_payload prepared e m) t" for m t
    using t [unfolded source_text_def]
  proof
    assume "\<exists>s. chunk_in (sent_payload prepared e m) s \<and> t = xml_safe_text s"
    then obtain s where "source_text d s" "t = xml_safe_text s" using chunks by blast
    then show ?thesis using source_text_safe by simp
  next
    assume "\<exists>c a b. dget (sent_payload prepared e m) ''candidate_cv_text'' JNull = JStr c \<and> t = slice (xml_safe_text c) a b"
    then have "source_text prepared t" unfolding source_text_def cv by blast
    then show ?thesis by (rule prepared_source [OF p(1)])
  qed
  have "sourced_registry i (sent_payload prepared e m') reg" by (rule prompt_registry_sourced [OF l(1) sent_payload_get(1)])
  then show "sourced_registry i d reg" by (rule sourced_registry_mono [rotated]) (rule src)
  show "source_text sent t \<Longrightarrow> source_text d t" for t using src l(3) by simp
  show "\<exists>m. dget sent ''context_metadata'' JNull = JDict m" using l(3) by simp
  show "sentences \<Longrightarrow> ids_given reg" using l(1) sentence_registry_ids by (auto simp: prompt_registry_def rbind_Inr_conv)
  show "int (length prompt) \<le> limit" "sentences \<Longrightarrow> fst (pe_budget env prompt)" using l(2) by (auto simp: fits_def)
qed

end
