(* ===== verification/Evaluation_Guarantees.thy ===== *)
theory Evaluation_Guarantees
  imports Single_Evaluation Evaluation_Sources
begin

text \<open>
  What the evaluation of a candidate guarantees, whatever the provider answers: the number of calls is
  bounded, a rate limit leaves it only when the caller asked for it, and an unreviewed success of a real
  provider consists of sentences of the candidate's own documents.
\<close>

section \<open>Calls\<close>

lemma evaluation_loop_calls:
  "snd (evaluation_loop ec i signals sent reg prompt n left shrinks) \<le> n + left + shrinks + 1"
proof (induction ec i signals sent reg prompt n left shrinks rule: evaluation_loop.induct)
  case (1 ec i signals sent reg prompt n left shrinks)
  show ?case
  proof (cases "one_attempt ec i signals sent reg prompt n")
    case (Bad_Output d)
    then show ?thesis using "1.IH"(1) [of d] by (subst evaluation_loop.simps) auto
  next
    case (Refused status)
    then show ?thesis
      using "1.IH"(2) [of status] by (subst evaluation_loop.simps) (force split: sum.split prod.split)
  qed (subst evaluation_loop.simps; simp)+
qed

lemma evaluate_calls:
  "snd (evaluate_single_candidate ec d jd) \<le> nat (ec_max_retries ec) + 2"
  using evaluation_loop_calls
  by (auto simp: evaluate_single_candidate_def split: sum.split json.split prod.split intro: order_trans [OF evaluation_loop_calls])

section \<open>Answers\<close>

lemma failure_Answer:
  "failure ec i c m = Answer f \<Longrightarrow> fe_candidate_id f = i \<and> fe_evaluation_status f = E_EVALUATION_FAILED \<and>
     fe_error_code f = Some c \<and> outcome_consistent f"
  by (auto simp: failure_def failed_evaluation_def split: sum.splits dest!: make_evaluation_InrD)

lemma failure_cases: "(\<exists>f. failure ec i c m = Answer f) \<or> (\<exists>e. failure ec i c m = Provider_Raised e)"
  by (auto simp: failure_def split: sum.split)

text \<open>
  A relation between the payload, the registry and the evaluation holds of the loop's answer when every
  attempt establishes it and every prompt that is shrunk keeps its hypothesis.
\<close>

lemma evaluation_loop_answer:
  assumes "evaluation_loop ec i signals sent reg prompt n left shrinks = (Answer f, k)" "Q sent reg"
    and "\<And>sent reg prompt n f. Q sent reg \<Longrightarrow> one_attempt ec i signals sent reg prompt n = Scored f \<Longrightarrow> R f"
    and "\<And>sent reg prompt n d. Q sent reg \<Longrightarrow> one_attempt ec i signals sent reg prompt n = Bad_Output d \<Longrightarrow> Q d reg"
    and "\<And>sent reg limit sent' reg' prompt. Q sent reg \<Longrightarrow>
      bounded_evaluation_prompt (ec_env ec) i (sentence_selections ec) limit sent = Inr (sent', reg', prompt) \<Longrightarrow> Q sent' reg'"
    and "\<And>c m. failure ec i c m = Answer f \<Longrightarrow> R f"
  shows "R f"
  using assms(1,2)
proof (induction "left + shrinks" arbitrary: sent reg prompt n left shrinks rule: less_induct)
  case less
  note run = less.prems(1) [unfolded evaluation_loop.simps [of ec i signals sent reg prompt n left shrinks]]
  show ?case
  proof (cases "one_attempt ec i signals sent reg prompt n")
    case (Scored g)
    then show ?thesis using run assms(3) [OF less.prems(2) Scored] by simp
  next
    case (Bad_Output d)
    show ?thesis
    proof (cases "left = 0")
      case True
      then show ?thesis using run Bad_Output by (auto intro: assms(6))
    next
      case False
      then show ?thesis
        using run Bad_Output less.hyps [of "left - 1" shrinks d reg prompt "n + 1"] assms(4) [OF less.prems(2) Bad_Output] by simp
    qed
  next
    case (Refused status)
    let ?again = "bounded_evaluation_prompt (ec_env ec) i (sentence_selections ec) (shrunk_limit prompt) sent"
    show ?thesis
    proof (cases "status = 413 \<and> 0 < shrinks")
      case True
      show ?thesis
      proof (cases ?again)
        case (Inl e)
        then show ?thesis using run Refused True assms(6) by (auto split: if_splits)
      next
        case (Inr x)
        obtain sent' reg' prompt' where x: "x = (sent', reg', prompt')" by (cases x)
        have "Q sent' reg'" using assms(5) [OF less.prems(2)] Inr x by blast
        then show ?thesis
          using run Refused True Inr x less.hyps [of left "shrinks - 1" sent' reg' prompt' "n + 1"] by simp
      qed
    next
      case False
      then show ?thesis using run Refused assms(6) by auto
    qed
  next
    case (Unavailable g)
    then show ?thesis using run assms(6) by (auto split: if_splits provider_failure.splits)
  qed (use run assms(6) in auto)
qed

section \<open>What was verified\<close>

definition context_ready :: "pydict \<Rightarrow> bool" where
  "context_ready sent \<longleftrightarrow> (\<exists>m. dget sent ''context_metadata'' JNull = JDict m)"

lemma context_ready_dget: "context_ready sent \<Longrightarrow> \<exists>m. dget sent ''context_metadata'' v = JDict m"
  by (auto simp: context_ready_def dget_def split: option.splits)

lemma with_claim_support_get [simp]:
  "dget (with_claim_support sent) ''evidence_by_category'' v = dget sent ''evidence_by_category'' v"
  "dget (with_claim_support sent) ''candidate_cv_text'' v = dget sent ''candidate_cv_text'' v"
  "dget (with_claim_support sent) ''context_metadata'' v =
     JDict (dset ''require_claim_support'' (JBool True) (as_dict (dget sent ''context_metadata'' (JDict []))))"
  by (simp_all add: with_claim_support_def)

lemma with_claim_support_source [simp]: "source_text (with_claim_support sent) t \<longleftrightarrow> source_text sent t"
  by (simp add: source_text_def chunk_in_def)

lemma compute_tier_Inr:
  assumes "compute_deterministic_tier env i out sent (Some reg) signals mock = Inr f" "context_ready sent"
  shows "\<exists>m v. dget sent ''context_metadata'' (JDict []) = JDict m \<and>
    verify_evidence out reg i signals (truthy (dget m ''require_claim_support'' (JBool False)) \<and> \<not> mock)
      (truthy (dget m ''complete'' (JBool True))) = Inr v \<and>
    score_evaluation i out (v\<lparr>ev_context_metadata := m\<rparr>) mock = Inr f"
proof -
  obtain p m v where p: "prepare_evaluation_context (pe_hash env) (pe_context_limit env) i False [] sent = Inr p"
    "context_metadata_of p = Inr m"
    "verify_evidence out reg i signals (truthy (dget m ''require_claim_support'' (JBool False)) \<and> \<not> mock)
      (truthy (dget m ''complete'' (JBool True))) = Inr v"
    "score_evaluation i out (v\<lparr>ev_context_metadata := m\<rparr>) mock = Inr f"
    using assms(1) by (auto simp: compute_deterministic_tier_def rbind_Inr_conv)
  obtain q where q: "sanitized_payload sent = Inr q" using p(1) by (auto simp: prepare_evaluation_context_def rbind_Inr_conv split: if_splits)
  have "dget q ''context_metadata'' JNull \<noteq> JNull"
    using assms(2) sanitized_payload_Inr(3) [OF q, of JNull] by (auto simp: context_ready_def)
  then have "p = q" using p(1) q by (simp add: prepare_evaluation_context_def split: if_splits)
  then have "dget sent ''context_metadata'' (JDict []) = JDict m"
    using p(2) sanitized_payload_Inr(3) [OF q, of "JDict []"] by (auto simp: context_metadata_of_def split: json.splits)
  then show ?thesis using p(3,4) by blast
qed

text \<open>How an evaluation that was not a failure came about.\<close>

definition assessment_of :: "evaluation_call \<Rightarrow> string \<Rightarrow> string list \<Rightarrow> pydict \<Rightarrow> final_evaluation \<Rightarrow> bool" where
  "assessment_of ec i signals d f \<longleftrightarrow> (\<exists>reg out data m v whole. sourced_registry i d reg \<and> (sentence_selections ec \<longrightarrow> ids_given reg) \<and>
     resolved_output ec reg i data = Inr out \<and>
     verify_evidence out reg i signals (\<not> call_is_mock ec) whole = Inr v \<and>
     score_evaluation i out (v\<lparr>ev_context_metadata := m\<rparr>) (call_is_mock ec) = Inr f)"

lemma finish_attempt_Scored:
  assumes "finish_attempt ec i signals sent reg data = Scored f" "context_ready sent"
    and "sourced_registry i d reg" "sentence_selections ec \<longrightarrow> ids_given reg"
  shows "assessment_of ec i signals d f"
proof -
  let ?s = "if call_is_mock ec then sent else with_claim_support sent"
  obtain out where out: "resolved_output ec reg i data = Inr out"
    "compute_deterministic_tier (ec_env ec) i out ?s (Some reg) signals (call_is_mock ec) = Inr f"
    using assms(1) by (auto simp: finish_attempt_def Let_def split: sum.splits if_splits)
  have "context_ready ?s" using assms(2) by (simp add: context_ready_def)
  from compute_tier_Inr [OF out(2) this] obtain m v where v:
    "dget ?s ''context_metadata'' (JDict []) = JDict m"
    "verify_evidence out reg i signals (truthy (dget m ''require_claim_support'' (JBool False)) \<and> \<not> call_is_mock ec)
      (truthy (dget m ''complete'' (JBool True))) = Inr v"
    "score_evaluation i out (v\<lparr>ev_context_metadata := m\<rparr>) (call_is_mock ec) = Inr f" by blast
  have "(truthy (dget m ''require_claim_support'' (JBool False)) \<and> \<not> call_is_mock ec) = (\<not> call_is_mock ec)"
    using v(1) by (auto split: if_splits)
  note checked = v(2) [unfolded this]
  show ?thesis unfolding assessment_of_def by (intro exI conjI) (rule assms out(1) checked v(3))+
qed

lemma finish_attempt_Bad: "finish_attempt ec i signals sent reg data = Bad_Output d \<Longrightarrow> d = sent \<or> d = with_claim_support sent"
  by (auto simp: finish_attempt_def Let_def split: sum.splits if_splits)

definition attempt_state :: "evaluation_call \<Rightarrow> string \<Rightarrow> pydict \<Rightarrow> pydict \<Rightarrow> registry \<Rightarrow> bool" where
  "attempt_state ec i d sent reg \<longleftrightarrow> sourced_registry i d reg \<and> (\<forall>t. source_text sent t \<longrightarrow> source_text d t) \<and> context_ready sent \<and>
     (sentence_selections ec \<longrightarrow> ids_given reg)"

lemma one_attempt_Scored:
  assumes "attempt_state ec i d sent reg" "one_attempt ec i signals sent reg prompt n = Scored f"
  shows "assessment_of ec i signals d f"
proof -
  obtain data where "finish_attempt ec i signals sent reg data = Scored f"
    using assms(2) by (auto simp: one_attempt_def read_answer_def split: sum.splits call_error.splits if_splits json.splits)
  then show ?thesis using finish_attempt_Scored assms(1) by (auto simp: attempt_state_def)
qed

lemma one_attempt_Bad:
  assumes "attempt_state ec i d sent reg" "one_attempt ec i signals sent reg prompt n = Bad_Output e"
  shows "attempt_state ec i d e reg"
proof -
  have "e = sent \<or> e = with_claim_support sent"
    using assms(2) by (auto simp: one_attempt_def read_answer_def split: sum.splits call_error.splits if_splits json.splits
        dest: finish_attempt_Bad)
  then show ?thesis using assms(1) by (auto simp: attempt_state_def context_ready_def)
qed

lemma bounded_attempt_state:
  assumes "bounded_evaluation_prompt (ec_env ec) i (sentence_selections ec) limit d = Inr (sent, reg, prompt)"
  shows "attempt_state ec i d sent reg"
  using bounded_prompt_sourced [OF assms] by (auto simp: attempt_state_def context_ready_def)

lemma attempt_state_again:
  assumes "attempt_state ec i d sent reg"
    "bounded_evaluation_prompt (ec_env ec) i (sentence_selections ec) limit sent = Inr (sent', reg', prompt)"
  shows "attempt_state ec i d sent' reg'"
  using bounded_attempt_state [OF assms(2)] assms(1) sourced_registry_mono unfolding attempt_state_def by blast

text \<open>Every answer is an assessment of the candidate or a failure that carries no judgment.\<close>

lemma evaluate_Answer:
  assumes "evaluate_single_candidate ec d jd = (Answer f, k)"
  obtains i where "dget d ''candidate_id'' (JStr ''UNKNOWN'') = JStr i" "fe_candidate_id f = i" "fe_evaluation_status f = E_EVALUATION_FAILED"
    "outcome_consistent f"
  | i signals where "dget d ''candidate_id'' (JStr ''UNKNOWN'') = JStr i" "assessment_of ec i signals d f"
      "injection_signals jd i = Inr signals"
proof -
  obtain i where i: "dget d ''candidate_id'' (JStr ''UNKNOWN'') = JStr i"
    using assms by (auto simp: evaluate_single_candidate_def split: if_splits json.splits)
  define failed where "failed \<longleftrightarrow> fe_candidate_id f = i \<and> fe_evaluation_status f = E_EVALUATION_FAILED \<and> outcome_consistent f"
  have fail: "failure ec i c m = Answer f \<Longrightarrow> failed" for c m using failure_Answer failed_def by blast
  have "failed \<or> (\<exists>signals. injection_signals jd i = Inr signals \<and> assessment_of ec i signals d f)"
  proof (cases "call_is_mock ec \<and> \<not> mock_allowed (ec_settings ec)")
    case True
    then show ?thesis using assms i fail by (auto simp: evaluate_single_candidate_def split: if_splits)
  next
    case False
    show ?thesis
    proof (cases "rbind (bounded_evaluation_prompt (ec_env ec) i (sentence_selections ec) (ec_prompt_limit ec) d)
        (\<lambda>(sent, reg, prompt). rbind (injection_signals jd i) (\<lambda>signals. Inr (sent, reg, prompt, signals)))")
      case (Inl e)
      then show ?thesis using assms i False fail by (auto simp: evaluate_single_candidate_def split: if_splits)
    next
      case (Inr x)
      then obtain sent reg prompt signals where b:
        "bounded_evaluation_prompt (ec_env ec) i (sentence_selections ec) (ec_prompt_limit ec) d = Inr (sent, reg, prompt)"
        "injection_signals jd i = Inr signals" by (auto simp: rbind_Inr_conv)
      have run: "evaluation_loop ec i signals sent reg prompt 0 (nat (ec_max_retries ec)) 1 = (Answer f, k)"
        using assms i False b by (auto simp: evaluate_single_candidate_def split: if_splits)
      let ?R = "\<lambda>f'. f' = f \<longrightarrow> failed \<or> assessment_of ec i signals d f"
      have evaluated: "attempt_state ec i d t r \<Longrightarrow> one_attempt ec i signals t r p n = Scored g \<Longrightarrow> ?R g" for t r p n g
        by (auto dest: one_attempt_Scored)
      have "?R f"
        by (rule evaluation_loop_answer [where Q = "attempt_state ec i d" and R = ?R,
              OF run bounded_attempt_state [OF b(1)] evaluated one_attempt_Bad attempt_state_again]) (auto dest: fail)
      then show ?thesis using b(2) by blast
    qed
  qed
  then show ?thesis using that i unfolding failed_def by blast
qed

section \<open>Retryable failures\<close>

lemma evaluation_loop_retry:
  "fst (evaluation_loop ec i signals sent reg prompt n left shrinks) = Retryable g \<Longrightarrow> ec_raise_rate_limits ec"
proof (induction ec i signals sent reg prompt n left shrinks rule: evaluation_loop.induct)
  case (1 ec i signals sent reg prompt n left shrinks)
  note run = "1.prems" [unfolded evaluation_loop.simps [of ec i signals sent reg prompt n left shrinks]]
  have no: "failure ec i c m \<noteq> Retryable g" for c m by (simp add: failure_def split: sum.split)
  show ?case
  proof (cases "one_attempt ec i signals sent reg prompt n")
    case (Bad_Output d)
    then show ?thesis using "1.IH"(1) [of d] run no by (auto split: if_splits)
  next
    case (Refused status)
    then show ?thesis using "1.IH"(2) [of status] run no by (auto split: if_splits sum.splits)
  next
    case (Unavailable h)
    then show ?thesis using run no by (auto split: if_splits provider_failure.splits)
  qed (use run no in auto)
qed

lemma evaluate_retry: "fst (evaluate_single_candidate ec d jd) = Retryable g \<Longrightarrow> ec_raise_rate_limits ec"
  by (auto simp: evaluate_single_candidate_def failure_def split: if_splits json.splits sum.splits intro: evaluation_loop_retry)

section \<open>Grounded successes\<close>

text \<open>
  A claim that stands: it cites an entry of the verified registry in an allowed category and is that entry's
  text, a non-empty piece of a document of the candidate.
\<close>

definition grounded_claim :: "pydict \<Rightarrow> registry \<Rightarrow> string list \<Rightarrow> supported_claim \<Rightarrow> bool" where
  "grounded_claim d reg allowed c \<longleftrightarrow> (\<exists>r. map_of reg (cl_citation c) = Some r \<and> er_category r \<in> set allowed \<and>
     cl_claim c = er_text r \<and> strip (cl_claim c) \<noteq> [] \<and>
     (\<exists>full start stop. source_text d full \<and> cl_claim c = slice full start stop))"

definition grounded_item :: "pydict \<Rightarrow> registry \<Rightarrow> string list \<Rightarrow> string list \<Rightarrow> supported_claim list \<Rightarrow> bool" where
  "grounded_item d reg allowed citations claims \<longleftrightarrow> citations \<noteq> [] \<and> set citations \<subseteq> set (map cl_citation claims) \<and>
     list_all (grounded_claim d reg allowed) claims"

lemma sourced_claim:
  assumes "sourced_registry i d reg" "trusted_claim reg c" "claim_backed reg allowed citations c"
  shows "grounded_claim d reg allowed c"
proof -
  obtain q where q: "map_of reg (cl_citation c) = Some q" "er_category q \<in> set allowed"
    using assms(3) by (auto simp: claim_backed_def)
  then have "(cl_citation c, q) \<in> set reg" by (simp add: map_of_SomeD)
  then have s: "sourced_entry i d (cl_citation c, q)" using assms(1) by (auto simp: sourced_registry_def list_all_iff)
  from assms(2) consider tag r where "(tag, r) \<in> set reg" "cl_citation c = tag" "cl_claim c = er_text r"
    | j where "cl_citation c = ''UNKNOWN_ID:'' @ j" unfolding trusted_claim_def by blast
  then show ?thesis
  proof cases
    case 1
    then have "r = q" using q(1) assms(1) by (simp add: sourced_registry_def map_of_eq_Some_iff)
    then show ?thesis using 1(3) q s unfolding grounded_claim_def sourced_entry_def by auto
  next
    case 2
    then show ?thesis using s by (auto simp: sourced_entry_def EVIDENCE_CATEGORIES_def)
  qed
qed

lemma sourced_item:
  assumes "sourced_registry i d reg" "list_all (trusted_claim reg) claims" "item_backed True reg allowed citations claims"
  shows "grounded_item d reg allowed citations claims"
  using assms(2,3) sourced_claim [OF assms(1)] unfolding grounded_item_def item_backed_def by (auto simp: list_all_iff)

lemma all_claims_in:
  "(category, a) \<in> set (assessments out) \<Longrightarrow> set (ca_claims a) \<subseteq> set (all_claims out)"
  "g \<in> set (flags out) \<Longrightarrow> set (fl_claims g) \<subseteq> set (all_claims out)"
  by (force simp: all_claims_def)+

text \<open>What an unreviewed success says about its candidate.\<close>

definition grounded_evaluation :: "pydict \<Rightarrow> final_evaluation \<Rightarrow> bool" where
  "grounded_evaluation d f \<longleftrightarrow> (case (fe_llm_raw_output f, fe_evidence_verification f) of
     (Some out, Some v) \<Rightarrow>
       list_all (\<lambda>(category, a). grounded_item d (ev_registry v) [category] (ca_citations a) (ca_claims a)) (assessments out) \<and>
       list_all (\<lambda>g. grounded_item d (ev_registry v) (flag_categories g) (fl_citations g) (fl_claims g)) (flags out) \<and>
       list_all (\<lambda>r. er_candidate_id r = fe_candidate_id f \<and> \<not> is_flagged (er_text r)) (map snd (ev_registry v))
   | _ \<Rightarrow> False)"

lemma resolved_output_trusted:
  assumes "resolved_output ec reg i data = Inr out" "sentence_selections ec" "ids_given reg"
  shows "list_all (trusted_claim reg) (all_claims out)"
proof -
  obtain x where "resolve_compact_selection (pe_hash (ec_env ec)) x reg i = Inr out"
    using assms(1,2) by (auto simp: resolved_output_def sentence_selections_def split: sum.splits if_splits)
  then obtain y where "resolve_sentence_selection y reg i = Inr out" by (rule resolve_compact_Inr)
  then show ?thesis using assms(3) by (rule resolve_sentence_trusted)
qed

lemma assessment_of_grounded:
  assumes "assessment_of ec i signals d f" "sentence_selections ec" "fe_evaluation_status f = E_SUCCESS"
  shows "grounded_evaluation d f" "signals = []" "fe_candidate_id f = i"
proof -
  obtain reg out data m v whole where a: "sourced_registry i d reg" "ids_given reg" "resolved_output ec reg i data = Inr out"
    "verify_evidence out reg i signals True whole = Inr v"
    "score_evaluation i out (v\<lparr>ev_context_metadata := m\<rparr>) (call_is_mock ec) = Inr f"
    using assms(1,2) unfolding assessment_of_def sentence_selections_def by auto
  have "ev_review_reasons v = []" using success_no_reasons [OF a(5) assms(3)] by simp
  note v = verified_assessment [OF a(4) this]
  have trusted: "list_all (trusted_claim reg) (all_claims out)" by (rule resolved_output_trusted [OF a(3) assms(2) a(2)])
  have items: "grounded_item d reg [category] (ca_citations x) (ca_claims x)" if "(category, x) \<in> set (assessments out)" for category x
    using sourced_item [OF a(1) _ v(4) [OF that]] trusted all_claims_in(1) [OF that] by (auto simp: list_all_iff)
  have flags: "grounded_item d reg (flag_categories g) (fl_citations g) (fl_claims g)" if "g \<in> set (flags out)" for g
    using sourced_item [OF a(1) _ v(5) [OF that]] trusted all_claims_in(2) [OF that] by (auto simp: list_all_iff)
  have f: "fe_evidence_verification f = Some (v\<lparr>ev_context_metadata := m\<rparr>)"
    using a(5) by (auto simp: score_evaluation_def rbind_Inr_conv Let_def dest!: make_evaluation_InrD)
  show "signals = []" by (rule v)
  show i: "fe_candidate_id f = i" by (rule score_evaluation_Inr [OF a(5)])
  show "grounded_evaluation d f"
    using items flags v(3) verify_evidence_Inr(1,2) [OF a(4)]
    by (auto simp: grounded_evaluation_def f i score_evaluation_Inr(2) [OF a(5)] list_all_iff)
qed

lemma assessment_of_consistent: "assessment_of ec i signals d f \<Longrightarrow> outcome_consistent f \<and> fe_candidate_id f = i"
  unfolding assessment_of_def using score_evaluation_Inr(1,8) by blast

section \<open>Answers are well typed\<close>

lemma resolved_output_ok: "resolved_output ec reg i data = Inr out \<Longrightarrow> output_ok out"
  by (auto simp: resolved_output_def split: if_splits sum.splits
      dest: parse_output_scores resolve_compact_output_ok resolve_evidence_output_ok intro: parse_compact_scores parse_evidence_scores)

end
