(* ===== verification/Campaign_Evaluation.thy ===== *)
theory Campaign_Evaluation
  imports Evaluation_Guarantees
begin

text \<open>
  The evaluation as its callers use it: the Stage 3 task of a campaign (\<open>execute_campaign_stage3\<close> of
  \<open>app/workers/tasks.py\<close>) with its single attempt and its raised rate limits, the batch of the synchronous
  pipeline, and the offline provider (\<open>llm_client.py\<close>).
\<close>

section \<open>The campaign task\<close>

text \<open>The prompt depends on the job and on whether this is a single CV; both come with the environment.\<close>

definition campaign_call :: "settings \<Rightarrow> (pydict \<Rightarrow> bool \<Rightarrow> prompt_env) \<Rightarrow> (nat \<Rightarrow> provider) \<Rightarrow> pydict \<Rightarrow> bool \<Rightarrow> evaluation_call" where
  "campaign_call cfg env pv job single_cv = \<lparr>ec_settings = cfg, ec_env = env job single_cv, ec_source = Configured pv,
     ec_prompt_limit = STAGE3_PROMPT_MAX_BYTES cfg, ec_max_retries = 0, ec_raise_rate_limits = True,
     ec_max_provider_attempts = 1, ec_single_cv = single_cv\<rparr>"

definition campaign_evaluation ::
  "settings \<Rightarrow> (pydict \<Rightarrow> bool \<Rightarrow> prompt_env) \<Rightarrow> (nat \<Rightarrow> provider) \<Rightarrow> pydict \<Rightarrow> pydict \<Rightarrow> bool \<Rightarrow> provider_answer" where
  "campaign_evaluation cfg env pv evidence job single_cv =
     fst (evaluate_single_candidate (campaign_call cfg env pv job single_cv) evidence job)"

lemma campaign_selections:
  "sentence_selections (campaign_call cfg env pv job single_cv) \<longleftrightarrow> lower (LLM_PROVIDER cfg) \<noteq> ''mock''"
  by (simp add: sentence_selections_def call_is_mock_def is_configured_def campaign_call_def)

lemma campaign_answer_grounded:
  assumes "campaign_evaluation cfg env pv evidence job single_cv = Answer f" "fe_evaluation_status f = E_SUCCESS"
    and "lower (LLM_PROVIDER cfg) \<noteq> ''mock''"
  shows "grounded_evaluation evidence f" "dget evidence ''candidate_id'' (JStr ''UNKNOWN'') = JStr (fe_candidate_id f)"
proof -
  let ?ec = "campaign_call cfg env pv job single_cv"
  obtain k where run: "evaluate_single_candidate ?ec evidence job = (Answer f, k)"
    using assms(1) by (cases "evaluate_single_candidate ?ec evidence job") (simp add: campaign_evaluation_def)
  have s: "sentence_selections ?ec" using assms(3) by (simp add: campaign_selections)
  from run show "grounded_evaluation evidence f" "dget evidence ''candidate_id'' (JStr ''UNKNOWN'') = JStr (fe_candidate_id f)"
    by (cases rule: evaluate_Answer; use assms(2) s assessment_of_grounded in auto)+
qed

section \<open>What the task stores\<close>

lemma success_value: "evaluation_status_value x = ''SUCCESS'' \<longleftrightarrow> x = E_SUCCESS"
  by (cases x) auto

lemma begin_attempt_value: "begin_attempt i token s = (Inl e, t) \<Longrightarrow> e = NoResultFound"
  by (auto simp: begin_attempt_def split: option.splits if_splits)

lemma execute_stage3_success:
  assumes "execute_campaign_stage3 cfg now jitter race model_dump admission evaluate pair_id token s = (Inr ''SUCCESS'', t)"
  shows "\<exists>p v j f u. find (\<lambda>(p, v, j). p_id p = pair_id) (joined s) = Some (p, v, j) \<and>
    evaluate (stored_evidence p v) (j_job_snapshot j) (truthy (dget (j_policy_snapshot j) ''single_cv'' JNull)) = Answer f \<and>
    fe_evaluation_status f = E_SUCCESS \<and> dget (stored_evidence p v) ''candidate_id'' JNull = JStr (v_candidate_id v) \<and>
    finish_evaluation cfg now model_dump (j_policy_snapshot j) f pair_id token u = (Inr ''SUCCESS'', t)"
proof -
  obtain p v j where row: "find (\<lambda>(p, v, j). p_id p = pair_id) (joined s) = Some (p, v, j)" "holds_lease STAGE3_RUNNING token p"
    using assms by (auto simp: execute_campaign_stage3_def split: option.splits if_splits prod.splits)
  obtain a wait where adm: "admission = (Some a, wait)"
    using assms row by (cases admission; cases "fst admission")
      (auto simp: execute_campaign_stage3_def delay_evaluation_def split: option.splits)
  obtain attempt u where b: "begin_attempt pair_id token (race s) = (Inr (Some attempt), u)"
    using assms row adm by (auto simp: execute_campaign_stage3_def split: prod.splits sum.splits option.splits)
  let ?evidence = "stored_evidence p v"
  define answer where "answer = (if ?evidence = [] \<or> dget ?evidence ''candidate_id'' JNull \<noteq> JStr (v_candidate_id v)
     then (case failed_evaluation (v_candidate_id v) ''INVALID_EVIDENCE'' ''Stored retrieval evidence is unavailable.'' False of
         Inl e \<Rightarrow> Provider_Raised e | Inr r \<Rightarrow> Answer r)
     else evaluate ?evidence (j_job_snapshot j) (truthy (dget (j_policy_snapshot j) ''single_cv'' JNull)))"
  have run: "(case answer of
       Answer r \<Rightarrow> finish_evaluation cfg now model_dump (j_policy_snapshot j) r pair_id token (race u)
     | Retryable f \<Rightarrow> retry_evaluation cfg now attempt (retry_delay cfg jitter attempt (failure_retry_after f)) f pair_id token (race u)
     | Provider_Raised e \<Rightarrow> (Inl e, u)) = (Inr ''SUCCESS'', t)"
    using assms row adm b unfolding answer_def by (simp add: execute_campaign_stage3_def Let_def)
  then obtain f where f: "answer = Answer f" "finish_evaluation cfg now model_dump (j_policy_snapshot j) f pair_id token (race u) = (Inr ''SUCCESS'', t)"
    by (cases answer) (auto simp: retry_evaluation_def split: option.splits if_splits provider_failure.splits)
  have status: "fe_evaluation_status f = E_SUCCESS"
    using f(2) by (auto simp: finish_evaluation_def success_value split: option.splits if_splits)
  have "\<not> (?evidence = [] \<or> dget ?evidence ''candidate_id'' JNull \<noteq> JStr (v_candidate_id v))"
  proof
    assume "?evidence = [] \<or> dget ?evidence ''candidate_id'' JNull \<noteq> JStr (v_candidate_id v)"
    then have "failed_evaluation (v_candidate_id v) ''INVALID_EVIDENCE'' ''Stored retrieval evidence is unavailable.'' False = Inr f"
      using f(1) by (simp add: answer_def split: sum.splits)
    then show False using status by (auto simp: failed_evaluation_def dest!: make_evaluation_InrD)
  qed
  then show ?thesis using row(1) f status by (intro exI [of _ p] exI [of _ v] exI [of _ j] exI [of _ f] exI [of _ "race u"]) (simp add: answer_def)
qed

lemma find_replaced_row:
  "find (\<lambda>p. p_id p = i) xs = Some p \<Longrightarrow> p_id q = i \<Longrightarrow> find (\<lambda>p. p_id p = i) (update_where (\<lambda>p. p_id p = i) (\<lambda>_. q) xs) = Some q"
  by (induction xs) (auto simp: update_where_def split: if_splits)

lemma finish_success_stores:
  assumes "finish_evaluation cfg now model_dump policy f pair_id token u = (Inr ''SUCCESS'', t)"
  shows "\<exists>q. pair_by_id pair_id t = Some q \<and> p_status q = SUCCESS \<and> dget (snapshot_of q) ''stage3_evaluation'' JNull = model_dump f \<and>
    p_composite_score q = fe_composite_score f \<and> p_tier q = map_option tier_value (fe_tier f)"
proof -
  obtain p where p: "pair_by_id pair_id u = Some p" "fe_evaluation_status f = E_SUCCESS"
    "t = replace_pair pair_id (store_evaluation cfg now model_dump policy f p) u"
    using assms by (auto simp: finish_evaluation_def success_value split: option.splits if_splits)
  let ?q = "store_evaluation cfg now model_dump policy f p"
  have "p_id p = pair_id" using find_SomeD p(1) by (fastforce simp: pair_by_id_def)
  then have "pair_by_id pair_id t = Some ?q"
    using find_replaced_row [of pair_id "pairs u" p ?q] p(1) by (simp add: pair_by_id_def p(3) replace_pair_def store_evaluation_def)
  then show ?thesis using p(2) by (simp add: store_evaluation_def snapshot_of_def)
qed

lemma stored_success_grounded:
  assumes "execute_campaign_stage3 cfg now jitter race model_dump admission (campaign_evaluation cfg env pv) pair_id token s = (Inr ''SUCCESS'', t)"
    and "lower (LLM_PROVIDER cfg) \<noteq> ''mock''"
  shows "\<exists>p v j f q. (p, v, j) \<in> set (joined s) \<and> p_id p = pair_id \<and> fe_candidate_id f = v_candidate_id v \<and>
    grounded_evaluation (stored_evidence p v) f \<and> pair_by_id pair_id t = Some q \<and> p_status q = SUCCESS \<and>
    p_composite_score q = fe_composite_score f \<and> p_tier q = map_option tier_value (fe_tier f) \<and>
    dget (snapshot_of q) ''stage3_evaluation'' JNull = model_dump f"
proof -
  obtain p v j f u where x: "find (\<lambda>(p, v, j). p_id p = pair_id) (joined s) = Some (p, v, j)"
    "campaign_evaluation cfg env pv (stored_evidence p v) (j_job_snapshot j) (truthy (dget (j_policy_snapshot j) ''single_cv'' JNull)) = Answer f"
    "fe_evaluation_status f = E_SUCCESS" "dget (stored_evidence p v) ''candidate_id'' JNull = JStr (v_candidate_id v)"
    "finish_evaluation cfg now model_dump (j_policy_snapshot j) f pair_id token u = (Inr ''SUCCESS'', t)"
    using execute_stage3_success [OF assms(1)] by blast
  have row: "(p, v, j) \<in> set (joined s)" "p_id p = pair_id" using find_SomeD [OF x(1)] by auto
  note grounded = campaign_answer_grounded [OF x(2,3) assms(2)]
  have "fe_candidate_id f = v_candidate_id v" using grounded(2) x(4) by (auto simp: dget_def split: option.splits)
  then show ?thesis using row grounded(1) finish_success_stores [OF x(5)] by blast
qed

section \<open>The batch of a screening run\<close>

definition answer_result :: "provider_answer \<Rightarrow> final_evaluation result" where
  "answer_result a = (case a of Answer f \<Rightarrow> Inr f | Provider_Raised e \<Rightarrow> Inl e | Retryable g \<Rightarrow> Inl (OtherException ''ProviderFailure''))"

text \<open>
  \<open>gather\<close> keeps the order of its tasks, and the first exception leaves it. Each candidate has its own calls.
\<close>

definition evaluate_candidate_batch :: "(nat \<Rightarrow> evaluation_call) \<Rightarrow> pydict \<Rightarrow> int \<Rightarrow> pydict list \<Rightarrow> final_evaluation list result" where
  "evaluate_candidate_batch calls jd_profile concurrency_limit candidate_payloads =
    (if concurrency_limit < 1 then Inl (ValueError ''concurrency_limit must be positive'')
     else rbind (rmap (\<lambda>(n, p). answer_result (fst (evaluate_single_candidate (calls n) p jd_profile))) (List.enumerate 0 candidate_payloads))
       (\<lambda>results. Inr (sort_key evaluation_sort_key results)))"

lemma answer_scored:
  assumes "fst (evaluate_single_candidate ec d jd) = Answer f"
  shows "fe_llm_raw_output f = None \<or> (\<exists>i out v m. score_evaluation i out v m = Inr f)"
proof -
  obtain k where "evaluate_single_candidate ec d jd = (Answer f, k)" using assms by (cases "evaluate_single_candidate ec d jd") simp
  then show ?thesis
  proof (cases rule: evaluate_Answer)
    case (1 i)
    then show ?thesis by (simp add: outcome_consistent_def)
  next
    case (2 i signals)
    then show ?thesis unfolding assessment_of_def by blast
  qed
qed

text \<open>A batch is sorted, has one evaluation per payload, and holds nothing but scored output and failures.\<close>

lemma batch_scored:
  assumes "evaluate_candidate_batch calls jd limit ps = Inr es" "e \<in> set es"
  shows "fe_llm_raw_output e = None \<or> (\<exists>i out v m. score_evaluation i out v m = Inr e)"
proof -
  obtain xs where xs: "rmap (\<lambda>(n, p). answer_result (fst (evaluate_single_candidate (calls n) p jd))) (List.enumerate 0 ps) = Inr xs"
    "es = sort_key evaluation_sort_key xs"
    using assms(1) by (auto simp: evaluate_candidate_batch_def rbind_Inr_conv split: if_splits)
  then obtain n p where "answer_result (fst (evaluate_single_candidate (calls n) p jd)) = Inr e"
    using rmap_image [OF xs(1), of e] assms(2) by (auto split: prod.splits)
  then have "fst (evaluate_single_candidate (calls n) p jd) = Answer e" by (auto simp: answer_result_def split: provider_answer.splits)
  then show ?thesis by (rule answer_scored)
qed

section \<open>The offline provider\<close>

definition generate_mock_evaluation :: "settings \<Rightarrow> call_error + json" where
  "generate_mock_evaluation cfg = (case call_mock cfg of
     Inl e \<Rightarrow> Inl (Call_Raised e)
   | Inr v \<Rightarrow> Inr (JDict [(''skills'', mock_category 85 ''SKILLS:1''), (''experience'', mock_category 80 ''EXPERIENCE:1''),
       (''projects'', mock_category 75 ''PROJECTS:1''), (''education'', mock_category 90 ''EDUCATION:1''),
       (''flags'', JList []), (''executive_summary'', JStr ''Synthetic offline evaluation.'')]))"

definition mock_provider :: "settings \<Rightarrow> llm_source" where
  "mock_provider cfg = Supplied True (\<lambda>_ _. generate_mock_evaluation cfg)"

end
