(* ===== verification/Example_Run.thy ===== *)
theory Example_Run
  imports Task_Runs
begin

text \<open>
  One complete run of a small campaign, evaluated by the simplifier: one JD and one CV, from the
  reservation to the completed campaign. The states are the concrete inputs of the witnesses.
\<close>

definition demo_ext :: externals where
  "demo_ext = \<lparr>uuid4 = (\<lambda>n. replicate n CHR ''u''), collate = id, encrypt_payload = rev\<rparr>"

lemma fresh_demo: "fresh_ids demo_ext"
  by (auto simp: fresh_ids_def demo_ext_def inj_on_def dest: arg_cong [of _ _ length])

definition table_of :: "('a \<times> db) result \<Rightarrow> db" where
  "table_of r = snd (projr r)"

definition demo_reserve :: "((bool \<times> campaign) \<times> db) result" where
  "demo_reserve = reserve_campaign demo_ext 0 id ''owner'' ''hash'' [[(''job_id'', JStr ''jd'')]] [[]]
     (Some ''key'') 2 None empty_db"

definition demo_reserved :: db where
  "demo_reserved = table_of demo_reserve"

definition demo_add :: "((bool \<times> cv) \<times> db) result" where
  "demo_add = reserve_cv demo_ext 0 id [] ''owner'' ''cv'' ''cv.pdf'' ''digest'' (Some ''pdf'') demo_reserved"

lemma demo_reserve_Inr: "isl demo_reserve = False"
  by code_simp

lemma demo_add_Inr: "isl demo_add = False"
  by code_simp

definition demo_added :: db where
  "demo_added = table_of demo_add"

definition demo_open :: db where
  "demo_open = open_campaign [] (Some ''zip'') \<lparr>accepted = [(''cv.pdf'', ''cv'')], rejected = []\<rparr> demo_added"

definition demo_claimed :: db where
  "demo_claimed = snd (claim_stage0 default_settings 10 ''uu'' demo_open)"

definition demo_extracted :: db where
  "demo_extracted = table_of (finish_stage0 11 [] ''owner'' ''cv'' (Some ''body'') (Some []) None demo_claimed)"

lemma demo_extract_Inr: "isl (finish_stage0 11 [] ''owner'' ''cv'' (Some ''body'') (Some []) None demo_claimed) = False"
  by code_simp

definition demo_running :: db where
  "demo_running = snd (dispatch_pairs default_settings demo_ext 20 (\<lambda>_. False) [] demo_extracted)"

lemma demo_running_rows: "map (\<lambda>p. (p_id p, p_status p, p_lease_owner p)) (pairs demo_running) = [(''uuu'', RUNNING, Some ''uuuu'')]"
  by code_simp

definition demo_evidence :: pydict where
  "demo_evidence = [(''candidate_id'', JStr ''cv''), (''status'', JStr ''SUCCESS''),
     (''composite_score'', JNum 1), (''scoring_version'', JStr SCORING_VERSION),
     (''shortlist_eligible'', JBool True)]"

definition demo_work :: pair_work where
  "demo_work = analyze_pair ''cv'' 1
     (Inr [(''status'', JStr ''PASS''), (''checks'', JList []), (''metrics'', JDict [(''experience_source'', JStr ''profile'')])])
     (Inr demo_evidence)"

definition demo_ready :: db where
  "demo_ready = snd (finish_retrieval default_settings 30 ''uuu'' ''uuuu'' 1 demo_work demo_running)"

definition demo_ranked :: db where
  "demo_ranked = table_of (finalize_jd 40 ''u'' demo_ready)"

lemma demo_ranked_Inr: "isl (finalize_jd 40 ''u'' demo_ready) = False"
  by code_simp

definition demo_evaluating :: db where
  "demo_evaluating = snd (dispatch_stage3 default_settings demo_ext 50 (\<lambda>_. False) [] demo_ranked)"

lemma demo_evaluating_rows:
  "map (\<lambda>p. (p_id p, p_status p, p_lease_owner p)) (pairs demo_evaluating) = [(''uuu'', STAGE3_RUNNING, Some ''uuuuu'')]"
  by code_simp

definition demo_assessment :: category_assessment where
  "demo_assessment = \<lparr>ca_score = 80, ca_rationale = ''sound'', ca_citations = [], ca_claims = []\<rparr>"

definition demo_output :: llm_evaluation_output where
  "demo_output = \<lparr>skills = demo_assessment, experience = demo_assessment, projects = demo_assessment,
     education = demo_assessment, flags = [], executive_summary = ''fit'', improvement_suggestions = []\<rparr>"

definition demo_verification :: evidence_verification where
  "demo_verification = \<lparr>ev_registry = [], ev_checks = [], ev_review_reasons = [], ev_verified_flag_indices = [],
     ev_injection_signals = [], ev_context_metadata = []\<rparr>"

definition demo_score :: "final_evaluation result" where
  "demo_score = score_evaluation ''cv'' demo_output demo_verification False"

lemma demo_score_Inr: "map_sum (\<lambda>_. ()) (\<lambda>e. (fe_evaluation_status e, fe_composite_score e, fe_tier e)) demo_score
    = Inr (E_SUCCESS, Some 80, Some TIER_1)"
  by code_simp

definition demo_evaluated :: db where
  "demo_evaluated = snd (finish_evaluation default_settings 60 (\<lambda>_. JNull) [] (projr demo_score) ''uuu'' ''uuuuu'' demo_evaluating)"

definition demo_completed :: db where
  "demo_completed = snd (finalize_campaign 70 [] demo_evaluated)"

lemma demo_completed_rows:
  "map c_status (campaigns demo_completed) = [C_COMPLETED]" "map j_status (jds demo_completed) = [J_COMPLETED]"
  "map p_status (pairs demo_completed) = [SUCCESS]"
  by code_simp+

section \<open>The run is a run of the machine\<close>

lemma table_of_Inr: "isl r = False \<Longrightarrow> r = Inr (fst (projr r), table_of r)"
  by (cases r) (simp_all add: table_of_def)

lemma result_shape:
  assumes "map_sum (\<lambda>_. ()) (fst \<circ> fst) r = Inr b" "t = snd (projr r)"
  shows "r = Inr ((b, snd (fst (projr r))), t)"
  using assms by (cases r) auto

abbreviation demo_step :: "db \<Rightarrow> db \<Rightarrow> bool" where
  "demo_step \<equiv> step default_settings demo_ext"

lemma demo_before: "\<exists>c. campaign_by_id [] demo_added = Some c \<and> c_status c = C_INTAKE"
proof -
  have "map_option c_status (campaign_by_id [] demo_added) = Some C_INTAKE" by code_simp
  then show ?thesis by simp
qed

lemma demo_started:
  "\<exists>j c. jd_by_id ''u'' demo_ready = Some j \<and> j_campaign_id j = [] \<and> campaign_by_id [] demo_ready = Some c \<and>
     c_status c \<noteq> C_INTAKE"
proof -
  have "map_option j_campaign_id (jd_by_id ''u'' demo_ready) = Some []"
    "map_option c_status (campaign_by_id [] demo_ready) = Some C_RUNNING" by code_simp+
  then show ?thesis by auto
qed

lemma demo_steps:
  "demo_step empty_db demo_reserved" "demo_step demo_reserved demo_added" "demo_step demo_added demo_open"
  "demo_step demo_open demo_claimed" "demo_step demo_claimed demo_extracted"
  "demo_step demo_extracted demo_running" "demo_step demo_running demo_ready"
proof -
  show "demo_step empty_db demo_reserved"
    by (rule step.reserve_campaign [OF table_of_Inr [OF demo_reserve_Inr [unfolded demo_reserve_def]],
        folded demo_reserve_def demo_reserved_def])
  show "demo_step demo_reserved demo_added"
    by (rule step.reserve_cv [OF table_of_Inr [OF demo_add_Inr [unfolded demo_add_def]],
        folded demo_add_def demo_added_def])
  show "demo_step demo_added demo_open"
    using demo_before by (auto simp: demo_open_def intro: step.open_campaign)
  show "demo_step demo_open demo_claimed" unfolding demo_claimed_def by (rule step.claim_stage0)
  show "demo_step demo_claimed demo_extracted"
    by (rule step.finish_stage0 [OF table_of_Inr [OF demo_extract_Inr], folded demo_extracted_def])
  show "demo_step demo_extracted demo_running" unfolding demo_running_def by (rule step.dispatch_pairs)
  show "demo_step demo_running demo_ready" unfolding demo_ready_def by (rule step.finish_retrieval)
qed

lemma demo_reachable:
  "reachable default_settings demo_ext demo_reserved" "reachable default_settings demo_ext demo_added"
  "reachable default_settings demo_ext demo_open" "reachable default_settings demo_ext demo_claimed"
  "reachable default_settings demo_ext demo_extracted" "reachable default_settings demo_ext demo_running"
  "reachable default_settings demo_ext demo_ready"
proof -
  show a: "reachable default_settings demo_ext demo_reserved" by (rule reachable.step [OF reachable.init demo_steps(1)])
  show b: "reachable default_settings demo_ext demo_added" by (rule reachable.step [OF a demo_steps(2)])
  show c: "reachable default_settings demo_ext demo_open" by (rule reachable.step [OF b demo_steps(3)])
  show d: "reachable default_settings demo_ext demo_claimed" by (rule reachable.step [OF c demo_steps(4)])
  show e: "reachable default_settings demo_ext demo_extracted" by (rule reachable.step [OF d demo_steps(5)])
  show f: "reachable default_settings demo_ext demo_running" by (rule reachable.step [OF e demo_steps(6)])
  show "reachable default_settings demo_ext demo_ready" by (rule reachable.step [OF f demo_steps(7)])
qed

lemma demo_ready_ok: "tables_ok default_settings demo_ext demo_ready"
  by (rule reachable_tables_ok [OF settings_ok_default fresh_demo demo_reachable(7)])

lemma demo_later_steps:
  "demo_step demo_ready demo_ranked" "demo_step demo_ranked demo_evaluating"
  "demo_step demo_evaluating demo_evaluated" "demo_step demo_evaluated demo_completed"
proof -
  obtain j c where j: "jd_by_id ''u'' demo_ready = Some j" "j_campaign_id j = []"
    and c: "campaign_by_id [] demo_ready = Some c" "c_status c \<noteq> C_INTAKE" using demo_started by blast
  have "started (j_campaign_id j) demo_ready" using started_here [OF demo_ready_ok c] j(2) by simp
  then show "demo_step demo_ready demo_ranked"
    unfolding demo_ranked_def by (rule step.finalize_jd [OF table_of_Inr [OF demo_ranked_Inr] j(1)])
  show "demo_step demo_ranked demo_evaluating" unfolding demo_evaluating_def by (rule step.dispatch_stage3)
  show "demo_step demo_evaluating demo_evaluated" unfolding demo_evaluated_def by (rule step.finish_evaluation)
  show "demo_step demo_evaluated demo_completed" unfolding demo_completed_def by (rule step.finalize_campaign)
qed

lemma demo_later_reachable:
  "reachable default_settings demo_ext demo_ranked" "reachable default_settings demo_ext demo_evaluating"
  "reachable default_settings demo_ext demo_evaluated" "reachable default_settings demo_ext demo_completed"
proof -
  show a: "reachable default_settings demo_ext demo_ranked" by (rule reachable.step [OF demo_reachable(7) demo_later_steps(1)])
  show b: "reachable default_settings demo_ext demo_evaluating" by (rule reachable.step [OF a demo_later_steps(2)])
  show c: "reachable default_settings demo_ext demo_evaluated" by (rule reachable.step [OF b demo_later_steps(3)])
  show "reachable default_settings demo_ext demo_completed" by (rule reachable.step [OF c demo_later_steps(4)])
qed

end
