(* ===== verification/Example_Evaluation.thy ===== *)
theory Example_Evaluation
  imports Campaign_Evaluation Example_Run Example_Screening
begin

text \<open>
  A small evaluation: a candidate with one retrieved sentence per category, a configured provider that selects
  each of them by its handle, and a stable identity that reads the second part of what it is given.
\<close>

definition sample_hash :: "json list \<Rightarrow> string" where
  "sample_hash xs = (case xs of _ # JStr s # _ \<Rightarrow> s | _ \<Rightarrow> ''scope'')"

definition sample_prompt_env :: prompt_env where
  "sample_prompt_env = \<lparr>pe_hash = sample_hash, pe_lax = (\<lambda>_. None), pe_context_limit = 3000, pe_mandatory = [],
     pe_prompt = (\<lambda>_ _. ''prompt''), pe_budget = (\<lambda>_. (True, JNull))\<rparr>"

definition sample_texts :: "(string \<times> string) list" where
  "sample_texts = [(''SKILLS'', ''Latex.''), (''EXPERIENCE'', ''Acme.''), (''PROJECTS'', ''Atlas.''), (''EDUCATION'', ''Math.'')]"

definition sample_payload :: pydict where
  "sample_payload = [(''candidate_id'', JStr ''cv''), (''evidence_by_category'', JDict
     (map (\<lambda>(c, s). (c, JList [JDict [(''text'', JStr s)]])) sample_texts)), (''candidate_cv_text'', JNull)]"

definition sample_choice :: "string \<Rightarrow> json" where
  "sample_choice handle = JDict [(''score'', JNum 80), (''rationale'', JStr ''documented''), (''citations'', JList [JStr handle])]"

definition sample_selection :: "string \<Rightarrow> json" where
  "sample_selection scope = JDict [(''skills'', sample_choice ''S1''), (''experience'', sample_choice ''E2''), (''projects'', sample_choice ''P3''),
     (''education'', sample_choice ''D4''), (''flags'', JList []), (''executive_summary'', JStr ''fits''), (''evidence_scope'', JStr scope)]"

text \<open>The body of a response and the text in it are named, not spelled out.\<close>

definition sample_readers :: "string \<Rightarrow> reply_readers" where
  "sample_readers scope = \<lparr>rr_float = (\<lambda>_. None), rr_seconds_until = (\<lambda>_. None),
     rr_json = (\<lambda>s. if s = ''body'' then Some (JDict [(''choices'', JList [JDict [(''message'', JDict [(''content'', JStr ''answer'')])]])])
       else if s = ''answer'' then Some (sample_selection scope) else None)\<rparr>"

definition sample_provider :: "string \<Rightarrow> nat \<Rightarrow> provider" where
  "sample_provider scope n = \<lparr>pv_readers = sample_readers scope, pv_http = (\<lambda>_ _. Response 200 None ''body''), pv_gemini = (\<lambda>_ _. Gemini_Timeout)\<rparr>"

definition sample_settings :: settings where
  "sample_settings = default_settings\<lparr>LLM_PROVIDER := ''groq'', GROQ_API_KEY := Some ''key''\<rparr>"

definition sample_call :: "string \<Rightarrow> evaluation_call" where
  "sample_call scope = campaign_call sample_settings (\<lambda>_ _. sample_prompt_env) (sample_provider scope) [] False"

section \<open>Its intermediate values\<close>

definition sample_sent :: pydict where
  "sample_sent = sample_payload @ [(''context_metadata'', JDict [(''omitted_passage_ids'', JList []), (''token_budget'', JNull)])]"

definition sample_reference :: "string \<Rightarrow> string \<Rightarrow> evidence_reference" where
  "sample_reference category s = \<lparr>er_candidate_id = ''cv'', er_category = category, er_source_category = category,
     er_chunk_id = ''snapshot:'' @ category, er_document_id = None,
     er_source_location = \<lparr>sl_section = None, sl_chunk_index = None, sl_page_number = None, sl_block_index = None, sl_bbox = None,
       sl_blocks = [], sl_char_start = None, sl_char_end = None\<rparr>,
     er_text = s, er_evidence_id = Some (''ev_ev_'' @ category), er_sentence_start = Some 0, er_sentence_end = Some (length s)\<rparr>"

definition sample_registry :: registry where
  "sample_registry = map (\<lambda>(c, s). (c @ '':1'', sample_reference c s)) sample_texts"

definition sample_assessment :: "string \<Rightarrow> string \<Rightarrow> category_assessment" where
  "sample_assessment category s = \<lparr>ca_score = 80, ca_rationale = ''documented'', ca_citations = [category @ '':1''],
     ca_claims = [\<lparr>cl_claim = s, cl_citation = category @ '':1'', cl_quote = s, cl_evidence_id = Some (''ev_ev_'' @ category)\<rparr>]\<rparr>"

definition sample_output :: llm_evaluation_output where
  "sample_output = \<lparr>skills = sample_assessment ''SKILLS'' ''Latex.'', experience = sample_assessment ''EXPERIENCE'' ''Acme.'',
     projects = sample_assessment ''PROJECTS'' ''Atlas.'', education = sample_assessment ''EDUCATION'' ''Math.'', flags = [],
     executive_summary = ''fits'', improvement_suggestions = []\<rparr>"

definition sample_prepared :: pydict where
  "sample_prepared = sample_payload @ [(''context_metadata'', JDict [(''omitted_passage_ids'', JList []), (''token_budget'', JNull),
     (''require_claim_support'', JBool True)])]"

section \<open>The run\<close>

lemma sample_prompt:
  "bounded_evaluation_prompt sample_prompt_env ''cv'' True 128000 sample_payload = Inr (sample_sent, sample_registry, ''prompt'')"
  by code_simp

lemma sample_reply: "provider_reply (sample_call ''scope'') 0 ''prompt'' = Inr (sample_selection ''scope'')"
  by code_simp

lemma sample_resolved:
  "resolved_output (sample_call ''scope'') sample_registry ''cv'' (sample_selection ''scope'') = Inr sample_output"
  by code_simp

lemma sample_supported: "with_claim_support sample_sent = sample_prepared"
  by code_simp

lemma sample_context: "prepare_evaluation_context sample_hash 3000 ''cv'' False [] sample_prepared = Inr sample_prepared"
  by code_simp

lemma sample_metadata: "context_metadata_of sample_prepared =
    Inr [(''omitted_passage_ids'', JList []), (''token_budget'', JNull), (''require_claim_support'', JBool True)]"
  by code_simp

lemma sample_words: "list_all (\<lambda>s. has_word s \<and> strip s \<noteq> []) (map snd sample_texts)"
proof -
  have "has_word ''Latex.'' \<and> strip ''Latex.'' \<noteq> []" "has_word ''Acme.'' \<and> strip ''Acme.'' \<noteq> []"
    "has_word ''Atlas.'' \<and> strip ''Atlas.'' \<noteq> []" "has_word ''Math.'' \<and> strip ''Math.'' \<noteq> []" by code_simp+
  then show ?thesis by (simp add: sample_texts_def)
qed

lemma sample_tag: "category \<in> set EVIDENCE_CATEGORIES \<Longrightarrow> re_fullmatch CITATION_PATTERN (category @ '':1'') \<noteq> None"
proof -
  have "show_nat 1 = ''1''" by code_simp
  then show "category \<in> set EVIDENCE_CATEGORIES \<Longrightarrow> ?thesis" using tag_is_citation [of category 1] by simp
qed

lemma sample_items:
  assumes "(category, s) \<in> set sample_texts"
  shows "fst (snd (check_category True sample_registry (category, sample_assessment category s))) = []"
proof -
  have c: "category \<in> set EVIDENCE_CATEGORIES" using assms by (auto simp: sample_texts_def EVIDENCE_CATEGORIES_def)
  have r: "map_of sample_registry (category @ '':1'') = Some (sample_reference category s)"
    using assms by (auto simp: sample_registry_def sample_texts_def)
  have w: "has_word s" "strip s \<noteq> []" using sample_words assms by (auto simp: list_all_iff)
  have "contains t t" for t unfolding contains_iff by (rule exI [of _ "[]"], rule exI [of _ "[]"]) simp
  moreover have "claim_is_source_excerpt s s" using w(1) by (intro excerpt_refl) (simp add: has_word_def)
  moreover have "list_ex (\<lambda>q. er_category q = category) (map snd sample_registry)"
    using assms by (auto simp: sample_registry_def sample_texts_def sample_reference_def)
  ultimately show ?thesis
    using w(2) r sample_tag [OF c]
    by (auto simp: check_category_def both_def check_item_def check_citations_def check_support_def Let_def sample_assessment_def
        citation_reason_def claim_reason_def sample_reference_def nonempty_def list_ex_iff)
qed

lemma sample_verified:
  "\<exists>v. verify_evidence sample_output sample_registry ''cv'' [] True True = Inr v \<and> ev_review_reasons v = [] \<and> ev_registry v = sample_registry"
proof -
  have "evidence_signals sample_registry = []"
    by (simp add: evidence_signals_def sample_registry_def sample_texts_def sample_reference_def short_text_passes)
  moreover have "\<not> list_ex (\<lambda>r. er_candidate_id r \<noteq> ''cv'') (map snd sample_registry)"
    by (simp add: sample_registry_def sample_texts_def sample_reference_def)
  ultimately show ?thesis
    using sample_items
    by (simp add: verify_evidence_def Let_def assessments_def EVIDENCE_CATEGORIES_def sample_output_def sample_texts_def)
qed

lemma sample_scored:
  "\<exists>f. compute_deterministic_tier sample_prompt_env ''cv'' sample_output sample_prepared (Some sample_registry) [] False = Inr f \<and>
     fe_evaluation_status f = E_SUCCESS"
proof -
  obtain v where v: "verify_evidence sample_output sample_registry ''cv'' [] True True = Inr v" "ev_review_reasons v = []"
    "ev_registry v = sample_registry" using sample_verified by blast
  let ?v = "v\<lparr>ev_context_metadata := [(''omitted_passage_ids'', JList []), (''token_budget'', JNull), (''require_claim_support'', JBool True)]\<rparr>"
  have "output_ok sample_output" by (simp add: output_ok_def sample_output_def sample_assessment_def score_ok_def)
  moreover have "registry_of_candidate ''cv'' ?v"
    by (simp add: registry_of_candidate_def v(3) sample_registry_def sample_texts_def sample_reference_def)
  ultimately obtain f where f: "score_evaluation ''cv'' sample_output ?v False = Inr f" using score_evaluation_accepts by blast
  have "\<not> needs_review sample_output ?v" using v(2) by (simp add: needs_review_def sample_output_def)
  then have "fe_evaluation_status f = E_SUCCESS" using score_evaluation_Inr(5) [OF f] by simp
  moreover have "pe_hash sample_prompt_env = sample_hash" "pe_context_limit sample_prompt_env = 3000" by (simp_all add: sample_prompt_env_def)
  ultimately show ?thesis
    using f v(1) by (simp add: compute_deterministic_tier_def sample_context sample_metadata dget_def)
qed

lemma sample_evaluation:
  assumes "jd_text jd = Inr []"
  shows "\<exists>f. evaluate_single_candidate (sample_call ''scope'') sample_payload jd = (Answer f, 1) \<and> fe_evaluation_status f = E_SUCCESS"
proof -
  obtain f where f: "compute_deterministic_tier sample_prompt_env ''cv'' sample_output sample_prepared (Some sample_registry) [] False = Inr f"
    "fe_evaluation_status f = E_SUCCESS" using sample_scored by blast
  have c: "\<not> call_is_mock (sample_call ''scope'')" "sentence_selections (sample_call ''scope'')" "\<not> ec_single_cv (sample_call ''scope'')"
    "ec_prompt_limit (sample_call ''scope'') = 128000" "ec_max_retries (sample_call ''scope'') = 0"
    "ec_max_provider_attempts (sample_call ''scope'') = 1" "dget sample_payload ''candidate_id'' (JStr ''UNKNOWN'') = JStr ''cv''"
    by code_simp+
  have signals: "injection_signals jd ''cv'' = Inr []" using assms by (simp add: injection_signals_def short_text_passes)
  have e: "ec_env (sample_call ''scope'') = sample_prompt_env" by (simp add: sample_call_def campaign_call_def)
  have "one_attempt (sample_call ''scope'') ''cv'' [] sample_sent sample_registry ''prompt'' 0 = Scored f"
    using f(1) by (simp add: one_attempt_def sample_reply read_answer_def c e finish_attempt_def sample_resolved sample_supported Let_def)
  then have "evaluate_single_candidate (sample_call ''scope'') sample_payload jd = (Answer f, 1)"
    by (simp add: evaluate_single_candidate_def c e signals sample_prompt evaluation_loop.simps [of "sample_call ''scope''"])
  then show ?thesis using f(2) by blast
qed

section \<open>The campaign task\<close>

text \<open>The campaign of \<open>Example_Run\<close> at its evaluation, with the retrieved sentences and without the CV's text.\<close>

definition sample_state :: db where
  "sample_state = demo_evaluating\<lparr>
     pairs := map (\<lambda>p. p\<lparr>p_result_snapshot := Some [(''stage2_evidence'', JDict sample_payload)]\<rparr>) (pairs demo_evaluating),
     cvs := map (\<lambda>v. v\<lparr>v_redacted_text := None\<rparr>) (cvs demo_evaluating)\<rparr>"

definition sample_row_ok :: "pair \<Rightarrow> cv \<Rightarrow> jd \<Rightarrow> bool" where
  "sample_row_ok p v j \<longleftrightarrow> p_id p = ''uuu'' \<and> holds_lease STAGE3_RUNNING ''uuuuu'' p \<and> stored_evidence p v = sample_payload \<and>
     v_candidate_id v = ''cv'' \<and> jd_text (j_job_snapshot j) = Inr [] \<and> \<not> truthy (dget (j_policy_snapshot j) ''single_cv'' JNull)"

lemma sample_rows:
  "length (joined sample_state) = 1 \<and> (case hd (joined sample_state) of (p, v, j) \<Rightarrow> sample_row_ok p v j \<and> pairs sample_state = [p])"
  by code_simp

lemma sample_task:
  "\<exists>t. execute_campaign_stage3 sample_settings 60 0 id (JDict \<circ> evaluation_dump) (Some ''slot'', 0)
     (campaign_evaluation sample_settings (\<lambda>_ _. sample_prompt_env) (sample_provider ''scope'')) ''uuu'' ''uuuuu'' sample_state =
     (Inr ''SUCCESS'', t)"
proof -
  obtain p v j where row: "joined sample_state = [(p, v, j)]" "sample_row_ok p v j" "pairs sample_state = [p]"
    using sample_rows by (cases "joined sample_state") auto
  obtain f where f: "evaluate_single_candidate (sample_call ''scope'') sample_payload (j_job_snapshot j) = (Answer f, 1)"
    "fe_evaluation_status f = E_SUCCESS" using sample_evaluation row(2) unfolding sample_row_ok_def by blast
  have call: "campaign_call sample_settings (\<lambda>_ _. sample_prompt_env) (sample_provider ''scope'') (j_job_snapshot j) False = sample_call ''scope''"
    by (simp add: sample_call_def campaign_call_def)
  have "dget sample_payload ''candidate_id'' JNull = JStr ''cv''" "sample_payload \<noteq> []" by code_simp+
  then show ?thesis
    using row f by (simp add: sample_row_ok_def execute_campaign_stage3_def begin_attempt_def pair_by_id_def campaign_evaluation_def call
        finish_evaluation_def holds_lease_def Let_def)
qed

text \<open>The deployment of \<open>Example_Screening\<close> with this provider.\<close>

definition batch_env :: "(nat \<Rightarrow> evaluation_call) \<Rightarrow> screening_env" where
  "batch_env calls = demo_env\<lparr>sv_evaluate := evaluate_candidate_batch calls demo_profile 5\<rparr>"

end
