(* ===== verification/JD_Profiles.thy ===== *)
theory JD_Profiles
  imports Coverage
begin

text \<open>
  The profile of a job description (\<open>ExtractedJD\<close> of \<open>app/jd_intake.py\<close>): what the language model may
  extract, the limits it is checked against, and \<open>screening_profile\<close>, the dictionary an approved version
  stores and every run reads its rules from. The main result is that the dictionary always exists and that
  Stage 1 resolves from it exactly the hard filters the recruiter reviewed.
\<close>

section \<open>Reviewed targets\<close>

text \<open>A target with the sentence of the job description it was taken from (\<open>source_quote\<close>).\<close>

record quoted_target =
  qt_target :: target
  qt_quote :: string

definition validate_quoted :: "quoted_target list \<Rightarrow> rat \<Rightarrow> quoted_target list result" where
  "validate_quoted qs minimum =
    (if list_ex (\<lambda>q. qt_quote q = [] \<or> 2000 < length (qt_quote q) \<or> strip (qt_quote q) = []) qs
     then Inl (ValueError ''Invalid relevance target'')
     else rbind (validate_contract \<lparr>rc_targets = map qt_target qs, rc_minimum = minimum\<rparr>) (\<lambda>_. Inr qs))"

section \<open>The extracted job description\<close>

record jd_fields =
  jf_title :: string
  jf_must_have :: "skill_cluster list"
  jf_nice_to_have :: "skill_cluster list"
  jf_queries :: "(string \<times> string) list"
  jf_targets :: "quoted_target list"
  jf_minimum :: rat

text \<open>The fields as they arrive, with the rules still as JSON, and after validation.\<close>

record jd_input = jd_fields +
  ji_rules :: "json option"
  ji_uncertainties :: "string list"

record extracted_jd = jd_fields +
  xj_rules :: hard_filters
  xj_uncertainties :: "string list"

text \<open>Hard filters of a job description: without an explicit rule no authorization is required.\<close>

definition jd_defaults :: "filter_set \<Rightarrow> hard_filters" where
  "jd_defaults f = (with_defaults f)\<lparr>require_work_authorization :=
     (case fs_authorization f of None \<Rightarrow> False | Some b \<Rightarrow> b)\<rparr>"

definition canonical_levels :: "string list" where
  "canonical_levels = [''NONE'', ''SECONDARY'', ''HIGHER SECONDARY'', ''DIPLOMA'', ''BACHELOR'', ''MASTER'', ''PHD'']"

definition terms_bounded :: "string list \<Rightarrow> bool" where
  "terms_bounded ts \<longleftrightarrow> length ts \<le> 100 \<and> list_all (\<lambda>t. length t \<le> 120) ts"

definition bounded_filters :: "hard_filters \<Rightarrow> hard_filters result" where
  "bounded_filters h =
    (if 100 < min_years_experience h then Inl (ValueError ''Minimum experience exceeds supported range'')
     else (case degree_required h of
         None \<Rightarrow> Inr h
       | Some r \<Rightarrow>
           if \<not> list_all terms_bounded [r_fields r, r_field_aliases r, r_level_aliases r]
           then Inl (ValueError ''Degree terms exceed supported limits'')
           else Inr (h\<lparr>degree_required := Some (r\<lparr>r_level := canonical_levels ! degree_rank (r_level r)\<rparr>)\<rparr>)))"

definition extracted_rules :: "json option \<Rightarrow> hard_filters result" where
  "extracted_rules rules = (case rules of
     None \<Rightarrow> Inr (jd_defaults no_filters)
   | Some v \<Rightarrow> rbind (parse_filters v) (\<lambda>f. bounded_filters (jd_defaults f)))"

definition bounded_uncertainties :: "string list \<Rightarrow> string list result" where
  "bounded_uncertainties notes =
    (if 100 < length notes \<or> list_ex (\<lambda>n. strip n = [] \<or> 2000 < length n) notes
     then Inl (ValueError ''Uncertainty notes must be nonblank and bounded'') else Inr notes)"

definition four_categories :: "(string \<times> string) list \<Rightarrow> (string \<times> string) list result" where
  "four_categories queries =
    (if set (map fst queries) \<noteq> set CATEGORIES then Inl (ValueError ''Exactly four screening categories are required'')
     else if list_ex (\<lambda>(_, text). strip text = [] \<or> 4000 < length text) queries
     then Inl (ValueError ''Category requirements must be nonblank and bounded'')
     else Inr queries)"

definition title_ok :: "string \<Rightarrow> bool" where
  "title_ok s \<longleftrightarrow> 1 \<le> length s \<and> length s \<le> 255 \<and> list_ex (\<lambda>c. \<not> is_space c) s"

definition validate_clusters :: "skill_cluster list \<Rightarrow> skill_cluster list result" where
  "validate_clusters cs = (if 100 < length cs then Inl (ValueError ''List should have at most 100 items'')
     else rmap validate_cluster cs)"

definition validate_extracted :: "jd_input \<Rightarrow> extracted_jd result" where
  "validate_extracted i =
    (if \<not> title_ok (jf_title i) then Inl (ValueError ''Invalid title'')
     else rbind (validate_clusters (jf_must_have i)) (\<lambda>must.
       rbind (validate_clusters (jf_nice_to_have i)) (\<lambda>nice.
       rbind (extracted_rules (ji_rules i)) (\<lambda>rules.
       rbind (four_categories (jf_queries i)) (\<lambda>queries.
       rbind (validate_quoted (jf_targets i) (jf_minimum i)) (\<lambda>targets.
       rbind (bounded_uncertainties (ji_uncertainties i)) (\<lambda>notes.
         Inr \<lparr>jf_title = jf_title i, jf_must_have = must, jf_nice_to_have = nice, jf_queries = queries,
           jf_targets = targets, jf_minimum = jf_minimum i, xj_rules = rules, xj_uncertainties = notes\<rparr>)))))))"

section \<open>The stored profile\<close>

definition cluster_dump :: "skill_cluster \<Rightarrow> json" where
  "cluster_dump c = JDict [(''canonical'', JStr (s_canonical c)), (''aliases'', JList (map JStr (s_aliases c))),
     (''substitutes'', JList (map JStr (s_substitutes c)))]"

definition treatment_value :: "treatment \<Rightarrow> string" where
  "treatment_value t = (case t of Requirement \<Rightarrow> ''requirement'' | Preference \<Rightarrow> ''preference'')"

definition target_dump :: "quoted_target \<Rightarrow> json" where
  "target_dump q = (let t = qt_target q in JDict [(''target_id'', JStr (t_id t)), (''category'', JStr (t_category t)),
     (''kind'', JStr (t_kind t)), (''text'', JStr (t_text t)), (''source_quote'', JStr (qt_quote q)),
     (''importance'', JNum (t_importance t)), (''treatment'', JStr (treatment_value (t_treatment t))),
     (''evidence_terms'', JList (map (\<lambda>g. JList (map JStr g)) (t_terms t)))])"

definition contract_dump :: "quoted_target list \<Rightarrow> rat \<Rightarrow> json" where
  "contract_dump qs minimum = JDict [(''version'', JStr ''relevance-v1''), (''targets'', JList (map target_dump qs)),
     (''minimum_coverage'', JNum minimum)]"

text \<open>\<open>JobProfileInputSchema(...).model_dump()\<close>, with its fields in the order of the class.\<close>

definition profile_dump :: "string \<Rightarrow> 'a jd_fields_scheme \<Rightarrow> hard_filters \<Rightarrow> pydict" where
  "profile_dump job_id x rules = [(''job_id'', JStr job_id), (''title'', JStr (jf_title x)),
     (''jd_category_queries'', JDict (map (\<lambda>(k, v). (k, JStr v)) (jf_queries x))),
     (''relevance_contract'', contract_dump (jf_targets x) (jf_minimum x)),
     (''hard_filter_rules'', dump_filters rules),
     (''must_have_skills'', JList (map cluster_dump (jf_must_have x))),
     (''nice_to_have_skills'', JList (map cluster_dump (jf_nice_to_have x)))]"

text \<open>The schema validates the reviewed data a second time, so this could raise.\<close>

definition screening_profile :: "extracted_jd \<Rightarrow> string \<Rightarrow> pydict result" where
  "screening_profile x job_id =
    rbind (validate_quoted (jf_targets x) (jf_minimum x)) (\<lambda>targets.
    rbind (parse_filters (dump_filters (xj_rules x))) (\<lambda>f.
    rbind (validate_clusters (jf_must_have x)) (\<lambda>must.
    rbind (validate_clusters (jf_nice_to_have x)) (\<lambda>nice.
      Inr (profile_dump job_id (x\<lparr>jf_targets := targets, jf_must_have := must, jf_nice_to_have := nice\<rparr>)
        (with_defaults f))))))"

text \<open>\<open>model_dump\<close> of the extraction itself, kept on the draft.\<close>

definition extracted_dump :: "extracted_jd \<Rightarrow> pydict" where
  "extracted_dump x = [(''schema_version'', JStr ''jd-v1''), (''title'', JStr (jf_title x)),
     (''must_have_skills'', JList (map cluster_dump (jf_must_have x))),
     (''nice_to_have_skills'', JList (map cluster_dump (jf_nice_to_have x))),
     (''hard_filter_rules'', dump_filters (xj_rules x)),
     (''jd_category_queries'', JDict (map (\<lambda>(k, v). (k, JStr v)) (jf_queries x))),
     (''relevance_contract'', contract_dump (jf_targets x) (jf_minimum x)),
     (''uncertainties'', JList (map JStr (xj_uncertainties x)))]"

section \<open>Reviewed data validates again\<close>

lemma jd_defaults_simps [simp]:
  "min_years_experience (jd_defaults f) = (case fs_years f of None \<Rightarrow> 0 | Some x \<Rightarrow> x)"
  "degree_required (jd_defaults f) = (case fs_degree f of None \<Rightarrow> None | Some r \<Rightarrow> r)"
  by (simp_all add: jd_defaults_def with_defaults_def)

lemma levels_canonical:
  "list_all (\<lambda>(k, n). canonical_levels ! n \<in> fst ` set DEGREE_HIERARCHY \<and> degree_rank (canonical_levels ! n) = n)
     DEGREE_HIERARCHY"
  by code_simp

lemma canonical_level:
  assumes "level \<in> fst ` set DEGREE_HIERARCHY"
  shows "canonical_levels ! degree_rank level \<in> fst ` set DEGREE_HIERARCHY"
    "degree_rank (canonical_levels ! degree_rank level) = degree_rank level"
proof -
  have "level \<in> dom (map_of DEGREE_HIERARCHY)" using assms by (simp add: dom_map_of_conv_image_fst)
  then have "(level, degree_rank level) \<in> set DEGREE_HIERARCHY"
    by (auto simp: degree_rank_def dest: map_of_SomeD)
  then show "canonical_levels ! degree_rank level \<in> fst ` set DEGREE_HIERARCHY"
    "degree_rank (canonical_levels ! degree_rank level) = degree_rank level"
    using levels_canonical by (auto simp: list_all_iff)
qed

lemma canonical_degree:
  assumes "valid_degree r"
  shows "valid_degree (r\<lparr>r_level := canonical_levels ! degree_rank (r_level r)\<rparr>)"
proof -
  have "r_level r \<in> fst ` set DEGREE_HIERARCHY" using assms by (simp add: valid_degree_def)
  note c = canonical_level [OF this]
  have "coherent_requirement (r\<lparr>r_level := canonical_levels ! degree_rank (r_level r)\<rparr>) =
      Inr (r\<lparr>r_level := canonical_levels ! degree_rank (r_level r)\<rparr>)"
    using assms by (auto simp: valid_degree_def coherent_requirement_def c(2) rbind_Inr_conv split: if_splits)
  then show ?thesis using assms c(1) by (simp add: valid_degree_def)
qed

lemma extracted_rules_valid:
  assumes "extracted_rules rules = Inr h"
  shows "valid_filters h"
proof (cases rules)
  case None
  then show ?thesis using assms by (auto simp: extracted_rules_def valid_filters_def no_filters_def)
next
  case (Some v)
  then obtain f where f: "parse_filters v = Inr f" "bounded_filters (jd_defaults f) = Inr h"
    using assms by (auto simp: extracted_rules_def rbind_Inr_conv)
  then have "valid_filters (jd_defaults f)"
    using parse_filters_ok [OF f(1)] by (auto simp: set_ok_def valid_filters_def split: option.splits)
  then show ?thesis using f(2) canonical_degree
    by (auto simp: bounded_filters_def valid_filters_def split: if_splits option.splits)
qed

lemma strip_bounds:
  assumes "skill_term_ok s"
  shows "skill_term_ok (strip s)"
proof -
  obtain c where c: "c \<in> set s" "\<not> is_space c" using assms by (auto simp: skill_term_ok_def list_ex_iff)
  have keep: "c \<in> set (dropWhile is_space t)" if "c \<in> set t" for t
    using that c(2) by (metis UnE set_append set_takeWhileD takeWhile_dropWhile_id)
  have "c \<in> set (strip s)"
    using keep [of "rev (lstrip s)"] keep [OF c(1)] by (simp add: strip_def rstrip_def lstrip_def)
  then show ?thesis using assms length_strip [of s] c(2)
    by (auto simp: skill_term_ok_def list_ex_iff Suc_le_eq)
qed

lemma length_dict_fromkeys: "length (dict_fromkeys xs) \<le> length xs"
  by (metis distinct_card distinct_dict_fromkeys card_length set_dict_fromkeys)

lemma validate_cluster_again:
  assumes "validate_cluster c = Inr d"
  shows "validate_cluster d = Inr d"
proof -
  have d: "d = \<lparr>s_canonical = strip (s_canonical c), s_aliases = dict_fromkeys (map strip (s_aliases c)),
      s_substitutes = dict_fromkeys (map strip (s_substitutes c))\<rparr>"
    and ok: "skill_term_ok (s_canonical c)" "length (s_aliases c) \<le> 30" "length (s_substitutes c) \<le> 30"
      "list_all skill_term_ok (s_aliases c)" "list_all skill_term_ok (s_substitutes c)"
    using assms by (auto simp: validate_cluster_def split: if_splits)
  have same: "map strip (dict_fromkeys (map strip xs)) = dict_fromkeys (map strip xs)" for xs
    by (rule map_idI) auto
  have len: "length (dict_fromkeys (map strip xs)) \<le> 30" if "length xs \<le> 30" for xs
    using that length_dict_fromkeys [of "map strip xs"] by simp
  show ?thesis using ok len [OF ok(2)] len [OF ok(3)] strip_bounds
    by (auto simp: d validate_cluster_def same dict_fromkeys_id list_all_iff)
qed

lemma validate_clusters_again:
  assumes "validate_clusters cs = Inr ds"
  shows "validate_clusters ds = Inr ds"
proof -
  have r: "length cs \<le> 100" "list_all2 (\<lambda>x y. validate_cluster x = Inr y) cs ds"
    using assms by (auto simp: validate_clusters_def rmap_Inr_iff split: if_splits)
  have "list_all2 (\<lambda>x y. validate_cluster x = Inr y) ds ds"
    using r(2) by (auto simp: list_all2_conv_all_nth dest: validate_cluster_again)
  then show ?thesis using r(1) list_all2_lengthD [OF r(2)] by (simp add: validate_clusters_def rmap_Inr_iff)
qed

lemma validate_quoted_same: "validate_quoted qs m = Inr rs \<Longrightarrow> rs = qs"
  by (auto simp: validate_quoted_def rbind_Inr_conv split: if_splits)

lemma validate_quoted_again: "validate_quoted qs m = Inr rs \<Longrightarrow> validate_quoted rs m = Inr rs"
  using validate_quoted_same [of qs m rs] by simp

text \<open>A validated extraction passes all of its checks again.\<close>

lemma validated_parts:
  assumes "validate_extracted i = Inr x"
  shows "valid_filters (xj_rules x)" "validate_clusters (jf_must_have x) = Inr (jf_must_have x)"
    "validate_clusters (jf_nice_to_have x) = Inr (jf_nice_to_have x)"
    "validate_quoted (jf_targets x) (jf_minimum x) = Inr (jf_targets x)"
  using assms
  by (auto simp: validate_extracted_def rbind_Inr_conv split: if_splits
      dest: extracted_rules_valid validate_clusters_again validate_quoted_again)

lemma validated_years: "validate_extracted i = Inr x \<Longrightarrow> min_years_experience (xj_rules x) \<le> 100"
  by (auto simp: validate_extracted_def rbind_Inr_conv extracted_rules_def bounded_filters_def no_filters_def
      split: if_splits option.splits)

lemma with_defaults_full:
  "with_defaults \<lparr>fs_years = Some (min_years_experience h), fs_degree = Some (degree_required h),
     fs_authorization = Some (require_work_authorization h)\<rparr> = h"
  by (simp add: with_defaults_def)

lemma screening_profile_eq:
  assumes "validate_extracted i = Inr x"
  shows "screening_profile x job_id = Inr (profile_dump job_id x (xj_rules x))"
  using validated_parts [OF assms]
  by (simp add: screening_profile_def parse_filters_dump with_defaults_full)

text \<open>Every other key of the profile is metadata, so that the rules come from \<open>hard_filter_rules\<close> alone.\<close>

lemma profile_rules:
  assumes "valid_filters h"
  shows "resolve_hard_filters (profile_dump job_id x h) JNull = Inr h"
proof -
  have root: "filter (\<lambda>(k, _). k \<notin> set profile_metadata) (profile_dump job_id x h) = []"
    by (simp add: profile_dump_def profile_metadata_def)
  have rules: "dget (profile_dump job_id x h) ''hard_filter_rules'' JNull = dump_filters h"
    by (simp add: profile_dump_def dget_def)
  have empty: "parse_filters (JDict []) = Inr no_filters"
    by (simp add: forbid_extra_def field_or_def no_filters_def)
  have "dump_filters h \<noteq> JNull" by (simp add: dump_filters_def)
  then have merged: "merge_source (dump_filters h) no_filters = Inr \<lparr>fs_years = Some (min_years_experience h),
      fs_degree = Some (degree_required h), fs_authorization = Some (require_work_authorization h)\<rparr>"
    using parse_filters_dump [OF assms]
    by (simp add: merge_source_def merge_filters_def merge_field_def no_filters_def)
  show ?thesis
    unfolding resolve_hard_filters_def root rules empty
    by (simp add: merged with_defaults_full) (simp add: merge_source_def with_defaults_full)
qed

definition quotes_of :: "pydict \<Rightarrow> string list" where
  "quotes_of profile = map (\<lambda>t. str_of (dget (as_dict t) ''source_quote'' JNull))
     (as_list (dget (as_dict (dget profile ''relevance_contract'' JNull)) ''targets'' (JList [])))"

lemma quotes_of_profile: "quotes_of (profile_dump job_id x h) = map qt_quote (jf_targets x)"
  by (simp add: quotes_of_def profile_dump_def dget_def contract_dump_def target_dump_def Let_def comp_def)

end
