(* ===== verification/JD_Extraction.thy ===== *)
theory JD_Extraction
  imports JD_Profiles Provider_Calls
begin

text \<open>
  The extraction of a profile from the text of a job description (\<open>extract_profile\<close> of
  \<open>app/jd_intake.py\<close>): one call of the provider, the code an exception gets, and the attempts with their
  waits. What the provider answers, and pydantic's reading of the JSON types, are parameters.
\<close>

section \<open>Failures and their codes\<close>

text \<open>
  The exceptions of an attempt: output that is no JSON or fails the contract, the two provider failures, a
  transport error, a timeout, an HTTP status with the JSON of its body (if it is JSON), an SDK error with
  its numeric code, and everything else.
\<close>

datatype jd_failure = Invalid_Output | JD_Provider_Failed provider_failure | Transport_Error | Timed_Out
  | Status_Failure nat "json option" | Coded nat | JD_Raised py_exn

text \<open>\<open>exc.response.json().get("error", {}).get("code")\<close>, \<open>None\<close> when it raises.\<close>

definition body_code :: "json option \<Rightarrow> json" where
  "body_code body = (case body of
     Some (JDict d) \<Rightarrow> (case dget d ''error'' (JDict []) of JDict e \<Rightarrow> dget e ''code'' JNull | _ \<Rightarrow> JNull)
   | _ \<Rightarrow> JNull)"

text \<open>Looking a list or a dictionary up in a set raises.\<close>

definition unhashable_code :: "json \<Rightarrow> bool" where
  "unhashable_code v = (case v of JList _ \<Rightarrow> True | JDict _ \<Rightarrow> True | _ \<Rightarrow> False)"

definition status_code_of :: "nat \<Rightarrow> string" where
  "status_code_of n = (if n = 429 then ''JD_PROVIDER_RATE_LIMITED''
     else if n \<in> {500, 502, 503, 504} then ''JD_PROVIDER_UNAVAILABLE''
     else if n \<in> {400, 401, 403, 404} then ''JD_PROVIDER_CONFIGURATION'' else ''JD_PROVIDER_ERROR'')"

definition http_status_code :: "nat \<Rightarrow> json option \<Rightarrow> jd_failure + string" where
  "http_status_code n body =
    (let code = body_code body in
     if n = 400 \<and> unhashable_code code then Inl (JD_Raised (TypeError ''unhashable type''))
     else if n = 400 \<and> code \<in> {JStr ''json_validate_failed'', JStr ''json_generation_failed''}
     then Inr ''JD_PROVIDER_INVALID_OUTPUT''
     else if n \<in> {400, 401, 403, 404} then Inr ''JD_PROVIDER_CONFIGURATION'' else Inr ''JD_PROVIDER_ERROR'')"

fun extraction_error_code :: "jd_failure \<Rightarrow> jd_failure + string" where
  "extraction_error_code Invalid_Output = Inr ''JD_PROVIDER_INVALID_OUTPUT''"
| "extraction_error_code (JD_Provider_Failed (ProviderRateLimited _)) = Inr ''JD_PROVIDER_RATE_LIMITED''"
| "extraction_error_code (JD_Provider_Failed (ProviderTransientFailure _)) = Inr ''JD_PROVIDER_UNAVAILABLE''"
| "extraction_error_code Transport_Error = Inr ''JD_PROVIDER_UNAVAILABLE''"
| "extraction_error_code Timed_Out = Inr ''JD_PROVIDER_UNAVAILABLE''"
| "extraction_error_code (Status_Failure n body) = http_status_code n body"
| "extraction_error_code (Coded n) = Inr (status_code_of n)"
| "extraction_error_code (JD_Raised e) = Inr ''JD_PROVIDER_ERROR''"

section \<open>One call\<close>

record jd_transport =
  jt_readers :: reply_readers
  jt_post :: "string \<Rightarrow> http_reply"
  jt_gemini :: "bool \<Rightarrow> string \<Rightarrow> gemini_reply"
  jt_typed :: "json \<Rightarrow> jd_input result"

definition no_requirements :: "(string \<times> string) list" where
  "no_requirements = map (\<lambda>c. (c, ''No explicit requirement'')) CATEGORIES"

definition mock_jd :: extracted_jd where
  "mock_jd = \<lparr>jf_title = ''Mock JD - recruiter review required'', jf_must_have = [], jf_nice_to_have = [],
     jf_queries = no_requirements, jf_targets = [], jf_minimum = 0, xj_rules = jd_defaults no_filters,
     xj_uncertainties = [''Synthetic mock extraction. Enter requirements after reviewing the PDF.'']\<rparr>"

text \<open>The Gemini request is repeated without a response schema when the first one is refused as such.\<close>

definition gemini_data :: "jd_transport \<Rightarrow> string \<Rightarrow> jd_failure + json" where
  "gemini_data tr prompt =
    (let first = jt_gemini tr True prompt;
         reply = (case first of Gemini_Error n _ \<Rightarrow> if n = 400 then jt_gemini tr False prompt else first | _ \<Rightarrow> first)
     in case reply of
       Gemini_Text s \<Rightarrow> (case rr_json (jt_readers tr) s of None \<Rightarrow> Inl Invalid_Output | Some v \<Rightarrow> Inr v)
     | Gemini_Error n _ \<Rightarrow> Inl (Coded n) | Gemini_Timeout \<Rightarrow> Inl Timed_Out | Gemini_Raised e \<Rightarrow> Inl (JD_Raised e))"

text \<open>A single attempt of the HTTP client, whose status error still holds the response.\<close>

definition http_data :: "jd_transport \<Rightarrow> string \<Rightarrow> jd_failure + json" where
  "http_data tr prompt =
    (let reply = jt_post tr prompt in
     case fst (http_attempts (jt_readers tr) (\<lambda>_. reply) 0 1) of
       Inr v \<Rightarrow> Inr v
     | Inl (Call_Failed f) \<Rightarrow> Inl (JD_Provider_Failed f)
     | Inl (Status_Error n) \<Rightarrow>
         Inl (Status_Failure n (case reply of Response _ _ body \<Rightarrow> rr_json (jt_readers tr) body | _ \<Rightarrow> None))
     | Inl Bad_JSON \<Rightarrow> Inl Invalid_Output
     | Inl (Call_Raised e) \<Rightarrow> Inl (JD_Raised e))"

definition model_validate :: "jd_transport \<Rightarrow> json \<Rightarrow> jd_failure + extracted_jd" where
  "model_validate tr v = (case rbind (jt_typed tr v) validate_extracted of Inl _ \<Rightarrow> Inl Invalid_Output | Inr x \<Rightarrow> Inr x)"

definition extract_profile_once :: "settings \<Rightarrow> jd_transport \<Rightarrow> string \<Rightarrow> jd_failure + extracted_jd" where
  "extract_profile_once cfg tr s =
    (if 60000 < length s then Inl (JD_Raised (ValueError ''JD_TEXT_LIMIT''))
     else case initialize_client cfg of
       Inl e \<Rightarrow> Inl (JD_Raised e)
     | Inr _ \<Rightarrow>
         let prompt = encapsulate_jd_data s; provider = lower (LLM_PROVIDER cfg) in
         if provider = ''mock'' then Inr mock_jd
         else case (if provider = ''gemini'' then gemini_data tr prompt else http_data tr prompt) of
             Inl e \<Rightarrow> Inl e
           | Inr v \<Rightarrow> model_validate tr v)"

section \<open>The attempts\<close>

definition retryable_codes :: "string list" where
  "retryable_codes = [''JD_PROVIDER_INVALID_OUTPUT'', ''JD_PROVIDER_RATE_LIMITED'', ''JD_PROVIDER_UNAVAILABLE'']"

fun jd_retry_after :: "jd_failure \<Rightarrow> rat option" where
  "jd_retry_after (JD_Provider_Failed f) = failure_retry_after f"
| "jd_retry_after _ = None"

text \<open>What the handler raises for a failed attempt, and the wait before the next one unless it must raise.\<close>

definition attempt_failed :: "nat \<Rightarrow> jd_failure \<Rightarrow> jd_failure \<times> rat option" where
  "attempt_failed attempt e =
    (case extraction_error_code e of
       Inl raised \<Rightarrow> (raised, None)
     | Inr code \<Rightarrow>
         let delay = (case jd_retry_after e of None \<Rightarrow> 0 | Some d \<Rightarrow> d) in
         (e, if code \<notin> set retryable_codes \<or> 3 < delay then None else Some (max (2 ^ attempt) delay)))"

text \<open>The attempts by the number that may follow the present one; the waits between them are returned too.\<close>

primrec extract_attempts ::
  "(nat \<Rightarrow> jd_failure + extracted_jd) \<Rightarrow> nat \<Rightarrow> nat \<Rightarrow> (jd_failure + extracted_jd) \<times> rat list" where
  "extract_attempts once attempt 0 =
    (case once attempt of Inl e \<Rightarrow> Inl (fst (attempt_failed attempt e)) | Inr x \<Rightarrow> Inr x, [])"
| "extract_attempts once attempt (Suc left) =
    (case once attempt of
       Inr x \<Rightarrow> (Inr x, [])
     | Inl e \<Rightarrow> (case attempt_failed attempt e of
         (raised, None) \<Rightarrow> (Inl raised, [])
       | (_, Some delay) \<Rightarrow>
           (case extract_attempts once (attempt + 1) left of (r, waits) \<Rightarrow> (r, delay # waits))))"

definition extract_profile :: "(nat \<Rightarrow> jd_failure + extracted_jd) \<Rightarrow> (jd_failure + extracted_jd) \<times> rat list" where
  "extract_profile once = extract_attempts once 0 2"

section \<open>Bounds and results\<close>

text \<open>The handler's own error has no code of its own, so the caller can always name what was raised.\<close>

lemma http_status_raised: "http_status_code n body = Inl e \<Longrightarrow> extraction_error_code e = Inr ''JD_PROVIDER_ERROR''"
  by (auto simp: http_status_code_def Let_def split: if_splits)

lemma attempt_failed_named: "\<exists>code. extraction_error_code (fst (attempt_failed attempt e)) = Inr code"
proof (cases "extraction_error_code e")
  case (Inl a)
  then have "extraction_error_code a = Inr ''JD_PROVIDER_ERROR''"
    using http_status_raised by (cases e rule: extraction_error_code.cases) auto
  then show ?thesis using Inl by (simp add: attempt_failed_def)
next
  case (Inr code)
  then show ?thesis by (simp add: attempt_failed_def Let_def)
qed

lemma attempts_named:
  "fst (extract_attempts once attempt left) = Inl e \<Longrightarrow> \<exists>code. extraction_error_code e = Inr code"
proof (induction left arbitrary: attempt)
  case 0
  then show ?case using attempt_failed_named by (auto split: sum.splits)
next
  case (Suc left)
  show ?case
  proof (cases "once attempt")
    case (Inl f)
    obtain raised wait where f: "attempt_failed attempt f = (raised, wait)" by (cases "attempt_failed attempt f")
    show ?thesis
    proof (cases wait)
      case None
      then have "e = raised" using Suc.prems Inl f by simp
      then show ?thesis using attempt_failed_named [of attempt f] f by simp
    next
      case (Some delay)
      then show ?thesis using Suc.prems Inl f by (intro Suc.IH [of "attempt + 1"]) (simp split: prod.splits)
    qed
  qed (use Suc.prems in simp)
qed

text \<open>
  At most three attempts with waits of at most three seconds; the result is that of the last one, and an
  attempt is only repeated after a failure of one of the three retryable codes.
\<close>

lemma attempt_failed_wait:
  assumes "attempt_failed attempt e = (raised, Some delay)" "attempt \<le> 1"
  shows "0 < delay \<and> delay \<le> 3" "\<exists>code \<in> set retryable_codes. extraction_error_code e = Inr code"
proof -
  have "(2 :: rat) ^ attempt \<le> 2" using assms(2) by (cases attempt) auto
  moreover have "(0 :: rat) < 2 ^ attempt" by simp
  ultimately show "0 < delay \<and> delay \<le> 3" "\<exists>code \<in> set retryable_codes. extraction_error_code e = Inr code"
    using assms(1) by (auto simp: attempt_failed_def Let_def less_max_iff_disj split: sum.splits if_splits)
qed

lemma extract_attempts_bounds:
  "attempt + left \<le> 2 \<Longrightarrow>
     length (snd (extract_attempts once attempt left)) \<le> left \<and>
     list_all (\<lambda>w. 0 < w \<and> w \<le> 3) (snd (extract_attempts once attempt left)) \<and>
     (let used = attempt + length (snd (extract_attempts once attempt left)) in
      (fst (extract_attempts once attempt left) = once used \<or>
       (\<exists>e. once used = Inl e \<and> fst (extract_attempts once attempt left) = Inl (fst (attempt_failed used e)))))"
proof (induction left arbitrary: attempt)
  case 0
  then show ?case by (auto split: sum.splits)
next
  case (Suc left)
  have rec: "length (snd (extract_attempts once (attempt + 1) left)) \<le> left \<and>
     list_all (\<lambda>w. 0 < w \<and> w \<le> 3) (snd (extract_attempts once (attempt + 1) left)) \<and>
     (let used = attempt + 1 + length (snd (extract_attempts once (attempt + 1) left)) in
      (fst (extract_attempts once (attempt + 1) left) = once used \<or>
       (\<exists>e. once used = Inl e \<and> fst (extract_attempts once (attempt + 1) left) = Inl (fst (attempt_failed used e)))))"
    by (rule Suc.IH) (use Suc.prems in simp)
  show ?case
  proof (cases "once attempt")
    case (Inl e)
    show ?thesis
    proof (cases "snd (attempt_failed attempt e)")
      case None
      then show ?thesis using Inl by (cases "attempt_failed attempt e") auto
    next
      case (Some delay)
      then obtain raised where f: "attempt_failed attempt e = (raised, Some delay)"
        by (cases "attempt_failed attempt e") auto
      have "0 < delay \<and> delay \<le> 3" using attempt_failed_wait(1) [OF f] Suc.prems by simp
      moreover have "extract_attempts once attempt (Suc left) =
          (fst (extract_attempts once (attempt + 1) left), delay # snd (extract_attempts once (attempt + 1) left))"
        using Inl f by (simp split: prod.split)
      ultimately show ?thesis using rec by (simp add: Let_def)
    qed
  qed simp
qed

lemma extract_profile_bounds:
  "length (snd (extract_profile once)) \<le> 2" "list_all (\<lambda>w. 0 < w \<and> w \<le> 3) (snd (extract_profile once))"
  using extract_attempts_bounds [of 0 2 once] by (simp_all add: extract_profile_def Let_def)

lemma extract_profile_result:
  assumes "fst (extract_profile once) = Inr x"
  shows "once (length (snd (extract_profile once))) = Inr x"
  using extract_attempts_bounds [of 0 2 once] assms by (auto simp: extract_profile_def Let_def)

text \<open>What an attempt returns has passed the contract.\<close>

lemma mock_jd_valid: "\<exists>i. validate_extracted i = Inr mock_jd"
proof
  show "validate_extracted \<lparr>jf_title = jf_title mock_jd, jf_must_have = [], jf_nice_to_have = [],
      jf_queries = no_requirements, jf_targets = [], jf_minimum = 0, ji_rules = None,
      ji_uncertainties = xj_uncertainties mock_jd\<rparr> = Inr mock_jd"
    by code_simp
qed

lemma extract_profile_once_valid:
  assumes "extract_profile_once cfg tr s = Inr x"
  shows "\<exists>i. validate_extracted i = Inr x"
  using assms mock_jd_valid
  by (auto simp: extract_profile_once_def model_validate_def Let_def rbind_Inr_conv split: if_splits sum.splits)

end
