(* ===== verification/JD_Drafts.thy ===== *)
theory JD_Drafts
  imports JD_Extraction Screening_Runs Excerpts
begin

text \<open>
  Job descriptions on their way to approval (\<open>app/api/jds.py\<close>): the draft a PDF is extracted into, its
  attempts with their tokens, the expiry of drafts, and the approved versions. The tables hold a draft per
  owner and document, and the versions approved from it. What other sessions do between the two
  transactions of an upload is a parameter.
\<close>

section \<open>Tables\<close>

datatype draft_status = D_PROCESSING | D_REVIEW | D_APPROVED | D_FAILED | D_EXPIRED

record jd_draft =
  d_id :: string
  d_owner :: string
  d_hash :: string
  d_status :: draft_status
  d_pages :: "source_page list"
  d_profile :: "pydict option"
  d_error :: "string option"
  d_expires :: int
  d_started :: "int option"
  d_token :: "string option"

text \<open>A row of \<open>approved_jds\<close>: the columns every run reads, and the provenance of the approval.\<close>

record approved_version = approved_jd +
  av_draft :: string
  av_version :: nat
  av_previous :: "string option"
  av_uncertainties :: "string list"
  av_at :: int

record draft_db =
  dd_drafts :: "jd_draft list"
  dd_approved :: "approved_version list"

definition find_draft :: "(jd_draft \<Rightarrow> bool) \<Rightarrow> draft_db \<Rightarrow> jd_draft option" where
  "find_draft P db = find P (dd_drafts db)"

definition put_draft :: "jd_draft \<Rightarrow> draft_db \<Rightarrow> draft_db" where
  "put_draft d db = db\<lparr>dd_drafts := update_where (\<lambda>r. d_id r = d_id d) (\<lambda>_. d) (dd_drafts db)\<rparr>"

section \<open>Reading a draft\<close>

definition processing_stale :: "settings \<Rightarrow> int \<Rightarrow> jd_draft \<Rightarrow> bool" where
  "processing_stale cfg now d = (case d_started d of
     None \<Rightarrow> False
   | Some begun \<Rightarrow> begun + (PDF_OCR_MAX_PAGES cfg * PDF_OCR_TIMEOUT_SECONDS cfg + PROVIDER_TIMEOUT_SECONDS cfg + 120) < now)"

definition draft_expired :: "int \<Rightarrow> jd_draft \<Rightarrow> bool" where
  "draft_expired now d \<longleftrightarrow> d_expires d < now"

definition interrupt_stale :: "settings \<Rightarrow> int \<Rightarrow> jd_draft \<Rightarrow> jd_draft" where
  "interrupt_stale cfg now d =
    (if d_status d = D_PROCESSING \<and> processing_stale cfg now d
     then d\<lparr>d_status := D_FAILED, d_error := Some ''JD_EXTRACTION_INTERRUPTED''\<rparr> else d)"

text \<open>The answer and the rows afterwards: both changes are committed, the second before its error is raised.\<close>

definition owned_draft :: "settings \<Rightarrow> int \<Rightarrow> principal \<Rightarrow> string \<Rightarrow> draft_db \<Rightarrow> jd_draft result \<times> draft_db" where
  "owned_draft cfg now p draft_id db =
    (case find_draft (\<lambda>d. d_id d = draft_id \<and> d_owner d = pr_id p) db of
       None \<Rightarrow> (Inl (HTTPException 404 ''JD draft not found''), db)
     | Some d0 \<Rightarrow>
         let d = interrupt_stale cfg now d0 in
         if draft_expired now d \<and> d_status d \<noteq> D_APPROVED
         then (Inl (HTTPException 410 ''Draft expired; upload the PDF again''),
               put_draft (d\<lparr>d_pages := [], d_profile := None, d_status := D_EXPIRED\<rparr>) db)
         else (Inr d, put_draft d db))"

section \<open>Uploading a document\<close>

datatype upload_answer = Shown jd_draft | Started jd_draft

definition EXPIRY_SECONDS :: int where
  "EXPIRY_SECONDS = 7 * 86400"

text \<open>
  A document that was uploaded before: its draft is shown, refused while it is processed, or processed
  again. An interruption that is only shown is not written.
\<close>

definition reopen_draft :: "settings \<Rightarrow> int \<Rightarrow> bool \<Rightarrow> string \<Rightarrow> jd_draft \<Rightarrow> upload_answer result" where
  "reopen_draft cfg now retry token d =
    (if d_status d \<in> {D_REVIEW, D_APPROVED} \<and> (\<not> draft_expired now d \<or> d_status d = D_APPROVED) then Inr (Shown d)
     else if d_status d = D_PROCESSING \<and> \<not> processing_stale cfg now d
     then Inl (HTTPException 409 ''Extraction is already processing; retrieve this draft later'')
     else let d = interrupt_stale cfg now d in
       if \<not> retry \<and> \<not> draft_expired now d then Inr (Shown d)
       else Inr (Started (d\<lparr>d_status := D_PROCESSING, d_error := None, d_pages := [], d_profile := None,
         d_expires := now + EXPIRY_SECONDS, d_started := Some now, d_token := Some token\<rparr>)))"

definition new_draft :: "int \<Rightarrow> principal \<Rightarrow> string \<Rightarrow> string \<Rightarrow> string \<Rightarrow> jd_draft" where
  "new_draft now p digest new_id token = \<lparr>d_id = new_id, d_owner = pr_id p, d_hash = digest, d_status = D_PROCESSING,
     d_pages = [], d_profile = None, d_error = None, d_expires = now + EXPIRY_SECONDS, d_started = Some now,
     d_token = Some token\<rparr>"

text \<open>The insert, with the primary key and \<open>uq_jd_owner_pdf\<close>.\<close>

definition insert_draft :: "jd_draft \<Rightarrow> draft_db \<Rightarrow> draft_db result" where
  "insert_draft d db =
    (if \<exists>r \<in> set (dd_drafts db). d_id r = d_id d \<or> d_owner r = d_owner d \<and> d_hash r = d_hash d then Inl IntegrityError
     else Inr (db\<lparr>dd_drafts := dd_drafts db @ [d]\<rparr>))"

text \<open>
  The first transaction of an upload. A draft that is found is locked; where none is found, another
  upload of the document may commit first (\<open>race\<close>).
\<close>

definition start_upload ::
  "settings \<Rightarrow> int \<Rightarrow> principal \<Rightarrow> string \<Rightarrow> bool \<Rightarrow> string \<Rightarrow> string \<Rightarrow> (draft_db \<Rightarrow> draft_db) \<Rightarrow> draft_db \<Rightarrow>
     upload_answer result \<times> draft_db" where
  "start_upload cfg now p digest retry new_id token race db =
    (case find_draft (\<lambda>d. d_owner d = pr_id p \<and> d_hash d = digest) db of
       Some d \<Rightarrow> (case reopen_draft cfg now retry token d of
           Inr (Started d') \<Rightarrow> (Inr (Started d'), put_draft d' db)
         | r \<Rightarrow> (r, db))
     | None \<Rightarrow> (case insert_draft (new_draft now p digest new_id token) (race db) of
           Inr db' \<Rightarrow> (Inr (Started (new_draft now p digest new_id token)), db')
         | Inl _ \<Rightarrow> (Inl (HTTPException 409 ''This PDF is already being extracted; retry later''), race db)))"

text \<open>
  What an attempt found: status, error code, profile and pages. The pages of a document whose profile
  could not be extracted are kept. Naming the failure may itself raise, which ends the request.
\<close>

type_synonym extraction_row = "draft_status \<times> string option \<times> pydict option \<times> source_page list"

definition failed_outcome :: "jd_failure \<Rightarrow> source_page list \<Rightarrow> jd_failure + extraction_row" where
  "failed_outcome e pages = (case extraction_error_code e of
     Inl raised \<Rightarrow> Inl raised | Inr code \<Rightarrow> Inr (D_FAILED, Some code, None, pages))"

definition extraction_outcome ::
  "jd_failure + pdf_view \<Rightarrow> (string \<Rightarrow> jd_failure + extracted_jd) \<Rightarrow> jd_failure + extraction_row" where
  "extraction_outcome ingested extract =
    (case ingested of
       Inl e \<Rightarrow> failed_outcome e []
     | Inr v \<Rightarrow>
         if vw_status v \<noteq> ''success'' then Inr (D_FAILED, Some (vw_code v), None, [])
         else if 60000 < length (vw_text v) then Inr (D_FAILED, Some ''JD_TEXT_LIMIT'', None, [])
         else (case extract (vw_text v) of
             Inl e \<Rightarrow> failed_outcome e (vw_pages v)
           | Inr x \<Rightarrow> Inr (D_REVIEW, None, Some (extracted_dump x), vw_pages v)))"

text \<open>The second transaction writes only while the draft is still processed under the attempt's token.\<close>

definition finish_upload :: "string \<Rightarrow> string \<Rightarrow> extraction_row \<Rightarrow> draft_db \<Rightarrow> jd_draft result \<times> draft_db" where
  "finish_upload draft_id token outcome db =
    (case find_draft (\<lambda>d. d_id d = draft_id) db of
       None \<Rightarrow> (Inl NoResultFound, db)
     | Some d \<Rightarrow>
         if d_status d \<noteq> D_PROCESSING \<or> d_token d \<noteq> Some token then (Inr d, db)
         else (case outcome of (status, error, profile, pages) \<Rightarrow>
           let d' = d\<lparr>d_status := status, d_error := error, d_profile := profile, d_pages := pages\<rparr>
           in (Inr d', put_draft d' db)))"

text \<open>The whole endpoint; \<open>meanwhile\<close> is what happens while the document is extracted.\<close>

definition upload_jd ::
  "settings \<Rightarrow> int \<Rightarrow> principal \<Rightarrow> (string \<Rightarrow> string) \<Rightarrow> string \<Rightarrow> string list \<Rightarrow> bool \<Rightarrow> string \<Rightarrow> string \<Rightarrow>
     (draft_db \<Rightarrow> draft_db) \<Rightarrow> (string \<Rightarrow> jd_failure + pdf_view) \<Rightarrow> (string \<Rightarrow> jd_failure + extracted_jd) \<Rightarrow>
     (draft_db \<Rightarrow> draft_db) \<Rightarrow> draft_db \<Rightarrow> (jd_failure + jd_draft) \<times> draft_db" where
  "upload_jd cfg now p sha content_type chunks retry new_id token race ingest extract meanwhile db =
    (if lower (hd (split_char CHR '';'' content_type)) \<noteq> ''application/pdf''
     then (Inl (JD_Raised (HTTPException 415 ''Expected application/pdf'')), db)
     else case receive_pdf (nat (PDF_MAX_BYTES cfg)) [] chunks of
       None \<Rightarrow> (Inl (JD_Raised (HTTPException 413 ''JD PDF exceeds size limit'')), db)
     | Some data \<Rightarrow>
         (case start_upload cfg now p (sha data) retry new_id token race db of
            (Inl e, db1) \<Rightarrow> (Inl (JD_Raised e), db1)
          | (Inr (Shown d), db1) \<Rightarrow> (Inr d, db1)
          | (Inr (Started d), db1) \<Rightarrow>
              (case extraction_outcome (ingest data) extract of
                 Inl e \<Rightarrow> (Inl e, meanwhile db1)
               | Inr outcome \<Rightarrow> (case finish_upload (d_id d) token outcome (meanwhile db1) of
                   (Inl e, db2) \<Rightarrow> (Inl (JD_Raised e), db2) | (Inr d', db2) \<Rightarrow> (Inr d', db2)))))"

section \<open>Approval\<close>

text \<open>\<open>" ".join(s.split())\<close>, and the text of a draft under it.\<close>

definition normal_spaces :: "string \<Rightarrow> string" where
  "normal_spaces s = join_with '' '' (words s)"

definition draft_source :: "source_page list \<Rightarrow> string" where
  "draft_source pages = join_with '' '' (concat (map (\<lambda>g. map (\<lambda>b. normal_spaces (b_text b)) (g_blocks g)) pages))"

definition latest_version :: "string \<Rightarrow> draft_db \<Rightarrow> approved_version option" where
  "latest_version draft_id db =
    (case sort_key (\<lambda>v. (av_at v, ap_id v)) (filter (\<lambda>v. av_draft v = draft_id) (dd_approved db)) of
       [] \<Rightarrow> None | v # vs \<Rightarrow> Some (last (v # vs)))"

text \<open>A quote of a target must occur in the text of the draft, or in a quote of the version it revises.\<close>

definition quote_sourced :: "jd_draft \<Rightarrow> approved_version option \<Rightarrow> string \<Rightarrow> bool" where
  "quote_sourced d existing quote \<longleftrightarrow>
     list_ex (\<lambda>q. contains (normal_spaces quote) (normal_spaces q))
       (case existing of None \<Rightarrow> [] | Some v \<Rightarrow> quotes_of (ap_profile v)) \<or>
     contains (normal_spaces quote) (draft_source (d_pages d))"

definition new_version ::
  "int \<Rightarrow> principal \<Rightarrow> jd_draft \<Rightarrow> approved_version option \<Rightarrow> string \<Rightarrow> pydict \<Rightarrow> string list \<Rightarrow> approved_version" where
  "new_version now p d existing new_id profile notes = \<lparr>ap_id = new_id, ap_owner = pr_id p, ap_profile = profile,
     av_draft = d_id d, av_version = (case existing of None \<Rightarrow> 1 | Some v \<Rightarrow> av_version v + 1),
     av_previous = map_option ap_id existing, av_uncertainties = notes, av_at = now\<rparr>"

definition store_approval :: "approved_version \<Rightarrow> jd_draft \<Rightarrow> extracted_jd \<Rightarrow> draft_db \<Rightarrow> draft_db" where
  "store_approval v d x db =
    (let db' = put_draft (d\<lparr>d_status := D_APPROVED, d_pages := [], d_profile := Some (extracted_dump x)\<rparr>) db
     in db'\<lparr>dd_approved := dd_approved db' @ [v]\<rparr>)"

definition approve_locked ::
  "int \<Rightarrow> principal \<Rightarrow> jd_draft \<Rightarrow> extracted_jd \<Rightarrow> bool \<Rightarrow> string \<Rightarrow> draft_db \<Rightarrow> (string \<times> pydict) result \<times> draft_db" where
  "approve_locked now p d x revise new_id db =
    (let existing = latest_version (d_id d) db;
         same = (case existing of
           None \<Rightarrow> Inr False
         | Some v \<Rightarrow> rbind (screening_profile x (ap_id v)) (\<lambda>profile. Inr (json_eq (JDict (ap_profile v)) (JDict profile))))
     in case same of
       Inl e \<Rightarrow> (Inl e, db)
     | Inr True \<Rightarrow> (Inr (ap_id (the existing), ap_profile (the existing)), db)
     | Inr False \<Rightarrow>
         if existing \<noteq> None \<and> \<not> revise
         then (Inl (HTTPException 409 ''Approved versions are immutable; explicitly revise the reviewed JD''), db)
         else if d_status d \<noteq> D_REVIEW \<and> \<not> (existing \<noteq> None \<and> revise)
         then (Inl (HTTPException 409 ''Only a successfully extracted review draft can be approved''), db)
         else if \<not> list_all (\<lambda>q. quote_sourced d existing (qt_quote q)) (jf_targets x)
         then (Inl (HTTPException 422 ''Relevance target source quote must occur in the extracted JD''), db)
         else (case screening_profile x new_id of
             Inl e \<Rightarrow> (Inl e, db)
           | Inr profile \<Rightarrow> (Inr (new_id, profile),
               store_approval (new_version now p d existing new_id profile (xj_uncertainties x)) d x db)))"

definition approve ::
  "settings \<Rightarrow> int \<Rightarrow> principal \<Rightarrow> string \<Rightarrow> extracted_jd \<Rightarrow> bool \<Rightarrow> string \<Rightarrow> draft_db \<Rightarrow>
     (string \<times> pydict) result \<times> draft_db" where
  "approve cfg now p draft_id x revise new_id db =
    (case owned_draft cfg now p draft_id db of
       (Inl e, db1) \<Rightarrow> (Inl e, db1)
     | (Inr d, db1) \<Rightarrow> approve_locked now p d x revise new_id db1)"

text \<open>The approved versions of the caller, newest first, at most a hundred.\<close>

definition list_approved :: "principal \<Rightarrow> draft_db \<Rightarrow> approved_version list" where
  "list_approved p db = take 100 (sort_key (\<lambda>v. - av_at v) (filter (\<lambda>v. ap_owner v = pr_id p) (dd_approved db)))"

section \<open>Reachable tables\<close>

text \<open>
  The tables any interleaving of the transactions can produce, with the pages each draft was given so far.
  The identifier of a new version is fresh; the payload of an approval has passed its validation.
\<close>

definition publishes :: "string \<Rightarrow> string \<Rightarrow> draft_db \<Rightarrow> bool" where
  "publishes draft_id token db \<longleftrightarrow> (case find_draft (\<lambda>d. d_id d = draft_id) db of
     None \<Rightarrow> False | Some d \<Rightarrow> d_status d = D_PROCESSING \<and> d_token d = Some token)"

inductive drafts_reach :: "settings \<Rightarrow> draft_db \<Rightarrow> (string \<times> source_page list) set \<Rightarrow> bool" for cfg where
  empty: "drafts_reach cfg \<lparr>dd_drafts = [], dd_approved = []\<rparr> {}"
| reading: "drafts_reach cfg db L \<Longrightarrow> drafts_reach cfg (snd (owned_draft cfg now p draft_id db)) L"
| reopening: "drafts_reach cfg db L \<Longrightarrow> d \<in> set (dd_drafts db) \<Longrightarrow>
    reopen_draft cfg now retry token d = Inr (Started d') \<Longrightarrow> drafts_reach cfg (put_draft d' db) L"
| inserting: "drafts_reach cfg db L \<Longrightarrow> insert_draft (new_draft now p digest new_id token) db = Inr db' \<Longrightarrow>
    drafts_reach cfg db' L"
| finishing: "drafts_reach cfg db L \<Longrightarrow> extraction_outcome ingested extract = Inr (status, error, profile, pages) \<Longrightarrow>
    drafts_reach cfg (snd (finish_upload draft_id token (status, error, profile, pages) db))
      (if publishes draft_id token db then insert (draft_id, pages) L else L)"
| approving: "drafts_reach cfg db L \<Longrightarrow> validate_extracted input = Inr x \<Longrightarrow>
    new_id \<notin> ap_id ` set (dd_approved db) \<Longrightarrow> drafts_reach cfg (snd (approve cfg now p draft_id x revise new_id db)) L"

section \<open>What holds of them\<close>

definition draft_keys :: "draft_db \<Rightarrow> bool" where
  "draft_keys db \<longleftrightarrow> distinct (map d_id (dd_drafts db)) \<and> distinct (map (\<lambda>d. (d_owner d, d_hash d)) (dd_drafts db)) \<and>
     distinct (map ap_id (dd_approved db))"

text \<open>A version belongs to an approved draft of its owner, and links to a version of the same draft.\<close>

definition version_ok :: "draft_db \<Rightarrow> approved_version \<Rightarrow> bool" where
  "version_ok db v \<longleftrightarrow>
     (\<exists>d \<in> set (dd_drafts db). d_id d = av_draft v \<and> d_status d = D_APPROVED \<and> d_owner d = ap_owner v) \<and>
     (\<forall>i. av_previous v = Some i \<longrightarrow> (\<exists>w \<in> set (dd_approved db). ap_id w = i \<and> av_draft w = av_draft v))"

definition version_sourced :: "(string \<times> source_page list) set \<Rightarrow> approved_version \<Rightarrow> bool" where
  "version_sourced L v \<longleftrightarrow> (\<forall>q \<in> set (quotes_of (ap_profile v)).
     \<exists>pages. (av_draft v, pages) \<in> L \<and> contains (normal_spaces q) (draft_source pages))"

definition drafts_ok :: "draft_db \<Rightarrow> (string \<times> source_page list) set \<Rightarrow> bool" where
  "drafts_ok db L \<longleftrightarrow> draft_keys db \<and>
     (\<forall>d \<in> set (dd_drafts db). d_pages d \<noteq> [] \<longrightarrow> (d_id d, d_pages d) \<in> L) \<and>
     (\<forall>d \<in> set (dd_drafts db). d_status d = D_APPROVED \<longrightarrow> (\<exists>v \<in> set (dd_approved db). av_draft v = d_id d)) \<and>
     (\<forall>v \<in> set (dd_approved db). version_ok db v \<and> version_sourced L v)"

lemma put_draft_simps [simp]:
  "dd_approved (put_draft d db) = dd_approved db"
  "dd_drafts (put_draft d db) = map (\<lambda>r. if d_id r = d_id d then d else r) (dd_drafts db)"
  by (simp_all add: put_draft_def update_where_def)

lemma find_draft_Some: "find_draft P db = Some d \<Longrightarrow> d \<in> set (dd_drafts db) \<and> P d"
  by (auto simp: find_draft_def find_Some_iff in_set_conv_nth)

text \<open>Replacing a row by one with the same keys, of the same approval, with pages that are none or published.\<close>

lemma put_draft_ok:
  assumes ok: "drafts_ok db L" and d: "d \<in> set (dd_drafts db)"
    and same: "d_id d' = d_id d" "d_owner d' = d_owner d" "d_hash d' = d_hash d"
    and status: "d_status d' = D_APPROVED \<longleftrightarrow> d_status d = D_APPROVED"
    and pages: "d_pages d' = [] \<or> (d_id d, d_pages d') \<in> L"
  shows "drafts_ok (put_draft d' db) L"
proof -
  have only: "r = d" if "r \<in> set (dd_drafts db)" "d_id r = d_id d'" for r
    using ok d that same(1) by (auto simp: drafts_ok_def draft_keys_def distinct_map dest: inj_onD)
  have keep: "map f (dd_drafts (put_draft d' db)) = map f (dd_drafts db)" if "f d' = f d" for f :: "jd_draft \<Rightarrow> 'b"
    using only that by (auto simp: same)
  have keys: "draft_keys (put_draft d' db)"
    using ok keep [of d_id] keep [of "\<lambda>d. (d_owner d, d_hash d)"] same
    by (simp only: draft_keys_def drafts_ok_def put_draft_simps(1))
  have rows: "r \<in> set (dd_drafts (put_draft d' db)) \<longleftrightarrow> r = d' \<or> (r \<in> set (dd_drafts db) \<and> d_id r \<noteq> d_id d')" for r
    using d same(1) by auto
  have version: "version_ok (put_draft d' db) v" if v: "version_ok db v" for v
  proof -
    obtain e where e: "e \<in> set (dd_drafts db)" "d_id e = av_draft v" "d_status e = D_APPROVED" "d_owner e = ap_owner v"
      using v by (auto simp: version_ok_def)
    have "\<exists>e' \<in> set (dd_drafts (put_draft d' db)). d_id e' = av_draft v \<and> d_status e' = D_APPROVED \<and> d_owner e' = ap_owner v"
    proof (cases "d_id e = d_id d'")
      case True
      then have "e = d" using only e(1) by simp
      then have "d_id d' = av_draft v \<and> d_status d' = D_APPROVED \<and> d_owner d' = ap_owner v" using e same status by simp
      moreover have "d' \<in> set (dd_drafts (put_draft d' db))" by (simp only: rows simp_thms)
      ultimately show ?thesis by (rule bexI)
    next
      case False
      then have "e \<in> set (dd_drafts (put_draft d' db))" using e(1) by (simp only: rows simp_thms)
      with e(2-4) show ?thesis by (intro bexI [of _ e] conjI)
    qed
    with v [unfolded version_ok_def, THEN conjunct2] show ?thesis
      unfolding version_ok_def put_draft_simps(1) by (rule conjI [rotated])
  qed
  have "\<forall>r \<in> set (dd_drafts (put_draft d' db)). d_pages r \<noteq> [] \<longrightarrow> (d_id r, d_pages r) \<in> L"
  proof
    fix r assume "r \<in> set (dd_drafts (put_draft d' db))"
    then consider "r = d'" | "r \<in> set (dd_drafts db)" using rows by blast
    then show "d_pages r \<noteq> [] \<longrightarrow> (d_id r, d_pages r) \<in> L"
    proof cases
      case 1
      then show ?thesis using pages same(1) by auto
    qed (use ok in \<open>simp add: drafts_ok_def\<close>)
  qed
  moreover have "\<forall>r \<in> set (dd_drafts (put_draft d' db)). d_status r = D_APPROVED \<longrightarrow>
      (\<exists>v \<in> set (dd_approved db). av_draft v = d_id r)"
  proof
    fix r assume "r \<in> set (dd_drafts (put_draft d' db))"
    then consider "r = d'" | "r \<in> set (dd_drafts db)" using rows by blast
    then show "d_status r = D_APPROVED \<longrightarrow> (\<exists>v \<in> set (dd_approved db). av_draft v = d_id r)"
    proof cases
      case 1
      then show ?thesis using status d same(1) ok by (simp add: drafts_ok_def)
    qed (use ok in \<open>simp add: drafts_ok_def\<close>)
  qed
  moreover have "\<forall>v \<in> set (dd_approved db). version_ok (put_draft d' db) v \<and> version_sourced L v"
    using ok version unfolding drafts_ok_def by blast
  ultimately show ?thesis using keys unfolding drafts_ok_def put_draft_simps(1) by blast
qed

lemma drafts_ok_mono: "drafts_ok db L \<Longrightarrow> L \<subseteq> M \<Longrightarrow> drafts_ok db M"
  unfolding drafts_ok_def version_sourced_def by blast

lemma interrupt_simps [simp]:
  "d_id (interrupt_stale cfg now d) = d_id d" "d_owner (interrupt_stale cfg now d) = d_owner d"
  "d_hash (interrupt_stale cfg now d) = d_hash d" "d_pages (interrupt_stale cfg now d) = d_pages d"
  "d_status (interrupt_stale cfg now d) = D_APPROVED \<longleftrightarrow> d_status d = D_APPROVED"
  by (auto simp: interrupt_stale_def)

lemma owned_draft_ok:
  assumes "drafts_ok db L"
  shows "drafts_ok (snd (owned_draft cfg now p draft_id db)) L"
proof (cases "find_draft (\<lambda>d. d_id d = draft_id \<and> d_owner d = pr_id p) db")
  case None
  then show ?thesis using assms by (simp add: owned_draft_def)
next
  case (Some d)
  note d = find_draft_Some [OF Some, THEN conjunct1]
  have "d_pages d = [] \<or> (d_id d, d_pages d) \<in> L" using assms d by (auto simp: drafts_ok_def)
  then show ?thesis
    using Some put_draft_ok [OF assms d] by (auto simp: owned_draft_def Let_def)
qed

text \<open>What the lock of an approval returns is a row of the table it leaves.\<close>

lemma owned_draft_row:
  assumes "owned_draft cfg now p draft_id db = (Inr d, db1)"
  shows "d \<in> set (dd_drafts db1)" "d_owner d = pr_id p" "d_id d = draft_id" "dd_approved db1 = dd_approved db"
proof -
  obtain e where e: "find_draft (\<lambda>d. d_id d = draft_id \<and> d_owner d = pr_id p) db = Some e"
    "d = interrupt_stale cfg now e" "db1 = put_draft d db"
    using assms by (auto simp: owned_draft_def Let_def split: option.splits if_splits)
  then show "d \<in> set (dd_drafts db1)" "d_owner d = pr_id p" "d_id d = draft_id" "dd_approved db1 = dd_approved db"
    using find_draft_Some [OF e(1)] by auto
qed

lemma reopened:
  assumes "reopen_draft cfg now retry token d = Inr (Started d')"
  shows "d_id d' = d_id d" "d_owner d' = d_owner d" "d_hash d' = d_hash d" "d_pages d' = []"
    "d_status d' = D_PROCESSING" "d_status d \<noteq> D_APPROVED"
  using assms by (auto simp: reopen_draft_def Let_def split: if_splits)

lemma insert_draft_ok:
  assumes "drafts_ok db L" "insert_draft (new_draft now p digest new_id token) db = Inr db'"
  shows "drafts_ok db' L"
proof -
  let ?d = "new_draft now p digest new_id token"
  have db': "db' = db\<lparr>dd_drafts := dd_drafts db @ [?d]\<rparr>"
    and new: "\<forall>r \<in> set (dd_drafts db). d_id r \<noteq> d_id ?d \<and> (d_owner r, d_hash r) \<noteq> (d_owner ?d, d_hash ?d)"
    using assms(2) by (auto simp: insert_draft_def split: if_splits)
  have "draft_keys db'" using assms(1) new by (auto simp: db' draft_keys_def drafts_ok_def)
  moreover have "version_ok db' v" if "version_ok db v" for v
    using that by (auto simp: db' version_ok_def)
  moreover have "d_status ?d = D_PROCESSING" "d_pages ?d = []" by (simp_all add: new_draft_def)
  ultimately show ?thesis using assms(1) by (auto simp: drafts_ok_def db')
qed

lemma finish_upload_ok:
  assumes ok: "drafts_ok db L" and outcome: "extraction_outcome ingested extract = Inr (status, error, profile, pages)"
  shows "drafts_ok (snd (finish_upload draft_id token (status, error, profile, pages) db))
    (if publishes draft_id token db then insert (draft_id, pages) L else L)"
proof (cases "publishes draft_id token db")
  case True
  then obtain d where d: "find_draft (\<lambda>d. d_id d = draft_id) db = Some d" "d_status d = D_PROCESSING" "d_token d = Some token"
    by (auto simp: publishes_def split: option.splits)
  have status: "status \<noteq> D_APPROVED"
    using outcome by (auto simp: extraction_outcome_def failed_outcome_def split: sum.splits if_splits)
  have "drafts_ok db (insert (draft_id, pages) L)" by (rule drafts_ok_mono [OF ok]) blast
  then show ?thesis
    using True d find_draft_Some [OF d(1)] status
      put_draft_ok [of db _ d "d\<lparr>d_status := status, d_error := error, d_profile := profile, d_pages := pages\<rparr>"]
    by (simp add: finish_upload_def Let_def)
next
  case False
  then show ?thesis using ok
    by (auto simp: finish_upload_def publishes_def split: option.splits)
qed

lemma latest_version_in:
  assumes "latest_version i db = Some v"
  shows "v \<in> set (dd_approved db)" "av_draft v = i"
proof -
  define vs where "vs = sort_key (\<lambda>v. (av_at v, ap_id v)) (filter (\<lambda>v. av_draft v = i) (dd_approved db))"
  have "v \<in> set vs"
    using assms unfolding latest_version_def vs_def [symmetric] by (auto split: list.splits)
  then have "v \<in> set (filter (\<lambda>v. av_draft v = i) (dd_approved db))" by (simp add: vs_def)
  then show "v \<in> set (dd_approved db)" "av_draft v = i" by auto
qed

lemma words_nonempty:
  "acc \<noteq> [] \<Longrightarrow> words_acc acc s \<noteq> []" "strip s \<noteq> [] \<Longrightarrow> words_acc acc s \<noteq> []"
proof -
  show a: "words_acc acc s \<noteq> []" if "acc \<noteq> []" for acc s using that by (induction s arbitrary: acc) auto
  assume "strip s \<noteq> []"
  then have "\<exists>c \<in> set s. \<not> is_space c"
    by (auto simp: strip_def rstrip_def lstrip_def dropWhile_eq_Nil_conv dest: set_dropWhileD)
  then show "words_acc acc s \<noteq> []" by (induction s arbitrary: acc) (auto simp: a)
qed

lemma words_pieces: "w \<in> set (words_acc acc s) \<Longrightarrow> w \<noteq> []"
  by (induction acc s rule: words_acc.induct) (auto split: if_splits)

lemma normal_spaces_nonempty:
  assumes "strip s \<noteq> []"
  shows "normal_spaces s \<noteq> []"
proof -
  obtain w ws where w: "words s = w # ws" using words_nonempty(2) [OF assms] by (cases "words s") (auto simp: words_def)
  then have "w \<noteq> []" using words_pieces [of w "[]" s] by (simp add: words_def)
  then show ?thesis using w by (cases ws) (auto simp: normal_spaces_def)
qed

text \<open>A quote of the payload that was checked comes from pages that were published for the draft.\<close>

lemma quote_sourced_log:
  assumes ok: "drafts_ok db L" and d: "d \<in> set (dd_drafts db)"
    and q: "quote_sourced d (latest_version (d_id d) db) quote" "strip quote \<noteq> []"
  shows "\<exists>pages. (d_id d, pages) \<in> L \<and> contains (normal_spaces quote) (draft_source pages)"
  using q(1) unfolding quote_sourced_def
proof
  assume "contains (normal_spaces quote) (draft_source (d_pages d))"
  moreover from this have "d_pages d \<noteq> []"
    using normal_spaces_nonempty [OF q(2)] by (auto simp: draft_source_def)
  ultimately show ?thesis using ok d by (auto simp: drafts_ok_def)
next
  assume "list_ex (\<lambda>q. contains (normal_spaces quote) (normal_spaces q))
    (case latest_version (d_id d) db of None \<Rightarrow> [] | Some v \<Rightarrow> quotes_of (ap_profile v))"
  then obtain v q where v: "latest_version (d_id d) db = Some v" "q \<in> set (quotes_of (ap_profile v))"
    "contains (normal_spaces quote) (normal_spaces q)"
    by (cases "latest_version (d_id d) db") (auto simp: list_ex_iff)
  then have "version_sourced L v" "av_draft v = d_id d"
    using ok latest_version_in [OF v(1)] by (auto simp: drafts_ok_def)
  then show ?thesis using v(2,3) contains_trans by (fastforce simp: version_sourced_def)
qed

text \<open>An approval appends at most one version; it keeps what holds when its quotes are sourced.\<close>

lemma store_approval_ok:
  assumes ok: "drafts_ok db L" and d: "d \<in> set (dd_drafts db)" and p: "d_owner d = pr_id p"
    and fresh: "new_id \<notin> ap_id ` set (dd_approved db)"
    and v: "v = new_version now p d (latest_version (d_id d) db) new_id profile notes" and sourced: "version_sourced L v"
  shows "drafts_ok (store_approval v d x db) L"
proof -
  let ?d = "d\<lparr>d_status := D_APPROVED, d_pages := [], d_profile := Some (extracted_dump x)\<rparr>"
  have v_simps: "ap_id v = new_id" "av_draft v = d_id d" "ap_owner v = d_owner d"
    "av_previous v = map_option ap_id (latest_version (d_id d) db)"
    by (simp_all add: v new_version_def p)
  have only: "r = d" if "r \<in> set (dd_drafts db)" "d_id r = d_id d" for r
    using ok d that by (auto simp: drafts_ok_def draft_keys_def distinct_map dest: inj_onD)
  have drafts: "dd_drafts (store_approval v d x db) = map (\<lambda>r. if r = d then ?d else r) (dd_drafts db)"
    unfolding store_approval_def Let_def using only by (auto intro: map_cong)
  have approved: "dd_approved (store_approval v d x db) = dd_approved db @ [v]"
    by (simp add: store_approval_def Let_def)
  have same: "map d_id (dd_drafts (store_approval v d x db)) = map d_id (dd_drafts db)"
    "map (\<lambda>d. (d_owner d, d_hash d)) (dd_drafts (store_approval v d x db)) = map (\<lambda>d. (d_owner d, d_hash d)) (dd_drafts db)"
    by (auto simp: drafts)
  have keys: "draft_keys (store_approval v d x db)"
    using ok fresh unfolding draft_keys_def same approved by (auto simp: drafts_ok_def draft_keys_def v_simps)
  have row: "?d \<in> set (dd_drafts (store_approval v d x db))" using d by (auto simp: drafts)
  have linked: "\<forall>i. av_previous w = Some i \<longrightarrow> (\<exists>u \<in> set (dd_approved db). ap_id u = i \<and> av_draft u = av_draft w)"
    if "w = v \<or> w \<in> set (dd_approved db)" for w
    using that
  proof
    assume "w = v"
    then show ?thesis using latest_version_in [of "d_id d" db] by (auto simp: v_simps)
  qed (use ok in \<open>auto simp: drafts_ok_def version_ok_def\<close>)
  have owned: "\<exists>e \<in> set (dd_drafts (store_approval v d x db)). d_id e = av_draft w \<and> d_status e = D_APPROVED \<and> d_owner e = ap_owner w"
    if w: "w = v \<or> w \<in> set (dd_approved db)" for w
    using w
  proof
    assume "w = v"
    then show ?thesis by (intro bexI [OF _ row]) (simp add: v_simps)
  next
    assume "w \<in> set (dd_approved db)"
    then obtain e where e: "e \<in> set (dd_drafts db)" "d_id e = av_draft w" "d_status e = D_APPROVED" "d_owner e = ap_owner w"
      using ok by (auto simp: drafts_ok_def version_ok_def)
    show ?thesis
    proof (cases "e = d")
      case True
      then show ?thesis using e by (intro bexI [OF _ row]) simp
    next
      case False
      then have "e \<in> set (dd_drafts (store_approval v d x db))" using e(1) by (auto simp: drafts)
      with e(2-4) show ?thesis by (intro bexI [of _ e] conjI)
    qed
  qed
  have versions: "\<forall>w \<in> set (dd_approved db @ [v]). version_ok (store_approval v d x db) w \<and> version_sourced L w"
  proof
    fix w assume "w \<in> set (dd_approved db @ [v])"
    then have w: "w = v \<or> w \<in> set (dd_approved db)" by auto
    then have "version_sourced L w" using sourced ok by (auto simp: drafts_ok_def)
    moreover have "version_ok (store_approval v d x db) w"
      using owned [OF w] linked [OF w] unfolding version_ok_def approved by auto
    ultimately show "version_ok (store_approval v d x db) w \<and> version_sourced L w" by simp
  qed
  have "\<forall>e \<in> set (dd_drafts (store_approval v d x db)). d_pages e \<noteq> [] \<longrightarrow> (d_id e, d_pages e) \<in> L"
    using ok by (auto simp: drafts drafts_ok_def)
  moreover have "\<forall>e \<in> set (dd_drafts (store_approval v d x db)). d_status e = D_APPROVED \<longrightarrow>
      (\<exists>w \<in> set (dd_approved db @ [v]). av_draft w = d_id e)"
    using ok v_simps(2) by (auto simp: drafts drafts_ok_def)
  ultimately show ?thesis using keys versions unfolding drafts_ok_def approved by blast
qed

lemma approve_locked_ok:
  assumes ok: "drafts_ok db L" and d: "d \<in> set (dd_drafts db)" "d_owner d = pr_id p"
    and x: "validate_extracted input = Inr x" and fresh: "new_id \<notin> ap_id ` set (dd_approved db)"
  shows "drafts_ok (snd (approve_locked now p d x revise new_id db)) L"
proof (cases "snd (approve_locked now p d x revise new_id db) = db")
  case True
  then show ?thesis using ok by simp
next
  case False
  note profile = screening_profile_eq [OF x]
  let ?v = "new_version now p d (latest_version (d_id d) db) new_id (profile_dump new_id x (xj_rules x)) (xj_uncertainties x)"
  have stored: "snd (approve_locked now p d x revise new_id db) = store_approval ?v d x db"
    and quotes: "list_all (\<lambda>q. quote_sourced d (latest_version (d_id d) db) (qt_quote q)) (jf_targets x)"
    using False profile by (auto simp: approve_locked_def Let_def split: sum.splits bool.splits if_splits)
  have nonblank: "\<forall>q \<in> set (jf_targets x). strip (qt_quote q) \<noteq> []"
    using validated_parts(4) [OF x] by (auto simp: validate_quoted_def list_ex_iff split: if_splits)
  have "version_sourced L ?v"
    using quotes nonblank quote_sourced_log [OF ok d(1)]
    by (fastforce simp: version_sourced_def new_version_def quotes_of_profile list_all_iff)
  then show ?thesis unfolding stored by (rule store_approval_ok [OF ok d fresh refl])
qed

theorem reachable_drafts_ok: "drafts_reach cfg db L \<Longrightarrow> drafts_ok db L"
proof (induction rule: drafts_reach.induct)
  case empty
  then show ?case by (simp add: drafts_ok_def draft_keys_def)
next
  case (reading db L now p draft_id)
  then show ?case by (simp add: owned_draft_ok)
next
  case (reopening db L d now retry token d')
  note r = reopened [OF reopening.hyps(3)]
  show ?case using r by (intro put_draft_ok [OF reopening.IH reopening.hyps(2)]) simp_all
next
  case (inserting db L now p digest new_id token db')
  then show ?case by (blast intro: insert_draft_ok)
next
  case (finishing db L ingested extraction status error profile pages draft_id token)
  show ?case by (rule finish_upload_ok [OF finishing.IH finishing.hyps(2)])
next
  case (approving db L input x new_id now p draft_id revise)
  show ?case
  proof (cases "owned_draft cfg now p draft_id db")
    case (Pair r db1)
    have ok: "drafts_ok db1 L" using owned_draft_ok [OF approving.IH, of cfg now p draft_id] Pair by simp
    show ?thesis
    proof (cases r)
      case (Inr d)
      note row = owned_draft_row [OF Pair [unfolded Inr]]
      have "new_id \<notin> ap_id ` set (dd_approved db1)" using approving.hyps(3) row(4) by simp
      then show ?thesis
        using approve_locked_ok [OF ok row(1,2) approving.hyps(2)] Pair Inr by (simp add: approve_def)
    qed (use Pair ok in \<open>simp add: approve_def\<close>)
  qed
qed

section \<open>Versions are final and hold the reviewed data\<close>

text \<open>No transaction changes or removes a stored version; an approval appends one with the payload's profile.\<close>

lemma owned_draft_versions: "dd_approved (snd (owned_draft cfg now p draft_id db)) = dd_approved db"
  by (simp add: owned_draft_def Let_def split: option.split)

lemma finish_upload_versions: "dd_approved (snd (finish_upload draft_id token outcome db)) = dd_approved db"
  by (simp add: finish_upload_def Let_def split: option.split prod.split)

lemma insert_draft_versions: "insert_draft d db = Inr db' \<Longrightarrow> dd_approved db' = dd_approved db"
  by (auto simp: insert_draft_def split: if_splits)

lemma approve_appends:
  assumes "validate_extracted input = Inr x"
  shows "dd_approved (snd (approve cfg now p draft_id x revise new_id db)) = dd_approved db \<or>
    (\<exists>v. dd_approved (snd (approve cfg now p draft_id x revise new_id db)) = dd_approved db @ [v] \<and>
       ap_id v = new_id \<and> ap_profile v = profile_dump (ap_id v) x (xj_rules x))"
proof (cases "owned_draft cfg now p draft_id db")
  case (Pair r db1)
  have same: "dd_approved db1 = dd_approved db" using owned_draft_versions [of cfg now p draft_id db] Pair by simp
  show ?thesis
  proof (cases r)
    case (Inr d)
    show ?thesis
      using Pair Inr same screening_profile_eq [OF assms]
      by (auto simp: approve_def approve_locked_def store_approval_def new_version_def Let_def
          split: sum.splits bool.splits if_splits)
  qed (use Pair same in \<open>simp add: approve_def\<close>)
qed

definition version_profiled :: "approved_version \<Rightarrow> bool" where
  "version_profiled v \<longleftrightarrow> (\<exists>input x. validate_extracted input = Inr x \<and> ap_profile v = profile_dump (ap_id v) x (xj_rules x))"

theorem reachable_versions_profiled: "drafts_reach cfg db L \<Longrightarrow> list_all version_profiled (dd_approved db)"
proof (induction rule: drafts_reach.induct)
  case (approving db L input x new_id now p draft_id revise)
  have old: "list_all version_profiled (dd_approved db)" by (rule approving.IH)
  have new: "version_profiled v" if "ap_profile v = profile_dump (ap_id v) x (xj_rules x)" for v :: approved_version
    using that approving.hyps(2) by (auto simp: version_profiled_def)
  show ?case
    using approve_appends [OF approving.hyps(2), of cfg now p draft_id revise new_id db] old new by auto
qed (simp_all add: owned_draft_versions finish_upload_versions insert_draft_versions)

text \<open>
  A request that names an approved version is given a profile from which Stage 1 resolves the reviewed
  rules.
\<close>

lemma approved_request_rules:
  assumes "drafts_reach cfg db L" "nonempty (sq_approved_jd_id q)"
    "resolve_approved_profile env (map approved_jd.truncate (dd_approved db)) p q = Inr q'"
  shows "\<exists>input x i. validate_extracted input = Inr x \<and>
    sq_job_profile q' = Some (profile_dump i x (xj_rules x)) \<and>
    resolve_hard_filters (profile_dump i x (xj_rules x)) JNull = Inr (xj_rules x)"
proof -
  obtain a where "find (\<lambda>a. Some (ap_id a) = sq_approved_jd_id q) (map approved_jd.truncate (dd_approved db)) = Some a"
    "q' = q\<lparr>sq_job_profile := Some (ap_profile a)\<rparr>"
    using assms(2,3) by (auto simp: resolve_approved_profile_def split: option.splits if_splits)
  then have a: "a \<in> set (map approved_jd.truncate (dd_approved db))" "q' = q\<lparr>sq_job_profile := Some (ap_profile a)\<rparr>"
    by (simp_all only: find_Some_iff) (metis nth_mem)
  then obtain v where v: "v \<in> set (dd_approved db)" "ap_profile a = ap_profile v"
    by (auto simp: approved_jd.defs)
  then have "version_profiled v" using reachable_versions_profiled [OF assms(1)] by (simp add: list_all_iff)
  then obtain input x where x: "validate_extracted input = Inr x" "ap_profile v = profile_dump (ap_id v) x (xj_rules x)"
    by (auto simp: version_profiled_def)
  have "resolve_hard_filters (profile_dump (ap_id v) x (xj_rules x)) JNull = Inr (xj_rules x)"
    by (rule profile_rules [OF validated_parts(1) [OF x(1)]])
  then show ?thesis using x a(2) v(2) by auto
qed

text \<open>A late attempt, one whose token is no longer the draft's, writes nothing.\<close>

lemma late_attempt_fenced:
  "\<not> publishes draft_id token db \<Longrightarrow> snd (finish_upload draft_id token outcome db) = db"
  by (auto simp: finish_upload_def publishes_def split: option.splits)

text \<open>The parts of an upload are transactions of the machine, whatever happened in between.\<close>

lemma start_upload_reach:
  assumes "drafts_reach cfg db L" "drafts_reach cfg (race db) M"
  shows "\<exists>K. drafts_reach cfg (snd (start_upload cfg now p digest retry new_id token race db)) K"
proof (cases "find_draft (\<lambda>d. d_owner d = pr_id p \<and> d_hash d = digest) db")
  case None
  show ?thesis
  proof (cases "insert_draft (new_draft now p digest new_id token) (race db)")
    case (Inr db')
    then show ?thesis using None inserting [OF assms(2) Inr] by (auto simp: start_upload_def)
  qed (use None assms(2) in \<open>auto simp: start_upload_def\<close>)
next
  case (Some d)
  have again: "\<exists>K. drafts_reach cfg (put_draft d' db) K" if "reopen_draft cfg now retry token d = Inr (Started d')" for d'
    using reopening [OF assms(1) find_draft_Some [OF Some, THEN conjunct1] that] by blast
  show ?thesis
    using Some assms(1) again by (auto simp: start_upload_def split: sum.split upload_answer.split)
qed

lemma extraction_outcome_total:
  assumes "fst (extract_profile once) = Inl e"
  shows "\<exists>o'. failed_outcome e pages = Inr o'"
  using attempts_named [of once 0 2 e] assms by (auto simp: failed_outcome_def extract_profile_def)

end
