(* ===== verification/Recruiter_Reviews.thy ===== *)
theory Recruiter_Reviews
  imports Campaign_Tables Screening_Runs
begin

text \<open>
  The recruiter's decisions (\<open>app/api/recruiter.py\<close>): access to campaigns and their members, reviews with
  versions and their audit events, saved views, and the original document of a CV. Identifiers of new rows
  and the hash and cipher of documents are parameters.
\<close>

section \<open>Tables\<close>

datatype review_decision = Unreviewed | Shortlist | Hold | Not_Proceeding

record verified_facts =
  vf_years :: "rat option"
  vf_authorized :: string
  vf_education :: "bool option"

text \<open>What a review shows (\<open>review_view\<close>) and its row; facts are absent until they were given once.\<close>

record review_fields =
  rv_decision :: review_decision
  rv_notes :: string
  rv_reason :: string
  rv_tags :: "string list"
  rv_facts :: "verified_facts option"
  rv_assignee :: "string option"
  rv_version :: int
  rv_reviewer :: "string option"
  rv_updated :: "int option"

record review = review_fields +
  rv_pair :: string

record review_event =
  re_id :: string
  re_pair :: string
  re_actor :: string
  re_snapshot :: review_fields
  re_at :: int

record campaign_member =
  mb_campaign :: string
  mb_user :: string
  mb_username :: string

record saved_view =
  sw_id :: string
  sw_owner :: string
  sw_name :: string
  sw_filters :: json
  sw_columns :: "string list"

record workspace =
  ws_db :: db
  ws_members :: "campaign_member list"
  ws_reviews :: "review list"
  ws_events :: "review_event list"
  ws_views :: "saved_view list"

definition no_review :: review_fields where
  "no_review = \<lparr>rv_decision = Unreviewed, rv_notes = [], rv_reason = [], rv_tags = [], rv_facts = None,
     rv_assignee = None, rv_version = 0, rv_reviewer = None, rv_updated = None\<rparr>"

definition review_view :: "review option \<Rightarrow> review_fields" where
  "review_view r = (case r of None \<Rightarrow> no_review | Some x \<Rightarrow> review_fields.truncate x)"

definition review_of :: "string \<Rightarrow> workspace \<Rightarrow> review option" where
  "review_of pair_id ws = find (\<lambda>r. rv_pair r = pair_id) (ws_reviews ws)"

section \<open>Access\<close>

definition is_member :: "string \<Rightarrow> string \<Rightarrow> workspace \<Rightarrow> bool" where
  "is_member campaign_id user ws \<longleftrightarrow> list_ex (\<lambda>m. mb_campaign m = campaign_id \<and> mb_user m = user) (ws_members ws)"

definition owned_campaign :: "workspace \<Rightarrow> string \<Rightarrow> principal \<Rightarrow> campaign result" where
  "owned_campaign ws campaign_id p = (case campaign_by_id campaign_id (ws_db ws) of
     None \<Rightarrow> Inl (HTTPException 404 ''Campaign not found'')
   | Some c \<Rightarrow> if can_access (c_owner_id c) p \<or> is_member campaign_id (pr_id p) ws then Inr c
               else Inl (HTTPException 404 ''Campaign not found''))"

definition owned_pair :: "workspace \<Rightarrow> string \<Rightarrow> principal \<Rightarrow> pair result" where
  "owned_pair ws pair_id p = (case find (\<lambda>r. p_id r = pair_id) (pairs (ws_db ws)) of
     None \<Rightarrow> Inl (HTTPException 404 ''Candidate assessment not found'')
   | Some r \<Rightarrow> rbind (owned_campaign ws (p_campaign_id r) p) (\<lambda>_. Inr r))"

definition owned_candidate :: "workspace \<Rightarrow> string \<Rightarrow> string \<Rightarrow> principal \<Rightarrow> cv result" where
  "owned_candidate ws campaign_id candidate_id p = rbind (owned_campaign ws campaign_id p) (\<lambda>_.
     case find (\<lambda>v. v_campaign_id v = campaign_id \<and> v_candidate_id v = candidate_id) (cvs (ws_db ws)) of
       None \<Rightarrow> Inl (HTTPException 404 ''Candidate not found'') | Some v \<Rightarrow> Inr v)"

section \<open>Reviews\<close>

text \<open>
  The payload: the expected version of each pair, and the fields to change; \<open>None\<close> leaves a field as it
  is. The assignee may also be given as \<open>null\<close>, which clears it.
\<close>

record review_update =
  up_versions :: "(string \<times> int) list"
  up_decision :: review_decision
  up_notes :: "string option"
  up_reason :: string
  up_tags :: "string list option"
  up_assignee :: "string option option"
  up_facts :: "verified_facts option"

definition clean_tags :: "string list \<Rightarrow> string list result" where
  "clean_tags tags = (if list_ex (\<lambda>t. strip t = [] \<or> 50 < length t) tags
     then Inl (ValueError ''Tags must contain 1-50 characters'') else Inr (dict_fromkeys (map strip tags)))"

definition versions_valid :: "(string \<times> int) list \<Rightarrow> bool" where
  "versions_valid vs \<longleftrightarrow> 1 \<le> length vs \<and> length vs \<le> 100 \<and> distinct (map fst vs) \<and>
     list_all (\<lambda>(k, n). k \<noteq> [] \<and> length k \<le> 64 \<and> 0 \<le> n) vs"

definition text_within :: "nat \<Rightarrow> string option \<Rightarrow> bool" where
  "text_within n s = (case s of None \<Rightarrow> True | Some t \<Rightarrow> length t \<le> n)"

definition validate_facts :: "verified_facts \<Rightarrow> bool" where
  "validate_facts f \<longleftrightarrow> (case vf_years f of None \<Rightarrow> True | Some y \<Rightarrow> 0 \<le> y) \<and>
     vf_authorized f \<in> {''unknown'', ''eligible'', ''ineligible''}"

definition validate_update :: "review_update \<Rightarrow> review_update result" where
  "validate_update u =
    (if \<not> versions_valid (up_versions u) then Inl (ValueError ''Invalid assessment version'')
     else if \<not> (text_within 10000 (up_notes u) \<and> length (up_reason u) \<le> 2000 \<and>
       (case up_tags u of None \<Rightarrow> True | Some ts \<Rightarrow> length ts \<le> 20) \<and>
       (case up_assignee u of None \<Rightarrow> True | Some a \<Rightarrow> text_within 64 a) \<and>
       (case up_facts u of None \<Rightarrow> True | Some f \<Rightarrow> validate_facts f))
     then Inl (ValueError ''Invalid review'')
     else (case up_tags u of
         None \<Rightarrow> Inr u
       | Some ts \<Rightarrow> rbind (clean_tags ts) (\<lambda>ts'. Inr (u\<lparr>up_tags := Some ts'\<rparr>))))"

definition version_of :: "review option \<Rightarrow> int" where
  "version_of r = (case r of None \<Rightarrow> 0 | Some x \<Rightarrow> rv_version x)"

definition assignee_ok :: "workspace \<Rightarrow> string \<Rightarrow> string \<Rightarrow> bool" where
  "assignee_ok ws campaign_id user \<longleftrightarrow>
     (case campaign_by_id campaign_id (ws_db ws) of None \<Rightarrow> False | Some c \<Rightarrow> c_owner_id c = user) \<or> is_member campaign_id user ws"

definition fresh_review :: "string \<Rightarrow> review" where
  "fresh_review pair_id = review_fields.extend no_review \<lparr>rv_pair = pair_id\<rparr>"

text \<open>\<open>assignee_id or None\<close>: an empty assignee clears it too.\<close>

definition blank_to_none :: "string option \<Rightarrow> string option" where
  "blank_to_none a = (case a of Some [] \<Rightarrow> None | _ \<Rightarrow> a)"

definition apply_update :: "int \<Rightarrow> principal \<Rightarrow> review_update \<Rightarrow> review \<Rightarrow> review" where
  "apply_update now p u r = r\<lparr>
     rv_decision := up_decision u, rv_reason := strip (up_reason u),
     rv_notes := (case up_notes u of None \<Rightarrow> rv_notes r | Some n \<Rightarrow> n),
     rv_tags := (case up_tags u of None \<Rightarrow> rv_tags r | Some ts \<Rightarrow> ts),
     rv_facts := (case up_facts u of None \<Rightarrow> rv_facts r | Some f \<Rightarrow> Some f),
     rv_assignee := (case up_assignee u of None \<Rightarrow> rv_assignee r | Some a \<Rightarrow> blank_to_none a),
     rv_version := rv_version r + 1, rv_reviewer := Some (pr_id p), rv_updated := Some now\<rparr>"

definition put_review :: "review \<Rightarrow> workspace \<Rightarrow> workspace" where
  "put_review r ws = ws\<lparr>ws_reviews := (if review_of (rv_pair r) ws = None then ws_reviews ws @ [r]
     else update_where (\<lambda>x. rv_pair x = rv_pair r) (\<lambda>_. r) (ws_reviews ws))\<rparr>"

definition update_one ::
  "int \<Rightarrow> principal \<Rightarrow> review_update \<Rightarrow> string \<times> string \<times> int \<Rightarrow> workspace \<Rightarrow> workspace result" where
  "update_one now p u item ws = (case item of (event_id, pair_id, expected) \<Rightarrow>
     rbind (owned_pair ws pair_id p) (\<lambda>pair.
       let old = review_of (p_id pair) ws in
       if version_of old \<noteq> expected then Inl (HTTPException 409 ''A candidate decision changed; refresh before saving'')
       else if (case up_assignee u of Some (Some (c # cs)) \<Rightarrow> \<not> assignee_ok ws (p_campaign_id pair) (c # cs) | _ \<Rightarrow> False)
       then Inl (HTTPException 422 ''Assignee must belong to this campaign'')
       else let r = apply_update now p u (case old of None \<Rightarrow> fresh_review (p_id pair) | Some x \<Rightarrow> x) in
         Inr ((put_review r ws)\<lparr>ws_events := ws_events ws @ [\<lparr>re_id = event_id, re_pair = p_id pair, re_actor = pr_id p,
           re_snapshot = review_fields.truncate r, re_at = now\<rparr>]\<rparr>)))"

fun update_all ::
  "int \<Rightarrow> principal \<Rightarrow> review_update \<Rightarrow> (string \<times> string \<times> int) list \<Rightarrow> workspace \<Rightarrow> workspace result" where
  "update_all now p u [] ws = Inr ws"
| "update_all now p u (item # items) ws = rbind (update_one now p u item ws) (update_all now p u items)"

text \<open>
  One transaction for the whole batch, its pairs locked in the order of their identifiers: an error rolls
  everything back, so that only \<open>Inr\<close> carries a new state.
\<close>

definition update_reviews ::
  "(nat \<Rightarrow> string) \<Rightarrow> int \<Rightarrow> principal \<Rightarrow> review_update \<Rightarrow> workspace \<Rightarrow> ((string \<times> review_fields) list \<times> workspace) result" where
  "update_reviews event_ids now p u ws =
    (if up_decision u = Not_Proceeding \<and> strip (up_reason u) = []
     then Inl (HTTPException 422 ''A reason is required when choosing not to proceed'')
     else let items = sort_key fst (up_versions u) in
       rbind (update_all now p u (map (\<lambda>(i, item). (event_ids i, item)) (enumerate 0 items)) ws) (\<lambda>ws'.
         Inr (map (\<lambda>(pair_id, _). (pair_id, review_view (review_of pair_id ws'))) items, ws')))"

section \<open>Members\<close>

definition add_member ::
  "recruiter_user list \<Rightarrow> principal \<Rightarrow> string \<Rightarrow> string \<Rightarrow> workspace \<Rightarrow> (string \<times> string) result \<times> workspace" where
  "add_member users p campaign_id username ws =
    (case owned_campaign ws campaign_id p of
       Inl e \<Rightarrow> (Inl e, ws)
     | Inr c \<Rightarrow>
         if c_owner_id c \<noteq> pr_id p \<and> pr_role p \<noteq> ''admin''
         then (Inl (HTTPException 403 ''Only the campaign owner can manage reviewers''), ws)
         else (case find (\<lambda>x. ru_username x = username \<and> ru_is_active x) users of
             None \<Rightarrow> (Inl (HTTPException 404 ''Active reviewer not found''), ws)
           | Some x \<Rightarrow> (Inr (ru_id x, ru_username x),
               if ru_id x \<noteq> c_owner_id c \<and> \<not> is_member campaign_id (ru_id x) ws
               then ws\<lparr>ws_members := ws_members ws @ [\<lparr>mb_campaign = campaign_id, mb_user = ru_id x, mb_username = ru_username x\<rparr>]\<rparr>
               else ws)))"

definition remove_member :: "principal \<Rightarrow> string \<Rightarrow> string \<Rightarrow> workspace \<Rightarrow> unit result \<times> workspace" where
  "remove_member p campaign_id user ws =
    (case owned_campaign ws campaign_id p of
       Inl e \<Rightarrow> (Inl e, ws)
     | Inr c \<Rightarrow>
         if c_owner_id c \<noteq> pr_id p \<and> pr_role p \<noteq> ''admin''
         then (Inl (HTTPException 403 ''Only the campaign owner can manage reviewers''), ws)
         else (Inr (), ws\<lparr>ws_members := filter (\<lambda>m. \<not> (mb_campaign m = campaign_id \<and> mb_user m = user)) (ws_members ws)\<rparr>))"

text \<open>The owner first, then the members; the flag says whether the caller may change them.\<close>

definition campaign_members ::
  "recruiter_user list \<Rightarrow> workspace \<Rightarrow> string \<Rightarrow> principal \<Rightarrow> (bool \<times> (string \<times> string \<times> bool) list) result" where
  "campaign_members users ws campaign_id p = rbind (owned_campaign ws campaign_id p) (\<lambda>c.
     Inr (c_owner_id c = pr_id p \<or> pr_role p = ''admin'',
       (c_owner_id c, (case user_by_id (c_owner_id c) users of None \<Rightarrow> c_owner_id c | Some x \<Rightarrow> ru_username x), True) #
       map (\<lambda>m. (mb_user m, mb_username m, False)) (filter (\<lambda>m. mb_campaign m = campaign_id) (ws_members ws))))"

section \<open>Saved views\<close>

definition list_views :: "principal \<Rightarrow> workspace \<Rightarrow> saved_view list" where
  "list_views p ws = sort_key (\<lambda>v. (sw_name v, sw_id v)) (filter (\<lambda>v. sw_owner v = pr_id p) (ws_views ws))"

definition save_view ::
  "string \<Rightarrow> principal \<Rightarrow> string \<Rightarrow> json \<Rightarrow> string list \<Rightarrow> workspace \<Rightarrow> saved_view result \<times> workspace" where
  "save_view new_id p name filters columns ws =
    (if strip name = [] then (Inl (HTTPException 422 ''Name must not be blank''), ws)
     else let v = \<lparr>sw_id = new_id, sw_owner = pr_id p, sw_name = strip name, sw_filters = filters, sw_columns = columns\<rparr>
       in (Inr v, ws\<lparr>ws_views := ws_views ws @ [v]\<rparr>))"

definition delete_view :: "principal \<Rightarrow> string \<Rightarrow> workspace \<Rightarrow> unit result \<times> workspace" where
  "delete_view p view_id ws =
    (case find (\<lambda>v. sw_id v = view_id) (ws_views ws) of
       None \<Rightarrow> (Inl (HTTPException 404 ''Saved view not found''), ws)
     | Some v \<Rightarrow> if sw_owner v \<noteq> pr_id p then (Inl (HTTPException 404 ''Saved view not found''), ws)
                 else (Inr (), ws\<lparr>ws_views := filter (\<lambda>x. sw_id x \<noteq> view_id) (ws_views ws)\<rparr>))"

section \<open>The original document\<close>

definition candidate_document ::
  "(string \<Rightarrow> string option) \<Rightarrow> workspace \<Rightarrow> string \<Rightarrow> string \<Rightarrow> principal \<Rightarrow> string result" where
  "candidate_document decrypt ws campaign_id candidate_id p = rbind (owned_candidate ws campaign_id candidate_id p) (\<lambda>v.
     case v_encrypted_original_pdf v of
       None \<Rightarrow> Inl (HTTPException 404 ''Original PDF is unavailable; use the extracted CV or restore the matching original'')
     | Some c \<Rightarrow> (case decrypt c of None \<Rightarrow> Inl (HTTPException 503 ''CV document cannot be decrypted'') | Some pdf \<Rightarrow> Inr pdf))"

definition restore_document ::
  "settings \<Rightarrow> (string \<Rightarrow> string) \<Rightarrow> (string \<Rightarrow> string) \<Rightarrow> string \<Rightarrow> string list \<Rightarrow> string \<Rightarrow> string \<Rightarrow> principal \<Rightarrow>
     workspace \<Rightarrow> unit result \<times> workspace" where
  "restore_document cfg sha encrypt content_type chunks campaign_id candidate_id p ws =
    (case owned_candidate ws campaign_id candidate_id p of
       Inl e \<Rightarrow> (Inl e, ws)
     | Inr v \<Rightarrow>
         if hd (split_char CHR '';'' content_type) \<noteq> ''application/pdf''
         then (Inl (HTTPException 415 ''Expected application/pdf''), ws)
         else (case receive_pdf (nat (PDF_MAX_BYTES cfg)) [] chunks of
             None \<Rightarrow> (Inl (HTTPException 413 ''PDF exceeds size limit''), ws)
           | Some data \<Rightarrow>
               if \<not> starts_with ''%PDF-'' data \<or> sha data \<noteq> v_content_hash v
               then (Inl (HTTPException 422 ''This file does not match the candidate's original CV''), ws)
               else (Inr (), ws\<lparr>ws_db := (ws_db ws)\<lparr>cvs := update_where (\<lambda>x. v_id x = v_id v)
                   (\<lambda>x. x\<lparr>v_encrypted_original_pdf := Some (encrypt data)\<rparr>) (cvs (ws_db ws))\<rparr>\<rparr>)))"

section \<open>The audit trail\<close>

text \<open>What the events of a pair recorded, oldest first.\<close>

definition review_log :: "string \<Rightarrow> workspace \<Rightarrow> review_fields list" where
  "review_log i ws = map re_snapshot (filter (\<lambda>e. re_pair e = i) (ws_events ws))"

definition trail_ok :: "string \<Rightarrow> workspace \<Rightarrow> bool" where
  "trail_ok i ws \<longleftrightarrow> map rv_version (review_log i ws) = map int [1..<Suc (length (review_log i ws))] \<and>
     review_view (review_of i ws) = (if review_log i ws = [] then no_review else last (review_log i ws))"

text \<open>A batch of reviews, or any change of the other tables.\<close>

inductive ws_step :: "workspace \<Rightarrow> workspace \<Rightarrow> bool" where
  reviewed: "validate_update raw = Inr u \<Longrightarrow> update_reviews event_ids now p u ws = Inr (shown, ws') \<Longrightarrow> ws_step ws ws'"
| other: "ws_step ws (ws\<lparr>ws_db := d, ws_members := m, ws_views := v\<rparr>)"

inductive_cases ws_stepE: "ws_step ws ws'"

lemma review_of_put: "review_of i (put_review r ws) = (if i = rv_pair r then Some r else review_of i ws)"
proof (cases "review_of (rv_pair r) ws")
  case None
  then show ?thesis by (auto simp: put_review_def review_of_def find_append split: option.split)
next
  case (Some x)
  have "find (\<lambda>x. rv_pair x = i) (update_where (\<lambda>x. rv_pair x = rv_pair r) (\<lambda>_. r) xs) =
      (if i = rv_pair r then (case find (\<lambda>x. rv_pair x = i) xs of None \<Rightarrow> None | Some _ \<Rightarrow> Some r)
       else find (\<lambda>x. rv_pair x = i) xs)" for xs
    by (induction xs) auto
  then show ?thesis using Some by (simp add: put_review_def review_of_def)
qed

lemma review_of_other [simp]:
  "review_of i (ws\<lparr>ws_events := es\<rparr>) = review_of i ws"
  "review_of i (ws\<lparr>ws_db := d, ws_members := m, ws_views := v\<rparr>) = review_of i ws"
  by (simp_all add: review_of_def)

lemma put_review_events [simp]: "ws_events (put_review r ws) = ws_events ws"
  by (simp add: put_review_def)

lemma review_log_other [simp]: "review_log i (ws\<lparr>ws_db := d, ws_members := m, ws_views := v\<rparr>) = review_log i ws"
  by (simp add: review_log_def)

lemma version_of_view: "version_of r = rv_version (review_view r)"
  by (simp add: version_of_def review_view_def no_review_def review_fields.defs split: option.split)

text \<open>In a sound trail the version of a review is the number of its events.\<close>

lemma trail_version:
  assumes "trail_ok i ws"
  shows "version_of (review_of i ws) = int (length (review_log i ws))"
proof (cases "review_log i ws = []")
  case True
  then show ?thesis using assms by (simp add: trail_ok_def version_of_view no_review_def)
next
  case False
  then have "rv_version (last (review_log i ws)) = last (map rv_version (review_log i ws))" by (simp add: last_map)
  also have "\<dots> = int (length (review_log i ws))" using assms False by (simp add: trail_ok_def Suc_le_eq)
  finally show ?thesis using assms False by (simp add: trail_ok_def version_of_view)
qed

text \<open>One item of a batch: its pair gets the next version and an event that records it.\<close>

lemma update_one_Inr:
  assumes "update_one now p u (event_id, pair_id, expected) ws = Inr ws'"
  obtains r where "rv_pair r = pair_id" "version_of (review_of pair_id ws) = expected" "rv_version r = expected + 1"
    "\<And>i. review_of i ws' = (if i = pair_id then Some r else review_of i ws)"
    "\<And>i. review_log i ws' = review_log i ws @ (if i = pair_id then [review_fields.truncate r] else [])"
proof -
  obtain pair where pair: "owned_pair ws pair_id p = Inr pair"
    and rest: "update_one now p u (event_id, pair_id, expected) ws = Inr ws'"
    using assms by (auto simp: update_one_def rbind_Inr_conv)
  have id: "p_id pair = pair_id"
    using pair by (auto simp: owned_pair_def rbind_Inr_conv find_Some_iff split: option.splits)
  let ?base = "case review_of pair_id ws of None \<Rightarrow> fresh_review pair_id | Some x \<Rightarrow> x"
  let ?r = "apply_update now p u ?base"
  have same: "rv_pair ?base = pair_id"
    by (auto simp: fresh_review_def review_fields.defs review_of_def find_Some_iff split: option.split)
  have version: "version_of (review_of pair_id ws) = rv_version ?base"
    by (simp add: version_of_def fresh_review_def no_review_def review_fields.defs split: option.split)
  have e: "version_of (review_of pair_id ws) = expected"
    and ws': "ws' = (put_review ?r ws)\<lparr>ws_events := ws_events ws @ [\<lparr>re_id = event_id, re_pair = pair_id, re_actor = pr_id p,
      re_snapshot = review_fields.truncate ?r, re_at = now\<rparr>]\<rparr>"
    using rest pair by (auto simp: update_one_def id Let_def split: if_splits cong: option.case_cong)
  have "rv_pair ?r = pair_id" using same by (simp add: apply_update_def)
  then show ?thesis
    using that [of ?r] e version by (simp add: apply_update_def ws' review_of_put review_log_def)
qed

lemma update_one_trail:
  assumes "update_one now p u (event_id, pair_id, expected) ws = Inr ws'" "trail_ok i ws"
  shows "trail_ok i ws'"
proof -
  obtain r where r: "rv_pair r = pair_id" "version_of (review_of pair_id ws) = expected" "rv_version r = expected + 1"
    "\<And>i. review_of i ws' = (if i = pair_id then Some r else review_of i ws)"
    "\<And>i. review_log i ws' = review_log i ws @ (if i = pair_id then [review_fields.truncate r] else [])"
    using update_one_Inr [OF assms(1)] by metis
  show ?thesis
  proof (cases "i = pair_id")
    case True
    then have "rv_version r = int (length (review_log i ws)) + 1" using r(2,3) trail_version [OF assms(2)] by simp
    then show ?thesis
      using assms(2) True r(4,5) by (simp add: trail_ok_def review_view_def review_fields.defs)
  qed (use assms(2) r(4,5) in \<open>simp add: trail_ok_def\<close>)
qed

lemma update_all_trail: "update_all now p u items ws = Inr ws' \<Longrightarrow> trail_ok i ws \<Longrightarrow> trail_ok i ws'"
proof (induction items arbitrary: ws)
  case (Cons item items)
  then obtain ws1 where "update_one now p u item ws = Inr ws1" "update_all now p u items ws1 = Inr ws'"
    by (auto simp: rbind_Inr_conv)
  then show ?case using Cons.IH Cons.prems(2) update_one_trail by (cases item) blast
qed simp

text \<open>A batch adds one event to each pair it names and none to the others.\<close>

lemma update_all_counts:
  assumes "update_all now p u items ws = Inr ws'" "distinct (map (\<lambda>(_, pair_id, _). pair_id) items)"
  shows "length (review_log i ws') = length (review_log i ws) + (if i \<in> (\<lambda>(_, pair_id, _). pair_id) ` set items then 1 else 0)"
    "(e, i, n) \<in> set items \<Longrightarrow> version_of (review_of i ws) = n"
proof -
  have "length (review_log i ws') = length (review_log i ws) + (if i \<in> (\<lambda>(_, pair_id, _). pair_id) ` set items then 1 else 0) \<and>
      ((e, i, n) \<in> set items \<longrightarrow> version_of (review_of i ws) = n)"
    using assms
  proof (induction items arbitrary: ws)
    case (Cons item items)
    obtain event_id pair_id expected where item: "item = (event_id, pair_id, expected)" by (cases item)
    obtain ws1 where step: "update_one now p u (event_id, pair_id, expected) ws = Inr ws1" "update_all now p u items ws1 = Inr ws'"
      using Cons.prems(1) item by (auto simp: rbind_Inr_conv)
    obtain r where r: "version_of (review_of pair_id ws) = expected"
      "\<And>i. review_of i ws1 = (if i = pair_id then Some r else review_of i ws)"
      "\<And>i. review_log i ws1 = review_log i ws @ (if i = pair_id then [review_fields.truncate r] else [])"
      using update_one_Inr [OF step(1)] by metis
    have new: "pair_id \<notin> (\<lambda>(_, pair_id, _). pair_id) ` set items" using Cons.prems(2) item by simp
    have ih: "length (review_log i ws') = length (review_log i ws1) + (if i \<in> (\<lambda>(_, pair_id, _). pair_id) ` set items then 1 else 0) \<and>
        ((e, i, n) \<in> set items \<longrightarrow> version_of (review_of i ws1) = n)"
      using Cons.IH [OF step(2)] Cons.prems(2) by simp
    show ?case
    proof (cases "i = pair_id")
      case True
      then have "(e, i, n) \<notin> set items" using new by force
      then show ?thesis using True ih new r(1,3) item by auto
    qed (use ih r(2,3) item in auto)
  qed simp
  then show "length (review_log i ws') = length (review_log i ws) + (if i \<in> (\<lambda>(_, pair_id, _). pair_id) ` set items then 1 else 0)"
    "(e, i, n) \<in> set items \<Longrightarrow> version_of (review_of i ws) = n" by blast+
qed

lemma validated_versions: "validate_update raw = Inr u \<Longrightarrow> distinct (map fst (up_versions u))"
  by (auto simp: validate_update_def versions_valid_def rbind_Inr_conv split: if_splits option.splits)

lemma batch_items:
  fixes vs :: "(string \<times> int) list" and f :: "nat \<Rightarrow> string"
  assumes "distinct (map fst vs)"
  shows "distinct (map (\<lambda>(_, pair_id, _). pair_id) (map (\<lambda>(i, item). (f i, item)) (enumerate 0 (sort_key fst vs))))"
    "(\<lambda>(_, pair_id, _). pair_id) ` set (map (\<lambda>(i, item). (f i, item)) (enumerate 0 (sort_key fst vs))) = fst ` set vs"
    "(i, n) \<in> set vs \<Longrightarrow> \<exists>e. (e, i, n) \<in> set (map (\<lambda>(i, item). (f i, item)) (enumerate 0 (sort_key fst vs)))"
proof -
  let ?items = "map (\<lambda>(i, item). (f i, item)) (enumerate 0 (sort_key fst vs))"
  have pairs: "map snd ?items = sort_key fst vs"
    using map_snd_enumerate [of 0 "sort_key fst vs"] by (simp add: comp_def split_def)
  have keys: "map (\<lambda>(_, pair_id, _). pair_id) xs = map fst (map snd xs)" for xs :: "(string \<times> string \<times> int) list"
    by (induction xs) auto
  have "distinct (map fst (sort_key fst vs))"
    using assms by (simp add: distinct_map)
  then show "distinct (map (\<lambda>(_, pair_id, _). pair_id) ?items)" unfolding keys pairs .
  have "(\<lambda>(_, pair_id, _). pair_id) ` set ?items = set (map (\<lambda>(_, pair_id, _). pair_id) ?items)" by (rule set_map [symmetric])
  also have "\<dots> = fst ` set vs" unfolding keys pairs by simp
  finally show "(\<lambda>(_, pair_id, _). pair_id) ` set ?items = fst ` set vs" .
  assume "(i, n) \<in> set vs"
  then have "(i, n) \<in> set (map snd ?items)" unfolding pairs by simp
  then show "\<exists>e. (e, i, n) \<in> set ?items" by (force simp del: map_map)
qed

lemma update_reviews_counts:
  assumes "validate_update raw = Inr u" "update_reviews event_ids now p u ws = Inr (shown, ws')"
  shows "length (review_log i ws') = length (review_log i ws) + (if i \<in> fst ` set (up_versions u) then 1 else 0)"
    "(i, n) \<in> set (up_versions u) \<Longrightarrow> version_of (review_of i ws) = n"
    "trail_ok j ws \<Longrightarrow> trail_ok j ws'"
proof -
  let ?items = "map (\<lambda>(i, item). (event_ids i, item)) (enumerate 0 (sort_key fst (up_versions u)))"
  have run: "update_all now p u ?items ws = Inr ws'"
    using assms(2) by (auto simp: update_reviews_def Let_def rbind_Inr_conv split: if_splits)
  note items = batch_items [OF validated_versions [OF assms(1)], where f = event_ids]
  show "length (review_log i ws') = length (review_log i ws) + (if i \<in> fst ` set (up_versions u) then 1 else 0)"
    using update_all_counts(1) [OF run items(1), of i] items(2) by simp
  show "version_of (review_of i ws) = n" if "(i, n) \<in> set (up_versions u)"
    using update_all_counts(2) [OF run items(1)] items(3) [OF that] by blast
  show "trail_ok j ws \<Longrightarrow> trail_ok j ws'" by (rule update_all_trail [OF run])
qed

lemma step_trail: "ws_step ws ws' \<Longrightarrow> trail_ok i ws \<Longrightarrow> trail_ok i ws'"
  by (erule ws_stepE) (auto simp: trail_ok_def dest: update_reviews_counts(3))

lemma step_events: "ws_step ws ws' \<Longrightarrow> length (review_log i ws) \<le> length (review_log i ws')"
  by (erule ws_stepE) (auto dest: update_reviews_counts(1) [where i = i])

lemma steps_trail: "ws_step\<^sup>*\<^sup>* ws ws' \<Longrightarrow> trail_ok i ws \<Longrightarrow> trail_ok i ws'"
  by (induction rule: rtranclp_induct) (auto intro: step_trail)

lemma steps_events: "ws_step\<^sup>*\<^sup>* ws ws' \<Longrightarrow> length (review_log i ws) \<le> length (review_log i ws')"
  by (induction rule: rtranclp_induct) (auto intro: order_trans step_events)

lemma empty_trail: "ws_reviews ws = [] \<Longrightarrow> ws_events ws = [] \<Longrightarrow> trail_ok i ws"
  by (simp add: trail_ok_def review_log_def review_of_def review_view_def)

text \<open>Of two decisions on a pair the later one has seen the earlier one: its expected version is greater.\<close>

lemma later_review_seen:
  assumes "trail_ok i ws" "validate_update raw = Inr u" "update_reviews ids now p u ws = Inr (shown, ws1)"
    "(i, n) \<in> set (up_versions u)" "ws_step\<^sup>*\<^sup>* ws1 ws2" "validate_update raw' = Inr u'"
    "update_reviews ids' now' p' u' ws2 = Inr (shown', ws3)" "(i, m) \<in> set (up_versions u')"
  shows "n < m" "trail_ok i ws3"
proof -
  have "n = int (length (review_log i ws))" "length (review_log i ws1) = length (review_log i ws) + 1"
    using update_reviews_counts(1,2) [OF assms(2,3)] assms(4) trail_version [OF assms(1)] by force+
  moreover have "trail_ok i ws2"
    by (rule steps_trail [OF assms(5)], rule update_reviews_counts(3) [OF assms(2,3,1)])
  moreover from this have "m = int (length (review_log i ws2))"
    using update_reviews_counts(2) [OF assms(6-8)] trail_version by fastforce
  ultimately show "n < m" "trail_ok i ws3"
    using steps_events [OF assms(5), of i] update_reviews_counts(3) [OF assms(6,7)] by auto
qed

section \<open>Access and documents\<close>

text \<open>A campaign is open to its owner, to administrators and to its members, and to nobody else.\<close>

lemma owned_iff:
  "owned_campaign ws campaign_id p = Inr c \<longleftrightarrow> campaign_by_id campaign_id (ws_db ws) = Some c \<and>
     (pr_role p = ''admin'' \<or> c_owner_id c = pr_id p \<or> is_member campaign_id (pr_id p) ws)"
  by (auto simp: owned_campaign_def can_access_def split: option.splits)

lemma removed_member_shut_out:
  assumes "remove_member q campaign_id (pr_id p) ws = (Inr (), ws')" "campaign_by_id campaign_id (ws_db ws) = Some c"
    "pr_role p \<noteq> ''admin''" "c_owner_id c \<noteq> pr_id p"
  shows "owned_campaign ws' campaign_id p = Inl (HTTPException 404 ''Campaign not found'')"
proof -
  have "campaign_by_id campaign_id (ws_db ws') = Some c" "\<not> is_member campaign_id (pr_id p) ws'"
    using assms(1,2) by (auto simp: remove_member_def campaign_by_id_def is_member_def list_ex_iff split: sum.splits if_splits)
  then show ?thesis using assms(3,4) by (simp add: owned_campaign_def can_access_def)
qed

text \<open>A restored document is the one the CV was created from, and can be read back.\<close>

lemma restored_document:
  assumes "restore_document cfg sha encrypt content_type chunks campaign_id candidate_id p ws = (Inr (), ws')"
  shows "\<exists>v data. owned_candidate ws campaign_id candidate_id p = Inr v \<and> sha data = v_content_hash v \<and>
    (\<exists>w \<in> set (cvs (ws_db ws')). v_id w = v_id v \<and> v_encrypted_original_pdf w = Some (encrypt data))"
proof -
  obtain v data where v: "owned_candidate ws campaign_id candidate_id p = Inr v" "sha data = v_content_hash v"
    "ws' = ws\<lparr>ws_db := (ws_db ws)\<lparr>cvs := update_where (\<lambda>x. v_id x = v_id v)
       (\<lambda>x. x\<lparr>v_encrypted_original_pdf := Some (encrypt data)\<rparr>) (cvs (ws_db ws))\<rparr>\<rparr>"
    using assms by (auto simp: restore_document_def split: sum.splits option.splits if_splits)
  have "v \<in> set (cvs (ws_db ws))"
    using v(1) by (auto simp: owned_candidate_def rbind_Inr_conv find_Some_iff in_set_conv_nth split: option.splits)
  then have "v\<lparr>v_encrypted_original_pdf := Some (encrypt data)\<rparr> \<in> set (cvs (ws_db ws'))"
    using in_update_whereI [of v _ "\<lambda>x. v_id x = v_id v"] by (fastforce simp: v(3))
  then show ?thesis using v(1,2)
    by (intro exI [of _ v] exI [of _ data] conjI bexI [of _ "v\<lparr>v_encrypted_original_pdf := Some (encrypt data)\<rparr>"]) simp_all
qed

end
