(* ===== verification/Recruiter_Pool.thy ===== *)
theory Recruiter_Pool
  imports Recruiter_Reviews Recovery
begin

text \<open>
  The candidate pool of a role (\<open>app/campaigns/recruiter.py\<close> and the pool endpoints of
  \<open>app/api/recruiter.py\<close>): the row a recruiter sees of a pair, with the facts the recruiter verified, the
  filters, the order of the rows, the counts over them and the cells of the export. How Python prints a
  value or a time is a parameter.
\<close>

section \<open>Filters\<close>

record pool_filters =
  pf_search :: string
  pf_status :: string
  pf_decision :: "review_decision option"
  pf_min_score :: "rat option"
  pf_max_score :: "rat option"
  pf_category :: string
  pf_min_category_score :: "rat option"
  pf_min_years :: "rat option"
  pf_max_years :: "rat option"
  pf_experience_unknown :: bool
  pf_eligibility_rule :: string
  pf_eligibility_status :: string
  pf_requirement_ids :: "string list"
  pf_requirement_status :: string
  pf_requirement_all :: bool
  pf_review_only :: bool
  pf_reason :: string
  pf_tag :: string
  pf_assignee :: string
  pf_reviewer :: string
  pf_reviewed_after :: string
  pf_sort :: string
  pf_descending :: bool

definition default_filters :: pool_filters where
  "default_filters = \<lparr>pf_search = [], pf_status = [], pf_decision = None, pf_min_score = None, pf_max_score = None,
     pf_category = [], pf_min_category_score = None, pf_min_years = None, pf_max_years = None,
     pf_experience_unknown = False, pf_eligibility_rule = [], pf_eligibility_status = [], pf_requirement_ids = [],
     pf_requirement_status = ''DIRECT'', pf_requirement_all = True, pf_review_only = False, pf_reason = [], pf_tag = [],
     pf_assignee = [], pf_reviewer = [], pf_reviewed_after = [], pf_sort = ''score'', pf_descending = True\<rparr>"

definition reversed_range :: "rat option \<Rightarrow> rat option \<Rightarrow> bool" where
  "reversed_range low high = (case (low, high) of (Some x, Some y) \<Rightarrow> y < x | _ \<Rightarrow> False)"

definition valid_ranges :: "pool_filters \<Rightarrow> pool_filters result" where
  "valid_ranges f =
    (if reversed_range (pf_min_score f) (pf_max_score f) \<or> reversed_range (pf_min_years f) (pf_max_years f)
     then Inl (ValueError ''Minimum must not exceed maximum'')
     else if pf_min_category_score f \<noteq> None \<and> pf_category f = []
     then Inl (ValueError ''Choose a category for the category score filter'')
     else Inr f)"

section \<open>The stages of a candidate\<close>

text \<open>Stage, state and reason.\<close>

definition stage0_value :: "stage0_status \<Rightarrow> string" where
  "stage0_value s = (case s of S0_PENDING \<Rightarrow> ''PENDING'' | S0_RUNNING \<Rightarrow> ''RUNNING'' | S0_SUCCEEDED \<Rightarrow> ''SUCCEEDED''
     | S0_FAILED \<Rightarrow> ''FAILED'')"

definition snapshot_part :: "pair \<Rightarrow> string \<Rightarrow> json" where
  "snapshot_part p key = (case p_result_snapshot p of None \<Rightarrow> JNull | Some d \<Rightarrow> dget d key JNull)"

definition details_part :: "pair \<Rightarrow> string \<Rightarrow> json" where
  "details_part p key = (case p_stage1_details p of None \<Rightarrow> JNull | Some d \<Rightarrow> dget d key JNull)"

definition str_or :: "string option \<Rightarrow> string \<Rightarrow> string" where
  "str_or s t = (case s of None \<Rightarrow> t | Some [] \<Rightarrow> t | Some (c # cs) \<Rightarrow> c # cs)"

definition matching_state :: "pair \<Rightarrow> bool \<Rightarrow> bool \<Rightarrow> string" where
  "matching_state p s2 matched_only =
    (let screened = p_stage1_decision p \<in> {Some ''PASS'', Some ''REVIEW''} in
     if matched_only then ''REVIEW_REQUIRED'' else if s2 then ''COMPLETED''
     else if p_status p = PROCESSING_FAILED \<and> screened then ''FAILED''
     else if screened \<and> p_status p = RUNNING then ''IN_PROGRESS'' else ''NOT_REACHED'')"

definition assessment_state :: "pair \<Rightarrow> json \<Rightarrow> bool \<Rightarrow> string" where
  "assessment_state p s3 matched_only =
    (let status = dget (as_dict s3) ''evaluation_status'' JNull in
     if truthy status then str_of status
     else str_or (p_stage3_status p)
       (if matched_only then ''NOT_REACHED'' else if p_status p = CUTOFF_EXCLUDED then ''NOT_SELECTED''
        else if p_status p = STAGE3_RUNNING then ''IN_PROGRESS'' else if p_status p = SHORTLISTED then ''QUEUED''
        else ''NOT_REACHED''))"

definition stage_history :: "pair \<Rightarrow> cv \<Rightarrow> (string \<times> string \<times> string option) list" where
  "stage_history p v =
    (let s2 = truthy (snapshot_part p ''stage2_evidence''); s3 = snapshot_part p ''stage3_evaluation'';
         matched_only = (p_status p = REVIEW_REQUIRED \<and> \<not> truthy s3 \<and> s2)
     in [(''CV extraction'', if v_stage0_status v = S0_RUNNING then ''IN_PROGRESS'' else stage0_value (v_stage0_status v),
          v_extraction_error_code v),
         (''Eligibility checks'', str_or (p_stage1_decision p)
            (if v_stage0_status v = S0_SUCCEEDED \<and> p_status p = RUNNING then ''IN_PROGRESS'' else ''NOT_REACHED''),
          Some (join_with ''; '' (map (\<lambda>c. str_of (dget (as_dict c) ''message'' (JStr [])))
            (filter (\<lambda>c. dget (as_dict c) ''status'' JNull \<noteq> JStr ''PASS'') (as_list (details_part p ''checks'')))))),
         (''Job requirement matching'', matching_state p s2 matched_only,
          if matched_only \<or> p_status p = PROCESSING_FAILED then p_failure_code p else None),
         (''Detailed assessment'', assessment_state p s3 matched_only,
          if p_status p = CUTOFF_EXCLUDED then Some ''Outside this role's detailed assessment limit; not a recruiter rejection.''
          else if p_status p = EVALUATION_FAILED then p_failure_code p else None)])"

section \<open>The row of a candidate\<close>

record pool_row =
  pw_candidate :: string
  pw_file :: string
  pw_status :: pair_status
  pw_score :: "rat option"
  pw_categories :: pydict
  pw_years :: "rat option"
  pw_targets :: "pydict list"
  pw_checks :: "pydict list"
  pw_stage1_checks :: "pydict list"
  pw_verification_required :: bool
  pw_verification_reasons :: "json list"
  pw_original_reasons :: "json list"
  pw_provisional :: bool
  pw_review_reasons :: "json list"
  pw_flags :: "json list"
  pw_failure :: "string option"
  pw_summary :: string
  pw_review :: review_fields
  pw_updated :: int
  pw_history :: "(string \<times> string \<times> string option) list"

definition number_of :: "json \<Rightarrow> rat option" where
  "number_of v = (case v of JNum x \<Rightarrow> Some x | _ \<Rightarrow> None)"

text \<open>A missing requirement is shown under one name.\<close>

definition shown_target :: "pydict \<Rightarrow> pydict" where
  "shown_target t = (if dget t ''status'' JNull = JStr ''MISSING_INFORMATION'' then dset ''status'' (JStr ''MISSING'') t
     else dset ''status'' (dget t ''status'' JNull) t)"

definition no_facts :: verified_facts where
  "no_facts = \<lparr>vf_years = None, vf_authorized = ''unknown'', vf_education = None\<rparr>"

text \<open>What a verified fact decides about a check: \<open>None\<close> leaves it as the screening found it.\<close>

definition verified_status :: "verified_facts \<Rightarrow> pydict \<Rightarrow> pydict \<Rightarrow> bool option" where
  "verified_status facts rules check =
    (if dget check ''rule'' JNull = JStr ''authorization'' \<and> truthy (dget rules ''require_work_authorization'' (JBool True)) \<and>
        vf_authorized facts \<in> {''eligible'', ''ineligible''}
     then Some (vf_authorized facts = ''eligible'')
     else if dget check ''rule'' JNull = JStr ''experience'' \<and> vf_years facts \<noteq> None
     then Some (num_of (dget rules ''min_years_experience'' (JNum 0)) \<le> the (vf_years facts))
     else if dget check ''rule'' JNull = JStr ''education'' \<and> vf_education facts \<noteq> None
     then vf_education facts
     else None)"

definition effective_check :: "verified_facts \<Rightarrow> pydict \<Rightarrow> pydict \<Rightarrow> pydict" where
  "effective_check facts rules check = (case verified_status facts rules check of
     None \<Rightarrow> check
   | Some ok \<Rightarrow> dmerge check [(''status'', JStr (if ok then ''PASS'' else ''FAIL'')), (''source'', JStr ''recruiter_verified''),
       (''message'', JStr ''Recruiter-verified fact; the original screening assessment is retained.'')])"

definition confirmed_rules :: "pydict list \<Rightarrow> json list" where
  "confirmed_rules checks = map (\<lambda>c. dget c ''rule'' JNull) (filter (\<lambda>c.
     dget c ''source'' JNull = JStr ''recruiter_verified'' \<and> dget c ''status'' JNull = JStr ''PASS'') checks)"

definition still_open :: "json list \<Rightarrow> json \<Rightarrow> bool" where
  "still_open confirmed reason = (case reason of JDict d \<Rightarrow> dget d ''rule'' JNull \<notin> set confirmed | _ \<Rightarrow> True)"

definition review_reasons :: "pair \<Rightarrow> pydict \<Rightarrow> json list" where
  "review_reasons p evaluation =
    (let given = as_list (dget evaluation ''review_reasons'' (JList [])) in
     if given \<noteq> [] then given
     else if p_status p = REVIEW_REQUIRED \<and> nonempty (p_failure_code p) then [JStr (the (p_failure_code p))] else [])"

definition candidate_view :: "pair \<Rightarrow> cv \<Rightarrow> jd \<Rightarrow> review option \<Rightarrow> pool_row" where
  "candidate_view p v j review =
    (let evaluation = as_dict (snapshot_part p ''stage3_evaluation'');
         raw = as_dict (dget evaluation ''llm_raw_output'' JNull);
         metrics = as_dict (details_part p ''metrics'');
         facts = (case review of None \<Rightarrow> no_facts | Some r \<Rightarrow> (case rv_facts r of None \<Rightarrow> no_facts | Some f \<Rightarrow> f));
         stage1_checks = map as_dict (as_list (details_part p ''checks''));
         checks = map (effective_check facts (as_dict (dget (j_job_snapshot j) ''hard_filter_rules'' (JDict [])))) stage1_checks;
         confirmed = confirmed_rules checks;
         reasons = filter (still_open confirmed) (p_verification_reasons p);
         required = (if confirmed \<noteq> [] then reasons \<noteq> [] else p_verification_required p)
     in \<lparr>pw_candidate = v_candidate_id v, pw_file = v_source_filename v, pw_status = p_status p,
         pw_score = p_composite_score p, pw_categories = as_dict (dget evaluation ''category_scores'' (JDict [])),
         pw_years = (case vf_years facts of Some y \<Rightarrow> Some y | None \<Rightarrow> number_of (dget metrics ''candidate_yoe'' JNull)),
         pw_targets = map (shown_target \<circ> as_dict)
           (as_list (dget (as_dict (snapshot_part p ''stage2_evidence'')) ''target_assessments'' (JList []))),
         pw_checks = checks, pw_stage1_checks = stage1_checks, pw_verification_required = required,
         pw_verification_reasons = reasons, pw_original_reasons = p_verification_reasons p,
         pw_provisional = (p_status p = SUCCESS \<and> required), pw_review_reasons = review_reasons p evaluation,
         pw_flags = as_list (dget raw ''flags'' (JList [])), pw_failure = p_failure_code p,
         pw_summary = str_of (dget raw ''executive_summary'' (JStr [])), pw_review = review_view review,
         pw_updated = p_updated_at p, pw_history = stage_history p v\<rparr>)"

section \<open>Which rows are shown\<close>

record py_texts =
  pt_str :: "json \<Rightarrow> string"
  pt_time :: "int \<Rightarrow> string"

definition outside :: "rat option \<Rightarrow> rat option \<Rightarrow> rat option \<Rightarrow> bool" where
  "outside value low high \<longleftrightarrow> (low \<noteq> None \<or> high \<noteq> None) \<and> (case value of
     None \<Rightarrow> True
   | Some x \<Rightarrow> (case low of None \<Rightarrow> False | Some l \<Rightarrow> x < l) \<or> (case high of None \<Rightarrow> False | Some h \<Rightarrow> h < x))"

definition category_score_of :: "pool_row \<Rightarrow> string \<Rightarrow> rat option" where
  "category_score_of row key = number_of (dget (pw_categories row) key JNull)"

definition requirement_state :: "pydict option \<Rightarrow> string" where
  "requirement_state t = (case t of None \<Rightarrow> ''UNASSESSED'' | Some d \<Rightarrow> str_of (dget d ''status'' (JStr ''MISSING'')))"

definition target_of :: "pool_row \<Rightarrow> string \<Rightarrow> pydict option" where
  "target_of row key = find (\<lambda>t. dget t ''target_id'' JNull = JStr key) (rev (pw_targets row))"

definition requirements_met :: "pool_row \<Rightarrow> pool_filters \<Rightarrow> bool" where
  "requirements_met row f \<longleftrightarrow> pf_requirement_ids f = [] \<or>
     (let selected = map (\<lambda>key. requirement_state (target_of row key) = pf_requirement_status f) (pf_requirement_ids f)
      in if pf_requirement_all f then list_all id selected else list_ex id selected)"

definition eligibility_met :: "pool_row \<Rightarrow> pool_filters \<Rightarrow> bool" where
  "eligibility_met row f \<longleftrightarrow> (pf_eligibility_rule f = [] \<and> pf_eligibility_status f = []) \<or>
     list_ex (\<lambda>c. (pf_eligibility_rule f = [] \<or> dget c ''rule'' JNull = JStr (pf_eligibility_rule f)) \<and>
       (pf_eligibility_status f = [] \<or> dget c ''status'' JNull = JStr (pf_eligibility_status f))) (pw_checks row)"

definition reason_text :: "py_texts \<Rightarrow> pool_row \<Rightarrow> string" where
  "reason_text pt row = join_with '' '' (map (pt_str pt)
     (pw_review_reasons row @ pw_verification_reasons row @ pw_flags row @ map JDict (pw_stage1_checks row))) @
     '' '' @ str_or (pw_failure row) []"

definition matches_row :: "py_texts \<Rightarrow> pool_row \<Rightarrow> pool_filters \<Rightarrow> string \<Rightarrow> bool" where
  "matches_row pt row f searchable \<longleftrightarrow>
     contains (lower (strip (pf_search f))) (lower searchable) \<and>
     (pf_status f = [] \<or> pair_status_value (pw_status row) = pf_status f) \<and>
     (pf_decision f = None \<or> pf_decision f = Some (rv_decision (pw_review row))) \<and>
     \<not> outside (pw_score row) (pf_min_score f) (pf_max_score f) \<and>
     \<not> outside (pw_years row) (pf_min_years f) (pf_max_years f) \<and>
     (pf_experience_unknown f \<longrightarrow> pw_years row = None) \<and>
     (case pf_min_category_score f of None \<Rightarrow> True
      | Some low \<Rightarrow> (case category_score_of row (pf_category f) of None \<Rightarrow> False | Some x \<Rightarrow> low \<le> x)) \<and>
     eligibility_met row f \<and> requirements_met row f \<and>
     (pf_review_only f \<longrightarrow> pw_verification_required row \<or> pw_status row = REVIEW_REQUIRED) \<and>
     (pf_reason f = [] \<or> contains (lower (pf_reason f)) (lower (reason_text pt row))) \<and>
     (pf_tag f = [] \<or> lower (pf_tag f) \<in> set (map lower (rv_tags (pw_review row)))) \<and>
     (pf_assignee f = [] \<or> rv_assignee (pw_review row) = Some (pf_assignee f)) \<and>
     (pf_reviewer f = [] \<or> rv_reviewer (pw_review row) = Some (pf_reviewer f)) \<and>
     (pf_reviewed_after f = [] \<or> (case rv_updated (pw_review row) of None \<Rightarrow> False
        | Some t \<Rightarrow> \<not> take 10 (pt_time pt t) < pf_reviewed_after f))"

section \<open>The order of the rows\<close>

text \<open>The key a row is sorted by; numbers and texts never meet under one \<open>sort\<close>.\<close>

definition sort_value :: "py_texts \<Rightarrow> pool_filters \<Rightarrow> pool_row \<Rightarrow> (rat \<times> string) option" where
  "sort_value pt f row =
    (if pf_sort f = ''name'' then Some (0, lower (pw_file row))
     else if pf_sort f = ''updated'' then Some (0, pt_time pt (case rv_updated (pw_review row) of None \<Rightarrow> pw_updated row | Some t \<Rightarrow> t))
     else if pf_sort f = ''experience'' then map_option (\<lambda>x. (x, [])) (pw_years row)
     else if pf_sort f = ''score'' then map_option (\<lambda>x. (x, [])) (pw_score row)
     else map_option (\<lambda>x. (x, [])) (category_score_of row (pf_sort f)))"

text \<open>\<open>list.sort(key=..., reverse=...)\<close> is stable in both directions.\<close>

definition py_sort :: "('a \<Rightarrow> 'k :: linorder) \<Rightarrow> bool \<Rightarrow> 'a list \<Rightarrow> 'a list" where
  "py_sort key reverse xs = (if reverse then rev (sort_key key (rev xs)) else sort_key key xs)"

definition sorted_pool :: "py_texts \<Rightarrow> pool_filters \<Rightarrow> pool_row list \<Rightarrow> pool_row list" where
  "sorted_pool pt f rows =
    (let known = filter (\<lambda>r. sort_value pt f r \<noteq> None) rows; unknown = filter (\<lambda>r. sort_value pt f r = None) rows
     in py_sort (\<lambda>r. the (sort_value pt f r)) (pf_descending f) (py_sort pw_candidate False known) @
        py_sort pw_candidate False unknown)"

section \<open>Counts\<close>

record pool_analytics =
  an_total :: nat
  an_assessed :: nat
  an_status :: "(pair_status \<times> nat) list"
  an_review_needed :: nat
  an_shortlisted :: nat
  an_decisions :: "(review_decision \<times> nat) list"
  an_distribution :: "nat list"
  an_requirements :: "(pydict \<times> (string \<times> nat) list) list"

definition score_bands :: "(rat \<times> rat) list" where
  "score_bands = [(0, 55), (55, 75), (75, 101)]"

definition in_band :: "rat \<times> rat \<Rightarrow> pool_row \<Rightarrow> bool" where
  "in_band band row = (case pw_score row of None \<Rightarrow> False | Some x \<Rightarrow> fst band \<le> x \<and> x < snd band)"

definition job_targets :: "jd \<Rightarrow> pydict list" where
  "job_targets j = map as_dict (as_list (dget (as_dict (dget (j_job_snapshot j) ''relevance_contract'' (JDict []))) ''targets'' (JList [])))"

text \<open>The first assessment of the target, where the filter takes the last one.\<close>

definition first_target :: "pool_row \<Rightarrow> json \<Rightarrow> pydict option" where
  "first_target row key = find (\<lambda>t. dget t ''target_id'' JNull = key) (pw_targets row)"

definition analytics :: "pool_row list \<Rightarrow> jd \<Rightarrow> pool_analytics" where
  "analytics rows j = \<lparr>an_total = length rows,
     an_assessed = count_where (\<lambda>r. pw_score r \<noteq> None) rows,
     an_status = group_counts pw_status rows,
     an_review_needed = count_where (\<lambda>r. pw_verification_required r \<or> pw_status r = REVIEW_REQUIRED) rows,
     an_shortlisted = count_where (\<lambda>r. rv_decision (pw_review r) = Shortlist) rows,
     an_decisions = group_counts (\<lambda>r. rv_decision (pw_review r)) rows,
     an_distribution = map (\<lambda>band. count_where (in_band band) rows) score_bands,
     an_requirements = map (\<lambda>t. (filter (\<lambda>(k, _). k \<in> {''target_id'', ''text'', ''treatment''}) t,
       group_counts (\<lambda>r. requirement_state (first_target r (dget t ''target_id'' JNull))) rows)) (job_targets j)\<rparr>"

section \<open>The pool endpoint\<close>

definition icontains :: "string \<Rightarrow> string \<Rightarrow> bool" where
  "icontains s term = contains (lower term) (lower s)"

text \<open>\<open>role_rows\<close>: the joined rows of a role, each with whether it contains the search text.\<close>

definition role_rows :: "workspace \<Rightarrow> string \<Rightarrow> string \<Rightarrow> string \<Rightarrow> (pair \<times> cv \<times> jd \<times> review option \<times> bool) list" where
  "role_rows ws campaign_id jd_key search =
    map (\<lambda>(p, v, j). (p, v, j, review_of (p_id p) ws,
        (let term = strip search in term = [] \<or> icontains (v_candidate_id v) term \<or> icontains (v_source_filename v) term \<or>
          (case v_redacted_text v of None \<Rightarrow> False | Some s \<Rightarrow> icontains s term))))
      (filter (\<lambda>(p, v, j). p_campaign_id p = campaign_id \<and> j_jd_key j = jd_key) (joined (ws_db ws)))"

definition row_view :: "pair \<times> cv \<times> jd \<times> review option \<times> bool \<Rightarrow> pool_row" where
  "row_view = (\<lambda>(p, v, j, review, _). candidate_view p v j review)"

text \<open>The rows to show in their order, and all rows.\<close>

definition project ::
  "py_texts \<Rightarrow> pool_filters \<Rightarrow> (pair \<times> cv \<times> jd \<times> review option \<times> bool) list \<Rightarrow> pool_row list \<times> pool_row list" where
  "project pt f rows =
    (sorted_pool pt f (map row_view (filter (\<lambda>row. matches_row pt (row_view row) f
       (case row of (_, _, _, _, has_text) \<Rightarrow> if has_text then pf_search f else [])) rows)),
     map row_view rows)"

definition validate_requirements :: "pool_filters \<Rightarrow> jd \<Rightarrow> unit result" where
  "validate_requirements f j =
    (if set (map JStr (pf_requirement_ids f)) \<subseteq> set (map (\<lambda>t. dget t ''target_id'' JNull) (job_targets j)) then Inr ()
     else Inl (HTTPException 422 ''These requirement filters belong to a different role''))"

text \<open>\<open>s.find(term)\<close>, and the excerpt around the first occurrence of the search text.\<close>

fun find_at :: "string \<Rightarrow> string \<Rightarrow> nat option" where
  "find_at term [] = (if term = [] then Some 0 else None)"
| "find_at term (c # s) = (if starts_with term (c # s) then Some 0 else map_option Suc (find_at term s))"

definition search_excerpt :: "string \<Rightarrow> string option \<Rightarrow> string" where
  "search_excerpt term redacted = (let s = str_or redacted [] in
     case find_at (lower term) (lower s) of None \<Rightarrow> [] | Some i \<Rightarrow> slice s (i - 80) (i + 180))"

text \<open>Excerpts are given for the rows of the page when there is a search text.\<close>

definition page_excerpts :: "workspace \<Rightarrow> string \<Rightarrow> string \<Rightarrow> pool_row list \<Rightarrow> (string \<times> string) list" where
  "page_excerpts ws campaign_id search page =
    (let term = strip search in
     if term = [] then []
     else map (\<lambda>row. (pw_candidate row,
       (case find (\<lambda>v. v_campaign_id v = campaign_id \<and> v_candidate_id v = pw_candidate row) (cvs (ws_db ws)) of
          None \<Rightarrow> [] | Some v \<Rightarrow> search_excerpt term (v_redacted_text v)))) page)"

record pool_page =
  pp_total :: nat
  pp_excerpts :: "(string \<times> string) list"
  pp_results :: "pool_row list"
  pp_analytics :: pool_analytics
  pp_filtered_analytics :: pool_analytics

text \<open>\<open>parsed\<close> is pydantic's reading of the filter text; \<open>None\<close> when it is not valid JSON of that shape.\<close>

definition parse_filters_text :: "pool_filters option \<Rightarrow> pool_filters result" where
  "parse_filters_text parsed = (case parsed of
     None \<Rightarrow> Inl (HTTPException 422 ''Invalid candidate filters'')
   | Some f \<Rightarrow> (case valid_ranges f of Inl _ \<Rightarrow> Inl (HTTPException 422 ''Invalid candidate filters'') | Inr g \<Rightarrow> Inr g))"

definition find_jd :: "workspace \<Rightarrow> string \<Rightarrow> string \<Rightarrow> jd result" where
  "find_jd ws campaign_id jd_key = (case find (\<lambda>j. j_campaign_id j = campaign_id \<and> j_jd_key j = jd_key) (jds (ws_db ws)) of
     None \<Rightarrow> Inl (HTTPException 404 ''JD not found'') | Some j \<Rightarrow> Inr j)"

definition selected_rows ::
  "py_texts \<Rightarrow> workspace \<Rightarrow> principal \<Rightarrow> string \<Rightarrow> string \<Rightarrow> pool_filters option \<Rightarrow>
     (jd \<times> pool_filters \<times> pool_row list \<times> pool_row list) result" where
  "selected_rows pt ws p campaign_id jd_key parsed =
    rbind (owned_campaign ws campaign_id p) (\<lambda>c.
    rbind (find_jd ws campaign_id jd_key) (\<lambda>j.
    rbind (parse_filters_text parsed) (\<lambda>f.
    rbind (validate_requirements f j) (\<lambda>_.
      Inr (j, f, project pt f (role_rows ws campaign_id jd_key (pf_search f)))))))"

definition candidate_pool ::
  "py_texts \<Rightarrow> workspace \<Rightarrow> principal \<Rightarrow> string \<Rightarrow> string \<Rightarrow> pool_filters option \<Rightarrow> nat \<Rightarrow> nat \<Rightarrow> pool_page result" where
  "candidate_pool pt ws p campaign_id jd_key parsed limit offset =
    rbind (selected_rows pt ws p campaign_id jd_key parsed) (\<lambda>(j, f, selected, full).
      let page = take limit (drop offset selected) in
      Inr \<lparr>pp_total = length selected, pp_excerpts = page_excerpts ws campaign_id (pf_search f) page, pp_results = page,
        pp_analytics = analytics full j, pp_filtered_analytics = analytics selected j\<rparr>)"

section \<open>The export\<close>

definition formula_start :: "string \<Rightarrow> bool" where
  "formula_start s \<longleftrightarrow> lstrip s \<noteq> [] \<and> hd (lstrip s) \<in> set ''=+-@''"

definition spreadsheet_cell :: "string \<Rightarrow> string" where
  "spreadsheet_cell s = (if formula_start s then CHR 0x27 # s else s)"

definition opt_text :: "string option \<Rightarrow> string" where
  "opt_text s = (case s of None \<Rightarrow> [] | Some t \<Rightarrow> t)"

text \<open>The dash of the source's text is no ASCII character.\<close>

definition requirement_cell :: "pydict \<Rightarrow> string" where
  "requirement_cell t = str_of (dget t ''target_text'' (dget t ''target_id'' JNull)) @ '': '' @ str_of (dget t ''status'' JNull) @
     '' - '' @ str_of (dget t ''supporting_text'' (JStr []))"

definition decision_value :: "review_decision \<Rightarrow> string" where
  "decision_value d = (case d of Unreviewed \<Rightarrow> ''UNREVIEWED'' | Shortlist \<Rightarrow> ''SHORTLIST'' | Hold \<Rightarrow> ''HOLD''
     | Not_Proceeding \<Rightarrow> ''NOT_PROCEEDING'')"

definition export_row :: "py_texts \<Rightarrow> string \<Rightarrow> pool_row \<Rightarrow> string list" where
  "export_row pt role_title row = map spreadsheet_cell
     [pw_file row, pw_candidate row, role_title, pair_status_value (pw_status row),
      (case pw_score row of None \<Rightarrow> [] | Some x \<Rightarrow> pt_str pt (JNum x)), decision_value (rv_decision (pw_review row)),
      pw_summary row, join_with ''; '' (map requirement_cell (pw_targets row)),
      join_with ''; '' (map (pt_str pt) (pw_review_reasons row @ pw_verification_reasons row)),
      rv_reason (pw_review row), rv_notes (pw_review row), join_with '', '' (rv_tags (pw_review row)),
      opt_text (rv_reviewer (pw_review row)), (case rv_updated (pw_review row) of None \<Rightarrow> [] | Some t \<Rightarrow> pt_time pt t)]"

definition export_pool ::
  "py_texts \<Rightarrow> workspace \<Rightarrow> principal \<Rightarrow> string \<Rightarrow> string \<Rightarrow> pool_filters option \<Rightarrow> string list list result" where
  "export_pool pt ws p campaign_id jd_key parsed =
    rbind (selected_rows pt ws p campaign_id jd_key parsed) (\<lambda>(j, f, selected, full).
      Inr (map (export_row pt (str_of (dget (j_job_snapshot j) ''title'' (JStr jd_key)))) selected))"

section \<open>What the pool shows\<close>

lemma py_sort_mset [simp]: "mset (py_sort k r xs) = mset xs"
  by (simp add: py_sort_def)

lemma set_py_sort [simp]: "set (py_sort k r xs) = set xs"
  by (simp add: py_sort_def)

lemma sorted_wrt_rev_sort: "sorted_wrt (\<lambda>x y. k y \<le> k x) (rev (sort_key k xs))"
  using sorted_sort_key [of k xs] by (simp add: sorted_wrt_rev sorted_map)

lemma py_sort_sorted:
  "sorted_wrt (\<lambda>x y. if r then k y \<le> k x else k x \<le> k y) (py_sort k r xs)"
  using sorted_wrt_rev_sort [of k "rev xs"] sorted_sort_key [of k xs] by (simp add: py_sort_def sorted_map)

text \<open>Stability: rows of one key keep their order, in both directions.\<close>

lemma py_sort_stable: "filter (\<lambda>x. k x = c) (py_sort k r xs) = filter (\<lambda>x. k x = c) xs"
  using sort_key_stable [of k c "rev xs"] sort_key_stable [of k c xs] by (simp add: py_sort_def rev_filter [symmetric])

lemma sort_key_determined:
  assumes "mset xs = mset ys" "inj_on k (set xs)"
  shows "sort_key k xs = sort_key k ys"
  using assms by (intro sort_key_inj_key_eq) (auto simp: inj_on_def)

text \<open>Sorting by one key and then by another keeps the first one's order among equal rows.\<close>

lemma sorted_wrt_refine:
  assumes "sorted_wrt R xs" "\<And>c. sorted_wrt Q (filter (\<lambda>x. k x = c) xs)"
  shows "sorted_wrt (\<lambda>x y. R x y \<and> (k x = k y \<longrightarrow> Q x y)) xs"
  using assms
proof (induction xs)
  case (Cons x xs)
  have "Q x y" if "y \<in> set xs" "k x = k y" for y
    using Cons.prems(2) [of "k x"] that by simp
  moreover have "sorted_wrt Q (filter (\<lambda>x. k x = c) xs)" for c
    using Cons.prems(2) [of c] by (simp split: if_splits)
  ultimately show ?case using Cons.IH Cons.prems(1) by simp
qed simp

lemma py_sort_refine:
  assumes "sorted_wrt Q xs"
  shows "sorted_wrt (\<lambda>x y. (if r then k y \<le> k x else k x \<le> k y) \<and> (k x = k y \<longrightarrow> Q x y)) (py_sort k r xs)"
  by (rule sorted_wrt_refine [OF py_sort_sorted]) (simp add: py_sort_stable sorted_wrt_filter assms)

text \<open>
  The order of the pool: rows with a value for the chosen column before those without, by that value in
  the chosen direction, and by the candidate's identifier among equals.
\<close>

definition pool_before :: "py_texts \<Rightarrow> pool_filters \<Rightarrow> pool_row \<Rightarrow> pool_row \<Rightarrow> bool" where
  "pool_before pt f x y \<longleftrightarrow> (case (sort_value pt f x, sort_value pt f y) of
     (Some a, Some b) \<Rightarrow> (if pf_descending f then b \<le> a else a \<le> b) \<and> (a = b \<longrightarrow> pw_candidate x \<le> pw_candidate y)
   | (Some _, None) \<Rightarrow> True
   | (None, Some _) \<Rightarrow> False
   | (None, None) \<Rightarrow> pw_candidate x \<le> pw_candidate y)"

lemma mset_sorted_pool: "mset (sorted_pool pt f rows) = mset rows"
proof -
  have "mset (filter P rows) + mset (filter (\<lambda>r. \<not> P r) rows) = mset rows" for P
    by (simp add: multiset_partition [symmetric])
  from this [of "\<lambda>r. sort_value pt f r \<noteq> None"] show ?thesis
    by (simp add: sorted_pool_def Let_def)
qed

lemma sorted_pool_order: "sorted_wrt (pool_before pt f) (sorted_pool pt f rows)"
proof -
  let ?v = "\<lambda>r. the (sort_value pt f r)"
  let ?known = "filter (\<lambda>r. sort_value pt f r \<noteq> None) rows" and ?unknown = "filter (\<lambda>r. sort_value pt f r = None) rows"
  let ?ks = "py_sort ?v (pf_descending f) (py_sort pw_candidate False ?known)"
  have by_id: "sorted_wrt (\<lambda>x y. pw_candidate x \<le> pw_candidate y) (py_sort pw_candidate False xs)" for xs
    using py_sort_sorted [of False pw_candidate xs] by simp
  have "sorted_wrt (pool_before pt f) ?ks"
    by (rule sorted_wrt_mono_rel [OF _ py_sort_refine [OF by_id]]) (auto simp: pool_before_def)
  moreover have "sorted_wrt (pool_before pt f) (py_sort pw_candidate False ?unknown)"
    by (rule sorted_wrt_mono_rel [OF _ by_id]) (auto simp: pool_before_def)
  ultimately show ?thesis
    by (auto simp: sorted_pool_def Let_def sorted_wrt_append pool_before_def)
qed

lemma sorted_pool_determined:
  assumes "mset rows = mset rows'" "inj_on pw_candidate (set rows)"
  shows "sorted_pool pt f rows = sorted_pool pt f rows'"
proof -
  have "py_sort pw_candidate False (filter P rows) = py_sort pw_candidate False (filter P rows')" for P
  proof -
    have "mset (filter P rows) = mset (filter P rows')" using assms(1) by simp
    moreover have "inj_on pw_candidate (set (filter P rows))" using assms(2) by (auto simp: inj_on_def)
    ultimately show ?thesis by (simp add: py_sort_def sort_key_determined)
  qed
  then show ?thesis by (simp add: sorted_pool_def)
qed

text \<open>The pool of a role has each candidate once.\<close>

lemma pool_candidates:
  assumes "unique_constraints s" "foreign_keys s"
  shows "inj_on (\<lambda>(p, v, j). v_candidate_id v)
    {(p, v, j) \<in> set (joined s). p_campaign_id p = campaign_id \<and> j_jd_key j = jd_key}"
proof (rule inj_onI, clarsimp simp: joined_iff)
  note u = assms(1) [unfolded unique_constraints_def] and fk = assms(2) [unfolded foreign_keys_def]
  have scope: "j_campaign_id j = p_campaign_id p \<and> v_campaign_id v = p_campaign_id p"
    if "p \<in> set (pairs s)" "v \<in> set (cvs s)" "v_id v = p_cv_id p" "j \<in> set (jds s)" "j_id j = p_jd_id p" for p v j
  proof -
    have "(p_campaign_id p, p_jd_id p) \<in> (\<lambda>j. (j_campaign_id j, j_id j)) ` set (jds s)"
      "(p_campaign_id p, p_cv_id p) \<in> (\<lambda>v. (v_campaign_id v, v_id v)) ` set (cvs s)"
      using fk that(1) by blast+
    then obtain k w where k: "k \<in> set (jds s)" "j_campaign_id k = p_campaign_id p" "j_id k = p_jd_id p"
      and w: "w \<in> set (cvs s)" "v_campaign_id w = p_campaign_id p" "v_id w = p_cv_id p" by auto
    have "k = j" using distinct_key_eq [of j_id "jds s" k j] u k that by simp
    moreover have "w = v" using distinct_key_eq [of v_id "cvs s" w v] u w that by simp
    ultimately show ?thesis using k w by simp
  qed
  fix p v j p' v' j'
  assume a: "p \<in> set (pairs s)" "v \<in> set (cvs s)" "v_id v = p_cv_id p" "j \<in> set (jds s)" "j_id j = p_jd_id p"
    and a': "p' \<in> set (pairs s)" "v' \<in> set (cvs s)" "v_id v' = p_cv_id p'" "j' \<in> set (jds s)" "j_id j' = p_jd_id p'"
    and same: "v_candidate_id v = v_candidate_id v'" "p_campaign_id p' = p_campaign_id p" "j_jd_key j' = j_jd_key j"
  have j: "j = j'"
    using distinct_key_eq [of "\<lambda>j. (j_campaign_id j, j_jd_key j)" "jds s" j j'] u a(4) a'(4) same scope [OF a] scope [OF a'] by simp
  have v: "v = v'"
    using distinct_key_eq [of "\<lambda>v. (v_campaign_id v, v_candidate_id v)" "cvs s" v v'] u a(2) a'(2) same scope [OF a] scope [OF a'] by simp
  have "p = p'"
    using distinct_key_eq [of "\<lambda>p. (p_jd_id p, p_cv_id p)" "pairs s" p p'] u a a' j v by simp
  then show "p = p' \<and> v = v' \<and> j = j'" using j v by simp
qed

lemma row_view_candidate: "pw_candidate (row_view (p, v, j, review, has_text)) = v_candidate_id v"
  by (simp add: row_view_def candidate_view_def Let_def)

lemma role_rows_inj:
  assumes "unique_constraints (ws_db ws)" "foreign_keys (ws_db ws)"
  shows "inj_on pw_candidate (row_view ` set (role_rows ws campaign_id jd_key search))"
proof (rule inj_onI)
  fix x y
  assume "x \<in> row_view ` set (role_rows ws campaign_id jd_key search)" "y \<in> row_view ` set (role_rows ws campaign_id jd_key search)"
    and same: "pw_candidate x = pw_candidate y"
  then obtain p v j p' v' j' a b where
    t: "(p, v, j) \<in> set (joined (ws_db ws))" "p_campaign_id p = campaign_id" "j_jd_key j = jd_key"
      "x = row_view (p, v, j, review_of (p_id p) ws, a)"
    and t': "(p', v', j') \<in> set (joined (ws_db ws))" "p_campaign_id p' = campaign_id" "j_jd_key j' = jd_key"
      "y = row_view (p', v', j', review_of (p_id p') ws, b)"
    by (auto simp: role_rows_def)
  have "v_candidate_id v = v_candidate_id v'" using same t(4) t'(4) by (simp only: row_view_candidate)
  then have "(p, v, j) = (p', v', j')"
    using t t' by (intro inj_onD [OF pool_candidates [OF assms, of campaign_id jd_key]]) simp_all
  then show "x = y" using t(4) t'(4) by (simp add: row_view_def)
qed

text \<open>The rows shown do not depend on the order in which the database returns them.\<close>

lemma project_determined:
  assumes "unique_constraints (ws_db ws)" "foreign_keys (ws_db ws)"
    "mset rows = mset (role_rows ws campaign_id jd_key search)"
  shows "fst (project pt f rows) = fst (project pt f (role_rows ws campaign_id jd_key search))"
proof -
  let ?shown = "\<lambda>rows. map row_view (filter (\<lambda>row. matches_row pt (row_view row) f
    (case row of (_, _, _, _, has_text) \<Rightarrow> if has_text then pf_search f else [])) rows)"
  have "mset (?shown rows) = mset (?shown (role_rows ws campaign_id jd_key search))" using assms(3) by simp
  moreover have "inj_on pw_candidate (set (?shown rows))"
    using role_rows_inj [OF assms(1,2), of campaign_id jd_key search] mset_eq_setD [OF assms(3)]
    by (auto simp: inj_on_def)
  ultimately show ?thesis unfolding project_def fst_conv by (rule sorted_pool_determined)
qed

text \<open>Every row shown is a row of the role that passes the filters, and every such row is shown.\<close>

lemma project_rows:
  "mset (fst (project pt f rows)) = mset (map row_view (filter (\<lambda>row. matches_row pt (row_view row) f
     (case row of (_, _, _, _, has_text) \<Rightarrow> if has_text then pf_search f else [])) rows))"
  by (simp only: project_def fst_conv mset_sorted_pool)

lemma role_rows_distinct:
  assumes "unique_constraints (ws_db ws)"
  shows "distinct (role_rows ws campaign_id jd_key search)"
proof -
  have "distinct (joined (ws_db ws))" using joined_ids [OF assms] by (simp add: distinct_map)
  then show ?thesis unfolding role_rows_def by (auto simp: distinct_map inj_on_def)
qed

lemma project_candidates:
  assumes "unique_constraints (ws_db ws)" "foreign_keys (ws_db ws)"
    "mset rows = mset (role_rows ws campaign_id jd_key search)"
  shows "distinct (map pw_candidate (fst (project pt f rows)))"
proof -
  have one: "x = y" if "x \<in> set rows" "y \<in> set rows" "pw_candidate (row_view x) = pw_candidate (row_view y)" for x y
  proof -
    from that(1,2) mset_eq_setD [OF assms(3)] obtain p v j p' v' j' where
      t: "(p, v, j) \<in> set (joined (ws_db ws))" "p_campaign_id p = campaign_id" "j_jd_key j = jd_key"
      and t': "(p', v', j') \<in> set (joined (ws_db ws))" "p_campaign_id p' = campaign_id" "j_jd_key j' = jd_key"
      and xy: "x = (\<lambda>(p, v, j). (p, v, j, review_of (p_id p) ws, (let term = strip search in term = [] \<or>
          icontains (v_candidate_id v) term \<or> icontains (v_source_filename v) term \<or>
          (case v_redacted_text v of None \<Rightarrow> False | Some s \<Rightarrow> icontains s term)))) (p, v, j)"
        "y = (\<lambda>(p, v, j). (p, v, j, review_of (p_id p) ws, (let term = strip search in term = [] \<or>
          icontains (v_candidate_id v) term \<or> icontains (v_source_filename v) term \<or>
          (case v_redacted_text v of None \<Rightarrow> False | Some s \<Rightarrow> icontains s term)))) (p', v', j')"
      unfolding role_rows_def by fastforce
    have "v_candidate_id v = v_candidate_id v'" using that(3) by (simp only: xy prod.case row_view_candidate)
    then have "(p, v, j) = (p', v', j')"
      using t t' by (intro inj_onD [OF pool_candidates [OF assms(1,2), of campaign_id jd_key]]) simp_all
    then show ?thesis by (simp only: xy)
  qed
  have "distinct rows"
    using role_rows_distinct [OF assms(1)] mset_eq_imp_distinct_iff [OF assms(3)] by blast
  then have "distinct (map pw_candidate (map row_view (filter P rows)))" for P
    using one by (auto simp: distinct_map inj_on_def)
  moreover have "mset (map pw_candidate (fst (project pt f rows))) =
      mset (map pw_candidate (map row_view (filter (\<lambda>row. matches_row pt (row_view row) f
        (case row of (_, _, _, _, has_text) \<Rightarrow> if has_text then pf_search f else [])) rows)))"
    by (simp only: mset_map project_rows)
  ultimately show ?thesis by (blast dest: mset_eq_imp_distinct_iff)
qed

text \<open>The score bands divide the assessed candidates.\<close>

lemma bands_divide:
  assumes "\<And>r x. r \<in> set rows \<Longrightarrow> pw_score r = Some x \<Longrightarrow> 0 \<le> x \<and> x \<le> 100"
  shows "sum_list (an_distribution (analytics rows j)) = an_assessed (analytics rows j)"
proof -
  have "count_where (in_band (0, 55)) rows + (count_where (in_band (55, 75)) rows + count_where (in_band (75, 101)) rows) =
      count_where (\<lambda>r. pw_score r \<noteq> None) rows"
    using assms
  proof (induction rows)
    case (Cons r rows)
    then show ?case using Cons.prems [of r]
      by (cases "pw_score r") (auto simp: in_band_def)
  qed simp
  then show ?thesis by (simp add: analytics_def score_bands_def)
qed

text \<open>No exported cell starts a formula, whatever the candidate's document or the notes say.\<close>

lemma spreadsheet_cell_safe: "\<not> formula_start (spreadsheet_cell s)"
  by (auto simp: spreadsheet_cell_def formula_start_def lstrip_def is_space_def code_point_def)

lemma export_cells_safe:
  assumes "export_pool pt ws p campaign_id jd_key parsed = Inr rows" "row \<in> set rows" "cell \<in> set row"
  shows "\<not> formula_start cell"
proof -
  have "\<exists>title selected. rows = map (export_row pt title) selected"
    using assms(1) by (auto simp: export_pool_def rbind_Inr_conv)
  then obtain title x where "row = export_row pt title x" using assms(2) by auto
  then have "\<exists>s. cell = spreadsheet_cell s" using assms(3) unfolding export_row_def by auto
  then show ?thesis using spreadsheet_cell_safe by blast
qed

text \<open>
  A verified fact changes the effective checks of its rule only; the screening's own checks stay as they
  are, and a confirmed rule no longer asks for verification.
\<close>

lemma effective_check_rule: "dget (effective_check facts rules check) ''rule'' JNull = dget check ''rule'' JNull"
  by (simp add: effective_check_def dmerge_def split: option.split)

lemma view_checks:
  assumes "pw_checks (candidate_view p v j review) = checks" "pw_stage1_checks (candidate_view p v j review) = original"
  shows "length checks = length original" "\<And>i. i < length original \<Longrightarrow>
    checks ! i = original ! i \<or>
    dget (original ! i) ''rule'' JNull \<in> {JStr ''authorization'', JStr ''experience'', JStr ''education''} \<and>
    dget (checks ! i) ''source'' JNull = JStr ''recruiter_verified''"
  using assms by (auto simp: candidate_view_def Let_def effective_check_def verified_status_def split: option.split if_splits)

end
