(* ===== verification/Example_Recruiter.thy ===== *)
theory Example_Recruiter
  imports JD_Drafts Recruiter_Pool Example_Screening Example_Run
begin

text \<open>
  Concrete runs of the recruiter's side, on which the properties of the root theory are applied: a job
  description uploaded, extracted and approved, two reviews of a candidate, and the pool of the example
  campaign.
\<close>

section \<open>A job description\<close>

definition payment_target :: quoted_target where
  "payment_target = \<lparr>qt_target = \<lparr>t_id = ''pay'', t_category = ''EXPERIENCE'', t_kind = ''responsibility'',
     t_text = ''Payment APIs'', t_importance = 3, t_treatment = Requirement, t_terms = [[''payment API'']],
     t_substitutes = [], t_origin = Approved\<rparr>, qt_quote = ''Build payment  APIs''\<rparr>"

definition demo_jd_input :: jd_input where
  "demo_jd_input = \<lparr>jf_title = ''Engineer'', jf_must_have = [], jf_nice_to_have = [], jf_queries = no_requirements,
     jf_targets = [payment_target], jf_minimum = 0,
     ji_rules = Some (JDict [(''min_years_experience'', JNum 3), (''degree_requirement'', JDict [(''level'', JStr ''b.sc'')])]),
     ji_uncertainties = []\<rparr>"

definition demo_jd :: extracted_jd where
  "demo_jd = projr (validate_extracted demo_jd_input)"

definition demo_jd_page :: source_page where
  "demo_jd_page = \<lparr>g_number = 1, g_blocks = [\<lparr>b_text = ''We build software.'', b_number = 0, b_bbox = JNull\<rparr>,
     \<lparr>b_text = ''Build payment APIs.'', b_number = 1, b_bbox = JNull\<rparr>]\<rparr>"

definition demo_jd_view :: pdf_view where
  "demo_jd_view = \<lparr>vw_status = ''success'', vw_code = [], vw_text = ''Build payment APIs.'', vw_pages = [demo_jd_page]\<rparr>"

definition demo_draft :: jd_draft where
  "demo_draft = new_draft 0 demo_principal ''digest'' ''draft'' ''token''"

definition demo_drafts_started :: draft_db where
  "demo_drafts_started = \<lparr>dd_drafts = [demo_draft], dd_approved = []\<rparr>"

definition demo_extraction :: extraction_row where
  "demo_extraction = (D_REVIEW, None, Some (extracted_dump demo_jd), [demo_jd_page])"

definition demo_drafts_review :: draft_db where
  "demo_drafts_review = snd (finish_upload ''draft'' ''token'' demo_extraction demo_drafts_started)"

definition demo_drafts :: draft_db where
  "demo_drafts = snd (approve default_settings 20 demo_principal ''draft'' demo_jd False ''approved'' demo_drafts_review)"

lemma demo_jd_valid: "validate_extracted demo_jd_input = Inr demo_jd"
proof -
  have "\<not> is_error (validate_extracted demo_jd_input)" by code_simp
  then show ?thesis by (cases "validate_extracted demo_jd_input") (simp_all add: demo_jd_def is_error_def)
qed

lemma demo_publishes: "publishes ''draft'' ''token'' demo_drafts_started"
  by code_simp

lemma demo_drafts_reach: "drafts_reach default_settings demo_drafts {(''draft'', [demo_jd_page])}"
proof -
  have "insert_draft demo_draft \<lparr>dd_drafts = [], dd_approved = []\<rparr> = Inr demo_drafts_started"
    by (simp add: insert_draft_def demo_drafts_started_def)
  then have started: "drafts_reach default_settings demo_drafts_started {}"
    unfolding demo_draft_def by (rule drafts_reach.inserting [OF drafts_reach.empty])
  have "extraction_outcome (Inr demo_jd_view) (\<lambda>_. Inr demo_jd) = Inr (D_REVIEW, None, Some (extracted_dump demo_jd), [demo_jd_page])"
    by (simp add: extraction_outcome_def demo_jd_view_def)
  from drafts_reach.finishing [OF started this, of "''draft''" "''token''"]
  have "drafts_reach default_settings demo_drafts_review {(''draft'', [demo_jd_page])}"
    using demo_publishes by (simp add: demo_drafts_review_def demo_extraction_def)
  moreover have "''approved'' \<notin> ap_id ` set (dd_approved demo_drafts_review)"
    using finish_upload_versions [of "''draft''" "''token''" demo_extraction demo_drafts_started]
    by (simp add: demo_drafts_review_def demo_drafts_started_def)
  ultimately show ?thesis unfolding demo_drafts_def by (rule drafts_reach.approving [OF _ demo_jd_valid])
qed

lemma demo_approved: "map ap_id (dd_approved demo_drafts) = [''approved'']"
  by code_simp

lemma demo_approved_row:
  obtains v where "dd_approved demo_drafts = [v]" "av_draft v = ''draft''" "ap_id v = ''approved''"
    "quotes_of (ap_profile v) = [''Build payment  APIs'']"
proof -
  have "map (\<lambda>v. (av_draft v, ap_id v, quotes_of (ap_profile v))) (dd_approved demo_drafts) =
      [(''draft'', ''approved'', [''Build payment  APIs''])]"
    by code_simp
  then show ?thesis using that by (cases "dd_approved demo_drafts") auto
qed

definition approved_request :: screening_request where
  "approved_request = demo_request\<lparr>sq_job_profile := None, sq_approved_jd_id := Some ''approved''\<rparr>"

section \<open>Reviews\<close>

definition demo_workspace :: workspace where
  "demo_workspace = \<lparr>ws_db = demo_completed, ws_members = [], ws_reviews = [], ws_events = [], ws_views = []\<rparr>"

definition demo_admin :: principal where
  "demo_admin = \<lparr>pr_id = ''recruiter'', pr_role = ''admin''\<rparr>"

definition demo_pair_id :: string where
  "demo_pair_id = p_id (hd (pairs demo_completed))"

definition demo_hold :: review_update where
  "demo_hold = \<lparr>up_versions = [(demo_pair_id, 0)], up_decision = Hold, up_notes = Some ''Call back'', up_reason = [],
     up_tags = Some [''backend''], up_assignee = None, up_facts = None\<rparr>"

definition demo_decline :: review_update where
  "demo_decline = demo_hold\<lparr>up_versions := [(demo_pair_id, 1)], up_decision := Not_Proceeding, up_reason := ''No reply'',
     up_notes := None\<rparr>"

definition after_hold :: "((string \<times> review_fields) list \<times> workspace) result" where
  "after_hold = update_reviews (\<lambda>_. ''event'') 5 demo_admin demo_hold demo_workspace"

definition after_decline :: "((string \<times> review_fields) list \<times> workspace) result" where
  "after_decline = update_reviews (\<lambda>_. ''event2'') 6 demo_admin demo_decline (snd (projr after_hold))"

lemma demo_updates_valid: "validate_update demo_hold = Inr demo_hold" "validate_update demo_decline = Inr demo_decline"
  by code_simp+

lemma demo_reviews_stored: "\<not> is_error after_hold" "\<not> is_error after_decline"
  by code_simp+

section \<open>The pool\<close>

definition plain_texts :: py_texts where
  "plain_texts = \<lparr>pt_str = str_of, pt_time = (\<lambda>_. ''2026-01-01'')\<rparr>"

definition demo_campaign_id :: string where
  "demo_campaign_id = c_id (hd (campaigns demo_completed))"

lemma demo_pool_rows: "length (role_rows demo_workspace demo_campaign_id ''jd'' []) = 1"
  by code_simp

end
