(* ===== verification/Spec2Isabelle.thy ===== *)
theory Spec2Isabelle
  imports Selection Recovery Leases Example_Screening Example_Evaluation Example_Recruiter
begin

text \<open>
  A CV screening service: recruiters post job descriptions and CVs; the service extracts the CVs,
  filters candidates by hard rules, ranks them by retrieved evidence, has a language model assess a
  bounded shortlist, and stores decisions that can be audited. This library models the Python backend
  under \<open>src/app\<close>; every definition names what it translates by the identifier of the source.

  \<^bold>\<open>The parts of the program and their theories.\<close> A campaign screens many CVs against several JDs
  through a queue; a screening run is one request with its candidates, executed in-process or by a worker.

  \<^item> \<open>config.py\<close>: \<open>Settings\<close> (record \<open>settings\<close>, its validators as \<open>settings_ok\<close>).
  \<^item> \<open>models/database.py\<close>: the four campaign tables in \<open>Campaign_Tables\<close> (record \<open>db\<close>, one list of rows per
    table, in primary key order of insertion), the run tables in \<open>Run_Audit\<close> (record \<open>audit_db\<close>), users in \<open>Accounts\<close>.
  \<^item> \<open>campaigns/persistence.py\<close>: \<open>Persistence\<close>; \<open>campaigns/coordinator.py\<close>: \<open>Coordinator\<close>;
    \<open>campaigns/intake.py\<close> and the upload endpoints of \<open>api/campaigns.py\<close>: \<open>Intake\<close>;
    \<open>campaigns/provider_limit.py\<close>: \<open>Provider_Limit\<close>; the campaign tasks of \<open>workers/tasks.py\<close>: \<open>Workers\<close>.
  \<^item> \<open>stage1_rules\<close>: \<open>Experience\<close>, \<open>Candidate_Rules\<close> (\<open>contracts.py\<close>), \<open>Skill_Terms\<close> (\<open>jd_matcher.py\<close>,
    \<open>jd_profiler.py\<close>), \<open>Eligibility\<close> (\<open>rules_engine.py\<close>), over the regular expressions of \<open>Patterns\<close>.
  \<^item> \<open>stage2_retrieval\<close>: \<open>Sections\<close> (\<open>chunker.py\<close>), \<open>Lexical\<close> (\<open>sparse.py\<close>), \<open>Hybrid_Search\<close>
    (\<open>hybrid_search.py\<close>, \<open>reranker.py\<close>), \<open>Coverage\<close> (\<open>coverage.py\<close>, \<open>evidence_extractor.py\<close>, \<open>relevance.py\<close>),
    \<open>Shortlist\<close> (ranking and selection).
  \<^item> \<open>stage3_evaluation\<close>: \<open>Evaluation\<close> (\<open>schemas.py\<close>, \<open>scoring.py\<close>), \<open>Evaluation_Dump\<close> (the JSON forms);
    \<open>evidence.py\<close> in \<open>Evidence_Registry\<close> (what may be cited), \<open>Excerpts\<close> (when a claim is an excerpt),
    \<open>Citations\<close> (verification) and \<open>Trusted_Selection\<close> (from identifiers to text, with the handles of
    \<open>compact.py\<close>); \<open>context.py\<close> in \<open>Context\<close> and \<open>Bounded_Prompt\<close>; \<open>Selection_Parsing\<close> (the JSON a provider
    may answer with); \<open>llm_client.py\<close> in \<open>Provider_Calls\<close> (the requests of a call) and \<open>Single_Evaluation\<close> (the
    retries of an evaluation, with \<open>evaluator.py\<close>); its callers in \<open>Campaign_Evaluation\<close>.
  \<^item> \<open>stage0_extraction/injection_guard.py\<close>: \<open>Injection\<close>.
  \<^item> \<open>orchestrator.py\<close>: \<open>Screening_Pipeline\<close>, whose loops are \<open>fold\<close>s of one step per candidate;
    \<open>run_audit.py\<close>: \<open>Run_Accounting\<close> and \<open>Run_Audit\<close>; \<open>api/endpoints.py\<close> and the screening tasks:
    \<open>Screening_Runs\<close>; \<open>core/auth.py\<close> and \<open>api/auth.py\<close>: \<open>Accounts\<close>.

  \<^bold>\<open>How state and failure correspond.\<close> A session's transaction is a function from tables to tables; a
  handler that raises returns \<open>Inl\<close> of the exception (\<open>py_exn\<close>) and the tables as committed up to there.
  Unique and foreign keys are not enforced by the functions but proved of their results. Rows locked by
  other sessions (\<open>SKIP LOCKED\<close>) are a predicate argument, what others commit between two transactions of
  one task is an argument \<open>race\<close>. A loop over rows is recursion over the list. There is no fuel: the
  loops that are not structural (the regular expression scanner \<open>scan\<close>, \<open>replace_all\<close>, the cutting of a long
  block into chunks and of a CV into passages, \<open>trim\<close>, \<open>prompt_loop\<close>, \<open>evaluation_loop\<close>) are functions with a
  termination proof.

  \<^bold>\<open>What the lemma groups show.\<close> \<open>Campaign_Invariants\<close> states the invariant \<open>tables_ok\<close> of the campaign
  tables; \<open>Documents\<close>, \<open>Admission\<close>, \<open>Pair_Operations\<close> and \<open>Barrier\<close> prove that every transaction keeps it,
  and \<open>Campaign_Machine\<close> lifts it to the step relation \<open>reachable\<close>. \<open>Lifecycle\<close> refines a pair's row to an
  abstract machine of its status, \<open>Task_Runs\<close> shows that the Celery tasks are runs of that relation,
  \<open>Recovery\<close> what the admissions hand out. \<open>Leases\<close> states the lease protocol as the locale \<open>fenced_lease\<close>
  and interprets it on retrieval and Stage 3; \<open>Run_Lifecycle\<close> interprets it on screening runs.
  \<open>Selection\<close> relates the coordinator's shortlist to the batch selection. \<open>Coverage_Bounds\<close> bounds the
  Stage 2 scores. \<open>Run_Accounting\<close> states the contract of a pipeline loop as the locale \<open>stage_loop\<close>;
  \<open>Pipeline_Accounting\<close> interprets it on each of the five loops, \<open>Pipeline_Run\<close> and \<open>Pipeline_Reconciles\<close>
  compose them, \<open>Pipeline_Results\<close> traces each stored decision to its evaluation. \<open>Run_Publication\<close>,
  \<open>Run_Lifecycle\<close> and \<open>Run_Endings\<close> cover a run from its reservation to its publication or failure.
  \<open>Registry_Facts\<close> ties each registry entry to a chunk of its candidate, \<open>Grounded\<close> shows that a resolved
  selection says nothing but trusted text, \<open>Context_Bounds\<close> that the context stays within its budget,
  \<open>Evaluation_Sources\<close> that a prompt holds only the candidate's documents however often it was shrunk;
  \<open>Evaluation_Guarantees\<close> composes them over the retries, and \<open>Campaign_Evaluation\<close> with the campaign task and
  the batch of a screening run.
  \<open>Example_Run\<close>, \<open>Example_Screening\<close> and \<open>Example_Evaluation\<close> are the concrete states of the witnesses. The properties
  C1 to C40 below are the claims about the program.

  \<^bold>\<open>Parameters.\<close> Code that is not in the repository is an argument: embedding and reranking models, the
  HTTP responses of a language model, PDF parsing, encryption, JWT coding, password hashing, Redis time, the
  broker, JSON text and hashes of it (\<open>pe_hash\<close>, no property of which is assumed), pydantic's reading of
  numbers from other values (\<open>pe_lax\<close>), URL parsing, floating point logarithms and the text of a number; and
  so are the text of a prompt and its token estimate (\<open>pe_prompt\<close>, \<open>pe_budget\<close>). Hypotheses about them are
  stated where they are used: fresh identifiers are fresh (\<open>fresh_ids\<close>), decryption gives back what was
  encrypted.

  \<^bold>\<open>Abstractions.\<close> Python's floats are rationals, with the rounding functions of the code written out; its
  integers are unbounded, as in Python. Strings are ASCII for the character classes of regular expressions
  and for \<open>lower\<close>. Times are integers of seconds. The rows of a reservation are written together with the
  queueing of its run. Logging, response headers and ORM loading have no counterpart.

  \<^bold>\<open>Not modelled.\<close> The recruiter workspace (\<open>api/recruiter.py\<close>, \<open>campaigns/recruiter.py\<close>) and the rest of
  \<open>api/campaigns.py\<close> read, page and export the rows of the campaign tables and decide nothing about them. Drafts
  of job descriptions (\<open>jd_intake.py\<close>, \<open>api/jds.py\<close>) end in a person's approval, and an approved profile is an
  input here. \<open>prompts.py\<close> and \<open>budget.py\<close> render text for the model, whose meaning no theorem can use. The vector
  store and the embeddings (\<open>repository.py\<close>, \<open>embeddings.py\<close>) are SQL and model calls, PDF parsing, masking and
  integrity checks (\<open>parser.py\<close>, \<open>pii_masker.py\<close>, \<open>integrity.py\<close>) calls of third-party parsers and models. Of
  \<open>llm_client.py\<close> the request bodies, the logged metrics and the opening and closing of clients are left out.
  Application start, logging, Celery configuration, wake-up messages, scripts, migrations and the frontend hold
  no rule of the program.
\<close>

section \<open>The campaign tables\<close>

text \<open>
  C1. Whatever the interleaving of API calls, workers and coordinator passes, the tables always
  satisfy their primary keys, unique constraints, foreign keys and checks, although the code commits
  in many small transactions.
\<close>

theorem reachable_constraints:
  assumes "settings_ok cfg" "fresh_ids ext" "reachable cfg ext s"
  shows "unique_constraints s \<and> foreign_keys s \<and> check_constraints s"
  using reachable_tables_ok [OF assms] by (simp add: tables_okD tables_ok_checks)

theorem reachable_constraints_witness:
  "unique_constraints demo_completed \<and> foreign_keys demo_completed \<and> check_constraints demo_completed"
  by (rule reachable_constraints [OF settings_ok_default fresh_demo demo_later_reachable(4)])

text \<open>
  C2. Leases and attempts: a pair has a lease owner exactly while it is running in retrieval or in
  Stage 3, then its lease has an end; the retrieval attempts never exceed the configured maximum and
  a pair waiting for another attempt is below it.
\<close>

theorem lease_discipline:
  assumes "settings_ok cfg" "fresh_ids ext" "reachable cfg ext s" "p \<in> set (pairs s)"
  shows "(p_lease_owner p \<noteq> None \<longleftrightarrow> p_status p \<in> {RUNNING, STAGE3_RUNNING}) \<and>
    (p_lease_owner p \<noteq> None \<longrightarrow> p_lease_until p \<noteq> None) \<and>
    0 \<le> p_attempt_count p \<and> p_attempt_count p \<le> RUN_MAX_ATTEMPTS cfg \<and>
    (p_status p = PENDING \<longrightarrow> p_attempt_count p < RUN_MAX_ATTEMPTS cfg)"
  using rows_okD(1) [OF tables_okD(4) [OF reachable_tables_ok [OF assms(1-3)]] assms(4)]
  by (simp add: pair_shape_def leased_def)

theorem lease_discipline_witness:
  "p_lease_owner (hd (pairs demo_running)) \<noteq> None \<longleftrightarrow> p_status (hd (pairs demo_running)) \<in> {RUNNING, STAGE3_RUNNING}"
proof -
  have "hd (pairs demo_running) \<in> set (pairs demo_running)"
    using demo_running_rows by (cases "pairs demo_running") simp_all
  then show ?thesis using lease_discipline [OF settings_ok_default fresh_demo demo_reachable(6)] by blast
qed

text \<open>
  C3. Bounded load: at any time the pairs in retrieval stay within the bound of their campaign and
  within the global one, and the pairs in Stage 3 within the provider's.
\<close>

theorem inflight_bounds:
  assumes "settings_ok cfg" "fresh_ids ext" "reachable cfg ext s"
  shows "int (running_count i s) \<le> CAMPAIGN_RETRIEVAL_INFLIGHT cfg \<and>
    int (status_count RUNNING s) \<le> CAMPAIGN_RETRIEVAL_GLOBAL_INFLIGHT cfg \<and>
    int (status_count STAGE3_RUNNING s) \<le> CAMPAIGN_STAGE3_GLOBAL_INFLIGHT cfg"
  using tables_okD(8) [OF reachable_tables_ok [OF assms]] by (simp add: inflight_ok_def)

theorem inflight_bounds_witness:
  "int (running_count [] demo_running) \<le> CAMPAIGN_RETRIEVAL_INFLIGHT default_settings"
  using inflight_bounds [OF settings_ok_default fresh_demo demo_reachable(6), of "[]"] by simp

text \<open>
  C4. The shortlist of a JD never exceeds its cap: the pairs the reports count as selected for
  Stage 3 (attempted, waiting, running or successful) are at most the smaller of the JD's cap and 15.
\<close>

theorem shortlist_within_cap:
  assumes "settings_ok cfg" "fresh_ids ext" "reachable cfg ext s" "j \<in> set (jds s)"
  shows "int (selected_pair_count (\<lambda>p. p_jd_id p = j_id j) s) \<le> min (j_stage3_cap j) MAX_CANDIDATES_PER_JD"
proof -
  note ok = reachable_tables_ok [OF assms(1-3)]
  have "selected_pair_count (\<lambda>p. p_jd_id p = j_id j) s \<le> shortlist_count (j_id j) s"
    unfolding selected_pair_count_def shortlist_count_def
  proof (rule count_where_mono)
    fix p assume "p \<in> set (pairs s)" and sel: "p_jd_id p = j_id j \<and> (0 < p_stage3_attempt_count p \<or>
      p_status p \<in> {SHORTLISTED, STAGE3_RUNNING, SUCCESS})"
    then have "0 < p_stage3_attempt_count p \<longrightarrow> shortlisted p"
      using rows_okD(1) [OF tables_okD(4) [OF ok]] by (simp add: pair_shape_def)
    then show "p_jd_id p = j_id j \<and> shortlisted p" using sel by (auto simp: shortlisted_def)
  qed
  then show ?thesis
    using tables_okD(5,7) [OF ok] assms(4) by (fastforce simp: caps_ok_def scopes_ok_def)
qed

theorem shortlist_within_cap_witness:
  "int (selected_pair_count (\<lambda>p. p_jd_id p = ''u'') demo_evaluating) \<le> 2"
proof -
  have "map (\<lambda>j. (j_id j, j_stage3_cap j)) (jds demo_evaluating) = [(''u'', 2)]" by code_simp
  then obtain j where "j \<in> set (jds demo_evaluating)" "j_id j = ''u''" "j_stage3_cap j = 2" by auto
  then show ?thesis
    using shortlist_within_cap [OF settings_ok_default fresh_demo demo_later_reachable(2), of j] by simp
qed





text \<open>
  C7. Accounting never fails: in every reachable state the pair counts of a campaign add up to JDs
  times CVs, so the check that guards the campaign report is never raised for the owner.
\<close>

theorem campaign_counts_succeed:
  assumes "settings_ok cfg" "fresh_ids ext" "reachable cfg ext s"
    and "campaign_by_id i s = Some c" "c_owner_id c = owner"
  shows "\<exists>r. campaign_counts i owner s = Inr r \<and> n_terminal r =
    count_where (\<lambda>p. p_campaign_id p = i \<and> terminal (p_status p)) (pairs s)"
proof -
  note ok = reachable_tables_ok [OF assms(1-3)]
  have rows: "count_where (\<lambda>p. p_campaign_id p = i) (pairs s) =
      count_where (\<lambda>j. j_campaign_id j = i) (jds s) * count_where (\<lambda>v. v_campaign_id v = i) (cvs s)"
    by (rule campaign_pairs_count [OF tables_okD(1,2,6) [OF ok]])
  have "length (filter (\<lambda>p. p_campaign_id p = i) (pairs s)) = count_where (\<lambda>p. p_campaign_id p = i) (pairs s)"
    by (simp add: count_where_def)
  moreover have "terminal_count (group_counts p_status (filter (\<lambda>p. p_campaign_id p = i) (pairs s))) =
      count_where (\<lambda>p. p_campaign_id p = i \<and> terminal (p_status p)) (pairs s)"
    by (simp add: terminal_count_group count_where_def filter_filter conj_commute)
  ultimately show ?thesis
    using rows assms(4,5) by (simp add: campaign_counts_def get_campaign_def Let_def)
qed

theorem campaign_counts_succeed_witness:
  "\<exists>r. campaign_counts [] ''owner'' demo_completed = Inr r"
proof -
  have "map_option c_owner_id (campaign_by_id [] demo_completed) = Some ''owner''" by code_simp
  then obtain c where "campaign_by_id [] demo_completed = Some c" "c_owner_id c = ''owner''" by auto
  then show ?thesis
    using campaign_counts_succeed [OF settings_ok_default fresh_demo demo_later_reachable(4)] by blast
qed

section \<open>What the language model may say\<close>

text \<open>
  C8. What the language model may say: when the Stage 3 task of a campaign stores a success of a real
  provider, then, whatever the provider answered and whatever other sessions did meanwhile, the stored
  evaluation is about the pair's CV, and every category and flag of it cites evidence of an allowed
  category, each citation backed by a claim that is, word for word, part of a chunk retrieved for the pair
  or of its CV. No statement of fact is the model's own, and no evidence carries an injection signal.
\<close>

theorem stored_success_is_grounded:
  assumes "execute_campaign_stage3 cfg now jitter race model_dump admission (campaign_evaluation cfg env pv) pair_id token s = (Inr ''SUCCESS'', t)"
    and "lower (LLM_PROVIDER cfg) \<noteq> ''mock''"
  shows "\<exists>p v j f q. (p, v, j) \<in> set (joined s) \<and> p_id p = pair_id \<and> fe_candidate_id f = v_candidate_id v \<and>
    grounded_evaluation (stored_evidence p v) f \<and> pair_by_id pair_id t = Some q \<and> p_status q = SUCCESS \<and>
    p_composite_score q = fe_composite_score f \<and> p_tier q = map_option tier_value (fe_tier f) \<and>
    dget (snapshot_of q) ''stage3_evaluation'' JNull = model_dump f"
  by (rule stored_success_grounded [OF assms])

theorem stored_success_is_grounded_witness:
  "\<exists>p v j f. (p, v, j) \<in> set (joined sample_state) \<and> p_id p = ''uuu'' \<and> fe_candidate_id f = v_candidate_id v \<and>
     grounded_evaluation (stored_evidence p v) f"
proof -
  have "lower (LLM_PROVIDER sample_settings) \<noteq> ''mock''" by code_simp
  then show ?thesis using sample_task stored_success_is_grounded by blast
qed

text \<open>
  C9. An evaluation ends and is accounted for: at most two calls of the provider beyond the retries that
  were asked for; its answer is a consistent outcome for the candidate of the payload, and a rate limit or a
  transient failure leaves it only when the caller asked for that. Within a call there are at most the
  configured requests, with waits of at most eight seconds between them.
\<close>

theorem evaluation_answers:
  "snd (evaluate_single_candidate ec d jd) \<le> nat (ec_max_retries ec) + 2 \<and>
   (case fst (evaluate_single_candidate ec d jd) of
      Answer f \<Rightarrow> outcome_consistent f \<and> dget d ''candidate_id'' (JStr ''UNKNOWN'') = JStr (fe_candidate_id f)
    | Retryable g \<Rightarrow> ec_raise_rate_limits ec
    | Provider_Raised e \<Rightarrow> True) \<and>
   length (snd (generate_evaluation cfg pv prompt n)) \<le> n - 1 \<and> list_all (\<lambda>w. w \<le> 8) (snd (generate_evaluation cfg pv prompt n))"
proof -
  have "outcome_consistent f \<and> dget d ''candidate_id'' (JStr ''UNKNOWN'') = JStr (fe_candidate_id f)"
    if "evaluate_single_candidate ec d jd = (Answer f, k)" for f k
    using that by (cases rule: evaluate_Answer) (auto dest: assessment_of_consistent)
  then have "case fst (evaluate_single_candidate ec d jd) of
      Answer f \<Rightarrow> outcome_consistent f \<and> dget d ''candidate_id'' (JStr ''UNKNOWN'') = JStr (fe_candidate_id f)
    | Retryable g \<Rightarrow> ec_raise_rate_limits ec | Provider_Raised e \<Rightarrow> True"
    using evaluate_retry [of ec d jd] by (auto split: provider_answer.split simp: prod_eq_iff)
  then show ?thesis using evaluate_calls generate_waits by blast
qed

text \<open>
  C10. The prompt stays within both of its budgets, and what it sends and registers belongs to the
  candidate: every entry of its registry carries the candidate's identifier, a tag of its category, and a
  piece of a document of the payload, and the payload that is sent has no source that the given one lacks.
\<close>

theorem prompt_is_bounded_and_sourced:
  assumes "bounded_evaluation_prompt env i sentences limit d = Inr (sent, reg, prompt)"
  shows "int (length prompt) \<le> limit \<and> (sentences \<longrightarrow> fst (pe_budget env prompt)) \<and> sourced_registry i d reg \<and>
    (\<forall>t. source_text sent t \<longrightarrow> source_text d t)"
  using bounded_prompt_sourced [OF assms] by blast

theorem prompt_is_bounded_and_sourced_witness:
  "int (length ''prompt'') \<le> 128000 \<and> sourced_registry ''cv'' sample_payload sample_registry"
  using prompt_is_bounded_and_sourced [OF sample_prompt] by blast



section \<open>The life of a pair\<close>

text \<open>
  C12. Terminal outcomes are final: a row with a terminal status is still there, unchanged in every
  column, after any further run of the system.
\<close>

theorem terminal_rows_final:
  assumes "settings_ok cfg" "fresh_ids ext" "reachable cfg ext s" "(step cfg ext)\<^sup>*\<^sup>* s t"
    and "p \<in> set (pairs s)" "terminal (p_status p)"
  shows "p \<in> set (pairs t)"
proof -
  obtain q where "q \<in> set (pairs t)" "row_leads (issued ext s) p q"
    using steps_lead [OF assms(1,2,4) reachable_tables_ok [OF assms(1-3)] assms(5)] by blast
  then show ?thesis using assms(6) by (simp add: row_leads_def)
qed

theorem terminal_rows_final_witness:
  "hd (pairs demo_evaluated) \<in> set (pairs demo_completed)"
proof -
  have "map p_status (pairs demo_evaluated) = [SUCCESS]" by code_simp
  then obtain p where p: "pairs demo_evaluated = [p]" "p_status p = SUCCESS" by auto
  have run: "demo_step\<^sup>*\<^sup>* demo_evaluated demo_completed" using demo_later_steps(4) by (rule r_into_rtranclp)
  show ?thesis
    using terminal_rows_final [OF settings_ok_default fresh_demo demo_later_reachable(3) run, of p] p by simp
qed

text \<open>
  C13. Every transaction moves a pair along at most one edge of its status machine: the detailed
  operations refine the abstract machine, and keep the row's identity.
\<close>

theorem step_follows_machine:
  assumes "settings_ok cfg" "fresh_ids ext" "reachable cfg ext s" "step cfg ext s t"
    and "p \<in> set (pairs s)" "q \<in> set (pairs t)" "p_id q = p_id p"
  shows "(p_status q = p_status p \<or> edge (p_status p) (p_status q)) \<and>
    p_jd_id q = p_jd_id p \<and> p_cv_id q = p_cv_id p \<and> p_campaign_id q = p_campaign_id p"
proof -
  note ok = reachable_tables_ok [OF assms(1-3)]
  obtain r where r: "r \<in> set (pairs t)" "row_follows (issued ext s) p r"
    using step_follows [OF assms(2,4) ok] assms(5) by (auto simp: table_follows_def)
  have "unique_constraints t" by (rule tables_okD(1) [OF step_tables_ok [OF assms(1,2,4) ok]])
  then have "r = q"
    using distinct_key_eq [OF distinct_keysD(4) r(1) assms(6)] r(2) assms(7)
    by (simp add: row_follows_def same_keys_def)
  then show ?thesis using r(2) by (auto simp: row_follows_def same_keys_def)
qed

theorem step_follows_machine_witness:
  "edge (p_status (hd (pairs demo_ranked))) (p_status (hd (pairs demo_evaluating)))"
proof -
  have "map (\<lambda>p. (p_id p, p_status p)) (pairs demo_ranked) = [(''uuu'', SHORTLISTED)]"
    "map (\<lambda>p. (p_id p, p_status p)) (pairs demo_evaluating) = [(''uuu'', STAGE3_RUNNING)]" by code_simp+
  then obtain p q where "pairs demo_ranked = [p]" "pairs demo_evaluating = [q]" "p_id q = p_id p"
    "p_status p = SHORTLISTED" "p_status q = STAGE3_RUNNING" by auto
  then show ?thesis
    using step_follows_machine [OF settings_ok_default fresh_demo demo_later_reachable(1) demo_later_steps(2), of p q]
    by simp
qed

text \<open>
  C14. A lost lease never comes back: once a pair does not carry a token drawn earlier, every later
  attempt to act under that token, however late and in whatever state, changes nothing and reports the
  loss.
\<close>

theorem lost_lease_is_fenced:
  assumes "settings_ok cfg" "fresh_ids ext" "reachable cfg ext s" "(step cfg ext)\<^sup>*\<^sup>* s t"
    and "pair_by_id i s = Some p" "token \<in> issued ext s" "p_lease_owner p \<noteq> Some token"
  shows "finish_retrieval cfg now i token ver work t = (Inr ''LEASE_LOST'', t) \<and>
    begin_attempt i token t = (Inr None, t) \<and>
    retry_evaluation cfg now attempt delay f i token t = (Inr ''LEASE_LOST'', t) \<and>
    finish_evaluation cfg now dump policy r i token t = (Inr ''LEASE_LOST'', t) \<and>
    snd (delay_evaluation now wait i token t) = t \<and>
    undo_retrieval i token t = t \<and> undo_evaluation i token t = t"
proof -
  note ok = reachable_tables_ok [OF assms(1-3)]
  have p: "p \<in> set (pairs s)" "p_id p = i" using pair_by_id_D [OF assms(5)] by simp_all
  obtain q where q: "q \<in> set (pairs t)" "row_leads (issued ext s) p q" and okt: "tables_ok cfg ext t"
    using steps_lead [OF assms(1,2,4) ok p(1)] by blast
  have key: "p_id q = i" and lost: "p_lease_owner q \<noteq> Some token"
    using q(2) p(2) assms(6,7) by (auto simp: row_leads_def same_keys_def)
  have by_id: "pair_by_id i t = Some q"
    using find_distinct [OF distinct_keysD(4) [OF tables_okD(1) [OF okt]] q(1)] key by (simp add: pair_by_id_def)
  have only: "\<forall>q'\<in>set (pairs t). p_id q' = i \<longrightarrow> q' = q" using lease_at_id [OF okt by_id] by blast
  show ?thesis using fenced_operations [OF by_id lost only] by simp
qed

theorem lost_lease_is_fenced_witness:
  "finish_retrieval default_settings 99 ''uuu'' ''uuuu'' 1 demo_work demo_completed = (Inr ''LEASE_LOST'', demo_completed)"
proof -
  have "map_option (\<lambda>p. (p_id p, p_lease_owner p)) (pair_by_id ''uuu'' demo_ready) = Some (''uuu'', None)" by code_simp
  then obtain p where p: "pair_by_id ''uuu'' demo_ready = Some p" "p_lease_owner p \<noteq> Some ''uuuu''" by auto
  have "uuids demo_ready = 5" by code_simp
  then have "uuid4 demo_ext 4 \<in> issued demo_ext demo_ready" by (simp add: issued_def)
  moreover have "uuid4 demo_ext 4 = ''uuuu''" by code_simp
  ultimately have tok: "''uuuu'' \<in> issued demo_ext demo_ready" by simp
  have run: "demo_step\<^sup>*\<^sup>* demo_ready demo_completed"
    using demo_later_steps by (meson rtranclp.rtrancl_into_rtrancl rtranclp.rtrancl_refl)
  show ?thesis
    using lost_lease_is_fenced [OF settings_ok_default fresh_demo demo_reachable(7) run p(1) tok p(2)] by blast
qed

text \<open>
  C15. The worker tasks compose: started in a reachable state, and with any runs of other sessions
  between their transactions, the Stage 0, retrieval and Stage 3 tasks and a coordinator pass over a
  started campaign end in a reachable state.
\<close>

theorem tasks_stay_reachable:
  assumes "settings_ok cfg" "fresh_ids ext" "reachable cfg ext s" "interleaves cfg ext race"
    and "campaign_by_id i s = Some c" "c_status c \<noteq> C_INTAKE"
  shows "reachable cfg ext (snd (execute_campaign_stage0 cfg now later race ingest v s)) \<and>
    reachable cfg ext (snd (execute_campaign_pair cfg now race stage1 stage2 p token s)) \<and>
    reachable cfg ext (snd (execute_campaign_stage3 cfg now jitter race dump adm evaluate p token s)) \<and>
    reachable cfg ext (snd (coordinate_one_campaign cfg ext now race locked published i s))"
  by (intro conjI; rule reachable_steps [OF _ assms(3)])
    (rule stage0_task_run [OF assms(4)] retrieval_task_run [OF assms(4)] evaluation_task_run [OF assms(4)]
      coordinator_pass_run [OF assms(1,2,4) reachable_tables_ok [OF assms(1-3)] assms(5,6)])+

theorem tasks_stay_reachable_witness:
  "reachable default_settings demo_ext
     (snd (coordinate_one_campaign default_settings demo_ext 20 id (\<lambda>_. False) (\<lambda>_. True) [] demo_extracted))"
proof -
  have "map_option c_status (campaign_by_id [] demo_extracted) = Some C_RUNNING" by code_simp
  then obtain c where "campaign_by_id [] demo_extracted = Some c" "c_status c \<noteq> C_INTAKE" by auto
  then show ?thesis
    using tasks_stay_reachable [OF settings_ok_default fresh_demo demo_reachable(5) interleaves_id] by blast
qed

text \<open>
  C16. Crashed workers are recovered: after one admission pass of a running campaign no retrieval
  lease of it has run out, and after one Stage 3 admission no Stage 3 lease, so a pair whose worker
  died is claimed again or fails.
\<close>

theorem expired_leases_are_reclaimed:
  assumes "settings_ok cfg" "campaign_by_id i s = Some c" "c_status c = C_RUNNING"
  shows "no_lapsed RUNNING now i (snd (dispatch_pairs cfg ext now locked i s)) \<and>
    no_lapsed STAGE3_RUNNING now i (snd (dispatch_stage3 cfg ext now locked i s))"
  using dispatch_pairs_no_lapsed [OF assms] dispatch_stage3_no_lapsed [OF assms] by blast

theorem expired_leases_are_reclaimed_witness:
  "\<not> no_lapsed RUNNING 100000 [] demo_running \<and>
   no_lapsed RUNNING 100000 [] (snd (dispatch_pairs default_settings demo_ext 100000 (\<lambda>_. False) [] demo_running))"
proof -
  have "\<not> no_lapsed RUNNING 100000 [] demo_running" by code_simp
  moreover have "map_option c_status (campaign_by_id [] demo_running) = Some C_RUNNING" by code_simp
  ultimately show ?thesis using expired_leases_are_reclaimed [OF settings_ok_default, of "[]" demo_running] by auto
qed

text \<open>
  C17. Duplicate deliveries are harmless: whatever results, failures, delays or withdrawals arrive
  under one Stage 3 token, in any number and order, the tables end as if at most one of them had
  arrived; the same holds for retrieval.
\<close>

theorem duplicate_deliveries:
  "fold (settle_evaluation cfg i token) ws s \<in> insert s ((\<lambda>w. settle_evaluation cfg i token w s) ` set ws) \<and>
   fold (settle_retrieval cfg i token) rs s \<in> insert s ((\<lambda>w. settle_retrieval cfg i token w s) ` set rs)"
  using evaluation.settle_all [of cfg i token ws s] retrieval.settle_all [of cfg i token rs s] by auto

section \<open>Selection\<close>

text \<open>
  C18. The campaign barrier selects the candidates of the synchronous pipeline: for the pool of a JD,
  \<open>rank_and_filter_candidate_batch\<close> succeeds with the JD's cap, and a pair is shortlisted by the
  barrier exactly when its payload is among the batch's result.
\<close>

theorem barrier_matches_batch:
  assumes "settings_ok cfg" "fresh_ids ext" "reachable cfg ext s" "finalize_jd now i s = Inr (True, t)"
    and "jd_by_id i s = Some j" "(p, k) \<in> set (pool_rows i s)" "q \<in> set (pairs t)" "p_id q = p_id p"
  shows "\<exists>sel. rank_and_filter_candidate_batch (j_stage3_cap j) (map payload (pool_rows i s)) = Inr sel \<and>
    (p_status q = SHORTLISTED \<longleftrightarrow> payload (p, k) \<in> set sel)"
  using barrier_selects_batch [OF reachable_tables_ok [OF assms(1-3)] assms(4-8)] .

theorem barrier_matches_batch_witness:
  "\<exists>sel. rank_and_filter_candidate_batch 2 (map payload (pool_rows ''u'' demo_ready)) = Inr sel \<and>
     payload (hd (pool_rows ''u'' demo_ready)) \<in> set sel"
proof -
  have shape: "map (\<lambda>(p, k). (p_id p, k)) (pool_rows ''u'' demo_ready) = [(''uuu'', ''cv'')]"
    "map (\<lambda>p. (p_id p, p_status p)) (pairs demo_ranked) = [(''uuu'', SHORTLISTED)]"
    "map_option j_stage3_cap (jd_by_id ''u'' demo_ready) = Some 2"
    "map_sum (\<lambda>_. ()) fst (finalize_jd 40 ''u'' demo_ready) = Inr True" by code_simp+
  obtain p k where p: "pool_rows ''u'' demo_ready = [(p, k)]" "p_id p = ''uuu''" using shape(1) by auto
  obtain q where q: "pairs demo_ranked = [q]" "p_id q = ''uuu''" "p_status q = SHORTLISTED" using shape(2) by auto
  obtain j where j: "jd_by_id ''u'' demo_ready = Some j" "j_stage3_cap j = 2" using shape(3) by auto
  have run: "finalize_jd 40 ''u'' demo_ready = Inr (True, demo_ranked)"
    using shape(4) unfolding demo_ranked_def table_of_def by (cases "finalize_jd 40 ''u'' demo_ready") auto
  show ?thesis
    using barrier_matches_batch [OF settings_ok_default fresh_demo demo_reachable(7) run j(1), of p k q] p q j(2) by simp
qed

text \<open>
  C19. Selection does not depend on arrival order: two batches with the same candidates in any order
  give the same ranked selection, at most \<open>n\<close> candidates, all eligible, best keys first, and no
  eligible candidate left out ranks before a selected one.
\<close>

theorem batch_selection:
  assumes "rank_and_filter_candidate_batch n xs = Inr ys" "distinct (map payload_id xs)"
  shows "length ys \<le> nat n \<and> sorted (map rank_key_of ys) \<and> list_all eligible ys \<and>
    (mset zs = mset xs \<longrightarrow> rank_and_filter_candidate_batch n zs = Inr ys) \<and>
    (x \<in> set xs \<and> eligible x \<and> x \<notin> set ys \<longrightarrow> length ys = nat n \<and> (\<forall>y\<in>set ys. rank_key_of y \<le> rank_key_of x))"
proof -
  note top = rank_and_filter_eq_top [OF assms(1)]
  have perm: "rank_and_filter_candidate_batch n zs = Inr ys" if "mset zs = mset xs"
  proof -
    have "sorted_by candidate_sort_key xs = Inr (sort_key rank_key_of xs)"
      using assms(1) by (auto simp: rank_and_filter_candidate_batch_def rbind_Inr_conv dest: sorted_by_rank_key split: if_splits)
    then have "candidate_sort_key d = Inr (rank_key_of d)" if "d \<in> set xs" for d
      using sorted_by_Inr(2) [OF _ that] by (simp add: rank_key_of_def)
    then have "candidate_sort_key d = Inr (rank_key_of d)" if "d \<in> set zs" for d
      using that mset_eq_setD [OF \<open>mset zs = mset xs\<close>] by blast
    then have "sorted_by candidate_sort_key zs = Inr (sort_key rank_key_of zs)" by (rule sorted_by_total)
    moreover have "sort_key rank_key_of xs = sort_key rank_key_of zs"
      using shortlist.ranked_order_independent [OF that [symmetric] assms(2)] .
    ultimately show ?thesis
      using top by (simp add: rank_and_filter_candidate_batch_def shortlist.top_def)
  qed
  moreover have "length ys = nat n \<and> (\<forall>y\<in>set ys. rank_key_of y \<le> rank_key_of x)"
    if out: "x \<in> set xs" "eligible x" "x \<notin> set ys"
  proof
    show "length ys = nat n"
      using shortlist.top_all [of "nat n" xs x] shortlist.top_length [of "nat n" xs] out top(1) by (meson le_neq_implies_less)
    show "\<forall>y\<in>set ys. rank_key_of y \<le> rank_key_of x"
      using shortlist.top_best [of _ "nat n" xs x] out top(1) by blast
  qed
  moreover have "list_all eligible ys" using shortlist.top_subset top(1) by (auto simp: list_all_iff)
  ultimately show ?thesis
    using shortlist.top_length [of "nat n" xs] shortlist.top_sorted [of "nat n" xs] top(1) by simp
qed

theorem batch_selection_witness:
  "rank_and_filter_candidate_batch 1 [demo_evidence] = Inr [demo_evidence] \<and> sorted (map rank_key_of [demo_evidence])"
proof -
  have run: "rank_and_filter_candidate_batch 1 [demo_evidence] = Inr [demo_evidence]" by code_simp
  show ?thesis using run batch_selection [OF run, of "[]" "[]"] by simp
qed

section \<open>The recruiter's side\<close>

text \<open>
  C20. No decision on a candidate is lost: of two batches of reviews that both name a pair, whatever happens
  in between, the later one expected a greater version, so that a decision made on an outdated view is
  refused. The events of a pair record its versions 1, 2, 3 and so on without a gap, and the review shown is
  the last of them.
\<close>

theorem no_review_is_lost:
  assumes "ws_reviews ws0 = []" "ws_events ws0 = []" "ws_step\<^sup>*\<^sup>* ws0 ws"
    "validate_update raw = Inr u" "update_reviews ids now p u ws = Inr (shown, ws1)" "(i, n) \<in> set (up_versions u)"
    "ws_step\<^sup>*\<^sup>* ws1 ws2" "validate_update raw' = Inr u'" "update_reviews ids' now' p' u' ws2 = Inr (shown', ws3)"
    "(i, m) \<in> set (up_versions u')"
  shows "n < m \<and> map rv_version (review_log i ws3) = map int [1..<Suc (length (review_log i ws3))] \<and>
    review_view (review_of i ws3) = last (review_log i ws3)"
proof -
  have "n < m" "trail_ok i ws3"
    using later_review_seen [OF steps_trail [OF assms(3) empty_trail [OF assms(1,2)]] assms(4-10)] by blast+
  moreover have "review_log i ws3 \<noteq> []"
    using update_reviews_counts(1) [OF assms(8,9), of i] imageI [OF assms(10), of fst] by auto
  ultimately show ?thesis by (simp only: trail_ok_def if_False simp_thms)
qed

theorem no_review_is_lost_witness:
  "\<exists>ws3. review_view (review_of demo_pair_id ws3) = last (review_log demo_pair_id ws3) \<and>
     map rv_version (review_log demo_pair_id ws3) = map int [1..<Suc (length (review_log demo_pair_id ws3))]"
proof -
  obtain shown ws1 where one: "update_reviews (\<lambda>_. ''event'') 5 demo_admin demo_hold demo_workspace = Inr (shown, ws1)"
    using demo_reviews_stored(1) by (cases after_hold) (auto simp: after_hold_def is_error_def)
  obtain shown' ws3 where two: "update_reviews (\<lambda>_. ''event2'') 6 demo_admin demo_decline ws1 = Inr (shown', ws3)"
    using demo_reviews_stored(2) one by (cases after_decline) (auto simp: after_decline_def after_hold_def is_error_def)
  have "ws_reviews demo_workspace = []" "ws_events demo_workspace = []" by (simp_all add: demo_workspace_def)
  moreover have "(demo_pair_id, 0) \<in> set (up_versions demo_hold)" "(demo_pair_id, 1) \<in> set (up_versions demo_decline)"
    by (simp_all add: demo_hold_def demo_decline_def)
  ultimately show ?thesis
    using no_review_is_lost [OF _ _ rtranclp.rtrancl_refl demo_updates_valid(1) one _ rtranclp.rtrancl_refl demo_updates_valid(2) two]
    by blast
qed

text \<open>
  C21. An approved job description quotes its document: in whatever order uploads, extractions, readings and
  approvals of any users interleave, every target of a stored version, revised ones included, quotes text
  that occurs in pages extracted for its draft; the draft exists, is approved, and belongs to the version's
  owner.
\<close>

theorem approved_quotes_are_sourced:
  assumes "drafts_reach cfg db L" "v \<in> set (dd_approved db)" "quote \<in> set (quotes_of (ap_profile v))"
  shows "(\<exists>pages. (av_draft v, pages) \<in> L \<and> contains (normal_spaces quote) (draft_source pages)) \<and>
    (\<exists>d. d \<in> set (dd_drafts db) \<and> d_id d = av_draft v \<and> d_owner d = ap_owner v \<and> d_status d = D_APPROVED)"
  using reachable_drafts_ok [OF assms(1)] assms(2,3) by (auto simp: drafts_ok_def version_ok_def version_sourced_def)

theorem approved_quotes_are_sourced_witness:
  "\<exists>pages. (''draft'', pages) \<in> {(''draft'', [demo_jd_page])} \<and>
     contains (normal_spaces ''Build payment  APIs'') (draft_source pages)"
proof -
  obtain v where v: "dd_approved demo_drafts = [v]" "av_draft v = ''draft''" "quotes_of (ap_profile v) = [''Build payment  APIs'']"
    by (rule demo_approved_row)
  then have "v \<in> set (dd_approved demo_drafts)" "''Build payment  APIs'' \<in> set (quotes_of (ap_profile v))" by simp_all
  from approved_quotes_are_sourced [OF demo_drafts_reach this] show ?thesis unfolding v(2) by blast
qed



text \<open>
  C23. The pool of a role is deterministic: whatever order the database returns the rows in, the same rows
  are shown in the same order. They are the rows that pass the filters, each candidate once; candidates
  without a value for the chosen column come last, the others by that value in the chosen direction, and
  equal ones by their identifier.
\<close>

theorem pool_is_deterministic:
  assumes "settings_ok cfg" "fresh_ids ext" "reachable cfg ext (ws_db ws)"
    "mset rows = mset (role_rows ws campaign_id jd_key search)"
  shows "fst (project pt f rows) = fst (project pt f (role_rows ws campaign_id jd_key search)) \<and>
    sorted_wrt (pool_before pt f) (fst (project pt f rows)) \<and>
    distinct (map pw_candidate (fst (project pt f rows))) \<and>
    mset (fst (project pt f rows)) = mset (map row_view (filter (\<lambda>row. matches_row pt (row_view row) f
      (case row of (_, _, _, _, has_text) \<Rightarrow> if has_text then pf_search f else [])) rows))"
proof -
  have ok: "unique_constraints (ws_db ws)" "foreign_keys (ws_db ws)"
    using reachable_tables_ok [OF assms(1-3)] by (simp_all add: tables_okD)
  have "sorted_wrt (pool_before pt f) (fst (project pt f rows))"
    unfolding project_def fst_conv by (rule sorted_pool_order)
  with project_determined [OF ok assms(4)] project_candidates [OF ok assms(4)] project_rows [of pt f rows]
  show ?thesis by (intro conjI)
qed

theorem pool_is_deterministic_witness:
  "fst (project plain_texts default_filters (rev (role_rows demo_workspace demo_campaign_id ''jd'' []))) =
     fst (project plain_texts default_filters (role_rows demo_workspace demo_campaign_id ''jd'' [])) \<and>
   length (role_rows demo_workspace demo_campaign_id ''jd'' []) = 1"
proof -
  have "reachable default_settings demo_ext (ws_db demo_workspace)"
    using demo_later_reachable(4) by (simp add: demo_workspace_def)
  then show ?thesis
    using pool_is_deterministic [OF settings_ok_default fresh_demo, of demo_workspace
      "rev (role_rows demo_workspace demo_campaign_id ''jd'' [])" demo_campaign_id "''jd''" "[]"
      plain_texts default_filters] demo_pool_rows by simp
qed

section \<open>Reservations and documents\<close>

text \<open>
  C24. Campaign reservations are idempotent: repeating the request under the same key returns the
  first campaign and writes nothing, and a different request under that key is refused.
\<close>

theorem reserve_campaign_idempotent:
  assumes "reserve_campaign ext now race owner h jobs policies (Some key) cap nm s = Inr ((True, c), t)" "key \<noteq> []"
  shows "reserve_campaign ext later race' owner h jobs policies (Some key) cap nm' t = Inr ((False, c), t) \<and>
    (h' \<noteq> h \<longrightarrow> reserve_campaign ext later race' owner h' jobs policies (Some key) cap nm' t =
       Inl (ValueError ''Idempotency key belongs to a different campaign request''))"
proof -
  have key: "nonempty (Some key)" using assms(2) by (simp add: nonempty_def)
  obtain js where c: "c_request_hash c = h" "c_owner_id c = owner" "c_idempotency_key c = Some key"
    and ins: "insert_campaign c js (race s) = Some t"
    using assms(1) by (auto simp: reserve_campaign_def rbind_Inr_conv Let_def new_campaign_def key split: if_splits option.splits)
  have "find (\<lambda>c. c_owner_id c = owner \<and> c_idempotency_key c = Some key) (campaigns (race s)) = None"
    "campaigns t = campaigns (race s) @ [c]"
    using ins c by (auto simp: insert_campaign_def find_None_iff list_ex_iff split: if_splits)
  then have "campaign_by_key owner (Some key) t = Some c"
    using c by (simp add: campaign_by_key_def find_append)
  then show ?thesis
    using assms(1) c key by (auto simp: reserve_campaign_def rbind_Inr_conv Let_def split: if_splits option.splits)
qed

theorem reserve_campaign_idempotent_witness:
  "reserve_campaign demo_ext 9 id ''owner'' ''hash'' [[(''job_id'', JStr ''jd'')]] [[]] (Some ''key'') 2 None demo_reserved =
     Inr ((False, snd (fst (projr demo_reserve))), demo_reserved)"
proof -
  have "map_sum (\<lambda>_. ()) (fst \<circ> fst) demo_reserve = Inr True" by code_simp
  then have "demo_reserve = Inr ((True, snd (fst (projr demo_reserve))), demo_reserved)"
    by (rule result_shape) (simp add: demo_reserved_def table_of_def)
  from reserve_campaign_idempotent [OF this [unfolded demo_reserve_def]] show ?thesis
    by (simp add: demo_reserve_def)
qed

text \<open>
  C25. A document fans out once: reserving a new CV adds exactly one pending pair for every JD of its
  campaign, and an exact retry returns the same CV without writing.
\<close>

theorem reserve_cv_fans_out:
  assumes "settings_ok cfg" "fresh_ids ext" "reachable cfg ext s"
    and "reserve_cv ext now id i owner k fname hash pdf s = Inr ((True, v), t)"
    and "j \<in> set (jds t)" "j_campaign_id j = i"
  shows "count_where (\<lambda>p. p_jd_id p = j_id j \<and> p_cv_id p = v_id v) (pairs t) = 1 \<and>
    (\<exists>p\<in>set (pairs t). p_jd_id p = j_id j \<and> p_cv_id p = v_id v \<and> p_status p = PENDING) \<and>
    reserve_cv ext later id i owner k fname hash pdf' t = Inr ((False, v), t)"
proof -
  obtain ps where v: "v_campaign_id v = i" "v_candidate_id v = k" "v_source_filename v = fname" "v_content_hash v = hash"
    "v_stage0_status v = S0_PENDING"
    and t: "cvs t = cvs s @ [v]" "pairs t = pairs s @ ps" "jds t = jds s" "campaigns t = campaigns s"
    and none: "cv_by_candidate i k s = None" and get: "\<exists>c. get_campaign i owner s = Inr c \<and> c_status c = C_INTAKE"
    using assms(4) by (auto simp: reserve_cv_def rbind_Inr_conv insert_cv_def Let_def new_cv_def split: if_splits option.splits)
  have okt: "tables_ok cfg ext t"
    using step_tables_ok [OF assms(1,2) step.reserve_cv [OF assms(4)] reachable_tables_ok [OF assms(1-3)]] .
  obtain p where p: "p \<in> set (pairs t)" "p_jd_id p = j_id j" "p_cv_id p = v_id v"
    using tables_okD(6) [OF okt] assms(5,6) v(1) t(1) by (fastforce simp: pairs_complete_def)
  have d: "distinct (map (\<lambda>p. (p_jd_id p, p_cv_id p)) (pairs t))"
    using tables_okD(1) [OF okt] by (simp add: unique_constraints_def)
  have "count_where (\<lambda>p. p_jd_id p = j_id j \<and> p_cv_id p = v_id v) (pairs t) \<le> 1"
    using count_where_key_le [OF d, of "[(j_id j, v_id v)]"] by simp
  moreover have "count_where (\<lambda>p. p_jd_id p = j_id j \<and> p_cv_id p = v_id v) (pairs t) \<noteq> 0"
    using p by (auto simp: count_where_zero)
  moreover have "p_status p = PENDING"
    using rows_okD(2) [OF tables_okD(4) [OF okt] p(1), of v] t(1) p(3) v(5) by simp
  moreover have "cv_by_candidate i k t = Some v"
    using none v(1,2) by (auto simp: cv_by_candidate_def t(1) find_append)
  then have "reserve_cv ext later id i owner k fname hash pdf' t = Inr ((False, v), t)"
    using get v(3,4) t(4) by (auto simp: reserve_cv_def get_campaign_def campaign_by_id_def)
  ultimately show ?thesis using p by auto
qed

theorem reserve_cv_fans_out_witness:
  "count_where (\<lambda>p. p_jd_id p = ''u'' \<and> p_cv_id p = ''uu'') (pairs demo_added) = 1"
proof -
  have "map_sum (\<lambda>_. ()) (fst \<circ> fst) demo_add = Inr True" by code_simp
  then have r: "demo_add = Inr ((True, snd (fst (projr demo_add))), demo_added)"
    by (rule result_shape) (simp add: demo_added_def table_of_def)
  have i: "v_id (snd (fst (projr demo_add))) = ''uu''" by code_simp
  have "map (\<lambda>j. (j_id j, j_campaign_id j)) (jds demo_added) = [(''u'', [])]" by code_simp
  then obtain j where "j \<in> set (jds demo_added)" "j_id j = ''u''" "j_campaign_id j = []" by auto
  then show ?thesis
    using reserve_cv_fans_out [OF settings_ok_default fresh_demo demo_reachable(1) r [unfolded demo_add_def], of j] i
    by (simp add: demo_add_def)
qed

section \<open>Scores and outcomes\<close>

text \<open>
  C26. The composite score is the weighted mean of the four category scores to the cent: it exists
  exactly when all four lie between 0 and 100, then lies there too, and differs from the exact
  weighted mean by at most half a cent.
\<close>

theorem composite_score_exact:
  assumes "weighted_score (output_scores out) = Inr x"
  shows "output_ok out \<and> 0 \<le> x \<and> x \<le> 100 \<and>
    \<bar>x - (40 * ca_score (skills out) + 30 * ca_score (experience out) + 20 * ca_score (projects out) +
       10 * ca_score (education out)) / 100\<bar> \<le> 1 / 200"
proof -
  let ?w = "weighted_sum (ca_score (skills out)) (ca_score (experience out)) (ca_score (projects out)) (ca_score (education out))"
  have ok: "output_ok out" and x: "x = quantize_half_up 2 ?w"
    using assms by (auto simp: weighted_score_output output_ok_def)
  have "score_ok ?w" using ok by (intro weighted_sum_score) (auto simp: output_ok_def)
  then have "\<bar>x - ?w\<bar> \<le> 1 / 200" using quantize_half_up_near [of ?w 2] x by (simp add: score_ok_def)
  moreover have "?w = (40 * ca_score (skills out) + 30 * ca_score (experience out) + 20 * ca_score (projects out) +
       10 * ca_score (education out)) / 100"
    by (simp add: weighted_sum_def field_simps)
  ultimately show ?thesis using ok weighted_score_output_bounds [OF assms] by (simp add: score_ok_def)
qed

theorem composite_score_exact_witness:
  "weighted_score (output_scores demo_output) = Inr 80 \<and> (80 :: rat) \<le> 100"
proof -
  have run: "weighted_score (output_scores demo_output) = Inr 80" by code_simp
  show ?thesis using run composite_score_exact [OF run] by blast
qed

text \<open>
  C27. Every accepted answer gets an outcome, and a consistent one: when the provider's JSON has the shape
  that is asked for and its citations were checked, the scoring never raises; the outcome is a success with
  the tier of its score exactly when neither the verification nor a severe flag asks for review, and
  otherwise a review without a tier.
\<close>

theorem scoring_is_total:
  assumes "resolved_output ec reg i data = Inr out" "verify_evidence out reg i signals require whole = Inr v"
  shows "\<exists>e x. score_evaluation i out v m = Inr e \<and> fe_composite_score e = Some x \<and>
    weighted_score (output_scores out) = Inr x \<and> outcome_consistent e \<and>
    fe_evaluation_status e = (if needs_review out v then E_REVIEW_REQUIRED else E_SUCCESS) \<and>
    fe_tier e = (if needs_review out v then None else
      Some (if 75 \<le> x then TIER_1 else if 55 \<le> x then TIER_2 else TIER_3))"
proof -
  have "registry_of_candidate i v" using verify_evidence_Inr(1,2) [OF assms(2)] by (simp add: registry_of_candidate_def)
  then obtain e where e: "score_evaluation i out v m = Inr e"
    using score_evaluation_accepts [OF resolved_output_ok [OF assms(1)]] by blast
  note f = score_evaluation_Inr [OF e]
  obtain x where x: "fe_composite_score e = Some x" using f(4) by blast
  show ?thesis by (rule exI [of _ e], rule exI [of _ x]) (simp add: e x f(3) [unfolded x option.sel] f(5,6,8))
qed

theorem scoring_is_total_witness:
  "\<exists>v e. verify_evidence sample_output sample_registry ''cv'' [] True True = Inr v \<and>
     score_evaluation ''cv'' sample_output v False = Inr e \<and> fe_tier e = Some TIER_1"
proof -
  obtain v where v: "verify_evidence sample_output sample_registry ''cv'' [] True True = Inr v" "ev_review_reasons v = []"
    using sample_verified by blast
  have "\<not> needs_review sample_output v" using v(2) by (simp add: needs_review_def sample_output_def)
  moreover have "weighted_score (output_scores sample_output) = Inr 80" by code_simp
  ultimately show ?thesis using v(1) scoring_is_total [OF sample_resolved v(1), of False] by auto
qed

section \<open>Provider admission\<close>

text \<open>
  C28. The limiter keeps the provider's budget: an admission or a release with the configured limits
  keeps at most the allowed requests, tokens and active calls in the window, and a limiter whose
  entries are all old admits the next request.
\<close>

theorem limiter_within_budget:
  assumes "settings_ok cfg" and ok: "limiter_ok (PROVIDER_REQUESTS_PER_MINUTE cfg) (PROVIDER_TOKENS_PER_MINUTE cfg)
      (CAMPAIGN_STAGE3_GLOBAL_INFLIGHT cfg) l"
    and "token \<notin> fst ` set (requests l)" "token \<notin> fst ` set (active l)" "0 \<le> estimated_tokens cfg"
  shows "limiter_ok (PROVIDER_REQUESTS_PER_MINUTE cfg) (PROVIDER_TOKENS_PER_MINUTE cfg)
      (CAMPAIGN_STAGE3_GLOBAL_INFLIGHT cfg) (snd (admit cfg now token l)) \<and>
    limiter_ok (PROVIDER_REQUESTS_PER_MINUTE cfg) (PROVIDER_TOKENS_PER_MINUTE cfg)
      (CAMPAIGN_STAGE3_GLOBAL_INFLIGHT cfg) (release done l) \<and>
    ((\<forall>t\<in>snd ` set (requests l). t \<le> now - 60) \<and> (\<forall>t\<in>snd ` set (active l). t \<le> now) \<longrightarrow>
      fst (fst (admit cfg now token l)) = Some token)"
proof -
  have "limiter_ok (PROVIDER_REQUESTS_PER_MINUTE cfg) (PROVIDER_TOKENS_PER_MINUTE cfg)
      (CAMPAIGN_STAGE3_GLOBAL_INFLIGHT cfg) (snd (admit cfg now token l))"
    using admit_script_ok [OF ok assms(5,3,4)] by (simp add: admit_def split: prod.split) (metis snd_conv)
  moreover have "map fst (tokens l) = map fst (requests l)" using ok by (simp add: limiter_ok_def)
  ultimately show ?thesis using release_ok [OF ok] admit_idle [OF assms(1)] by blast
qed

theorem limiter_within_budget_witness:
  "fst (fst (admit default_settings 100 ''t'' empty_limiter)) = Some ''t'' \<and>
   limiter_ok 60 120000 2 (snd (admit default_settings 100 ''t'' empty_limiter))"
proof -
  have c: "PROVIDER_REQUESTS_PER_MINUTE default_settings = 60" "PROVIDER_TOKENS_PER_MINUTE default_settings = 120000"
    "CAMPAIGN_STAGE3_GLOBAL_INFLIGHT default_settings = 2" by code_simp+
  have "0 \<le> estimated_tokens default_settings" by code_simp
  then show ?thesis
    using limiter_within_budget [OF settings_ok_default, of empty_limiter "''t''" 100] limiter_ok_empty [of 60 120000 2]
    unfolding c by (simp add: empty_limiter_def)
qed

section \<open>Where the code falls short\<close>

text \<open>
  C29. Recovery of a crashed extraction defeats itself: the recovery scan republishes a CV that is
  still marked as running and refreshes its time stamp, so the task it publishes finds a fresh lease
  and skips the document, for as long as the broker delivers within the lease time.
\<close>

theorem recovered_document_is_skipped:
  assumes "cv_by_id i s = Some v" "v_stage0_status v = S0_RUNNING"
    and "i \<in> set (fst (recover_campaign_stage0 cfg now queued locked s))" "later < now + lease_seconds cfg"
  shows "execute_campaign_stage0 cfg later l race ingest i (snd (recover_campaign_stage0 cfg now queued locked s)) =
    (Inr ''ALREADY_RUNNING'', snd (recover_campaign_stage0 cfg now queued locked s))"
proof -
  let ?t = "snd (recover_campaign_stage0 cfg now queued locked s)"
  let ?is = "fst (recover_campaign_stage0 cfg now queued locked s)"
  have "?t = update_cvs (\<lambda>v. v_id v \<in> set ?is) (\<lambda>v. v\<lparr>v_updated_at := now\<rparr>) s"
    by (simp add: recover_campaign_stage0_def Let_def)
  then have "cv_by_id i ?t = Some (v\<lparr>v_updated_at := now\<rparr>)"
    using assms(1,3) cv_by_id_D(2) [OF assms(1)] by (simp add: cv_by_id_def find_update_where)
  then show ?thesis using assms(2,4) by (simp add: execute_campaign_stage0_def claim_stage0_def)
qed

theorem recovered_document_is_skipped_witness:
  "fst (recover_campaign_stage0 default_settings 5000 [] (\<lambda>_. False) demo_claimed) = [''uu''] \<and>
   fst (execute_campaign_stage0 default_settings 5001 5002 id (\<lambda>_. Extraction_Raised TimeoutError) ''uu''
     (snd (recover_campaign_stage0 default_settings 5000 [] (\<lambda>_. False) demo_claimed))) = Inr ''ALREADY_RUNNING''"
proof -
  have r: "fst (recover_campaign_stage0 default_settings 5000 [] (\<lambda>_. False) demo_claimed) = [''uu'']"
    "map_option v_stage0_status (cv_by_id ''uu'' demo_claimed) = Some S0_RUNNING" by code_simp+
  then obtain v where v: "cv_by_id ''uu'' demo_claimed = Some v" "v_stage0_status v = S0_RUNNING" by auto
  have "5001 < 5000 + lease_seconds default_settings" by code_simp
  then show ?thesis using recovered_document_is_skipped [OF v] r(1) by simp
qed



section \<open>Screening runs\<close>

text \<open>
  C31. The synchronous pipeline accounts for every candidate: with distinct candidates, rules that
  resolve and a cutoff in range it always returns, whatever the models and the language model do, and
  its four response lists, its outcomes and its seventeen metrics pass the check made before publication.
\<close>

theorem screening_run_reconciles:
  assumes "distinct (map i_candidate_id raw)" "raw \<noteq> []" "jp_profile job \<noteq> []"
    and "resolve_hard_filters (jp_profile job) explicit = Inr rules" "1 \<le> cutoff" "cutoff \<le> 15"
    and "rmap consistent_authorization raw = Inr cands" "\<not> (sv_production env \<and> \<not> sv_postgres_backend env)"
  shows "\<exists>res. run_end_to_end_screening_pipeline env job explicit cutoff views raw = Inr res \<and>
    map x_id (sr_outcomes res) = map i_candidate_id raw \<and> validate_accounting res (map i_candidate_id raw) = Inr ()"
  by (rule run_reconciles [OF assms])

theorem screening_run_reconciles_witness:
  "\<exists>res. run_end_to_end_screening_pipeline demo_env (demo_job demo_profile) (JDict []) 15 [] [demo_candidate] = Inr res \<and>
    map x_id (sr_outcomes res) = [''c1''] \<and> validate_accounting res [''c1''] = Inr ()"
proof -
  obtain rules cands where "resolve_hard_filters (jp_profile (demo_job demo_profile)) (JDict []) = Inr rules"
    "rmap consistent_authorization [demo_candidate] = Inr cands"
    using demo_rules demo_authorization by (auto simp: demo_job_def)
  from screening_run_reconciles [OF _ _ _ this(1) _ _ this(2), where cutoff = 15 and env = demo_env and views = "[]"]
  show ?thesis by (simp add: demo_job_def demo_profile_def demo_env_def demo_candidate_def)
qed







text \<open>
  C35. The synchronous endpoint has no lease: when a run is published while a second request, which found
  it older than five minutes, executes it again, the second publication raises and its handler turns the
  status of the published run to FAILED.
\<close>

theorem late_run_overwrites_status:
  assumes "run_published i db" "u_id r = i" "sr_outcomes res \<noteq> []"
    and "\<And>o'. o' \<in> set (au_outcomes db) \<Longrightarrow> co_run o' = i \<Longrightarrow> co_outcome o' \<noteq> ''PENDING''"
  shows "\<exists>e db'. publish_or_fail r (Inr (res, ids, response)) db = (Inl e, db') \<and>
    run_by_id i db' = map_option (\<lambda>q. q\<lparr>u_status := R_FAILED\<rparr>) (run_by_id i db)"
  by (rule late_run_fails_published [OF assms])

theorem late_run_overwrites_status_witness:
  "\<exists>e db'. publish_or_fail (demo_run R_RUNNING 0 None) (Inr (pdf_failure_result ''c1'' [] ''code'' False, [''c1''], []))
      (demo_stored (demo_run R_COMPLETED 0 None)) = (Inl e, db') \<and>
    run_by_id ''r1'' db' = Some ((demo_run R_COMPLETED 0 None)\<lparr>u_status := R_FAILED\<rparr>)"
  using late_run_overwrites_status [of "''r1''" "demo_stored (demo_run R_COMPLETED 0 None)" "demo_run R_RUNNING 0 None"
      "pdf_failure_result ''c1'' [] ''code'' False" "[''c1'']" "[]"]
  by (simp add: run_published_def) (simp add: demo_stored_def demo_outcome_def pdf_failure_result_def Let_def)

section \<open>Accounts\<close>

text \<open>
  C36. Logout ends every session: after it, and after whatever logins and logouts follow, a token issued
  for the account up to then is refused, whether it comes as a cookie or as a bearer.
\<close>

theorem logout_revokes_tokens:
  assumes "distinct (map ru_id us)" "user_by_id (pr_id p) us = Some u" "logout split_url rq p us = (Inr (), vs)" "account_step\<^sup>*\<^sup>* vs ws"
    and "cr_decode cr now token = Some claims" "dget claims ''sub'' JNull = JStr (pr_id p)"
      "dget claims ''ver'' JNull = JNum (of_int v)" "v \<le> ru_token_version u"
  shows "token_principal cr now rq' ws token = Inl unauthorized"
proof -
  let ?u = "u\<lparr>ru_token_version := ru_token_version u + 1\<rparr>"
  have id: "ru_id u = pr_id p" using assms(2) by (auto simp: user_by_id_def find_Some_iff)
  have vs: "vs = put_user ?u us" using assms(2,3) by (auto simp: logout_def split: sum.splits)
  have "user_by_id (pr_id p) vs = Some ?u" unfolding vs using find_put_user [of ?u us u] assms(2) id by simp
  moreover have "versions_le vs ws" using account_steps_versions [OF assms(4)] assms(1) by (simp add: vs)
  ultimately obtain w where "user_by_id (pr_id p) ws = Some w" "ru_token_version ?u \<le> ru_token_version w"
    using versions_leD by metis
  then show ?thesis using outdated_token [OF assms(5,6,7)] assms(8) by simp
qed

theorem logout_revokes_tokens_witness:
  "token_principal demo_crypto 10 demo_browser [demo_user] ''token'' = Inr \<lparr>pr_id = ''u1'', pr_role = ''recruiter''\<rparr> \<and>
   token_principal demo_crypto 10 demo_browser
     (snd (logout (\<lambda>_. ([], [])) demo_browser \<lparr>pr_id = ''u1'', pr_role = ''recruiter''\<rparr> [demo_user])) ''token'' = Inl unauthorized"
proof -
  let ?p = "\<lparr>pr_id = ''u1'', pr_role = ''recruiter''\<rparr>"
  have before: "token_principal demo_crypto 10 demo_browser [demo_user] ''token'' = Inr ?p"
    by (simp add: token_principal_def demo_crypto_def demo_claims_def access_claims_def dget_Cons user_by_id_def demo_user_def demo_browser_def)
  have out: "logout (\<lambda>_. ([], [])) demo_browser ?p [demo_user] = (Inr (), snd (logout (\<lambda>_. ([], [])) demo_browser ?p [demo_user]))"
    by (simp add: logout_def same_origin_def demo_browser_def user_by_id_def demo_user_def)
  have "cr_decode demo_crypto 10 ''token'' = Some demo_claims" "dget demo_claims ''sub'' JNull = JStr (pr_id ?p)"
    "dget demo_claims ''ver'' JNull = JNum (of_int 0)" "user_by_id (pr_id ?p) [demo_user] = Some demo_user"
    by (simp_all add: demo_crypto_def demo_claims_def access_claims_def dget_Cons user_by_id_def demo_user_def)
  from logout_revokes_tokens [OF _ this(4) out rtranclp.rtrancl_refl this(1-3)] before
  show ?thesis by (simp add: demo_user_def)
qed



section \<open>Rules and documents\<close>

text \<open>
  C38. Every document is cut into passages: whatever its text or its blocks, the chunker ends without
  an exception, numbers the passages from zero and keeps each within 600 characters.
\<close>

theorem chunking_total_bounded:
  "\<exists>cs. generate_cv_chunks cv pages = Inr cs \<and> map k_global_id cs = [0..<length cs] \<and>
     list_all (\<lambda>c. length (k_text c) \<le> 600) cs"
  by (rule generate_total)

text \<open>
  C39. Months of employment are counted once: the months of a dated history are exactly the months that
  some range of it covers, however the ranges overlap, and none lies in the future.
\<close>

theorem months_counted_once:
  assumes "dated_history today h = Some x"
  shows "\<exists>intervals. rmap (range_interval today) (re_finditer range_pattern h) = Inr intervals \<and>
    dated_months x = int (card (\<Union>(s, e)\<in>set intervals. {s..<e})) \<and> experience_years x = of_int (dated_months x) / 12 \<and>
    (\<forall>(s, e)\<in>set intervals. s \<le> e \<and> e \<le> this_month today)"
proof -
  obtain intervals where iv: "rmap (range_interval today) (re_finditer range_pattern h) = Inr intervals"
    "dated_months x = int (card (covered intervals))" "\<forall>(s, e)\<in>set intervals. s \<le> e \<and> e \<le> this_month today"
    "x = Dated (dated_months x) (dated_intervals x) (dated_as_of x) (dated_excerpt x)"
    by (rule dated_historyD [OF assms])
  have "experience_years x = of_int (dated_months x) / 12" by (subst iv(4)) simp
  then show ?thesis using iv(1-3) by (auto simp: covered_def)
qed

theorem months_counted_once_witness:
  "\<exists>x. dated_history \<lparr>d_year = 2025, d_month = 1, d_iso = ''2025-01-01''\<rparr> ''01/2020 - 06/2020'' = Some x \<and>
     experience_years x = of_int (dated_months x) / 12"
proof -
  have "map_option (\<lambda>_. ()) (dated_history \<lparr>d_year = 2025, d_month = 1, d_iso = ''2025-01-01''\<rparr> ''01/2020 - 06/2020'') = Some ()"
    by code_simp
  then obtain x where "dated_history \<lparr>d_year = 2025, d_month = 1, d_iso = ''2025-01-01''\<rparr> ''01/2020 - 06/2020'' = Some x" by auto
  with months_counted_once [OF this] show ?thesis by blast
qed



section \<open>Further facts\<close>

text \<open>
  The context of an evaluation stays within its character budget, counting a text once however many
  categories cite it, and when it is marked complete it holds every retrieved chunk and every passage of the
  CV.
\<close>

theorem context_within_budget:
  assumes "prepare_evaluation_context H limit i u terms d = Inr p"
    and "dget d ''context_metadata'' JNull = JNull" "dget d ''candidate_cv_text'' JNull = JStr cv"
  shows "\<exists>e evidence n st. sanitized_payload d = Inr e \<and> evidence_lists_of p = Inr evidence \<and>
    unique_evidence_chars H evidence = Inr n \<and> int n \<le> limit \<and>
    dget p ''context_metadata'' JNull = JDict (context_metadata (xml_safe_text cv) st) \<and>
    (let document = context_document H i (xml_safe_text cv); ps = cv_passages H document u (xml_safe_text cv) in
     in_omitted st = [] \<and> distinct (map ps_chunk_id ps) \<longrightarrow>
       (\<exists>retrieved. evidence_lists_of e = Inr retrieved \<and> set (all_chunks retrieved) \<subseteq> set (all_chunks evidence) \<and>
          passage_json i document ` set ps \<subseteq> set (all_chunks evidence)))"
proof -
  let ?body = "xml_safe_text cv" let ?document = "context_document H i (xml_safe_text cv)"
  obtain e where e: "sanitized_payload d = Inr e" using assms(1)
    by (auto simp: prepare_evaluation_context_def rbind_Inr_conv split: if_splits)
  have "dget e ''context_metadata'' JNull = JNull" "dget e ''candidate_cv_text'' JNull = JStr ?body"
    using sanitized_payload_Inr [OF e] assms(2,3) by simp_all
  then obtain retrieved st where r: "evidence_lists_of e = Inr retrieved" "fill_context H limit u terms i ?body retrieved = Inr st"
    "p = dset ''context_metadata'' (JDict (context_metadata ?body st)) (dset ''evidence_by_category'' (evidence_json (in_evidence st)) e)"
    using assms(1) e by (auto simp: prepare_evaluation_context_def rbind_Inr_conv split: if_splits)
  obtain n where n: "unique_evidence_chars H (in_evidence st) = Inr n" "int n \<le> limit"
    using fill_context_budgeted [OF r(2)] by (auto simp: budgeted_def)
  have p: "evidence_lists_of p = Inr (in_evidence st)" using evidence_lists_json [of p] by (simp add: r(3))
  have "in_omitted st = [] \<and> distinct (map ps_chunk_id (cv_passages H ?document u ?body)) \<longrightarrow>
      (\<exists>retrieved. evidence_lists_of e = Inr retrieved \<and> set (all_chunks retrieved) \<subseteq> set (all_chunks (in_evidence st)) \<and>
        passage_json i ?document ` set (cv_passages H ?document u ?body) \<subseteq> set (all_chunks (in_evidence st)))"
    using fill_context_complete [OF r(2)] r(1) by blast
  then show ?thesis using e p n unfolding Let_def by (intro exI conjI) (auto simp: r(3))
qed

theorem context_within_budget_witness:
  "\<exists>p evidence n. prepare_evaluation_context sample_hash 3000 ''cv'' True [] [(''candidate_cv_text'', JStr ''Python'')] = Inr p \<and>
     evidence_lists_of p = Inr evidence \<and> unique_evidence_chars sample_hash evidence = Inr n \<and> n \<le> 3000"
proof -
  let ?d = "[(''candidate_cv_text'', JStr ''Python'')] :: pydict"
  have "sanitized_payload ?d = Inr ?d" "evidence_lists_of ?d = Inr []" "trim sample_hash 3000 [] [] = Inr ([], [])"
    "unique_evidence_chars sample_hash [] = Inr 0" "focused_texts [] = Inr []" "list_all xml_char ''Python''"
    "dget ?d ''candidate_id'' (JStr ''cv'') = JStr ''cv''" by code_simp+
  then obtain p where p: "prepare_evaluation_context sample_hash 3000 ''cv'' True [] ?d = Inr p"
    by (auto simp: prepare_evaluation_context_def fill_context_def dget_def Let_def)
  show ?thesis using context_within_budget [OF p, of "''Python''"] p by (auto simp: dget_def)
qed

text \<open>
  Stage 0 is published once and purges the document: after a successful publication the working
  copy of the PDF is gone, the status tells success from failure, all pairs of a failed document have
  failed, and every later publication is a no-op.
\<close>

theorem stage0_published_once:
  assumes "settings_ok cfg" "fresh_ids ext" "reachable cfg ext s"
    and "finish_stage0 now i owner k body pages err s = Inr (True, t)" "cv_by_candidate i k t = Some v"
  shows "v_encrypted_pdf v = None \<and> v_stage0_status v = (if nonempty err then S0_FAILED else S0_SUCCEEDED) \<and>
    (nonempty err \<longrightarrow> (\<forall>p\<in>set (pairs t). p_cv_id p = v_id v \<longrightarrow> p_status p = EXTRACTION_FAILED)) \<and>
    finish_stage0 later i owner k body' pages' err' t = Inr (False, t)"
proof -
  have okt: "tables_ok cfg ext t"
    using step_tables_ok [OF assms(1,2) step.finish_stage0 [OF assms(4)] reachable_tables_ok [OF assms(1-3)]] .
  obtain w where w: "cv_by_candidate i k s = Some w"
    and cs: "cvs t = update_where (\<lambda>x. v_id x = v_id w) (publish_cv now body pages err) (cvs s)"
    and camp: "campaigns t = campaigns s" and own: "\<exists>c. get_campaign i owner s = Inr c"
    by (rule finish_stage0_publishes [OF assms(4)]) blast
  have v: "v = publish_cv now body pages err w"
    using assms(5) w unfolding cv_by_candidate_def cs
    by (subst (asm) find_update_cv) (auto simp: publish_cv_def dest: find_Some_in)
  have closed: "v_stage0_status v \<in> {S0_SUCCEEDED, S0_FAILED}" by (simp add: v publish_cv_def)
  have "finish_stage0 later i owner k body' pages' err' t = Inr (False, t)"
    using own camp closed assms(5) by (auto simp: finish_stage0_def get_campaign_def campaign_by_id_def)
  moreover have "p_status p = EXTRACTION_FAILED" if "nonempty err" "p \<in> set (pairs t)" "p_cv_id p = v_id v" for p
    using rows_okD(2) [OF tables_okD(4) [OF okt] that(2) cv_by_candidate_D(1) [OF assms(5)]] that by (simp add: v publish_cv_def)
  ultimately show ?thesis by (simp add: v publish_cv_def)
qed

theorem stage0_published_once_witness:
  "finish_stage0 99 [] ''owner'' ''cv'' None None (Some ''LATE'') demo_extracted = Inr (False, demo_extracted)"
proof -
  let ?run = "finish_stage0 11 [] ''owner'' ''cv'' (Some ''body'') (Some []) None demo_claimed"
  have "map_sum (\<lambda>_. ()) fst ?run = Inr True" by code_simp
  then have run: "?run = Inr (True, demo_extracted)"
    unfolding demo_extracted_def table_of_def by (cases ?run) auto
  have "map_option v_id (cv_by_candidate [] ''cv'' demo_extracted) = Some ''uu''" by code_simp
  then obtain v where "cv_by_candidate [] ''cv'' demo_extracted = Some v" by auto
  then show ?thesis
    using stage0_published_once [OF settings_ok_default fresh_demo demo_reachable(4) run] by blast
qed

text \<open>
  A run that failed with its attempts used up never runs again: a repeated request is accepted and
  queued, but the attempts are not reset, so the worker refuses it with ATTEMPTS_EXHAUSTED and leaves
  it as it was for the next request.
\<close>

theorem exhausted_resubmission:
  assumes "run_by_key (Some key) db = Some r" "u_status r = R_FAILED" "RUN_MAX_ATTEMPTS cfg \<le> u_attempts r" "u_request_hash r = digest"
    and "u_owner r = owner \<or> admin" "ids_distinct db" "ra_broker_up api" "request \<noteq> []"
  shows "\<exists>q db1. queue_reserved api now request (reserve_run h race now run_id owner admin (Some key) digest job policy candidates db) =
      (Inr (run_link q), db1, [u_id r]) \<and> u_status q = R_QUEUED \<and>
    (\<exists>t. claim_run cfg later worker (u_id r) db1 = (Inl ''ATTEMPTS_EXHAUSTED'', put_run t db1) \<and> u_status t = R_FAILED \<and>
       u_id t = u_id r \<and> u_key t = u_key r \<and> u_request_hash t = digest \<and> u_owner t = u_owner r \<and> u_attempts t = u_attempts r)"
  by (rule resubmitted_run_exhausted [OF assms])

theorem exhausted_resubmission_witness:
  "\<exists>q db1. queue_reserved demo_api 10 [(''kind'', JStr ''text'')] (reserve_run (\<lambda>_. []) id 10 ''r2'' ''recruiter'' False (Some ''key'')
      ''hash'' demo_profile [] [] (demo_stored (demo_run R_FAILED 3 None))) = (Inr (run_link q), db1, [''r1'']) \<and>
    fst (claim_run default_settings 11 ''w1'' ''r1'' db1) = Inl ''ATTEMPTS_EXHAUSTED''"
proof -
  let ?r = "demo_run R_FAILED 3 None"
  have key: "run_by_key (Some ''key'') (demo_stored ?r) = Some ?r" by (simp add: run_by_key_def demo_stored_def demo_run_def nonempty_def)
  from exhausted_resubmission [OF key, of default_settings "''hash''" "''recruiter''" False demo_api "[(''kind'', JStr ''text'')]" 10
      "\<lambda>_. []" id "''r2''" demo_profile "[]" "[]" 11 "''w1''"]
  show ?thesis by (auto simp: demo_run_def demo_api_def default_settings_def ids_distinct_def demo_stored_def)
qed

text \<open>
  The rules a run applies are well formed, whatever the profile and the request say (the minimum is
  not negative, a required degree has a known level and clean, nonempty terms), and stored rules are read
  back unchanged: what a run writes into its job snapshot parses to the same three rules.
\<close>

theorem rules_round_trip:
  assumes "resolve_hard_filters profile explicit = Inr h"
  shows "0 \<le> min_years_experience h \<and> (degree_required h = None \<or> valid_degree (the (degree_required h))) \<and>
    parse_filters (dump_filters h) = Inr \<lparr>fs_years = Some (min_years_experience h),
      fs_degree = Some (degree_required h), fs_authorization = Some (require_work_authorization h)\<rparr>"
  using resolve_valid [OF assms] parse_filters_dump [OF resolve_valid [OF assms]]
  by (cases "degree_required h") (auto simp: valid_filters_def)

theorem rules_round_trip_witness:
  "\<exists>h. resolve_hard_filters demo_profile (JDict [(''degree_requirement'', JDict [(''level'', JStr ''bachelor'')])]) = Inr h \<and>
     degree_required h \<noteq> None \<and> parse_filters (dump_filters h) = Inr \<lparr>fs_years = Some (min_years_experience h),
       fs_degree = Some (degree_required h), fs_authorization = Some (require_work_authorization h)\<rparr>"
proof -
  let ?r = "resolve_hard_filters demo_profile (JDict [(''degree_requirement'', JDict [(''level'', JStr ''bachelor'')])])"
  have r: "map_sum (\<lambda>_. ()) (\<lambda>h. degree_required h = None) ?r = Inr False" by code_simp
  then obtain h where "?r = Inr h" "degree_required h \<noteq> None" by (cases ?r) auto
  with rules_round_trip [OF this(1)] show ?thesis by blast
qed

end
